(* ===== verification/Pact_Prelude.thy ===== *)
theory Pact_Prelude
  imports Main "HOL-Library.AList" "HOL-Library.Word" "HOL-Library.Sublist"
begin

text \<open>
  Shared vocabulary of the development: machine integers, points in time, the string
  operations of the Rust standard library that the sources call, and the two containers
  the program keeps its state in (\<open>HashMap\<close> and \<open>BTreeMap\<close>), with the contract
  both fulfil stated as the locale \<open>kv_store\<close>.

  Conventions. A \<open>String\<close> is a list of bytes, so a literal is compared byte by byte as in
  Rust. A \<open>DateTime<Utc>\<close> is an \<^typ>\<open>int\<close>, the nanoseconds since the epoch; the clock
  is always an explicit argument. A \<open>HashMap\<close> is an association list with distinct keys:
  its order is the (unspecified) iteration order, and no property below depends on it. A
  \<open>BTreeMap\<close> is an association list whose keys ascend strictly.
\<close>

named_theorems store_simps "rewrite rules of the containers"
named_theorems inv_intros "preservation lemmas of the components' invariants"

subsection \<open>Integers, time, results\<close>

type_synonym u8 = "8 word"
type_synonym u16 = "16 word"
type_synonym u32 = "32 word"
type_synonym u64 = "64 word"
type_synonym bytes = "u8 list"
type_synonym time = int

definition nanos_per_sec :: int where
  "nanos_per_sec = 1000000000"

definition seconds :: "int \<Rightarrow> time" where
  "seconds n = n * nanos_per_sec"

text \<open>\<open>Duration::num_seconds\<close>: whole seconds, rounded towards zero.\<close>

definition num_seconds :: "time \<Rightarrow> int" where
  "num_seconds d = (if 0 \<le> d then d div nanos_per_sec else - ((- d) div nanos_per_sec))"

lemma seconds_nonneg [simp]: "0 \<le> seconds n \<longleftrightarrow> 0 \<le> n"
  by (simp add: seconds_def nanos_per_sec_def zero_le_mult_iff)

lemma num_seconds_seconds [simp]: "num_seconds (seconds n) = n"
proof -
  have "- (n * nanos_per_sec) div nanos_per_sec = - n"
    using nonzero_mult_div_cancel_right [of nanos_per_sec "- n"]
    by (simp only: mult_minus_left) (simp add: nanos_per_sec_def)
  then show ?thesis
    by (simp add: num_seconds_def seconds_def) (simp add: nanos_per_sec_def)
qed

lemma num_seconds_mono: "a \<le> b \<Longrightarrow> num_seconds a \<le> num_seconds b"
proof -
  have "- ((- a) div nanos_per_sec) \<le> 0" if "\<not> 0 \<le> a"
    using that by (simp add: nanos_per_sec_def pos_imp_zdiv_nonneg_iff)
  moreover have "0 \<le> b div nanos_per_sec" if "0 \<le> b"
    using that by (simp add: nanos_per_sec_def)
  ultimately show "a \<le> b \<Longrightarrow> num_seconds a \<le> num_seconds b"
    by (auto simp: num_seconds_def nanos_per_sec_def zdiv_mono1)
qed

lemma num_seconds_gt: "num_seconds d > n \<Longrightarrow> 0 \<le> n \<Longrightarrow> d > seconds n"
  unfolding num_seconds_def seconds_def nanos_per_sec_def by (auto split: if_splits)

subsection \<open>Strings\<close>

text \<open>Byte strings for the characters outside ASCII that occur in messages.\<close>

definition em_dash :: string where
  "em_dash = [CHR 0xE2, CHR 0x80, CHR 0x94]"

definition squote :: string where
  "squote = [CHR 0x27]"

definition strip_prefix :: "string \<Rightarrow> string \<Rightarrow> string option" where
  "strip_prefix p s = (if prefix p s then Some (drop (length p) s) else None)"

definition strip_suffix :: "string \<Rightarrow> string \<Rightarrow> string option" where
  "strip_suffix p s = (if suffix p s then Some (take (length s - length p) s) else None)"

lemma strip_prefix_Some_iff: "strip_prefix p s = Some r \<longleftrightarrow> s = p @ r"
  by (auto simp: strip_prefix_def prefix_def)

lemma strip_prefix_append [simp]: "strip_prefix p (p @ r) = Some r"
  by (simp add: strip_prefix_Some_iff)

lemma strip_prefix_None_iff: "strip_prefix p s = None \<longleftrightarrow> \<not> prefix p s"
  by (simp add: strip_prefix_def)

lemma strip_suffix_Some_iff: "strip_suffix p s = Some r \<longleftrightarrow> s = r @ p"
  by (auto simp: strip_suffix_def suffix_def)

lemma strip_suffix_None_iff: "strip_suffix p s = None \<longleftrightarrow> \<not> suffix p s"
  by (simp add: strip_suffix_def)

text \<open>\<open>to_lowercase\<close>, on the ASCII range the identifiers of the program use.\<close>

definition char_lower :: "char \<Rightarrow> char" where
  "char_lower c = (let n = (of_char c :: nat) in
     if 65 \<le> n \<and> n \<le> 90 then char_of (n + 32) else c)"

definition to_lowercase :: "string \<Rightarrow> string" where
  "to_lowercase = map char_lower"

lemma char_lower_idem: "char_lower (char_lower c) = char_lower c"
  by (auto simp: char_lower_def Let_def)

lemma to_lowercase_idem [simp]: "to_lowercase (to_lowercase s) = to_lowercase s"
  by (simp add: to_lowercase_def char_lower_idem)

lemma length_to_lowercase [simp]: "length (to_lowercase s) = length s"
  by (simp add: to_lowercase_def)

text \<open>\<open>str::split(c)\<close>: always at least one piece; \<open>join\<close> undoes it.\<close>

fun split_on :: "char \<Rightarrow> string \<Rightarrow> string list" where
  "split_on c [] = [[]]"
| "split_on c (x # xs) =
     (if x = c then [] # split_on c xs
      else (case split_on c xs of [] \<Rightarrow> [[x]] | p # ps \<Rightarrow> (x # p) # ps))"

fun join_with :: "string \<Rightarrow> string list \<Rightarrow> string" where
  "join_with sep [] = []"
| "join_with sep [p] = p"
| "join_with sep (p # q # ps) = p @ sep @ join_with sep (q # ps)"

lemma split_on_nonempty [simp]: "split_on c s \<noteq> []"
  by (induction s) (auto split: list.splits)

lemma join_split_on: "join_with [c] (split_on c s) = s"
proof (induction s)
  case Nil
  then show ?case by simp
next
  case (Cons x xs)
  obtain p ps where ps: "split_on c xs = p # ps"
    by (cases "split_on c xs") auto
  with Cons show ?case
    by (cases ps) auto
qed

lemma split_on_notin: "p \<in> set (split_on c s) \<Longrightarrow> c \<notin> set p"
  by (induction s arbitrary: p) (auto split: if_splits list.splits)

lemma split_on_no_sep: "c \<notin> set s \<Longrightarrow> split_on c s = [s]"
  by (induction s) auto

lemma split_on_append_sep:
  "c \<notin> set p \<Longrightarrow> split_on c (p @ c # s) = p # split_on c s"
  by (induction p) auto

lemma split_on_join:
  "ps \<noteq> [] \<Longrightarrow> (\<And>p. p \<in> set ps \<Longrightarrow> c \<notin> set p) \<Longrightarrow> split_on c (join_with [c] ps) = ps"
proof (induction ps rule: induct_list012)
  case (3 p q ps)
  then show ?case
    by (simp add: split_on_append_sep)
qed (auto simp: split_on_no_sep)

text \<open>Decimal rendering of unsigned integers (the \<open>Display\<close> instance).\<close>

fun show_nat :: "nat \<Rightarrow> string" where
  "show_nat n = (if n < 10 then [char_of (48 + n)]
     else show_nat (n div 10) @ [char_of (48 + n mod 10)])"

declare show_nat.simps [simp del]

lemma show_nat_nonempty [simp]: "show_nat n \<noteq> []"
  by (subst show_nat.simps) simp

subsection \<open>HashMap\<close>

type_synonym ('k, 'v) hashmap = "('k \<times> 'v) list"

definition hm_get :: "('k, 'v) hashmap \<Rightarrow> 'k \<Rightarrow> 'v option" where
  "hm_get m k = map_of m k"

definition hm_insert :: "'k \<Rightarrow> 'v \<Rightarrow> ('k, 'v) hashmap \<Rightarrow> ('k, 'v) hashmap" where
  "hm_insert k v m = AList.update k v m"

definition hm_remove :: "'k \<Rightarrow> ('k, 'v) hashmap \<Rightarrow> ('k, 'v) hashmap" where
  "hm_remove k m = AList.delete k m"

definition hm_contains :: "('k, 'v) hashmap \<Rightarrow> 'k \<Rightarrow> bool" where
  "hm_contains m k = (hm_get m k \<noteq> None)"

definition hm_values :: "('k, 'v) hashmap \<Rightarrow> 'v list" where
  "hm_values m = map snd m"

definition hm_retain :: "('k \<Rightarrow> 'v \<Rightarrow> bool) \<Rightarrow> ('k, 'v) hashmap \<Rightarrow> ('k, 'v) hashmap" where
  "hm_retain p m = filter (\<lambda>(k, v). p k v) m"

definition hm_map :: "('k \<Rightarrow> 'v \<Rightarrow> 'v) \<Rightarrow> ('k, 'v) hashmap \<Rightarrow> ('k, 'v) hashmap" where
  "hm_map f m = map (\<lambda>(k, v). (k, f k v)) m"

definition hm_inv :: "('k, 'v) hashmap \<Rightarrow> bool" where
  "hm_inv m = distinct (map fst m)"

lemma hm_get_Nil [simp]: "hm_get [] k = None"
  by (simp add: hm_get_def)

lemma hm_get_insert [simp, store_simps]:
  "hm_get (hm_insert k v m) k' = (if k' = k then Some v else hm_get m k')"
  by (simp add: hm_get_def hm_insert_def update_conv')

lemma hm_get_remove [simp, store_simps]:
  "hm_get (hm_remove k m) k' = (if k' = k then None else hm_get m k')"
  by (simp add: hm_get_def hm_remove_def delete_conv')

lemma hm_inv_Nil [simp]: "hm_inv []"
  by (simp add: hm_inv_def)

lemma hm_inv_insert [simp, inv_intros]: "hm_inv m \<Longrightarrow> hm_inv (hm_insert k v m)"
  by (simp add: hm_inv_def hm_insert_def distinct_update)

lemma hm_inv_remove [simp, inv_intros]: "hm_inv m \<Longrightarrow> hm_inv (hm_remove k m)"
  by (simp add: hm_inv_def hm_remove_def distinct_delete)

lemma hm_inv_retain [simp, inv_intros]: "hm_inv m \<Longrightarrow> hm_inv (hm_retain p m)"
  by (induction m) (auto simp: hm_inv_def hm_retain_def)

lemma hm_keys_map [simp]: "map fst (hm_map f m) = map fst m"
  by (simp add: hm_map_def case_prod_unfold)

lemma hm_inv_map [simp, inv_intros]: "hm_inv (hm_map f m) = hm_inv m"
  by (simp add: hm_inv_def)

lemma hm_get_map [store_simps]: "hm_get (hm_map f m) k = map_option (f k) (hm_get m k)"
  by (induction m) (auto simp: hm_get_def hm_map_def)

lemma hm_get_in_set: "hm_inv m \<Longrightarrow> hm_get m k = Some v \<longleftrightarrow> (k, v) \<in> set m"
  by (simp add: hm_inv_def hm_get_def map_of_eq_Some_iff)

lemma hm_get_retain [store_simps]:
  "hm_inv m \<Longrightarrow> hm_get (hm_retain p m) k =
    (case hm_get m k of None \<Rightarrow> None | Some v \<Rightarrow> if p k v then Some v else None)"
proof (induction m)
  case (Cons x m)
  have "map_of (filter (\<lambda>(k, v). p k v) m) (fst x) = None"
    using Cons.prems by (auto simp: hm_inv_def map_of_eq_None_iff)
  with Cons show ?case
    by (cases x) (auto simp: hm_inv_def hm_get_def hm_retain_def)
qed (simp add: hm_get_def hm_retain_def)

lemma hm_values_iff: "hm_inv m \<Longrightarrow> v \<in> set (hm_values m) \<longleftrightarrow> (\<exists>k. hm_get m k = Some v)"
  by (force simp: hm_values_def hm_get_in_set)

lemma hm_get_Some_value: "hm_get m k = Some v \<Longrightarrow> v \<in> set (hm_values m)"
  by (auto simp: hm_get_def hm_values_def dest!: map_of_SomeD intro: rev_image_eqI)

subsection \<open>BTreeMap\<close>

type_synonym ('k, 'v) btreemap = "('k \<times> 'v) list"

fun bt_insert :: "'k::linorder \<Rightarrow> 'v \<Rightarrow> ('k, 'v) btreemap \<Rightarrow> ('k, 'v) btreemap" where
  "bt_insert k v [] = [(k, v)]"
| "bt_insert k v ((k', v') # m) =
     (if k < k' then (k, v) # (k', v') # m
      else if k = k' then (k, v) # m
      else (k', v') # bt_insert k v m)"

definition bt_get :: "('k, 'v) btreemap \<Rightarrow> 'k \<Rightarrow> 'v option" where
  "bt_get m k = map_of m k"

definition bt_inv :: "('k::linorder, 'v) btreemap \<Rightarrow> bool" where
  "bt_inv m = sorted_wrt (<) (map fst m)"

lemma bt_get_Nil [simp]: "bt_get [] k = None"
  by (simp add: bt_get_def)

lemma bt_get_insert [simp, store_simps]:
  "bt_get (bt_insert k v m) k' = (if k' = k then Some v else bt_get m k')"
  by (induction k v m rule: bt_insert.induct) (auto simp: bt_get_def)

lemma bt_inv_Nil [simp]: "bt_inv []"
  by (simp add: bt_inv_def)

lemma fst_set_bt_insert [simp]: "fst ` set (bt_insert k v m) = insert k (fst ` set m)"
  by (induction k v m rule: bt_insert.induct) auto

lemma bt_inv_Cons: "bt_inv (x # m) \<longleftrightarrow> (\<forall>k \<in> fst ` set m. fst x < k) \<and> bt_inv m"
  by (auto simp: bt_inv_def)

lemma bt_inv_insert [simp, inv_intros]: "bt_inv m \<Longrightarrow> bt_inv (bt_insert k v m)"
proof (induction k v m rule: bt_insert.induct)
  case (2 k v k' v' m)
  then show ?case
    by (simp add: bt_inv_Cons del: ball_simps) (auto simp del: ball_simps intro: less_trans)
qed (simp add: bt_inv_Cons)

lemma bt_get_in_set: "bt_inv m \<Longrightarrow> bt_get m k = Some v \<longleftrightarrow> (k, v) \<in> set m"
  unfolding bt_inv_def bt_get_def
  by (simp add: map_of_eq_Some_iff strict_sorted_iff)

text \<open>Inserting a key above every key present appends at the end.\<close>

lemma bt_insert_last:
  "(\<And>k'. k' \<in> fst ` set m \<Longrightarrow> k' < k) \<Longrightarrow> bt_insert k v m = m @ [(k, v)]"
  by (induction k v m rule: bt_insert.induct) (auto simp: less_not_sym)

subsection \<open>The contract of a key-value store\<close>

text \<open>
  What the components rely on when they keep their state in a map: a write is seen by the
  next read of the same key and by no other, and the iteration shows exactly the pairs that
  reads return.
\<close>

locale kv_store =
  fixes get :: "'m \<Rightarrow> 'k \<Rightarrow> 'v option"
    and put :: "'k \<Rightarrow> 'v \<Rightarrow> 'm \<Rightarrow> 'm"
    and items :: "'m \<Rightarrow> ('k \<times> 'v) list"
    and invar :: "'m \<Rightarrow> bool"
  assumes get_put: "invar m \<Longrightarrow> get (put k v m) k' = (if k' = k then Some v else get m k')"
    and invar_put: "invar m \<Longrightarrow> invar (put k v m)"
    and get_items: "invar m \<Longrightarrow> get m k = Some v \<longleftrightarrow> (k, v) \<in> set (items m)"
begin

definition holds_all :: "('k \<Rightarrow> 'v \<Rightarrow> bool) \<Rightarrow> 'm \<Rightarrow> bool" where
  "holds_all P m = list_all (\<lambda>(k, v). P k v) (items m)"

lemma holds_all_iff: "invar m \<Longrightarrow> holds_all P m \<longleftrightarrow> (\<forall>k v. get m k = Some v \<longrightarrow> P k v)"
  by (auto simp: holds_all_def list_all_iff get_items)

lemma holds_all_put: "invar m \<Longrightarrow> holds_all P m \<Longrightarrow> P k v \<Longrightarrow> holds_all P (put k v m)"
  by (auto simp: holds_all_iff invar_put get_put)

lemma put_put_commute_get:
  "invar m \<Longrightarrow> a \<noteq> b \<Longrightarrow> get (put a x (put b y m)) = get (put b y (put a x m))"
  by (auto simp: get_put invar_put fun_eq_iff)

end

interpretation hm: kv_store hm_get hm_insert "\<lambda>m. m" hm_inv
  by unfold_locales (auto simp: hm_get_in_set)

interpretation bt: kv_store bt_get bt_insert "\<lambda>m. m" bt_inv
  by unfold_locales (auto simp: bt_get_in_set)

subsection \<open>Runs of a state machine\<close>

text \<open>
  A component is a step function on its state; a run is the fold of a list of inputs. What
  every accepted step preserves, every run preserves.
\<close>

locale state_machine =
  fixes step :: "'i \<Rightarrow> 's \<Rightarrow> 's"
begin

definition run :: "'i list \<Rightarrow> 's \<Rightarrow> 's" where
  "run is s = fold step is s"

lemma run_Nil [simp]: "run [] s = s"
  by (simp add: run_def)

lemma run_Cons [simp]: "run (i # is) s = run is (step i s)"
  by (simp add: run_def)

lemma run_append: "run (is @ js) s = run js (run is s)"
  by (simp add: run_def)

lemma run_invariant:
  assumes "\<And>i s. Q i \<Longrightarrow> P s \<Longrightarrow> P (step i s)"
  shows "P s \<Longrightarrow> (\<And>i. i \<in> set is \<Longrightarrow> Q i) \<Longrightarrow> P (run is s)"
  by (induction "is" arbitrary: s) (auto intro: assms)

lemma run_related:
  assumes "\<And>i s t. R s t \<Longrightarrow> R (step i s) (step (f i) t)"
  shows "R s t \<Longrightarrow> R (run is s) (run (map f is) t)"
  by (induction "is" arbitrary: s t) (auto intro: assms)

end

end
