(* ===== verification/Pact_Types.thy ===== *)
theory Pact_Types
  imports Pact_Prelude
begin

text \<open>
  The domain types of \<open>crates/pact-common/src/types.rs\<close>: structs as records (field names
  carry a short prefix, since one record's selectors are constants of the whole
  development), enums as datatypes with the source's variants. An \<open>f64\<close> that is only
  stored and copied is kept as its IEEE bit pattern.
\<close>

type_synonym NodeId = string
type_synonym VClusterId = string
type_synonym DomainId = string
type_synonym EntrySeq = u64
type_synonym f64_bits = u64

subsection \<open>Configuration entries\<close>

datatype ConfigState = ObserveOnly | Committed | Drifted | Converging | Emergency

datatype EntryType =
    Commit | Rollback | AutoConverge | DriftDetected | CapabilityChange | PolicyUpdate
  | BootConfig | EmergencyStart | EmergencyEnd | ExecLog | ShellSession | ServiceLifecycle
  | PendingApproval | NodeEnrolled | NodeActivated | NodeDeactivated | NodeDecommissioned
  | NodeAssigned | NodeUnassigned | CertSigned | CertRevoked

datatype Scope = Global | VCluster VClusterId | Node NodeId

datatype PrincipalType = Human | Agent | Service

record Identity =
  id_principal :: string
  id_principal_type :: PrincipalType
  id_role :: string

datatype DeltaAction = Add | Remove | Modify

record DeltaItem =
  di_action :: DeltaAction
  di_key :: string
  di_value :: "string option"
  di_previous :: "string option"

record StateDelta =
  sd_mounts :: "DeltaItem list"
  sd_files :: "DeltaItem list"
  sd_network :: "DeltaItem list"
  sd_services :: "DeltaItem list"
  sd_kernel :: "DeltaItem list"
  sd_packages :: "DeltaItem list"
  sd_gpu :: "DeltaItem list"

record ConfigEntry =
  ce_sequence :: EntrySeq
  ce_timestamp :: time
  ce_entry_type :: EntryType
  ce_scope :: Scope
  ce_author :: Identity
  ce_parent :: "EntrySeq option"
  ce_state_delta :: "StateDelta option"
  ce_policy_ref :: "string option"
  ce_ttl_seconds :: "u32 option"
  ce_emergency_reason :: "string option"

subsection \<open>Policies and overlays\<close>

record RoleBinding =
  rb_role :: string
  rb_principals :: "string list"
  rb_allowed_actions :: "string list"

record VClusterPolicy =
  vp_vcluster_id :: VClusterId
  vp_policy_id :: string
  vp_updated_at :: "time option"
  vp_drift_sensitivity :: f64_bits
  vp_base_commit_window_seconds :: u32
  vp_emergency_window_seconds :: u32
  vp_auto_converge_categories :: "string list"
  vp_require_ack_categories :: "string list"
  vp_enforcement_mode :: string
  vp_role_bindings :: "RoleBinding list"
  vp_regulated :: bool
  vp_two_person_approval :: bool
  vp_emergency_allowed :: bool
  vp_audit_retention_days :: u32
  vp_ai_exec_allowed :: bool
  vp_federation_template :: "string option"
  vp_supervisor_backend :: string
  vp_exec_whitelist :: "string list"
  vp_shell_whitelist :: "string list"

definition default_policy :: VClusterPolicy where
  "default_policy = \<lparr>
     vp_vcluster_id = [],
     vp_policy_id = [],
     vp_updated_at = None,
     vp_drift_sensitivity = 0x4000000000000000,
     vp_base_commit_window_seconds = 900,
     vp_emergency_window_seconds = 14400,
     vp_auto_converge_categories = [],
     vp_require_ack_categories = [],
     vp_enforcement_mode = ''observe'',
     vp_role_bindings = [],
     vp_regulated = False,
     vp_two_person_approval = False,
     vp_emergency_allowed = True,
     vp_audit_retention_days = 2555,
     vp_ai_exec_allowed = False,
     vp_federation_template = None,
     vp_supervisor_backend = ''pact'',
     vp_exec_whitelist = [],
     vp_shell_whitelist = []\<rparr>"

record BootOverlay =
  bo_vcluster_id :: VClusterId
  bo_version :: u64
  bo_data :: bytes
  bo_checksum :: string

text \<open>
  \<open>compute_overlay_checksum\<close> runs the standard library's \<open>DefaultHasher\<close>, whose
  algorithm is left open by its documentation: it is the argument \<open>checksum\<close> here and
  everywhere else.
\<close>

definition new_overlay :: "(bytes \<Rightarrow> string) \<Rightarrow> VClusterId \<Rightarrow> u64 \<Rightarrow> bytes \<Rightarrow> BootOverlay" where
  "new_overlay checksum vc version data =
     \<lparr>bo_vcluster_id = vc, bo_version = version, bo_data = data, bo_checksum = checksum data\<rparr>"

subsection \<open>Audit log, approvals, enrollment\<close>

datatype AdminOperationType =
    Exec | ShellSessionStart | ShellSessionEnd | ServiceStart | ServiceStop | ServiceRestart
  | OpEmergencyStart | OpEmergencyEnd | ApprovalDecision | NodeEnroll | NodeDecommission
  | NodeAssign | NodeUnassign | NodeMove | CertRenew | CertRevoke

record AdminOperation =
  op_operation_id :: string
  op_timestamp :: time
  op_actor :: Identity
  op_operation_type :: AdminOperationType
  op_scope :: Scope
  op_detail :: string

datatype ApprovalStatus = Pending | Approved | Rejected | Expired

record Approval =
  pa_approval_id :: string
  pa_original_request :: string
  pa_action :: string
  pa_scope :: Scope
  pa_requester :: Identity
  pa_approver :: "Identity option"
  pa_status :: ApprovalStatus
  pa_created_at :: time
  pa_expires_at :: time

datatype EnrollmentState = Registered | Active | Inactive | Revoked

record HardwareIdentity =
  hw_mac_address :: string
  hw_bmc_serial :: "string option"
  hw_extra :: "(string, string) hashmap"

record NodeEnrollment =
  ne_node_id :: NodeId
  ne_domain_id :: DomainId
  ne_state :: EnrollmentState
  ne_hardware_identity :: HardwareIdentity
  ne_vcluster_id :: "VClusterId option"
  ne_cert_serial :: "string option"
  ne_cert_expires_at :: "time option"
  ne_last_seen :: "time option"
  ne_enrolled_at :: time
  ne_enrolled_by :: Identity
  ne_active_sessions :: u32

subsection \<open>Debug rendering\<close>

text \<open>The strings of the derived \<open>Debug\<close> instances that reach messages and responses.\<close>

primrec debug_ApprovalStatus :: "ApprovalStatus \<Rightarrow> string" where
  "debug_ApprovalStatus Pending = ''Pending''"
| "debug_ApprovalStatus Approved = ''Approved''"
| "debug_ApprovalStatus Rejected = ''Rejected''"
| "debug_ApprovalStatus Expired = ''Expired''"

primrec debug_EnrollmentState :: "EnrollmentState \<Rightarrow> string" where
  "debug_EnrollmentState Registered = ''Registered''"
| "debug_EnrollmentState Active = ''Active''"
| "debug_EnrollmentState Inactive = ''Inactive''"
| "debug_EnrollmentState Revoked = ''Revoked''"

primrec debug_ConfigState :: "ConfigState \<Rightarrow> string" where
  "debug_ConfigState ObserveOnly = ''ObserveOnly''"
| "debug_ConfigState Committed = ''Committed''"
| "debug_ConfigState Drifted = ''Drifted''"
| "debug_ConfigState Converging = ''Converging''"
| "debug_ConfigState Emergency = ''Emergency''"

primrec debug_PrincipalType :: "PrincipalType \<Rightarrow> string" where
  "debug_PrincipalType Human = ''Human''"
| "debug_PrincipalType Agent = ''Agent''"
| "debug_PrincipalType Service = ''Service''"

end
