(* ===== verification/Journal_State.thy ===== *)
theory Journal_State
  imports Pact_Types
begin

text \<open>
  The Raft state machine of the journal: \<open>crates/pact-journal/src/raft/state.rs\<close> and the
  command and response enums of \<open>raft/types.rs\<close>. One definition per command, dispatched
  by \<open>apply_command\<close> as the source's \<open>match\<close> does.
\<close>

subsection \<open>State, commands, responses\<close>

record JournalState =
  js_entries :: "(EntrySeq, ConfigEntry) btreemap"
  js_next_sequence :: EntrySeq
  js_node_states :: "(NodeId, ConfigState) hashmap"
  js_policies :: "(VClusterId, VClusterPolicy) hashmap"
  js_overlays :: "(VClusterId, BootOverlay) hashmap"
  js_audit_log :: "AdminOperation list"
  js_node_assignments :: "(NodeId, VClusterId) hashmap"
  js_pending_approvals :: "(string, Approval) hashmap"
  js_enrollments :: "(NodeId, NodeEnrollment) hashmap"
  js_hw_index :: "(string, NodeId) hashmap"
  js_revoked_serials :: "string set"

definition default_state :: JournalState where
  "default_state = \<lparr>js_entries = [], js_next_sequence = 0, js_node_states = [],
     js_policies = [], js_overlays = [], js_audit_log = [], js_node_assignments = [],
     js_pending_approvals = [], js_enrollments = [], js_hw_index = [],
     js_revoked_serials = {}\<rparr>"

datatype JournalCommand =
    AppendEntry ConfigEntry
  | UpdateNodeState NodeId ConfigState
  | SetPolicy VClusterId VClusterPolicy
  | SetOverlay VClusterId BootOverlay
  | RecordOperation AdminOperation
  | AssignNode NodeId VClusterId
  | CreateApproval Approval
  | DecideApproval string Identity ApprovalStatus
  | RegisterNode NodeEnrollment
  | ActivateNode NodeId string string
  | DeactivateNode NodeId
  | RevokeNode NodeId
  | AssignNodeToVCluster NodeId VClusterId
  | UnassignNode NodeId
  | MoveNodeVCluster NodeId VClusterId VClusterId
  | UpdateNodeLastSeen NodeId string
  | UpdateNodeCert NodeId string string

datatype JournalResponse =
    RespOk
  | EntryAppended EntrySeq
  | ValidationError string
  | EnrollmentResult NodeId EnrollmentState "VClusterId option"

text \<open>
  Code outside the repository that the handlers call: the overlay checksum (see
  \<open>Pact_Types\<close>) and chrono's RFC 3339 parser.
\<close>

record Ext =
  ext_checksum :: "bytes \<Rightarrow> string"
  ext_parse_rfc3339 :: "string \<Rightarrow> time option"

subsection \<open>The commands\<close>

text \<open>
  The lower-casing is that of the ASCII letters. Addresses and serial numbers are ASCII; for
  letters beyond, which \<open>str::to_lowercase\<close> changes too, the key here keeps them as they are.
\<close>

definition hw_canonical_key :: "HardwareIdentity \<Rightarrow> string" where
  "hw_canonical_key hw = (case hw_bmc_serial hw of
     Some serial \<Rightarrow>
       if serial \<noteq> [] then
         ''mac:'' @ to_lowercase (hw_mac_address hw) @ '':bmc:'' @ to_lowercase serial
       else ''mac:'' @ to_lowercase (hw_mac_address hw)
   | None \<Rightarrow> ''mac:'' @ to_lowercase (hw_mac_address hw))"

definition TTL_MIN_SECONDS :: u32 where "TTL_MIN_SECONDS = 900"
definition TTL_MAX_SECONDS :: u32 where "TTL_MAX_SECONDS = 864000"
definition OVERLAY_MAX_BYTES :: nat where "OVERLAY_MAX_BYTES = 10 * 1024 * 1024"
definition AUDIT_LOG_MAX :: nat where "AUDIT_LOG_MAX = 100000"

definition parent_ok :: "EntrySeq \<Rightarrow> EntrySeq option \<Rightarrow> bool" where
  "parent_ok next p = (case p of None \<Rightarrow> True | Some q \<Rightarrow> \<not> q \<ge> next)"

definition ttl_too_short :: "u32 option \<Rightarrow> bool" where
  "ttl_too_short t = (case t of None \<Rightarrow> False | Some ttl \<Rightarrow> ttl > 0 \<and> ttl < TTL_MIN_SECONDS)"

definition ttl_too_long :: "u32 option \<Rightarrow> bool" where
  "ttl_too_long t = (case t of None \<Rightarrow> False | Some ttl \<Rightarrow> ttl > TTL_MAX_SECONDS)"

definition append_entry :: "ConfigEntry \<Rightarrow> JournalState \<Rightarrow> JournalState \<times> JournalResponse" where
  "append_entry entry s =
     (if id_principal (ce_author entry) = [] then
        (s, ValidationError ''author principal required'')
      else if id_role (ce_author entry) = [] then
        (s, ValidationError ''author role required'')
      else if \<not> parent_ok (js_next_sequence s) (ce_parent entry) then
        (s, ValidationError ''parent must precede entry'')
      else if ttl_too_short (ce_ttl_seconds entry) then
        (s, ValidationError ''TTL must be >= 900 seconds (15 minutes)'')
      else if ttl_too_long (ce_ttl_seconds entry) then
        (s, ValidationError ''TTL must be <= 864000 seconds (10 days)'')
      else
        let seq = js_next_sequence s in
        (s\<lparr>js_next_sequence := seq + 1,
           js_entries := bt_insert seq (entry\<lparr>ce_sequence := seq\<rparr>) (js_entries s)\<rparr>,
         EntryAppended seq))"

definition update_node_state :: "NodeId \<Rightarrow> ConfigState \<Rightarrow> JournalState \<Rightarrow> JournalState \<times> JournalResponse" where
  "update_node_state n st s =
     (s\<lparr>js_node_states := hm_insert n st (js_node_states s)\<rparr>, RespOk)"

definition set_policy :: "VClusterId \<Rightarrow> VClusterPolicy \<Rightarrow> JournalState \<Rightarrow> JournalState \<times> JournalResponse" where
  "set_policy vc p s = (s\<lparr>js_policies := hm_insert vc p (js_policies s)\<rparr>, RespOk)"

definition set_overlay ::
  "(bytes \<Rightarrow> string) \<Rightarrow> VClusterId \<Rightarrow> BootOverlay \<Rightarrow> JournalState \<Rightarrow> JournalState \<times> JournalResponse" where
  "set_overlay checksum vc overlay s =
     (if length (bo_data overlay) > OVERLAY_MAX_BYTES then
        (s, ValidationError (''overlay data too large: '' @ show_nat (length (bo_data overlay)) @
              '' bytes (max '' @ show_nat OVERLAY_MAX_BYTES @ '')''))
      else
        let computed = checksum (bo_data overlay) in
        if bo_checksum overlay \<noteq> computed then
          (s, ValidationError (''overlay checksum mismatch: expected '' @ bo_checksum overlay @
                '', got '' @ computed))
        else (s\<lparr>js_overlays := hm_insert vc overlay (js_overlays s)\<rparr>, RespOk))"

definition record_operation :: "AdminOperation \<Rightarrow> JournalState \<Rightarrow> JournalState \<times> JournalResponse" where
  "record_operation op s =
     (let log = js_audit_log s @ [op];
          log' = (if length log > AUDIT_LOG_MAX then drop (length log - AUDIT_LOG_MAX) log else log)
      in (s\<lparr>js_audit_log := log'\<rparr>, RespOk))"

definition assign_node :: "NodeId \<Rightarrow> VClusterId \<Rightarrow> JournalState \<Rightarrow> JournalState \<times> JournalResponse" where
  "assign_node n vc s =
     (s\<lparr>js_node_assignments := hm_insert n vc (js_node_assignments s)\<rparr>, RespOk)"

definition create_approval :: "Approval \<Rightarrow> JournalState \<Rightarrow> JournalState \<times> JournalResponse" where
  "create_approval a s =
     (s\<lparr>js_pending_approvals := hm_insert (pa_approval_id a) a (js_pending_approvals s)\<rparr>, RespOk)"

definition decide_approval ::
  "string \<Rightarrow> Identity \<Rightarrow> ApprovalStatus \<Rightarrow> JournalState \<Rightarrow> JournalState \<times> JournalResponse" where
  "decide_approval aid approver decision s =
     (case hm_get (js_pending_approvals s) aid of
        Some a \<Rightarrow>
          if pa_status a \<noteq> Pending then
            (s, ValidationError (''approval '' @ aid @ '' already '' @
                  debug_ApprovalStatus (pa_status a)))
          else if id_principal (pa_requester a) = id_principal approver then
            (s, ValidationError ''SELF_APPROVAL: cannot approve your own request (P4)'')
          else
            (s\<lparr>js_pending_approvals := hm_insert aid
                  (a\<lparr>pa_status := decision, pa_approver := Some approver\<rparr>)
                  (js_pending_approvals s)\<rparr>, RespOk)
      | None \<Rightarrow> (s, ValidationError (''approval '' @ aid @ '' not found'')))"

definition register_node :: "NodeEnrollment \<Rightarrow> JournalState \<Rightarrow> JournalState \<times> JournalResponse" where
  "register_node e s =
     (if hm_contains (js_enrollments s) (ne_node_id e) then
        (s, ValidationError (''NODE_ALREADY_ENROLLED: '' @ ne_node_id e))
      else
        let hw_key = hw_canonical_key (ne_hardware_identity e) in
        case hm_get (js_hw_index s) hw_key of
          Some existing \<Rightarrow>
            (s, ValidationError
                  (''HARDWARE_IDENTITY_CONFLICT: hardware already registered to '' @ existing))
        | None \<Rightarrow>
            (s\<lparr>js_hw_index := hm_insert hw_key (ne_node_id e) (js_hw_index s),
               js_enrollments := hm_insert (ne_node_id e) e (js_enrollments s)\<rparr>,
             EnrollmentResult (ne_node_id e) Registered None))"

text \<open>
  The remaining handlers all start with \<open>match self.enrollments.get_mut(&node_id)\<close>: the
  error when there is no record, the rest of the handler on the record otherwise. Writing
  the record back in place is an insert under the same key.
\<close>

definition with_enrollment ::
  "NodeId \<Rightarrow> (NodeEnrollment \<Rightarrow> JournalState \<times> JournalResponse) \<Rightarrow> JournalState \<Rightarrow>
   JournalState \<times> JournalResponse" where
  "with_enrollment n f s = (case hm_get (js_enrollments s) n of
     Some e \<Rightarrow> f e
   | None \<Rightarrow> (s, ValidationError (''NODE_NOT_ENROLLED: '' @ n)))"

definition put_enrollment :: "NodeId \<Rightarrow> NodeEnrollment \<Rightarrow> JournalState \<Rightarrow> JournalState" where
  "put_enrollment n e s = s\<lparr>js_enrollments := hm_insert n e (js_enrollments s)\<rparr>"

definition activate_node ::
  "(string \<Rightarrow> time option) \<Rightarrow> time \<Rightarrow> NodeId \<Rightarrow> string \<Rightarrow> string \<Rightarrow> JournalState \<Rightarrow>
   JournalState \<times> JournalResponse" where
  "activate_node parse now n serial expires s = with_enrollment n (\<lambda>e.
     if ne_state e = Revoked then (s, ValidationError (''NODE_REVOKED: '' @ n))
     else if ne_state e = Active then (s, ValidationError (''ALREADY_ACTIVE: '' @ n))
     else
       (put_enrollment n (e\<lparr>ne_state := Active, ne_cert_serial := Some serial,
          ne_cert_expires_at := parse expires, ne_last_seen := Some now\<rparr>) s,
        EnrollmentResult n Active (ne_vcluster_id e))) s"

definition deactivate_node :: "NodeId \<Rightarrow> JournalState \<Rightarrow> JournalState \<times> JournalResponse" where
  "deactivate_node n s = with_enrollment n (\<lambda>e.
     (put_enrollment n (e\<lparr>ne_state := Inactive\<rparr>) s, RespOk)) s"

definition revoke_node :: "NodeId \<Rightarrow> JournalState \<Rightarrow> JournalState \<times> JournalResponse" where
  "revoke_node n s = with_enrollment n (\<lambda>e.
     (put_enrollment n (e\<lparr>ne_state := Revoked\<rparr>) s, RespOk)) s"

definition assign_node_to_vcluster :: "NodeId \<Rightarrow> VClusterId \<Rightarrow> JournalState \<Rightarrow> JournalState \<times> JournalResponse" where
  "assign_node_to_vcluster n vc s = with_enrollment n (\<lambda>e.
     ((put_enrollment n (e\<lparr>ne_vcluster_id := Some vc\<rparr>) s)
        \<lparr>js_node_assignments := hm_insert n vc (js_node_assignments s)\<rparr>, RespOk)) s"

definition unassign_node :: "NodeId \<Rightarrow> JournalState \<Rightarrow> JournalState \<times> JournalResponse" where
  "unassign_node n s = with_enrollment n (\<lambda>e.
     ((put_enrollment n (e\<lparr>ne_vcluster_id := None\<rparr>) s)
        \<lparr>js_node_assignments := hm_remove n (js_node_assignments s)\<rparr>, RespOk)) s"

definition move_node_vcluster ::
  "NodeId \<Rightarrow> VClusterId \<Rightarrow> VClusterId \<Rightarrow> JournalState \<Rightarrow> JournalState \<times> JournalResponse" where
  "move_node_vcluster n from_vc to_vc s = with_enrollment n (\<lambda>e.
     ((put_enrollment n (e\<lparr>ne_vcluster_id := Some to_vc\<rparr>) s)
        \<lparr>js_node_assignments := hm_insert n to_vc (js_node_assignments s)\<rparr>, RespOk)) s"

definition update_node_last_seen ::
  "(string \<Rightarrow> time option) \<Rightarrow> NodeId \<Rightarrow> string \<Rightarrow> JournalState \<Rightarrow> JournalState \<times> JournalResponse" where
  "update_node_last_seen parse n ts s = with_enrollment n (\<lambda>e.
     (put_enrollment n (e\<lparr>ne_last_seen := parse ts\<rparr>) s, RespOk)) s"

definition update_node_cert ::
  "(string \<Rightarrow> time option) \<Rightarrow> time \<Rightarrow> NodeId \<Rightarrow> string \<Rightarrow> string \<Rightarrow> JournalState \<Rightarrow>
   JournalState \<times> JournalResponse" where
  "update_node_cert parse now n serial expires s = with_enrollment n (\<lambda>e.
     (put_enrollment n (e\<lparr>ne_cert_serial := Some serial,
        ne_cert_expires_at := parse expires, ne_last_seen := Some now\<rparr>) s, RespOk)) s"

fun apply_command :: "Ext \<Rightarrow> time \<Rightarrow> JournalCommand \<Rightarrow> JournalState \<Rightarrow> JournalState \<times> JournalResponse" where
  "apply_command x now (AppendEntry e) s = append_entry e s"
| "apply_command x now (UpdateNodeState n st) s = update_node_state n st s"
| "apply_command x now (SetPolicy vc p) s = set_policy vc p s"
| "apply_command x now (SetOverlay vc ov) s = set_overlay (ext_checksum x) vc ov s"
| "apply_command x now (RecordOperation op) s = record_operation op s"
| "apply_command x now (AssignNode n vc) s = assign_node n vc s"
| "apply_command x now (CreateApproval a) s = create_approval a s"
| "apply_command x now (DecideApproval aid who d) s = decide_approval aid who d s"
| "apply_command x now (RegisterNode e) s = register_node e s"
| "apply_command x now (ActivateNode n ser ex) s =
     activate_node (ext_parse_rfc3339 x) now n ser ex s"
| "apply_command x now (DeactivateNode n) s = deactivate_node n s"
| "apply_command x now (RevokeNode n) s = revoke_node n s"
| "apply_command x now (AssignNodeToVCluster n vc) s = assign_node_to_vcluster n vc s"
| "apply_command x now (UnassignNode n) s = unassign_node n s"
| "apply_command x now (MoveNodeVCluster n f t) s = move_node_vcluster n f t s"
| "apply_command x now (UpdateNodeLastSeen n ts) s =
     update_node_last_seen (ext_parse_rfc3339 x) n ts s"
| "apply_command x now (UpdateNodeCert n ser ex) s =
     update_node_cert (ext_parse_rfc3339 x) now n ser ex s"

end
