(* ===== verification/Journal_Invariants.thy ===== *)
theory Journal_Invariants
  imports Journal_State
begin

text \<open>
  Invariants of the journal state machine over arbitrary runs of commands: the entry log is
  an append-only sequence with authenticated authors, preceding parents and bounded TTLs;
  the hardware index and the enrollment records agree; overlays carry their checksum; the
  audit log is the tail of the recorded operations; decided approvals stay decided and are
  never decided by their requester; replicas agree on everything but the last-seen times.
\<close>

subsection \<open>Runs and reachable states\<close>

type_synonym log_item = "time \<times> JournalCommand"

definition apply_item :: "Ext \<Rightarrow> log_item \<Rightarrow> JournalState \<Rightarrow> JournalState" where
  "apply_item x i s = fst (apply_command x (fst i) (snd i) s)"

definition run_commands :: "Ext \<Rightarrow> log_item list \<Rightarrow> JournalState \<Rightarrow> JournalState" where
  "run_commands x is s = fold (apply_item x) is s"

inductive journal_reachable :: "Ext \<Rightarrow> JournalState \<Rightarrow> bool" for x where
  start: "journal_reachable x default_state"
| step: "journal_reachable x s \<Longrightarrow> journal_reachable x (fst (apply_command x now c s))"

definition entry_ok :: "EntrySeq \<Rightarrow> ConfigEntry \<Rightarrow> bool" where
  "entry_ok k e \<longleftrightarrow> ce_sequence e = k \<and> id_principal (ce_author e) \<noteq> [] \<and>
     id_role (ce_author e) \<noteq> [] \<and>
     (case ce_parent e of None \<Rightarrow> True | Some p \<Rightarrow> p < k) \<and>
     (case ce_ttl_seconds e of None \<Rightarrow> True
      | Some t \<Rightarrow> t = 0 \<or> TTL_MIN_SECONDS \<le> t \<and> t \<le> TTL_MAX_SECONDS)"

definition seqs_upto :: "EntrySeq \<Rightarrow> EntrySeq list" where
  "seqs_upto n = map word_of_nat [0..<unat n]"

definition entries_inv :: "JournalState \<Rightarrow> bool" where
  "entries_inv s \<longleftrightarrow> map fst (js_entries s) = seqs_upto (js_next_sequence s) \<and>
     (\<forall>(k, e) \<in> set (js_entries s). entry_ok k e)"

definition enroll_inv :: "JournalState \<Rightarrow> bool" where
  "enroll_inv s \<longleftrightarrow> hm_inv (js_enrollments s) \<and> hm_inv (js_hw_index s) \<and>
     (\<forall>n e. hm_get (js_enrollments s) n = Some e \<longrightarrow>
        ne_node_id e = n \<and>
        hm_get (js_hw_index s) (hw_canonical_key (ne_hardware_identity e)) = Some n) \<and>
     (\<forall>k n. hm_get (js_hw_index s) k = Some n \<longrightarrow>
        (\<exists>e. hm_get (js_enrollments s) n = Some e \<and>
             hw_canonical_key (ne_hardware_identity e) = k))"

definition overlay_ok :: "Ext \<Rightarrow> BootOverlay \<Rightarrow> bool" where
  "overlay_ok x ov \<longleftrightarrow> length (bo_data ov) \<le> OVERLAY_MAX_BYTES \<and>
     bo_checksum ov = ext_checksum x (bo_data ov)"

definition overlays_inv :: "Ext \<Rightarrow> JournalState \<Rightarrow> bool" where
  "overlays_inv x s \<longleftrightarrow> (\<forall>vc ov. hm_get (js_overlays s) vc = Some ov \<longrightarrow> overlay_ok x ov)"

fun recorded_ops :: "log_item list \<Rightarrow> AdminOperation list" where
  "recorded_ops [] = []"
| "recorded_ops ((t, RecordOperation op) # is) = op # recorded_ops is"
| "recorded_ops (_ # is) = recorded_ops is"

definition last_n :: "nat \<Rightarrow> 'a list \<Rightarrow> 'a list" where
  "last_n n xs = drop (length xs - n) xs"

definition approval_ok :: "Approval \<Rightarrow> bool" where
  "approval_ok a \<longleftrightarrow>
     (case pa_approver a of None \<Rightarrow> pa_status a = Pending
      | Some w \<Rightarrow> id_principal w \<noteq> id_principal (pa_requester a))"

definition approvals_inv :: "JournalState \<Rightarrow> bool" where
  "approvals_inv s \<longleftrightarrow>
     (\<forall>i a. hm_get (js_pending_approvals s) i = Some a \<longrightarrow> approval_ok a)"

text \<open>The requests that the policy service creates: pending, with no approver.\<close>

fun creates_fresh :: "JournalCommand \<Rightarrow> bool" where
  "creates_fresh (CreateApproval a) = (pa_status a = Pending \<and> pa_approver a = None)"
| "creates_fresh _ = True"

definition erase_seen :: "NodeEnrollment \<Rightarrow> NodeEnrollment" where
  "erase_seen e = e\<lparr>ne_last_seen := None\<rparr>"

definition erase_last_seen :: "JournalState \<Rightarrow> JournalState" where
  "erase_last_seen s = s\<lparr>js_enrollments := hm_map (\<lambda>_. erase_seen) (js_enrollments s)\<rparr>"

definition assignments_inv :: "JournalState \<Rightarrow> bool" where
  "assignments_inv s \<longleftrightarrow>
     (\<forall>n e. hm_get (js_enrollments s) n = Some e \<longrightarrow>
        hm_get (js_node_assignments s) n = ne_vcluster_id e) \<and>
     (\<forall>n vc. hm_get (js_node_assignments s) n = Some vc \<longrightarrow>
        hm_get (js_enrollments s) n \<noteq> None)"

text \<open>The commands of the enrollment service: no legacy assignment, registration unassigned.\<close>

fun enrollment_style :: "JournalCommand \<Rightarrow> bool" where
  "enrollment_style (AssignNode _ _) = False"
| "enrollment_style (RegisterNode e) = (ne_vcluster_id e = None)"
| "enrollment_style _ = True"

text \<open>What every enrollment command but registration does to the enrollment records: at most
  one existing record is rewritten, keeping its node id and hardware identity.\<close>

definition enrollment_update :: "JournalState \<Rightarrow> JournalState \<Rightarrow> bool" where
  "enrollment_update s t \<longleftrightarrow> js_enrollments t = js_enrollments s \<or>
     (\<exists>n e e'. hm_get (js_enrollments s) n = Some e \<and> ne_node_id e' = ne_node_id e \<and>
        ne_hardware_identity e' = ne_hardware_identity e \<and>
        js_enrollments t = hm_insert n e' (js_enrollments s))"

text \<open>A result up to the last-seen times.\<close>

definition erase_pair :: "JournalState \<times> JournalResponse \<Rightarrow> JournalState \<times> JournalResponse" where
  "erase_pair p = (erase_last_seen (fst p), snd p)"

definition parent_edges :: "JournalState \<Rightarrow> (EntrySeq \<times> EntrySeq) set" where
  "parent_edges s = {(p, q). \<exists>e. bt_get (js_entries s) q = Some e \<and> ce_parent e = Some p}"

subsection \<open>Shared lemmas\<close>

lemmas command_defs =
  append_entry_def update_node_state_def set_policy_def set_overlay_def record_operation_def
  assign_node_def create_approval_def decide_approval_def register_node_def with_enrollment_def
  put_enrollment_def activate_node_def deactivate_node_def revoke_node_def
  assign_node_to_vcluster_def unassign_node_def move_node_vcluster_def
  update_node_last_seen_def update_node_cert_def Let_def

interpretation journal: state_machine "apply_item x" for x .

lemma run_commands_eq: "run_commands x is s = journal.run x is s"
  by (simp add: run_commands_def journal.run_def)

lemma run_commands_Nil [simp]: "run_commands x [] s = s"
  by (simp add: run_commands_eq)

lemma run_commands_Cons [simp]:
  "run_commands x (i # is) s = run_commands x is (apply_item x i s)"
  by (simp add: run_commands_eq)

lemma run_commands_append: "run_commands x (is @ js) s = run_commands x js (run_commands x is s)"
  by (simp add: run_commands_eq journal.run_append)

lemma run_commands_reachable:
  "journal_reachable x s \<Longrightarrow> journal_reachable x (run_commands x is s)"
  unfolding run_commands_eq
  by (rule journal.run_invariant [where Q = "\<lambda>_. True"])
    (auto simp: apply_item_def intro: journal_reachable.step)

lemma reachable_invariant:
  assumes "journal_reachable x s" and "P default_state"
    and "\<And>now c s. P s \<Longrightarrow> P (fst (apply_command x now c s))"
  shows "P s"
  using assms(1) by induction (auto intro: assms(2,3))

text \<open>Fields that only one command writes.\<close>

lemma entries_frame:
  "(\<And>e. c \<noteq> AppendEntry e) \<Longrightarrow>
   js_entries (fst (apply_command x now c s)) = js_entries s \<and>
   js_next_sequence (fst (apply_command x now c s)) = js_next_sequence s"
  by (cases c) (auto simp: command_defs split: option.splits)

lemma overlays_frame:
  "(\<And>vc ov. c \<noteq> SetOverlay vc ov) \<Longrightarrow>
   js_overlays (fst (apply_command x now c s)) = js_overlays s"
  by (cases c) (auto simp: command_defs split: option.splits)

lemma audit_frame:
  "(\<And>op. c \<noteq> RecordOperation op) \<Longrightarrow>
   js_audit_log (fst (apply_command x now c s)) = js_audit_log s"
  by (cases c) (auto simp: command_defs split: option.splits)

lemma approvals_frame:
  "(\<And>a. c \<noteq> CreateApproval a) \<Longrightarrow> (\<And>i w d. c \<noteq> DecideApproval i w d) \<Longrightarrow>
   js_pending_approvals (fst (apply_command x now c s)) = js_pending_approvals s"
  by (cases c) (auto simp: command_defs split: option.splits)

lemma hw_index_frame:
  "(\<And>e. c \<noteq> RegisterNode e) \<Longrightarrow>
   js_hw_index (fst (apply_command x now c s)) = js_hw_index s"
  by (cases c) (auto simp: command_defs split: option.splits)

subsection \<open>The entry log\<close>

lemma seqs_upto_Suc:
  assumes "n \<noteq> -1"
  shows "seqs_upto (n + 1) = seqs_upto n @ [n]"
proof -
  from assms have "unat (n + 1) = Suc (unat n)"
    by (metis Suc_eq_plus1 add.commute add_eq_0_iff unatSuc)
  then show ?thesis by (simp add: seqs_upto_def)
qed

lemma in_seqs_upto: "k \<in> set (seqs_upto n) \<longleftrightarrow> k < n"
proof
  assume "k \<in> set (seqs_upto n)"
  then obtain i where i: "i < unat n" "k = word_of_nat i"
    by (auto simp: seqs_upto_def)
  then have "unat k \<le> i" by (simp add: unat_of_nat)
  with i show "k < n" by (simp add: word_less_nat_alt)
next
  assume "k < n"
  then have "unat k \<in> {0..<unat n}" by (simp add: word_less_nat_alt)
  then show "k \<in> set (seqs_upto n)"
    by (auto simp: seqs_upto_def image_iff intro!: bexI [of _ "unat k"])
qed

lemma entries_inv_key: "entries_inv s \<Longrightarrow> (k, e) \<in> set (js_entries s) \<Longrightarrow> k < js_next_sequence s"
  unfolding entries_inv_def using in_seqs_upto by (metis fst_conv image_eqI set_map)

lemma seqs_upto_sorted: "sorted_wrt (<) (seqs_upto n)"
proof -
  have "(word_of_nat i :: u64) < word_of_nat j" if "i < j" "j < unat n" for i j
    using that unsigned_less [of n, where ?'a = nat] by (simp add: word_less_nat_alt unat_of_nat)
  then show ?thesis
    by (auto simp: seqs_upto_def sorted_wrt_map sorted_wrt_iff_nth_less)
qed

lemma entries_inv_bt: "entries_inv s \<Longrightarrow> bt_inv (js_entries s)"
  by (simp add: entries_inv_def bt_inv_def seqs_upto_sorted)

lemma append_entry_ok:
  assumes "append_entry e s = (s', EntryAppended q)"
  shows "q = js_next_sequence s \<and> entry_ok q (e\<lparr>ce_sequence := q\<rparr>) \<and>
    s' = s\<lparr>js_next_sequence := q + 1,
           js_entries := bt_insert q (e\<lparr>ce_sequence := q\<rparr>) (js_entries s)\<rparr>"
  using assms
  by (auto simp: append_entry_def Let_def entry_ok_def parent_ok_def ttl_too_short_def
      ttl_too_long_def word_neq_0_conv not_less split: if_splits option.splits)

lemma append_entry_cases:
  obtains (ok) s' where "append_entry e s = (s', EntryAppended (js_next_sequence s))"
  | (err) r where "append_entry e s = (s, ValidationError r)"
proof -
  have "(\<exists>s'. append_entry e s = (s', EntryAppended (js_next_sequence s))) \<or>
    (\<exists>r. append_entry e s = (s, ValidationError r))"
    by (simp add: append_entry_def Let_def)
  then show thesis using ok err by blast
qed

lemma append_entry_entries:
  assumes inv: "entries_inv s" and "append_entry e s = (s', EntryAppended q)"
  shows "js_entries s' = js_entries s @ [(q, e\<lparr>ce_sequence := q\<rparr>)]"
proof -
  have "bt_insert q (e\<lparr>ce_sequence := q\<rparr>) (js_entries s) = js_entries s @ [(q, e\<lparr>ce_sequence := q\<rparr>)]"
    using entries_inv_key [OF inv] append_entry_ok [OF assms(2)]
    by (intro bt_insert_last) auto
  with append_entry_ok [OF assms(2)] show ?thesis by simp
qed

lemma entries_step:
  assumes inv: "entries_inv s" and room: "js_next_sequence s \<noteq> -1"
  shows "entries_inv (fst (apply_command x now c s)) \<and>
    prefix (js_entries s) (js_entries (fst (apply_command x now c s))) \<and>
    unat (js_next_sequence (fst (apply_command x now c s))) \<le> Suc (unat (js_next_sequence s))"
proof (cases "\<exists>e. c = AppendEntry e")
  case True
  then obtain e where c: "c = AppendEntry e" by blast
  show ?thesis
  proof (cases rule: append_entry_cases [of e s])
    case (ok s')
    note facts = append_entry_ok [OF ok] append_entry_entries [OF inv ok]
    have "unat (js_next_sequence s + 1) \<le> Suc (unat (js_next_sequence s))"
      by (simp add: unat_word_ariths)
    with inv ok facts c show ?thesis
      by (auto simp: entries_inv_def seqs_upto_Suc [OF room])
  qed (use inv c in simp)
next
  case False
  with inv entries_frame [of c x now s] show ?thesis
    by (auto simp: entries_inv_def)
qed

lemma entries_run:
  assumes "entries_inv s" and "unat (js_next_sequence s) + length is < 2 ^ 64"
  shows "entries_inv (run_commands x is s) \<and>
    prefix (js_entries s) (js_entries (run_commands x is s)) \<and>
    unat (js_next_sequence (run_commands x is s)) \<le> unat (js_next_sequence s) + length is"
  using assms
proof (induction "is" arbitrary: s)
  case (Cons i "is")
  have room: "js_next_sequence s \<noteq> -1"
    using Cons.prems(2) by (auto simp: unsigned_minus_1_eq_mask mask_eq_exp_minus_1)
  note step = entries_step [OF Cons.prems(1) room, of x "fst i" "snd i", folded apply_item_def]
  have "unat (js_next_sequence (apply_item x i s)) + length is < 2 ^ 64"
    using step Cons.prems(2) by simp
  with step Cons.IH [of "apply_item x i s"] show ?case
    by (fastforce intro: prefix_order.trans)
qed simp

lemma entries_inv_default: "entries_inv default_state"
  by (simp add: entries_inv_def default_state_def seqs_upto_def)

subsection \<open>Enrollments and overlays\<close>

lemma enrollment_update_same:
  "js_enrollments t = js_enrollments s \<Longrightarrow> enrollment_update s t"
  by (simp add: enrollment_update_def)

lemma enrollment_updateI:
  "hm_get (js_enrollments s) n = Some e \<Longrightarrow>
   js_enrollments t = hm_insert n e' (js_enrollments s) \<Longrightarrow> ne_node_id e' = ne_node_id e \<Longrightarrow>
   ne_hardware_identity e' = ne_hardware_identity e \<Longrightarrow> enrollment_update s t"
  unfolding enrollment_update_def by blast

lemma enrollment_update_command:
  assumes "\<And>e. c \<noteq> RegisterNode e"
  shows "enrollment_update s (fst (apply_command x now c s))"
proof (cases c)
  case (RegisterNode e)
  with assms show ?thesis by blast
qed (simp_all add: command_defs enrollment_update_same enrollment_updateI split: option.split)

lemma enroll_inv_update:
  assumes "enroll_inv s" "enrollment_update s t" "js_hw_index t = js_hw_index s"
  shows "enroll_inv t"
proof -
  from assms(2) consider "js_enrollments t = js_enrollments s"
    | n e e' where "hm_get (js_enrollments s) n = Some e" "ne_node_id e' = ne_node_id e"
        "ne_hardware_identity e' = ne_hardware_identity e"
        "js_enrollments t = hm_insert n e' (js_enrollments s)"
    unfolding enrollment_update_def by blast
  then show ?thesis
    by cases (use assms(1,3) in \<open>auto simp: enroll_inv_def; force\<close>)+
qed

lemma enroll_inv_register:
  assumes "enroll_inv s"
  shows "enroll_inv (fst (register_node e s))"
proof (cases "hm_get (js_enrollments s) (ne_node_id e)")
  case None
  then show ?thesis
  proof (cases "hm_get (js_hw_index s) (hw_canonical_key (ne_hardware_identity e))")
    case None
    with \<open>hm_get (js_enrollments s) (ne_node_id e) = None\<close> assms show ?thesis
      by (auto simp: enroll_inv_def register_node_def hm_contains_def; force)
  qed (use assms None in \<open>simp add: register_node_def hm_contains_def\<close>)
qed (use assms in \<open>simp add: register_node_def hm_contains_def\<close>)

lemma enroll_step:
  assumes "enroll_inv s"
  shows "enroll_inv (fst (apply_command x now c s))"
proof (cases "\<exists>e. c = RegisterNode e")
  case True
  with enroll_inv_register [OF assms] show ?thesis by auto
next
  case False
  then show ?thesis
    using enroll_inv_update [OF assms enrollment_update_command hw_index_frame] by blast
qed

lemma enroll_inv_default: "enroll_inv default_state"
  by (simp add: enroll_inv_def default_state_def)

lemma reachable_enroll_inv: "journal_reachable x s \<Longrightarrow> enroll_inv s"
  by (erule reachable_invariant) (simp_all add: enroll_inv_default enroll_step)

lemma overlays_step:
  assumes "overlays_inv x s"
  shows "overlays_inv x (fst (apply_command x now c s))"
proof (cases "\<exists>vc ov. c = SetOverlay vc ov")
  case True
  with assms show ?thesis
    by (auto simp: overlays_inv_def set_overlay_def Let_def overlay_ok_def split: if_splits)
next
  case False
  with assms overlays_frame [of c x now s] show ?thesis
    by (simp add: overlays_inv_def)
qed

lemma overlays_inv_default: "overlays_inv x default_state"
  by (simp add: overlays_inv_def default_state_def)

lemma reachable_overlays_inv: "journal_reachable x s \<Longrightarrow> overlays_inv x s"
  by (erule reachable_invariant) (simp_all add: overlays_inv_default overlays_step)

subsection \<open>The audit log\<close>

lemma last_n_snoc:
  "last_n n (xs @ [y]) =
     (let zs = last_n n xs @ [y] in if length zs > n then drop (length zs - n) zs else zs)"
  by (cases "length xs < n") (auto simp: last_n_def Let_def Suc_diff_le)

lemma recorded_ops_skip:
  assumes "\<And>op. snd i \<noteq> RecordOperation op"
  shows "recorded_ops (i # is) = recorded_ops is"
proof (cases i)
  case (Pair t c)
  then show ?thesis using assms by (cases c) auto
qed

lemma audit_run:
  assumes "js_audit_log s = last_n AUDIT_LOG_MAX ops"
  shows "js_audit_log (run_commands x is s) = last_n AUDIT_LOG_MAX (ops @ recorded_ops is)"
  using assms
proof (induction "is" arbitrary: s ops)
  case (Cons i "is")
  show ?case
  proof (cases "\<exists>op. snd i = RecordOperation op")
    case True
    then obtain t op where i: "i = (t, RecordOperation op)" by (metis prod.collapse)
    have "js_audit_log (apply_item x i s) = last_n AUDIT_LOG_MAX (ops @ [op])"
      by (simp add: i apply_item_def record_operation_def last_n_snoc Cons.prems Let_def)
    from Cons.IH [OF this] show ?thesis by (simp add: i)
  next
    case False
    then have "js_audit_log (apply_item x i s) = last_n AUDIT_LOG_MAX ops"
      using audit_frame [of "snd i"] Cons.prems by (simp add: apply_item_def)
    with Cons.IH [of "apply_item x i s" ops] False show ?thesis
      by (simp add: recorded_ops_skip)
  qed
qed simp

subsection \<open>Approvals\<close>

lemma approvals_step:
  assumes "approvals_inv s" "creates_fresh c"
  shows "approvals_inv (fst (apply_command x now c s))"
proof (cases c)
  case (CreateApproval a)
  with assms show ?thesis
    by (auto simp: approvals_inv_def create_approval_def approval_ok_def)
next
  case (DecideApproval i w d)
  with assms show ?thesis
    by (auto simp: approvals_inv_def decide_approval_def approval_ok_def split: option.splits if_splits)
qed (use assms approvals_frame [of c x now s] in \<open>simp_all add: approvals_inv_def\<close>)

lemma approvals_run:
  assumes "\<And>i. i \<in> set is \<Longrightarrow> creates_fresh (snd i)"
  shows "approvals_inv (run_commands x is default_state)"
  unfolding run_commands_eq
proof (rule journal.run_invariant [where Q = "\<lambda>i. creates_fresh (snd i)"])
  show "approvals_inv default_state"
    by (simp add: approvals_inv_def default_state_def)
qed (auto simp: apply_item_def approvals_step assms)

lemma decided_step:
  assumes "hm_get (js_pending_approvals s) i = Some a" "pa_status a \<noteq> Pending"
    and "\<And>b. c = CreateApproval b \<Longrightarrow> pa_approval_id b \<noteq> i"
  shows "hm_get (js_pending_approvals (fst (apply_command x now c s))) i = Some a"
proof (cases c)
  case (DecideApproval j w d)
  with assms show ?thesis by (auto simp: decide_approval_def split: option.splits)
qed (use assms approvals_frame [of c x now s] in \<open>auto simp: create_approval_def\<close>)

lemma decided_run:
  assumes "hm_get (js_pending_approvals s) i = Some a" "pa_status a \<noteq> Pending"
    and "\<And>t b. (t, CreateApproval b) \<in> set is \<Longrightarrow> pa_approval_id b \<noteq> i"
  shows "hm_get (js_pending_approvals (run_commands x is s)) i = Some a"
  unfolding run_commands_eq
proof (rule journal.run_invariant
    [where Q = "\<lambda>j. \<forall>b. snd j = CreateApproval b \<longrightarrow> pa_approval_id b \<noteq> i"])
  show "hm_get (js_pending_approvals (apply_item x j s)) i = Some a"
    if "\<forall>b. snd j = CreateApproval b \<longrightarrow> pa_approval_id b \<noteq> i"
      "hm_get (js_pending_approvals s) i = Some a" for j s
    using decided_step [OF that(2) assms(2), of "snd j"] that(1) by (auto simp: apply_item_def)
  show "\<forall>b. snd j = CreateApproval b \<longrightarrow> pa_approval_id b \<noteq> i" if "j \<in> set is" for j
    using assms(3) that by (metis prod.collapse)
qed (rule assms(1))

subsection \<open>Replicas\<close>

lemma hm_map_insert: "hm_map f (hm_insert k v m) = hm_insert k (f k v) (hm_map f m)"
  by (induction m) (auto simp: hm_map_def hm_insert_def)

lemma hm_contains_map [simp]: "hm_contains (hm_map f m) k = hm_contains m k"
  by (simp add: hm_contains_def hm_get_map)

lemma hm_map_erase_seen [simp]:
  "hm_map (\<lambda>_. erase_seen) (hm_map (\<lambda>_. erase_seen) m) = hm_map (\<lambda>_. erase_seen) m"
  by (auto simp: hm_map_def erase_seen_def)

lemma erase_apply:
  "erase_pair (apply_command x now c s) = erase_pair (apply_command x now' c (erase_last_seen s))"
proof (cases c)
  case (RegisterNode e)
  then show ?thesis
    by (simp add: erase_pair_def erase_last_seen_def register_node_def hm_map_insert Let_def split: option.split)
qed (simp_all add: erase_pair_def erase_last_seen_def command_defs hm_get_map hm_map_insert erase_seen_def
    split: option.split)

lemma rejected_same:
  "snd (apply_command x now c s) = ValidationError m \<Longrightarrow> fst (apply_command x now c s) = s"
  by (cases c) (auto simp: command_defs split: if_splits option.splits)

lemma erase_last_seen_idem [simp]: "erase_last_seen (erase_last_seen s) = erase_last_seen s"
  by (simp add: erase_last_seen_def)

lemma erase_apply2:
  assumes "erase_last_seen s = erase_last_seen t"
  shows "erase_pair (apply_command x now c s) = erase_pair (apply_command x now' c t)"
  using erase_apply [of x now c s 0] erase_apply [of x now' c t 0] assms by simp

lemma replicas_run:
  assumes "map snd is = map snd js" "erase_last_seen s = erase_last_seen t"
  shows "erase_last_seen (run_commands x is s) = erase_last_seen (run_commands x js t)"
proof -
  from assms(1) have "list_all2 (=) (map snd is) (map snd js)"
    by (simp add: list.rel_eq)
  then have "list_all2 (\<lambda>i j. snd i = snd j) is js"
    unfolding list.rel_map .
  then show ?thesis
    using assms(2)
  proof (induction arbitrary: s t)
    case (Cons i "is" j js)
    from erase_apply2 [OF Cons.prems, of x "fst i" "snd i" "fst j"] Cons.hyps
    have "erase_last_seen (apply_item x i s) = erase_last_seen (apply_item x j t)"
      by (simp add: erase_pair_def apply_item_def)
    with Cons.IH show ?case by simp
  qed simp
qed

subsection \<open>Revocation and assignment\<close>

lemma revoked_step:
  assumes "hm_get (js_enrollments s) n = Some e" "ne_state e = Revoked" "c \<noteq> DeactivateNode n"
  shows "\<exists>e'. hm_get (js_enrollments (fst (apply_command x now c s))) n = Some e' \<and> ne_state e' = Revoked"
  using assms
  by (cases c) (simp_all add: command_defs hm_contains_def split: option.split, auto)

lemma assignments_step:
  assumes "assignments_inv s" "enrollment_style c"
  shows "assignments_inv (fst (apply_command x now c s))"
proof (cases c)
  case (AssignNode n vc)
  with assms show ?thesis by simp
next
  case (RegisterNode e)
  with assms show ?thesis
    by (auto simp: assignments_inv_def register_node_def Let_def hm_contains_def split: option.splits)
qed (use assms in \<open>auto simp: assignments_inv_def command_defs hm_get_remove split: option.splits\<close>)

lemma revoked_run:
  assumes "hm_get (js_enrollments s) n = Some e" "ne_state e = Revoked"
    and "\<And>i. i \<in> set is \<Longrightarrow> snd i \<noteq> DeactivateNode n"
  shows "\<exists>e'. hm_get (js_enrollments (run_commands x is s)) n = Some e' \<and> ne_state e' = Revoked"
  unfolding run_commands_eq
proof (rule journal.run_invariant [where Q = "\<lambda>i. snd i \<noteq> DeactivateNode n"])
  show "\<exists>e'. hm_get (js_enrollments (apply_item x i s)) n = Some e' \<and> ne_state e' = Revoked"
    if "snd i \<noteq> DeactivateNode n"
      "\<exists>e'. hm_get (js_enrollments s) n = Some e' \<and> ne_state e' = Revoked" for i s
    using that revoked_step unfolding apply_item_def by blast
qed (use assms in blast)+

lemma assignments_run:
  assumes "\<And>i. i \<in> set is \<Longrightarrow> enrollment_style (snd i)"
  shows "assignments_inv (run_commands x is default_state)"
  unfolding run_commands_eq
proof (rule journal.run_invariant [where Q = "\<lambda>i. enrollment_style (snd i)"])
  show "assignments_inv default_state"
    by (simp add: assignments_inv_def default_state_def)
qed (auto simp: apply_item_def assignments_step assms)

subsection \<open>Parent chains\<close>

lemma entries_inv_get:
  assumes "entries_inv s" "k < js_next_sequence s"
  obtains e where "bt_get (js_entries s) k = Some e" "entry_ok k e"
proof -
  from assms have "k \<in> fst ` set (js_entries s)"
    by (metis entries_inv_def image_set in_seqs_upto)
  then obtain e where "(k, e) \<in> set (js_entries s)" by force
  moreover have "bt_get (js_entries s) k = Some e"
    using calculation entries_inv_bt [OF assms(1)] by (simp add: bt_get_in_set)
  ultimately show thesis
    using assms(1) that by (auto simp: entries_inv_def)
qed

lemma parent_edges_less:
  assumes "entries_inv s"
  shows "parent_edges s \<subseteq> {(p, q). p < q \<and> q < js_next_sequence s}"
  using assms entries_inv_key [OF assms]
  by (fastforce simp: parent_edges_def entries_inv_def entry_ok_def bt_get_in_set [OF entries_inv_bt [OF assms]]
      split: option.splits)

lemma wf_parent_edges:
  assumes "entries_inv s"
  shows "wf (parent_edges s)"
proof (rule wf_subset [OF wf_measure [of unat]])
  show "parent_edges s \<subseteq> measure unat"
    using parent_edges_less [OF assms] by (auto simp: word_less_nat_alt)
qed

end
