(* ===== verification/Journal_Queries.thy ===== *)
theory Journal_Queries
  imports Journal_State
begin

text \<open>
  The read-only queries of \<open>crates/pact-journal/src/raft/state.rs\<close>: conflict detection for
  a reconnecting node and the homogeneity check of a vCluster. Entries are visited in the
  order of the source's iterators; the hash map of node assignments is visited in the order
  of its association list, and the theorems only speak of the set of results.
\<close>

record ConflictEntry =
  cf_key :: string
  cf_local_value :: string
  cf_journal_value :: string

record HomogeneityWarning =
  hwarn_node_id :: NodeId
  hwarn_delta_keys :: "string list"

definition unwrap_or_default :: "string option \<Rightarrow> string" where
  "unwrap_or_default v = (case v of Some s \<Rightarrow> s | None \<Rightarrow> [])"

definition kernel_items :: "ConfigEntry \<Rightarrow> DeltaItem list" where
  "kernel_items e = (case ce_state_delta e of Some d \<Rightarrow> sd_kernel d | None \<Rightarrow> [])"

definition item_conflicts :: "DeltaItem \<Rightarrow> ConfigEntry \<Rightarrow> ConflictEntry list" where
  "item_conflicts local_item existing =
     concat (map (\<lambda>existing_item.
       if di_key existing_item = di_key local_item \<and> di_value existing_item \<noteq> di_value local_item
       then [\<lparr>cf_key = di_key local_item,
              cf_local_value = unwrap_or_default (di_value local_item),
              cf_journal_value = unwrap_or_default (di_value existing_item)\<rparr>]
       else []) (kernel_items existing))"

definition detect_conflicts :: "JournalState \<Rightarrow> NodeId \<Rightarrow> ConfigEntry list \<Rightarrow> ConflictEntry list" where
  "detect_conflicts s node_id local_entries =
     concat (map (\<lambda>loc.
       concat (map (\<lambda>local_item.
         concat (map (item_conflicts local_item) (rev (map snd (js_entries s)))))
         (kernel_items loc)))
       local_entries)"

definition node_delta_keys :: "JournalState \<Rightarrow> NodeId \<Rightarrow> string list" where
  "node_delta_keys s n =
     concat (map (\<lambda>e. map di_key (kernel_items e))
       (filter (\<lambda>e. ce_state_delta e \<noteq> None)
         (filter (\<lambda>e. ce_scope e = Node n) (map snd (js_entries s)))))"

definition check_homogeneity :: "JournalState \<Rightarrow> VClusterId \<Rightarrow> HomogeneityWarning list" where
  "check_homogeneity s vc =
     (let nodes = map fst (filter (\<lambda>(_, v). v = vc) (js_node_assignments s)) in
      concat (map (\<lambda>n. let keys = node_delta_keys s n in
        if keys \<noteq> [] then [\<lparr>hwarn_node_id = n, hwarn_delta_keys = keys\<rparr>] else []) nodes))"

lemma in_item_conflicts:
  "c \<in> set (item_conflicts li e) \<longleftrightarrow>
     (\<exists>ei \<in> set (kernel_items e). di_key ei = di_key li \<and> di_value ei \<noteq> di_value li \<and>
        c = \<lparr>cf_key = di_key li, cf_local_value = unwrap_or_default (di_value li),
             cf_journal_value = unwrap_or_default (di_value ei)\<rparr>)"
  by (auto simp: item_conflicts_def)

lemma in_detect_conflicts:
  "c \<in> set (detect_conflicts s n les) \<longleftrightarrow>
     (\<exists>le \<in> set les. \<exists>li \<in> set (kernel_items le). \<exists>e \<in> snd ` set (js_entries s).
        c \<in> set (item_conflicts li e))"
  by (auto simp: detect_conflicts_def)

lemma kernel_items_None [simp]: "ce_state_delta e = None \<Longrightarrow> kernel_items e = []"
  by (simp add: kernel_items_def)

lemma node_delta_keys_iff:
  "k \<in> set (node_delta_keys s n) \<longleftrightarrow>
     (\<exists>e \<in> snd ` set (js_entries s). ce_scope e = Node n \<and> k \<in> di_key ` set (kernel_items e))"
proof -
  have "ce_state_delta e \<noteq> None" if "k \<in> di_key ` set (kernel_items e)" for e
    using that by (cases "ce_state_delta e") auto
  then show ?thesis
    unfolding node_delta_keys_def by auto
qed

lemma in_check_homogeneity:
  "w \<in> set (check_homogeneity s vc) \<longleftrightarrow>
     (hwarn_node_id w, vc) \<in> set (js_node_assignments s) \<and>
     hwarn_delta_keys w = node_delta_keys s (hwarn_node_id w) \<and> hwarn_delta_keys w \<noteq> []"
proof -
  have "w \<in> set (check_homogeneity s vc) \<longleftrightarrow>
      (\<exists>n. (n, vc) \<in> set (js_node_assignments s) \<and> node_delta_keys s n \<noteq> [] \<and>
        w = \<lparr>hwarn_node_id = n, hwarn_delta_keys = node_delta_keys s n\<rparr>)"
    by (force simp: check_homogeneity_def Let_def)
  then show ?thesis by (cases w) auto
qed

text \<open>Under agreeing values no conflict is reported, whatever the order of the journal.\<close>

lemma detect_conflicts_empty:
  "detect_conflicts s n les = [] \<longleftrightarrow>
     (\<forall>le \<in> set les. \<forall>li \<in> set (kernel_items le). \<forall>e \<in> snd ` set (js_entries s).
        \<forall>ei \<in> set (kernel_items e). di_key ei = di_key li \<longrightarrow> di_value ei = di_value li)"
proof -
  have "detect_conflicts s n les = [] \<longleftrightarrow> (\<forall>c. c \<notin> set (detect_conflicts s n les))"
    by (metis list.set(1) empty_iff ex_in_conv set_empty)
  then show ?thesis
    unfolding in_detect_conflicts in_item_conflicts by blast
qed

end
