(* ===== verification/Journal_Properties.thy ===== *)
theory Journal_Properties
  imports Journal_Invariants Journal_Queries
begin

text \<open>
  The properties of the journal state machine, over every run of commands from the empty
  state, with the concrete commands that the witnesses evaluate.
\<close>

subsection \<open>Concrete commands\<close>

definition sample_ext :: Ext where
  "sample_ext = \<lparr>ext_checksum = (\<lambda>d. show_nat (length d)), ext_parse_rfc3339 = (\<lambda>_. Some 0)\<rparr>"

definition ops_alice :: Identity where
  "ops_alice = \<lparr>id_principal = ''alice'', id_principal_type = Human, id_role = ''pact-ops-ml''\<rparr>"

definition ops_bob :: Identity where
  "ops_bob = \<lparr>id_principal = ''bob'', id_principal_type = Human, id_role = ''pact-ops-ml''\<rparr>"

definition sample_entry :: "EntrySeq option \<Rightarrow> ConfigEntry" where
  "sample_entry p = \<lparr>ce_sequence = 77, ce_timestamp = 0, ce_entry_type = Commit,
     ce_scope = VCluster ''ml'', ce_author = ops_alice, ce_parent = p, ce_state_delta = None,
     ce_policy_ref = None, ce_ttl_seconds = Some 900, ce_emergency_reason = None\<rparr>"

definition sample_node :: "NodeId \<Rightarrow> string \<Rightarrow> NodeEnrollment" where
  "sample_node n mac = \<lparr>ne_node_id = n, ne_domain_id = ''site'', ne_state = Registered,
     ne_hardware_identity = \<lparr>hw_mac_address = mac, hw_bmc_serial = None, hw_extra = []\<rparr>,
     ne_vcluster_id = None, ne_cert_serial = None, ne_cert_expires_at = None,
     ne_last_seen = None, ne_enrolled_at = 0, ne_enrolled_by = ops_alice,
     ne_active_sessions = 0\<rparr>"

definition sample_approval :: Approval where
  "sample_approval = \<lparr>pa_approval_id = ''a1'', pa_original_request = ''commit'',
     pa_action = ''commit'', pa_scope = VCluster ''ml'', pa_requester = ops_alice,
     pa_approver = None, pa_status = Pending, pa_created_at = 0, pa_expires_at = 100\<rparr>"

lemmas sample_defs = sample_ext_def ops_alice_def ops_bob_def sample_entry_def sample_node_def
  sample_approval_def default_state_def apply_item_def command_defs

subsection \<open>The entry log\<close>

text \<open>
  C1. After any run of fewer than 2^64 commands the entry log is exactly the sequence
  0, 1, ..., \<open>next_sequence\<close> - 1: every entry carries its own key as sequence number, names a
  non-empty author and role, has a parent strictly before it, and has a TTL that is absent,
  zero or between 15 minutes and 10 days.
\<close>

theorem journal_log_wellformed:
  assumes "length is < 2 ^ 64"
  shows "entries_inv (run_commands x is default_state)"
  using entries_run [OF entries_inv_default, of "is" x] assms by (simp add: default_state_def)

theorem journal_log_wellformed_witness:
  "entries_inv (run_commands sample_ext
      [(0, AppendEntry (sample_entry None)), (1, AppendEntry (sample_entry (Some 5))),
       (2, AppendEntry (sample_entry (Some 0)))] default_state) \<and>
   js_next_sequence (run_commands sample_ext
      [(0, AppendEntry (sample_entry None)), (1, AppendEntry (sample_entry (Some 5))),
       (2, AppendEntry (sample_entry (Some 0)))] default_state) = 2"
  using journal_log_wellformed [of "[(0, AppendEntry (sample_entry None)),
      (1, AppendEntry (sample_entry (Some 5))), (2, AppendEntry (sample_entry (Some 0)))]"]
  by (simp add: sample_defs parent_ok_def ttl_too_short_def ttl_too_long_def TTL_MIN_SECONDS_def
      TTL_MAX_SECONDS_def)

text \<open>
  C2. The log is append-only: whatever commands follow, the entries present after a first part
  of the run are a prefix of the entries present at its end, unchanged and in order.
\<close>

theorem journal_append_only:
  assumes "length is + length js < 2 ^ 64"
  shows "prefix (js_entries (run_commands x is default_state))
    (js_entries (run_commands x (is @ js) default_state))"
proof -
  have "entries_inv (run_commands x is default_state) \<and>
      unat (js_next_sequence (run_commands x is default_state)) \<le> length is"
    using entries_run [OF entries_inv_default, of "is" x] assms by (simp add: default_state_def)
  with assms entries_run [of "run_commands x is default_state" js x] show ?thesis
    by (simp add: run_commands_append)
qed

theorem journal_append_only_witness:
  "prefix (js_entries (run_commands sample_ext [(0, AppendEntry (sample_entry None))] default_state))
     (js_entries (run_commands sample_ext
        ([(0, AppendEntry (sample_entry None))] @ [(3, AppendEntry (sample_entry (Some 0)))]) default_state))"
  using journal_append_only [of "[(0, AppendEntry (sample_entry None))]"
      "[(3, AppendEntry (sample_entry (Some 0)))]" sample_ext] by simp

text \<open>
  C3. Parent references form a forest inside the log: every parent named by an entry is itself
  an entry of the log, and following parents always ends (the parent relation is
  well-founded).
\<close>

theorem journal_parents_wellfounded:
  assumes "length is < 2 ^ 64"
  shows "wf (parent_edges (run_commands x is default_state)) \<and>
    (\<forall>p q. (p, q) \<in> parent_edges (run_commands x is default_state) \<longrightarrow>
       (\<exists>e. bt_get (js_entries (run_commands x is default_state)) p = Some e))"
proof -
  have inv: "entries_inv (run_commands x is default_state)"
    using entries_run [OF entries_inv_default, of "is" x] assms by (simp add: default_state_def)
  have "\<exists>e. bt_get (js_entries (run_commands x is default_state)) p = Some e"
    if "(p, q) \<in> parent_edges (run_commands x is default_state)" for p q
    using parent_edges_less [OF inv] that entries_inv_get [OF inv, of p]
    by (metis (no_types, lifting) case_prodD mem_Collect_eq order.strict_trans subsetD)
  with wf_parent_edges [OF inv] show ?thesis by blast
qed

theorem journal_parents_wellfounded_witness:
  "wf (parent_edges (run_commands sample_ext [(0, AppendEntry (sample_entry None)),
     (2, AppendEntry (sample_entry (Some 0)))] default_state))"
  using journal_parents_wellfounded [of "[(0, AppendEntry (sample_entry None)),
     (2, AppendEntry (sample_entry (Some 0)))]" sample_ext] by simp

subsection \<open>Replication\<close>

text \<open>
  C4. Two replicas that apply the same commands, each under its own clock, end in states that
  differ at most in the last-seen times of the enrollment records, and both give the same
  response to every further command.
\<close>

theorem journal_replicas_agree:
  assumes "map snd is = map snd js"
  shows "erase_last_seen (run_commands x is default_state) =
         erase_last_seen (run_commands x js default_state) \<and>
         snd (apply_command x now c (run_commands x is default_state)) =
         snd (apply_command x now' c (run_commands x js default_state))"
proof -
  have eq: "erase_last_seen (run_commands x is default_state) =
      erase_last_seen (run_commands x js default_state)"
    by (rule replicas_run [OF assms refl])
  from erase_apply2 [OF eq, of x now c now'] eq show ?thesis
    by (simp add: erase_pair_def)
qed

theorem journal_replicas_agree_witness:
  "erase_last_seen (run_commands sample_ext [(0, RegisterNode (sample_node ''n1'' ''aa'')),
      (1, ActivateNode ''n1'' ''s'' ''t'')] default_state) =
   erase_last_seen (run_commands sample_ext [(0, RegisterNode (sample_node ''n1'' ''aa'')),
      (2, ActivateNode ''n1'' ''s'' ''t'')] default_state) \<and>
   run_commands sample_ext [(0, RegisterNode (sample_node ''n1'' ''aa'')),
      (1, ActivateNode ''n1'' ''s'' ''t'')] default_state \<noteq>
   run_commands sample_ext [(0, RegisterNode (sample_node ''n1'' ''aa'')),
      (2, ActivateNode ''n1'' ''s'' ''t'')] default_state"
  using journal_replicas_agree [of "[(0, RegisterNode (sample_node ''n1'' ''aa'')),
      (1, ActivateNode ''n1'' ''s'' ''t'')]" "[(0, RegisterNode (sample_node ''n1'' ''aa'')),
      (2, ActivateNode ''n1'' ''s'' ''t'')]" sample_ext]
  by (simp add: sample_defs hm_insert_def hm_contains_def hm_get_def)

text \<open>
  C5. A command that the state machine rejects with a validation error leaves the whole state
  as it was.
\<close>

theorem journal_rejected_unchanged:
  assumes "snd (apply_command x now c s) = ValidationError m"
  shows "fst (apply_command x now c s) = s"
  by (rule rejected_same [OF assms])

theorem journal_rejected_unchanged_witness:
  "fst (apply_command sample_ext 0 (DecideApproval ''a1'' ops_alice Approved)
      (default_state\<lparr>js_pending_approvals := [(''a1'', sample_approval)]\<rparr>)) =
   default_state\<lparr>js_pending_approvals := [(''a1'', sample_approval)]\<rparr>"
  by (rule journal_rejected_unchanged
      [where m = "''SELF_APPROVAL: cannot approve your own request (P4)''"])
    (simp add: sample_defs hm_get_def)

subsection \<open>Enrollment\<close>

text \<open>
  C6. In every reachable state the hardware index and the enrollment records describe each
  other: a record is filed under its own node id, its canonical hardware key leads back to
  it, and no two enrolled nodes share a canonical hardware key.
\<close>

theorem enrollment_hardware_unique:
  assumes "journal_reachable x s"
  shows "enroll_inv s \<and>
    (\<forall>n m e f. hm_get (js_enrollments s) n = Some e \<longrightarrow> hm_get (js_enrollments s) m = Some f \<longrightarrow>
       hw_canonical_key (ne_hardware_identity e) = hw_canonical_key (ne_hardware_identity f) \<longrightarrow>
       n = m)"
proof (intro conjI allI impI)
  show inv: "enroll_inv s" by (rule reachable_enroll_inv [OF assms])
  fix n m e f
  assume "hm_get (js_enrollments s) n = Some e" "hm_get (js_enrollments s) m = Some f"
    and key: "hw_canonical_key (ne_hardware_identity e) = hw_canonical_key (ne_hardware_identity f)"
  with inv have "hm_get (js_hw_index s) (hw_canonical_key (ne_hardware_identity e)) = Some n"
    "hm_get (js_hw_index s) (hw_canonical_key (ne_hardware_identity f)) = Some m"
    unfolding enroll_inv_def by blast+
  with key show "n = m" by simp
qed

theorem enrollment_hardware_unique_witness:
  "enroll_inv (fst (apply_command sample_ext 0 (RegisterNode (sample_node ''n1'' ''AA'')) default_state))"
  using enrollment_hardware_unique [OF journal_reachable.step [OF journal_reachable.start,
      of sample_ext 0 "RegisterNode (sample_node ''n1'' ''AA'')"]] by blast

text \<open>
  C7. Once a node is revoked it stays revoked through every run of commands, except for a
  \<open>DeactivateNode\<close> of that same node.
\<close>

theorem enrollment_revoked_stays:
  assumes "hm_get (js_enrollments s) n = Some e" "ne_state e = Revoked"
    and "\<forall>i \<in> set is. snd i \<noteq> DeactivateNode n"
  shows "\<exists>e'. hm_get (js_enrollments (run_commands x is s)) n = Some e' \<and> ne_state e' = Revoked"
  using revoked_run [OF assms(1,2)] assms(3) by blast

theorem enrollment_revoked_stays_witness:
  "\<exists>e'. hm_get (js_enrollments (run_commands sample_ext
      [(0, ActivateNode ''n1'' ''s'' ''t''), (1, MoveNodeVCluster ''n1'' ''a'' ''b'')]
      (default_state\<lparr>js_enrollments :=
         [(''n1'', (sample_node ''n1'' ''aa'')\<lparr>ne_state := Revoked\<rparr>)]\<rparr>))) ''n1'' = Some e' \<and>
     ne_state e' = Revoked"
  by (rule enrollment_revoked_stays [where e = "(sample_node ''n1'' ''aa'')\<lparr>ne_state := Revoked\<rparr>"])
    (simp_all add: hm_get_def)

text \<open>
  C8. When nodes are assigned through the enrollment commands only, the assignment table and
  the vCluster of the enrollment records agree for every node.
\<close>

theorem enrollment_assignments_agree:
  assumes "\<forall>i \<in> set is. enrollment_style (snd i)"
  shows "assignments_inv (run_commands x is default_state)"
  using assignments_run assms by blast

theorem enrollment_assignments_agree_witness:
  "assignments_inv (run_commands sample_ext [(0, RegisterNode (sample_node ''n1'' ''aa'')),
      (0, AssignNodeToVCluster ''n1'' ''ml''), (0, UnassignNode ''n1'')] default_state)"
  by (rule enrollment_assignments_agree) (simp add: sample_node_def)

text \<open>
  The exception of C7 is a real path: deactivating a revoked node lifts the revocation, and
  the node can then be activated again.
\<close>

lemma revoked_node_can_return:
  "js_enrollments (run_commands sample_ext [(0, DeactivateNode ''n1''), (1, ActivateNode ''n1'' ''s'' ''t'')]
     (default_state\<lparr>js_enrollments :=
        [(''n1'', (sample_node ''n1'' ''aa'')\<lparr>ne_state := Revoked\<rparr>)]\<rparr>)) =
   [(''n1'', (sample_node ''n1'' ''aa'')\<lparr>ne_state := Active, ne_cert_serial := Some ''s'',
      ne_cert_expires_at := Some 0, ne_last_seen := Some 1\<rparr>)]"
  by (simp add: sample_defs hm_get_def hm_insert_def)

subsection \<open>Approvals, audit log and overlays\<close>

text \<open>
  C9. Two-person rule: when approvals are created pending and without an approver, as the
  policy service does, then after any run every approval that is no longer pending names an
  approver, and that approver is never the requester.
\<close>

theorem approvals_two_person:
  assumes "\<forall>i \<in> set is. creates_fresh (snd i)"
    and "hm_get (js_pending_approvals (run_commands x is default_state)) aid = Some a"
    and "pa_status a \<noteq> Pending"
  shows "\<exists>w. pa_approver a = Some w \<and> id_principal w \<noteq> id_principal (pa_requester a)"
proof -
  have "approval_ok a"
    using approvals_run [of "is" x] assms(1,2) by (auto simp: approvals_inv_def)
  with assms(3) show ?thesis by (auto simp: approval_ok_def split: option.splits)
qed

theorem approvals_two_person_witness:
  "\<exists>w. pa_approver (sample_approval\<lparr>pa_status := Approved, pa_approver := Some ops_bob\<rparr>) = Some w \<and>
     id_principal w \<noteq> id_principal (pa_requester sample_approval)"
  using approvals_two_person [of "[(0, CreateApproval sample_approval),
      (1, DecideApproval ''a1'' ops_alice Approved), (2, DecideApproval ''a1'' ops_bob Approved)]"
      sample_ext "''a1''" "sample_approval\<lparr>pa_status := Approved, pa_approver := Some ops_bob\<rparr>"]
  by (simp add: sample_defs hm_get_def hm_insert_def)

text \<open>
  C10. A decided approval is final: no run of commands changes it, unless a new approval is
  created under the same id.
\<close>

theorem approvals_decided_final:
  assumes "hm_get (js_pending_approvals s) aid = Some a" "pa_status a \<noteq> Pending"
    and "\<forall>t b. (t, CreateApproval b) \<in> set is \<longrightarrow> pa_approval_id b \<noteq> aid"
  shows "hm_get (js_pending_approvals (run_commands x is s)) aid = Some a"
  using decided_run [OF assms(1,2)] assms(3) by blast

theorem approvals_decided_final_witness:
  "hm_get (js_pending_approvals (run_commands sample_ext [(9, DecideApproval ''a1'' ops_bob Approved)]
     (default_state\<lparr>js_pending_approvals := [(''a1'', sample_approval\<lparr>pa_status := Rejected\<rparr>)]\<rparr>))) ''a1''
   = Some (sample_approval\<lparr>pa_status := Rejected\<rparr>)"
  by (rule approvals_decided_final) (simp_all add: hm_get_def)

text \<open>
  The audit log is exactly the last 100000 operations that were recorded, in the order
  they were recorded, whatever other commands ran in between.
\<close>

theorem audit_log_is_tail:
  "js_audit_log (run_commands x is default_state) = last_n AUDIT_LOG_MAX (recorded_ops is)"
  using audit_run [of default_state "[]" x "is"] by (simp add: default_state_def last_n_def)

text \<open>
  Every overlay in a reachable state is at most 10 MiB long and carries the checksum of
  its data.
\<close>

theorem overlays_checked:
  assumes "journal_reachable x s" "hm_get (js_overlays s) vc = Some ov"
  shows "length (bo_data ov) \<le> 10485760 \<and> bo_checksum ov = ext_checksum x (bo_data ov)"
  using reachable_overlays_inv [OF assms(1)] assms(2)
  by (auto simp: overlays_inv_def overlay_ok_def OVERLAY_MAX_BYTES_def)

theorem overlays_checked_witness:
  "length (bo_data (new_overlay (ext_checksum sample_ext) ''ml'' 1 [1, 2])) \<le> 10485760 \<and>
   bo_checksum (new_overlay (ext_checksum sample_ext) ''ml'' 1 [1, 2]) = ext_checksum sample_ext [1, 2]"
  using overlays_checked [OF journal_reachable.step [OF journal_reachable.start, of sample_ext 0
      "SetOverlay ''ml'' (new_overlay (ext_checksum sample_ext) ''ml'' 1 [1, 2])"], of "''ml''"]
  by (simp add: set_overlay_def new_overlay_def OVERLAY_MAX_BYTES_def default_state_def Let_def
      hm_get_def hm_insert_def)

subsection \<open>Queries\<close>

text \<open>
  Conflict detection reports a conflict exactly for the local kernel items whose key some
  journal entry sets to a different value; when none does, the report is empty.
\<close>

theorem detect_conflicts_exact:
  "(c \<in> set (detect_conflicts s n les) \<longleftrightarrow>
     (\<exists>le \<in> set les. \<exists>li \<in> set (kernel_items le). \<exists>(k, e) \<in> set (js_entries s).
       \<exists>ei \<in> set (kernel_items e). di_key ei = di_key li \<and> di_value ei \<noteq> di_value li \<and>
         c = \<lparr>cf_key = di_key li, cf_local_value = unwrap_or_default (di_value li),
              cf_journal_value = unwrap_or_default (di_value ei)\<rparr>))"
  unfolding in_detect_conflicts in_item_conflicts by (simp add: image_iff case_prod_beta Bex_def) metis

end
