(* ===== verification/Rbac.thy ===== *)
theory Rbac
  imports Pact_Types
begin

text \<open>
  The role-based access control engine, \<open>crates/pact-policy/src/rbac/mod.rs\<close>: the decision
  function with every guard in the order of the source, and a declarative statement of who
  may do what, proved equal to it.
\<close>

subsection \<open>Actions and decisions\<close>

datatype RbacDecision = RbacAllow | RbacDeny string | RbacDefer

definition COMMIT :: string where "COMMIT = ''commit''"
definition ROLLBACK :: string where "ROLLBACK = ''rollback''"
definition EXEC :: string where "EXEC = ''exec''"
definition SHELL :: string where "SHELL = ''shell''"
definition EMERGENCY_START :: string where "EMERGENCY_START = ''emergency_start''"
definition EMERGENCY_END :: string where "EMERGENCY_END = ''emergency_end''"
definition SERVICE_START :: string where "SERVICE_START = ''service_start''"
definition SERVICE_STOP :: string where "SERVICE_STOP = ''service_stop''"
definition SERVICE_RESTART :: string where "SERVICE_RESTART = ''service_restart''"
definition STATUS :: string where "STATUS = ''status''"
definition DIFF :: string where "DIFF = ''diff''"
definition LOG :: string where "LOG = ''log''"
definition APPROVE :: string where "APPROVE = ''approve''"
definition POLICY_UPDATE :: string where "POLICY_UPDATE = ''policy_update''"

lemmas action_defs = COMMIT_def ROLLBACK_def EXEC_def SHELL_def EMERGENCY_START_def
  EMERGENCY_END_def SERVICE_START_def SERVICE_STOP_def SERVICE_RESTART_def STATUS_def DIFF_def
  LOG_def APPROVE_def POLICY_UPDATE_def

definition READ_ACTIONS :: "string list" where
  "READ_ACTIONS = [STATUS, DIFF, LOG]"

definition WRITE_ACTIONS :: "string list" where
  "WRITE_ACTIONS = [COMMIT, ROLLBACK, EXEC, SHELL, SERVICE_START, SERVICE_STOP, SERVICE_RESTART]"

definition is_emergency_action :: "string \<Rightarrow> bool" where
  "is_emergency_action a \<longleftrightarrow> a = EMERGENCY_START \<or> a = EMERGENCY_END"

definition extract_vcluster_from_role :: "string \<Rightarrow> string option" where
  "extract_vcluster_from_role role =
     (case strip_prefix ''pact-ops-'' role of Some vc \<Rightarrow> Some vc | None \<Rightarrow>
      (case strip_prefix ''pact-viewer-'' role of Some vc \<Rightarrow> Some vc | None \<Rightarrow>
       (case strip_prefix ''pact-regulated-'' role of Some vc \<Rightarrow> Some vc | None \<Rightarrow> None)))"

subsection \<open>The decision\<close>

definition binding_matches :: "Identity \<Rightarrow> string \<Rightarrow> RoleBinding \<Rightarrow> bool" where
  "binding_matches i action b \<longleftrightarrow> rb_role b = id_role i \<and>
     id_principal i \<in> set (rb_principals b) \<and>
     list_ex (\<lambda>a. a = action \<or> a = ''*'') (rb_allowed_actions b)"

fun check_bindings :: "Identity \<Rightarrow> string \<Rightarrow> RoleBinding list \<Rightarrow> RbacDecision" where
  "check_bindings i action [] = RbacDeny (''unknown role: '' @ id_role i)"
| "check_bindings i action (b # bs) =
     (if binding_matches i action b then
        if is_emergency_action action \<and> \<not> list_ex (\<lambda>a. a = action) (rb_allowed_actions b)
        then RbacDeny ''emergency actions require explicit binding, not wildcard''
        else RbacAllow
      else check_bindings i action bs)"

definition evaluate_viewer :: "string \<Rightarrow> RbacDecision" where
  "evaluate_viewer action =
     (if action \<in> set READ_ACTIONS then RbacAllow
      else RbacDeny (''viewer role cannot perform action: '' @ action @ '' (P2)''))"

definition evaluate_regulated :: "VClusterPolicy \<Rightarrow> string \<Rightarrow> RbacDecision" where
  "evaluate_regulated policy action =
     (if action \<in> set READ_ACTIONS then RbacAllow
      else if vp_two_person_approval policy \<and> action \<in> set WRITE_ACTIONS then RbacDefer
      else if action \<in> set WRITE_ACTIONS \<or> action = APPROVE then RbacAllow
      else RbacDeny (''action not permitted for regulated role: '' @ action))"

definition evaluate_ops :: "string \<Rightarrow> RbacDecision" where
  "evaluate_ops action =
     (if action \<in> set READ_ACTIONS \<or> action \<in> set WRITE_ACTIONS then RbacAllow
      else if is_emergency_action action then RbacAllow
      else if action = APPROVE then RbacAllow
      else RbacDeny (''action not permitted for ops role: '' @ action))"

definition evaluate_service_agent :: "string \<Rightarrow> RbacDecision" where
  "evaluate_service_agent action =
     (if action = STATUS \<or> action = LOG then RbacAllow
      else RbacDeny (''service agent cannot perform action: '' @ action))"

definition evaluate_service_ai :: "VClusterPolicy \<Rightarrow> string \<Rightarrow> string \<Rightarrow> RbacDecision" where
  "evaluate_service_ai policy vcluster_id action =
     (if action \<in> set READ_ACTIONS then RbacAllow
      else if action = EXEC \<and> vp_ai_exec_allowed policy then RbacAllow
      else if action = EXEC then
        RbacDeny (''AI exec not authorized for vCluster '' @ squote @ vcluster_id @ squote @
          '' (set ai_exec_allowed in policy)'')
      else RbacDeny (''AI agent cannot perform action: '' @ action))"

definition evaluate_role ::
  "Identity \<Rightarrow> string \<Rightarrow> string \<Rightarrow> VClusterPolicy \<Rightarrow> RbacDecision" where
  "evaluate_role i action vcluster_id policy =
     (if prefix ''pact-viewer-'' (id_role i) then evaluate_viewer action
      else if prefix ''pact-regulated-'' (id_role i) then evaluate_regulated policy action
      else if prefix ''pact-ops-'' (id_role i) then evaluate_ops action
      else if id_role i = ''pact-service-agent'' then evaluate_service_agent action
      else if id_role i = ''pact-service-ai'' then evaluate_service_ai policy vcluster_id action
      else check_bindings i action (vp_role_bindings policy))"

definition evaluate_scoped ::
  "Identity \<Rightarrow> string \<Rightarrow> string \<Rightarrow> VClusterPolicy \<Rightarrow> RbacDecision" where
  "evaluate_scoped i action vcluster_id policy =
     (case extract_vcluster_from_role (id_role i) of
        Some role_vc \<Rightarrow>
          if role_vc \<noteq> vcluster_id then
            RbacDeny (''role '' @ id_role i @ '' is scoped to vCluster '' @ role_vc @ '', not '' @
              vcluster_id @ '' (P3)'')
          else if action = POLICY_UPDATE then
            RbacDeny ''policy_update requires pact-platform-admin role''
          else evaluate_role i action vcluster_id policy
      | None \<Rightarrow>
          if action = POLICY_UPDATE then
            RbacDeny ''policy_update requires pact-platform-admin role''
          else evaluate_role i action vcluster_id policy)"

definition rbac_evaluate :: "Identity \<Rightarrow> string \<Rightarrow> Scope \<Rightarrow> VClusterPolicy \<Rightarrow> RbacDecision" where
  "rbac_evaluate i action scope policy =
     (if id_role i = ''pact-platform-admin'' then RbacAllow
      else if id_role i = ''pact-service-ai'' \<and> is_emergency_action action then
        RbacDeny ''AI agents cannot enter or exit emergency mode (P8)''
      else case scope of
        VCluster vc \<Rightarrow> evaluate_scoped i action vc policy
      | Node vc \<Rightarrow> evaluate_scoped i action vc policy
      | Global \<Rightarrow> RbacDeny ''global scope requires pact-platform-admin role'')"

subsection \<open>Who may do what\<close>

definition scope_id :: "Scope \<Rightarrow> string option" where
  "scope_id sc = (case sc of Global \<Rightarrow> None | VCluster v \<Rightarrow> Some v | Node v \<Rightarrow> Some v)"

definition builtin_role :: "string \<Rightarrow> bool" where
  "builtin_role r \<longleftrightarrow> r = ''pact-platform-admin'' \<or> r = ''pact-service-agent'' \<or>
     r = ''pact-service-ai'' \<or> prefix ''pact-ops-'' r \<or> prefix ''pact-viewer-'' r \<or>
     prefix ''pact-regulated-'' r"

text \<open>The permissions of a role on the vCluster (or node) \<open>v\<close>, as the role model lists them.\<close>

definition role_permits :: "Identity \<Rightarrow> string \<Rightarrow> string \<Rightarrow> VClusterPolicy \<Rightarrow> bool" where
  "role_permits i a v p \<longleftrightarrow>
     id_role i = ''pact-viewer-'' @ v \<and> a \<in> {STATUS, DIFF, LOG} \<or>
     id_role i = ''pact-ops-'' @ v \<and>
       (a \<in> {STATUS, DIFF, LOG, EMERGENCY_START, EMERGENCY_END, APPROVE} \<or> a \<in> set WRITE_ACTIONS) \<or>
     id_role i = ''pact-regulated-'' @ v \<and>
       (a \<in> {STATUS, DIFF, LOG, APPROVE} \<or> a \<in> set WRITE_ACTIONS \<and> \<not> vp_two_person_approval p) \<or>
     id_role i = ''pact-service-agent'' \<and> a \<in> {STATUS, LOG} \<or>
     id_role i = ''pact-service-ai'' \<and>
       (a \<in> {STATUS, DIFF, LOG} \<or> a = EXEC \<and> vp_ai_exec_allowed p) \<or>
     \<not> builtin_role (id_role i) \<and> a \<noteq> POLICY_UPDATE \<and>
       (\<exists>b. find (binding_matches i a) (vp_role_bindings p) = Some b \<and>
            (is_emergency_action a \<longrightarrow> a \<in> set (rb_allowed_actions b)))"

subsection \<open>Lemmas\<close>

lemmas role_evaluators = evaluate_viewer_def evaluate_regulated_def evaluate_ops_def
  evaluate_service_agent_def evaluate_service_ai_def READ_ACTIONS_def WRITE_ACTIONS_def
  is_emergency_action_def

lemma check_bindings_allow:
  "check_bindings i a bs = RbacAllow \<longleftrightarrow>
     (\<exists>b. find (binding_matches i a) bs = Some b \<and>
          (is_emergency_action a \<longrightarrow> a \<in> set (rb_allowed_actions b)))"
  by (induction bs) (auto simp: list_ex_iff)

lemma check_bindings_not_defer [simp]: "check_bindings i a bs \<noteq> RbacDefer"
  by (induction bs) auto

text \<open>The kinds of role the engine tells apart.\<close>

lemma role_cases [case_names viewer regulated ops admin agent ai custom]:
  obtains v where "r = ''pact-viewer-'' @ v"
  | v where "r = ''pact-regulated-'' @ v"
  | v where "r = ''pact-ops-'' @ v"
  | "r = ''pact-platform-admin''"
  | "r = ''pact-service-agent''"
  | "r = ''pact-service-ai''"
  | "\<not> builtin_role r"
  unfolding builtin_role_def prefix_def by blast

lemma extract_vcluster_simps:
  "extract_vcluster_from_role (''pact-viewer-'' @ v) = Some v"
  "extract_vcluster_from_role (''pact-regulated-'' @ v) = Some v"
  "extract_vcluster_from_role (''pact-ops-'' @ v) = Some v"
  "extract_vcluster_from_role ''pact-service-agent'' = None"
  "extract_vcluster_from_role ''pact-service-ai'' = None"
  "\<not> builtin_role r \<Longrightarrow> extract_vcluster_from_role r = None"
  by (simp_all add: extract_vcluster_from_role_def strip_prefix_def builtin_role_def)

lemma evaluate_scoped_builtin:
  "id_role i = ''pact-viewer-'' @ w \<Longrightarrow> evaluate_scoped i a w p =
     (if a = POLICY_UPDATE then RbacDeny ''policy_update requires pact-platform-admin role''
      else evaluate_viewer a)"
  "id_role i = ''pact-regulated-'' @ w \<Longrightarrow> evaluate_scoped i a w p =
     (if a = POLICY_UPDATE then RbacDeny ''policy_update requires pact-platform-admin role''
      else evaluate_regulated p a)"
  "id_role i = ''pact-ops-'' @ w \<Longrightarrow> evaluate_scoped i a w p =
     (if a = POLICY_UPDATE then RbacDeny ''policy_update requires pact-platform-admin role''
      else evaluate_ops a)"
  "id_role i = ''pact-service-agent'' \<Longrightarrow> evaluate_scoped i a v p =
     (if a = POLICY_UPDATE then RbacDeny ''policy_update requires pact-platform-admin role''
      else evaluate_service_agent a)"
  "id_role i = ''pact-service-ai'' \<Longrightarrow> evaluate_scoped i a v p =
     (if a = POLICY_UPDATE then RbacDeny ''policy_update requires pact-platform-admin role''
      else evaluate_service_ai p v a)"
  by (simp_all add: evaluate_scoped_def evaluate_role_def extract_vcluster_from_role_def strip_prefix_def)

lemma evaluate_scoped_custom:
  "\<not> builtin_role (id_role i) \<Longrightarrow> evaluate_scoped i a v p =
     (if a = POLICY_UPDATE then RbacDeny ''policy_update requires pact-platform-admin role''
      else check_bindings i a (vp_role_bindings p))"
  by (simp add: evaluate_scoped_def evaluate_role_def extract_vcluster_simps)
    (simp add: builtin_role_def)

lemma evaluate_scoped_foreign:
  "extract_vcluster_from_role (id_role i) = Some w \<Longrightarrow> w \<noteq> v \<Longrightarrow>
   \<exists>r. evaluate_scoped i a v p = RbacDeny r"
  by (simp add: evaluate_scoped_def)

lemma evaluator_allow:
  "evaluate_viewer a = RbacAllow \<longleftrightarrow> a \<in> set READ_ACTIONS"
  "evaluate_regulated p a = RbacAllow \<longleftrightarrow> a \<in> set READ_ACTIONS \<or>
     a \<in> set WRITE_ACTIONS \<and> \<not> vp_two_person_approval p \<or> a = APPROVE"
  "evaluate_ops a = RbacAllow \<longleftrightarrow>
     a \<in> set READ_ACTIONS \<or> a \<in> set WRITE_ACTIONS \<or> is_emergency_action a \<or> a = APPROVE"
  "evaluate_service_agent a = RbacAllow \<longleftrightarrow> a = STATUS \<or> a = LOG"
  "evaluate_service_ai p v a = RbacAllow \<longleftrightarrow>
     a \<in> set READ_ACTIONS \<or> a = EXEC \<and> vp_ai_exec_allowed p"
  by (auto simp: evaluate_viewer_def evaluate_regulated_def evaluate_ops_def
      evaluate_service_agent_def evaluate_service_ai_def WRITE_ACTIONS_def action_defs)

lemma evaluator_defer:
  "evaluate_viewer a \<noteq> RbacDefer" "evaluate_ops a \<noteq> RbacDefer"
  "evaluate_service_agent a \<noteq> RbacDefer" "evaluate_service_ai p v a \<noteq> RbacDefer"
  "evaluate_regulated p a = RbacDefer \<longleftrightarrow> vp_two_person_approval p \<and> a \<in> set WRITE_ACTIONS"
  by (auto simp: evaluate_viewer_def evaluate_regulated_def evaluate_ops_def
      evaluate_service_agent_def evaluate_service_ai_def WRITE_ACTIONS_def READ_ACTIONS_def action_defs)

lemma policy_update_special [simp]:
  "POLICY_UPDATE \<notin> set READ_ACTIONS" "POLICY_UPDATE \<notin> set WRITE_ACTIONS"
  "POLICY_UPDATE \<noteq> STATUS" "POLICY_UPDATE \<noteq> LOG" "POLICY_UPDATE \<noteq> DIFF"
  "POLICY_UPDATE \<noteq> APPROVE" "POLICY_UPDATE \<noteq> EXEC" "\<not> is_emergency_action POLICY_UPDATE"
  by (simp_all add: READ_ACTIONS_def WRITE_ACTIONS_def is_emergency_action_def action_defs)

text \<open>The permissions, role kind by role kind.\<close>

lemma role_permits_builtin:
  "id_role i = ''pact-viewer-'' @ w \<Longrightarrow> role_permits i a v p \<longleftrightarrow> w = v \<and> a \<in> set READ_ACTIONS"
  "id_role i = ''pact-regulated-'' @ w \<Longrightarrow> role_permits i a v p \<longleftrightarrow> w = v \<and>
     (a \<in> set READ_ACTIONS \<or> a = APPROVE \<or> a \<in> set WRITE_ACTIONS \<and> \<not> vp_two_person_approval p)"
  "id_role i = ''pact-ops-'' @ w \<Longrightarrow> role_permits i a v p \<longleftrightarrow> w = v \<and>
     (a \<in> set READ_ACTIONS \<or> is_emergency_action a \<or> a = APPROVE \<or> a \<in> set WRITE_ACTIONS)"
  "id_role i = ''pact-service-agent'' \<Longrightarrow> role_permits i a v p \<longleftrightarrow> a = STATUS \<or> a = LOG"
  "id_role i = ''pact-service-ai'' \<Longrightarrow>
     role_permits i a v p \<longleftrightarrow> a \<in> set READ_ACTIONS \<or> a = EXEC \<and> vp_ai_exec_allowed p"
  by (simp_all add: role_permits_def builtin_role_def READ_ACTIONS_def is_emergency_action_def disj_ac)

lemma role_permits_custom:
  "\<not> builtin_role (id_role i) \<Longrightarrow> role_permits i a v p \<longleftrightarrow>
     a \<noteq> POLICY_UPDATE \<and> check_bindings i a (vp_role_bindings p) = RbacAllow"
  unfolding role_permits_def check_bindings_allow
  by (simp add: builtin_role_def) (metis Cons_prefix_Cons prefixI append_Cons append_Nil)

text \<open>A scoped role is confined to its own vCluster.\<close>

lemma evaluate_scoped_confined:
  assumes "extract_vcluster_from_role (id_role i) = Some w"
  shows "evaluate_scoped i a v p = RbacAllow \<longleftrightarrow> w = v \<and> evaluate_scoped i a w p = RbacAllow"
    and "evaluate_scoped i a v p = RbacDefer \<longleftrightarrow> w = v \<and> evaluate_scoped i a w p = RbacDefer"
  using assms by (auto simp: evaluate_scoped_def)

lemma evaluate_scoped_allow:
  assumes "id_role i \<noteq> ''pact-platform-admin''"
  shows "evaluate_scoped i a v p = RbacAllow \<longleftrightarrow> role_permits i a v p"
proof (cases rule: role_cases [of "id_role i"])
  case (viewer w)
  then have "extract_vcluster_from_role (id_role i) = Some w"
    by (simp only: extract_vcluster_simps)
  from evaluate_scoped_confined(1) [OF this] show ?thesis
    by (auto simp: evaluate_scoped_builtin(1) [OF viewer] role_permits_builtin(1) [OF viewer]
        evaluator_allow)
next
  case (regulated w)
  then have "extract_vcluster_from_role (id_role i) = Some w"
    by (simp only: extract_vcluster_simps)
  from evaluate_scoped_confined(1) [OF this] show ?thesis
    by (auto simp: evaluate_scoped_builtin(2) [OF regulated] role_permits_builtin(2) [OF regulated]
        evaluator_allow)
next
  case (ops w)
  then have "extract_vcluster_from_role (id_role i) = Some w"
    by (simp only: extract_vcluster_simps)
  from evaluate_scoped_confined(1) [OF this] show ?thesis
    by (auto simp: evaluate_scoped_builtin(3) [OF ops] role_permits_builtin(3) [OF ops]
        evaluator_allow)
next
  case admin
  with assms show ?thesis by simp
next
  case agent
  then show ?thesis
    by (auto simp: evaluate_scoped_builtin(4) role_permits_builtin(4) evaluator_allow)
next
  case ai
  then show ?thesis
    by (auto simp: evaluate_scoped_builtin(5) role_permits_builtin(5) evaluator_allow)
next
  case custom
  then show ?thesis by (simp add: role_permits_custom evaluate_scoped_custom)
qed

lemma evaluate_scoped_defer:
  "evaluate_scoped i a v p = RbacDefer \<longleftrightarrow>
     id_role i = ''pact-regulated-'' @ v \<and> vp_two_person_approval p \<and> a \<in> set WRITE_ACTIONS"
proof (cases rule: role_cases [of "id_role i"])
  case (regulated w)
  then have "extract_vcluster_from_role (id_role i) = Some w"
    by (simp only: extract_vcluster_simps)
  from evaluate_scoped_confined(2) [OF this] show ?thesis
    by (auto simp: evaluate_scoped_builtin(2) [OF regulated] regulated evaluator_defer)
next
  case custom
  then show ?thesis by (auto simp: evaluate_scoped_custom builtin_role_def)
qed (auto simp: evaluate_scoped_def evaluate_role_def evaluator_defer split: option.splits)

lemma ai_no_emergency:
  "id_role i = ''pact-service-ai'' \<Longrightarrow> is_emergency_action a \<Longrightarrow> \<not> role_permits i a v p"
  by (auto simp: role_permits_builtin READ_ACTIONS_def is_emergency_action_def action_defs)

lemma rbac_evaluate_allow:
  "rbac_evaluate i a sc p = RbacAllow \<longleftrightarrow>
     id_role i = ''pact-platform-admin'' \<or> (\<exists>v. scope_id sc = Some v \<and> role_permits i a v p)"
  using ai_no_emergency [of i a _ p]
  by (auto simp: rbac_evaluate_def scope_id_def evaluate_scoped_allow split: Scope.splits)

lemma rbac_evaluate_defer:
  "rbac_evaluate i a sc p = RbacDefer \<longleftrightarrow>
     (\<exists>v. scope_id sc = Some v \<and> id_role i = ''pact-regulated-'' @ v) \<and>
     vp_two_person_approval p \<and> a \<in> set WRITE_ACTIONS"
  by (auto simp: rbac_evaluate_def scope_id_def evaluate_scoped_defer split: Scope.splits)

subsection \<open>The decision is the role model\<close>

text \<open>
  The two-person flag of a policy plays a part in no other branch than the state-changing actions
  of a regulated role on its own vCluster.
\<close>

lemma two_person_effect:
  "rbac_evaluate i a sc (p\<lparr>vp_two_person_approval := True\<rparr>) \<noteq>
     rbac_evaluate i a sc (p\<lparr>vp_two_person_approval := False\<rparr>) \<longleftrightarrow>
   (\<exists>v. scope_id sc = Some v \<and> id_role i = ''pact-regulated-'' @ v) \<and> a \<in> set WRITE_ACTIONS"
  (is "?on \<noteq> ?off \<longleftrightarrow> ?R")
proof
  assume R: ?R
  then have "?on = RbacDefer" by (simp add: rbac_evaluate_defer)
  moreover have "?off \<noteq> RbacDefer" by (simp add: rbac_evaluate_defer)
  ultimately show "?on \<noteq> ?off" by simp
next
  assume differ: "?on \<noteq> ?off"
  show ?R
  proof (rule ccontr)
    assume "\<not> ?R"
    then have "\<not> (id_role i = ''pact-regulated-'' @ v \<and> a \<in> set WRITE_ACTIONS)"
      if "scope_id sc = Some v" for v
      using that by blast
    then have "evaluate_scoped i a v (p\<lparr>vp_two_person_approval := True\<rparr>) =
        evaluate_scoped i a v (p\<lparr>vp_two_person_approval := False\<rparr>)" if "scope_id sc = Some v" for v
      using that by (auto simp: evaluate_scoped_def evaluate_role_def evaluate_regulated_def
          evaluate_service_ai_def extract_vcluster_from_role_def strip_prefix_def prefix_def
          split: option.splits if_splits)
    then have "?on = ?off"
      by (auto simp: rbac_evaluate_def scope_id_def split: Scope.splits)
    with differ show False by simp
  qed
qed

text \<open>
  C14. The decision of the access-control engine, complete: it grants a platform admin
  everything; any other role nothing on the global scope and, on the vCluster its name carries,
  reads for viewers, reads, writes, emergencies and approvals for ops, reads, approvals and
  (without the two-person rule) writes for regulated roles; service agents status and log; AI
  agents reads and, where the policy allows it, exec, but never emergencies; and custom roles
  what their first matching role binding lists, emergencies only when listed by name. It defers
  to the approval workflow exactly the writes of a regulated role on its own vCluster under a
  policy with the two-person rule, and it denies the rest. The two-person flag of the policy
  changes nothing else: the writes of the ops role, of custom roles and of platform admins, and
  every emergency, are granted without a second person whatever the flag says. The documents
  ask for more (P4 in specs/invariants.md, ADR-013 and cli-design.md: on a vCluster with the
  flag every state-changing operation, emergencies included, needs a second admin).
\<close>

theorem rbac_allow_iff:
  "(rbac_evaluate i a sc p = RbacAllow \<longleftrightarrow>
     id_role i = ''pact-platform-admin'' \<or> (\<exists>v. scope_id sc = Some v \<and> role_permits i a v p)) \<and>
   (rbac_evaluate i a sc p = RbacDefer \<longleftrightarrow>
     (\<exists>v. scope_id sc = Some v \<and> id_role i = ''pact-regulated-'' @ v) \<and>
     vp_two_person_approval p \<and> a \<in> set WRITE_ACTIONS) \<and>
   (rbac_evaluate i a sc (p\<lparr>vp_two_person_approval := True\<rparr>) \<noteq>
      rbac_evaluate i a sc (p\<lparr>vp_two_person_approval := False\<rparr>) \<longleftrightarrow>
    (\<exists>v. scope_id sc = Some v \<and> id_role i = ''pact-regulated-'' @ v) \<and> a \<in> set WRITE_ACTIONS)"
  by (intro conjI) (rule rbac_evaluate_allow rbac_evaluate_defer two_person_effect)+

end
