(* ===== verification/Approval_Store.thy ===== *)
theory Approval_Store
  imports Pact_Types
begin

text \<open>
  The contract of a store of two-person approvals, fulfilled by the journal's replicated
  state machine and by the in-process policy engine: what a grant checks and changes, and
  what follows for any interleaving of grant attempts by any identities.
\<close>

type_synonym grant_request = "time \<times> string \<times> Identity"

text \<open>A sequence of grant attempts, with the outcome of each, and those that succeed for an id.\<close>

primrec run_grants ::
  "(time \<Rightarrow> string \<Rightarrow> Identity \<Rightarrow> 's \<Rightarrow> 's \<times> bool) \<Rightarrow> grant_request list \<Rightarrow> 's \<Rightarrow> 's \<times> bool list" where
  "run_grants g [] s = (s, [])"
| "run_grants g (r # rs) s =
     (case g (fst r) (fst (snd r)) (snd (snd r)) s of (s', ok) \<Rightarrow>
       (case run_grants g rs s' of (s'', oks) \<Rightarrow> (s'', ok # oks)))"

definition successes :: "string \<Rightarrow> grant_request list \<Rightarrow> bool list \<Rightarrow> grant_request list" where
  "successes i rs oks = map fst (filter (\<lambda>(r, ok). fst (snd r) = i \<and> ok) (zip rs oks))"

locale approval_store =
  fixes lookup :: "'s \<Rightarrow> string \<Rightarrow> Approval option"
    and grant :: "time \<Rightarrow> string \<Rightarrow> Identity \<Rightarrow> 's \<Rightarrow> 's \<times> bool"
  assumes grant_ok: "grant now i w s = (s', True) \<Longrightarrow>
      \<exists>a. lookup s i = Some a \<and> pa_status a = Pending \<and>
          id_principal (pa_requester a) \<noteq> id_principal w \<and>
          lookup s' i = Some (a\<lparr>pa_status := Approved, pa_approver := Some w\<rparr>)"
    and grant_refused: "grant now i w s = (s', False) \<Longrightarrow>
      lookup s' i = lookup s i \<or>
      (\<exists>a. lookup s i = Some a \<and> lookup s' i = Some (a\<lparr>pa_status := Expired\<rparr>))"
    and grant_other: "j \<noteq> i \<Longrightarrow> lookup (fst (grant now i w s)) j = lookup s j"
begin

lemma grant_step:
  obtains "lookup (fst (grant now j w s)) i = lookup s i" "\<not> (j = i \<and> snd (grant now j w s))"
  | a where "lookup s i = Some a" "j = i" "\<not> snd (grant now j w s)"
      "lookup (fst (grant now j w s)) i = Some (a\<lparr>pa_status := Expired\<rparr>)"
  | a where "lookup s i = Some a" "j = i" "snd (grant now j w s)" "pa_status a = Pending"
      "id_principal (pa_requester a) \<noteq> id_principal w"
      "lookup (fst (grant now j w s)) i = Some (a\<lparr>pa_status := Approved, pa_approver := Some w\<rparr>)"
proof (cases "grant now j w s")
  case (Pair s' ok)
  show thesis
  proof (cases "j = i")
    case False
    with that(1) grant_other [of i j now w s] show thesis by simp
  next
    case True
    then show thesis
      using Pair grant_ok [of now i w s s'] grant_refused [of now i w s s'] that
      by (cases ok) auto
  qed
qed

text \<open>A resolved approval never becomes grantable again.\<close>

lemma grants_resolved:
  assumes "lookup s i = Some a" "pa_status a \<noteq> Pending"
  shows "successes i rs (snd (run_grants grant rs s)) = []"
  using assms
proof (induction rs arbitrary: s a)
  case Nil
  then show ?case by (simp add: successes_def)
next
  case (Cons r rs)
  obtain now j w where r: "r = (now, j, w)" by (cases r)
  show ?case
  proof (cases rule: grant_step [of now j w s i])
    case 1
    with Cons.IH [of "fst (grant now j w s)" a] Cons.prems show ?thesis
      by (auto simp: r successes_def split: prod.splits)
  next
    case (2 b)
    with Cons.IH [of "fst (grant now j w s)" "b\<lparr>pa_status := Expired\<rparr>"] show ?thesis
      by (auto simp: r successes_def split: prod.splits)
  next
    case (3 b)
    with Cons.prems show ?thesis by simp
  qed
qed

text \<open>Each approval is granted at most once, and never by its requester.\<close>

lemma grants_two_person:
  assumes "lookup s i = Some a"
  shows "successes i rs (snd (run_grants grant rs s)) = [] \<or>
    (\<exists>now w. successes i rs (snd (run_grants grant rs s)) = [(now, i, w)] \<and> pa_status a = Pending \<and>
       id_principal w \<noteq> id_principal (pa_requester a))"
  using assms
proof (induction rs arbitrary: s a)
  case Nil
  then show ?case by (simp add: successes_def)
next
  case (Cons r rs)
  obtain now j w where r: "r = (now, j, w)" by (cases r)
  show ?case
  proof (cases rule: grant_step [of now j w s i])
    case 1
    with Cons.IH [of "fst (grant now j w s)" a] Cons.prems show ?thesis
      by (auto simp: r successes_def split: prod.splits)
  next
    case (2 b)
    with grants_resolved [of "fst (grant now j w s)" i "b\<lparr>pa_status := Expired\<rparr>" rs] show ?thesis
      by (auto simp: r successes_def split: prod.splits)
  next
    case (3 b)
    with Cons.prems
      grants_resolved [of "fst (grant now j w s)" i "b\<lparr>pa_status := Approved, pa_approver := Some w\<rparr>" rs]
    show ?thesis
      by (auto simp: r successes_def split: prod.splits)
  qed
qed

lemma grants_none:
  "lookup s i = None \<Longrightarrow> successes i rs (snd (run_grants grant rs s)) = []"
proof (induction rs arbitrary: s)
  case (Cons r rs)
  obtain now j w where r: "r = (now, j, w)" by (cases r)
  show ?case
  proof (cases rule: grant_step [of now j w s i])
    case 1
    with Cons.IH [of "fst (grant now j w s)"] Cons.prems show ?thesis
      by (auto simp: r successes_def split: prod.splits)
  qed (use Cons.prems in simp_all)
qed (simp add: successes_def)

end

end
