(* ===== verification/Policy_Engine.thy ===== *)
theory Policy_Engine
  imports Rbac Approval_Store
begin

text \<open>
  The in-process policy engine, \<open>crates/pact-policy/src/rules/mod.rs\<close>: policy cache, RBAC
  evaluation, and the two-person approval workflow with its timeout. The clock and the fresh
  approval id (\<open>Utc::now()\<close>, \<open>Uuid::new_v4()\<close>) are arguments. An OPA client is a trait
  object: the engine holds it as a function from the OPA input to its answer.
\<close>

subsection \<open>State and results\<close>

record OpaIdentity =
  oi_principal :: string
  oi_role :: string
  oi_principal_type :: string

record OpaInput =
  opa_identity :: OpaIdentity
  opa_action :: string
  opa_vcluster :: string
  opa_command :: "string option"

datatype OpaDecision = OpaAllow | OpaDeny string

datatype PolicyError =
    PolicyNotFound string
  | ApprovalNotFound string
  | ApprovalExpired string
  | ApprovalAlreadyResolved string
  | SelfApproval
  | InsufficientPrivileges string
  | OpaError string
  | NotImplemented string

record PolicyRequest =
  pr_identity :: Identity
  pr_scope :: Scope
  pr_action :: string
  pr_proposed_change :: "StateDelta option"
  pr_command :: "string option"

datatype PolicyDecision =
    Allow string
  | Deny string string
  | RequireApproval string string

type_synonym opa_client = "OpaInput \<Rightarrow> PolicyError + OpaDecision"

record PolicyEngine =
  pe_policies :: "(string, VClusterPolicy) hashmap"
  pe_pending_approvals :: "(string, Approval) hashmap"
  pe_approval_timeout_seconds :: int
  pe_opa_client :: "opa_client option"

definition engine_new :: "int \<Rightarrow> PolicyEngine" where
  "engine_new timeout = \<lparr>pe_policies = [], pe_pending_approvals = [],
     pe_approval_timeout_seconds = timeout, pe_opa_client = None\<rparr>"

definition with_opa :: "opa_client \<Rightarrow> PolicyEngine \<Rightarrow> PolicyEngine" where
  "with_opa client e = e\<lparr>pe_opa_client := Some client\<rparr>"

definition engine_set_policy :: "VClusterPolicy \<Rightarrow> PolicyEngine \<Rightarrow> PolicyEngine" where
  "engine_set_policy p e = e\<lparr>pe_policies := hm_insert (vp_vcluster_id p) p (pe_policies e)\<rparr>"

definition engine_get_policy :: "PolicyEngine \<Rightarrow> string \<Rightarrow> VClusterPolicy option" where
  "engine_get_policy e vc = hm_get (pe_policies e) vc"

subsection \<open>Evaluation\<close>

definition scope_vcluster :: "Scope \<Rightarrow> string" where
  "scope_vcluster sc = (case sc of VCluster vc \<Rightarrow> vc | Node vc \<Rightarrow> vc | Global \<Rightarrow> [])"

definition effective_policy :: "PolicyEngine \<Rightarrow> string \<Rightarrow> VClusterPolicy" where
  "effective_policy e vc = (case hm_get (pe_policies e) vc of
     Some p \<Rightarrow> p | None \<Rightarrow> default_policy\<lparr>vp_vcluster_id := vc\<rparr>)"

definition engine_policy_ref :: "VClusterPolicy \<Rightarrow> string \<Rightarrow> string" where
  "engine_policy_ref p vc =
     (if vp_policy_id p = [] then ''default:'' @ vc else vp_policy_id p)"

definition engine_create_approval ::
  "string \<Rightarrow> time \<Rightarrow> PolicyRequest \<Rightarrow> string \<Rightarrow> PolicyEngine \<Rightarrow> PolicyEngine \<times> string" where
  "engine_create_approval uuid now r vc e =
     (let approval = \<lparr>pa_approval_id = uuid,
            pa_original_request = pr_action r @ '' on '' @ vc,
            pa_action = pr_action r, pa_scope = pr_scope r, pa_requester = pr_identity r,
            pa_approver = None, pa_status = Pending, pa_created_at = now,
            pa_expires_at = now + seconds (pe_approval_timeout_seconds e)\<rparr>
      in (e\<lparr>pe_pending_approvals := hm_insert uuid approval (pe_pending_approvals e)\<rparr>, uuid))"

definition evaluate_sync ::
  "string \<Rightarrow> time \<Rightarrow> PolicyRequest \<Rightarrow> PolicyEngine \<Rightarrow> PolicyEngine \<times> (PolicyError + PolicyDecision)" where
  "evaluate_sync uuid now r e =
     (let vc = scope_vcluster (pr_scope r);
          policy = effective_policy e vc;
          policy_ref = engine_policy_ref policy vc
      in case rbac_evaluate (pr_identity r) (pr_action r) (pr_scope r) policy of
           RbacAllow \<Rightarrow> (e, Inr (Allow policy_ref))
         | RbacDeny reason \<Rightarrow> (e, Inr (Deny policy_ref reason))
         | RbacDefer \<Rightarrow>
             if vp_two_person_approval policy then
               (case engine_create_approval uuid now r vc e of
                  (e', aid) \<Rightarrow> (e', Inr (RequireApproval policy_ref aid)))
             else (e, Inr (Allow policy_ref)))"

definition opa_from_request :: "PolicyRequest \<Rightarrow> OpaInput" where
  "opa_from_request r = \<lparr>
     opa_identity = \<lparr>oi_principal = id_principal (pr_identity r), oi_role = id_role (pr_identity r),
       oi_principal_type = debug_PrincipalType (id_principal_type (pr_identity r))\<rparr>,
     opa_action = pr_action r,
     opa_vcluster = scope_vcluster (pr_scope r),
     opa_command = pr_command r\<rparr>"

definition engine_evaluate :: "PolicyEngine \<Rightarrow> PolicyRequest \<Rightarrow> PolicyError + PolicyDecision" where
  "engine_evaluate e r =
     (let vc = scope_vcluster (pr_scope r);
          policy = effective_policy e vc;
          policy_ref = engine_policy_ref policy vc
      in case rbac_evaluate (pr_identity r) (pr_action r) (pr_scope r) policy of
           RbacAllow \<Rightarrow> Inr (Allow policy_ref)
         | RbacDeny reason \<Rightarrow> Inr (Deny policy_ref reason)
         | RbacDefer \<Rightarrow>
             if vp_two_person_approval policy then Inr (RequireApproval policy_ref ''pending'')
             else case pe_opa_client e of
                 Some opa \<Rightarrow> (case opa (opa_from_request r) of
                     Inr OpaAllow \<Rightarrow> Inr (Allow policy_ref)
                   | Inr (OpaDeny reason) \<Rightarrow> Inr (Deny policy_ref reason)
                   | Inl err \<Rightarrow> Inr (Allow policy_ref))
               | None \<Rightarrow> Inr (Allow policy_ref))"

definition engine_get_effective_policy :: "PolicyEngine \<Rightarrow> string \<Rightarrow> PolicyError + VClusterPolicy" where
  "engine_get_effective_policy e vc = (case hm_get (pe_policies e) vc of
     Some p \<Rightarrow> Inr p | None \<Rightarrow> Inl (PolicyNotFound vc))"

subsection \<open>The approval workflow\<close>

definition approver_has_access :: "Identity \<Rightarrow> string \<Rightarrow> bool" where
  "approver_has_access w vc \<longleftrightarrow> id_role w = ''pact-platform-admin'' \<or>
     id_role w = ''pact-ops-'' @ vc \<or> id_role w = ''pact-regulated-'' @ vc"

definition put_approval :: "string \<Rightarrow> Approval \<Rightarrow> PolicyEngine \<Rightarrow> PolicyEngine" where
  "put_approval i a e = e\<lparr>pe_pending_approvals := hm_insert i a (pe_pending_approvals e)\<rparr>"

definition approve ::
  "time \<Rightarrow> string \<Rightarrow> Identity \<Rightarrow> PolicyEngine \<Rightarrow> PolicyEngine \<times> (PolicyError + PolicyDecision)" where
  "approve now i w e = (case hm_get (pe_pending_approvals e) i of
     None \<Rightarrow> (e, Inl (ApprovalNotFound i))
   | Some a \<Rightarrow>
       if now > pa_expires_at a then
         (put_approval i (a\<lparr>pa_status := Expired\<rparr>) e, Inl (ApprovalExpired i))
       else if pa_status a \<noteq> Pending then (e, Inl (ApprovalAlreadyResolved i))
       else if id_principal (pa_requester a) = id_principal w then (e, Inl SelfApproval)
       else
         let vc = scope_vcluster (pa_scope a) in
         if \<not> approver_has_access w vc then
           (e, Inl (InsufficientPrivileges (''approver role '' @ squote @ id_role w @ squote @
              '' does not have ops access to vCluster '' @ squote @ vc @ squote)))
         else
           (put_approval i (a\<lparr>pa_status := Approved, pa_approver := Some w\<rparr>) e,
            Inr (Allow (''approved:'' @ i))))"

definition reject ::
  "string \<Rightarrow> Identity \<Rightarrow> PolicyEngine \<Rightarrow> PolicyEngine \<times> (PolicyError + unit)" where
  "reject i w e = (case hm_get (pe_pending_approvals e) i of
     None \<Rightarrow> (e, Inl (ApprovalNotFound i))
   | Some a \<Rightarrow>
       if pa_status a \<noteq> Pending then (e, Inl (ApprovalAlreadyResolved i))
       else (put_approval i (a\<lparr>pa_status := Rejected, pa_approver := Some w\<rparr>) e, Inr ()))"

definition timed_out :: "time \<Rightarrow> Approval \<Rightarrow> bool" where
  "timed_out now a \<longleftrightarrow> pa_status a = Pending \<and> now > pa_expires_at a"

definition engine_expire_approvals :: "time \<Rightarrow> PolicyEngine \<Rightarrow> PolicyEngine \<times> string list" where
  "engine_expire_approvals now e =
     (e\<lparr>pe_pending_approvals := hm_map (\<lambda>_ a. if timed_out now a then a\<lparr>pa_status := Expired\<rparr> else a)
          (pe_pending_approvals e)\<rparr>,
      map fst (filter (\<lambda>(_, a). timed_out now a) (pe_pending_approvals e)))"

definition engine_pending_approvals :: "PolicyEngine \<Rightarrow> Approval list" where
  "engine_pending_approvals e =
     filter (\<lambda>a. pa_status a = Pending) (hm_values (pe_pending_approvals e))"

definition get_approval :: "PolicyEngine \<Rightarrow> string \<Rightarrow> Approval option" where
  "get_approval e i = hm_get (pe_pending_approvals e) i"

definition cleanup_resolved :: "PolicyEngine \<Rightarrow> PolicyEngine" where
  "cleanup_resolved e = e\<lparr>pe_pending_approvals :=
     hm_retain (\<lambda>_ a. pa_status a = Pending) (pe_pending_approvals e)\<rparr>"

text \<open>Approving, seen as an attempt that succeeds or not.\<close>

definition engine_grant :: "time \<Rightarrow> string \<Rightarrow> Identity \<Rightarrow> PolicyEngine \<Rightarrow> PolicyEngine \<times> bool" where
  "engine_grant now i w e = (case approve now i w e of
     (e', Inr d) \<Rightarrow> (e', True) | (e', Inl err) \<Rightarrow> (e', False))"

text \<open>A concrete request of a regulated role, for the witnesses.\<close>

definition regulated_eve :: Identity where
  "regulated_eve = \<lparr>id_principal = ''eve'', id_principal_type = Human, id_role = ''pact-regulated-hipaa''\<rparr>"

definition sample_request :: PolicyRequest where
  "sample_request = \<lparr>pr_identity = regulated_eve, pr_scope = VCluster ''hipaa'', pr_action = COMMIT,
     pr_proposed_change = None, pr_command = None\<rparr>"

definition sample_engine :: PolicyEngine where
  "sample_engine = engine_set_policy
     (default_policy\<lparr>vp_vcluster_id := ''hipaa'', vp_two_person_approval := True\<rparr>) (engine_new 1800)"

subsection \<open>Lemmas\<close>

lemma get_approval_put [simp]:
  "get_approval (put_approval i a e) j = (if j = i then Some a else get_approval e j)"
  by (simp add: get_approval_def put_approval_def)

lemma approve_ok_iff:
  "approve now i w e = (e', Inr d) \<longleftrightarrow>
     (\<exists>a. get_approval e i = Some a \<and> now \<le> pa_expires_at a \<and> pa_status a = Pending \<and>
        id_principal (pa_requester a) \<noteq> id_principal w \<and>
        approver_has_access w (scope_vcluster (pa_scope a)) \<and>
        d = Allow (''approved:'' @ i) \<and>
        e' = put_approval i (a\<lparr>pa_status := Approved, pa_approver := Some w\<rparr>) e)"
  by (auto simp: approve_def get_approval_def Let_def split: option.splits if_splits)

lemma approve_error:
  "approve now i w e = (e', Inl err) \<Longrightarrow>
     e' = e \<or> (\<exists>a. get_approval e i = Some a \<and> pa_expires_at a < now \<and>
                   e' = put_approval i (a\<lparr>pa_status := Expired\<rparr>) e)"
  by (auto simp: approve_def get_approval_def Let_def split: option.splits if_splits)

lemma engine_grant_True:
  "engine_grant now i w e = (e', True) \<longleftrightarrow> (\<exists>d. approve now i w e = (e', Inr d))"
  by (auto simp: engine_grant_def split: prod.splits sum.splits)

lemma engine_grant_False:
  "engine_grant now i w e = (e', False) \<longleftrightarrow> (\<exists>err. approve now i w e = (e', Inl err))"
  by (auto simp: engine_grant_def split: prod.splits sum.splits)

lemma approve_other:
  assumes "approve now i w e = (e', r)" "j \<noteq> i"
  shows "get_approval e' j = get_approval e j"
proof (cases r)
  case (Inl err)
  with approve_error [of now i w e e' err] assms show ?thesis by auto
next
  case (Inr d)
  with assms have "approve now i w e = (e', Inr d)" by simp
  with assms(2) show ?thesis by (auto simp only: approve_ok_iff get_approval_put if_False)
qed

lemma engine_grant_other:
  "j \<noteq> i \<Longrightarrow> get_approval (fst (engine_grant now i w e)) j = get_approval e j"
  using approve_other [of now i w e _ _ j]
  by (auto simp: engine_grant_def split: prod.splits sum.splits)

interpretation engine_approvals: approval_store get_approval engine_grant
proof
  show "get_approval e' i = get_approval e i \<or>
      (\<exists>a. get_approval e i = Some a \<and> get_approval e' i = Some (a\<lparr>pa_status := Expired\<rparr>))"
    if "engine_grant now i w e = (e', False)" for now i w e e'
    using that approve_error unfolding engine_grant_False by fastforce
qed (auto simp: engine_grant_True approve_ok_iff engine_grant_other)

lemma evaluate_sync_approval:
  assumes "evaluate_sync uuid now r e = (e', Inr (RequireApproval pref aid))"
  shows "aid = uuid \<and> get_approval e' uuid = Some \<lparr>pa_approval_id = uuid,
      pa_original_request = pr_action r @ '' on '' @ scope_vcluster (pr_scope r),
      pa_action = pr_action r, pa_scope = pr_scope r, pa_requester = pr_identity r,
      pa_approver = None, pa_status = Pending, pa_created_at = now,
      pa_expires_at = now + seconds (pe_approval_timeout_seconds e)\<rparr>"
  using assms
  by (auto simp: evaluate_sync_def engine_create_approval_def get_approval_def Let_def
      split: RbacDecision.splits if_splits)

lemma evaluate_sync_requires_iff:
  "(\<exists>e' pref aid. evaluate_sync uuid now r e = (e', Inr (RequireApproval pref aid))) \<longleftrightarrow>
   rbac_evaluate (pr_identity r) (pr_action r) (pr_scope r)
     (effective_policy e (scope_vcluster (pr_scope r))) = RbacDefer \<and>
   vp_two_person_approval (effective_policy e (scope_vcluster (pr_scope r)))"
  by (auto simp: evaluate_sync_def engine_create_approval_def Let_def split: RbacDecision.splits)

lemma expire_get:
  "get_approval (fst (engine_expire_approvals now e)) i =
     map_option (\<lambda>a. if timed_out now a then a\<lparr>pa_status := Expired\<rparr> else a) (get_approval e i)"
  by (simp add: engine_expire_approvals_def get_approval_def hm_get_map)

subsection \<open>Properties\<close>

text \<open>
  An approval is granted exactly when it exists, has not expired, is still pending, is
  approved by somebody other than its requester, and the approver is a platform admin or has
  the ops or regulated role of the target vCluster; granting records the approver and changes
  nothing else.
\<close>

theorem engine_approve_exact:
  "approve now i w e = (e', Inr d) \<longleftrightarrow>
     (\<exists>a. get_approval e i = Some a \<and> now \<le> pa_expires_at a \<and> pa_status a = Pending \<and>
        id_principal (pa_requester a) \<noteq> id_principal w \<and>
        approver_has_access w (scope_vcluster (pa_scope a)) \<and>
        d = Allow (''approved:'' @ i) \<and>
        e' = put_approval i (a\<lparr>pa_status := Approved, pa_approver := Some w\<rparr>) e)"
  by (rule approve_ok_iff)

text \<open>
  Whatever sequence of approval attempts is made, by whomever and at whatever times, each
  approval is granted at most once, and only by somebody other than its requester.
\<close>

theorem engine_granted_once:
  assumes "get_approval e i = Some a"
  shows "successes i rs (snd (run_grants engine_grant rs e)) = [] \<or>
    (\<exists>now w. successes i rs (snd (run_grants engine_grant rs e)) = [(now, i, w)] \<and>
       pa_status a = Pending \<and> id_principal w \<noteq> id_principal (pa_requester a))"
  by (rule engine_approvals.grants_two_person [OF assms])

text \<open>
  The two-person workflow end to end: the engine asks for an approval exactly for the
  state-changing actions of a regulated role on its own vCluster under a two-person policy;
  the approval it creates can be granted at a later time \<open>t\<close> exactly if \<open>t\<close> is within the
  timeout and the approver is another principal with access to that vCluster.
\<close>

theorem engine_two_person_workflow:
  "((\<exists>e' pref aid. evaluate_sync uuid now r e = (e', Inr (RequireApproval pref aid))) \<longleftrightarrow>
      (\<exists>v. scope_id (pr_scope r) = Some v \<and> id_role (pr_identity r) = ''pact-regulated-'' @ v \<and>
        vp_two_person_approval (effective_policy e v)) \<and> pr_action r \<in> set WRITE_ACTIONS) \<and>
   (\<forall>e' pref aid t w. evaluate_sync uuid now r e = (e', Inr (RequireApproval pref aid)) \<longrightarrow>
      (\<exists>e'' d. approve t aid w e' = (e'', Inr d)) =
        (t \<le> now + seconds (pe_approval_timeout_seconds e) \<and>
         id_principal w \<noteq> id_principal (pr_identity r) \<and>
         approver_has_access w (scope_vcluster (pr_scope r))))"
proof (intro conjI allI impI)
  show "(\<exists>e' pref aid. evaluate_sync uuid now r e = (e', Inr (RequireApproval pref aid))) \<longleftrightarrow>
      (\<exists>v. scope_id (pr_scope r) = Some v \<and> id_role (pr_identity r) = ''pact-regulated-'' @ v \<and>
        vp_two_person_approval (effective_policy e v)) \<and> pr_action r \<in> set WRITE_ACTIONS"
    unfolding evaluate_sync_requires_iff rbac_evaluate_defer
    by (auto simp: scope_id_def scope_vcluster_def split: Scope.splits)
next
  fix e' pref aid t w
  assume "evaluate_sync uuid now r e = (e', Inr (RequireApproval pref aid))"
  from evaluate_sync_approval [OF this]
  show "(\<exists>e'' d. approve t aid w e' = (e'', Inr d)) =
      (t \<le> now + seconds (pe_approval_timeout_seconds e) \<and>
       id_principal w \<noteq> id_principal (pr_identity r) \<and>
       approver_has_access w (scope_vcluster (pr_scope r)))"
    unfolding approve_ok_iff by auto
qed

theorem engine_two_person_workflow_witness:
  "(\<exists>e'' d. approve 5 ''u1'' (regulated_eve\<lparr>id_principal := ''bob''\<rparr>)
      (fst (evaluate_sync ''u1'' 0 sample_request sample_engine)) = (e'', Inr d)) \<and>
   \<not> (\<exists>e'' d. approve 5 ''u1'' regulated_eve
      (fst (evaluate_sync ''u1'' 0 sample_request sample_engine)) = (e'', Inr d))"
proof -
  have "(\<exists>e' pref aid. evaluate_sync ''u1'' 0 sample_request sample_engine
      = (e', Inr (RequireApproval pref aid)))"
    unfolding engine_two_person_workflow [THEN conjunct1]
    by (simp add: sample_request_def sample_engine_def engine_set_policy_def engine_new_def
        scope_id_def regulated_eve_def effective_policy_def WRITE_ACTIONS_def)
  then obtain e' pref aid where ev: "evaluate_sync ''u1'' 0 sample_request sample_engine
      = (e', Inr (RequireApproval pref aid))" by blast
  then have "aid = ''u1''" using evaluate_sync_approval by blast
  with ev have iff: "(\<exists>e'' d. approve 5 ''u1'' w (fst (evaluate_sync ''u1'' 0 sample_request sample_engine))
      = (e'', Inr d)) = (5 \<le> 0 + seconds (pe_approval_timeout_seconds sample_engine) \<and>
       id_principal w \<noteq> id_principal (pr_identity sample_request) \<and>
       approver_has_access w (scope_vcluster (pr_scope sample_request)))" for w
    using engine_two_person_workflow [of "''u1''" 0 sample_request sample_engine] by simp
  show ?thesis
    unfolding iff
    by (simp add: sample_request_def sample_engine_def engine_set_policy_def engine_new_def
        regulated_eve_def approver_has_access_def scope_vcluster_def seconds_def nanos_per_sec_def)
qed

theorem engine_granted_once_witness:
  "successes ''u1'' [(9, ''u1'', regulated_eve), (9, ''u1'', regulated_eve\<lparr>id_principal := ''bob''\<rparr>)]
     (snd (run_grants engine_grant
        [(9, ''u1'', regulated_eve), (9, ''u1'', regulated_eve\<lparr>id_principal := ''bob''\<rparr>)]
        (fst (engine_create_approval ''u1'' 0 sample_request ''hipaa'' sample_engine))))
   = [(9, ''u1'', regulated_eve\<lparr>id_principal := ''bob''\<rparr>)]"
  using engine_granted_once [of "fst (engine_create_approval ''u1'' 0 sample_request ''hipaa'' sample_engine)"
      "''u1''" _ "[(9, ''u1'', regulated_eve), (9, ''u1'', regulated_eve\<lparr>id_principal := ''bob''\<rparr>)]"]
  by (simp add: engine_create_approval_def sample_request_def sample_engine_def engine_set_policy_def
      engine_new_def regulated_eve_def get_approval_def engine_grant_def approve_def hm_get_def
      hm_insert_def successes_def approver_has_access_def scope_vcluster_def seconds_def
      nanos_per_sec_def put_approval_def Let_def)

text \<open>
  Expiry: after a sweep at time \<open>now\<close> no approval is both pending and past its deadline,
  exactly the timed-out ones were reported and marked expired, the others are untouched, and
  no expired approval can be granted at any later time.
\<close>

theorem engine_expiry_sound:
  "get_approval (fst (engine_expire_approvals now e)) i =
     map_option (\<lambda>a. if timed_out now a then a\<lparr>pa_status := Expired\<rparr> else a) (get_approval e i) \<and>
   (get_approval e i = Some a \<and> timed_out now a \<longrightarrow>
     i \<in> set (snd (engine_expire_approvals now e)) \<and>
     (\<forall>t w. \<not> (\<exists>e' d. approve t i w (fst (engine_expire_approvals now e)) = (e', Inr d))))"
  unfolding approve_ok_iff expire_get
  by (auto simp: engine_expire_approvals_def get_approval_def hm_get_def dest!: map_of_SomeD
      intro: rev_image_eqI)

theorem engine_expiry_sound_witness:
  "''u1'' \<in> set (snd (engine_expire_approvals (seconds 3600)
     (fst (engine_create_approval ''u1'' 0 sample_request ''hipaa'' sample_engine))))"
  using engine_expiry_sound [of "seconds 3600"
      "fst (engine_create_approval ''u1'' 0 sample_request ''hipaa'' sample_engine)" "''u1''"
      "the (get_approval (fst (engine_create_approval ''u1'' 0 sample_request ''hipaa'' sample_engine)) ''u1'')"]
  by (simp add: engine_create_approval_def sample_request_def sample_engine_def engine_set_policy_def
      engine_new_def get_approval_def timed_out_def seconds_def nanos_per_sec_def Let_def)

end
