(* ===== verification/Raft_Client.thy ===== *)
theory Raft_Client
  imports Journal_Invariants
begin

text \<open>
  The write path of every journal service is \<open>raft.client_write(cmd)\<close>, which belongs to
  openraft and is a parameter of the handlers. The locale \<open>raft_client\<close> states what the
  services rely on: a successful write has applied the command to the replicated state machine
  at some point, between commands of other clients, and returns its response; a failed write
  leaves a state that some commands (possibly including this one) have produced.
\<close>

type_synonym client_write = "JournalCommand \<Rightarrow> JournalState \<Rightarrow> JournalState \<times> (string + JournalResponse)"

locale raft_client =
  fixes x :: Ext and client_write :: client_write
  assumes write_ok: "client_write c s = (s', Inr r) \<Longrightarrow>
      \<exists>pre now post. s' = run_commands x (pre @ (now, c) # post) s \<and>
        r = snd (apply_command x now c (run_commands x pre s))"
    and write_failed: "client_write c s = (s', Inl err) \<Longrightarrow> \<exists>is. s' = run_commands x is s"
begin

lemma write_run: "\<exists>is. fst (client_write c s) = run_commands x is s"
proof (cases "client_write c s")
  case (Pair s' r)
  then show ?thesis
    by (cases r) (use write_ok write_failed in \<open>fastforce+\<close>)
qed

lemma write_reachable: "journal_reachable x s \<Longrightarrow> journal_reachable x (fst (client_write c s))"
  using write_run [of c s] run_commands_reachable [of x s] by metis

text \<open>A write that is answered with a validation error did not change the state at its turn.\<close>

lemma write_rejected:
  assumes "client_write c s = (s', Inr (ValidationError m))"
  shows "\<exists>pre now post. s' = run_commands x (pre @ post) s \<and>
    snd (apply_command x now c (run_commands x pre s)) = ValidationError m"
proof -
  obtain pre now post where "s' = run_commands x (pre @ (now, c) # post) s"
    and r: "snd (apply_command x now c (run_commands x pre s)) = ValidationError m"
    using write_ok [OF assms] by metis
  then have "s' = run_commands x (pre @ post) s"
    using rejected_same [OF r] by (simp add: run_commands_append apply_item_def)
  with r show ?thesis by blast
qed

end

subsection \<open>The behaviours of a write\<close>

text \<open>
  The possible outcomes: the command applied at local time \<open>now\<close> after the commands \<open>pre\<close> and
  before the commands \<open>post\<close> of other clients, or a failure after some other commands.
\<close>

definition interleaved_write :: "Ext \<Rightarrow> log_item list \<Rightarrow> time \<Rightarrow> log_item list \<Rightarrow> client_write" where
  "interleaved_write x pre now post c s =
     (run_commands x (pre @ (now, c) # post) s,
      Inr (snd (apply_command x now c (run_commands x pre s))))"

definition failed_write :: "Ext \<Rightarrow> log_item list \<Rightarrow> string \<Rightarrow> client_write" where
  "failed_write x is err c s = (run_commands x is s, Inl err)"

interpretation interleaved: raft_client x "interleaved_write x pre now post" for x pre now post
  by unfold_locales (auto simp: interleaved_write_def)

interpretation failed: raft_client x "failed_write x is err" for x "is" err
  by unfold_locales (auto simp: failed_write_def)

end
