(* ===== verification/Grpc_Types.thy ===== *)
theory Grpc_Types
  imports Pact_Types
begin

text \<open>
  What the gRPC services of the journal exchange: status codes, the messages of
  \<open>proto/pact/config.proto\<close>, \<open>policy.proto\<close>, \<open>journal.proto\<close> and \<open>stream.proto\<close> (an
  \<open>optional\<close> or message-typed field is an option, a \<open>oneof\<close> a datatype under an option,
  signed integers and enum numbers are \<^typ>\<open>int\<close>), and the conversions of timestamps.
\<close>

subsection \<open>Status\<close>

datatype Code =
    InvalidArgument | NotFound | AlreadyExists | PermissionDenied | ResourceExhausted
  | FailedPrecondition | Internal | Unauthenticated | Unimplemented

datatype Status = Status (status_code: Code) (status_message: string)

text \<open>
  The \<open>authorization\<close> header of a request: absent, not a visible ASCII string, or a string.
\<close>

type_synonym auth_header = "string option option"

subsection \<open>Common messages\<close>

record Timestamp =
  ts_seconds :: int
  ts_nanos :: int

record ProtoIdentity =
  pid_principal :: string
  pid_principal_type :: string
  pid_role :: string

datatype ProtoScopeKind =
    ProtoNodeId string
  | ProtoVclusterId string
  | ProtoGlobal bool

type_synonym ProtoScope = "ProtoScopeKind option"

text \<open>
  \<open>timestamp\<close> and \<open>timestamp_subsec_nanos\<close> of a point in time. The way back,
  \<open>DateTime::from_timestamp\<close>, belongs to chrono and is a parameter wherever it is used; a
  point in time \<open>t\<close> is \<open>representable\<close> for it when it gives \<open>t\<close> back.
\<close>

definition timestamp :: "time \<Rightarrow> int" where
  "timestamp t = t div nanos_per_sec"

definition timestamp_subsec_nanos :: "time \<Rightarrow> int" where
  "timestamp_subsec_nanos t = t mod nanos_per_sec"

definition to_timestamp :: "time \<Rightarrow> Timestamp" where
  "to_timestamp t = \<lparr>ts_seconds = timestamp t, ts_nanos = timestamp_subsec_nanos t\<rparr>"

type_synonym from_timestamp = "int \<Rightarrow> u32 \<Rightarrow> time option"

definition representable :: "from_timestamp \<Rightarrow> time \<Rightarrow> bool" where
  "representable from_ts t \<longleftrightarrow>
     from_ts (timestamp t) (word_of_int (timestamp_subsec_nanos t)) = Some t"

text \<open>A conversion under which every point in time is representable.\<close>

definition exact_from_timestamp :: from_timestamp where
  "exact_from_timestamp secs nanos = Some (secs * nanos_per_sec + uint nanos)"

lemma representable_exact: "representable exact_from_timestamp t"
proof -
  have "uint (word_of_int (t mod nanos_per_sec) :: u32) = t mod nanos_per_sec"
  proof -
    have "0 \<le> t mod nanos_per_sec" "t mod nanos_per_sec < 1000000000"
      by (simp_all add: nanos_per_sec_def)
    then show ?thesis by (simp add: uint_word_of_int)
  qed
  then show ?thesis
    by (simp add: representable_def exact_from_timestamp_def timestamp_def timestamp_subsec_nanos_def)
qed

subsection \<open>Policy messages\<close>

record ProtoRoleBinding =
  prb_role :: string
  prb_principals :: "string list"
  prb_allowed_actions :: "string list"

record ProtoVClusterPolicy =
  pvp_vcluster_id :: string
  pvp_policy_id :: string
  pvp_updated_at :: "Timestamp option"
  pvp_drift_sensitivity :: f64_bits
  pvp_base_commit_window_seconds :: u32
  pvp_emergency_window_seconds :: u32
  pvp_auto_converge_categories :: "string list"
  pvp_require_ack_categories :: "string list"
  pvp_enforcement_mode :: string
  pvp_role_bindings :: "ProtoRoleBinding list"
  pvp_regulated :: bool
  pvp_two_person_approval :: bool
  pvp_audit_retention_days :: u32
  pvp_federation_template :: "string option"
  pvp_supervisor_backend :: string
  pvp_exec_whitelist :: "string list"
  pvp_shell_whitelist :: "string list"
  pvp_emergency_allowed :: bool
  pvp_ai_exec_allowed :: bool

record PolicyEvalRequest =
  per_author :: "ProtoIdentity option"
  per_scope :: "ProtoScope option"
  per_action :: string
  per_command :: "string option"

record ApprovalRequired =
  apr_approval_type :: string
  apr_pending_approval_id :: string

record PolicyEvalResponse =
  pev_authorized :: bool
  pev_policy_ref :: string
  pev_denial_reason :: "string option"
  pev_approval :: "ApprovalRequired option"

record UpdatePolicyRequest =
  upr_vcluster_id :: string
  upr_policy :: "ProtoVClusterPolicy option"

record UpdatePolicyResponse =
  upp_success :: bool
  upp_policy_ref :: string
  upp_error :: "string option"

record PendingApprovalEntry =
  pae_approval_id :: string
  pae_action :: string
  pae_scope :: string
  pae_requester :: string
  pae_status :: string
  pae_created_at :: "Timestamp option"
  pae_expires_at :: "Timestamp option"

record DecideApprovalRequest =
  dar_approval_id :: string
  dar_approver :: "ProtoIdentity option"
  dar_decision :: string

record DecideApprovalResponse =
  dap_success :: bool
  dap_error :: "string option"

subsection \<open>Configuration entries\<close>

record MountSpec =
  ms_fs_type :: string
  ms_source :: string
  ms_options :: string
  ms_read_only :: bool

record MountDelta =
  md_path :: string
  md_action :: int
  md_declared :: "MountSpec option"
  md_actual :: "MountSpec option"

record FileDelta =
  fd_path :: string
  fd_action :: int
  fd_content_hash :: "string option"
  fd_mode :: "u32 option"
  fd_owner :: "string option"

record NetworkDelta =
  nd_interface :: string
  nd_action :: int
  nd_detail :: "string option"

record ServiceDelta =
  svd_name :: string
  svd_action :: int
  svd_declared_state :: "string option"
  svd_actual_state :: "string option"

record KernelDelta =
  kd_key :: string
  kd_action :: int
  kd_declared_value :: "string option"
  kd_actual_value :: "string option"

record PackageDelta =
  pkd_name :: string
  pkd_action :: int
  pkd_version :: "string option"

record GpuDelta =
  gd_gpu_index :: u32
  gd_action :: int
  gd_detail :: "string option"

record ProtoStateDelta =
  psd_mounts :: "MountDelta list"
  psd_files :: "FileDelta list"
  psd_network :: "NetworkDelta list"
  psd_services :: "ServiceDelta list"
  psd_kernel :: "KernelDelta list"
  psd_packages :: "PackageDelta list"
  psd_gpu :: "GpuDelta list"

record ProtoDuration =
  dur_seconds :: int
  dur_nanos :: int

record ProtoConfigEntry =
  pce_sequence :: u64
  pce_timestamp :: "Timestamp option"
  pce_entry_type :: int
  pce_scope :: "ProtoScope option"
  pce_author :: "ProtoIdentity option"
  pce_parent :: "u64 option"
  pce_state_delta :: "ProtoStateDelta option"
  pce_policy_ref :: string
  pce_ttl :: "ProtoDuration option"
  pce_emergency_reason :: "string option"

record ListEntriesRequest =
  ler_scope :: "ProtoScope option"
  ler_from_sequence :: "u64 option"
  ler_to_sequence :: "u64 option"
  ler_limit :: "u32 option"

record NodeStateResponse =
  nsr_node_id :: string
  nsr_config_state :: string

record OverlayResponse =
  ovr_vcluster_id :: string
  ovr_version :: u64
  ovr_data :: bytes
  ovr_checksum :: string

subsection \<open>Streams\<close>

datatype UpdateKind =
    VclusterChange bytes
  | NodeChange bytes
  | PolicyChange bytes
  | BlacklistChange bytes

record ConfigUpdate =
  cu_sequence :: u64
  cu_timestamp :: "Timestamp option"
  cu_update :: "UpdateKind option"

end
