(* ===== verification/Policy_Service.thy ===== *)
theory Policy_Service
  imports Policy_Engine Raft_Client Grpc_Types Journal_Properties
begin

text \<open>
  The policy service hosted by the journal, \<open>crates/pact-journal/src/policy_service.rs\<close>: every
  RPC as a function of the journal state, with the Raft write, the OPA client, the fresh id
  and the clock as arguments, and the conversions between policies and their messages.
\<close>

subsection \<open>Conversions\<close>

definition proto_to_identity :: "ProtoIdentity \<Rightarrow> Identity" where
  "proto_to_identity p =
     \<lparr>id_principal = pid_principal p,
      id_principal_type =
        (if pid_principal_type p = ''agent'' then Agent
         else if pid_principal_type p = ''service'' then Service else Human),
      id_role = pid_role p\<rparr>"

definition proto_to_scope :: "ProtoScope \<Rightarrow> Scope" where
  "proto_to_scope p = (case p of
     Some (ProtoNodeId n) \<Rightarrow> Node n
   | Some (ProtoVclusterId vc) \<Rightarrow> VCluster vc
   | Some (ProtoGlobal True) \<Rightarrow> Global
   | _ \<Rightarrow> Global)"

definition make_response :: "bool \<Rightarrow> string \<Rightarrow> string option \<Rightarrow> PolicyEvalResponse" where
  "make_response authorized policy_ref denial_reason =
     \<lparr>pev_authorized = authorized, pev_policy_ref = policy_ref,
      pev_denial_reason = denial_reason, pev_approval = None\<rparr>"

definition policy_ref :: "VClusterPolicy option \<Rightarrow> string \<Rightarrow> string \<Rightarrow> string" where
  "policy_ref policy pre action = (case policy of
     None \<Rightarrow> pre @ '':default:'' @ action
   | Some p \<Rightarrow> pre @ '':'' @ vp_policy_id p @ '':'' @ action)"

definition vcluster_policy_to_proto :: "VClusterPolicy \<Rightarrow> ProtoVClusterPolicy" where
  "vcluster_policy_to_proto p = \<lparr>
     pvp_vcluster_id = vp_vcluster_id p,
     pvp_policy_id = vp_policy_id p,
     pvp_updated_at = map_option to_timestamp (vp_updated_at p),
     pvp_drift_sensitivity = vp_drift_sensitivity p,
     pvp_base_commit_window_seconds = vp_base_commit_window_seconds p,
     pvp_emergency_window_seconds = vp_emergency_window_seconds p,
     pvp_auto_converge_categories = vp_auto_converge_categories p,
     pvp_require_ack_categories = vp_require_ack_categories p,
     pvp_enforcement_mode = vp_enforcement_mode p,
     pvp_role_bindings = map (\<lambda>rb. \<lparr>prb_role = rb_role rb, prb_principals = rb_principals rb,
       prb_allowed_actions = rb_allowed_actions rb\<rparr>) (vp_role_bindings p),
     pvp_regulated = vp_regulated p,
     pvp_two_person_approval = vp_two_person_approval p,
     pvp_audit_retention_days = vp_audit_retention_days p,
     pvp_federation_template = vp_federation_template p,
     pvp_supervisor_backend = vp_supervisor_backend p,
     pvp_exec_whitelist = vp_exec_whitelist p,
     pvp_shell_whitelist = vp_shell_whitelist p,
     pvp_emergency_allowed = vp_emergency_allowed p,
     pvp_ai_exec_allowed = vp_ai_exec_allowed p\<rparr>"

definition proto_to_vcluster_policy :: "from_timestamp \<Rightarrow> ProtoVClusterPolicy \<Rightarrow> VClusterPolicy" where
  "proto_to_vcluster_policy from_ts p = \<lparr>
     vp_vcluster_id = pvp_vcluster_id p,
     vp_policy_id = pvp_policy_id p,
     vp_updated_at = map_option (\<lambda>ts.
       case from_ts (ts_seconds ts) (word_of_int (ts_nanos ts)) of Some t \<Rightarrow> t | None \<Rightarrow> 0)
       (pvp_updated_at p),
     vp_drift_sensitivity = pvp_drift_sensitivity p,
     vp_base_commit_window_seconds = pvp_base_commit_window_seconds p,
     vp_emergency_window_seconds = pvp_emergency_window_seconds p,
     vp_auto_converge_categories = pvp_auto_converge_categories p,
     vp_require_ack_categories = pvp_require_ack_categories p,
     vp_enforcement_mode = pvp_enforcement_mode p,
     vp_role_bindings = map (\<lambda>rb. \<lparr>rb_role = prb_role rb, rb_principals = prb_principals rb,
       rb_allowed_actions = prb_allowed_actions rb\<rparr>) (pvp_role_bindings p),
     vp_regulated = pvp_regulated p,
     vp_two_person_approval = pvp_two_person_approval p,
     vp_emergency_allowed = pvp_emergency_allowed p,
     vp_audit_retention_days = pvp_audit_retention_days p,
     vp_ai_exec_allowed = pvp_ai_exec_allowed p,
     vp_federation_template = pvp_federation_template p,
     vp_supervisor_backend = pvp_supervisor_backend p,
     vp_exec_whitelist = pvp_exec_whitelist p,
     vp_shell_whitelist = pvp_shell_whitelist p\<rparr>"

subsection \<open>Evaluate\<close>

definition evaluate_opa ::
  "opa_client option \<Rightarrow> Identity \<Rightarrow> Scope \<Rightarrow> string \<Rightarrow> string option \<Rightarrow> VClusterPolicy option \<Rightarrow>
   PolicyEvalResponse" where
  "evaluate_opa opa i scope action command policy = (case opa of
     Some client \<Rightarrow>
       (let input = \<lparr>
          opa_identity = \<lparr>oi_principal = id_principal i, oi_role = id_role i,
            oi_principal_type = debug_PrincipalType (id_principal_type i)\<rparr>,
          opa_action = action,
          opa_vcluster = (case scope of VCluster vc \<Rightarrow> vc | Node vc \<Rightarrow> vc | Global \<Rightarrow> []),
          opa_command = command\<rparr>
        in case client input of
             Inr OpaAllow \<Rightarrow> make_response True (policy_ref policy ''opa'' action) None
           | Inr (OpaDeny reason) \<Rightarrow> make_response False (''opa:denied:'' @ action) (Some reason)
           | Inl err \<Rightarrow> make_response True (policy_ref policy ''degraded'' action) None)
   | None \<Rightarrow> make_response True (policy_ref policy ''rbac'' action) None)"

definition request_identity :: "PolicyEvalRequest \<Rightarrow> Identity" where
  "request_identity req = (case per_author req of
     None \<Rightarrow> \<lparr>id_principal = ''anonymous'', id_principal_type = Human, id_role = []\<rparr>
   | Some p \<Rightarrow> proto_to_identity p)"

definition request_scope :: "PolicyEvalRequest \<Rightarrow> Scope" where
  "request_scope req = (case per_scope req of None \<Rightarrow> Global | Some p \<Rightarrow> proto_to_scope p)"

definition lookup_policy :: "JournalState \<Rightarrow> Scope \<Rightarrow> VClusterPolicy option" where
  "lookup_policy s scope = (case scope of
     VCluster vc \<Rightarrow> hm_get (js_policies s) vc | _ \<Rightarrow> None)"

definition pending_approval ::
  "string \<Rightarrow> time \<Rightarrow> PolicyEvalRequest \<Rightarrow> Approval" where
  "pending_approval uuid now req = \<lparr>pa_approval_id = uuid,
     pa_original_request = (case per_command req of Some c \<Rightarrow> c | None \<Rightarrow> per_action req),
     pa_action = per_action req, pa_scope = request_scope req, pa_requester = request_identity req,
     pa_approver = None, pa_status = Pending, pa_created_at = now,
     pa_expires_at = now + seconds (24 * 3600)\<rparr>"

definition raft_write_failed :: "string \<Rightarrow> Status" where
  "raft_write_failed e = Status Internal (''Raft write failed: '' @ e)"

definition svc_evaluate ::
  "client_write \<Rightarrow> opa_client option \<Rightarrow> string \<Rightarrow> time \<Rightarrow> PolicyEvalRequest \<Rightarrow> JournalState \<Rightarrow>
   JournalState \<times> (Status + PolicyEvalResponse)" where
  "svc_evaluate cw opa uuid now req s =
     (let i = request_identity req;
          scope = request_scope req;
          vcluster_policy = lookup_policy s scope;
          policy = (case vcluster_policy of Some p \<Rightarrow> p | None \<Rightarrow> default_policy)
      in case rbac_evaluate i (per_action req) scope policy of
           RbacAllow \<Rightarrow>
             (s, Inr (make_response True (policy_ref vcluster_policy ''rbac'' (per_action req)) None))
         | RbacDeny reason \<Rightarrow>
             (s, Inr (make_response False (''rbac:denied:'' @ per_action req) (Some reason)))
         | RbacDefer \<Rightarrow>
             if vp_two_person_approval policy then
               (case cw (CreateApproval (pending_approval uuid now req)) s of
                  (s', Inl e) \<Rightarrow> (s', Inl (raft_write_failed e))
                | (s', Inr _) \<Rightarrow>
                    (s', Inr ((make_response False (''rbac:deferred:'' @ per_action req) None)
                       \<lparr>pev_approval := Some \<lparr>apr_approval_type = ''two_person'',
                          apr_pending_approval_id = uuid\<rparr>\<rparr>)))
             else (s, Inr (evaluate_opa opa i scope (per_action req) (per_command req) vcluster_policy)))"

subsection \<open>Policies and approvals\<close>

definition svc_get_effective_policy :: "JournalState \<Rightarrow> string \<Rightarrow> Status + ProtoVClusterPolicy" where
  "svc_get_effective_policy s vc = (case hm_get (js_policies s) vc of
     None \<Rightarrow> Inl (Status NotFound (''policy for '' @ vc @ '' not found''))
   | Some p \<Rightarrow> Inr (vcluster_policy_to_proto p))"

definition svc_update_policy ::
  "client_write \<Rightarrow> from_timestamp \<Rightarrow> UpdatePolicyRequest \<Rightarrow> JournalState \<Rightarrow>
   JournalState \<times> (Status + UpdatePolicyResponse)" where
  "svc_update_policy cw from_ts req s = (case upr_policy req of
     None \<Rightarrow> (s, Inl (Status InvalidArgument ''policy required''))
   | Some proto \<Rightarrow>
       (case cw (SetPolicy (upr_vcluster_id req) (proto_to_vcluster_policy from_ts proto)) s of
          (s', Inl e) \<Rightarrow> (s', Inl (raft_write_failed e))
        | (s', Inr RespOk) \<Rightarrow>
            (s', Inr \<lparr>upp_success = True, upp_policy_ref = ''policy:'' @ upr_vcluster_id req,
                      upp_error = None\<rparr>)
        | (s', Inr (ValidationError reason)) \<Rightarrow>
            (s', Inr \<lparr>upp_success = False, upp_policy_ref = [], upp_error = Some reason\<rparr>)
        | (s', Inr _) \<Rightarrow> (s', Inl (Status Internal ''unexpected response for UpdatePolicy''))))"

definition approval_in_scope :: "string option \<Rightarrow> Approval \<Rightarrow> bool" where
  "approval_in_scope scope_filter a = (case scope_filter of
     Some f \<Rightarrow> (case pa_scope a of VCluster vc \<Rightarrow> vc = f | _ \<Rightarrow> f = [])
   | None \<Rightarrow> True)"

definition approval_entry :: "Approval \<Rightarrow> PendingApprovalEntry" where
  "approval_entry a = \<lparr>
     pae_approval_id = pa_approval_id a,
     pae_action = pa_action a,
     pae_scope = (case pa_scope a of Global \<Rightarrow> ''global'' | VCluster vc \<Rightarrow> ''vc:'' @ vc
       | Node n \<Rightarrow> ''node:'' @ n),
     pae_requester = id_principal (pa_requester a),
     pae_status = debug_ApprovalStatus (pa_status a),
     pae_created_at = Some \<lparr>ts_seconds = timestamp (pa_created_at a), ts_nanos = 0\<rparr>,
     pae_expires_at = Some \<lparr>ts_seconds = timestamp (pa_expires_at a), ts_nanos = 0\<rparr>\<rparr>"

definition svc_list_pending_approvals :: "JournalState \<Rightarrow> string option \<Rightarrow> PendingApprovalEntry list" where
  "svc_list_pending_approvals s scope_filter =
     map approval_entry (filter (approval_in_scope scope_filter) (hm_values (js_pending_approvals s)))"

definition parse_decision :: "string \<Rightarrow> Status + ApprovalStatus" where
  "parse_decision d =
     (if d = ''approved'' then Inr Approved
      else if d = ''rejected'' then Inr Rejected
      else Inl (Status InvalidArgument (''invalid decision '' @ squote @ d @ squote @
        '', must be '' @ squote @ ''approved'' @ squote @ '' or '' @ squote @ ''rejected'' @ squote)))"

definition svc_decide_approval ::
  "client_write \<Rightarrow> DecideApprovalRequest \<Rightarrow> JournalState \<Rightarrow>
   JournalState \<times> (Status + DecideApprovalResponse)" where
  "svc_decide_approval cw req s = (case dar_approver req of
     None \<Rightarrow> (s, Inl (Status InvalidArgument ''approver identity required''))
   | Some p \<Rightarrow>
       (case parse_decision (dar_decision req) of
          Inl e \<Rightarrow> (s, Inl e)
        | Inr decision \<Rightarrow>
            (case cw (DecideApproval (dar_approval_id req) (proto_to_identity p) decision) s of
               (s', Inl e) \<Rightarrow> (s', Inl (raft_write_failed e))
             | (s', Inr RespOk) \<Rightarrow> (s', Inr \<lparr>dap_success = True, dap_error = None\<rparr>)
             | (s', Inr (ValidationError reason)) \<Rightarrow>
                 (s', Inr \<lparr>dap_success = False, dap_error = Some reason\<rparr>)
             | (s', Inr _) \<Rightarrow> (s', Inl (Status Internal ''unexpected response for DecideApproval'')))))"

text \<open>An approval attempt by \<open>w\<close> through the RPC, with nothing interleaved.\<close>

definition proto_of_identity :: "Identity \<Rightarrow> ProtoIdentity" where
  "proto_of_identity i = \<lparr>pid_principal = id_principal i,
     pid_principal_type = (case id_principal_type i of Agent \<Rightarrow> ''agent'' | Service \<Rightarrow> ''service''
       | Human \<Rightarrow> ''human''),
     pid_role = id_role i\<rparr>"

definition rpc_grant :: "Ext \<Rightarrow> time \<Rightarrow> string \<Rightarrow> Identity \<Rightarrow> JournalState \<Rightarrow> JournalState \<times> bool" where
  "rpc_grant x now i w s =
     (case svc_decide_approval (interleaved_write x [] now [])
        \<lparr>dar_approval_id = i, dar_approver = Some (proto_of_identity w),
         dar_decision = ''approved''\<rparr> s of
        (s', Inr r) \<Rightarrow> (s', dap_success r)
      | (s', Inl e) \<Rightarrow> (s', False))"

definition sample_eval_request :: PolicyEvalRequest where
  "sample_eval_request = \<lparr>per_author = Some \<lparr>pid_principal = ''eve'', pid_principal_type = ''human'',
       pid_role = ''pact-regulated-hipaa''\<rparr>,
     per_scope = Some (Some (ProtoVclusterId ''hipaa'')), per_action = ''commit'', per_command = None\<rparr>"

definition sample_policies :: JournalState where
  "sample_policies = default_state\<lparr>js_policies :=
     [(''hipaa'', default_policy\<lparr>vp_two_person_approval := True\<rparr>)]\<rparr>"

subsection \<open>Lemmas\<close>

lemma proto_of_identity [simp]: "proto_to_identity (proto_of_identity i) = i"
  by (cases i) (simp add: proto_to_identity_def proto_of_identity_def split: PrincipalType.splits)

lemma decide_approval_response:
  obtains "snd (decide_approval i w d s) = RespOk"
  | m where "snd (decide_approval i w d s) = ValidationError m" "fst (decide_approval i w d s) = s"
proof -
  have "snd (decide_approval i w d s) = RespOk \<or>
    (\<exists>m. snd (decide_approval i w d s) = ValidationError m \<and> fst (decide_approval i w d s) = s)"
    by (simp add: decide_approval_def split: option.split)
  then show thesis using that by blast
qed

lemma rpc_grant_eq:
  "rpc_grant x now i w s =
     (fst (decide_approval i w Approved s), snd (decide_approval i w Approved s) = RespOk)"
  by (cases rule: decide_approval_response [of i w Approved s])
    (simp_all add: rpc_grant_def svc_decide_approval_def parse_decision_def interleaved_write_def
      apply_item_def)

interpretation journal_approvals:
  approval_store "\<lambda>s. hm_get (js_pending_approvals s)" "rpc_grant x" for x
  by unfold_locales
    (auto simp: rpc_grant_eq decide_approval_def split: option.splits if_splits)

lemma svc_evaluate_deferred:
  assumes "rbac_evaluate (request_identity req) (per_action req) (request_scope req)
      (case lookup_policy s (request_scope req) of Some p \<Rightarrow> p | None \<Rightarrow> default_policy) = RbacDefer"
  shows "svc_evaluate cw opa uuid now req s =
    (case cw (CreateApproval (pending_approval uuid now req)) s of
       (s', Inl e) \<Rightarrow> (s', Inl (raft_write_failed e))
     | (s', Inr _) \<Rightarrow>
         (s', Inr ((make_response False (''rbac:deferred:'' @ per_action req) None)
            \<lparr>pev_approval := Some \<lparr>apr_approval_type = ''two_person'',
               apr_pending_approval_id = uuid\<rparr>\<rparr>)))"
proof -
  have "vp_two_person_approval
      (case lookup_policy s (request_scope req) of Some p \<Rightarrow> p | None \<Rightarrow> default_policy)"
    using assms unfolding rbac_evaluate_defer by blast
  with assms show ?thesis
    by (simp add: svc_evaluate_def Let_def split: prod.split sum.split)
qed

lemma svc_evaluate_decided:
  assumes "rbac_evaluate (request_identity req) (per_action req) (request_scope req)
      (case lookup_policy s (request_scope req) of Some p \<Rightarrow> p | None \<Rightarrow> default_policy) = d"
    "d \<noteq> RbacDefer"
  shows "\<exists>resp. svc_evaluate cw opa uuid now req s = (s, Inr resp) \<and>
    pev_authorized resp = (d = RbacAllow) \<and> pev_approval resp = None"
  using assms by (cases d) (simp_all add: svc_evaluate_def make_response_def Let_def)

subsection \<open>Properties\<close>

text \<open>
  The answer of the policy service is the RBAC decision under the policy it looked up:
  authorized exactly if RBAC allows (whatever OPA client is attached), with the journal
  untouched; a pending approval exactly if RBAC defers, and then the journal was handed one new
  pending request of this requester that expires after 24 hours, applied among the commands of
  other clients.
\<close>

theorem svc_evaluate_sound:
  assumes "raft_client x cw"
    and "svc_evaluate cw opa uuid now req s = (s', Inr resp)"
    and "d = rbac_evaluate (request_identity req) (per_action req) (request_scope req)
      (case lookup_policy s (request_scope req) of Some p \<Rightarrow> p | None \<Rightarrow> default_policy)"
  shows "pev_authorized resp = (d = RbacAllow) \<and>
    (pev_approval resp \<noteq> None) = (d = RbacDefer) \<and>
    (d \<noteq> RbacDefer \<longrightarrow> s' = s) \<and>
    (d = RbacDefer \<longrightarrow> (\<exists>pre t post.
       s' = run_commands x (pre @ (t, CreateApproval (pending_approval uuid now req)) # post) s))"
proof (cases "d = RbacDefer")
  case True
  with assms(3) have "rbac_evaluate (request_identity req) (per_action req) (request_scope req)
      (case lookup_policy s (request_scope req) of Some p \<Rightarrow> p | None \<Rightarrow> default_policy) = RbacDefer"
    by simp
  from svc_evaluate_deferred [OF this, of cw opa uuid now] assms(2) obtain r
    where "cw (CreateApproval (pending_approval uuid now req)) s = (s', Inr r)"
      and resp: "\<not> pev_authorized resp" "pev_approval resp \<noteq> None"
    by (auto simp: make_response_def split: prod.splits sum.splits)
  with raft_client.write_ok [OF assms(1)] True show ?thesis by blast
next
  case False
  from svc_evaluate_decided [OF assms(3) [symmetric] False, of cw opa uuid now] assms(2) False
  show ?thesis by auto
qed

theorem svc_evaluate_sound_witness:
  "\<exists>resp. svc_evaluate (interleaved_write sample_ext [] 0 []) None ''u1'' 0 sample_eval_request sample_policies =
     (run_commands sample_ext [(0, CreateApproval (pending_approval ''u1'' 0 sample_eval_request))] sample_policies,
      Inr resp) \<and> \<not> pev_authorized resp \<and> pev_approval resp \<noteq> None"
proof -
  have d: "RbacDefer = rbac_evaluate (request_identity sample_eval_request) (per_action sample_eval_request)
      (request_scope sample_eval_request)
      (case lookup_policy sample_policies (request_scope sample_eval_request) of
         Some p \<Rightarrow> p | None \<Rightarrow> default_policy)"
    unfolding eq_commute [of RbacDefer] rbac_evaluate_defer
    by (simp add: sample_eval_request_def request_identity_def request_scope_def proto_to_scope_def
        proto_to_identity_def scope_id_def lookup_policy_def sample_policies_def hm_get_def
        WRITE_ACTIONS_def COMMIT_def)
  obtain resp where "svc_evaluate (interleaved_write sample_ext [] 0 []) None ''u1'' 0 sample_eval_request sample_policies =
     (run_commands sample_ext [(0, CreateApproval (pending_approval ''u1'' 0 sample_eval_request))] sample_policies,
      Inr resp)"
    unfolding svc_evaluate_deferred [OF d [symmetric]] by (simp add: interleaved_write_def)
  with svc_evaluate_sound [OF interleaved.raft_client_axioms this d] show ?thesis by blast
qed

text \<open>
  C21. Approving through the RPC obeys the same contract as the engine: in any sequence of
  approval requests each approval is granted at most once, never by its requester.
\<close>

theorem rpc_granted_once:
  assumes "hm_get (js_pending_approvals s) i = Some a"
  shows "successes i rs (snd (run_grants (rpc_grant x) rs s)) = [] \<or>
    (\<exists>now w. successes i rs (snd (run_grants (rpc_grant x) rs s)) = [(now, i, w)] \<and>
       pa_status a = Pending \<and> id_principal w \<noteq> id_principal (pa_requester a))"
  by (rule journal_approvals.grants_two_person [OF assms])

theorem rpc_granted_once_witness:
  "successes ''u1'' [(9, ''u1'', regulated_eve), (9, ''u1'', regulated_eve\<lparr>id_principal := ''bob''\<rparr>)]
     (snd (run_grants (rpc_grant sample_ext)
        [(9, ''u1'', regulated_eve), (9, ''u1'', regulated_eve\<lparr>id_principal := ''bob''\<rparr>)]
        (default_state\<lparr>js_pending_approvals := [(''u1'', pending_approval ''u1'' 0 sample_eval_request)]\<rparr>)))
   = [(9, ''u1'', regulated_eve\<lparr>id_principal := ''bob''\<rparr>)]"
  using rpc_granted_once [of "default_state\<lparr>js_pending_approvals :=
      [(''u1'', pending_approval ''u1'' 0 sample_eval_request)]\<rparr>" "''u1''"
      "pending_approval ''u1'' 0 sample_eval_request"
      "[(9, ''u1'', regulated_eve), (9, ''u1'', regulated_eve\<lparr>id_principal := ''bob''\<rparr>)]" sample_ext]
  by (simp add: rpc_grant_eq decide_approval_def hm_get_def hm_insert_def pending_approval_def
      sample_eval_request_def request_identity_def proto_to_identity_def regulated_eve_def
      successes_def)

text \<open>
  Policies survive the trip over the wire: reading back the message of a policy gives the
  policy itself, for every time of update that chrono can represent.
\<close>

theorem policy_proto_roundtrip:
  assumes "\<forall>t. vp_updated_at p = Some t \<longrightarrow> representable from_ts t"
  shows "proto_to_vcluster_policy from_ts (vcluster_policy_to_proto p) = p"
proof -
  have bindings: "map ((\<lambda>rb. \<lparr>rb_role = prb_role rb, rb_principals = prb_principals rb,
      rb_allowed_actions = prb_allowed_actions rb\<rparr>) \<circ> (\<lambda>rb. \<lparr>prb_role = rb_role rb,
      prb_principals = rb_principals rb, prb_allowed_actions = rb_allowed_actions rb\<rparr>)) bs = bs"
    for bs by (induction bs) auto
  show ?thesis
    using assms
    by (cases "vp_updated_at p")
      (simp_all add: proto_to_vcluster_policy_def vcluster_policy_to_proto_def to_timestamp_def
        representable_def bindings)
qed

theorem policy_proto_roundtrip_witness:
  "proto_to_vcluster_policy exact_from_timestamp
     (vcluster_policy_to_proto (default_policy\<lparr>vp_updated_at := Some 1700000000123456789\<rparr>)) =
   default_policy\<lparr>vp_updated_at := Some 1700000000123456789\<rparr>"
  by (rule policy_proto_roundtrip) (simp add: representable_exact)

end
