(* ===== verification/Config_Service.thy ===== *)
theory Config_Service
  imports Raft_Client Grpc_Types Rust_Numbers Journal_Properties
begin

text \<open>
  The configuration service of the journal, \<open>crates/pact-journal/src/service.rs\<close>: appending
  through Raft with the notification of subscribers, the reads from the local state, and the
  conversions between entries and their messages. \<open>serde_json::to_vec\<close> is the parameter
  \<open>to_json\<close>.
\<close>

subsection \<open>Messages to entries\<close>

definition kind_to_scope :: "ProtoScopeKind \<Rightarrow> Scope" where
  "kind_to_scope k = (case k of ProtoNodeId n \<Rightarrow> Node n | ProtoVclusterId v \<Rightarrow> VCluster v
     | ProtoGlobal _ \<Rightarrow> Global)"

definition entry_type_of_int :: "int \<Rightarrow> EntryType option" where
  "entry_type_of_int n =
     (if n = 1 then Some Commit
      else if n = 2 then Some Rollback
      else if n = 3 then Some AutoConverge
      else if n = 4 then Some DriftDetected
      else if n = 5 then Some CapabilityChange
      else if n = 6 then Some PolicyUpdate
      else if n = 7 then Some BootConfig
      else if n = 8 then Some EmergencyStart
      else if n = 9 then Some EmergencyEnd
      else if n = 10 then Some ExecLog
      else if n = 11 then Some ShellSession
      else if n = 12 then Some ServiceLifecycle
      else if n = 13 then Some PendingApproval
      else None)"

definition proto_action :: "int \<Rightarrow> DeltaAction" where
  "proto_action a = (if a = 1 then Add else if a = 2 then Remove else if a = 3 then Modify else Modify)"

definition mount_value :: "MountSpec \<Rightarrow> string" where
  "mount_value m = ms_fs_type m @ '':'' @ ms_source m @ '' ('' @ ms_options m @ '')''"

definition proto_to_state_delta :: "ProtoStateDelta \<Rightarrow> StateDelta" where
  "proto_to_state_delta p = \<lparr>
     sd_mounts = map (\<lambda>m. \<lparr>di_action = proto_action (md_action m), di_key = md_path m,
       di_value = map_option mount_value (md_declared m),
       di_previous = map_option mount_value (md_actual m)\<rparr>) (psd_mounts p),
     sd_files = map (\<lambda>f. \<lparr>di_action = proto_action (fd_action f), di_key = fd_path f,
       di_value = fd_content_hash f, di_previous = fd_owner f\<rparr>) (psd_files p),
     sd_network = map (\<lambda>n. \<lparr>di_action = proto_action (nd_action n), di_key = nd_interface n,
       di_value = nd_detail n, di_previous = None\<rparr>) (psd_network p),
     sd_services = map (\<lambda>v. \<lparr>di_action = proto_action (svd_action v), di_key = svd_name v,
       di_value = svd_declared_state v, di_previous = svd_actual_state v\<rparr>) (psd_services p),
     sd_kernel = map (\<lambda>k. \<lparr>di_action = proto_action (kd_action k), di_key = kd_key k,
       di_value = kd_declared_value k, di_previous = kd_actual_value k\<rparr>) (psd_kernel p),
     sd_packages = map (\<lambda>q. \<lparr>di_action = proto_action (pkd_action q), di_key = pkd_name q,
       di_value = pkd_version q, di_previous = None\<rparr>) (psd_packages p),
     sd_gpu = map (\<lambda>g. \<lparr>di_action = proto_action (gd_action g),
       di_key = show_nat (unat (gd_gpu_index g)), di_value = gd_detail g, di_previous = None\<rparr>) (psd_gpu p)\<rparr>"

definition proto_principal_type :: "string \<Rightarrow> PrincipalType" where
  "proto_principal_type t =
     (if t = ''agent'' \<or> t = ''Agent'' then Agent
      else if t = ''service'' \<or> t = ''Service'' then Service else Human)"

definition proto_to_config_entry :: "time \<Rightarrow> ProtoConfigEntry \<Rightarrow> Status + ConfigEntry" where
  "proto_to_config_entry now p = (case pce_author p of
     None \<Rightarrow> Inl (Status InvalidArgument ''author required'')
   | Some author \<Rightarrow>
       (case entry_type_of_int (pce_entry_type p) of
          None \<Rightarrow> Inl (Status InvalidArgument ''unknown entry type'')
        | Some entry_type \<Rightarrow> Inr \<lparr>
            ce_sequence = pce_sequence p,
            ce_timestamp = now,
            ce_entry_type = entry_type,
            ce_scope = (case pce_scope p of Some (Some k) \<Rightarrow> kind_to_scope k | _ \<Rightarrow> Global),
            ce_author = \<lparr>id_principal = pid_principal author,
              id_principal_type = proto_principal_type (pid_principal_type author),
              id_role = pid_role author\<rparr>,
            ce_parent = pce_parent p,
            ce_state_delta = map_option proto_to_state_delta (pce_state_delta p),
            ce_policy_ref = (if pce_policy_ref p = [] then None else Some (pce_policy_ref p)),
            ce_ttl_seconds = map_option (\<lambda>d. word_of_int (dur_seconds d)) (pce_ttl p),
            ce_emergency_reason = pce_emergency_reason p\<rparr>))"

subsection \<open>Entries to messages\<close>

primrec entry_type_to_int :: "EntryType \<Rightarrow> int" where
  "entry_type_to_int Commit = 1"
| "entry_type_to_int Rollback = 2"
| "entry_type_to_int AutoConverge = 3"
| "entry_type_to_int DriftDetected = 4"
| "entry_type_to_int CapabilityChange = 5"
| "entry_type_to_int PolicyUpdate = 6"
| "entry_type_to_int BootConfig = 7"
| "entry_type_to_int EmergencyStart = 8"
| "entry_type_to_int EmergencyEnd = 9"
| "entry_type_to_int ExecLog = 10"
| "entry_type_to_int ShellSession = 11"
| "entry_type_to_int ServiceLifecycle = 12"
| "entry_type_to_int PendingApproval = 13"
| "entry_type_to_int NodeEnrolled = 14"
| "entry_type_to_int NodeActivated = 15"
| "entry_type_to_int NodeDeactivated = 16"
| "entry_type_to_int NodeDecommissioned = 17"
| "entry_type_to_int NodeAssigned = 18"
| "entry_type_to_int NodeUnassigned = 19"
| "entry_type_to_int CertSigned = 20"
| "entry_type_to_int CertRevoked = 21"

primrec domain_action :: "DeltaAction \<Rightarrow> int" where
  "domain_action Add = 1"
| "domain_action Remove = 2"
| "domain_action Modify = 3"

definition gpu_index :: "string \<Rightarrow> u32" where
  "gpu_index key = (case parse_unsigned (2 ^ 32) key of Some n \<Rightarrow> of_nat n | None \<Rightarrow> 0)"

definition state_delta_to_proto :: "StateDelta \<Rightarrow> ProtoStateDelta" where
  "state_delta_to_proto d = \<lparr>
     psd_mounts = map (\<lambda>m. \<lparr>md_path = di_key m, md_action = domain_action (di_action m),
       md_declared = None, md_actual = None\<rparr>) (sd_mounts d),
     psd_files = map (\<lambda>f. \<lparr>fd_path = di_key f, fd_action = domain_action (di_action f),
       fd_content_hash = di_value f, fd_mode = None, fd_owner = di_previous f\<rparr>) (sd_files d),
     psd_network = map (\<lambda>n. \<lparr>nd_interface = di_key n, nd_action = domain_action (di_action n),
       nd_detail = di_value n\<rparr>) (sd_network d),
     psd_services = map (\<lambda>v. \<lparr>svd_name = di_key v, svd_action = domain_action (di_action v),
       svd_declared_state = di_value v, svd_actual_state = di_previous v\<rparr>) (sd_services d),
     psd_kernel = map (\<lambda>k. \<lparr>kd_key = di_key k, kd_action = domain_action (di_action k),
       kd_declared_value = di_value k, kd_actual_value = di_previous k\<rparr>) (sd_kernel d),
     psd_packages = map (\<lambda>p. \<lparr>pkd_name = di_key p, pkd_action = domain_action (di_action p),
       pkd_version = di_value p\<rparr>) (sd_packages d),
     psd_gpu = map (\<lambda>g. \<lparr>gd_gpu_index = gpu_index (di_key g), gd_action = domain_action (di_action g),
       gd_detail = di_value g\<rparr>) (sd_gpu d)\<rparr>"

definition scope_to_proto :: "Scope \<Rightarrow> ProtoScope" where
  "scope_to_proto sc = (case sc of Global \<Rightarrow> Some (ProtoGlobal True)
     | VCluster v \<Rightarrow> Some (ProtoVclusterId v) | Node n \<Rightarrow> Some (ProtoNodeId n))"

definition config_entry_to_proto :: "ConfigEntry \<Rightarrow> ProtoConfigEntry" where
  "config_entry_to_proto e = \<lparr>
     pce_sequence = ce_sequence e,
     pce_timestamp = Some (to_timestamp (ce_timestamp e)),
     pce_entry_type = entry_type_to_int (ce_entry_type e),
     pce_scope = Some (scope_to_proto (ce_scope e)),
     pce_author = Some \<lparr>pid_principal = id_principal (ce_author e),
       pid_principal_type = debug_PrincipalType (id_principal_type (ce_author e)),
       pid_role = id_role (ce_author e)\<rparr>,
     pce_parent = ce_parent e,
     pce_state_delta = map_option state_delta_to_proto (ce_state_delta e),
     pce_policy_ref = (case ce_policy_ref e of Some r \<Rightarrow> r | None \<Rightarrow> []),
     pce_ttl = map_option (\<lambda>t. \<lparr>dur_seconds = uint t, dur_nanos = 0\<rparr>) (ce_ttl_seconds e),
     pce_emergency_reason = ce_emergency_reason e\<rparr>"

subsection \<open>The RPCs\<close>

definition entry_update :: "(ConfigEntry \<Rightarrow> bytes) \<Rightarrow> EntrySeq \<Rightarrow> ConfigEntry \<Rightarrow> ConfigUpdate" where
  "entry_update to_json seq e = \<lparr>cu_sequence = seq, cu_timestamp = Some (to_timestamp (ce_timestamp e)),
     cu_update = Some (VclusterChange (to_json e))\<rparr>"

text \<open>The result carries the notifications sent to subscribers.\<close>

definition svc_append_entry ::
  "client_write \<Rightarrow> (ConfigEntry \<Rightarrow> bytes) \<Rightarrow> time \<Rightarrow> ProtoConfigEntry option \<Rightarrow> JournalState \<Rightarrow>
   JournalState \<times> ConfigUpdate list \<times> (Status + EntrySeq)" where
  "svc_append_entry cw to_json now req s = (case req of
     None \<Rightarrow> (s, [], Inl (Status InvalidArgument ''entry required''))
   | Some proto \<Rightarrow>
       (case proto_to_config_entry now proto of
          Inl e \<Rightarrow> (s, [], Inl e)
        | Inr entry \<Rightarrow>
            (case cw (AppendEntry entry) s of
               (s', Inl e) \<Rightarrow> (s', [], Inl (Status Internal (''Raft write failed: '' @ e)))
             | (s', Inr (EntryAppended seq)) \<Rightarrow>
                 (s', (case bt_get (js_entries s') seq of
                         Some e \<Rightarrow> [entry_update to_json seq e] | None \<Rightarrow> []), Inr seq)
             | (s', Inr (ValidationError reason)) \<Rightarrow> (s', [], Inl (Status FailedPrecondition reason))
             | (s', Inr _) \<Rightarrow>
                 (s', [], Inl (Status Internal ''unexpected response for AppendEntry'')))))"

definition svc_get_entry :: "JournalState \<Rightarrow> EntrySeq \<Rightarrow> Status + ProtoConfigEntry" where
  "svc_get_entry s seq = (case bt_get (js_entries s) seq of
     None \<Rightarrow> Inl (Status NotFound (''entry '' @ show_nat (unat seq) @ '' not found''))
   | Some e \<Rightarrow> Inr (config_entry_to_proto e))"

definition svc_get_node_state :: "JournalState \<Rightarrow> NodeId \<Rightarrow> Status + NodeStateResponse" where
  "svc_get_node_state s n = (case hm_get (js_node_states s) n of
     None \<Rightarrow> Inl (Status NotFound (''node '' @ n @ '' not found''))
   | Some st \<Rightarrow> Inr \<lparr>nsr_node_id = n, nsr_config_state = debug_ConfigState st\<rparr>)"

text \<open>
  \<open>BTreeMap::range(from..=to)\<close> panics when \<open>from > to\<close>: the result \<^const>\<open>None\<close>. Otherwise the
  stream delivers the matching entries in order.
\<close>

definition scope_filter :: "ListEntriesRequest \<Rightarrow> Scope option" where
  "scope_filter req = (case ler_scope req of Some (Some k) \<Rightarrow> Some (kind_to_scope k) | _ \<Rightarrow> None)"

definition svc_list_entries :: "JournalState \<Rightarrow> ListEntriesRequest \<Rightarrow> ProtoConfigEntry list option" where
  "svc_list_entries s req =
     (let from = (case ler_from_sequence req of Some n \<Rightarrow> n | None \<Rightarrow> 0);
          to = (case ler_to_sequence req of Some n \<Rightarrow> n | None \<Rightarrow> - 1);
          limit = unat (case ler_limit req of Some n \<Rightarrow> n | None \<Rightarrow> - 1)
      in if from > to then None
         else Some (map (\<lambda>(_, e). config_entry_to_proto e)
           (take limit
             (filter (\<lambda>(_, e). case scope_filter req of None \<Rightarrow> True | Some f \<Rightarrow> ce_scope e = f)
               (filter (\<lambda>(k, _). from \<le> k \<and> k \<le> to) (js_entries s))))))"

definition svc_get_overlay :: "JournalState \<Rightarrow> VClusterId \<Rightarrow> Status + OverlayResponse" where
  "svc_get_overlay s vc = (case hm_get (js_overlays s) vc of
     None \<Rightarrow> Inl (Status NotFound (''overlay for '' @ vc @ '' not found''))
   | Some ov \<Rightarrow> Inr \<lparr>ovr_vcluster_id = vc, ovr_version = bo_version ov, ovr_data = bo_data ov,
                   ovr_checksum = bo_checksum ov\<rparr>)"

subsection \<open>What the messages can carry\<close>

definition no_values :: "DeltaItem \<Rightarrow> bool" where
  "no_values d \<longleftrightarrow> di_value d = None \<and> di_previous d = None"

definition no_previous :: "DeltaItem \<Rightarrow> bool" where
  "no_previous d \<longleftrightarrow> di_previous d = None"

definition gpu_key :: "DeltaItem \<Rightarrow> bool" where
  "gpu_key d \<longleftrightarrow> (\<exists>n < 2 ^ 32. di_key d = show_nat n)"

definition wire_delta :: "StateDelta \<Rightarrow> bool" where
  "wire_delta d \<longleftrightarrow> list_all no_values (sd_mounts d) \<and> list_all no_previous (sd_network d) \<and>
     list_all no_previous (sd_packages d) \<and> list_all no_previous (sd_gpu d) \<and>
     list_all gpu_key (sd_gpu d)"

definition wire_entry :: "ConfigEntry \<Rightarrow> bool" where
  "wire_entry e \<longleftrightarrow> entry_type_to_int (ce_entry_type e) \<le> 13 \<and> ce_policy_ref e \<noteq> Some [] \<and>
     (case ce_state_delta e of None \<Rightarrow> True | Some d \<Rightarrow> wire_delta d)"

text \<open>What is left of a state delta and of an entry after the trip.\<close>

definition wire_state :: "StateDelta \<Rightarrow> StateDelta" where
  "wire_state d = d\<lparr>
     sd_mounts := map (\<lambda>i. i\<lparr>di_value := None, di_previous := None\<rparr>) (sd_mounts d),
     sd_network := map (\<lambda>i. i\<lparr>di_previous := None\<rparr>) (sd_network d),
     sd_packages := map (\<lambda>i. i\<lparr>di_previous := None\<rparr>) (sd_packages d),
     sd_gpu := map (\<lambda>i. i\<lparr>di_key := show_nat (unat (gpu_index (di_key i))), di_previous := None\<rparr>) (sd_gpu d)\<rparr>"

definition wire_image :: "time \<Rightarrow> ConfigEntry \<Rightarrow> ConfigEntry" where
  "wire_image now e = e\<lparr>ce_timestamp := now, ce_state_delta := map_option wire_state (ce_state_delta e),
     ce_policy_ref := (if ce_policy_ref e = Some [] then None else ce_policy_ref e)\<rparr>"

definition sample_delta :: StateDelta where
  "sample_delta = \<lparr>sd_mounts = [], sd_files = [], sd_network = [], sd_services = [],
     sd_kernel = [\<lparr>di_action = Modify, di_key = ''vm.swappiness'', di_value = Some ''10'',
       di_previous = Some ''60''\<rparr>],
     sd_packages = [], sd_gpu = [\<lparr>di_action = Add, di_key = show_nat 3, di_value = None,
       di_previous = None\<rparr>]\<rparr>"

definition range_request :: "EntrySeq \<Rightarrow> EntrySeq \<Rightarrow> ProtoScope option \<Rightarrow> ListEntriesRequest" where
  "range_request a b sc = \<lparr>ler_scope = sc, ler_from_sequence = Some a, ler_to_sequence = Some b,
     ler_limit = None\<rparr>"

subsection \<open>Lemmas\<close>

lemma proto_action_domain [simp]: "proto_action (domain_action a) = a"
  by (cases a) (simp_all add: proto_action_def)

lemma gpu_index_show [simp]: "n < 2 ^ 32 \<Longrightarrow> show_nat (unat (gpu_index (show_nat n))) = show_nat n"
  by (simp add: gpu_index_def unat_of_nat)

lemma entry_type_roundtrip:
  "entry_type_to_int t \<le> 13 \<Longrightarrow> entry_type_of_int (entry_type_to_int t) = Some t"
  by (cases t) (simp_all add: entry_type_of_int_def)

lemma entry_type_rejected:
  "entry_type_to_int t > 13 \<Longrightarrow> entry_type_of_int (entry_type_to_int t) = None"
  by (cases t) (simp_all add: entry_type_of_int_def)

lemma scope_roundtrip:
  "(case scope_to_proto sc of Some k \<Rightarrow> kind_to_scope k | None \<Rightarrow> Global) = sc"
  by (cases sc) (simp_all add: scope_to_proto_def kind_to_scope_def)

lemma principal_type_roundtrip [simp]: "proto_principal_type (debug_PrincipalType t) = t"
  by (cases t) (simp_all add: proto_principal_type_def)

lemma item_forms:
  "\<lparr>di_action = di_action i, di_key = k, di_value = v, di_previous = p\<rparr> =
     i\<lparr>di_key := k, di_value := v, di_previous := p\<rparr>"
  "i\<lparr>di_key := di_key i\<rparr> = i" "i\<lparr>di_value := di_value i\<rparr> = i" "i\<lparr>di_previous := di_previous i\<rparr> = i"
  by (cases i; simp)+

lemma state_delta_image: "proto_to_state_delta (state_delta_to_proto d) = wire_state d"
  by (cases d) (simp add: proto_to_state_delta_def state_delta_to_proto_def wire_state_def o_def item_forms)

lemma map_same_iff: "map f xs = xs \<longleftrightarrow> list_all (\<lambda>x. f x = x) xs"
  by (induction xs) simp_all

lemma item_same_iff:
  "i\<lparr>di_value := None, di_previous := None\<rparr> = i \<longleftrightarrow> no_values i"
  "i\<lparr>di_previous := None\<rparr> = i \<longleftrightarrow> no_previous i"
  "i\<lparr>di_key := k, di_previous := None\<rparr> = i \<longleftrightarrow> di_key i = k \<and> no_previous i"
  by (cases i; auto simp: no_values_def no_previous_def)+

lemma gpu_key_iff: "di_key i = show_nat (unat (gpu_index (di_key i))) \<longleftrightarrow> gpu_key i"
proof
  assume "di_key i = show_nat (unat (gpu_index (di_key i)))"
  moreover have "unat (gpu_index (di_key i)) < 2 ^ 32"
    using unsigned_less [of "gpu_index (di_key i)"] by simp
  ultimately show "gpu_key i"
    unfolding gpu_key_def by blast
qed (auto simp: gpu_key_def)

lemma wire_state_same: "wire_state d = d \<longleftrightarrow> wire_delta d"
proof -
  have "wire_state d = d \<longleftrightarrow> sd_mounts (wire_state d) = sd_mounts d \<and> sd_network (wire_state d) = sd_network d \<and>
      sd_packages (wire_state d) = sd_packages d \<and> sd_gpu (wire_state d) = sd_gpu d"
    by (cases d) (auto simp: wire_state_def)
  also have "\<dots> \<longleftrightarrow> wire_delta d"
    by (simp add: wire_state_def wire_delta_def map_same_iff item_same_iff gpu_key_iff list_all_iff ball_conj_distrib
        conj_ac)
  finally show ?thesis .
qed

lemma wire_image_same:
  "wire_image now e = e\<lparr>ce_timestamp := now\<rparr> \<longleftrightarrow>
     ce_policy_ref e \<noteq> Some [] \<and> (case ce_state_delta e of None \<Rightarrow> True | Some d \<Rightarrow> wire_delta d)"
  by (cases e; cases "ce_state_delta e") (auto simp: wire_image_def wire_state_same)

lemma config_entry_image:
  "proto_to_config_entry now (config_entry_to_proto e) =
     (if entry_type_to_int (ce_entry_type e) \<le> 13 then Inr (wire_image now e)
      else Inl (Status InvalidArgument ''unknown entry type''))"
proof -
  have delta: "map_option (proto_to_state_delta \<circ> state_delta_to_proto) od = map_option wire_state od" for od
    by (cases od) (simp_all add: state_delta_image)
  have ttl: "map_option ((\<lambda>d. word_of_int (dur_seconds d)) \<circ> (\<lambda>t. \<lparr>dur_seconds = uint t, dur_nanos = 0\<rparr>))
      ot = ot" for ot :: "u32 option"
    by (cases ot) simp_all
  show ?thesis
    by (cases e; cases "ce_policy_ref e")
      (auto simp: proto_to_config_entry_def config_entry_to_proto_def wire_image_def
        entry_type_roundtrip entry_type_rejected scope_roundtrip delta ttl option.map_comp)
qed

lemma config_entry_roundtrip:
  assumes "wire_entry e"
  shows "proto_to_config_entry now (config_entry_to_proto e) = Inr (e\<lparr>ce_timestamp := now\<rparr>)"
  using assms wire_image_same [of now e] by (simp add: config_entry_image wire_entry_def)

lemma svc_append_entry_ok:
  assumes "svc_append_entry (interleaved_write x pre t post) to_json now req s = (s', sent, Inr q)"
  obtains proto entry where "req = Some proto" "proto_to_config_entry now proto = Inr entry"
    "append_entry entry (run_commands x pre s) =
       (fst (append_entry entry (run_commands x pre s)), EntryAppended q)"
    "s' = run_commands x post (fst (append_entry entry (run_commands x pre s)))"
    "sent = (case bt_get (js_entries s') q of Some e \<Rightarrow> [entry_update to_json q e] | None \<Rightarrow> [])"
  using assms that
  by (cases req)
    (auto simp: svc_append_entry_def interleaved_write_def run_commands_append apply_item_def prod_eq_iff
      split: sum.splits JournalResponse.splits)

lemma default_next_sequence [simp]: "js_next_sequence default_state = 0"
  by (simp add: default_state_def)

lemma bt_get_prefix:
  assumes "bt_inv m'" "prefix m m'" "(k, v) \<in> set m"
  shows "bt_get m' k = Some v"
  using assms bt_get_in_set [of m' k v] by (auto simp: prefix_def)

lemma word_plus1_le:
  assumes "(m :: u64) < b"
  shows "m + 1 \<le> k \<longleftrightarrow> m < k"
proof -
  have "1 + m \<noteq> 0"
    using assms by (metis add.commute add_eq_0_iff word_order.extremum_strict)
  then have "unat (m + 1) = Suc (unat m)"
    by (metis add.commute unatSuc)
  then show ?thesis by (simp add: word_le_nat_alt word_less_nat_alt Suc_le_eq)
qed

text \<open>A range of an ascending map is its lower part followed by its upper part.\<close>

lemma filter_range_split:
  assumes "bt_inv es" "(a :: u64) \<le> m" "m < b"
  shows "filter (\<lambda>(k, e). a \<le> k \<and> k \<le> b) es =
    filter (\<lambda>(k, e). a \<le> k \<and> k \<le> m) es @ filter (\<lambda>(k, e). m + 1 \<le> k \<and> k \<le> b) es"
  using assms(1)
proof (induction es)
  case (Cons x es)
  obtain k e where x: "x = (k, e)" by (cases x)
  have IH: "filter (\<lambda>(k, e). a \<le> k \<and> k \<le> b) es =
      filter (\<lambda>(k, e). a \<le> k \<and> k \<le> m) es @ filter (\<lambda>(k, e). m + 1 \<le> k \<and> k \<le> b) es"
    using Cons by (simp add: bt_inv_Cons)
  show ?case
  proof (cases "k \<le> m")
    case True
    with assms IH show ?thesis by (auto simp: x word_plus1_le)
  next
    case False
    then have "filter (\<lambda>(k, e). a \<le> k \<and> k \<le> m) es = []"
      using Cons.prems by (force simp: x bt_inv_Cons filter_empty_conv)
    with False assms IH show ?thesis by (auto simp: x word_plus1_le)
  qed
qed simp

lemma svc_list_entries_range:
  assumes "length (js_entries s) \<le> 2 ^ 32 - 1"
  shows "svc_list_entries s (range_request a b sc) =
    (if a > b then None
     else Some (map (\<lambda>(_, e). config_entry_to_proto e)
       (filter (\<lambda>(_, e). case scope_filter (range_request a b sc) of None \<Rightarrow> True | Some f \<Rightarrow> ce_scope e = f)
         (filter (\<lambda>(k, _). a \<le> k \<and> k \<le> b) (js_entries s)))))"
proof -
  have "unat (- 1 :: u32) = 2 ^ 32 - 1"
    by (simp add: unsigned_minus_1_eq_mask mask_eq_exp_minus_1)
  moreover have "length (filter P (filter Q (js_entries s))) \<le> 2 ^ 32 - 1" for P Q
    using assms length_filter_le [of P "filter Q (js_entries s)"] length_filter_le [of Q "js_entries s"]
    by linarith
  ultimately show ?thesis
    by (simp add: svc_list_entries_def range_request_def Let_def)
qed

subsection \<open>Properties\<close>

text \<open>
  C23. What is left of an entry when its message is read back, for every entry. An entry of one of
  the types of enrollment (numbers from 14) is refused. Any other comes back with the server's
  time in place of its timestamp, without the values of its mounts, without the previous values
  of network, package and GPU items, with the key of a GPU item replaced by the number the message
  carries (0 when it is not a number), and without an empty policy reference; everything else is
  as it was. So an entry comes back as itself, but for the timestamp, exactly if it has none of
  these.
\<close>

theorem config_entry_proto_roundtrip:
  "proto_to_config_entry now (config_entry_to_proto e) =
     (if entry_type_to_int (ce_entry_type e) \<le> 13 then Inr (wire_image now e)
      else Inl (Status InvalidArgument ''unknown entry type'')) \<and>
   (proto_to_config_entry now (config_entry_to_proto e) = Inr (e\<lparr>ce_timestamp := now\<rparr>) \<longleftrightarrow> wire_entry e)"
  by (simp add: config_entry_image wire_image_same wire_entry_def)

theorem config_entry_proto_roundtrip_witness:
  "proto_to_config_entry 5 (config_entry_to_proto ((sample_entry (Some 3))\<lparr>ce_state_delta := Some sample_delta\<rparr>))
   = Inr ((sample_entry (Some 3))\<lparr>ce_state_delta := Some sample_delta, ce_timestamp := 5\<rparr>)"
proof -
  have "gpu_key \<lparr>di_action = Add, di_key = show_nat 3, di_value = None, di_previous = None\<rparr>"
    unfolding gpu_key_def by (intro exI [of _ 3]) simp
  then have "wire_entry ((sample_entry (Some 3))\<lparr>ce_state_delta := Some sample_delta\<rparr>)"
    by (simp add: wire_entry_def sample_entry_def wire_delta_def sample_delta_def no_previous_def)
  with config_entry_proto_roundtrip [THEN conjunct2, of 5] show ?thesis by simp
qed

text \<open>
  A successful append, whatever commands of other clients are applied before and after it,
  stores the converted entry under the returned sequence number, keeps every entry that was
  there, and notifies the subscribers of exactly that entry.
\<close>

theorem svc_append_entry_stores:
  assumes "entries_inv s"
    and "unat (js_next_sequence s) + length pre + length post + 1 < 2 ^ 64"
    and "svc_append_entry (interleaved_write x pre t post) to_json now (Some proto) s = (s', sent, Inr q)"
  shows "\<exists>entry. proto_to_config_entry now proto = Inr entry \<and>
    bt_get (js_entries s') q = Some (entry\<lparr>ce_sequence := q\<rparr>) \<and>
    sent = [entry_update to_json q (entry\<lparr>ce_sequence := q\<rparr>)] \<and>
    prefix (js_entries s) (js_entries s')"
proof -
  define s1 where "s1 = run_commands x pre s"
  obtain entry where conv: "proto_to_config_entry now proto = Inr entry"
    and app: "append_entry entry s1 = (fst (append_entry entry s1), EntryAppended q)"
    and s': "s' = run_commands x post (fst (append_entry entry s1))"
    and sent: "sent = (case bt_get (js_entries s') q of Some e \<Rightarrow> [entry_update to_json q e] | None \<Rightarrow> [])"
    using assms(3) unfolding s1_def by (elim svc_append_entry_ok) auto
  define s2 where "s2 = fst (append_entry entry s1)"
  have pre: "entries_inv s1 \<and> prefix (js_entries s) (js_entries s1) \<and>
      unat (js_next_sequence s1) \<le> unat (js_next_sequence s) + length pre"
    using entries_run [OF assms(1), of pre x] assms(2) unfolding s1_def by simp
  then have "js_next_sequence s1 \<noteq> - 1"
    using assms(2) by (auto simp: unsigned_minus_1_eq_mask mask_eq_exp_minus_1)
  with pre entries_step [of s1 x t "AppendEntry entry"]
  have step: "entries_inv s2 \<and> unat (js_next_sequence s2) \<le> Suc (unat (js_next_sequence s1))"
    unfolding s2_def by simp
  have e2: "js_entries s2 = js_entries s1 @ [(q, entry\<lparr>ce_sequence := q\<rparr>)]"
    using append_entry_entries [OF _ app] pre unfolding s2_def by blast
  have post: "entries_inv s' \<and> prefix (js_entries s2) (js_entries s')"
    using entries_run [of s2 post x] step pre assms(2) s' unfolding s2_def by simp
  have get: "bt_get (js_entries s') q = Some (entry\<lparr>ce_sequence := q\<rparr>)"
    by (rule bt_get_prefix [OF entries_inv_bt]) (use post e2 in auto)
  moreover have "prefix (js_entries s) (js_entries s')"
    using pre post e2 by (metis append_prefixD prefix_order.trans)
  ultimately show ?thesis using conv sent by simp
qed

theorem svc_append_entry_stores_witness:
  "\<exists>entry. proto_to_config_entry 5 (config_entry_to_proto (sample_entry None)) = Inr entry \<and>
    bt_get (js_entries (fst (svc_append_entry (interleaved_write sample_ext [] 5 [])
        (\<lambda>_. []) 5 (Some (config_entry_to_proto (sample_entry None))) default_state))) 0
      = Some (entry\<lparr>ce_sequence := 0\<rparr>)"
proof -
  have conv: "proto_to_config_entry 5 (config_entry_to_proto (sample_entry None)) =
      Inr ((sample_entry None)\<lparr>ce_timestamp := 5\<rparr>)"
    by (rule config_entry_roundtrip) (simp add: wire_entry_def sample_entry_def)
  have "snd (apply_command sample_ext 5 (AppendEntry ((sample_entry None)\<lparr>ce_timestamp := 5\<rparr>)) default_state)
      = EntryAppended 0"
    by (simp add: append_entry_def sample_entry_def ops_alice_def parent_ok_def ttl_too_short_def
        ttl_too_long_def TTL_MIN_SECONDS_def TTL_MAX_SECONDS_def default_state_def Let_def)
  then obtain s' sent where "svc_append_entry (interleaved_write sample_ext [] 5 []) (\<lambda>_. []) 5
      (Some (config_entry_to_proto (sample_entry None))) default_state = (s', sent, Inr 0)"
    by (simp add: svc_append_entry_def conv interleaved_write_def)
  with svc_append_entry_stores [OF entries_inv_default _ this] conv show ?thesis
    by (simp add: default_next_sequence)
qed

text \<open>
  Listing is exact and can be paged: without a limit, the entries from \<open>a\<close> to \<open>b\<close> are those
  from \<open>a\<close> to \<open>m\<close> followed by those from \<open>m\<close> + 1 to \<open>b\<close>; the call panics exactly when the range
  is reversed.
\<close>

theorem svc_list_entries_paging:
  assumes "bt_inv (js_entries s)" "length (js_entries s) \<le> 2 ^ 32 - 1" "a \<le> m" "m < b"
  shows "svc_list_entries s (range_request a b sc) =
    (case (svc_list_entries s (range_request a m sc), svc_list_entries s (range_request (m + 1) b sc)) of
       (Some es, Some fs) \<Rightarrow> Some (es @ fs) | _ \<Rightarrow> None) \<and>
    svc_list_entries s (range_request b a sc) = None"
proof -
  define f where "f = (case sc of Some (Some k) \<Rightarrow> Some (kind_to_scope k) | _ \<Rightarrow> None)"
  have scope: "scope_filter (range_request c d sc) = f" for c d
    by (simp add: scope_filter_def range_request_def f_def)
  have "\<not> a > b" "\<not> a > m" "\<not> m + 1 > b" "b > a"
    using assms(3,4) by (auto simp: not_less word_plus1_le)
  then show ?thesis
    unfolding svc_list_entries_range [OF assms(2)] scope filter_range_split [OF assms(1,3,4)]
    by simp
qed

theorem svc_list_entries_paging_witness:
  "svc_list_entries (default_state\<lparr>js_entries := [(0, sample_entry None), (1, sample_entry (Some 0)),
      (2, sample_entry None)]\<rparr>) (range_request 0 2 None) =
   Some (map config_entry_to_proto [sample_entry None, sample_entry (Some 0), sample_entry None])"
  using svc_list_entries_paging [of "default_state\<lparr>js_entries := [(0, sample_entry None),
      (1, sample_entry (Some 0)), (2, sample_entry None)]\<rparr>" 0 1 2 None]
  by (simp add: bt_inv_def svc_list_entries_def range_request_def scope_filter_def Let_def
      unsigned_minus_1_eq_mask mask_eq_exp_minus_1)

end
