(* ===== verification/Enrollment_Service.thy ===== *)
theory Enrollment_Service
  imports Raft_Client Grpc_Types Journal_Properties Rbac
begin

text \<open>
  The enrollment service, \<open>crates/pact-journal/src/enrollment_service.rs\<close>: enrollment of
  agents by hardware identity, registration, decommissioning, assignment, certificate renewal
  and the node listings, each RPC as the source has it, every Raft write included.

  What the handlers call outside this file is in the record \<open>EnrollEnv\<close>: the Raft client (one
  function per write of a handler, so that other clients' commands may fall between any two of
  them), the token validator, the certificate authority, fresh ids, the clock, and the RFC 3339
  rendering of a point in time. The answer of the rate limiter is an argument of \<open>enroll\<close>.
\<close>

subsection \<open>Environment and messages\<close>

record SignedCert =
  sc_cert_pem :: string
  sc_ca_chain_pem :: string
  sc_cert_serial :: string
  sc_cert_expires_at :: string

record EnrollEnv =
  ev_write :: "nat \<Rightarrow> client_write"
  ev_validate :: "string \<Rightarrow> string + Identity"
  ev_sign_csr :: "bytes \<Rightarrow> NodeId \<Rightarrow> DomainId \<Rightarrow> string + SignedCert"
  ev_uuid :: "nat \<Rightarrow> string"
  ev_now :: time
  ev_to_rfc3339 :: "time \<Rightarrow> string"
  ev_domain_id :: DomainId

record ProtoHardwareIdentity =
  phw_mac_address :: string
  phw_bmc_serial :: string
  phw_extra :: "(string, string) hashmap"

record EnrollResponse =
  er_node_id :: NodeId
  er_domain_id :: DomainId
  er_signed_cert :: string
  er_ca_chain :: string
  er_vcluster_id :: string
  er_cert_serial :: string
  er_cert_expires_at :: string

record BatchNodeResult =
  bn_node_id :: NodeId
  bn_success :: bool
  bn_enrollment_state :: string
  bn_error :: string

record BatchResponse =
  br_results :: "BatchNodeResult list"
  br_succeeded :: u32
  br_failed :: u32

record DecommissionResponse =
  dr_node_id :: NodeId
  dr_enrollment_state :: string
  dr_sessions_terminated :: u32
  dr_cert_serial_revoked :: string

record RenewCertResponse =
  rc_signed_cert :: string
  rc_ca_chain :: string
  rc_cert_serial :: string
  rc_cert_expires_at :: string

record ListNodesRequest =
  ln_state_filter :: string
  ln_vcluster_filter :: string
  ln_unassigned_only :: bool

record NodeSummary =
  su_node_id :: NodeId
  su_enrollment_state :: string
  su_vcluster_id :: string
  su_last_seen :: string
  su_mac_address :: string

record InspectNodeResponse =
  in_node_id :: NodeId
  in_domain_id :: DomainId
  in_enrollment_state :: string
  in_hardware_identity :: ProtoHardwareIdentity
  in_vcluster_id :: string
  in_cert_serial :: string
  in_cert_expires_at :: string
  in_last_seen :: string
  in_enrolled_at :: string
  in_enrolled_by :: string
  in_active_sessions :: u32

definition or_empty :: "string option \<Rightarrow> string" where
  "or_empty v = (case v of Some t \<Rightarrow> t | None \<Rightarrow> [])"

subsection \<open>Authentication, audit, conversions\<close>

definition extract_token :: "auth_header \<Rightarrow> Status + string" where
  "extract_token h = (case h of
     None \<Rightarrow> Inl (Status Unauthenticated ''missing authorization header'')
   | Some None \<Rightarrow> Inl (Status Unauthenticated ''invalid authorization header'')
   | Some (Some v) \<Rightarrow> (case strip_prefix ''Bearer '' v of
       None \<Rightarrow> Inl (Status Unauthenticated ''expected Bearer token'')
     | Some token \<Rightarrow> Inr token))"

definition validate_token_str :: "EnrollEnv \<Rightarrow> string \<Rightarrow> Status + Identity" where
  "validate_token_str ev token = (case ev_validate ev token of
     Inl e \<Rightarrow> Inl (Status Unauthenticated (''invalid token: '' @ e))
   | Inr i \<Rightarrow> Inr i)"

definition authenticate :: "EnrollEnv \<Rightarrow> auth_header \<Rightarrow> Status + Identity" where
  "authenticate ev h = (case extract_token h of
     Inl e \<Rightarrow> Inl e | Inr token \<Rightarrow> validate_token_str ev token)"

definition authenticate_admin :: "EnrollEnv \<Rightarrow> auth_header \<Rightarrow> Status + Identity" where
  "authenticate_admin ev h = (case authenticate ev h of
     Inl e \<Rightarrow> Inl e
   | Inr i \<Rightarrow> if id_role i \<noteq> ''pact-platform-admin''
       then Inl (Status PermissionDenied ''requires pact-platform-admin'') else Inr i)"

text \<open>The \<open>k\<close>-th write of the handler records the audit event; its outcome is ignored.\<close>

definition audit_enrollment ::
  "EnrollEnv \<Rightarrow> nat \<Rightarrow> AdminOperationType \<Rightarrow> NodeId \<Rightarrow> string \<Rightarrow> JournalState \<Rightarrow> JournalState" where
  "audit_enrollment ev k op_type n detail s =
     fst (ev_write ev k (RecordOperation \<lparr>op_operation_id = ev_uuid ev k, op_timestamp = ev_now ev,
       op_actor = \<lparr>id_principal = ''enrollment-service'', id_principal_type = Service,
         id_role = ''pact-service-agent''\<rparr>,
       op_operation_type = op_type, op_scope = Node n, op_detail = detail\<rparr>) s)"

definition proto_hw_to_domain :: "ProtoHardwareIdentity \<Rightarrow> HardwareIdentity" where
  "proto_hw_to_domain hw = \<lparr>hw_mac_address = phw_mac_address hw,
     hw_bmc_serial = (if phw_bmc_serial hw = [] then None else Some (phw_bmc_serial hw)),
     hw_extra = phw_extra hw\<rparr>"

definition internal :: "string \<Rightarrow> Status" where
  "internal m = Status Internal m"

subsection \<open>Enroll\<close>

definition enroll_activated ::
  "EnrollEnv \<Rightarrow> bytes \<Rightarrow> NodeId \<Rightarrow> VClusterId option \<Rightarrow> JournalState \<Rightarrow>
   JournalState \<times> (Status + EnrollResponse)" where
  "enroll_activated ev csr n vc s1 =
     (case ev_sign_csr ev csr n (ev_domain_id ev) of
        Inl e \<Rightarrow> (s1, Inl (internal (''CSR signing failed: '' @ e)))
      | Inr cert \<Rightarrow>
          let s2 = fst (ev_write ev 1 (UpdateNodeCert n (sc_cert_serial cert)
                     (sc_cert_expires_at cert)) s1);
              s3 = audit_enrollment ev 2 NodeEnroll n
                     (''SUCCESS: node activated, cert_serial='' @ sc_cert_serial cert) s2
          in (s3, Inr \<lparr>er_node_id = n, er_domain_id = ev_domain_id ev,
                er_signed_cert = sc_cert_pem cert, er_ca_chain = sc_ca_chain_pem cert,
                er_vcluster_id = or_empty vc, er_cert_serial = sc_cert_serial cert,
                er_cert_expires_at = sc_cert_expires_at cert\<rparr>))"

definition activate_command :: "EnrollEnv \<Rightarrow> NodeId \<Rightarrow> JournalCommand" where
  "activate_command ev n =
     ActivateNode n (ev_uuid ev 0) (ev_to_rfc3339 ev (ev_now ev + seconds (3 * 86400)))"

definition enroll_known ::
  "EnrollEnv \<Rightarrow> bytes \<Rightarrow> NodeId \<Rightarrow> JournalState \<Rightarrow> JournalState \<times> (Status + EnrollResponse)" where
  "enroll_known ev csr n s = (case hm_get (js_enrollments s) n of
     None \<Rightarrow> (s, Inl (internal ''enrollment index inconsistency''))
   | Some e \<Rightarrow>
       if ne_state e = Revoked then
         (audit_enrollment ev 0 NodeEnroll n ''REJECTED: NODE_REVOKED'' s,
          Inl (Status PermissionDenied ''NODE_REVOKED''))
       else if ne_state e = Active then
         (audit_enrollment ev 0 NodeEnroll n ''REJECTED: ALREADY_ACTIVE'' s,
          Inl (Status AlreadyExists ''ALREADY_ACTIVE''))
       else
         (case ev_write ev 0 (activate_command ev n) s of
            (s1, Inl err) \<Rightarrow> (s1, Inl (internal (''Raft write failed: '' @ err)))
          | (s1, Inr (EnrollmentResult _ _ vc)) \<Rightarrow> enroll_activated ev csr n vc s1
          | (s1, Inr (ValidationError reason)) \<Rightarrow> (s1, Inl (Status FailedPrecondition reason))
          | (s1, Inr _) \<Rightarrow> (s1, Inl (internal ''unexpected Raft response''))))"

definition enroll ::
  "EnrollEnv \<Rightarrow> bool \<Rightarrow> ProtoHardwareIdentity option \<Rightarrow> bytes \<Rightarrow> JournalState \<Rightarrow>
   JournalState \<times> (Status + EnrollResponse)" where
  "enroll ev acquired hw csr s =
     (if \<not> acquired then (s, Inl (Status ResourceExhausted ''RATE_LIMITED''))
      else case hw of
        None \<Rightarrow> (s, Inl (Status InvalidArgument ''hardware_identity required''))
      | Some h \<Rightarrow>
          (case hm_get (js_hw_index s) (hw_canonical_key (proto_hw_to_domain h)) of
             None \<Rightarrow>
               (audit_enrollment ev 0 NodeEnroll (phw_mac_address h)
                  (''REJECTED: NODE_NOT_ENROLLED mac='' @ phw_mac_address h) s,
                Inl (Status NotFound ''NODE_NOT_ENROLLED''))
           | Some n \<Rightarrow> enroll_known ev csr n s))"

subsection \<open>Registration\<close>

definition new_enrollment :: "EnrollEnv \<Rightarrow> Identity \<Rightarrow> NodeId \<Rightarrow> ProtoHardwareIdentity \<Rightarrow> NodeEnrollment" where
  "new_enrollment ev admin n hw = \<lparr>ne_node_id = n, ne_domain_id = ev_domain_id ev,
     ne_state = Registered, ne_hardware_identity = proto_hw_to_domain hw, ne_vcluster_id = None,
     ne_cert_serial = None, ne_cert_expires_at = None, ne_last_seen = None,
     ne_enrolled_at = ev_now ev,
     ne_enrolled_by = \<lparr>id_principal = id_principal admin, id_principal_type = Human,
       id_role = ''pact-platform-admin''\<rparr>,
     ne_active_sessions = 0\<rparr>"

definition svc_register_node ::
  "EnrollEnv \<Rightarrow> auth_header \<Rightarrow> NodeId \<Rightarrow> ProtoHardwareIdentity option \<Rightarrow> JournalState \<Rightarrow>
   JournalState \<times> (Status + NodeId \<times> string)" where
  "svc_register_node ev h n hw s = (case authenticate_admin ev h of
     Inl e \<Rightarrow> (s, Inl e)
   | Inr admin \<Rightarrow>
       (case hw of
          None \<Rightarrow> (s, Inl (Status InvalidArgument ''hardware_identity required''))
        | Some hwp \<Rightarrow>
            (case ev_write ev 0 (RegisterNode (new_enrollment ev admin n hwp)) s of
               (s1, Inl err) \<Rightarrow> (s1, Inl (internal (''Raft write failed: '' @ err)))
             | (s1, Inr (EnrollmentResult m st _)) \<Rightarrow> (s1, Inr (m, debug_EnrollmentState st))
             | (s1, Inr (ValidationError reason)) \<Rightarrow> (s1, Inl (Status FailedPrecondition reason))
             | (s1, Inr _) \<Rightarrow> (s1, Inl (internal ''unexpected Raft response'')))))"

definition batch_failure :: "NodeId \<Rightarrow> string \<Rightarrow> BatchNodeResult" where
  "batch_failure n err = \<lparr>bn_node_id = n, bn_success = False, bn_enrollment_state = [], bn_error = err\<rparr>"

definition batch_register_one ::
  "EnrollEnv \<Rightarrow> Identity \<Rightarrow> nat \<Rightarrow> NodeId \<Rightarrow> ProtoHardwareIdentity option \<Rightarrow> JournalState \<Rightarrow>
   JournalState \<times> BatchNodeResult" where
  "batch_register_one ev admin k n hw s = (case hw of
     None \<Rightarrow> (s, batch_failure n ''hardware_identity required'')
   | Some hwp \<Rightarrow>
       (case ev_write ev k (RegisterNode (new_enrollment ev admin n hwp)) s of
          (s1, Inr (EnrollmentResult m st _)) \<Rightarrow>
            (s1, \<lparr>bn_node_id = m, bn_success = True,
                  bn_enrollment_state = debug_EnrollmentState st, bn_error = []\<rparr>)
        | (s1, Inr (ValidationError reason)) \<Rightarrow> (s1, batch_failure n reason)
        | (s1, Inr _) \<Rightarrow> (s1, batch_failure n ''unexpected response'')
        | (s1, Inl err) \<Rightarrow> (s1, batch_failure n (''Raft error: '' @ err))))"

fun batch_register ::
  "EnrollEnv \<Rightarrow> Identity \<Rightarrow> nat \<Rightarrow> (NodeId \<times> ProtoHardwareIdentity option) list \<Rightarrow> JournalState \<Rightarrow>
   BatchResponse \<Rightarrow> JournalState \<times> BatchResponse" where
  "batch_register ev admin k [] s acc = (s, acc)"
| "batch_register ev admin k ((n, hw) # nodes) s acc =
     (case batch_register_one ev admin k n hw s of
        (s1, r) \<Rightarrow> batch_register ev admin (Suc k) nodes s1
          \<lparr>br_results = br_results acc @ [r],
           br_succeeded = br_succeeded acc + (if bn_success r then 1 else 0),
           br_failed = br_failed acc + (if bn_success r then 0 else 1)\<rparr>)"

definition svc_batch_register_nodes ::
  "EnrollEnv \<Rightarrow> auth_header \<Rightarrow> (NodeId \<times> ProtoHardwareIdentity option) list \<Rightarrow> JournalState \<Rightarrow>
   JournalState \<times> (Status + BatchResponse)" where
  "svc_batch_register_nodes ev h nodes s = (case authenticate_admin ev h of
     Inl e \<Rightarrow> (s, Inl e)
   | Inr admin \<Rightarrow>
       (case batch_register ev admin 0 nodes s \<lparr>br_results = [], br_succeeded = 0, br_failed = 0\<rparr> of
          (s1, r) \<Rightarrow> (s1, Inr r)))"

subsection \<open>Decommissioning and assignment\<close>

definition ok_or_status :: "JournalState \<times> (string + JournalResponse) \<Rightarrow> 'a \<Rightarrow> JournalState \<times> (Status + 'a)" where
  "ok_or_status w ok = (case w of
     (s1, Inl err) \<Rightarrow> (s1, Inl (internal (''Raft write failed: '' @ err)))
   | (s1, Inr RespOk) \<Rightarrow> (s1, Inr ok)
   | (s1, Inr (ValidationError reason)) \<Rightarrow> (s1, Inl (Status FailedPrecondition reason))
   | (s1, Inr _) \<Rightarrow> (s1, Inl (internal ''unexpected response'')))"

definition sessions_block :: "JournalState \<Rightarrow> NodeId \<Rightarrow> bool \<Rightarrow> u32 option" where
  "sessions_block s n force = (case hm_get (js_enrollments s) n of
     Some e \<Rightarrow> if ne_active_sessions e > 0 \<and> \<not> force then Some (ne_active_sessions e) else None
   | None \<Rightarrow> None)"

definition svc_decommission_node ::
  "EnrollEnv \<Rightarrow> auth_header \<Rightarrow> NodeId \<Rightarrow> bool \<Rightarrow> JournalState \<Rightarrow>
   JournalState \<times> (Status + DecommissionResponse)" where
  "svc_decommission_node ev h n force s = (case authenticate_admin ev h of
     Inl e \<Rightarrow> (s, Inl e)
   | Inr _ \<Rightarrow>
       (case sessions_block s n force of
          Some k \<Rightarrow> (s, Inl (Status FailedPrecondition (show_nat (unat k) @
            '' active session(s) on this node '' @ em_dash @ '' use --force to terminate'')))
        | None \<Rightarrow>
            let cert_serial = or_empty (Option.bind (hm_get (js_enrollments s) n) ne_cert_serial)
            in ok_or_status (ev_write ev 0 (RevokeNode n) s)
                 \<lparr>dr_node_id = n, dr_enrollment_state = ''Revoked'', dr_sessions_terminated = 0,
                  dr_cert_serial_revoked = cert_serial\<rparr>))"

definition svc_assign_node ::
  "EnrollEnv \<Rightarrow> auth_header \<Rightarrow> NodeId \<Rightarrow> VClusterId \<Rightarrow> JournalState \<Rightarrow>
   JournalState \<times> (Status + NodeId \<times> VClusterId)" where
  "svc_assign_node ev h n vc s = (case authenticate ev h of
     Inl e \<Rightarrow> (s, Inl e)
   | Inr i \<Rightarrow>
       if id_role i \<noteq> ''pact-platform-admin'' \<and> id_role i \<noteq> ''pact-ops-'' @ vc then
         (s, Inl (Status PermissionDenied ''requires platform-admin or ops role''))
       else ok_or_status (ev_write ev 0 (AssignNodeToVCluster n vc) s) (n, vc))"

definition svc_unassign_node ::
  "EnrollEnv \<Rightarrow> auth_header \<Rightarrow> NodeId \<Rightarrow> JournalState \<Rightarrow> JournalState \<times> (Status + NodeId)" where
  "svc_unassign_node ev h n s = (case authenticate ev h of
     Inl e \<Rightarrow> (s, Inl e)
   | Inr _ \<Rightarrow> ok_or_status (ev_write ev 0 (UnassignNode n) s) n)"

definition svc_move_node ::
  "EnrollEnv \<Rightarrow> auth_header \<Rightarrow> NodeId \<Rightarrow> VClusterId \<Rightarrow> JournalState \<Rightarrow>
   JournalState \<times> (Status + NodeId \<times> VClusterId \<times> VClusterId)" where
  "svc_move_node ev h n to_vc s = (case authenticate ev h of
     Inl e \<Rightarrow> (s, Inl e)
   | Inr _ \<Rightarrow>
       let from_vc = or_empty (Option.bind (hm_get (js_enrollments s) n) ne_vcluster_id)
       in ok_or_status (ev_write ev 0 (MoveNodeVCluster n from_vc to_vc) s) (n, from_vc, to_vc))"

subsection \<open>Certificate renewal\<close>

definition svc_renew_cert ::
  "EnrollEnv \<Rightarrow> auth_header \<Rightarrow> string \<Rightarrow> bytes \<Rightarrow> JournalState \<Rightarrow>
   JournalState \<times> (Status + RenewCertResponse)" where
  "svc_renew_cert ev h current_cert_serial csr s = (case authenticate ev h of
     Inl e \<Rightarrow> (s, Inl e)
   | Inr _ \<Rightarrow>
       (case find (\<lambda>e. ne_cert_serial e = Some current_cert_serial) (hm_values (js_enrollments s)) of
          None \<Rightarrow> (s, Inl (Status NotFound ''no enrollment for this certificate serial''))
        | Some e \<Rightarrow>
            let n = ne_node_id e in
            (case ev_sign_csr ev csr n (ev_domain_id ev) of
               Inl err \<Rightarrow> (s, Inl (internal (''CSR signing failed: '' @ err)))
             | Inr cert \<Rightarrow>
                 (case ev_write ev 0 (UpdateNodeCert n (sc_cert_serial cert) (sc_cert_expires_at cert)) s of
                    (s1, Inl err) \<Rightarrow> (s1, Inl (internal (''Raft write failed: '' @ err)))
                  | (s1, Inr _) \<Rightarrow>
                      (s1, Inr \<lparr>rc_signed_cert = sc_cert_pem cert, rc_ca_chain = sc_ca_chain_pem cert,
                         rc_cert_serial = sc_cert_serial cert,
                         rc_cert_expires_at = sc_cert_expires_at cert\<rparr>)))))"

subsection \<open>Listings\<close>

definition is_scoped_role :: "string \<Rightarrow> bool" where
  "is_scoped_role role \<longleftrightarrow> prefix ''pact-ops-'' role \<or> prefix ''pact-viewer-'' role"

definition role_vcluster :: "string \<Rightarrow> string" where
  "role_vcluster role = join_with ''-'' (drop 2 (split_on CHR ''-'' role))"

definition allowed_vcluster :: "string \<Rightarrow> string option" where
  "allowed_vcluster role =
     (if role = ''pact-platform-admin'' then None
      else if is_scoped_role role then Some (role_vcluster role) else None)"

definition node_visible :: "string option \<Rightarrow> ListNodesRequest \<Rightarrow> NodeEnrollment \<Rightarrow> bool" where
  "node_visible allowed req e =
     (if (case allowed of Some vc \<Rightarrow> ne_vcluster_id e \<noteq> Some vc | None \<Rightarrow> False) then False
      else if ln_state_filter req \<noteq> [] \<and>
        to_lowercase (debug_EnrollmentState (ne_state e)) \<noteq> to_lowercase (ln_state_filter req) then False
      else if ln_vcluster_filter req \<noteq> [] \<and> ne_vcluster_id e \<noteq> Some (ln_vcluster_filter req) then False
      else if ln_unassigned_only req \<and> ne_vcluster_id e \<noteq> None then False
      else True)"

definition node_summary :: "EnrollEnv \<Rightarrow> NodeEnrollment \<Rightarrow> NodeSummary" where
  "node_summary ev e = \<lparr>su_node_id = ne_node_id e, su_enrollment_state = debug_EnrollmentState (ne_state e),
     su_vcluster_id = or_empty (ne_vcluster_id e),
     su_last_seen = or_empty (map_option (ev_to_rfc3339 ev) (ne_last_seen e)),
     su_mac_address = hw_mac_address (ne_hardware_identity e)\<rparr>"

definition svc_list_nodes ::
  "EnrollEnv \<Rightarrow> auth_header \<Rightarrow> ListNodesRequest \<Rightarrow> JournalState \<Rightarrow> Status + NodeSummary list" where
  "svc_list_nodes ev h req s = (case authenticate ev h of
     Inl e \<Rightarrow> Inl e
   | Inr caller \<Rightarrow> Inr (map (node_summary ev)
       (filter (node_visible (allowed_vcluster (id_role caller)) req) (hm_values (js_enrollments s)))))"

definition inspect_response :: "EnrollEnv \<Rightarrow> NodeEnrollment \<Rightarrow> InspectNodeResponse" where
  "inspect_response ev e = \<lparr>
     in_node_id = ne_node_id e, in_domain_id = ne_domain_id e,
     in_enrollment_state = debug_EnrollmentState (ne_state e),
     in_hardware_identity = \<lparr>phw_mac_address = hw_mac_address (ne_hardware_identity e),
       phw_bmc_serial = or_empty (hw_bmc_serial (ne_hardware_identity e)),
       phw_extra = hw_extra (ne_hardware_identity e)\<rparr>,
     in_vcluster_id = or_empty (ne_vcluster_id e),
     in_cert_serial = or_empty (ne_cert_serial e),
     in_cert_expires_at = or_empty (map_option (ev_to_rfc3339 ev) (ne_cert_expires_at e)),
     in_last_seen = or_empty (map_option (ev_to_rfc3339 ev) (ne_last_seen e)),
     in_enrolled_at = ev_to_rfc3339 ev (ne_enrolled_at e),
     in_enrolled_by = id_principal (ne_enrolled_by e),
     in_active_sessions = ne_active_sessions e\<rparr>"

definition svc_inspect_node ::
  "EnrollEnv \<Rightarrow> auth_header \<Rightarrow> NodeId \<Rightarrow> JournalState \<Rightarrow> Status + InspectNodeResponse" where
  "svc_inspect_node ev h n s = (case authenticate ev h of
     Inl e \<Rightarrow> Inl e
   | Inr caller \<Rightarrow>
       (case hm_get (js_enrollments s) n of
          None \<Rightarrow> Inl (Status NotFound (''node '' @ n @ '' not found''))
        | Some e \<Rightarrow>
            if id_role caller \<noteq> ''pact-platform-admin'' \<and> is_scoped_role (id_role caller) \<and>
               ne_vcluster_id e \<noteq> Some (role_vcluster (id_role caller))
            then Inl (Status PermissionDenied ''PERMISSION_DENIED: node not in your vCluster'')
            else Inr (inspect_response ev e)))"

definition sample_env :: EnrollEnv where
  "sample_env = \<lparr>ev_write = (\<lambda>k. interleaved_write sample_ext [] 7 []),
     ev_validate = (\<lambda>t. if t = ''tok'' then Inr \<lparr>id_principal = ''bob'', id_principal_type = Human,
       id_role = ''pact-viewer-ml-training''\<rparr> else Inl ''bad signature''),
     ev_sign_csr = (\<lambda>_ n _. Inr \<lparr>sc_cert_pem = ''PEM'', sc_ca_chain_pem = ''CA'',
       sc_cert_serial = ''serial-1'', sc_cert_expires_at = ''2026''\<rparr>),
     ev_uuid = (\<lambda>k. ''u'' @ show_nat k), ev_now = 7, ev_to_rfc3339 = (\<lambda>_. ''t''),
     ev_domain_id = ''site''\<rparr>"

definition sample_enrolled :: JournalState where
  "sample_enrolled = default_state\<lparr>js_enrollments := [(''n1'', sample_node ''n1'' ''aa''),
       (''n2'', (sample_node ''n2'' ''bb'')\<lparr>ne_vcluster_id := Some ''ml-training''\<rparr>)],
     js_hw_index := [(''mac:aa'', ''n1''), (''mac:bb'', ''n2'')]\<rparr>"

subsection \<open>Lemmas\<close>

lemma split_on_pact_ops: "split_on CHR ''-'' (''pact-ops-'' @ v) = ''pact'' # ''ops'' # split_on CHR ''-'' v"
  by simp

lemma split_on_pact_viewer:
  "split_on CHR ''-'' (''pact-viewer-'' @ v) = ''pact'' # ''viewer'' # split_on CHR ''-'' v"
  by simp

lemma role_vcluster_scoped:
  "role_vcluster (''pact-ops-'' @ v) = v" "role_vcluster (''pact-viewer-'' @ v) = v"
  unfolding role_vcluster_def split_on_pact_ops split_on_pact_viewer by (simp_all add: join_split_on)

lemma allowed_vcluster_scoped:
  "is_scoped_role r \<Longrightarrow> allowed_vcluster r = extract_vcluster_from_role r"
  unfolding is_scoped_role_def prefix_def
proof (elim disjE exE)
  fix v assume r: "r = ''pact-ops-'' @ v"
  show "allowed_vcluster r = extract_vcluster_from_role r"
    unfolding r extract_vcluster_simps allowed_vcluster_def role_vcluster_scoped
    by (simp add: is_scoped_role_def)
next
  fix v assume r: "r = ''pact-viewer-'' @ v"
  show "allowed_vcluster r = extract_vcluster_from_role r"
    unfolding r extract_vcluster_simps allowed_vcluster_def role_vcluster_scoped
    by (simp add: is_scoped_role_def)
qed

lemma guard_unauthorised:
  assumes "\<And>i. authenticate ev h = Inr i \<Longrightarrow> id_role i \<noteq> ''pact-platform-admin''"
  obtains st where "authenticate_admin ev h = Inl st" "status_code st \<in> {Unauthenticated, PermissionDenied}"
proof (cases "authenticate ev h")
  case (Inl e)
  then have "status_code e = Unauthenticated"
    by (auto simp: authenticate_def extract_token_def validate_token_str_def split: option.splits sum.splits)
  with Inl that [of e] show thesis by (simp add: authenticate_admin_def)
next
  case (Inr i)
  with assms that [of "Status PermissionDenied ''requires pact-platform-admin''"] show thesis
    by (simp add: authenticate_admin_def)
qed

lemma batch_register_counts:
  assumes "batch_register ev admin k nodes s acc = (s', r)"
  shows "\<exists>rs. br_results r = br_results acc @ rs \<and> length rs = length nodes \<and>
    br_succeeded r = br_succeeded acc + of_nat (length (filter bn_success rs)) \<and>
    br_failed r = br_failed acc + of_nat (length (filter (\<lambda>b. \<not> bn_success b) rs))"
  using assms
proof (induction ev admin k nodes s acc rule: batch_register.induct)
  case (2 ev admin k n hw nodes s acc)
  obtain s1 b where one: "batch_register_one ev admin k n hw s = (s1, b)" by fastforce
  from 2 one obtain rs where "br_results r = (br_results acc @ [b]) @ rs" "length rs = length nodes"
    "br_succeeded r = br_succeeded acc + (if bn_success b then 1 else 0) + of_nat (length (filter bn_success rs))"
    "br_failed r = br_failed acc + (if bn_success b then 0 else 1) +
       of_nat (length (filter (\<lambda>b. \<not> bn_success b) rs))"
    by fastforce
  then show ?case by (intro exI [of _ "b # rs"]) (simp add: algebra_simps)
qed simp

lemma activate_result:
  "snd (activate_node parse now n a b s) = EnrollmentResult m st vc \<Longrightarrow>
   \<exists>e. hm_get (js_enrollments s) n = Some e \<and> ne_state e \<in> {Registered, Inactive} \<and>
       m = n \<and> st = Active \<and> vc = ne_vcluster_id e \<and>
       hm_get (js_enrollments (fst (activate_node parse now n a b s))) n =
         Some (e\<lparr>ne_state := Active, ne_cert_serial := Some a, ne_cert_expires_at := parse b,
                 ne_last_seen := Some now\<rparr>)"
  by (auto simp: activate_node_def with_enrollment_def put_enrollment_def split: option.splits if_splits)
    (metis EnrollmentState.exhaust)

lemma engaged_step:
  assumes "hm_get (js_enrollments s) n = Some e" "ne_state e \<in> {Active, Revoked}" "c \<noteq> DeactivateNode n"
  shows "\<exists>e'. hm_get (js_enrollments (fst (apply_command x now c s))) n = Some e' \<and>
    ne_state e' \<in> {Active, Revoked}"
  using assms
  by (cases c) (simp_all add: command_defs hm_contains_def split: option.split, auto)

lemma engaged_run:
  assumes "hm_get (js_enrollments s) n = Some e" "ne_state e \<in> {Active, Revoked}"
    and "\<And>i. i \<in> set is \<Longrightarrow> snd i \<noteq> DeactivateNode n"
  shows "\<exists>e'. hm_get (js_enrollments (run_commands x is s)) n = Some e' \<and>
    ne_state e' \<in> {Active, Revoked}"
  unfolding run_commands_eq
proof (rule journal.run_invariant [where Q = "\<lambda>i. snd i \<noteq> DeactivateNode n"])
  show "\<exists>e'. hm_get (js_enrollments (apply_item x i s)) n = Some e' \<and> ne_state e' \<in> {Active, Revoked}"
    if "snd i \<noteq> DeactivateNode n"
      "\<exists>e'. hm_get (js_enrollments s) n = Some e' \<and> ne_state e' \<in> {Active, Revoked}" for i s
    using that engaged_step unfolding apply_item_def by blast
qed (use assms in blast)+

lemma audit_enrollment_run:
  assumes "raft_client x (ev_write ev k)"
  shows "\<exists>is. audit_enrollment ev k t n d s = run_commands x is s"
  unfolding audit_enrollment_def by (rule raft_client.write_run [OF assms])

lemma enroll_activated_run:
  assumes "\<And>k. raft_client x (ev_write ev k)"
  shows "\<exists>is. fst (enroll_activated ev csr n vc s) = run_commands x is s"
proof (cases "ev_sign_csr ev csr n (ev_domain_id ev)")
  case (Inl e)
  then show ?thesis by (auto simp: enroll_activated_def intro: exI [of _ "[]"])
next
  case (Inr cert)
  obtain is1 where "fst (ev_write ev 1 (UpdateNodeCert n (sc_cert_serial cert)
      (sc_cert_expires_at cert)) s) = run_commands x is1 s"
    using raft_client.write_run [OF assms] by blast
  moreover obtain is2 where "audit_enrollment ev 2 NodeEnroll n
      (''SUCCESS: node activated, cert_serial='' @ sc_cert_serial cert) (run_commands x is1 s) =
      run_commands x is2 (run_commands x is1 s)"
    using audit_enrollment_run [where k = 2, OF assms] by blast
  ultimately show ?thesis
    using Inr by (auto simp: enroll_activated_def Let_def simp flip: run_commands_append)
qed

lemma enroll_ok:
  assumes "enroll ev acquired (Some h) csr s = (s', Inr resp)"
  obtains n s1 m st vc where
    "hm_get (js_hw_index s) (hw_canonical_key (proto_hw_to_domain h)) = Some n"
    "ev_write ev 0 (activate_command ev n) s = (s1, Inr (EnrollmentResult m st vc))"
    "s' = fst (enroll_activated ev csr n vc s1)" "er_node_id resp = n" "er_vcluster_id resp = or_empty vc"
  using assms that
  by (auto simp: enroll_def enroll_known_def enroll_activated_def Let_def
      split: if_splits option.splits prod.splits sum.splits JournalResponse.splits)

lemma enroll_certificate:
  assumes "enroll ev acquired (Some h) csr s = (s', Inr resp)"
  shows "\<exists>cert. ev_sign_csr ev csr (er_node_id resp) (ev_domain_id ev) = Inr cert \<and>
    er_signed_cert resp = sc_cert_pem cert \<and> er_ca_chain resp = sc_ca_chain_pem cert \<and>
    er_cert_serial resp = sc_cert_serial cert \<and> er_cert_expires_at resp = sc_cert_expires_at cert"
  using assms
  by (auto simp: enroll_def enroll_known_def enroll_activated_def Let_def
      split: if_splits option.splits prod.splits sum.splits JournalResponse.splits)

lemma enroll_accepted:
  assumes "\<forall>k. raft_client x (ev_write ev k)"
    and "enroll ev acquired (Some h) csr s = (s', Inr resp)"
  shows "hm_get (js_hw_index s) (hw_canonical_key (proto_hw_to_domain h)) = Some (er_node_id resp) \<and>
    (\<exists>pre t post e vc. s' = run_commands x (pre @ (t, activate_command ev (er_node_id resp)) # post) s \<and>
       snd (apply_command x t (activate_command ev (er_node_id resp)) (run_commands x pre s)) =
         EnrollmentResult (er_node_id resp) Active vc \<and>
       hm_get (js_enrollments (run_commands x pre s)) (er_node_id resp) = Some e \<and>
       ne_state e \<in> {Registered, Inactive} \<and> er_vcluster_id resp = or_empty (ne_vcluster_id e))"
proof -
  obtain n s1 m st vc where n: "hm_get (js_hw_index s) (hw_canonical_key (proto_hw_to_domain h)) = Some n"
    and w: "ev_write ev 0 (activate_command ev n) s = (s1, Inr (EnrollmentResult m st vc))"
    and s': "s' = fst (enroll_activated ev csr n vc s1)" and resp: "er_node_id resp = n"
    and vc: "er_vcluster_id resp = or_empty vc"
    using assms(2) by (rule enroll_ok)
  obtain pre t post where s1: "s1 = run_commands x (pre @ (t, activate_command ev n) # post) s"
    and r: "EnrollmentResult m st vc =
      snd (apply_command x t (activate_command ev n) (run_commands x pre s))"
    using raft_client.write_ok [of x "ev_write ev 0"] w assms(1) by blast
  obtain tail where tail: "s' = run_commands x tail s1"
    using enroll_activated_run [of x ev csr n vc s1] assms(1) s' by blast
  have s'_run: "s' = run_commands x (pre @ (t, activate_command ev n) # (post @ tail)) s"
    by (simp add: tail s1 run_commands_append)
  from activate_result [of "ext_parse_rfc3339 x" t n "ev_uuid ev 0"
      "ev_to_rfc3339 ev (ev_now ev + seconds (3 * 86400))" "run_commands x pre s" m st vc] r
  obtain e where "hm_get (js_enrollments (run_commands x pre s)) n = Some e"
    "ne_state e \<in> {Registered, Inactive}" "m = n" "st = Active" "vc = ne_vcluster_id e"
    unfolding activate_command_def by auto
  with r s'_run n vc show ?thesis unfolding resp by metis
qed

subsection \<open>Properties\<close>

text \<open>
  C26. A certificate is only ever returned for an activation that the replicated state machine
  accepted: if \<open>enroll\<close> succeeds, the hardware identity is registered to the returned node, and
  among the commands applied since there is the activation of that node, answered as accepted
  in a state in which the node was registered or inactive (so neither active nor revoked).
\<close>

theorem enroll_after_activation:
  assumes "\<forall>k. raft_client x (ev_write ev k)"
    and "enroll ev acquired (Some h) csr s = (s', Inr resp)"
  shows "hm_get (js_hw_index s) (hw_canonical_key (proto_hw_to_domain h)) = Some (er_node_id resp) \<and>
    (\<exists>pre t post e vc. s' = run_commands x (pre @ (t, activate_command ev (er_node_id resp)) # post) s \<and>
       snd (apply_command x t (activate_command ev (er_node_id resp)) (run_commands x pre s)) =
         EnrollmentResult (er_node_id resp) Active vc \<and>
       hm_get (js_enrollments (run_commands x pre s)) (er_node_id resp) = Some e \<and>
       ne_state e \<in> {Registered, Inactive})"
  using enroll_accepted [OF assms] by blast

theorem enroll_after_activation_witness:
  "\<exists>s' resp. enroll sample_env True (Some \<lparr>phw_mac_address = ''AA'', phw_bmc_serial = [], phw_extra = []\<rparr>)
      [1] sample_enrolled = (s', Inr resp) \<and> er_node_id resp = ''n1''"
proof -
  have key: "hw_canonical_key (proto_hw_to_domain
      \<lparr>phw_mac_address = ''AA'', phw_bmc_serial = [], phw_extra = []\<rparr>) = ''mac:aa''"
    by code_simp
  obtain s' resp where e: "enroll sample_env True
      (Some \<lparr>phw_mac_address = ''AA'', phw_bmc_serial = [], phw_extra = []\<rparr>) [1] sample_enrolled = (s', Inr resp)"
    by (simp add: enroll_def key sample_enrolled_def hm_get_def enroll_known_def sample_node_def
        sample_env_def interleaved_write_def activate_command_def activate_node_def
        with_enrollment_def put_enrollment_def enroll_activated_def Let_def)
  have "\<forall>k. raft_client sample_ext (ev_write sample_env k)"
    by (simp add: sample_env_def interleaved.raft_client_axioms)
  from enroll_after_activation [OF this e, THEN conjunct1]
  have "er_node_id resp = ''n1''"
    by (simp add: key sample_enrolled_def hm_get_def)
  with e show ?thesis by blast
qed

text \<open>
  No ghost activations: once an activation of a node is accepted, every further activation
  of it is rejected, whatever commands run in between, unless one of them deactivates the node.
  So of two racing enrollments only one is accepted.
\<close>

theorem single_activation:
  assumes "snd (apply_command x t (ActivateNode n a b) s) = EnrollmentResult m st vc"
    and "\<forall>i \<in> set is. snd i \<noteq> DeactivateNode n"
  shows "\<exists>reason. snd (apply_command x t' (ActivateNode n a' b')
    (run_commands x is (fst (apply_command x t (ActivateNode n a b) s)))) = ValidationError reason"
proof -
  obtain e where "hm_get (js_enrollments (fst (apply_command x t (ActivateNode n a b) s))) n = Some e"
    "ne_state e \<in> {Active, Revoked}"
    using activate_result [of "ext_parse_rfc3339 x" t n a b s m st vc] assms(1) by auto
  then obtain e' where "hm_get (js_enrollments (run_commands x is
      (fst (apply_command x t (ActivateNode n a b) s)))) n = Some e'" "ne_state e' \<in> {Active, Revoked}"
    using engaged_run [of "fst (apply_command x t (ActivateNode n a b) s)" n e "is" x] assms(2) by blast
  then show ?thesis by (auto simp: activate_node_def with_enrollment_def)
qed

theorem single_activation_witness:
  "\<exists>reason. snd (apply_command sample_ext 9 (ActivateNode ''n1'' ''c'' ''d'')
    (run_commands sample_ext [(8, UnassignNode ''n1'')]
      (fst (apply_command sample_ext 7 (ActivateNode ''n1'' ''a'' ''b'') sample_enrolled)))) = ValidationError reason"
  by (rule single_activation [where m = "''n1''" and st = Active and vc = None])
    (simp_all add: activate_node_def with_enrollment_def put_enrollment_def sample_enrolled_def
      hm_get_def sample_node_def)

text \<open>
  C28. Registration, batch registration and decommissioning need a platform admin, and
  assignment a platform admin or the ops role of the target vCluster: any other caller, or one
  without a valid token, gets an authentication error and the journal is not touched.
\<close>

theorem enrollment_authorization:
  assumes "\<forall>i. authenticate ev h = Inr i \<longrightarrow>
      id_role i \<noteq> ''pact-platform-admin'' \<and> id_role i \<noteq> ''pact-ops-'' @ vc"
  shows "(\<exists>st. svc_register_node ev h n hw s = (s, Inl st) \<and>
      status_code st \<in> {Unauthenticated, PermissionDenied}) \<and>
    (\<exists>st. svc_batch_register_nodes ev h nodes s = (s, Inl st) \<and>
      status_code st \<in> {Unauthenticated, PermissionDenied}) \<and>
    (\<exists>st. svc_decommission_node ev h n force s = (s, Inl st) \<and>
      status_code st \<in> {Unauthenticated, PermissionDenied}) \<and>
    (\<exists>st. svc_assign_node ev h n vc s = (s, Inl st) \<and>
      status_code st \<in> {Unauthenticated, PermissionDenied})"
proof -
  obtain st where adm: "authenticate_admin ev h = Inl st"
    "status_code st \<in> {Unauthenticated, PermissionDenied}"
    using assms guard_unauthorised [of ev h] by blast
  have "\<exists>st. svc_assign_node ev h n vc s = (s, Inl st) \<and>
      status_code st \<in> {Unauthenticated, PermissionDenied}"
  proof (cases "authenticate ev h")
    case (Inl e)
    with adm show ?thesis by (simp add: svc_assign_node_def authenticate_admin_def)
  next
    case (Inr i)
    with assms show ?thesis by (simp add: svc_assign_node_def)
  qed
  with adm show ?thesis
    by (simp add: svc_register_node_def svc_batch_register_nodes_def svc_decommission_node_def)
qed

theorem enrollment_authorization_witness:
  "\<exists>st. svc_decommission_node sample_env (Some (Some ''Bearer tok'')) ''n1'' True sample_enrolled =
     (sample_enrolled, Inl st) \<and> status_code st \<in> {Unauthenticated, PermissionDenied}"
  using enrollment_authorization [of sample_env "Some (Some ''Bearer tok'')" "''x''" "''n1''" None
      sample_enrolled "[]" True]
  by (simp add: authenticate_def extract_token_def strip_prefix_def validate_token_str_def sample_env_def)

text \<open>
  A caller with an ops or viewer role sees, in listings and inspections, only nodes that
  are assigned to the vCluster of the role, the one access control derives from the role name.
\<close>

theorem listing_confined:
  assumes "authenticate ev h = Inr i" "is_scoped_role (id_role i)"
  shows "(\<forall>nodes. svc_list_nodes ev h req s = Inr nodes \<longrightarrow>
      (\<forall>m \<in> set nodes. \<exists>e \<in> set (hm_values (js_enrollments s)). m = node_summary ev e \<and>
         ne_vcluster_id e = extract_vcluster_from_role (id_role i))) \<and>
    (\<forall>r. svc_inspect_node ev h n s = Inr r \<longrightarrow>
      (\<exists>e. hm_get (js_enrollments s) n = Some e \<and> r = inspect_response ev e \<and>
         ne_vcluster_id e = extract_vcluster_from_role (id_role i)))"
proof -
  have "id_role i \<noteq> ''pact-platform-admin''"
    using assms(2) by (auto simp: is_scoped_role_def)
  with assms(2) have "allowed_vcluster (id_role i) = Some (role_vcluster (id_role i))"
    by (simp add: allowed_vcluster_def)
  then have "extract_vcluster_from_role (id_role i) = Some (role_vcluster (id_role i))"
    using allowed_vcluster_scoped [OF assms(2)] by simp
  with assms \<open>id_role i \<noteq> _\<close> \<open>allowed_vcluster _ = _\<close> show ?thesis
    by (auto simp: svc_list_nodes_def svc_inspect_node_def node_visible_def split: option.splits if_splits)
qed

theorem listing_confined_witness:
  "svc_list_nodes sample_env (Some (Some ''Bearer tok''))
     \<lparr>ln_state_filter = [], ln_vcluster_filter = [], ln_unassigned_only = False\<rparr> sample_enrolled =
   Inr [node_summary sample_env ((sample_node ''n2'' ''bb'')\<lparr>ne_vcluster_id := Some ''ml-training''\<rparr>)]"
  using listing_confined [of sample_env "Some (Some ''Bearer tok'')"
      "\<lparr>id_principal = ''bob'', id_principal_type = Human, id_role = ''pact-viewer-ml-training''\<rparr>"
      "\<lparr>ln_state_filter = [], ln_vcluster_filter = [], ln_unassigned_only = False\<rparr>" sample_enrolled "''n1''"]
  by (simp add: svc_list_nodes_def authenticate_def extract_token_def strip_prefix_def
      validate_token_str_def sample_env_def allowed_vcluster_def is_scoped_role_def role_vcluster_def
      sample_enrolled_def hm_values_def node_visible_def sample_node_def)

text \<open>
  A batch registration answers for every node of the batch, in order, and its two counters
  count the successes and the failures.
\<close>

theorem batch_register_complete:
  assumes "svc_batch_register_nodes ev h nodes s = (s', Inr r)"
  shows "length (br_results r) = length nodes \<and>
    br_succeeded r = of_nat (length (filter bn_success (br_results r))) \<and>
    br_failed r = of_nat (length (filter (\<lambda>b. \<not> bn_success b) (br_results r)))"
proof -
  obtain admin where "batch_register ev admin 0 nodes s
      \<lparr>br_results = [], br_succeeded = 0, br_failed = 0\<rparr> = (s', r)"
    using assms by (auto simp: svc_batch_register_nodes_def split: sum.splits prod.splits)
  from batch_register_counts [OF this] show ?thesis by auto
qed

theorem batch_register_complete_witness:
  "br_failed (snd (batch_register sample_env ops_alice 0 [(''n7'', None)] sample_enrolled
     \<lparr>br_results = [], br_succeeded = 0, br_failed = 0\<rparr>)) = 1"
proof -
  define ev where "ev = sample_env\<lparr>ev_validate := (\<lambda>_. Inr (ops_alice\<lparr>id_role := ''pact-platform-admin''\<rparr>))\<rparr>"
  have "svc_batch_register_nodes ev (Some (Some ''Bearer t'')) [(''n7'', None)] sample_enrolled =
      (sample_enrolled, Inr \<lparr>br_results = [batch_failure ''n7'' ''hardware_identity required''],
         br_succeeded = 0, br_failed = 1\<rparr>)"
    by (simp add: svc_batch_register_nodes_def authenticate_admin_def authenticate_def extract_token_def
        strip_prefix_def validate_token_str_def ev_def batch_register_one_def batch_failure_def)
  from batch_register_complete [OF this] show ?thesis
    by (simp add: batch_register_one_def batch_failure_def)
qed

end
