(* ===== verification/Heartbeat.thy ===== *)
theory Heartbeat
  imports Raft_Client Policy_Engine Journal_Properties
begin

text \<open>
  The heartbeat monitor, \<open>crates/pact-journal/src/heartbeat.rs\<close>: one tick deactivates the nodes
  that were not seen within the timeout and expires the approvals past their deadline. The
  monitor reads the state once per phase and then writes one command per finding; the writes are
  the functions \<open>cw 0\<close>, \<open>cw 1\<close>, ..., so that other commands may be applied between them.
\<close>

subsection \<open>The monitor\<close>

record HeartbeatMonitor =
  hb_timeout_seconds :: u32

definition node_timed_out :: "time \<Rightarrow> u32 \<Rightarrow> NodeEnrollment \<Rightarrow> bool" where
  "node_timed_out now timeout e \<longleftrightarrow> ne_state e = Active \<and>
     (case ne_last_seen e of Some ls \<Rightarrow> now - ls > seconds (uint timeout) | None \<Rightarrow> False)"

text \<open>Writing a list of commands one after the other; the outcomes are only logged.\<close>

fun write_all :: "(nat \<Rightarrow> client_write) \<Rightarrow> nat \<Rightarrow> JournalCommand list \<Rightarrow> JournalState \<Rightarrow> JournalState" where
  "write_all cw k [] s = s"
| "write_all cw k (c # cs) s = write_all cw (Suc k) cs (fst (cw k c s))"

definition check_timeouts ::
  "HeartbeatMonitor \<Rightarrow> (nat \<Rightarrow> client_write) \<Rightarrow> time \<Rightarrow> JournalState \<Rightarrow> JournalState" where
  "check_timeouts hb cw now s =
     (let ids = map ne_node_id
        (filter (node_timed_out now (hb_timeout_seconds hb)) (hm_values (js_enrollments s)))
      in write_all cw 0 (map DeactivateNode ids) s)"

definition system_identity :: Identity where
  "system_identity = \<lparr>id_principal = ''system'', id_principal_type = Service,
     id_role = ''pact-service-agent''\<rparr>"

definition expire_approvals :: "(nat \<Rightarrow> client_write) \<Rightarrow> time \<Rightarrow> JournalState \<Rightarrow> JournalState" where
  "expire_approvals cw now s =
     (let ids = map pa_approval_id (filter (timed_out now) (hm_values (js_pending_approvals s)))
      in write_all cw 0 (map (\<lambda>i. DecideApproval i system_identity Expired) ids) s)"

definition heartbeat_tick ::
  "HeartbeatMonitor \<Rightarrow> (nat \<Rightarrow> client_write) \<Rightarrow> (nat \<Rightarrow> client_write) \<Rightarrow> time \<Rightarrow> time \<Rightarrow>
   JournalState \<Rightarrow> JournalState" where
  "heartbeat_tick hb cw cw' now now' s = expire_approvals cw' now' (check_timeouts hb cw now s)"

subsection \<open>Lemmas\<close>

definition quiet_writes :: "Ext \<Rightarrow> (nat \<Rightarrow> time) \<Rightarrow> nat \<Rightarrow> client_write" where
  "quiet_writes x clock k = interleaved_write x [] (clock k) []"

lemma quiet_write [simp]: "fst (quiet_writes x clock k c s) = fst (apply_command x (clock k) c s)"
  by (simp add: quiet_writes_def interleaved_write_def apply_item_def)

lemma write_all_run:
  assumes "\<And>k. raft_client x (cw k)"
  shows "\<exists>is. write_all cw k cs s = run_commands x is s"
proof (induction cs arbitrary: k s)
  case Nil
  show ?case by (intro exI [of _ "[]"]) simp
next
  case (Cons c cs)
  obtain is1 where "fst (cw k c s) = run_commands x is1 s"
    using raft_client.write_run [OF assms] by blast
  moreover obtain is2 where "write_all cw (Suc k) cs (run_commands x is1 s) =
      run_commands x is2 (run_commands x is1 s)"
    using Cons.IH by blast
  ultimately show ?case by (auto simp flip: run_commands_append)
qed

lemma deactivate_get:
  "hm_get (js_enrollments (fst (deactivate_node n s))) m =
     (if m = n then map_option (\<lambda>e. e\<lparr>ne_state := Inactive\<rparr>) (hm_get (js_enrollments s) n)
      else hm_get (js_enrollments s) m)"
  by (auto simp: deactivate_node_def with_enrollment_def put_enrollment_def split: option.splits)

lemma deactivate_all:
  "hm_get (js_enrollments (write_all (quiet_writes x clock) k (map DeactivateNode ids) s)) m =
     (if m \<in> set ids then map_option (\<lambda>e. e\<lparr>ne_state := Inactive\<rparr>) (hm_get (js_enrollments s) m)
      else hm_get (js_enrollments s) m)"
proof (induction ids arbitrary: k s)
  case (Cons n ids)
  then show ?case
    by (cases "hm_get (js_enrollments s) m") (auto simp: deactivate_get)
qed simp

text \<open>No approval was requested by the monitor's own identity.\<close>

definition no_system_requests :: "JournalState \<Rightarrow> bool" where
  "no_system_requests s \<longleftrightarrow> (\<forall>i a. hm_get (js_pending_approvals s) i = Some a \<longrightarrow>
     id_principal (pa_requester a) \<noteq> ''system'')"

definition expire :: "Approval \<Rightarrow> Approval" where
  "expire a = (if pa_status a = Pending
     then a\<lparr>pa_status := Expired, pa_approver := Some system_identity\<rparr> else a)"

lemma expire_idem [simp]: "expire (expire a) = expire a"
  by (simp add: expire_def)

lemma expire_one:
  assumes "no_system_requests s"
  shows "hm_get (js_pending_approvals (fst (decide_approval i system_identity Expired s))) j =
    (if j = i then map_option expire (hm_get (js_pending_approvals s) i)
     else hm_get (js_pending_approvals s) j)"
  using assms
  by (auto simp: decide_approval_def no_system_requests_def system_identity_def expire_def
      split: option.splits)

lemma expire_one_inv:
  assumes "no_system_requests s"
  shows "no_system_requests (fst (decide_approval i system_identity Expired s))"
  unfolding no_system_requests_def expire_one [OF assms]
  using assms by (auto simp: no_system_requests_def expire_def)

lemma expire_all:
  assumes "no_system_requests s"
  shows "hm_get (js_pending_approvals (write_all (quiet_writes x clock) k
      (map (\<lambda>i. DecideApproval i system_identity Expired) ids) s)) j =
    (if j \<in> set ids then map_option expire (hm_get (js_pending_approvals s) j)
     else hm_get (js_pending_approvals s) j)"
  using assms
proof (induction ids arbitrary: k s)
  case (Cons i ids)
  from Cons.IH [OF expire_one_inv [OF Cons.prems, of i]] Cons.prems show ?case
    by (cases "hm_get (js_pending_approvals s) j") (auto simp: expire_one)
qed simp

lemma timed_out_iff:
  assumes "hm_inv m" "\<And>k v. hm_get m k = Some v \<Longrightarrow> f v = k"
  shows "k \<in> set (map f (filter P (hm_values m))) \<longleftrightarrow> (\<exists>v. hm_get m k = Some v \<and> P v)"
  using assms by (auto simp: hm_values_iff image_iff)

lemma deactivate_approvals:
  "js_pending_approvals (write_all (quiet_writes x clock) k (map DeactivateNode ids) s) =
   js_pending_approvals s"
proof (induction ids arbitrary: k s)
  case (Cons n ids)
  then show ?case by (simp add: command_defs split: option.split)
qed simp

lemma expire_enrollments:
  "js_enrollments (write_all (quiet_writes x clock) k
      (map (\<lambda>i. DecideApproval i system_identity Expired) ids) s) = js_enrollments s"
proof (induction ids arbitrary: k s)
  case (Cons i ids)
  then show ?case by (simp add: command_defs split: option.split)
qed simp

definition approvals_filed :: "JournalState \<Rightarrow> bool" where
  "approvals_filed s \<longleftrightarrow> hm_inv (js_pending_approvals s) \<and>
     (\<forall>i a. hm_get (js_pending_approvals s) i = Some a \<longrightarrow> pa_approval_id a = i)"

lemma approvals_filed_step:
  assumes "approvals_filed s"
  shows "approvals_filed (fst (apply_command x now c s))"
proof (cases c)
  case (CreateApproval a)
  with assms show ?thesis by (auto simp: approvals_filed_def create_approval_def)
next
  case (DecideApproval i w d)
  with assms show ?thesis
    by (auto simp: approvals_filed_def decide_approval_def split: option.splits)
qed (use assms approvals_frame [of c x now s] in \<open>simp_all add: approvals_filed_def\<close>)

lemma reachable_approvals_filed: "journal_reachable x s \<Longrightarrow> approvals_filed s"
  by (erule reachable_invariant)
    (simp_all add: approvals_filed_step, simp add: approvals_filed_def default_state_def)

subsection \<open>Properties\<close>

text \<open>
  One undisturbed tick of the monitor, in any reachable state: exactly the active nodes not
  seen within the timeout become inactive, every other enrollment is untouched, and exactly the
  pending approvals past their deadline become expired, every other approval is untouched
  (unless the monitor's own principal requested one).
\<close>

theorem heartbeat_tick_exact:
  assumes "journal_reachable x s" "no_system_requests s"
    and "s' = heartbeat_tick hb (quiet_writes x clock) (quiet_writes x clock') now now' s"
  shows "hm_get (js_enrollments s') n = map_option (\<lambda>e.
      if node_timed_out now (hb_timeout_seconds hb) e then e\<lparr>ne_state := Inactive\<rparr> else e)
      (hm_get (js_enrollments s) n) \<and>
    hm_get (js_pending_approvals s') i = map_option (\<lambda>a.
      if timed_out now' a then a\<lparr>pa_status := Expired, pa_approver := Some system_identity\<rparr> else a)
      (hm_get (js_pending_approvals s) i)"
proof -
  define ids where "ids = map ne_node_id
    (filter (node_timed_out now (hb_timeout_seconds hb)) (hm_values (js_enrollments s)))"
  define aids where "aids = map pa_approval_id (filter (timed_out now') (hm_values (js_pending_approvals s)))"
  define s1 where "s1 = write_all (quiet_writes x clock) 0 (map DeactivateNode ids) s"
  have ap: "js_pending_approvals s1 = js_pending_approvals s"
    by (simp add: s1_def deactivate_approvals)
  have "check_timeouts hb (quiet_writes x clock) now s = s1"
    by (simp only: check_timeouts_def s1_def ids_def Let_def)
  then have s': "s' = write_all (quiet_writes x clock') 0
      (map (\<lambda>i. DecideApproval i system_identity Expired) aids) s1"
    by (simp only: assms(3) heartbeat_tick_def expire_approvals_def aids_def ap Let_def)
  have ids: "n \<in> set ids \<longleftrightarrow> (\<exists>e. hm_get (js_enrollments s) n = Some e \<and>
      node_timed_out now (hb_timeout_seconds hb) e)"
    unfolding ids_def using reachable_enroll_inv [OF assms(1)]
    by (intro timed_out_iff) (auto simp: enroll_inv_def)
  have aids: "i \<in> set aids \<longleftrightarrow> (\<exists>a. hm_get (js_pending_approvals s) i = Some a \<and> timed_out now' a)"
    unfolding aids_def using reachable_approvals_filed [OF assms(1)]
    by (intro timed_out_iff) (auto simp: approvals_filed_def)
  have "no_system_requests s1" using assms(2) by (simp add: no_system_requests_def ap)
  then have "hm_get (js_pending_approvals s') i =
      (if i \<in> set aids then map_option expire (hm_get (js_pending_approvals s) i)
       else hm_get (js_pending_approvals s) i)"
    unfolding s' by (simp add: expire_all ap)
  moreover have "hm_get (js_enrollments s') n =
      (if n \<in> set ids then map_option (\<lambda>e. e\<lparr>ne_state := Inactive\<rparr>) (hm_get (js_enrollments s) n)
       else hm_get (js_enrollments s) n)"
    unfolding s' expire_enrollments s1_def deactivate_all ..
  ultimately show ?thesis
    unfolding ids aids
    by (cases "hm_get (js_enrollments s) n"; cases "hm_get (js_pending_approvals s) i")
      (auto simp: timed_out_def expire_def)
qed

theorem heartbeat_tick_exact_witness:
  "hm_get (js_enrollments (heartbeat_tick \<lparr>hb_timeout_seconds = 60\<rparr> (quiet_writes sample_ext (\<lambda>_. 0))
      (quiet_writes sample_ext (\<lambda>_. 0)) (seconds 90) (seconds 90)
      (run_commands sample_ext [(0, RegisterNode (sample_node ''n1'' ''aa'')),
         (seconds 10, ActivateNode ''n1'' ''c'' ''d'')] default_state))) ''n1'' =
   Some ((sample_node ''n1'' ''aa'')\<lparr>ne_state := Inactive, ne_cert_serial := Some ''c'',
     ne_cert_expires_at := Some 0, ne_last_seen := Some (seconds 10)\<rparr>)"
proof -
  define s where "s = run_commands sample_ext [(0, RegisterNode (sample_node ''n1'' ''aa'')),
         (seconds 10, ActivateNode ''n1'' ''c'' ''d'')] default_state"
  have "journal_reachable sample_ext s"
    unfolding s_def by (rule run_commands_reachable) (rule journal_reachable.start)
  moreover have "no_system_requests s" "hm_get (js_enrollments s) ''n1'' =
      Some ((sample_node ''n1'' ''aa'')\<lparr>ne_state := Active, ne_cert_serial := Some ''c'',
        ne_cert_expires_at := Some 0, ne_last_seen := Some (seconds 10)\<rparr>)"
    by (simp_all add: s_def sample_defs no_system_requests_def hm_contains_def)
  ultimately show ?thesis
    using heartbeat_tick_exact [of sample_ext s _ "\<lparr>hb_timeout_seconds = 60\<rparr>" "\<lambda>_. 0" "\<lambda>_. 0"
        "seconds 90" "seconds 90" "''n1''"] s_def
    by (simp add: node_timed_out_def seconds_def nanos_per_sec_def)
qed

end
