(* ===== verification/Boot_Service.thy ===== *)
theory Boot_Service
  imports Config_Service
begin

text \<open>
  The boot configuration service, \<open>crates/pact-journal/src/boot_service.rs\<close>: streaming the
  compressed overlay in chunks with the node delta and the completion marker, and the stream of
  configuration updates (catch-up from the journal, then the live notifications). The zstd
  encoder, the JSON serialisation and the hash are parameters.
\<close>

subsection \<open>Boot configuration\<close>

definition CHUNK_SIZE :: nat where "CHUNK_SIZE = 64 * 1024"

record BootConfigRequest =
  bcr_node_id :: NodeId
  bcr_vcluster_id :: VClusterId
  bcr_last_known_version :: "u64 option"

record OverlayChunk =
  oc_version :: u64
  oc_vcluster_id :: VClusterId
  oc_data :: bytes
  oc_chunk_index :: u32
  oc_total_chunks :: u32
  oc_checksum :: string

record NodeDeltaChunk =
  ndc_node_id :: NodeId
  ndc_version :: u64
  ndc_data :: bytes
  ndc_checksum :: string

record ConfigComplete =
  cc_base_version :: u64
  cc_node_version :: u64
  cc_timestamp :: Timestamp

datatype Chunk =
    BaseOverlay OverlayChunk
  | NodeDeltaMsg NodeDeltaChunk
  | Complete ConfigComplete

text \<open>\<open>slice::chunks(n)\<close> and \<open>usize::div_ceil\<close>.\<close>

function chunks_of :: "nat \<Rightarrow> 'a list \<Rightarrow> 'a list list" where
  "chunks_of n xs = (if n = 0 \<or> xs = [] then [] else take n xs # chunks_of n (drop n xs))"
  by auto
termination by (relation "measure (length \<circ> snd)") auto

declare chunks_of.simps [simp del]

definition div_ceil :: "nat \<Rightarrow> nat \<Rightarrow> nat" where
  "div_ceil a b = (a div b) + (if a mod b > 0 then 1 else 0)"

definition build_node_delta :: "(ConfigEntry list \<Rightarrow> bytes) \<Rightarrow> JournalState \<Rightarrow> NodeId \<Rightarrow> bytes" where
  "build_node_delta entries_json s n =
     (let node_entries = filter (\<lambda>e. ce_scope e = Node n) (map snd (js_entries s))
      in if node_entries = [] then [] else entries_json node_entries)"

definition overlay_chunks :: "BootOverlay \<Rightarrow> bytes \<Rightarrow> Chunk list" where
  "overlay_chunks ov data =
     (if data = [] then
        [BaseOverlay \<lparr>oc_version = bo_version ov, oc_vcluster_id = bo_vcluster_id ov, oc_data = [],
           oc_chunk_index = 0, oc_total_chunks = 1, oc_checksum = bo_checksum ov\<rparr>]
      else
        let total_chunks = max (div_ceil (length data) CHUNK_SIZE) 1 in
        map (\<lambda>(i, d). BaseOverlay \<lparr>oc_version = bo_version ov, oc_vcluster_id = bo_vcluster_id ov,
               oc_data = d, oc_chunk_index = of_nat i, oc_total_chunks = of_nat total_chunks,
               oc_checksum = bo_checksum ov\<rparr>)
          (enumerate 0 (chunks_of CHUNK_SIZE data)))"

definition seconds_timestamp :: "time \<Rightarrow> Timestamp" where
  "seconds_timestamp now = \<lparr>ts_seconds = timestamp now, ts_nanos = 0\<rparr>"

definition stream_boot_config ::
  "(bytes \<Rightarrow> bytes option) \<Rightarrow> (ConfigEntry list \<Rightarrow> bytes) \<Rightarrow> (bytes \<Rightarrow> string) \<Rightarrow> time \<Rightarrow>
   BootConfigRequest \<Rightarrow> JournalState \<Rightarrow> Status + Chunk list" where
  "stream_boot_config compress entries_json hash_hex now req s =
     (case hm_get (js_overlays s) (bcr_vcluster_id req) of
        None \<Rightarrow> Inl (Status NotFound (''no overlay for vCluster '' @ bcr_vcluster_id req))
      | Some ov \<Rightarrow>
          if (case bcr_last_known_version req of Some known \<Rightarrow> known \<ge> bo_version ov | None \<Rightarrow> False) then
            Inr [Complete \<lparr>cc_base_version = bo_version ov, cc_node_version = 0,
                   cc_timestamp = seconds_timestamp now\<rparr>]
          else
            let data = (case compress (bo_data ov) of Some d \<Rightarrow> d | None \<Rightarrow> bo_data ov);
                delta = build_node_delta entries_json s (bcr_node_id req)
            in Inr (overlay_chunks ov data @
                 (if delta \<noteq> [] then
                    [NodeDeltaMsg \<lparr>ndc_node_id = bcr_node_id req, ndc_version = bo_version ov,
                       ndc_data = delta, ndc_checksum = hash_hex delta\<rparr>]
                  else []) @
                 [Complete \<lparr>cc_base_version = bo_version ov, cc_node_version = bo_version ov,
                    cc_timestamp = seconds_timestamp now\<rparr>]))"

subsection \<open>Update subscription\<close>

datatype RecvEvent = Received ConfigUpdate | Lagged nat | Closed

definition catch_up :: "(ConfigEntry \<Rightarrow> bytes) \<Rightarrow> JournalState \<Rightarrow> EntrySeq \<Rightarrow> ConfigUpdate list" where
  "catch_up to_json s from =
     map (\<lambda>(seq, e). entry_update to_json seq e) (filter (\<lambda>(k, _). from \<le> k) (js_entries s))"

definition saturating_sub :: "u64 \<Rightarrow> u64 \<Rightarrow> u64" where
  "saturating_sub a b = (if a < b then 0 else a - b)"

definition last_sent_seq :: "ConfigUpdate list \<Rightarrow> EntrySeq \<Rightarrow> EntrySeq" where
  "last_sent_seq caught from =
     (if caught = [] then saturating_sub from 1 else cu_sequence (last caught))"

fun live_push :: "EntrySeq \<Rightarrow> RecvEvent list \<Rightarrow> ConfigUpdate list" where
  "live_push last_sent [] = []"
| "live_push last_sent (Received u # evs) =
     (if cu_sequence u \<le> last_sent then live_push last_sent evs
      else u # live_push (cu_sequence u) evs)"
| "live_push last_sent (Lagged n # evs) = []"
| "live_push last_sent (Closed # evs) = []"

definition subscribe_config_updates ::
  "(ConfigEntry \<Rightarrow> bytes) \<Rightarrow> JournalState \<Rightarrow> EntrySeq \<Rightarrow> RecvEvent list \<Rightarrow> ConfigUpdate list" where
  "subscribe_config_updates to_json s from evs =
     (let caught = catch_up to_json s from
      in caught @ live_push (last_sent_seq caught from) evs)"

subsection \<open>Lemmas\<close>

lemma concat_chunks_of: "n > 0 \<Longrightarrow> concat (chunks_of n xs) = xs"
proof (induction n xs rule: chunks_of.induct)
  case (1 n xs)
  then show ?case by (subst chunks_of.simps) auto
qed

lemma chunks_of_bounded: "c \<in> set (chunks_of n xs) \<Longrightarrow> c \<noteq> [] \<and> length c \<le> n"
proof (induction n xs rule: chunks_of.induct)
  case (1 n xs)
  from "1.prems" show ?case
    by (subst (asm) chunks_of.simps) (use "1.IH" in \<open>auto split: if_splits\<close>)
qed

lemma length_chunks_of: "n > 0 \<Longrightarrow> length (chunks_of n xs) = div_ceil (length xs) n"
proof (induction n xs rule: chunks_of.induct)
  case (1 n xs)
  show ?case
  proof (cases "length xs \<le> n")
    case True
    then show ?thesis
      by (cases "length xs = n") (use "1.prems" in \<open>auto simp: chunks_of.simps [of n xs]
          chunks_of.simps [of n "[]"] div_ceil_def\<close>)
  next
    case False
    then have "xs \<noteq> []" by auto
    with 1 have "length (chunks_of n xs) = Suc (div_ceil (length xs - n) n)"
      by (subst chunks_of.simps) auto
    also have "\<dots> = div_ceil (length xs) n"
      using False "1.prems" by (simp add: div_ceil_def le_div_geq le_mod_geq)
    finally show ?thesis .
  qed
qed

definition chunk_data :: "Chunk \<Rightarrow> bytes" where
  "chunk_data c = (case c of BaseOverlay oc \<Rightarrow> oc_data oc | _ \<Rightarrow> [])"

lemma overlay_chunks_data: "concat (map chunk_data (overlay_chunks ov data)) = data"
proof -
  have "map (chunk_data \<circ> (\<lambda>(i, d). BaseOverlay \<lparr>oc_version = v, oc_vcluster_id = vc, oc_data = d,
      oc_chunk_index = of_nat i, oc_total_chunks = t, oc_checksum = cs\<rparr>)) (enumerate k ds) = ds"
    for v vc t cs k and ds :: "bytes list"
    by (induction ds arbitrary: k) (auto simp: chunk_data_def)
  then show ?thesis
    by (simp add: overlay_chunks_def Let_def concat_chunks_of CHUNK_SIZE_def) (simp add: chunk_data_def)
qed

lemma overlay_chunks_nth:
  assumes "i < length (overlay_chunks ov data)"
  shows "\<exists>oc. overlay_chunks ov data ! i = BaseOverlay oc \<and> oc_chunk_index oc = of_nat i \<and>
    oc_total_chunks oc = of_nat (length (overlay_chunks ov data)) \<and>
    oc_version oc = bo_version ov \<and> oc_checksum oc = bo_checksum ov \<and> length (oc_data oc) \<le> CHUNK_SIZE"
proof (cases "data = []")
  case True
  with assms show ?thesis by (simp add: overlay_chunks_def)
next
  case False
  then have "chunks_of CHUNK_SIZE data \<noteq> []"
    by (subst chunks_of.simps) (simp add: CHUNK_SIZE_def)
  then have "max (div_ceil (length data) CHUNK_SIZE) 1 = length (chunks_of CHUNK_SIZE data)"
    by (simp add: length_chunks_of CHUNK_SIZE_def [symmetric] flip: length_greater_0_conv)
      (simp add: length_chunks_of CHUNK_SIZE_def)
  moreover have "i < length (chunks_of CHUNK_SIZE data)"
    using assms False by (simp add: overlay_chunks_def Let_def)
  ultimately show ?thesis
    using False chunks_of_bounded [OF nth_mem, of i CHUNK_SIZE data]
    by (simp add: overlay_chunks_def Let_def nth_enumerate_eq)
qed

lemma live_push_increasing:
  "sorted_wrt (<) (map cu_sequence (live_push l evs)) \<and> (\<forall>u \<in> set (live_push l evs). l < cu_sequence u)"
proof (induction l evs rule: live_push.induct)
  case (2 l u evs)
  then show ?case by (auto simp: not_le intro: less_trans)
qed simp_all

lemma live_push_ordered:
  "sorted_wrt (<) (map cu_sequence us) \<Longrightarrow>
   live_push l (map Received us) = filter (\<lambda>u. l < cu_sequence u) us"
proof (induction us arbitrary: l)
  case (Cons u us)
  then have above: "\<forall>w \<in> set us. cu_sequence u < cu_sequence w" by simp
  show ?case
  proof (cases "cu_sequence u \<le> l")
    case True
    with Cons show ?thesis by (simp add: not_less)
  next
    case False
    then have "filter (\<lambda>w. cu_sequence u < cu_sequence w) us = filter (\<lambda>w. l < cu_sequence w) us"
      by (intro filter_cong refl) (use above False in \<open>auto simp: not_le intro: less_trans\<close>)
    with False Cons show ?thesis by simp
  qed
qed simp

lemma le_last_of_sorted:
  fixes f :: "'a \<Rightarrow> 'b :: order"
  shows "sorted_wrt (<) (map f xs) \<Longrightarrow> x \<in> set xs \<Longrightarrow> f x \<le> f (last xs)"
  by (cases xs rule: rev_cases) (auto simp: sorted_wrt_append intro: less_imp_le)

lemma catch_up_sequences:
  "map cu_sequence (catch_up to_json s from) = filter ((\<le>) from) (map fst (js_entries s))"
  by (induction "js_entries s") (auto simp: catch_up_def entry_update_def filter_map o_def case_prod_unfold)

subsection \<open>Properties\<close>

text \<open>
  The boot stream delivers the whole overlay: its chunks are numbered 0, 1, 2, ... with the
  right total, carry the version and checksum of the overlay, are at most 64 KiB long and
  concatenate to the (compressed) data; then comes at most one node delta, and last the
  completion marker. A client that already has the version gets the marker alone.
\<close>

theorem boot_stream_complete:
  assumes "hm_get (js_overlays s) (bcr_vcluster_id req) = Some ov"
    and "\<forall>known. bcr_last_known_version req = Some known \<longrightarrow> known < bo_version ov"
  shows "\<exists>cs ds fin. stream_boot_config compress entries_json hash_hex now req s =
      Inr (cs @ ds @ [Complete fin]) \<and>
    cc_base_version fin = bo_version ov \<and>
    (ds = [] \<or> (\<exists>d. ds = [NodeDeltaMsg d] \<and> ndc_node_id d = bcr_node_id req)) \<and>
    concat (map chunk_data cs) = (case compress (bo_data ov) of Some d \<Rightarrow> d | None \<Rightarrow> bo_data ov) \<and>
    (\<forall>i < length cs. \<exists>oc. cs ! i = BaseOverlay oc \<and> oc_chunk_index oc = of_nat i \<and>
       oc_total_chunks oc = of_nat (length cs) \<and> oc_version oc = bo_version ov \<and>
       oc_checksum oc = bo_checksum ov \<and> length (oc_data oc) \<le> 65536)"
proof -
  define data where "data = (case compress (bo_data ov) of Some d \<Rightarrow> d | None \<Rightarrow> bo_data ov)"
  define delta where "delta = build_node_delta entries_json s (bcr_node_id req)"
  define fin where "fin = \<lparr>cc_base_version = bo_version ov, cc_node_version = bo_version ov,
      cc_timestamp = seconds_timestamp now\<rparr>"
  define ds where "ds = (if delta \<noteq> [] then [NodeDeltaMsg \<lparr>ndc_node_id = bcr_node_id req,
      ndc_version = bo_version ov, ndc_data = delta, ndc_checksum = hash_hex delta\<rparr>] else [])"
  have "\<not> (case bcr_last_known_version req of Some known \<Rightarrow> known \<ge> bo_version ov | None \<Rightarrow> False)"
    using assms(2) by (auto simp: not_le split: option.splits)
  then have stream: "stream_boot_config compress entries_json hash_hex now req s =
      Inr (overlay_chunks ov data @ ds @ [Complete fin])"
    using assms(1) by (simp add: stream_boot_config_def data_def delta_def ds_def fin_def Let_def)
  have "CHUNK_SIZE = 65536" by (simp add: CHUNK_SIZE_def)
  then have "\<forall>i < length (overlay_chunks ov data). \<exists>oc. overlay_chunks ov data ! i = BaseOverlay oc \<and>
      oc_chunk_index oc = of_nat i \<and> oc_total_chunks oc = of_nat (length (overlay_chunks ov data)) \<and>
      oc_version oc = bo_version ov \<and> oc_checksum oc = bo_checksum ov \<and> length (oc_data oc) \<le> 65536"
    using overlay_chunks_nth [of _ ov data] by metis
  moreover have "ds = [] \<or> (\<exists>d. ds = [NodeDeltaMsg d] \<and> ndc_node_id d = bcr_node_id req)"
    by (simp add: ds_def)
  ultimately show ?thesis
    using stream overlay_chunks_data [of ov data] unfolding data_def [symmetric]
    by (intro exI [of _ "overlay_chunks ov data"] exI [of _ ds] exI [of _ fin]) (simp add: fin_def)
qed

theorem boot_stream_complete_witness:
  "\<exists>cs ds fin. stream_boot_config (\<lambda>_. None) (\<lambda>_. [7]) (\<lambda>_. ''h'') 0
      \<lparr>bcr_node_id = ''n1'', bcr_vcluster_id = ''ml'', bcr_last_known_version = Some 2\<rparr>
      (default_state\<lparr>js_overlays := [(''ml'', new_overlay (\<lambda>_. ''c'') ''ml'' 3 [1, 2])]\<rparr>) =
      Inr (cs @ ds @ [Complete fin]) \<and> concat (map chunk_data cs) = [1, 2]"
proof -
  have "hm_get (js_overlays (default_state\<lparr>js_overlays := [(''ml'', new_overlay (\<lambda>_. ''c'') ''ml'' 3 [1, 2])]\<rparr>))
      (bcr_vcluster_id \<lparr>bcr_node_id = ''n1'', bcr_vcluster_id = ''ml'', bcr_last_known_version = Some 2\<rparr>) =
      Some (new_overlay (\<lambda>_. ''c'') ''ml'' 3 [1, 2])"
    by (simp add: hm_get_def)
  from boot_stream_complete [OF this, of "\<lambda>_. None" "\<lambda>_. [7]" "\<lambda>_. ''h''" 0]
  show ?thesis by (simp add: new_overlay_def) blast
qed

text \<open>
  A subscription delivers updates with strictly increasing sequence numbers, so none twice
  and none out of order, whatever the broadcast channel does; the catch-up part is every journal
  entry from the requested sequence on; and live updates that arrive in order are all delivered
  except those not above the last one sent.
\<close>

theorem subscription_ordered:
  assumes "bt_inv (js_entries s)"
  shows "sorted_wrt (<) (map cu_sequence (subscribe_config_updates to_json s from evs)) \<and>
    map cu_sequence (catch_up to_json s from) = filter (\<lambda>k. from \<le> k) (map fst (js_entries s)) \<and>
    (\<forall>us. sorted_wrt (<) (map cu_sequence us) \<longrightarrow>
      subscribe_config_updates to_json s from (map Received us) =
      catch_up to_json s from @
      filter (\<lambda>u. last_sent_seq (catch_up to_json s from) from < cu_sequence u) us)"
proof (intro conjI allI impI)
  define c where "c = catch_up to_json s from"
  define l where "l = last_sent_seq c from"
  have c: "sorted_wrt (<) (map cu_sequence c)"
    using assms by (simp add: c_def catch_up_sequences bt_inv_def sorted_wrt_filter)
  then have "cu_sequence u \<le> l" if "u \<in> set c" for u
    using that le_last_of_sorted [of cu_sequence c u] by (auto simp: l_def last_sent_seq_def)
  with c live_push_increasing [of l evs]
  show "sorted_wrt (<) (map cu_sequence (subscribe_config_updates to_json s from evs))"
    by (auto simp: subscribe_config_updates_def Let_def sorted_wrt_append c_def [symmetric] l_def [symmetric]
        intro: le_less_trans)
next
  show "map cu_sequence (catch_up to_json s from) = filter (\<lambda>k. from \<le> k) (map fst (js_entries s))"
    by (rule catch_up_sequences)
next
  fix us :: "ConfigUpdate list"
  assume "sorted_wrt (<) (map cu_sequence us)"
  then show "subscribe_config_updates to_json s from (map Received us) =
      catch_up to_json s from @
      filter (\<lambda>u. last_sent_seq (catch_up to_json s from) from < cu_sequence u) us"
    by (simp add: subscribe_config_updates_def Let_def live_push_ordered)
qed

theorem subscription_ordered_witness:
  "map cu_sequence (subscribe_config_updates (\<lambda>_. []) (default_state\<lparr>js_entries :=
     [(0, sample_entry None), (1, sample_entry None)]\<rparr>) 1
     (map Received [entry_update (\<lambda>_. []) 1 (sample_entry None), entry_update (\<lambda>_. []) 2 (sample_entry None)]))
   = [1, 2]"
  using subscription_ordered [of "default_state\<lparr>js_entries := [(0, sample_entry None), (1, sample_entry None)]\<rparr>"
      "\<lambda>_. []" 1]
  by (simp add: bt_inv_def entry_update_def catch_up_def last_sent_seq_def
      subscribe_config_updates_def Let_def word_le_nat_alt)

text \<open>
  The guard against duplicates is off by one when nothing was caught up from sequence 0: the
  very first entry of the journal, announced live, is dropped.
\<close>

lemma subscription_drops_first_entry:
  "subscribe_config_updates to_json default_state 0 [Received (entry_update to_json 0 e)] = []"
  by (simp add: subscribe_config_updates_def catch_up_def default_state_def last_sent_seq_def
      saturating_sub_def entry_update_def)

end
