(* ===== verification/Conflict.thy ===== *)
theory Conflict
  imports Pact_Prelude
begin

text \<open>
  Conflict resolution after a partition, \<open>crates/pact-agent/src/conflict/mod.rs\<close>: the manager
  of pending conflicts with its paused keys, as a state machine over its operations.
\<close>

subsection \<open>The manager\<close>

record AgentConflictEntry =
  ac_key :: string
  ac_local_value :: bytes
  ac_journal_value :: bytes
  ac_detected_at :: time

datatype Resolution = AcceptLocal | AcceptJournal

datatype ConflictState = ConflictPending | Resolved Resolution | GraceExpired

record ConflictManager =
  cm_conflicts :: "(string, AgentConflictEntry \<times> ConflictState) hashmap"
  cm_grace_period :: time
  cm_paused_keys :: "string list"

definition conflict_new :: "u32 \<Rightarrow> ConflictManager" where
  "conflict_new grace_period_seconds = \<lparr>cm_conflicts = [],
     cm_grace_period = seconds (uint grace_period_seconds), cm_paused_keys = []\<rparr>"

definition register_conflict :: "AgentConflictEntry \<Rightarrow> ConflictManager \<Rightarrow> ConflictManager" where
  "register_conflict e m =
     (let key = ac_key e;
          paused = (if key \<in> set (cm_paused_keys m) then cm_paused_keys m
                    else cm_paused_keys m @ [key])
      in m\<lparr>cm_paused_keys := paused,
           cm_conflicts := hm_insert key (e, ConflictPending) (cm_conflicts m)\<rparr>)"

definition register_conflicts :: "AgentConflictEntry list \<Rightarrow> ConflictManager \<Rightarrow> ConflictManager" where
  "register_conflicts es m = fold register_conflict es m"

definition is_paused :: "ConflictManager \<Rightarrow> string \<Rightarrow> bool" where
  "is_paused m key \<longleftrightarrow> key \<in> set (cm_paused_keys m)"

definition pending_conflicts :: "ConflictManager \<Rightarrow> AgentConflictEntry list" where
  "pending_conflicts m =
     map fst (filter (\<lambda>(_, st). st = ConflictPending) (hm_values (cm_conflicts m)))"

definition resolve ::
  "string \<Rightarrow> Resolution \<Rightarrow> ConflictManager \<Rightarrow> ConflictManager \<times> (string + AgentConflictEntry)" where
  "resolve key r m = (case hm_get (cm_conflicts m) key of
     None \<Rightarrow> (m, Inl (''no conflict for key: '' @ key))
   | Some (e, st) \<Rightarrow>
       if st \<noteq> ConflictPending then
         (m, Inl (''conflict for key '' @ key @ '' already resolved''))
       else
         (m\<lparr>cm_conflicts := hm_insert key (e, Resolved r) (cm_conflicts m),
            cm_paused_keys := filter (\<lambda>k. k \<noteq> key) (cm_paused_keys m)\<rparr>, Inr e))"

definition grace_over :: "time \<Rightarrow> time \<Rightarrow> AgentConflictEntry \<times> ConflictState \<Rightarrow> bool" where
  "grace_over now grace c \<longleftrightarrow> snd c = ConflictPending \<and> now \<ge> ac_detected_at (fst c) + grace"

definition check_grace_periods :: "time \<Rightarrow> ConflictManager \<Rightarrow> ConflictManager \<times> string list" where
  "check_grace_periods now m =
     (let expired = map fst (filter (\<lambda>(_, c). grace_over now (cm_grace_period m) c) (cm_conflicts m))
      in (m\<lparr>cm_conflicts := hm_map (\<lambda>_ c. if grace_over now (cm_grace_period m) c
              then (fst c, GraceExpired) else c) (cm_conflicts m),
            cm_paused_keys := fold (\<lambda>key ks. filter (\<lambda>k. k \<noteq> key) ks) expired (cm_paused_keys m)\<rparr>,
          expired))"

definition all_resolved :: "ConflictManager \<Rightarrow> bool" where
  "all_resolved m = list_all (\<lambda>(_, st). st \<noteq> ConflictPending) (hm_values (cm_conflicts m))"

definition pending_count :: "ConflictManager \<Rightarrow> nat" where
  "pending_count m = length (filter (\<lambda>(_, st). st = ConflictPending) (hm_values (cm_conflicts m)))"

definition clear_resolved :: "ConflictManager \<Rightarrow> ConflictManager" where
  "clear_resolved m = m\<lparr>cm_conflicts :=
     hm_retain (\<lambda>_ (_, st). st = ConflictPending) (cm_conflicts m)\<rparr>"

definition resolution_log :: "ConflictManager \<Rightarrow> (string \<times> ConflictState \<times> bytes \<times> bytes) list" where
  "resolution_log m =
     map (\<lambda>(key, e, st). (key, st, ac_local_value e, ac_journal_value e))
       (filter (\<lambda>(_, _, st). st \<noteq> ConflictPending) (cm_conflicts m))"

subsection \<open>As a state machine\<close>

datatype conflict_op =
    RegisterConflicts "AgentConflictEntry list"
  | ResolveConflict string Resolution
  | CheckGrace time
  | ClearResolved

fun conflict_step :: "conflict_op \<Rightarrow> ConflictManager \<Rightarrow> ConflictManager" where
  "conflict_step (RegisterConflicts es) m = register_conflicts es m"
| "conflict_step (ResolveConflict key r) m = fst (resolve key r m)"
| "conflict_step (CheckGrace now) m = fst (check_grace_periods now m)"
| "conflict_step ClearResolved m = clear_resolved m"

definition run_conflicts :: "conflict_op list \<Rightarrow> ConflictManager \<Rightarrow> ConflictManager" where
  "run_conflicts ops m = fold conflict_step ops m"

interpretation conflicts: state_machine conflict_step .

text \<open>The paused keys are exactly the keys with a pending conflict, each once.\<close>

definition conflict_inv :: "ConflictManager \<Rightarrow> bool" where
  "conflict_inv m \<longleftrightarrow> hm_inv (cm_conflicts m) \<and> distinct (cm_paused_keys m) \<and>
     (\<forall>k. k \<in> set (cm_paused_keys m) \<longleftrightarrow>
        (\<exists>e. hm_get (cm_conflicts m) k = Some (e, ConflictPending))) \<and>
     (\<forall>k e st. hm_get (cm_conflicts m) k = Some (e, st) \<longrightarrow> ac_key e = k)"

subsection \<open>Lemmas\<close>

lemma conflict_inv_new: "conflict_inv (conflict_new g)"
  by (simp add: conflict_inv_def conflict_new_def)

lemma conflict_inv_register1:
  "conflict_inv m \<Longrightarrow> conflict_inv (register_conflict e m)"
  by (auto simp: conflict_inv_def register_conflict_def Let_def)

lemma conflict_inv_register: "conflict_inv m \<Longrightarrow> conflict_inv (register_conflicts es m)"
  unfolding register_conflicts_def
  by (induction es arbitrary: m) (simp_all add: conflict_inv_register1)

lemma conflict_inv_resolve: "conflict_inv m \<Longrightarrow> conflict_inv (fst (resolve key r m))"
  by (auto simp: conflict_inv_def resolve_def split: option.splits)

lemma fold_filter_neq:
  "fold (\<lambda>key ks. filter (\<lambda>k. k \<noteq> key) ks) es ks = filter (\<lambda>k. k \<notin> set es) ks"
  by (induction es arbitrary: ks) (auto intro: filter_cong)

lemma expired_iff:
  assumes "hm_inv (cm_conflicts m)"
  shows "k \<in> set (snd (check_grace_periods now m)) \<longleftrightarrow>
    (\<exists>e. hm_get (cm_conflicts m) k = Some (e, ConflictPending) \<and>
         ac_detected_at e + cm_grace_period m \<le> now)"
  using assms by (force simp: check_grace_periods_def Let_def grace_over_def hm_get_in_set)

lemma grace_paused:
  "cm_paused_keys (fst (check_grace_periods now m)) =
   filter (\<lambda>k. k \<notin> set (snd (check_grace_periods now m))) (cm_paused_keys m)"
  by (simp add: check_grace_periods_def Let_def fold_filter_neq)

lemma grace_get:
  "hm_get (cm_conflicts (fst (check_grace_periods now m))) k =
   map_option (\<lambda>(e, st). if st = ConflictPending \<and> ac_detected_at e + cm_grace_period m \<le> now
     then (e, GraceExpired) else (e, st)) (hm_get (cm_conflicts m) k)"
  by (cases "hm_get (cm_conflicts m) k")
    (auto simp: check_grace_periods_def Let_def hm_get_map grace_over_def)

lemma grace_get_pending:
  "hm_get (cm_conflicts (fst (check_grace_periods now m))) k = Some (e, ConflictPending) \<longleftrightarrow>
   hm_get (cm_conflicts m) k = Some (e, ConflictPending) \<and> \<not> ac_detected_at e + cm_grace_period m \<le> now"
  unfolding grace_get by (cases "hm_get (cm_conflicts m) k") (auto split: if_splits)

lemma grace_get_some:
  "hm_get (cm_conflicts (fst (check_grace_periods now m))) k = Some (e, st) \<Longrightarrow>
   \<exists>st'. hm_get (cm_conflicts m) k = Some (e, st')"
  unfolding grace_get by (cases "hm_get (cm_conflicts m) k") (auto split: if_splits)

lemma conflict_inv_grace:
  assumes "conflict_inv m"
  shows "conflict_inv (fst (check_grace_periods now m))"
proof -
  have inv: "hm_inv (cm_conflicts m)" using assms by (simp add: conflict_inv_def)
  have "hm_inv (cm_conflicts (fst (check_grace_periods now m)))"
    using inv by (simp add: check_grace_periods_def Let_def)
  with assms show ?thesis
    unfolding conflict_inv_def grace_paused grace_get_pending
    by (auto simp: expired_iff [OF inv] dest!: grace_get_some)
qed

lemma conflict_inv_clear: "conflict_inv m \<Longrightarrow> conflict_inv (clear_resolved m)"
  by (auto simp: conflict_inv_def clear_resolved_def hm_get_retain split: option.splits)

lemma conflict_inv_step: "conflict_inv m \<Longrightarrow> conflict_inv (conflict_step c m)"
  by (cases c) (simp_all add: conflict_inv_register conflict_inv_resolve conflict_inv_grace conflict_inv_clear)

lemma conflict_inv_run: "conflict_inv m \<Longrightarrow> conflict_inv (run_conflicts ops m)"
  using conflicts.run_invariant [where P = conflict_inv and Q = "\<lambda>_. True", of m ops] conflict_inv_step
  by (simp add: run_conflicts_def conflicts.run_def)

lemma all_resolved_iff:
  assumes "conflict_inv m"
  shows "all_resolved m \<longleftrightarrow> cm_paused_keys m = []"
proof -
  have "all_resolved m \<longleftrightarrow> (\<forall>k e. hm_get (cm_conflicts m) k \<noteq> Some (e, ConflictPending))"
    using assms by (fastforce simp: all_resolved_def conflict_inv_def list_all_iff hm_values_iff)
  with assms show ?thesis by (auto simp: conflict_inv_def intro: ccontr)
qed

subsection \<open>Properties\<close>

text \<open>
  After any sequence of registrations, resolutions, grace checks and clean-ups, a key is
  paused from convergence exactly while it has an unresolved conflict, no key is paused twice,
  and convergence is unrestricted exactly when all conflicts are resolved.
\<close>

theorem conflict_pausing_exact:
  "(is_paused (run_conflicts ops (conflict_new g)) k \<longleftrightarrow>
      (\<exists>e. hm_get (cm_conflicts (run_conflicts ops (conflict_new g))) k = Some (e, ConflictPending))) \<and>
   distinct (cm_paused_keys (run_conflicts ops (conflict_new g))) \<and>
   (all_resolved (run_conflicts ops (conflict_new g)) \<longleftrightarrow>
      cm_paused_keys (run_conflicts ops (conflict_new g)) = [])"
  using conflict_inv_run [OF conflict_inv_new, of ops g]
  by (simp add: all_resolved_iff is_paused_def) (simp add: conflict_inv_def)

text \<open>
  Journal wins after the grace period: a grace check at time \<open>now\<close> reports exactly the keys
  whose conflict is pending and was detected at least the grace period ago; those are marked as
  expired and no longer paused, and every other conflict (an admin's resolution included) stays
  as it was.
\<close>

theorem conflict_grace_exact:
  assumes "m = run_conflicts ops (conflict_new g)" "check_grace_periods now m = (m', expired)"
  shows "hm_get (cm_conflicts m') k = map_option (\<lambda>(e, st).
      if st = ConflictPending \<and> ac_detected_at e + cm_grace_period m \<le> now
      then (e, GraceExpired) else (e, st)) (hm_get (cm_conflicts m) k) \<and>
    (k \<in> set expired \<longleftrightarrow> (\<exists>e. hm_get (cm_conflicts m) k = Some (e, ConflictPending) \<and>
      ac_detected_at e + cm_grace_period m \<le> now)) \<and>
    (is_paused m' k \<longleftrightarrow> is_paused m k \<and> k \<notin> set expired)"
proof -
  have inv: "conflict_inv m" unfolding assms(1) by (rule conflict_inv_run [OF conflict_inv_new])
  then have "hm_inv (cm_conflicts m)" by (simp add: conflict_inv_def)
  from expired_iff [OF this, of k now] grace_get [of now m k] grace_paused [of now m] assms(2)
  show ?thesis by (simp add: is_paused_def)
qed

theorem conflict_grace_exact_witness:
  "\<exists>m' expired. check_grace_periods (seconds 60) (run_conflicts [RegisterConflicts
       [\<lparr>ac_key = ''a'', ac_local_value = [1], ac_journal_value = [2], ac_detected_at = 0\<rparr>]]
       (conflict_new 30)) = (m', expired) \<and> ''a'' \<in> set expired \<and> \<not> is_paused m' ''a''"
proof -
  define m where "m = run_conflicts [RegisterConflicts
       [\<lparr>ac_key = ''a'', ac_local_value = [1], ac_journal_value = [2], ac_detected_at = 0\<rparr>]] (conflict_new 30)"
  obtain m' expired where c: "check_grace_periods (seconds 60) m = (m', expired)" by fastforce
  have "hm_get (cm_conflicts m) ''a'' = Some (\<lparr>ac_key = ''a'', ac_local_value = [1],
      ac_journal_value = [2], ac_detected_at = 0\<rparr>, ConflictPending)" "cm_grace_period m = seconds 30"
    by (simp_all add: m_def run_conflicts_def register_conflicts_def register_conflict_def
        conflict_new_def Let_def)
  with conflict_grace_exact [OF m_def c, of "''a''"] c show ?thesis
    unfolding m_def by (simp add: seconds_def nanos_per_sec_def)
qed

end
