(* ===== verification/Emergency.thy ===== *)
theory Emergency
  imports Pact_Types
begin

text \<open>
  Emergency mode of an agent, \<open>crates/pact-agent/src/emergency/mod.rs\<close>, as a state machine over
  attempts to start and to end it by any identities at any times.
\<close>

subsection \<open>The manager\<close>

datatype EmergencyState =
    EmergencyInactive
  | EmergencyActive (started_at: time) (started_by: Identity) (emergency_reason: string) (emergency_expires_at: time)

record EmergencyManager =
  em_state :: EmergencyState
  em_default_window_seconds :: u32

definition emergency_new :: "u32 \<Rightarrow> EmergencyManager" where
  "emergency_new w = \<lparr>em_state = EmergencyInactive, em_default_window_seconds = w\<rparr>"

definition is_active :: "EmergencyManager \<Rightarrow> bool" where
  "is_active m = (case em_state m of EmergencyActive _ _ _ _ \<Rightarrow> True | EmergencyInactive \<Rightarrow> False)"

definition emergency_start ::
  "time \<Rightarrow> Identity \<Rightarrow> string \<Rightarrow> EmergencyManager \<Rightarrow> EmergencyManager \<times> (string + unit)" where
  "emergency_start now actor reason m =
     (if is_active m then (m, Inl ''emergency mode already active'')
      else (m\<lparr>em_state := EmergencyActive now actor reason
              (now + seconds (uint (em_default_window_seconds m)))\<rparr>, Inr ()))"

definition emergency_end ::
  "Identity \<Rightarrow> bool \<Rightarrow> EmergencyManager \<Rightarrow> EmergencyManager \<times> (string + unit)" where
  "emergency_end actor force m = (case em_state m of
     EmergencyInactive \<Rightarrow> (m, Inl ''not in emergency mode'')
   | EmergencyActive _ by _ _ \<Rightarrow>
       if \<not> force \<and> id_principal by \<noteq> id_principal actor then
         (m, Inl (''only '' @ id_principal by @ '' or force-end can close this emergency''))
       else (m\<lparr>em_state := EmergencyInactive\<rparr>, Inr ()))"

definition is_stale :: "time \<Rightarrow> EmergencyManager \<Rightarrow> bool" where
  "is_stale now m = (case em_state m of EmergencyActive _ _ _ e \<Rightarrow> now \<ge> e | EmergencyInactive \<Rightarrow> False)"

definition reason :: "EmergencyManager \<Rightarrow> string option" where
  "reason m = (case em_state m of EmergencyActive _ _ r _ \<Rightarrow> Some r | EmergencyInactive \<Rightarrow> None)"

subsection \<open>As a state machine\<close>

datatype emergency_op =
    TryStart time Identity string
  | TryEnd Identity bool

fun emergency_step :: "emergency_op \<Rightarrow> EmergencyManager \<Rightarrow> EmergencyManager" where
  "emergency_step (TryStart now i r) m = fst (emergency_start now i r m)"
| "emergency_step (TryEnd i force) m = fst (emergency_end i force m)"

definition run_emergency :: "emergency_op list \<Rightarrow> EmergencyManager \<Rightarrow> EmergencyManager" where
  "run_emergency ops m = fold emergency_step ops m"

interpretation emergency: state_machine emergency_step .

text \<open>An attempt that may end an emergency started by the principal \<open>p\<close>.\<close>

fun ends_for :: "string \<Rightarrow> emergency_op \<Rightarrow> bool" where
  "ends_for p (TryStart now i r) = False"
| "ends_for p (TryEnd i force) = (force \<or> id_principal i = p)"

lemma emergency_step_kept:
  "em_state m = EmergencyActive t i r e \<Longrightarrow> \<not> ends_for (id_principal i) c \<Longrightarrow>
   em_state (emergency_step c m) = EmergencyActive t i r e"
  by (cases c) (auto simp: emergency_start_def emergency_end_def is_active_def)

lemma emergency_kept:
  assumes "em_state m = EmergencyActive t i r e" "\<And>c. c \<in> set ops \<Longrightarrow> \<not> ends_for (id_principal i) c"
  shows "em_state (run_emergency ops m) = EmergencyActive t i r e"
  unfolding run_emergency_def emergency.run_def [symmetric]
  by (rule emergency.run_invariant [where Q = "\<lambda>c. \<not> ends_for (id_principal i) c"])
    (use assms emergency_step_kept in auto)

text \<open>
  A started emergency stays exactly as it was started (same start, starter, reason and
  deadline), through any attempts of others to start or end one, until the starter ends it or
  somebody ends it by force; it is stale from its deadline on; and ending it then succeeds.
\<close>

theorem emergency_held_until_ended:
  assumes "emergency_start now i r m = (m', Inr u)"
    and "\<forall>c \<in> set ops. \<not> ends_for (id_principal i) c"
  shows "em_state (run_emergency ops m') =
      EmergencyActive now i r (now + seconds (uint (em_default_window_seconds m))) \<and>
    (is_stale t (run_emergency ops m') \<longleftrightarrow> now + seconds (uint (em_default_window_seconds m)) \<le> t) \<and>
    (force \<or> id_principal j = id_principal i \<longleftrightarrow>
      snd (emergency_end j force (run_emergency ops m')) = Inr ()) \<and>
    (snd (emergency_end j force (run_emergency ops m')) = Inr () \<longrightarrow>
      \<not> is_active (fst (emergency_end j force (run_emergency ops m'))))"
proof -
  from assms(1) have "em_state m' = EmergencyActive now i r (now + seconds (uint (em_default_window_seconds m)))"
    by (auto simp: emergency_start_def split: if_splits)
  from emergency_kept [OF this, of ops] assms(2) show ?thesis
    by (auto simp: is_stale_def emergency_end_def is_active_def)
qed

theorem emergency_held_until_ended_witness:
  "em_state (run_emergency [TryStart 1 \<lparr>id_principal = ''b'', id_principal_type = Human, id_role = ''r''\<rparr> ''x'',
      TryEnd \<lparr>id_principal = ''b'', id_principal_type = Human, id_role = ''r''\<rparr> False]
      (fst (emergency_start 0 \<lparr>id_principal = ''a'', id_principal_type = Human, id_role = ''r''\<rparr> ''fire''
        (emergency_new 10)))) =
   EmergencyActive 0 \<lparr>id_principal = ''a'', id_principal_type = Human, id_role = ''r''\<rparr> ''fire'' (seconds 10)"
  using emergency_held_until_ended [of 0 "\<lparr>id_principal = ''a'', id_principal_type = Human, id_role = ''r''\<rparr>"
      "''fire''" "emergency_new 10" _ "()" "[TryStart 1 \<lparr>id_principal = ''b'', id_principal_type = Human,
      id_role = ''r''\<rparr> ''x'', TryEnd \<lparr>id_principal = ''b'', id_principal_type = Human, id_role = ''r''\<rparr> False]"]
  by (simp add: emergency_start_def emergency_new_def is_active_def)

end
