(* ===== verification/Exec_Command.thy ===== *)
theory Exec_Command
  imports Pact_Prelude
begin

text \<open>
  Execution of a single command, \<open>crates/pact-agent/src/shell/exec.rs\<close>. What the operating
  system answers is a parameter: spawning fails or gives a child process, whose two output
  streams are the results of successive reads and whose end is a point in time. A result of
  \<open>None\<close> is a call that never returns.
\<close>

datatype ExecError =
    NotWhitelisted string | CommandNotFound string | ExecutionFailed string | ExecTimeout u64

record ExecResult =
  xr_stdout :: bytes
  xr_stderr :: bytes
  xr_exit_code :: int

record ExecConfig =
  xc_timeout_seconds :: u64
  xc_max_output_bytes :: nat

definition default_exec_config :: ExecConfig where
  "default_exec_config = \<lparr>xc_timeout_seconds = 300, xc_max_output_bytes = 10485760\<rparr>"

text \<open>
  A stream: what successive reads return, and whether it ends after them (otherwise the next read
  blocks for ever, as when another process keeps the pipe open).
\<close>

record OutputStream =
  os_reads :: "(string + bytes) list"
  os_ends :: bool

record Child =
  ch_stdout :: OutputStream
  ch_stderr :: OutputStream
  ch_wait :: "(time \<times> (string + int option)) option"

datatype SpawnError = SpawnNotFound | SpawnFailed string

type_synonym spawn = "string \<Rightarrow> string list \<Rightarrow> (string \<times> string) list \<Rightarrow> SpawnError + Child"

definition exec_env :: "(string \<times> string) list" where
  "exec_env = [(''PATH'', ''/usr/bin:/bin''), (''HOME'', ''/tmp''), (''LANG'', ''C.UTF-8'')]"

text \<open>The reading loop of either stream.\<close>

fun read_capped :: "nat \<Rightarrow> bool \<Rightarrow> bytes \<Rightarrow> (string + bytes) list \<Rightarrow> bytes option" where
  "read_capped max_bytes ends sofar [] = (if ends then Some sofar else None)"
| "read_capped max_bytes ends sofar (Inl e # rs) = Some sofar"
| "read_capped max_bytes ends sofar (Inr buf # rs) =
     (if buf = [] then Some sofar
      else if length sofar + length buf > max_bytes
        then Some (sofar @ take (max_bytes - length sofar) buf)
      else read_capped max_bytes ends (sofar @ buf) rs)"

definition read_stream :: "ExecConfig \<Rightarrow> OutputStream \<Rightarrow> bytes option" where
  "read_stream c st = read_capped (xc_max_output_bytes c) (os_ends st) [] (os_reads st)"

definition collect_output :: "ExecConfig \<Rightarrow> Child \<Rightarrow> int option \<Rightarrow> ExecResult option" where
  "collect_output c ch code = (case read_stream c (ch_stdout ch) of
     None \<Rightarrow> None
   | Some out \<Rightarrow> (case read_stream c (ch_stderr ch) of
       None \<Rightarrow> None
     | Some err \<Rightarrow> Some \<lparr>xr_stdout = out, xr_stderr = err,
         xr_exit_code = (case code of Some n \<Rightarrow> n | None \<Rightarrow> -1)\<rparr>))"

definition execute_command ::
  "spawn \<Rightarrow> string \<Rightarrow> string list \<Rightarrow> ExecConfig \<Rightarrow> (ExecError + ExecResult) option" where
  "execute_command spawn command args c = (case spawn command args exec_env of
     Inl SpawnNotFound \<Rightarrow> Some (Inl (CommandNotFound command))
   | Inl (SpawnFailed e) \<Rightarrow> Some (Inl (ExecutionFailed e))
   | Inr ch \<Rightarrow>
       let limited = 0 < xc_timeout_seconds c;
           limit = seconds (uint (xc_timeout_seconds c))
       in case ch_wait ch of
         None \<Rightarrow> if limited then Some (Inl (ExecTimeout (xc_timeout_seconds c))) else None
       | Some (t, status) \<Rightarrow>
           if limited \<and> limit < t then Some (Inl (ExecTimeout (xc_timeout_seconds c)))
           else (case status of
             Inl e \<Rightarrow> Some (Inl (ExecutionFailed e))
           | Inr code \<Rightarrow> map_option Inr (collect_output c ch code)))"

subsection \<open>What a stream delivers\<close>

text \<open>The bytes a stream carries up to its end or its first failed read.\<close>

fun stream_bytes :: "(string + bytes) list \<Rightarrow> bytes" where
  "stream_bytes [] = []"
| "stream_bytes (Inl e # rs) = []"
| "stream_bytes (Inr buf # rs) = (if buf = [] then [] else buf @ stream_bytes rs)"

lemma read_capped_exact:
  "length sofar \<le> max_bytes \<Longrightarrow> read_capped max_bytes ends sofar rs = Some out \<Longrightarrow>
   out = take max_bytes (sofar @ stream_bytes rs)"
proof (induction max_bytes ends sofar rs rule: read_capped.induct)
  case (3 max_bytes ends sofar buf rs)
  then show ?case
    by (cases "length sofar + length buf \<le> max_bytes") (auto split: if_splits)
qed (auto split: if_splits)

lemma read_capped_returns: "ends \<Longrightarrow> \<exists>out. read_capped max_bytes ends sofar rs = Some out"
  by (induction max_bytes ends sofar rs rule: read_capped.induct) auto

lemma read_stream_exact:
  "read_stream c st = Some out \<Longrightarrow> out = take (xc_max_output_bytes c) (stream_bytes (os_reads st))"
  unfolding read_stream_def by (drule read_capped_exact [rotated]) auto

lemma read_stream_returns:
  "os_ends st \<Longrightarrow> read_stream c st = Some (take (xc_max_output_bytes c) (stream_bytes (os_reads st)))"
  using read_capped_returns [of "os_ends st"] read_stream_exact [of c st]
  by (metis read_stream_def)

lemma collect_output_returns:
  "os_ends (ch_stdout ch) \<Longrightarrow> os_ends (ch_stderr ch) \<Longrightarrow>
   collect_output c ch code = Some \<lparr>
     xr_stdout = take (xc_max_output_bytes c) (stream_bytes (os_reads (ch_stdout ch))),
     xr_stderr = take (xc_max_output_bytes c) (stream_bytes (os_reads (ch_stderr ch))),
     xr_exit_code = (case code of Some n \<Rightarrow> n | None \<Rightarrow> -1)\<rparr>"
  by (simp add: collect_output_def read_stream_returns)

text \<open>
  What a call with a time limit answers when the streams of the process end with it: never
  nothing, the exact beginning of either stream, and a timeout for a process that is too slow.
\<close>

definition exec_spec :: "spawn \<Rightarrow> string \<Rightarrow> string list \<Rightarrow> ExecConfig \<Rightarrow> ExecError + ExecResult" where
  "exec_spec spawn command args c = (case spawn command args exec_env of
     Inl SpawnNotFound \<Rightarrow> Inl (CommandNotFound command)
   | Inl (SpawnFailed e) \<Rightarrow> Inl (ExecutionFailed e)
   | Inr ch \<Rightarrow> (case ch_wait ch of
       Some (t, status) \<Rightarrow>
         if t \<le> seconds (uint (xc_timeout_seconds c)) then
           (case status of
              Inl e \<Rightarrow> Inl (ExecutionFailed e)
            | Inr code \<Rightarrow> Inr \<lparr>
                xr_stdout = take (xc_max_output_bytes c) (stream_bytes (os_reads (ch_stdout ch))),
                xr_stderr = take (xc_max_output_bytes c) (stream_bytes (os_reads (ch_stderr ch))),
                xr_exit_code = (case code of Some n \<Rightarrow> n | None \<Rightarrow> -1)\<rparr>)
         else Inl (ExecTimeout (xc_timeout_seconds c))
     | None \<Rightarrow> Inl (ExecTimeout (xc_timeout_seconds c))))"

lemma execute_command_refines:
  assumes "0 < xc_timeout_seconds c"
    and "\<And>ch. spawn command args exec_env = Inr ch \<Longrightarrow>
      os_ends (ch_stdout ch) \<and> os_ends (ch_stderr ch)"
  shows "execute_command spawn command args c = Some (exec_spec spawn command args c)"
  using assms
  by (auto simp: execute_command_def exec_spec_def collect_output_returns Let_def
      split: sum.splits SpawnError.splits option.splits)

text \<open>Whatever is returned, no stream of the result is longer than the limit.\<close>

lemma execute_command_bounded:
  assumes "execute_command spawn command args c = Some (Inr r)"
  shows "length (xr_stdout r) \<le> xc_max_output_bytes c \<and>
    length (xr_stderr r) \<le> xc_max_output_bytes c"
  using assms
  by (auto simp: execute_command_def collect_output_def Let_def
      dest!: read_stream_exact split: sum.splits SpawnError.splits option.splits if_splits)

text \<open>
  The time limit covers the wait for the process, not the streams: while another process keeps
  one of them open, the call does not return.
\<close>

lemma exec_open_stream_hangs:
  assumes "spawn command args exec_env = Inr ch" "ch_wait ch = Some (t, Inr code)"
    and "t \<le> seconds (uint (xc_timeout_seconds c))"
    and "os_reads (ch_stdout ch) = []" "\<not> os_ends (ch_stdout ch)"
  shows "execute_command spawn command args c = None"
  using assms by (simp add: execute_command_def collect_output_def read_stream_def Let_def)

text \<open>
  C15. With a time limit, and when the output streams of the process end, running a command always
  returns, and returns what the specification says: the failure to start it; a timeout exactly
  when it has not ended within the limit; otherwise its exit code and, of either stream, exactly
  the bytes it wrote up to the size limit, which is never exceeded.
\<close>

theorem exec_returns_capped:
  assumes "0 < xc_timeout_seconds c"
    and "\<And>ch. spawn command args exec_env = Inr ch \<Longrightarrow>
      os_ends (ch_stdout ch) \<and> os_ends (ch_stderr ch)"
  shows "execute_command spawn command args c = Some (exec_spec spawn command args c) \<and>
    (\<forall>r. exec_spec spawn command args c = Inr r \<longrightarrow>
      length (xr_stdout r) \<le> xc_max_output_bytes c \<and> length (xr_stderr r) \<le> xc_max_output_bytes c)"
  using execute_command_refines [OF assms] execute_command_bounded by metis

theorem exec_returns_capped_witness:
  "execute_command (\<lambda>_ _ _. Inr \<lparr>ch_stdout = \<lparr>os_reads = [Inr [1, 2], Inr [3]], os_ends = True\<rparr>,
      ch_stderr = \<lparr>os_reads = [], os_ends = True\<rparr>, ch_wait = Some (seconds 1, Inr (Some 0))\<rparr>)
      ''ls'' [] \<lparr>xc_timeout_seconds = 5, xc_max_output_bytes = 2\<rparr> =
    Some (Inr \<lparr>xr_stdout = [1, 2], xr_stderr = [], xr_exit_code = 0\<rparr>)"
  using exec_returns_capped [of "\<lparr>xc_timeout_seconds = 5, xc_max_output_bytes = 2\<rparr>"
      "\<lambda>_ _ _. Inr \<lparr>ch_stdout = \<lparr>os_reads = [Inr [1, 2], Inr [3]], os_ends = True\<rparr>,
      ch_stderr = \<lparr>os_reads = [], os_ends = True\<rparr>, ch_wait = Some (seconds 1, Inr (Some 0))\<rparr>" "''ls''" "[]"]
  by (simp add: exec_spec_def seconds_def nanos_per_sec_def)

end
