(* ===== verification/Whitelist.thy ===== *)
theory Whitelist
  imports Pact_Prelude "HOL-Library.List_Lexorder" "HOL-Library.Char_ord"
begin

text \<open>
  The command whitelist of the agent shell, \<open>crates/pact-agent/src/shell/whitelist.rs\<close>: the
  default table, the queries and updates, the audit of escape vectors, and the validation of
  command arguments against sensitive paths with its path normalisation. The search for
  binaries on the file system takes the existence test as a parameter.
\<close>

subsection \<open>The manager\<close>

record WhitelistEntry =
  we_command :: string
  we_state_changing :: bool
  we_description :: string
  we_binary_path :: "string option"

record WhitelistManager =
  wm_exec_whitelist :: "(string, WhitelistEntry) hashmap"
  wm_shell_whitelist :: "(string, WhitelistEntry) hashmap"
  wm_learning_mode :: bool
  wm_denied_commands :: "string list"

definition default_commands :: "(string \<times> bool \<times> string) list" where
  "default_commands = [
     (''nvidia-smi'', False, ''NVIDIA GPU status and diagnostics''),
     (''rocm-smi'', False, ''AMD GPU status and diagnostics''),
     (''echo'', False, ''Print arguments''),
     (''dmesg'', False, ''Kernel ring buffer''),
     (''lspci'', False, ''PCI device listing''),
     (''lsmod'', False, ''Loaded kernel modules''),
     (''lsblk'', False, ''Block device listing''),
     (''lscpu'', False, ''CPU information''),
     (''uname'', False, ''System information''),
     (''hostname'', False, ''Show hostname''),
     (''uptime'', False, ''System uptime''),
     (''free'', False, ''Memory usage''),
     (''df'', False, ''Disk usage''),
     (''mount'', True, ''Mount operations (can mount filesystems)''),
     (''ps'', False, ''Process listing''),
     (''top'', False, ''Process monitor''),
     (''htop'', False, ''Interactive process monitor''),
     (''ip'', True, ''Network configuration''),
     (''ss'', False, ''Socket statistics''),
     (''ping'', False, ''Network connectivity test''),
     (''traceroute'', False, ''Network path tracing''),
     (''ethtool'', False, ''Network interface details''),
     (''cat'', False, ''Display file contents''),
     (''head'', False, ''Display first lines''),
     (''tail'', False, ''Display last lines''),
     (''wc'', False, ''Word/line count''),
     (''ls'', False, ''List directory contents''),
     (''stat'', False, ''File status''),
     (''file'', False, ''File type identification''),
     (''md5sum'', False, ''Compute MD5 checksum''),
     (''sha256sum'', False, ''Compute SHA-256 checksum''),
     (''diff'', False, ''Compare files''),
     (''grep'', False, ''Search file contents''),
     (''journalctl'', False, ''Systemd journal viewer''),
     (''sysctl'', True, ''Kernel parameter query/set''),
     (''systemctl'', True, ''Service management''),
     (''modprobe'', True, ''Load kernel module''),
     (''umount'', True, ''Unmount filesystem'')]"

definition load_default :: "string \<times> bool \<times> string \<Rightarrow> WhitelistManager \<Rightarrow> WhitelistManager" where
  "load_default d m = (case d of (cmd, state_changing, desc) \<Rightarrow>
     let e = \<lparr>we_command = cmd, we_state_changing = state_changing, we_description = desc,
              we_binary_path = None\<rparr>
     in m\<lparr>wm_exec_whitelist := hm_insert cmd e (wm_exec_whitelist m),
          wm_shell_whitelist := hm_insert cmd e (wm_shell_whitelist m)\<rparr>)"

definition load_defaults :: "WhitelistManager \<Rightarrow> WhitelistManager" where
  "load_defaults m = fold load_default default_commands m"

definition whitelist_new :: "bool \<Rightarrow> WhitelistManager" where
  "whitelist_new learning_mode = load_defaults \<lparr>wm_exec_whitelist = [], wm_shell_whitelist = [],
     wm_learning_mode = learning_mode, wm_denied_commands = []\<rparr>"

definition is_exec_allowed :: "WhitelistManager \<Rightarrow> string \<Rightarrow> bool" where
  "is_exec_allowed m c = hm_contains (wm_exec_whitelist m) c"

definition is_state_changing :: "WhitelistManager \<Rightarrow> string \<Rightarrow> bool" where
  "is_state_changing m c = (case hm_get (wm_exec_whitelist m) c of
     Some e \<Rightarrow> we_state_changing e | None \<Rightarrow> False)"

definition is_shell_allowed :: "WhitelistManager \<Rightarrow> string \<Rightarrow> bool" where
  "is_shell_allowed m c = hm_contains (wm_shell_whitelist m) c"

definition record_denied :: "string \<Rightarrow> WhitelistManager \<Rightarrow> WhitelistManager" where
  "record_denied c m =
     (if wm_learning_mode m \<and> c \<notin> set (wm_denied_commands m)
      then m\<lparr>wm_denied_commands := wm_denied_commands m @ [c]\<rparr> else m)"

definition clear_denied :: "WhitelistManager \<Rightarrow> WhitelistManager" where
  "clear_denied m = m\<lparr>wm_denied_commands := []\<rparr>"

definition policy_entry :: "string \<Rightarrow> WhitelistEntry" where
  "policy_entry c = \<lparr>we_command = c, we_state_changing = False,
     we_description = ''Added from vCluster policy'', we_binary_path = None\<rparr>"

definition update_exec_whitelist :: "string list \<Rightarrow> WhitelistManager \<Rightarrow> WhitelistManager" where
  "update_exec_whitelist cs m = fold (\<lambda>c m.
     if \<not> hm_contains (wm_exec_whitelist m) c
     then m\<lparr>wm_exec_whitelist := hm_insert c (policy_entry c) (wm_exec_whitelist m)\<rparr> else m) cs m"

definition update_shell_whitelist :: "string list \<Rightarrow> WhitelistManager \<Rightarrow> WhitelistManager" where
  "update_shell_whitelist cs m = fold (\<lambda>c m.
     if \<not> hm_contains (wm_shell_whitelist m) c
     then m\<lparr>wm_shell_whitelist := hm_insert c (policy_entry c) (wm_shell_whitelist m)\<rparr> else m) cs m"

definition exec_commands :: "WhitelistManager \<Rightarrow> WhitelistEntry list" where
  "exec_commands m = sort_key we_command (hm_values (wm_exec_whitelist m))"

definition shell_commands :: "WhitelistManager \<Rightarrow> WhitelistEntry list" where
  "shell_commands m = sort_key we_command (hm_values (wm_shell_whitelist m))"

definition shell_command_names :: "WhitelistManager \<Rightarrow> string set" where
  "shell_command_names m = set (map fst (wm_shell_whitelist m))"

text \<open>\<open>Path::join\<close>: an absolute second path replaces the first.\<close>

definition path_join :: "string \<Rightarrow> string \<Rightarrow> string" where
  "path_join d c =
     (if prefix ''/'' c then c else if d = [] \<or> last d = CHR ''/'' then d @ c else d @ ''/'' @ c)"

definition resolve_entry :: "(string \<Rightarrow> bool) \<Rightarrow> string list \<Rightarrow> WhitelistEntry \<Rightarrow> WhitelistEntry" where
  "resolve_entry exists dirs e = (case we_binary_path e of
     Some _ \<Rightarrow> e
   | None \<Rightarrow> (case find (\<lambda>d. exists (path_join d (we_command e))) dirs of
       Some d \<Rightarrow> e\<lparr>we_binary_path := Some (path_join d (we_command e))\<rparr>
     | None \<Rightarrow> e))"

definition resolve_binary_paths ::
  "(string \<Rightarrow> bool) \<Rightarrow> string \<Rightarrow> WhitelistManager \<Rightarrow> WhitelistManager" where
  "resolve_binary_paths exists path_var m =
     (let dirs = split_on CHR '':'' path_var in
      m\<lparr>wm_exec_whitelist := hm_map (\<lambda>_. resolve_entry exists dirs) (wm_exec_whitelist m),
        wm_shell_whitelist := hm_map (\<lambda>_. resolve_entry exists dirs) (wm_shell_whitelist m)\<rparr>)"

subsection \<open>Escape vectors\<close>

definition risky_commands :: "(string \<times> string) list" where
  "risky_commands =
     (let view = ''Can spawn :!bash '' @ em_dash @ '' use '' @ squote @ ''view'' @ squote @
            '' (read-only) instead'';
          pager = ''Can spawn !cmd '' @ em_dash @ '' set LESSSECURE=1 or exclude'';
          code = ''Arbitrary code execution''; unrestricted = ''Unrestricted shell'';
          sys = ''system() function enables execution''
      in [(''vi'', view), (''vim'', view), (''less'', pager), (''more'', pager),
          (''man'', ''Uses less/more pager '' @ em_dash @ '' same escape risk''),
          (''python'', code), (''python3'', code), (''perl'', code), (''ruby'', code),
          (''lua'', code), (''node'', code), (''bash'', unrestricted), (''sh'', unrestricted),
          (''zsh'', unrestricted), (''find'', ''-exec flag enables arbitrary execution''),
          (''xargs'', ''Can execute arbitrary commands''), (''awk'', sys), (''nawk'', sys),
          (''gawk'', sys)])"

definition audit_escape_vectors :: "string list \<Rightarrow> (string \<times> string) list" where
  "audit_escape_vectors cs =
     List.map_filter (\<lambda>c. map_option (\<lambda>r. (c, r)) (hm_get risky_commands c)) cs"

subsection \<open>Argument validation\<close>

definition BLOCKED_PATHS :: "string list" where
  "BLOCKED_PATHS = [''/etc/shadow'', ''/etc/gshadow'', ''/etc/master.passwd'', ''/root/'',
     ''/.ssh/'', ''/etc/ssl/private/'', ''/etc/pact/ca/'', ''/run/pact/ca/'']"

definition SENSITIVE_PREFIXES :: "string list" where
  "SENSITIVE_PREFIXES = [''/etc/shadow'', ''/etc/gshadow'', ''/root'']"

definition push_component :: "string \<Rightarrow> string list \<Rightarrow> string list" where
  "push_component part comps =
     (if part = ''..'' then butlast comps
      else if part = ''.'' \<or> part = [] then comps
      else comps @ [part])"

definition normalize_path :: "string \<Rightarrow> string" where
  "normalize_path arg = ''/'' @ join_with ''/'' (fold push_component (split_on CHR ''/'' arg) [])"

definition is_path_argument :: "string \<Rightarrow> bool" where
  "is_path_argument arg \<longleftrightarrow> \<not> (\<not> prefix ''/'' arg \<and> \<not> sublist ''..'' arg)"

definition is_file_reader :: "string \<Rightarrow> bool" where
  "is_file_reader c \<longleftrightarrow> c \<in> set [''cat'', ''head'', ''tail'', ''grep'', ''less'', ''diff'', ''wc'',
     ''file'', ''md5sum'', ''sha256sum'', ''stat'']"

definition blocked_by :: "string \<Rightarrow> string \<Rightarrow> bool" where
  "blocked_by p b \<longleftrightarrow> p = b \<or> prefix b p \<or> sublist b p"

fun validate_args :: "string \<Rightarrow> string list \<Rightarrow> string + unit" where
  "validate_args command [] = Inr ()"
| "validate_args command (arg # args) =
     (if \<not> is_path_argument arg then validate_args command args
      else if list_ex (blocked_by (normalize_path arg)) BLOCKED_PATHS then
        Inl (''access denied: '' @ command @ '' cannot access '' @ arg @ '' (sensitive path)'')
      else if is_file_reader command \<and> list_ex (\<lambda>p. prefix p (normalize_path arg)) SENSITIVE_PREFIXES then
        Inl (''access denied: '' @ command @ '' cannot read '' @ arg @ '' (sensitive path)'')
      else validate_args command args)"

subsection \<open>Lemmas\<close>

text \<open>Components of a normalised path: neither empty, nor a dot, nor two dots, and no slash.\<close>

definition proper_component :: "string \<Rightarrow> bool" where
  "proper_component c \<longleftrightarrow> c \<noteq> [] \<and> c \<noteq> ''.'' \<and> c \<noteq> ''..'' \<and> CHR ''/'' \<notin> set c"

lemma split_on_pieces: "p \<in> set (split_on c s) \<Longrightarrow> c \<notin> set p"
  by (induction s arbitrary: p) (auto split: if_splits list.splits)

lemma push_component_proper:
  "list_all proper_component cs \<Longrightarrow> CHR ''/'' \<notin> set p \<Longrightarrow> list_all proper_component (push_component p cs)"
  by (auto simp: push_component_def proper_component_def list_all_iff dest: in_set_butlastD)

lemma fold_push_proper:
  "list_all proper_component cs \<Longrightarrow> (\<And>p. p \<in> set ps \<Longrightarrow> CHR ''/'' \<notin> set p) \<Longrightarrow>
   list_all proper_component (fold push_component ps cs)"
  by (induction ps arbitrary: cs) (auto simp: push_component_proper)

lemma fold_push_id:
  "list_all proper_component ps \<Longrightarrow> fold push_component ps cs = cs @ ps"
  by (induction ps arbitrary: cs) (auto simp: push_component_def proper_component_def)

definition path_components :: "string \<Rightarrow> string list" where
  "path_components arg = fold push_component (split_on CHR ''/'' arg) []"

lemma path_components_proper: "list_all proper_component (path_components arg)"
  unfolding path_components_def by (rule fold_push_proper) (auto dest: split_on_pieces)

lemma normalize_components: "normalize_path arg = ''/'' @ join_with ''/'' (path_components arg)"
  by (simp add: normalize_path_def path_components_def)

lemma path_components_normalize: "path_components (normalize_path arg) = path_components arg"
proof (cases "path_components arg = []")
  case True
  then show ?thesis by (simp add: normalize_components path_components_def push_component_def)
next
  case False
  have pieces: "split_on CHR ''/'' (join_with ''/'' (path_components arg)) = path_components arg"
    using path_components_proper [of arg] False
    by (intro split_on_join) (auto simp: list_all_iff proper_component_def)
  have "path_components (normalize_path arg) =
      fold push_component (split_on CHR ''/'' (join_with ''/'' (path_components arg))) []"
    by (simp add: normalize_components path_components_def push_component_def)
  also have "\<dots> = path_components arg"
    unfolding pieces using fold_push_id [OF path_components_proper, of arg "[]"] by simp
  finally show ?thesis .
qed

lemma validate_args_iff:
  "validate_args command args = Inr () \<longleftrightarrow>
     (\<forall>arg \<in> set args. is_path_argument arg \<longrightarrow>
        (\<forall>b \<in> set BLOCKED_PATHS. \<not> sublist b (normalize_path arg)) \<and>
        (is_file_reader command \<longrightarrow> (\<forall>p \<in> set SENSITIVE_PREFIXES. \<not> prefix p (normalize_path arg))))"
proof -
  have blocked: "blocked_by p b \<longleftrightarrow> sublist b p" for p b
    by (auto simp: blocked_by_def prefix_imp_sublist)
  show ?thesis
    by (induction args) (auto simp: list_ex_iff blocked)
qed

lemma load_defaults_get:
  "distinct (map fst ds) \<Longrightarrow>
   hm_get (wm_exec_whitelist (fold load_default ds m)) c =
     (case map_of ds c of
        Some (sc, desc) \<Rightarrow> Some \<lparr>we_command = c, we_state_changing = sc, we_description = desc,
          we_binary_path = None\<rparr>
      | None \<Rightarrow> hm_get (wm_exec_whitelist m) c)"
proof (induction ds arbitrary: m)
  case (Cons d ds)
  obtain cmd sc desc where d: "d = (cmd, sc, desc)" by (cases d)
  show ?case
  proof (cases "c = cmd")
    case True
    with Cons.prems have "map_of ds cmd = None" by (simp add: d map_of_eq_None_iff)
    with True Cons show ?thesis by (simp add: d load_default_def Let_def)
  next
    case False
    with Cons show ?thesis by (simp add: d load_default_def Let_def split: option.splits)
  qed
qed simp

lemma default_commands_distinct: "distinct (map fst default_commands)"
  by (simp add: default_commands_def)

lemma update_exec_get:
  "hm_get (wm_exec_whitelist (update_exec_whitelist cs m)) c =
     (case hm_get (wm_exec_whitelist m) c of
        Some e \<Rightarrow> Some e
      | None \<Rightarrow> if c \<in> set cs then Some (policy_entry c) else None)"
  unfolding update_exec_whitelist_def
  by (induction cs arbitrary: m) (auto simp: hm_contains_def split: option.splits)

subsection \<open>Properties\<close>

text \<open>
  Argument validation: normalising a path gives an absolute path whose components are
  neither empty nor dots, and normalising again changes nothing; and the arguments of a command
  pass exactly if no argument that looks like a path normalises to a path containing a blocked
  path, nor, for the commands that read files, to a path under a sensitive prefix.
\<close>

theorem validate_args_exact:
  "normalize_path (normalize_path p) = normalize_path p \<and>
   (\<exists>cs. normalize_path p = ''/'' @ join_with ''/'' cs \<and> list_all proper_component cs) \<and>
   (validate_args command args = Inr () \<longleftrightarrow>
     (\<forall>arg \<in> set args. is_path_argument arg \<longrightarrow>
        (\<forall>b \<in> set BLOCKED_PATHS. \<not> sublist b (normalize_path arg)) \<and>
        (is_file_reader command \<longrightarrow> (\<forall>q \<in> set SENSITIVE_PREFIXES. \<not> prefix q (normalize_path arg)))))"
proof (intro conjI)
  show "normalize_path (normalize_path p) = normalize_path p"
    unfolding normalize_components [of "normalize_path p"] path_components_normalize
    by (simp only: normalize_components [of p])
  show "\<exists>cs. normalize_path p = ''/'' @ join_with ''/'' cs \<and> list_all proper_component cs"
    using normalize_components path_components_proper by blast
qed (rule validate_args_iff)

theorem validate_args_exact_witness:
  "validate_args ''cat'' [''-n'', ''/var/log/../../etc/./shadow''] \<noteq> Inr () \<and>
   normalize_path ''/var/log/../../etc/./shadow'' = ''/etc/shadow''"
proof -
  have n: "normalize_path ''/var/log/../../etc/./shadow'' = ''/etc/shadow''"
    by (simp add: normalize_path_def push_component_def)
  moreover have "is_path_argument ''/var/log/../../etc/./shadow''"
    by (simp add: is_path_argument_def)
  moreover have "''/etc/shadow'' \<in> set BLOCKED_PATHS"
    by (simp add: BLOCKED_PATHS_def)
  ultimately show ?thesis
    using validate_args_exact [of "[]" "''cat''" "[''-n'', ''/var/log/../../etc/./shadow'']"] by force
qed

text \<open>
  The initial whitelist is exactly the default table: no command with a known escape vector
  is on it, and its state-changing commands are \<open>mount\<close>, \<open>ip\<close>, \<open>sysctl\<close>, \<open>systemctl\<close>,
  \<open>modprobe\<close> and \<open>umount\<close>; policy updates add commands and never remove or reclassify one.
\<close>

theorem whitelist_defaults:
  "(is_exec_allowed (whitelist_new l) c \<longleftrightarrow> c \<in> set (map fst default_commands)) \<and>
   audit_escape_vectors (map fst default_commands) = [] \<and>
   (is_state_changing (whitelist_new l) c \<longleftrightarrow>
      c \<in> {''mount'', ''ip'', ''sysctl'', ''systemctl'', ''modprobe'', ''umount''}) \<and>
   (is_exec_allowed (update_exec_whitelist cs m) c \<longleftrightarrow> is_exec_allowed m c \<or> c \<in> set cs) \<and>
   is_state_changing (update_exec_whitelist cs m) c = is_state_changing m c"
proof (intro conjI)
  have get: "hm_get (wm_exec_whitelist (whitelist_new l)) c = map_option (\<lambda>(sc, desc).
      \<lparr>we_command = c, we_state_changing = sc, we_description = desc, we_binary_path = None\<rparr>)
      (map_of default_commands c)"
    unfolding whitelist_new_def load_defaults_def load_defaults_get [OF default_commands_distinct]
    by (simp split: option.split)
  show "is_exec_allowed (whitelist_new l) c \<longleftrightarrow> c \<in> set (map fst default_commands)"
    by (simp add: is_exec_allowed_def hm_contains_def get map_of_eq_None_iff)
  show "is_state_changing (whitelist_new l) c \<longleftrightarrow>
      c \<in> {''mount'', ''ip'', ''sysctl'', ''systemctl'', ''modprobe'', ''umount''}"
  proof -
    have "is_state_changing (whitelist_new l) c \<longleftrightarrow> (\<exists>desc. (c, True, desc) \<in> set default_commands)"
      unfolding is_state_changing_def get map_of_eq_Some_iff [OF default_commands_distinct, symmetric]
      by (auto split: option.splits)
    then show ?thesis unfolding default_commands_def by (simp add: ex_disj_distrib)
  qed
  show "audit_escape_vectors (map fst default_commands) = []"
    by code_simp
  show "is_exec_allowed (update_exec_whitelist cs m) c \<longleftrightarrow> is_exec_allowed m c \<or> c \<in> set cs"
    by (auto simp: is_exec_allowed_def hm_contains_def update_exec_get split: option.splits)
  show "is_state_changing (update_exec_whitelist cs m) c = is_state_changing m c"
    by (simp add: is_state_changing_def update_exec_get policy_entry_def split: option.split)
qed

end
