(* ===== verification/Rust_Strings.thy ===== *)
theory Rust_Strings
  imports Pact_Prelude
begin

text \<open>
  Characters and pieces of UTF-8 strings, as the standard library of Rust sees them: the
  characters of a byte string, white space, \<open>trim\<close>, \<open>split_whitespace\<close>, \<open>lines\<close>, \<open>contains\<close>,
  \<open>split_once\<close> and \<open>splitn\<close>. A character is the string of its bytes.
\<close>

definition is_continuation :: "char \<Rightarrow> bool" where
  "is_continuation c = (128 \<le> (of_char c :: nat) \<and> (of_char c :: nat) < 192)"

definition is_ascii :: "char \<Rightarrow> bool" where
  "is_ascii c = ((of_char c :: nat) < 128)"

function utf8_chars :: "string \<Rightarrow> string list" where
  "utf8_chars [] = []"
| "utf8_chars (c # s) =
     (c # takeWhile is_continuation s) # utf8_chars (dropWhile is_continuation s)"
  by pat_completeness auto

termination utf8_chars
  by (relation "measure length") (auto simp: less_Suc_eq_le length_dropWhile_le)

lemma concat_utf8_chars [simp]: "concat (utf8_chars s) = s"
  by (induction s rule: utf8_chars.induct) auto

lemma utf8_chars_nonempty: "x \<in> set (utf8_chars s) \<Longrightarrow> x \<noteq> []"
  by (induction s rule: utf8_chars.induct) auto

lemma continuation_not_ascii: "is_continuation c \<Longrightarrow> \<not> is_ascii c"
  by (simp add: is_continuation_def is_ascii_def)

text \<open>An ASCII byte is a character of its own or the first byte of its piece.\<close>

lemma utf8_chars_ascii: "x \<in> set (utf8_chars s) \<Longrightarrow> c \<in> set x \<Longrightarrow> is_ascii c \<Longrightarrow> hd x = c"
  by (induction s rule: utf8_chars.induct)
    (auto dest!: set_takeWhileD continuation_not_ascii)

lemma utf8_chars_ascii_string:
  "list_all is_ascii s \<Longrightarrow> utf8_chars s = map (\<lambda>c. [c]) s"
proof (induction s)
  case (Cons c s)
  then show ?case
    by (cases s) (auto simp: continuation_not_ascii)
qed simp

subsection \<open>White space\<close>

definition ascii_whitespace :: "char \<Rightarrow> bool" where
  "ascii_whitespace c = (let n = (of_char c :: nat) in (9 \<le> n \<and> n \<le> 13) \<or> n = 32)"

text \<open>\<open>char::is_whitespace\<close>: the code points with the Unicode property \<open>White_Space\<close>.\<close>

definition wide_whitespace :: "nat list list" where
  "wide_whitespace = [[194, 133], [194, 160], [225, 154, 128], [226, 128, 168], [226, 128, 169],
     [226, 128, 175], [226, 129, 159], [227, 128, 128]] @ map (\<lambda>n. [226, 128, n]) [128..<139]"

definition is_whitespace :: "string \<Rightarrow> bool" where
  "is_whitespace x = (case x of
     [c] \<Rightarrow> ascii_whitespace c
   | _ \<Rightarrow> map (of_char :: char \<Rightarrow> nat) x \<in> set wide_whitespace)"

lemma is_whitespace_single [simp]: "is_whitespace [c] = ascii_whitespace c"
  by (simp add: is_whitespace_def)

definition trim_start :: "string \<Rightarrow> string" where
  "trim_start s = concat (dropWhile is_whitespace (utf8_chars s))"

definition trim_end :: "string \<Rightarrow> string" where
  "trim_end s = concat (rev (dropWhile is_whitespace (rev (utf8_chars s))))"

definition trim :: "string \<Rightarrow> string" where
  "trim s = trim_end (trim_start s)"

lemma trim_ascii_id:
  assumes "list_all is_ascii s" "s = [] \<or> \<not> ascii_whitespace (hd s) \<and> \<not> ascii_whitespace (last s)"
  shows "trim s = s"
proof (cases "s = []")
  case True
  then show ?thesis by (simp add: trim_def trim_start_def trim_end_def)
next
  case False
  have chars: "utf8_chars s = map (\<lambda>c. [c]) s"
    using assms(1) by (rule utf8_chars_ascii_string)
  have "dropWhile is_whitespace (utf8_chars s) = utf8_chars s"
    using False assms(2) unfolding chars by (cases s) auto
  then have start: "trim_start s = s"
    by (simp add: trim_start_def)
  have "dropWhile is_whitespace (rev (utf8_chars s)) = rev (utf8_chars s)"
    using False assms(2) unfolding chars by (cases s rule: rev_cases) auto
  then show ?thesis
    by (simp add: trim_def start trim_end_def)
qed

fun ws_words :: "string \<Rightarrow> string list \<Rightarrow> string list" where
  "ws_words w [] = (if w = [] then [] else [w])"
| "ws_words w (x # xs) =
     (if is_whitespace x then (if w = [] then [] else [w]) @ ws_words [] xs else ws_words (w @ x) xs)"

definition split_whitespace :: "string \<Rightarrow> string list" where
  "split_whitespace s = ws_words [] (utf8_chars s)"

lemma ws_words_nonempty: "[] \<notin> set (ws_words w xs)"
  by (induction w xs rule: ws_words.induct) auto

lemma split_whitespace_nonempty: "[] \<notin> set (split_whitespace s)"
  by (simp add: split_whitespace_def ws_words_nonempty)

subsection \<open>Lines and pieces\<close>

definition newline :: char where
  "newline = CHR 0x0A"

definition strip_cr :: "string \<Rightarrow> string" where
  "strip_cr l = (case strip_suffix [CHR 0x0D] l of Some r \<Rightarrow> r | None \<Rightarrow> l)"

text \<open>
  \<open>str::lines\<close>: pieces end at a newline, a carriage return before it is dropped, and a final
  newline starts no further line.
\<close>

fun lines_of :: "string list \<Rightarrow> string list" where
  "lines_of [] = []"
| "lines_of [p] = (if p = [] then [] else [p])"
| "lines_of (p # q # ps) = strip_cr p # lines_of (q # ps)"

definition lines :: "string \<Rightarrow> string list" where
  "lines s = lines_of (split_on newline s)"

lemma lines_no_newline: "l \<in> set (lines s) \<Longrightarrow> newline \<notin> set l"
proof -
  have *: "\<forall>p \<in> set ps. newline \<notin> set p \<Longrightarrow> l \<in> set (lines_of ps) \<Longrightarrow> newline \<notin> set l" for ps
    by (induction ps rule: lines_of.induct)
      (auto simp: strip_cr_def strip_suffix_def split: if_splits option.splits dest: in_set_takeD)
  show "l \<in> set (lines s) \<Longrightarrow> newline \<notin> set l"
    unfolding lines_def by (rule *) (auto dest: split_on_notin)
qed

text \<open>\<open>trim_end_matches\<close> of one character.\<close>

definition trim_end_char :: "char \<Rightarrow> string \<Rightarrow> string" where
  "trim_end_char c s = rev (dropWhile (\<lambda>x. x = c) (rev s))"

definition contains :: "string \<Rightarrow> string \<Rightarrow> bool" where
  "contains s p = sublist p s"

definition split_once :: "char \<Rightarrow> string \<Rightarrow> (string \<times> string) option" where
  "split_once c s = (if c \<in> set s
     then Some (takeWhile (\<lambda>x. x \<noteq> c) s, tl (dropWhile (\<lambda>x. x \<noteq> c) s)) else None)"

lemma split_once_append [simp]: "c \<notin> set k \<Longrightarrow> split_once c (k @ c # v) = Some (k, v)"
proof -
  assume c: "c \<notin> set k"
  have "takeWhile (\<lambda>x. x \<noteq> c) (k @ c # v) = k @ takeWhile (\<lambda>x. x \<noteq> c) (c # v)"
    by (rule takeWhile_append2) (use c in auto)
  moreover have "dropWhile (\<lambda>x. x \<noteq> c) (k @ c # v) = dropWhile (\<lambda>x. x \<noteq> c) (c # v)"
    by (rule dropWhile_append2) (use c in auto)
  ultimately show ?thesis
    by (simp add: split_once_def)
qed

lemma split_once_Some: "split_once c s = Some (k, v) \<longleftrightarrow> s = k @ c # v \<and> c \<notin> set k"
proof
  assume "split_once c s = Some (k, v)"
  then have c: "c \<in> set s" and k: "k = takeWhile (\<lambda>x. x \<noteq> c) s"
    and v: "v = tl (dropWhile (\<lambda>x. x \<noteq> c) s)"
    by (auto simp: split_once_def split: if_splits)
  obtain x xs where "dropWhile (\<lambda>x. x \<noteq> c) s = x # xs"
    using c by (cases "dropWhile (\<lambda>x. x \<noteq> c) s") (auto simp: dropWhile_eq_Nil_conv)
  moreover from this have "x = c"
    by (simp add: dropWhile_eq_Cons_conv)
  ultimately have "s = k @ c # v"
    using k v takeWhile_dropWhile_id [of "\<lambda>x. x \<noteq> c" s] by simp
  moreover have "c \<notin> set k"
    using k by (auto dest: set_takeWhileD)
  ultimately show "s = k @ c # v \<and> c \<notin> set k" ..
qed auto

text \<open>\<open>splitn(n, c)\<close>: at most \<open>n\<close> pieces, the last one unsplit.\<close>

fun splitn :: "nat \<Rightarrow> char \<Rightarrow> string \<Rightarrow> string list" where
  "splitn 0 c s = []"
| "splitn (Suc 0) c s = [s]"
| "splitn (Suc (Suc n)) c s = (case split_once c s of
     None \<Rightarrow> [s] | Some (k, v) \<Rightarrow> k # splitn (Suc n) c v)"

end
