(* ===== verification/Sessions.thy ===== *)
theory Sessions
  imports Whitelist Rust_Strings Pact_Types
begin

text \<open>
  Interactive shell sessions, \<open>crates/pact-agent/src/shell/session.rs\<close>: a session with its state
  and its restricted environment, the manager that bounds the number of sessions, and the set-up
  of the directory of permitted commands. Allocation of the terminal is outside the model; the
  file system appears through the functions the set-up calls.
\<close>

subsection \<open>Sessions\<close>

datatype SessionState = SessInitializing | SessActive | SessClosing | SessClosed

record ShellSession =
  sh_session_id :: string
  sh_user :: Identity
  sh_node_id :: string
  sh_vcluster_id :: string
  sh_started_at :: time
  sh_state :: SessionState
  sh_commands_executed :: u32
  sh_rows :: u16
  sh_cols :: u16
  sh_term :: string

definition session_new ::
  "string \<Rightarrow> time \<Rightarrow> Identity \<Rightarrow> string \<Rightarrow> string \<Rightarrow> u16 \<Rightarrow> u16 \<Rightarrow> string \<Rightarrow> ShellSession" where
  "session_new uuid now user node_id vcluster_id rows cols term = \<lparr>
     sh_session_id = uuid, sh_user = user, sh_node_id = node_id, sh_vcluster_id = vcluster_id,
     sh_started_at = now, sh_state = SessInitializing, sh_commands_executed = 0,
     sh_rows = rows, sh_cols = cols, sh_term = term\<rparr>"

definition session_activate :: "ShellSession \<Rightarrow> ShellSession" where
  "session_activate s = s\<lparr>sh_state := SessActive\<rparr>"

definition session_close :: "ShellSession \<Rightarrow> ShellSession" where
  "session_close s = s\<lparr>sh_state := SessClosing\<rparr>"

definition session_finalize :: "ShellSession \<Rightarrow> ShellSession" where
  "session_finalize s = s\<lparr>sh_state := SessClosed\<rparr>"

definition record_command :: "ShellSession \<Rightarrow> ShellSession" where
  "record_command s = s\<lparr>sh_commands_executed := sh_commands_executed s + 1\<rparr>"

definition duration_seconds :: "time \<Rightarrow> ShellSession \<Rightarrow> int" where
  "duration_seconds now s = num_seconds (now - sh_started_at s)"

definition bin_dir :: "ShellSession \<Rightarrow> string" where
  "bin_dir s = ''/run/pact/shell/'' @ sh_session_id s @ ''/bin''"

text \<open>
  \<open>char::is_alphanumeric\<close>; outside ASCII it is decided by the Unicode tables, which are an
  argument.
\<close>

definition is_ascii_alphanumeric :: "char \<Rightarrow> bool" where
  "is_ascii_alphanumeric c = (let n = (of_char c :: nat) in
     (48 \<le> n \<and> n \<le> 57) \<or> (65 \<le> n \<and> n \<le> 90) \<or> (97 \<le> n \<and> n \<le> 122))"

definition is_alphanumeric :: "(string \<Rightarrow> bool) \<Rightarrow> string \<Rightarrow> bool" where
  "is_alphanumeric unicode x =
     (if is_ascii (hd x) then is_ascii_alphanumeric (hd x) else unicode x)"

definition safe_delimiter :: "char \<Rightarrow> bool" where
  "safe_delimiter c = (c \<in> set ''@.-_'')"

definition safe_principal :: "(string \<Rightarrow> bool) \<Rightarrow> string \<Rightarrow> string" where
  "safe_principal unicode p = concat (filter
     (\<lambda>x. is_alphanumeric unicode x \<or> x = ''@'' \<or> x = ''.'' \<or> x = ''-'' \<or> x = ''_'') (utf8_chars p))"

definition prompt_command :: "string \<Rightarrow> string \<Rightarrow> string" where
  "prompt_command session_id user =
     ''echo \"PACT_AUDIT session='' @ session_id @ '' user='' @ user @
     '' cmd=$(history 1)\" >> /run/pact/shell/'' @ session_id @ ''/audit.log''"

definition env_vars :: "(string \<Rightarrow> bool) \<Rightarrow> ShellSession \<Rightarrow> (string \<times> string) list" where
  "env_vars unicode s = [
     (''PATH'', bin_dir s),
     (''HOME'', ''/tmp''),
     (''TERM'', sh_term s),
     (''LANG'', ''C.UTF-8''),
     (''SHELL'', ''/bin/rbash''),
     (''PROMPT_COMMAND'',
        prompt_command (sh_session_id s) (safe_principal unicode (id_principal (sh_user s)))),
     (''BASH_ENV'', []),
     (''ENV'', [])]"

text \<open>What may remain of a principal in the prompt command.\<close>

definition safe_char :: "char \<Rightarrow> bool" where
  "safe_char c = (is_ascii c \<longrightarrow> is_ascii_alphanumeric c \<or> safe_delimiter c)"

lemma safe_principal_chars: "list_all safe_char (safe_principal unicode p)"
  unfolding list_all_iff
proof
  fix c
  assume "c \<in> set (safe_principal unicode p)"
  then obtain x where x: "x \<in> set (utf8_chars p)" "c \<in> set x"
    and ok: "is_alphanumeric unicode x \<or> x = ''@'' \<or> x = ''.'' \<or> x = ''-'' \<or> x = ''_''"
    by (auto simp: safe_principal_def)
  show "safe_char c"
    unfolding safe_char_def
  proof
    assume a: "is_ascii c"
    then have "hd x = c"
      by (rule utf8_chars_ascii [OF x])
    with ok a show "is_ascii_alphanumeric c \<or> safe_delimiter c"
      by (auto simp: is_alphanumeric_def safe_delimiter_def)
  qed
qed

lemma safe_principal_id:
  "list_all is_ascii p \<Longrightarrow> list_all safe_char p \<Longrightarrow> safe_principal unicode p = p"
  by (simp add: safe_principal_def utf8_chars_ascii_string filter_id_conv list_all_iff
      is_alphanumeric_def safe_char_def safe_delimiter_def)

subsection \<open>The manager\<close>

record SessionManager =
  sm_sessions :: "(string, ShellSession) hashmap"
  sm_max_sessions :: nat

datatype SessionError =
  MaxSessionsExceeded nat | SessionNotFound string | PtyFailed string | SetupFailed string

definition sessions_new :: "nat \<Rightarrow> SessionManager" where
  "sessions_new max_sessions = \<lparr>sm_sessions = [], sm_max_sessions = max_sessions\<rparr>"

definition create_session ::
  "string \<Rightarrow> time \<Rightarrow> Identity \<Rightarrow> string \<Rightarrow> string \<Rightarrow> u16 \<Rightarrow> u16 \<Rightarrow> string \<Rightarrow> SessionManager \<Rightarrow>
   SessionManager \<times> (SessionError + ShellSession)" where
  "create_session uuid now user node_id vcluster_id rows cols term m =
     (if sm_max_sessions m \<le> length (sm_sessions m)
      then (m, Inl (MaxSessionsExceeded (sm_max_sessions m)))
      else let s = session_new uuid now user node_id vcluster_id rows cols term in
        (m\<lparr>sm_sessions := hm_insert uuid s (sm_sessions m)\<rparr>, Inr s))"

definition get_session :: "SessionManager \<Rightarrow> string \<Rightarrow> ShellSession option" where
  "get_session m sid = hm_get (sm_sessions m) sid"

text \<open>A write through \<open>get_mut\<close>: the session is changed by \<open>f\<close> where it exists.\<close>

definition update_session ::
  "string \<Rightarrow> (ShellSession \<Rightarrow> ShellSession) \<Rightarrow> SessionManager \<Rightarrow> SessionManager" where
  "update_session sid f m = (case hm_get (sm_sessions m) sid of
     None \<Rightarrow> m
   | Some s \<Rightarrow> m\<lparr>sm_sessions := hm_insert sid (f s) (sm_sessions m)\<rparr>)"

definition remove_session :: "string \<Rightarrow> SessionManager \<Rightarrow> SessionManager \<times> ShellSession option" where
  "remove_session sid m =
     (m\<lparr>sm_sessions := hm_remove sid (sm_sessions m)\<rparr>, hm_get (sm_sessions m) sid)"

definition active_sessions :: "SessionManager \<Rightarrow> ShellSession list" where
  "active_sessions m = filter (\<lambda>s. sh_state s = SessActive) (hm_values (sm_sessions m))"

definition session_count :: "SessionManager \<Rightarrow> nat" where
  "session_count m = length (sm_sessions m)"

definition session_stale :: "time \<Rightarrow> int \<Rightarrow> ShellSession \<Rightarrow> bool" where
  "session_stale now max_age s =
     (sh_state s = SessClosing \<and> num_seconds (now - sh_started_at s) > max_age)"

definition cleanup_stale :: "time \<Rightarrow> int \<Rightarrow> SessionManager \<Rightarrow> SessionManager \<times> string list" where
  "cleanup_stale now max_age m = (let
     stale = map fst (filter (\<lambda>(_, s). session_stale now max_age s) (sm_sessions m))
   in (m\<lparr>sm_sessions := fold hm_remove stale (sm_sessions m)\<rparr>, stale))"

subsection \<open>The directory of permitted commands\<close>

text \<open>
  The effect is the list of symbolic links attempted, as pairs of the real path and the link; a
  link that fails is logged and skipped.
\<close>

definition command_link ::
  "(string \<Rightarrow> bool) \<Rightarrow> string list \<Rightarrow> string \<Rightarrow> string \<Rightarrow> (string \<times> string) list" where
  "command_link exists dirs dir cmd = (case find (\<lambda>d. exists (path_join d cmd)) dirs of
     None \<Rightarrow> []
   | Some d \<Rightarrow> [(path_join d cmd, path_join dir cmd)])"

definition setup_session_bin_dir ::
  "(string \<Rightarrow> string + unit) \<Rightarrow> (string \<Rightarrow> bool) \<Rightarrow> string option \<Rightarrow> ShellSession \<Rightarrow> string list \<Rightarrow>
   (string \<times> string) list \<times> (SessionError + unit)" where
  "setup_session_bin_dir create_dir_all exists path_var s commands =
     (let dir = bin_dir s in
      case create_dir_all dir of
        Inl e \<Rightarrow> ([], Inl (SetupFailed (''mkdir '' @ dir @ '': '' @ e)))
      | Inr _ \<Rightarrow>
          let search_dirs = split_on CHR '':'' (case path_var of Some p \<Rightarrow> p | None \<Rightarrow> []) in
          (concat (map (command_link exists search_dirs dir) commands), Inr ()))"

lemma command_link_sound:
  "(real, link) \<in> set (command_link exists dirs dir cmd) \<Longrightarrow>
   link = path_join dir cmd \<and> exists real \<and> (\<exists>d. real = path_join d cmd)"
  by (auto simp: command_link_def find_Some_iff find_Some_iff2 split: option.splits)

text \<open>Only permitted commands are linked, each once, to an existing file of that name.\<close>

lemma setup_links:
  assumes "(real, link) \<in> set (fst (setup_session_bin_dir mk exists pv s commands))"
  shows "\<exists>cmd \<in> set commands. link = path_join (bin_dir s) cmd \<and> exists real \<and>
    (\<exists>d. real = path_join d cmd)"
  using assms
  by (auto simp: setup_session_bin_dir_def Let_def dest!: command_link_sound split: sum.splits)

subsection \<open>The manager as a state machine\<close>

datatype session_op =
    CreateOp string time Identity string string u16 u16 string
  | ActivateOp string
  | CloseOp string
  | FinalizeOp string
  | CommandOp string
  | RemoveOp string
  | CleanupOp time int

fun session_step :: "session_op \<Rightarrow> SessionManager \<Rightarrow> SessionManager" where
  "session_step (CreateOp uuid now user n v r c t) m = fst (create_session uuid now user n v r c t m)"
| "session_step (ActivateOp sid) m = update_session sid session_activate m"
| "session_step (CloseOp sid) m = update_session sid session_close m"
| "session_step (FinalizeOp sid) m = update_session sid session_finalize m"
| "session_step (CommandOp sid) m = update_session sid record_command m"
| "session_step (RemoveOp sid) m = fst (remove_session sid m)"
| "session_step (CleanupOp now age) m = fst (cleanup_stale now age m)"

interpretation sessions: state_machine session_step .

definition sessions_inv :: "SessionManager \<Rightarrow> bool" where
  "sessions_inv m \<longleftrightarrow> hm_inv (sm_sessions m) \<and> length (sm_sessions m) \<le> sm_max_sessions m \<and>
     (\<forall>sid s. hm_get (sm_sessions m) sid = Some s \<longrightarrow> sh_session_id s = sid)"

lemma length_hm_insert: "length (hm_insert k v m) = length m + (if hm_get m k = None then 1 else 0)"
  by (induction m) (auto simp: hm_insert_def hm_get_def)

lemma length_hm_remove: "length (hm_remove k m) \<le> length m"
  by (simp add: hm_remove_def length_delete_le)

lemma fold_hm_remove_get:
  "hm_get (fold hm_remove ks m) k = (if k \<in> set ks then None else hm_get m k)"
  by (induction ks arbitrary: m) auto

lemma fold_hm_remove_inv [simp]: "hm_inv m \<Longrightarrow> hm_inv (fold hm_remove ks m)"
  by (induction ks arbitrary: m) auto

lemma length_fold_hm_remove: "length (fold hm_remove ks m) \<le> length m"
proof (induction ks arbitrary: m)
  case (Cons k ks)
  have "length (fold hm_remove ks (hm_remove k m)) \<le> length (hm_remove k m)"
    by (rule Cons)
  then show ?case
    using length_hm_remove [of k m] by simp
qed simp

lemma update_session_inv [inv_intros]:
  "sessions_inv m \<Longrightarrow> (\<And>s. sh_session_id (f s) = sh_session_id s) \<Longrightarrow>
   sessions_inv (update_session sid f m)"
  by (auto simp: sessions_inv_def update_session_def length_hm_insert split: option.splits)

lemma create_session_inv [inv_intros]:
  "sessions_inv m \<Longrightarrow> sessions_inv (fst (create_session uuid now user n v r c t m))"
  by (auto simp: sessions_inv_def create_session_def Let_def length_hm_insert session_new_def)

lemma remove_session_inv [inv_intros]: "sessions_inv m \<Longrightarrow> sessions_inv (fst (remove_session sid m))"
  by (auto simp: sessions_inv_def remove_session_def
      intro: le_trans [OF length_hm_remove] split: if_splits)

lemma cleanup_stale_inv [inv_intros]: "sessions_inv m \<Longrightarrow> sessions_inv (fst (cleanup_stale now age m))"
  by (auto simp: sessions_inv_def cleanup_stale_def Let_def fold_hm_remove_get
      intro: le_trans [OF length_fold_hm_remove] split: if_splits)

lemma session_step_inv [inv_intros]: "sessions_inv m \<Longrightarrow> sessions_inv (session_step p m)"
  by (cases p) (auto intro!: inv_intros
      simp: session_activate_def session_close_def session_finalize_def record_command_def)

lemma session_step_max [simp]: "sm_max_sessions (session_step p m) = sm_max_sessions m"
  by (cases p) (auto simp: create_session_def update_session_def remove_session_def
      cleanup_stale_def Let_def split: option.splits)

text \<open>Through any operations, at most the permitted number of sessions exists.\<close>

lemma sessions_bounded:
  "sessions_inv (sessions.run ps (sessions_new n)) \<and>
   session_count (sessions.run ps (sessions_new n)) \<le> n"
proof -
  have "sessions_inv (sessions.run ps (sessions_new n)) \<and>
      sm_max_sessions (sessions.run ps (sessions_new n)) = n"
    by (rule sessions.run_invariant [where Q = "\<lambda>_. True"])
      (simp_all add: session_step_inv, simp_all add: sessions_new_def sessions_inv_def)
  then show ?thesis
    by (simp add: sessions_inv_def session_count_def)
qed

text \<open>The cleanup removes exactly the sessions that are closing and too old.\<close>

lemma cleanup_stale_exact:
  assumes "hm_inv (sm_sessions m)"
  shows "get_session (fst (cleanup_stale now age m)) sid =
      (case get_session m sid of
         Some s \<Rightarrow> if session_stale now age s then None else Some s | None \<Rightarrow> None)"
    and "sid \<in> set (snd (cleanup_stale now age m)) \<longleftrightarrow>
      (\<exists>s. get_session m sid = Some s \<and> session_stale now age s)"
proof -
  show "sid \<in> set (snd (cleanup_stale now age m)) \<longleftrightarrow>
      (\<exists>s. get_session m sid = Some s \<and> session_stale now age s)"
    using assms by (force simp: cleanup_stale_def Let_def get_session_def hm_get_in_set)
  then show "get_session (fst (cleanup_stale now age m)) sid =
      (case get_session m sid of
         Some s \<Rightarrow> if session_stale now age s then None else Some s | None \<Rightarrow> None)"
    by (auto simp: cleanup_stale_def Let_def get_session_def fold_hm_remove_get
        split: option.splits)
qed

end
