(* ===== verification/Shell_Auth.thy ===== *)
theory Shell_Auth
  imports Pact_Types
begin

text \<open>
  Token validation of the agent shell, \<open>crates/pact-agent/src/shell/auth.rs\<close>: the cache of the
  identity provider's keys with its degraded mode, HS256 and RS256 validation, and the mapping of
  claims to identities and roles. The signature checks belong to the jsonwebtoken crate and are
  the fields of the record \<open>Jwt\<close>, over the type of claims a caller decodes; the HTTP request of
  the key set is the parameter \<open>remote\<close>.
\<close>

subsection \<open>Claims, keys, errors\<close>

datatype StringOrVec = AudNone | Single string | Multiple "string list"

fun aud_contains :: "StringOrVec \<Rightarrow> string \<Rightarrow> bool" where
  "aud_contains AudNone v = False"
| "aud_contains (Single s) v = (s = v)"
| "aud_contains (Multiple ss) v = list_ex (\<lambda>s. s = v) ss"

record TokenClaims =
  tc_sub :: string
  tc_aud :: StringOrVec
  tc_iss :: string
  tc_exp :: u64
  tc_iat :: u64
  tc_pact_role :: "string option"
  tc_pact_principal_type :: "string option"

record AuthConfig =
  au_issuer :: string
  au_audience :: string
  au_hmac_secret :: "bytes option"
  au_jwks_url :: "string option"

record Jwk =
  jwk_kty :: string
  jwk_kid :: "string option"
  jwk_alg :: "string option"
  jwk_n :: "string option"
  jwk_e :: "string option"
  jwk_key_use :: "string option"

datatype AuthError =
    MissingToken | InvalidFormat | TokenExpired
  | InvalidAudience string | InvalidIssuer string | InvalidToken string
  | NoSigningKey | JwksFetchError string | AuthInsufficientPrivileges string

datatype JwtErrorKind = ExpiredSignature | WrongAudience | WrongIssuer | OtherJwtError

record 'c Jwt =
  jwt_decode_hs256 :: "string \<Rightarrow> bytes \<Rightarrow> string \<Rightarrow> string \<Rightarrow> (JwtErrorKind \<times> string) + 'c"
  jwt_decode_rs256 :: "string \<Rightarrow> string \<times> string \<Rightarrow> string \<Rightarrow> string \<Rightarrow> (JwtErrorKind \<times> string) + 'c"
  jwt_rsa_components :: "string \<Rightarrow> string \<Rightarrow> string + (string \<times> string)"
  jwt_decode_header :: "string \<Rightarrow> string + string option"

subsection \<open>The key cache\<close>

record JwksCache =
  jc_keys :: "Jwk list"
  jc_fetched_at :: "time option"
  jc_ttl :: time

definition jwks_cache_new :: JwksCache where
  "jwks_cache_new = \<lparr>jc_keys = [], jc_fetched_at = None, jc_ttl = seconds 3600\<rparr>"

definition jwks_cache_with_ttl :: "time \<Rightarrow> JwksCache" where
  "jwks_cache_with_ttl ttl = \<lparr>jc_keys = [], jc_fetched_at = None, jc_ttl = ttl\<rparr>"

definition cache_valid :: "time \<Rightarrow> JwksCache \<Rightarrow> bool" where
  "cache_valid now c = (case jc_fetched_at c of
     Some t \<Rightarrow> now - t < jc_ttl c \<and> jc_keys c \<noteq> [] | None \<Rightarrow> False)"

definition jwks_fetch ::
  "(string \<Rightarrow> AuthError + Jwk list) \<Rightarrow> time \<Rightarrow> string \<Rightarrow> JwksCache \<Rightarrow> JwksCache \<times> (AuthError + Jwk list)" where
  "jwks_fetch remote now url c =
     (if cache_valid now c then (c, Inr (jc_keys c))
      else case remote url of
        Inr keys \<Rightarrow> (c\<lparr>jc_keys := keys, jc_fetched_at := Some now\<rparr>, Inr keys)
      | Inl e \<Rightarrow> if jc_keys c = [] then (c, Inl e) else (c, Inr (jc_keys c)))"

definition set_keys :: "time \<Rightarrow> Jwk list \<Rightarrow> JwksCache \<Rightarrow> JwksCache" where
  "set_keys now keys c = c\<lparr>jc_keys := keys, jc_fetched_at := Some now\<rparr>"

subsection \<open>Validation\<close>

definition extract_bearer_token :: "string \<Rightarrow> string option" where
  "extract_bearer_token v = (case strip_prefix ''Bearer '' v of
     Some t \<Rightarrow> Some t | None \<Rightarrow> strip_prefix ''bearer '' v)"

definition map_jwt_error :: "AuthConfig \<Rightarrow> JwtErrorKind \<times> string \<Rightarrow> AuthError" where
  "map_jwt_error cfg e = (case fst e of
     ExpiredSignature \<Rightarrow> TokenExpired
   | WrongAudience \<Rightarrow> InvalidAudience (au_audience cfg)
   | WrongIssuer \<Rightarrow> InvalidIssuer (au_issuer cfg)
   | OtherJwtError \<Rightarrow> InvalidToken (snd e))"

definition validate_token :: "TokenClaims Jwt \<Rightarrow> string \<Rightarrow> AuthConfig \<Rightarrow> AuthError + TokenClaims" where
  "validate_token jwt token cfg = (case au_hmac_secret cfg of
     None \<Rightarrow> Inl NoSigningKey
   | Some secret \<Rightarrow>
       (case jwt_decode_hs256 jwt token secret (au_audience cfg) (au_issuer cfg) of
          Inl e \<Rightarrow> Inl (map_jwt_error cfg e)
        | Inr claims \<Rightarrow> Inr claims))"

definition trim_end_slashes :: "string \<Rightarrow> string" where
  "trim_end_slashes s = rev (dropWhile (\<lambda>c. c = CHR ''/'') (rev s))"

definition jwks_url :: "AuthConfig \<Rightarrow> string" where
  "jwks_url cfg = (case au_jwks_url cfg of
     Some u \<Rightarrow> u | None \<Rightarrow> trim_end_slashes (au_issuer cfg) @ ''/.well-known/jwks.json'')"

definition kid_matches :: "string option \<Rightarrow> Jwk \<Rightarrow> bool" where
  "kid_matches token_kid k = (case (token_kid, jwk_kid k) of
     (Some tk, Some kk) \<Rightarrow> tk = kk | (Some _, None) \<Rightarrow> False | (None, _) \<Rightarrow> True)"

definition matching_keys :: "string option \<Rightarrow> Jwk list \<Rightarrow> Jwk list" where
  "matching_keys token_kid keys =
     filter (kid_matches token_kid)
       (filter (\<lambda>k. jwk_n k \<noteq> None \<and> jwk_e k \<noteq> None)
         (filter (\<lambda>k. jwk_kty k = ''RSA'') keys))"

text \<open>The \<open>Debug\<close> rendering of an optional key id (control characters other than these four do
  not occur in one).\<close>

definition escape_char :: "char \<Rightarrow> string" where
  "escape_char c =
     (if c = CHR 0x22 \<or> c = CHR 0x5C then [CHR 0x5C, c]
      else if c = CHR 0x09 then [CHR 0x5C, CHR ''t'']
      else if c = CHR 0x0A then [CHR 0x5C, CHR ''n'']
      else if c = CHR 0x0D then [CHR 0x5C, CHR ''r'']
      else if c = CHR 0x00 then [CHR 0x5C, CHR ''0'']
      else [c])"

definition debug_kid :: "string option \<Rightarrow> string" where
  "debug_kid k = (case k of None \<Rightarrow> ''None''
     | Some s \<Rightarrow> ''Some('' @ [CHR 0x22] @ concat (map escape_char s) @ [CHR 0x22] @ '')'')"

fun try_keys :: "TokenClaims Jwt \<Rightarrow> string \<Rightarrow> AuthConfig \<Rightarrow> AuthError \<Rightarrow> Jwk list \<Rightarrow> AuthError + TokenClaims" where
  "try_keys jwt token cfg last_err [] = Inl last_err"
| "try_keys jwt token cfg last_err (k # ks) =
     (case jwt_rsa_components jwt (the (jwk_n k)) (the (jwk_e k)) of
        Inl err \<Rightarrow> try_keys jwt token cfg (InvalidToken err) ks
      | Inr key \<Rightarrow>
          (case jwt_decode_rs256 jwt token key (au_audience cfg) (au_issuer cfg) of
             Inr claims \<Rightarrow> Inr claims
           | Inl e \<Rightarrow> try_keys jwt token cfg (map_jwt_error cfg e) ks))"

definition validate_rs256 :: "TokenClaims Jwt \<Rightarrow> string \<Rightarrow> AuthConfig \<Rightarrow> Jwk list \<Rightarrow> AuthError + TokenClaims" where
  "validate_rs256 jwt token cfg keys =
     (if keys = [] then Inl NoSigningKey
      else case jwt_decode_header jwt token of
        Inl e \<Rightarrow> Inl (InvalidToken e)
      | Inr token_kid \<Rightarrow>
          let ms = matching_keys token_kid keys in
          if ms = [] then
            Inl (InvalidToken (''no matching JWKS key for kid '' @ debug_kid token_kid))
          else try_keys jwt token cfg NoSigningKey ms)"

definition validate_token_with_jwks ::
  "TokenClaims Jwt \<Rightarrow> (string \<Rightarrow> AuthError + Jwk list) \<Rightarrow> time \<Rightarrow> string \<Rightarrow> AuthConfig \<Rightarrow> JwksCache \<Rightarrow>
   JwksCache \<times> (AuthError + TokenClaims)" where
  "validate_token_with_jwks jwt remote now token cfg cache =
     (case (if au_hmac_secret cfg \<noteq> None then validate_token jwt token cfg else Inl NoSigningKey) of
        Inr claims \<Rightarrow> (cache, Inr claims)
      | Inl _ \<Rightarrow>
          (case jwks_fetch remote now (jwks_url cfg) cache of
             (cache', Inl e) \<Rightarrow> (cache', Inl e)
           | (cache', Inr keys) \<Rightarrow> (cache', validate_rs256 jwt token cfg keys)))"

subsection \<open>Identities and roles\<close>

definition claims_to_identity :: "TokenClaims \<Rightarrow> Identity" where
  "claims_to_identity c = \<lparr>id_principal = tc_sub c,
     id_principal_type =
       (if tc_pact_principal_type c = Some ''agent'' then Agent
        else if tc_pact_principal_type c = Some ''service'' then Service else Human),
     id_role = (case tc_pact_role c of Some r \<Rightarrow> r | None \<Rightarrow> [])\<rparr>"

definition is_platform_admin :: "Identity \<Rightarrow> bool" where
  "is_platform_admin i \<longleftrightarrow> id_role i = ''pact-platform-admin''"

definition has_ops_role :: "Identity \<Rightarrow> string \<Rightarrow> bool" where
  "has_ops_role i vc \<longleftrightarrow> id_role i = ''pact-platform-admin'' \<or> id_role i = ''pact-ops-'' @ vc"

definition has_viewer_role :: "Identity \<Rightarrow> string \<Rightarrow> bool" where
  "has_viewer_role i vc \<longleftrightarrow> has_ops_role i vc \<or> id_role i = ''pact-viewer-'' @ vc"

subsection \<open>Lemmas\<close>

lemma try_keys_ok:
  "try_keys jwt token cfg err ks = Inr claims \<Longrightarrow>
   \<exists>k \<in> set ks. \<exists>key. jwt_rsa_components jwt (the (jwk_n k)) (the (jwk_e k)) = Inr key \<and>
     jwt_decode_rs256 jwt token key (au_audience cfg) (au_issuer cfg) = Inr claims"
  by (induction jwt token cfg err ks rule: try_keys.induct) (auto split: sum.splits)

lemma try_keys_complete:
  "k \<in> set ks \<Longrightarrow> jwt_rsa_components jwt (the (jwk_n k)) (the (jwk_e k)) = Inr key \<Longrightarrow>
   jwt_decode_rs256 jwt token key (au_audience cfg) (au_issuer cfg) = Inr claims \<Longrightarrow>
   \<exists>claims'. try_keys jwt token cfg err ks = Inr claims'"
  by (induction jwt token cfg err ks rule: try_keys.induct) (auto split: sum.splits)

lemma matching_keys_iff:
  "k \<in> set (matching_keys kid keys) \<longleftrightarrow> k \<in> set keys \<and> jwk_kty k = ''RSA'' \<and>
     (\<exists>n e. jwk_n k = Some n \<and> jwk_e k = Some e) \<and> (kid \<noteq> None \<longrightarrow> jwk_kid k = kid)"
  by (auto simp: matching_keys_def kid_matches_def split: option.splits)

lemma jwks_fetch_keys:
  "jwks_fetch remote now url c = (c', Inr keys) \<Longrightarrow>
   keys = jc_keys c' \<and> (keys = jc_keys c \<or> remote url = Inr keys)"
  by (auto simp: jwks_fetch_def split: if_splits sum.splits)

text \<open>
  C39. A token is accepted only if a signature check succeeds: with the configured shared secret,
  or with an RSA key of the key set whose key id is the token's (when the token names one), in
  both cases against the configured audience and issuer. The key set is the cached one or the
  one the provider just returned; and while it is unreachable, cached keys stay in use.
\<close>

theorem token_accepted_only_if_verified:
  assumes "validate_token_with_jwks jwt remote now token cfg cache = (cache', Inr claims)"
  shows "(\<exists>secret. au_hmac_secret cfg = Some secret \<and>
      jwt_decode_hs256 jwt token secret (au_audience cfg) (au_issuer cfg) = Inr claims) \<or>
    (\<exists>keys k n e key kid. (keys = jc_keys cache \<or> remote (jwks_url cfg) = Inr keys) \<and>
      jwt_decode_header jwt token = Inr kid \<and> k \<in> set keys \<and> jwk_kty k = ''RSA'' \<and>
      (kid \<noteq> None \<longrightarrow> jwk_kid k = kid) \<and> jwk_n k = Some n \<and> jwk_e k = Some e \<and>
      jwt_rsa_components jwt n e = Inr key \<and>
      jwt_decode_rs256 jwt token key (au_audience cfg) (au_issuer cfg) = Inr claims)"
proof (cases "\<exists>secret. au_hmac_secret cfg = Some secret \<and>
      jwt_decode_hs256 jwt token secret (au_audience cfg) (au_issuer cfg) = Inr claims")
  case False
  then obtain keys where f: "jwks_fetch remote now (jwks_url cfg) cache = (cache', Inr keys)"
    and v: "validate_rs256 jwt token cfg keys = Inr claims"
    using assms
    by (auto simp: validate_token_with_jwks_def validate_token_def
        split: if_splits option.splits sum.splits prod.splits)
  from v obtain kid where kid: "jwt_decode_header jwt token = Inr kid"
    and t: "try_keys jwt token cfg NoSigningKey (matching_keys kid keys) = Inr claims"
    by (auto simp: validate_rs256_def Let_def split: if_splits sum.splits)
  from try_keys_ok [OF t] obtain k key where k: "k \<in> set (matching_keys kid keys)"
    "jwt_rsa_components jwt (the (jwk_n k)) (the (jwk_e k)) = Inr key"
    "jwt_decode_rs256 jwt token key (au_audience cfg) (au_issuer cfg) = Inr claims" by blast
  from k(1) obtain n e where ne: "k \<in> set keys" "jwk_kty k = ''RSA''"
    "kid \<noteq> None \<longrightarrow> jwk_kid k = kid" "jwk_n k = Some n" "jwk_e k = Some e"
    unfolding matching_keys_iff by blast
  with k(2) have "jwt_rsa_components jwt n e = Inr key" by simp
  moreover have "keys = jc_keys cache \<or> remote (jwks_url cfg) = Inr keys"
    using jwks_fetch_keys [OF f] by blast
  ultimately show ?thesis using ne k(3) kid by blast
qed blast

text \<open>A provider whose tokens all verify, with one RSA key.\<close>

definition sample_claims :: TokenClaims where
  "sample_claims = \<lparr>tc_sub = ''ops@site'', tc_aud = Single ''pact'', tc_iss = ''https://idp'',
     tc_exp = 99, tc_iat = 1, tc_pact_role = Some ''pact-ops-ml'', tc_pact_principal_type = None\<rparr>"

definition sample_jwt :: "TokenClaims Jwt" where
  "sample_jwt = \<lparr>jwt_decode_hs256 = (\<lambda>t sec _ _.
       if t = ''tok'' \<and> sec = [1] then Inr sample_claims else Inl (OtherJwtError, ''InvalidSignature'')),
     jwt_decode_rs256 = (\<lambda>t k _ _. if k = (''N'', ''E'') then Inr sample_claims
       else Inl (OtherJwtError, ''InvalidSignature'')),
     jwt_rsa_components = (\<lambda>n e. Inr (n, e)), jwt_decode_header = (\<lambda>_. Inr (Some ''k1''))\<rparr>"

definition sample_config :: AuthConfig where
  "sample_config = \<lparr>au_issuer = ''https://idp/'', au_audience = ''pact'', au_hmac_secret = None,
     au_jwks_url = None\<rparr>"

definition sample_key :: Jwk where
  "sample_key = \<lparr>jwk_kty = ''RSA'', jwk_kid = Some ''k1'', jwk_alg = None, jwk_n = Some ''N'',
     jwk_e = Some ''E'', jwk_key_use = None\<rparr>"

theorem token_accepted_only_if_verified_witness:
  "\<exists>k \<in> set [sample_key]. \<exists>n e. jwk_n k = Some n \<and> jwk_e k = Some e \<and>
     jwt_decode_rs256 sample_jwt ''tok'' (n, e) ''pact'' ''https://idp/'' = Inr sample_claims"
proof -
  have "validate_token_with_jwks sample_jwt (\<lambda>u. if u = ''https://idp/.well-known/jwks.json''
      then Inr [sample_key] else Inl (JwksFetchError ''404'')) 0 ''tok'' sample_config jwks_cache_new =
      (jwks_cache_new\<lparr>jc_keys := [sample_key], jc_fetched_at := Some 0\<rparr>, Inr sample_claims)"
    by (simp add: validate_token_with_jwks_def sample_config_def jwks_fetch_def cache_valid_def
        jwks_cache_new_def jwks_url_def trim_end_slashes_def validate_rs256_def sample_jwt_def
        matching_keys_def sample_key_def kid_matches_def Let_def)
  from token_accepted_only_if_verified [OF this] show ?thesis
    by (auto simp: sample_config_def jwks_cache_new_def jwks_url_def trim_end_slashes_def sample_jwt_def
        split: if_splits)
qed

end
