(* ===== verification/Shell_Server.thy ===== *)
theory Shell_Server
  imports Exec_Command Sessions Shell_Auth Grpc_Types
begin

text \<open>
  The exec pipeline of the agent shell, \<open>crates/pact-agent/src/shell/mod.rs\<close>: authentication,
  authorization against whitelist and roles, argument validation, execution, journal entry and
  commit window. What the pipeline does to the outside (running the command, sending the journal
  entry, opening the commit window) is recorded in order as a list of effects; the answer of
  \<open>execute_command\<close> (theory \<open>Exec_Command\<close>) is the parameter \<open>execute\<close>.
\<close>

subsection \<open>The server\<close>

datatype SupervisorBackend = BackendPact | BackendSystemd

datatype ShellError = ShellAuth AuthError | ShellExec ExecError | ShellSessionError SessionError

record ShellServer =
  ss_whitelist :: WhitelistManager
  ss_sessions :: SessionManager
  ss_auth_config :: AuthConfig
  ss_exec_config :: ExecConfig
  ss_node_id :: string
  ss_vcluster_id :: string
  ss_has_journal_client :: bool
  ss_has_commit_window :: bool
  ss_supervisor_backend :: SupervisorBackend
  ss_declared_services :: "string list"

definition shell_server_new ::
  "AuthConfig \<Rightarrow> ExecConfig \<Rightarrow> string \<Rightarrow> string \<Rightarrow> bool \<Rightarrow> nat \<Rightarrow> ShellServer" where
  "shell_server_new auth_config exec_config node_id vcluster_id learning_mode max_sessions =
     \<lparr>ss_whitelist = whitelist_new learning_mode, ss_sessions = sessions_new max_sessions,
      ss_auth_config = auth_config,
      ss_exec_config = exec_config, ss_node_id = node_id, ss_vcluster_id = vcluster_id,
      ss_has_journal_client = False, ss_has_commit_window = False,
      ss_supervisor_backend = BackendPact, ss_declared_services = []\<rparr>"

definition with_journal_client :: "ShellServer \<Rightarrow> ShellServer" where
  "with_journal_client sv = sv\<lparr>ss_has_journal_client := True\<rparr>"

definition with_commit_window :: "ShellServer \<Rightarrow> ShellServer" where
  "with_commit_window sv = sv\<lparr>ss_has_commit_window := True\<rparr>"

definition with_supervisor_backend :: "SupervisorBackend \<Rightarrow> ShellServer \<Rightarrow> ShellServer" where
  "with_supervisor_backend backend sv = sv\<lparr>ss_supervisor_backend := backend\<rparr>"

definition with_declared_services :: "string list \<Rightarrow> ShellServer \<Rightarrow> ShellServer" where
  "with_declared_services services sv = sv\<lparr>ss_declared_services := services\<rparr>"

definition shell_authenticate :: "TokenClaims Jwt \<Rightarrow> ShellServer \<Rightarrow> string \<Rightarrow> AuthError + Identity" where
  "shell_authenticate jwt sv header = (case extract_bearer_token header of
     None \<Rightarrow> Inl InvalidFormat
   | Some token \<Rightarrow>
       (case validate_token jwt token (ss_auth_config sv) of
          Inl e \<Rightarrow> Inl e
        | Inr claims \<Rightarrow> Inr (claims_to_identity claims)))"

definition authorize_exec :: "Identity \<Rightarrow> string \<Rightarrow> ShellServer \<Rightarrow> ShellServer \<times> (AuthError + bool)" where
  "authorize_exec i command sv =
     (if \<not> is_exec_allowed (ss_whitelist sv) command then
        if is_platform_admin i then (sv, Inr True)
        else (sv\<lparr>ss_whitelist := record_denied command (ss_whitelist sv)\<rparr>,
              Inl (AuthInsufficientPrivileges (''command not whitelisted: '' @ command)))
      else
        let state_changing = is_state_changing (ss_whitelist sv) command in
        if \<not> has_ops_role i (ss_vcluster_id sv) then
          if has_viewer_role i (ss_vcluster_id sv) \<and> \<not> state_changing then (sv, Inr False)
          else (sv, Inl (AuthInsufficientPrivileges (''requires pact-ops-'' @ ss_vcluster_id sv @
                  '' or pact-platform-admin role'')))
        else (sv, Inr state_changing))"

datatype ShellEffect =
    Executed string "string list"
  | JournalAppend ProtoConfigEntry
  | CommitWindowOpened

definition exec_log_entry :: "time \<Rightarrow> ShellServer \<Rightarrow> Identity \<Rightarrow> string \<Rightarrow> ProtoConfigEntry" where
  "exec_log_entry now sv i command = \<lparr>
     pce_sequence = 0,
     pce_timestamp = Some (to_timestamp now),
     pce_entry_type = 10,
     pce_scope = Some (Some (ProtoNodeId (ss_node_id sv))),
     pce_author = Some \<lparr>pid_principal = id_principal i,
       pid_principal_type = debug_PrincipalType (id_principal_type i), pid_role = id_role i\<rparr>,
     pce_parent = None,
     pce_state_delta = Some \<lparr>psd_mounts = [], psd_files = [], psd_network = [], psd_services = [],
       psd_kernel = [], psd_packages = [], psd_gpu = []\<rparr>,
     pce_policy_ref = ''exec:'' @ command,
     pce_ttl = None,
     pce_emergency_reason = None\<rparr>"

definition shell_exec ::
  "TokenClaims Jwt \<Rightarrow> (string \<Rightarrow> string list \<Rightarrow> ExecConfig \<Rightarrow> ExecError + ExecResult) \<Rightarrow> time \<Rightarrow> string \<Rightarrow> string \<Rightarrow>
   string list \<Rightarrow> ShellServer \<Rightarrow> ShellServer \<times> ShellEffect list \<times> (ShellError + ExecResult \<times> bool)" where
  "shell_exec jwt execute now header command args sv =
     (case shell_authenticate jwt sv header of
        Inl e \<Rightarrow> (sv, [], Inl (ShellAuth e))
      | Inr i \<Rightarrow>
          (case authorize_exec i command sv of
             (sv1, Inl e) \<Rightarrow> (sv1, [], Inl (ShellAuth e))
           | (sv1, Inr state_changing) \<Rightarrow>
               (case validate_args command args of
                  Inl reason \<Rightarrow> (sv1, [], Inl (ShellAuth (AuthInsufficientPrivileges reason)))
                | Inr _ \<Rightarrow>
                    (case execute command args (ss_exec_config sv1) of
                       Inl e \<Rightarrow> (sv1, [Executed command args], Inl (ShellExec e))
                     | Inr result \<Rightarrow>
                         (sv1,
                          [Executed command args] @
                          (if ss_has_journal_client sv1 then [JournalAppend (exec_log_entry now sv1 i command)]
                           else []) @
                          (if state_changing \<and> ss_has_commit_window sv1 then [CommitWindowOpened] else []),
                          Inr (result, state_changing))))))"

definition list_commands :: "ShellServer \<Rightarrow> WhitelistEntry list" where
  "list_commands sv = exec_commands (ss_whitelist sv)"

subsection \<open>Who may execute what\<close>

definition may_exec :: "ShellServer \<Rightarrow> Identity \<Rightarrow> string \<Rightarrow> bool" where
  "may_exec sv i command \<longleftrightarrow>
     id_role i = ''pact-platform-admin'' \<or>
     is_exec_allowed (ss_whitelist sv) command \<and>
       (id_role i = ''pact-ops-'' @ ss_vcluster_id sv \<or>
        id_role i = ''pact-viewer-'' @ ss_vcluster_id sv \<and>
          \<not> is_state_changing (ss_whitelist sv) command)"

lemma authorize_exec_ok:
  "authorize_exec i command sv = (sv', Inr sc) \<longleftrightarrow>
     sv' = sv \<and> may_exec sv i command \<and>
     sc = (if is_exec_allowed (ss_whitelist sv) command
           then is_state_changing (ss_whitelist sv) command else True)"
  by (auto simp: authorize_exec_def may_exec_def is_platform_admin_def has_ops_role_def
      has_viewer_role_def Let_def split: if_splits)

lemma authorize_exec_denied:
  "authorize_exec i command sv = (sv', Inl e) \<Longrightarrow> \<not> may_exec sv i command"
  using authorize_exec_ok [of i command sv _ "if is_exec_allowed (ss_whitelist sv) command
      then is_state_changing (ss_whitelist sv) command else True"]
  by (metis Inl_Inr_False prod.inject)

text \<open>Whether an executed command counts as changing state.\<close>

definition counts_as_change :: "ShellServer \<Rightarrow> string \<Rightarrow> bool" where
  "counts_as_change sv command \<longleftrightarrow>
     \<not> is_exec_allowed (ss_whitelist sv) command \<or> is_state_changing (ss_whitelist sv) command"

text \<open>
  C40. What the exec pipeline does, complete. A command is executed exactly when the caller's token
  verifies, the role permits it (platform admins anything; ops of this vCluster whitelisted
  commands; viewers of this vCluster whitelisted commands that do not change state) and the
  arguments pass validation; then it is the requested command, once. After a run that gives a
  result, and only then, the server attempts to append a log entry, if it has a client of the
  journal, without looking at the outcome, and opens the commit window if the command counts as
  changing state. The entry names the caller and the command, and neither the arguments nor
  anything of the result. A command that is started and then fails to give a result, by running
  into the time limit for instance, leaves no entry and opens no window. The documents ask for an
  entry of every command, with its output and exit code (S4 in specs/invariants.md, ADR-007,
  exec_endpoint.feature).
\<close>

theorem exec_pipeline_exact:
  assumes "shell_exec jwt execute now header command args sv = (sv', effects, r)"
  shows "(effects \<noteq> [] \<longleftrightarrow> (\<exists>i. shell_authenticate jwt sv header = Inr i \<and> may_exec sv i command \<and>
        validate_args command args = Inr ())) \<and>
    (\<forall>i. effects \<noteq> [] \<longrightarrow> shell_authenticate jwt sv header = Inr i \<longrightarrow>
      (case execute command args (ss_exec_config sv) of
         Inl e \<Rightarrow> effects = [Executed command args] \<and> r = Inl (ShellExec e)
       | Inr result \<Rightarrow> r = Inr (result, counts_as_change sv command) \<and>
          effects = Executed command args #
            (if ss_has_journal_client sv then [JournalAppend (exec_log_entry now sv i command)] else []) @
            (if counts_as_change sv command \<and> ss_has_commit_window sv then [CommitWindowOpened] else []))) \<and>
    (\<forall>e. JournalAppend e \<in> set effects \<longrightarrow> pce_policy_ref e = ''exec:'' @ command \<and> pce_entry_type e = 10 \<and>
      (\<exists>i. shell_authenticate jwt sv header = Inr i \<and>
        map_option pid_principal (pce_author e) = Some (id_principal i)))"
proof (cases "shell_authenticate jwt sv header")
  case (Inl e)
  with assms show ?thesis by (auto simp: shell_exec_def)
next
  case auth: (Inr i)
  obtain sv1 d where a: "authorize_exec i command sv = (sv1, d)" by fastforce
  show ?thesis
  proof (cases d)
    case (Inl e)
    then have "\<not> may_exec sv i command"
      using a authorize_exec_denied by blast
    with assms auth a Inl show ?thesis by (auto simp: shell_exec_def)
  next
    case (Inr sc)
    with a have ok: "sv1 = sv" "may_exec sv i command" "sc = counts_as_change sv command"
      by (auto simp: authorize_exec_ok counts_as_change_def)
    have run: "(sv', effects, r) = (case validate_args command args of
        Inl reason \<Rightarrow> (sv, [], Inl (ShellAuth (AuthInsufficientPrivileges reason)))
      | Inr _ \<Rightarrow> (case execute command args (ss_exec_config sv) of
          Inl e \<Rightarrow> (sv, [Executed command args], Inl (ShellExec e))
        | Inr result \<Rightarrow> (sv, [Executed command args] @
            (if ss_has_journal_client sv then [JournalAppend (exec_log_entry now sv i command)] else []) @
            (if counts_as_change sv command \<and> ss_has_commit_window sv then [CommitWindowOpened] else []),
            Inr (result, counts_as_change sv command))))"
      using assms by (simp add: shell_exec_def auth a Inr ok)
    show ?thesis
    proof (cases "validate_args command args")
      case (Inl e)
      with run auth show ?thesis by simp
    next
      case (Inr u)
      with run auth ok(2) show ?thesis
        by (cases "execute command args (ss_exec_config sv)") (auto simp: exec_log_entry_def)
    qed
  qed
qed

theorem exec_pipeline_exact_witness:
  "may_exec (shell_server_new (sample_config\<lparr>au_hmac_secret := Some [1]\<rparr>) default_exec_config ''n1'' ''ml'' False 10)
     (claims_to_identity sample_claims) ''uptime''"
proof -
  define sv where "sv = shell_server_new (sample_config\<lparr>au_hmac_secret := Some [1]\<rparr>) default_exec_config
    ''n1'' ''ml'' False 10"
  define res where "res = \<lparr>xr_stdout = [], xr_stderr = [], xr_exit_code = 0\<rparr>"
  have auth: "shell_authenticate sample_jwt sv ''Bearer tok'' = Inr (claims_to_identity sample_claims)"
    by (simp add: shell_authenticate_def extract_bearer_token_def strip_prefix_def validate_token_def
        sv_def shell_server_new_def sample_config_def sample_jwt_def)
  have "hm_contains (wm_exec_whitelist (whitelist_new False)) ''uptime''"
    by code_simp
  then have az: "\<exists>sc. authorize_exec (claims_to_identity sample_claims) ''uptime'' sv = (sv, Inr sc)"
    by (simp add: authorize_exec_def is_exec_allowed_def sv_def shell_server_new_def has_ops_role_def
        claims_to_identity_def sample_claims_def)
  obtain effects r where "shell_exec sample_jwt (\<lambda>_ _ _. Inr res) 5 ''Bearer tok'' ''uptime'' [] sv = (sv, effects, r)"
    "effects \<noteq> []"
    using az auth by (auto simp: shell_exec_def)
  with exec_pipeline_exact [OF this(1)] auth show ?thesis unfolding sv_def by auto
qed

end
