(* ===== verification/Journal_Auth.thy ===== *)
theory Journal_Auth
  imports Grpc_Types
begin

text \<open>
  The interceptor of \<open>crates/pact-journal/src/auth.rs\<close>, which \<open>main.rs\<close> puts before the
  configuration, policy and boot services: a call without a bearer token does not reach a handler.
\<close>

definition auth_interceptor :: "auth_header \<Rightarrow> Status + unit" where
  "auth_interceptor h = (case h of
     Some token \<Rightarrow> (case token of
       None \<Rightarrow> Inl (Status Unauthenticated ''invalid authorization header'')
     | Some token_str \<Rightarrow>
         if \<not> prefix ''Bearer '' token_str
         then Inl (Status Unauthenticated ''expected Bearer token'') else Inr ())
   | None \<Rightarrow> Inl (Status Unauthenticated ''missing authorization header''))"

text \<open>A handler as the server offers it, behind the interceptor.\<close>

definition intercepted :: "auth_header \<Rightarrow> Status + 'a \<Rightarrow> Status + 'a" where
  "intercepted h answer = (case auth_interceptor h of Inl st \<Rightarrow> Inl st | Inr _ \<Rightarrow> answer)"

lemma intercepted_bearer: "intercepted (Some (Some (''Bearer '' @ t))) answer = answer"
  by (simp add: intercepted_def auth_interceptor_def)

lemma intercepted_none [simp]:
  "intercepted None answer = Inl (Status Unauthenticated ''missing authorization header'')"
  by (simp add: intercepted_def auth_interceptor_def)

lemma auth_interceptor_ok: "auth_interceptor h = Inr u \<longleftrightarrow> (\<exists>t. h = Some (Some (''Bearer '' @ t)))"
  by (auto simp: auth_interceptor_def prefix_def split: option.splits if_splits)

end
