(* ===== verification/Subscription.thy ===== *)
theory Subscription
  imports Boot_Service
begin

text \<open>
  The agent's subscription to configuration updates, \<open>crates/pact-agent/src/subscription/mod.rs\<close>:
  decoding of updates into actions, the sequence to resume from, reconnection with backoff, and
  the loop around them. The locale \<open>update_feed\<close> states what the agent relies on when it resumes;
  the journal's \<open>subscribe_config_updates\<close> (theory \<open>Boot_Service\<close>) provides it. JSON decoding and the
  action channel are parameters.
\<close>

subsection \<open>State and operations\<close>

datatype ConfigUpdateAction =
    OverlayChanged bytes
  | NodeDeltaChanged bytes
  | PolicyChanged VClusterPolicy
  | BlacklistChanged "string list"

record SubscriptionState =
  sb_last_sequence :: u64
  sb_reconnect_attempts :: u32
  sb_connected :: bool

definition default_subscription_state :: SubscriptionState where
  "default_subscription_state = \<lparr>sb_last_sequence = 0, sb_reconnect_attempts = 0, sb_connected = False\<rparr>"

record SubscriptionConfig =
  sbc_node_id :: string
  sbc_vcluster_id :: string
  sbc_reconnect_base_ms :: u64
  sbc_reconnect_max_ms :: u64
  sbc_max_reconnect_attempts :: u32

definition default_subscription_config :: SubscriptionConfig where
  "default_subscription_config = \<lparr>sbc_node_id = [], sbc_vcluster_id = [], sbc_reconnect_base_ms = 1000,
     sbc_reconnect_max_ms = 60000, sbc_max_reconnect_attempts = 100\<rparr>"

text \<open>What the processing of an update uses: the JSON decoders and whether the channel accepts.\<close>

record SubEnv =
  sbe_policy_from_json :: "bytes \<Rightarrow> string + VClusterPolicy"
  sbe_patterns_from_json :: "bytes \<Rightarrow> string + string list"
  sbe_channel_open :: bool

definition update_action :: "SubEnv \<Rightarrow> UpdateKind \<Rightarrow> string + ConfigUpdateAction" where
  "update_action env k = (case k of
     VclusterChange data \<Rightarrow> Inr (OverlayChanged data)
   | NodeChange data \<Rightarrow> Inr (NodeDeltaChanged data)
   | PolicyChange data \<Rightarrow> (case sbe_policy_from_json env data of
       Inl e \<Rightarrow> Inl (''invalid policy payload: '' @ e) | Inr p \<Rightarrow> Inr (PolicyChanged p))
   | BlacklistChange data \<Rightarrow> (case sbe_patterns_from_json env data of
       Inl e \<Rightarrow> Inl (''invalid blacklist payload: '' @ e) | Inr ps \<Rightarrow> Inr (BlacklistChanged ps)))"

definition process_update ::
  "SubEnv \<Rightarrow> u64 \<Rightarrow> UpdateKind \<Rightarrow> SubscriptionState \<Rightarrow>
   SubscriptionState \<times> ConfigUpdateAction list \<times> (string + unit)" where
  "process_update env sequence k st = (case update_action env k of
     Inl e \<Rightarrow> (st, [], Inl e)
   | Inr action \<Rightarrow>
       if sbe_channel_open env then (st\<lparr>sb_last_sequence := sequence\<rparr>, [action], Inr ())
       else (st, [], Inl ''action channel closed: channel closed''))"

definition on_connected :: "SubscriptionState \<Rightarrow> SubscriptionState" where
  "on_connected st = st\<lparr>sb_connected := True, sb_reconnect_attempts := 0\<rparr>"

definition on_disconnected :: "SubscriptionConfig \<Rightarrow> SubscriptionState \<Rightarrow> SubscriptionState \<times> u64 option" where
  "on_disconnected c st =
     (let attempts = sb_reconnect_attempts st + 1;
          st' = st\<lparr>sb_connected := False, sb_reconnect_attempts := attempts\<rparr>
      in if attempts > sbc_max_reconnect_attempts c then (st', None)
         else let exp = min attempts 10;
                  delay = sbc_reconnect_base_ms c * 2 ^ unat exp
              in (st', Some (min delay (sbc_reconnect_max_ms c))))"

definition from_sequence :: "SubscriptionState \<Rightarrow> u64" where
  "from_sequence st = sb_last_sequence st"

text \<open>The messages of one connection: an update, or an error that ends it.\<close>

fun process_stream ::
  "SubEnv \<Rightarrow> (string + ConfigUpdate) list \<Rightarrow> SubscriptionState \<Rightarrow> SubscriptionState \<times> ConfigUpdateAction list" where
  "process_stream env [] st = (st, [])"
| "process_stream env (Inl e # items) st = (st, [])"
| "process_stream env (Inr u # items) st = (case cu_update u of
     None \<Rightarrow> process_stream env items st
   | Some k \<Rightarrow> (case process_update env (cu_sequence u) k st of (st1, actions, _) \<Rightarrow>
       (case process_stream env items st1 of (st2, actions') \<Rightarrow> (st2, actions @ actions'))))"

text \<open>
  The loop of \<open>run\<close>, over the answers of the journal to successive subscription requests; an
  answer depends on the sequence asked for. The result tells the actions sent, the delays slept
  and whether the subscription was abandoned; with no further answer the loop is still waiting.
\<close>

type_synonym connection = "u64 \<Rightarrow> string + (string + ConfigUpdate) list"

fun run_subscription ::
  "SubscriptionConfig \<Rightarrow> SubEnv \<Rightarrow> connection list \<Rightarrow> SubscriptionState \<Rightarrow>
   SubscriptionState \<times> ConfigUpdateAction list \<times> u64 list \<times> bool" where
  "run_subscription c env [] st = (st, [], [], False)"
| "run_subscription c env (conn # conns) st =
     (let (st1, actions) = (case conn (from_sequence st) of
            Inr items \<Rightarrow> process_stream env items (on_connected st)
          | Inl e \<Rightarrow> (st, []))
      in case on_disconnected c st1 of
           (st2, None) \<Rightarrow> (st2, actions, [], True)
         | (st2, Some delay) \<Rightarrow> (case run_subscription c env conns st2 of
             (st3, actions', delays, abandoned) \<Rightarrow>
               (st3, actions @ actions', delay # delays, abandoned)))"

subsection \<open>Backoff\<close>

lemma on_disconnected_delay:
  "on_disconnected c st = (st', Some delay) \<Longrightarrow> delay \<le> sbc_reconnect_max_ms c"
  by (auto simp: on_disconnected_def Let_def split: if_splits)

lemma run_delays_bounded:
  "run_subscription c env conns st = (st', actions, delays, abandoned) \<Longrightarrow>
   d \<in> set delays \<Longrightarrow> d \<le> sbc_reconnect_max_ms c"
proof (induction c env conns st arbitrary: st' actions delays abandoned rule: run_subscription.induct)
  case (2 c env conn conns st)
  then show ?case
    by (auto simp: Let_def split: prod.splits sum.splits option.splits dest: on_disconnected_delay)
qed simp

text \<open>Refused connections: after \<open>n\<close> of them the attempts have grown by \<open>n\<close>, until the limit.\<close>

definition nth_delay :: "SubscriptionConfig \<Rightarrow> nat \<Rightarrow> u64" where
  "nth_delay c n = min (sbc_reconnect_base_ms c * 2 ^ min (Suc n) 10) (sbc_reconnect_max_ms c)"

lemma attempts_next:
  assumes "sb_reconnect_attempts st = of_nat n" "n \<le> unat (sbc_max_reconnect_attempts c)"
    and "unat (sbc_max_reconnect_attempts c) < 2 ^ 32 - 1"
  shows "on_disconnected c st =
    (st\<lparr>sb_connected := False, sb_reconnect_attempts := of_nat (Suc n)\<rparr>,
     if n < unat (sbc_max_reconnect_attempts c)
     then Some (nth_delay c n) else None)"
proof -
  have "Suc n < 2 ^ 32"
    using assms(2,3) by simp
  then have u: "unat (of_nat (Suc n) :: u32) = Suc n"
    by (simp add: unsigned_of_nat take_bit_nat_eq_self del: of_nat_Suc)
  then have m: "unat (min (of_nat (Suc n)) 10 :: u32) = min (Suc n) 10"
    by (simp add: min_def word_le_nat_alt del: of_nat_Suc)
  have g: "of_nat (Suc n) > sbc_max_reconnect_attempts c \<longleftrightarrow> \<not> n < unat (sbc_max_reconnect_attempts c)"
    using u by (simp add: word_less_nat_alt less_Suc_eq_le not_less del: of_nat_Suc)
  have a: "sb_reconnect_attempts st + 1 = of_nat (Suc n)"
    by (simp add: assms(1))
  show ?thesis
    unfolding on_disconnected_def Let_def a g m nth_delay_def by simp
qed

text \<open>
  A journal that stays unreachable: the delays double from twice the base delay up to the maximum,
  and the subscription is abandoned exactly when the permitted attempts are used up.
\<close>

lemma run_refused:
  assumes "sb_reconnect_attempts st = of_nat n" "n \<le> unat (sbc_max_reconnect_attempts c)"
    and "unat (sbc_max_reconnect_attempts c) < 2 ^ 32 - 1"
    and "\<forall>conn \<in> set conns. \<forall>from. \<exists>e. conn from = Inl e"
  shows "\<exists>st'. run_subscription c env conns st = (st', [],
      map (nth_delay c) [n ..< min (n + length conns) (unat (sbc_max_reconnect_attempts c))],
      unat (sbc_max_reconnect_attempts c) < n + length conns)"
  using assms(1,2,4)
proof (induction conns arbitrary: st n)
  case (Cons conn conns)
  obtain e where e: "conn (from_sequence st) = Inl e"
    using Cons.prems(3) by (meson list.set_intros(1))
  note nxt = attempts_next [OF Cons.prems(1,2) assms(3)]
  show ?case
  proof (cases "n < unat (sbc_max_reconnect_attempts c)")
    case True
    define st2 where "st2 = st\<lparr>sb_connected := False, sb_reconnect_attempts := of_nat (Suc n)\<rparr>"
    have "\<exists>st'. run_subscription c env conns st2 = (st', [],
      map (nth_delay c) [Suc n ..< min (Suc n + length conns) (unat (sbc_max_reconnect_attempts c))],
      unat (sbc_max_reconnect_attempts c) < Suc n + length conns)"
      using True Cons.prems(3) by (intro Cons.IH) (auto simp: st2_def)
    moreover have "[n ..< min (n + length (conn # conns)) (unat (sbc_max_reconnect_attempts c))] =
        n # [Suc n ..< min (Suc n + length conns) (unat (sbc_max_reconnect_attempts c))]"
      using True by (simp add: upt_conv_Cons)
    ultimately show ?thesis
      using True e nxt unfolding st2_def [symmetric] by (auto simp del: of_nat_Suc)
  next
    case False
    then have "n = unat (sbc_max_reconnect_attempts c)"
      using Cons.prems(2) by simp
    with e nxt show ?thesis
      by simp
  qed
qed simp

subsection \<open>Resuming from the journal\<close>

text \<open>
  An attempt to connect is refused or served by the journal in some state, and a served stream
  ends quietly or with an error. What the agent relies on when it resumes: asked for a sequence, a
  connection gives updates of the log from there on, in ascending order, and leaves out none below
  the last it gives but those it misses.
\<close>

datatype 'j attempt = Refused string | Served 'j "string option"

fun serve :: "('j \<Rightarrow> u64 \<Rightarrow> ConfigUpdate list) \<Rightarrow> 'j attempt \<Rightarrow> connection" where
  "serve feed (Refused e) from = Inl e"
| "serve feed (Served j err) from =
     Inr (map Inr (feed j from) @ (case err of Some e \<Rightarrow> [Inl e] | None \<Rightarrow> []))"

definition has_payload :: "ConfigUpdate \<Rightarrow> bool" where
  "has_payload u = (cu_update u \<noteq> None)"

definition action_of :: "SubEnv \<Rightarrow> ConfigUpdate \<Rightarrow> ConfigUpdateAction" where
  "action_of env u = projr (update_action env (the (cu_update u)))"

definition decodes :: "SubEnv \<Rightarrow> ConfigUpdate \<Rightarrow> bool" where
  "decodes env u = (case cu_update u of
     None \<Rightarrow> True | Some k \<Rightarrow> (case update_action env k of Inr _ \<Rightarrow> True | Inl _ \<Rightarrow> False))"

definition resumed_at :: "u64 \<Rightarrow> ConfigUpdate list \<Rightarrow> u64" where
  "resumed_at from us = (if us = [] then from else cu_sequence (last us))"

lemma process_stream_all:
  assumes "sbe_channel_open env" "\<forall>u \<in> set us. decodes env u"
  shows "process_stream env (map Inr us @ (case err of Some e \<Rightarrow> [Inl e] | None \<Rightarrow> [])) st =
    (st\<lparr>sb_last_sequence := resumed_at (sb_last_sequence st) (filter has_payload us)\<rparr>,
     map (action_of env) (filter has_payload us))"
  using assms(2)
proof (induction us arbitrary: st)
  case Nil
  then show ?case
    by (auto simp: resumed_at_def split: option.splits)
next
  case (Cons u us)
  show ?case
  proof (cases "cu_update u")
    case None
    with Cons show ?thesis
      by (simp add: has_payload_def)
  next
    case (Some k)
    then obtain a where "update_action env k = Inr a"
      using Cons.prems by (auto simp: decodes_def split: sum.splits)
    with Some Cons assms(1) show ?thesis
      by (simp add: has_payload_def process_update_def action_of_def resumed_at_def)
  qed
qed

lemma run_subscription_append:
  "run_subscription c env (xs @ ys) st = (case run_subscription c env xs st of
     (st1, as1, ds1, True) \<Rightarrow> (st1, as1, ds1, True)
   | (st1, as1, ds1, False) \<Rightarrow> (case run_subscription c env ys st1 of
       (st2, as2, ds2, ab) \<Rightarrow> (st2, as1 @ as2, ds1 @ ds2, ab)))"
proof (induction xs arbitrary: st)
  case (Cons x xs)
  then show ?case
    by (auto simp: Let_def split: prod.splits sum.splits option.splits bool.splits)
qed (simp split: prod.splits)

locale update_feed =
  fixes feed :: "'j \<Rightarrow> u64 \<Rightarrow> ConfigUpdate list"
    and serves :: "ConfigUpdate list \<Rightarrow> 'j \<Rightarrow> bool"
    and missed :: "'j \<Rightarrow> ConfigUpdate \<Rightarrow> bool"
  assumes feed_sorted: "sorted_wrt (<) (map cu_sequence full) \<Longrightarrow> serves full j \<Longrightarrow>
      sorted_wrt (<) (map cu_sequence (feed j from))"
    and feed_sound: "serves full j \<Longrightarrow> u \<in> set (feed j from) \<Longrightarrow> u \<in> set full \<and> from \<le> cu_sequence u"
    and feed_gap: "sorted_wrt (<) (map cu_sequence full) \<Longrightarrow> serves full j \<Longrightarrow> u \<in> set full \<Longrightarrow>
      from \<le> cu_sequence u \<Longrightarrow> w \<in> set (feed j from) \<Longrightarrow> cu_sequence u \<le> cu_sequence w \<Longrightarrow>
      u \<in> set (feed j from) \<or> missed j u"
begin

definition faithful :: "ConfigUpdate list \<Rightarrow> 'j attempt \<Rightarrow> bool" where
  "faithful full a = (case a of Refused _ \<Rightarrow> True | Served j _ \<Rightarrow> serves full j)"

definition lost :: "'j attempt list \<Rightarrow> ConfigUpdate \<Rightarrow> bool" where
  "lost attempts u \<longleftrightarrow> (\<exists>j err. Served j err \<in> set attempts \<and> missed j u)"

text \<open>
  What has been dispatched (\<open>ds\<close>) when the next request asks for \<open>to\<close>, having started at \<open>from\<close>:
  updates of the log in order, none left out between the two but those in \<open>L\<close>.
\<close>

definition delivered ::
  "(ConfigUpdate \<Rightarrow> bool) \<Rightarrow> ConfigUpdate list \<Rightarrow> u64 \<Rightarrow> u64 \<Rightarrow> ConfigUpdate list \<Rightarrow> bool" where
  "delivered L full from to ds \<longleftrightarrow> set ds \<subseteq> set (filter has_payload full) \<and>
     sorted_wrt (\<le>) (map cu_sequence ds) \<and> to = resumed_at from ds \<and>
     (\<forall>u \<in> set ds. from \<le> cu_sequence u) \<and>
     (ds \<noteq> [] \<longrightarrow> (\<forall>u \<in> set (filter has_payload full).
        from \<le> cu_sequence u \<longrightarrow> cu_sequence u \<le> to \<longrightarrow> u \<in> set ds \<or> L u))"

lemma delivered_none: "delivered L full from from []"
  by (simp add: delivered_def resumed_at_def)

lemma deliveredD:
  assumes "delivered L full a b ds"
  shows "set ds \<subseteq> set (filter has_payload full)" "sorted_wrt (\<le>) (map cu_sequence ds)"
    and "b = resumed_at a ds" "u \<in> set ds \<Longrightarrow> a \<le> cu_sequence u"
    and "ds \<noteq> [] \<Longrightarrow> u \<in> set (filter has_payload full) \<Longrightarrow> a \<le> cu_sequence u \<Longrightarrow> cu_sequence u \<le> b \<Longrightarrow>
      u \<in> set ds \<or> L u"
  using assms unfolding delivered_def by blast+

lemma delivered_mono:
  "delivered L full a b ds \<Longrightarrow> (\<And>u. L u \<Longrightarrow> L' u) \<Longrightarrow> delivered L' full a b ds"
  unfolding delivered_def by blast

lemma delivered_trans:
  assumes 1: "delivered L full a b ds" and 2: "delivered L full b c es"
  shows "delivered L full a c (ds @ es)"
proof (cases "ds = [] \<or> es = []")
  case True
  then show ?thesis
    using 1 2 deliveredD(3) [OF 1] deliveredD(3) [OF 2] by (auto simp: resumed_at_def)
next
  case False
  then have b: "b = cu_sequence (last ds)" and c: "c = cu_sequence (last es)"
    using deliveredD(3) [OF 1] deliveredD(3) [OF 2] by (simp_all add: resumed_at_def)
  have le: "cu_sequence u \<le> b" if "u \<in> set ds" for u
    using deliveredD(2) [OF 1] that unfolding b
    by (cases ds rule: rev_cases) (auto simp: sorted_wrt_append)
  note ge = deliveredD(4) [OF 2]
  have ab: "a \<le> b"
    unfolding b using False by (intro deliveredD(4) [OF 1] last_in_set) simp
  show ?thesis
    unfolding delivered_def
  proof (intro conjI ballI impI)
    show "set (ds @ es) \<subseteq> set (filter has_payload full)"
      using deliveredD(1) [OF 1] deliveredD(1) [OF 2] by simp
    show "sorted_wrt (\<le>) (map cu_sequence (ds @ es))"
      using deliveredD(2) [OF 1] deliveredD(2) [OF 2] le ge
      by (auto simp: sorted_wrt_append intro: order_trans)
    show "c = resumed_at a (ds @ es)"
      using False c by (simp add: resumed_at_def)
    show "a \<le> cu_sequence u" if "u \<in> set (ds @ es)" for u
      using that deliveredD(4) [OF 1, of u] ge [of u] ab by (auto intro: order_trans)
    show "u \<in> set (ds @ es) \<or> L u"
      if "u \<in> set (filter has_payload full)" "a \<le> cu_sequence u" "cu_sequence u \<le> c" for u
    proof (cases "cu_sequence u \<le> b")
      case True
      then show ?thesis
        using deliveredD(5) [OF 1 _ that(1,2)] False by auto
    next
      case False
      then show ?thesis
        using deliveredD(5) [OF 2 _ that(1) _ that(3)] \<open>\<not> (ds = [] \<or> es = [])\<close> by auto
    qed
  qed
qed

lemma delivered_feed:
  assumes full: "sorted_wrt (<) (map cu_sequence full)" and j: "serves full j"
  shows "delivered (missed j) full from (resumed_at from (filter has_payload (feed j from)))
    (filter has_payload (feed j from))"
proof -
  define ds where "ds = filter has_payload (feed j from)"
  have "sorted_wrt (\<le>) (map cu_sequence ds)"
    using feed_sorted [OF full j, of "from"] unfolding ds_def
    by (auto simp: sorted_wrt_map intro!: sorted_wrt_filter elim!: sorted_wrt_mono_rel [rotated])
  moreover have "u \<in> set ds \<or> missed j u" if "ds \<noteq> []" "u \<in> set full" "has_payload u" "from \<le> cu_sequence u"
    "cu_sequence u \<le> cu_sequence (last ds)" for u
    using feed_gap [OF full j, of u "from" "last ds"] that last_in_set [OF that(1)] by (auto simp: ds_def)
  moreover have "u \<in> set full \<and> has_payload u \<and> from \<le> cu_sequence u" if "u \<in> set ds" for u
    using that feed_sound [OF j, of u "from"] by (simp add: ds_def)
  ultimately show ?thesis
    unfolding delivered_def ds_def [symmetric] resumed_at_def by auto
qed

lemma feed_decodes:
  "serves full j \<Longrightarrow> \<forall>u \<in> set full. decodes env u \<Longrightarrow> \<forall>u \<in> set (feed j from). decodes env u"
  using feed_sound by blast

lemma run_delivers:
  assumes "sbe_channel_open env" "sorted_wrt (<) (map cu_sequence full)" "\<forall>u \<in> set full. decodes env u"
    and "\<forall>a \<in> set attempts. faithful full a"
    and "run_subscription c env (map (serve feed) attempts) st = (st', actions, delays, abandoned)"
  shows "\<exists>ds. actions = map (action_of env) ds \<and>
    delivered (lost attempts) full (sb_last_sequence st) (sb_last_sequence st') ds"
  using assms(4,5)
proof (induction attempts arbitrary: st actions delays)
  case Nil
  then show ?case
    using delivered_none by fastforce
next
  case (Cons a as)
  define r where "r = (case serve feed a (from_sequence st) of
      Inr items \<Rightarrow> process_stream env items (on_connected st) | Inl e \<Rightarrow> (st, []))"
  have first: "\<exists>ds. snd r = map (action_of env) ds \<and>
      delivered (lost (a # as)) full (sb_last_sequence st) (sb_last_sequence (fst r)) ds"
  proof (cases a)
    case (Refused e)
    then show ?thesis
      using delivered_none by (auto simp: r_def)
  next
    case (Served j err)
    then have j: "serves full j"
      using Cons.prems(1) by (simp add: faithful_def)
    have "delivered (lost (a # as)) full (sb_last_sequence st)
        (resumed_at (sb_last_sequence st) (filter has_payload (feed j (sb_last_sequence st))))
        (filter has_payload (feed j (sb_last_sequence st)))"
      by (rule delivered_mono [OF delivered_feed [OF assms(2) j]]) (auto simp: lost_def Served)
    then show ?thesis
      using Served by (auto simp: r_def from_sequence_def on_connected_def
          process_stream_all [OF assms(1) feed_decodes [OF j assms(3)]])
  qed
  obtain st2 delay where dis: "on_disconnected c (fst r) = (st2, delay)"
    by fastforce
  have seq2: "sb_last_sequence st2 = sb_last_sequence (fst r)"
    using dis by (auto simp: on_disconnected_def Let_def split: if_splits)
  show ?case
  proof (cases delay)
    case None
    then show ?thesis
      using Cons.prems(2) first dis seq2 by (auto simp: r_def [symmetric] case_prod_beta Let_def)
  next
    case (Some d)
    obtain st3 acts ds3 ab where rest: "run_subscription c env (map (serve feed) as) st2 = (st3, acts, ds3, ab)"
      by (metis prod_cases4)
    have eq: "st' = st3" "actions = snd r @ acts" "ab = abandoned"
      using Cons.prems(2) dis Some rest by (auto simp: r_def [symmetric] case_prod_beta Let_def)
    obtain es where es: "acts = map (action_of env) es"
      "delivered (lost as) full (sb_last_sequence st2) (sb_last_sequence st') es"
      using Cons.IH [of st2 acts ds3] Cons.prems(1) rest eq by auto
    have "delivered (lost (a # as)) full (sb_last_sequence st2) (sb_last_sequence st') es"
      by (rule delivered_mono [OF es(2)]) (auto simp: lost_def)
    then show ?thesis
      using first es(1) delivered_trans seq2 eq(2) by (metis map_append)
  qed
qed

text \<open>
  One connection more. It dispatches its feed from the sequence reached so far on, and whatever
  of the log that feed covers has then been dispatched or was lost before.
\<close>

lemma run_completes:
  assumes "sbe_channel_open env" "\<forall>u \<in> set full. decodes env u" and j: "serves full j"
    and "run_subscription c env (map (serve feed) attempts) st = (st1, actions1, delays1, False)"
    and "delivered (lost attempts) full (sb_last_sequence st) (sb_last_sequence st1) ds"
    and "run_subscription c env (map (serve feed) (attempts @ [Served j err])) st = (st', actions, delays, ab)"
  shows "actions = actions1 @ map (action_of env) (filter has_payload (feed j (sb_last_sequence st1)))"
    and "u \<in> set full \<Longrightarrow> has_payload u \<Longrightarrow> sb_last_sequence st \<le> cu_sequence u \<Longrightarrow>
      (sb_last_sequence st1 \<le> cu_sequence u \<Longrightarrow> u \<in> set (feed j (sb_last_sequence st1))) \<Longrightarrow>
      u \<in> set ds \<or> u \<in> set (feed j (sb_last_sequence st1)) \<or> lost attempts u"
proof -
  obtain st2 actions2 delays2 where two:
    "run_subscription c env (map (serve feed) [Served j err]) st1 = (st2, actions2, delays2, ab)"
    and acts: "actions = actions1 @ actions2"
    using assms(4,6) by (auto simp: run_subscription_append simp del: run_subscription.simps split: prod.splits)
  have "actions2 = map (action_of env) (filter has_payload (feed j (sb_last_sequence st1)))"
    using two
    by (auto simp: from_sequence_def process_stream_all [OF assms(1) feed_decodes [OF j assms(2)]] Let_def
        on_connected_def split: prod.splits option.splits)
  with acts show "actions = actions1 @ map (action_of env) (filter has_payload (feed j (sb_last_sequence st1)))"
    by simp
  assume u: "u \<in> set full" "has_payload u" "sb_last_sequence st \<le> cu_sequence u"
    and later: "sb_last_sequence st1 \<le> cu_sequence u \<Longrightarrow> u \<in> set (feed j (sb_last_sequence st1))"
  show "u \<in> set ds \<or> u \<in> set (feed j (sb_last_sequence st1)) \<or> lost attempts u"
  proof (cases "sb_last_sequence st1 \<le> cu_sequence u")
    case False
    then have "ds \<noteq> []"
      using deliveredD(3) [OF assms(5)] u(3) by (auto simp: resumed_at_def)
    moreover have "cu_sequence u \<le> sb_last_sequence st1"
      using False by simp
    ultimately show ?thesis
      using deliveredD(5) [OF assms(5), of u] u by auto
  qed (use later in blast)
qed

end

text \<open>
  The journal as a feed: its state when a subscription starts, what the broadcast channel gives
  while it lasts (announced entries in whatever order and with whatever gaps, a lag, the end),
  and the number of messages that get through.
\<close>

type_synonym journal_view = "JournalState \<times> RecvEvent list \<times> nat"

definition journal_feed :: "(ConfigEntry \<Rightarrow> bytes) \<Rightarrow> journal_view \<Rightarrow> u64 \<Rightarrow> ConfigUpdate list" where
  "journal_feed to_json v from = (case v of (s, evs, k) \<Rightarrow>
     take k (subscribe_config_updates to_json s from evs))"

text \<open>Only entries of the log are announced; nothing is said of which, when and how often.\<close>

definition announces :: "ConfigUpdate list \<Rightarrow> RecvEvent list \<Rightarrow> bool" where
  "announces full evs \<longleftrightarrow> list_all (\<lambda>ev. case ev of Received u \<Rightarrow> u \<in> set full | _ \<Rightarrow> True) evs"

definition journal_serves ::
  "(ConfigEntry \<Rightarrow> bytes) \<Rightarrow> ConfigUpdate list \<Rightarrow> journal_view \<Rightarrow> bool" where
  "journal_serves to_json full v \<longleftrightarrow> (case v of (s, evs, k) \<Rightarrow>
     prefix (catch_up to_json s 0) full \<and> announces full evs)"

text \<open>
  The ways an entry gets lost on a connection. It is not yet in the journal's log when the
  connection is made, and then an entry with a higher number is announced while it is not; or it
  is entry 0 and the log is empty.
\<close>

fun overtaken :: "u64 \<Rightarrow> RecvEvent list \<Rightarrow> bool" where
  "overtaken q [] = False"
| "overtaken q (Received u # evs) = (q < cu_sequence u \<or> cu_sequence u \<noteq> q \<and> overtaken q evs)"
| "overtaken q (Lagged n # evs) = False"
| "overtaken q (Closed # evs) = False"

definition missed_on :: "journal_view \<Rightarrow> u64 \<Rightarrow> bool" where
  "missed_on v q \<longleftrightarrow> (case v of (s, evs, k) \<Rightarrow> q \<notin> fst ` set (js_entries s) \<and>
     (overtaken q evs \<or> q = 0 \<and> js_entries s = []))"

definition missed_by :: "journal_view attempt list \<Rightarrow> u64 \<Rightarrow> bool" where
  "missed_by attempts q \<longleftrightarrow> (\<exists>v err. Served v err \<in> set attempts \<and> missed_on v q)"

lemma catch_up_filter: "catch_up to_json s from = filter (\<lambda>u. from \<le> cu_sequence u) (catch_up to_json s 0)"
  by (simp add: catch_up_def filter_map o_def split_def entry_update_def)

lemma catch_up_keys: "cu_sequence ` set (catch_up to_json s 0) = fst ` set (js_entries s)"
  using arg_cong [OF catch_up_sequences [of to_json s 0], of set] by simp

lemma less_pred_iff: "0 < f \<Longrightarrow> saturating_sub f 1 < x \<longleftrightarrow> f \<le> x"
  unfolding saturating_sub_def by unat_arith

lemma live_push_subset: "u \<in> set (live_push l evs) \<Longrightarrow> Received u \<in> set evs"
  by (induction l evs rule: live_push.induct) (auto split: if_splits)

lemma live_push_gap:
  "w \<in> set (live_push l evs) \<Longrightarrow> q \<le> cu_sequence w \<Longrightarrow> l < q \<Longrightarrow>
   q \<in> cu_sequence ` set (live_push l evs) \<or> overtaken q evs"
proof (induction l evs rule: live_push.induct)
  case (2 l u evs)
  show ?case
  proof (cases "cu_sequence u \<le> l \<or> q = cu_sequence u \<or> q < cu_sequence u")
    case True
    with 2 show ?thesis by (auto simp: not_le)
  next
    case False
    then have "l < cu_sequence u" "cu_sequence u < q" by auto
    moreover from this 2(3,4) have "w \<in> set (live_push (cu_sequence u) evs)"
      by (auto simp: not_le [symmetric])
    ultimately show ?thesis
      using 2(2,4) by auto
  qed
qed simp_all

text \<open>An entry that is overtaken is indeed not sent on that connection.\<close>

lemma overtaken_not_pushed: "overtaken q evs \<Longrightarrow> q \<notin> cu_sequence ` set (live_push l evs)"
proof (induction l evs rule: live_push.induct)
  case (2 l u evs)
  then show ?case
    using live_push_increasing [of l evs] live_push_increasing [of "cu_sequence u" evs]
    by (cases "q < cu_sequence u") (auto simp: not_le dest: less_trans)
qed simp_all

lemma overtaken_not_sent:
  assumes "q \<notin> fst ` set (js_entries s)" "overtaken q evs"
  shows "q \<notin> cu_sequence ` set (journal_feed to_json (s, evs, k) from)"
proof -
  have "q \<notin> cu_sequence ` set (catch_up to_json s from)"
    using assms(1) catch_up_keys [of to_json s] by (subst catch_up_filter) auto
  then show ?thesis
    using overtaken_not_pushed [OF assms(2)]
    by (auto simp: journal_feed_def subscribe_config_updates_def Let_def dest!: in_set_takeD)
qed

lemma sorted_unique:
  assumes "sorted_wrt (<) (map cu_sequence full)" "u \<in> set full" "w \<in> set full" "cu_sequence u = cu_sequence w"
  shows "u = w"
proof -
  have "inj_on cu_sequence (set full)"
    using assms(1) by (metis distinct_map strict_sorted_iff)
  with assms(2-4) show ?thesis
    by (simp add: inj_on_eq_iff)
qed

lemma sorted_prefix_closed:
  assumes "sorted_wrt (<) (map cu_sequence full)" "prefix c full" "u \<in> set full" "u \<notin> set c" "w \<in> set c"
  shows "cu_sequence w < cu_sequence u"
proof -
  obtain d where "full = c @ d"
    using assms(2) by (auto simp: prefix_def)
  with assms(1,3-5) show ?thesis
    by (auto simp: sorted_wrt_append)
qed

lemma take_sorted_closed:
  assumes "sorted_wrt (<) (map cu_sequence us)" "u \<in> set us" "w \<in> set (take k us)" "cu_sequence u \<le> cu_sequence w"
  shows "u \<in> set (take k us)"
  using sorted_prefix_closed [OF assms(1) take_is_prefix assms(2) _ assms(3)] assms(4) by fastforce

lemma subscribe_sorted:
  assumes "sorted_wrt (<) (map cu_sequence full)" "prefix (catch_up to_json s 0) full"
  shows "sorted_wrt (<) (map cu_sequence (subscribe_config_updates to_json s from evs))"
proof -
  define caught where "caught = catch_up to_json s from"
  have "sorted_wrt (<) (map cu_sequence (catch_up to_json s 0))"
    using assms by (auto simp: prefix_def sorted_wrt_append)
  then have caught: "sorted_wrt (<) (map cu_sequence caught)"
    unfolding caught_def by (subst catch_up_filter) (simp add: sorted_wrt_map sorted_wrt_filter)
  have "cu_sequence u \<le> last_sent_seq caught from" if "u \<in> set caught" for u
    using that le_last_of_sorted [OF caught that] by (auto simp: last_sent_seq_def)
  then show ?thesis
    using caught live_push_increasing [of "last_sent_seq caught from" evs]
    by (auto simp: subscribe_config_updates_def Let_def sorted_wrt_append caught_def [symmetric]
        intro: le_less_trans)
qed

lemma subscribe_from:
  assumes "u \<in> set (subscribe_config_updates to_json s from evs)"
  shows "from \<le> cu_sequence u"
proof -
  define caught where "caught = catch_up to_json s from"
  have c: "from \<le> cu_sequence w" if "w \<in> set caught" for w
    using that catch_up_filter [of to_json s "from"] by (simp add: caught_def)
  show ?thesis
  proof (cases "u \<in> set caught")
    case False
    then have l: "last_sent_seq caught from < cu_sequence u"
      using assms live_push_increasing [of "last_sent_seq caught from" evs]
      by (auto simp: subscribe_config_updates_def Let_def caught_def)
    show ?thesis
    proof (cases "caught = []")
      case True
      with l show ?thesis
        by (cases "from = 0") (simp_all add: last_sent_seq_def less_pred_iff word_neq_0_conv)
    next
      case False
      with l c [OF last_in_set [OF False]] show ?thesis
        by (auto simp: last_sent_seq_def intro: order_trans less_imp_le)
    qed
  qed (use c in blast)
qed

lemma subscribe_gap:
  assumes full: "sorted_wrt (<) (map cu_sequence full)"
    and pre: "prefix (catch_up to_json s 0) full" and ann: "announces full evs"
    and u: "u \<in> set full" "from \<le> cu_sequence u"
    and w: "w \<in> set (subscribe_config_updates to_json s from evs)" "cu_sequence u \<le> cu_sequence w"
  shows "u \<in> set (subscribe_config_updates to_json s from evs) \<or> missed_on (s, evs, k) (cu_sequence u)"
proof (cases "u \<in> set (catch_up to_json s 0)")
  case True
  then show ?thesis
    using u(2) catch_up_filter [of to_json s "from"] by (simp add: subscribe_config_updates_def Let_def)
next
  case new: False
  define caught where "caught = catch_up to_json s from"
  define l where "l = last_sent_seq caught from"
  have sub: "set caught \<subseteq> set (catch_up to_json s 0)"
    unfolding caught_def by (subst catch_up_filter) auto
  have above: "cu_sequence v < cu_sequence u" if "v \<in> set (catch_up to_json s 0)" for v
    by (rule sorted_prefix_closed [OF full pre u(1) new that])
  then have key: "cu_sequence u \<notin> fst ` set (js_entries s)"
    unfolding catch_up_keys [of to_json s, symmetric] by force
  have "w \<notin> set caught"
    using above [of w] sub w(2) by (auto simp: subset_iff not_less [symmetric])
  then have live: "w \<in> set (live_push l evs)"
    using w(1) by (simp add: subscribe_config_updates_def Let_def caught_def l_def)
  have "l < cu_sequence u \<or> cu_sequence u = 0 \<and> js_entries s = []"
  proof (cases "caught = []")
    case True
    then show ?thesis
      using u(2)
      by (cases "from = 0")
        (auto simp: l_def last_sent_seq_def less_pred_iff word_neq_0_conv caught_def catch_up_def
          saturating_sub_def [of 0])
  next
    case False
    then have "last caught \<in> set (catch_up to_json s 0)"
      using sub last_in_set by blast
    with False above show ?thesis
      by (simp add: l_def last_sent_seq_def)
  qed
  then show ?thesis
  proof
    assume "l < cu_sequence u"
    with live_push_gap [OF live w(2)]
    have "cu_sequence u \<in> cu_sequence ` set (live_push l evs) \<or> overtaken (cu_sequence u) evs"
      by blast
    then show ?thesis
    proof
      assume "cu_sequence u \<in> cu_sequence ` set (live_push l evs)"
      then obtain v where v: "v \<in> set (live_push l evs)" "cu_sequence u = cu_sequence v"
        by blast
      then have "v \<in> set full"
        using ann live_push_subset [OF v(1)] by (auto simp: announces_def list_all_iff)
      with v sorted_unique [OF full u(1)] show ?thesis
        by (auto simp: subscribe_config_updates_def Let_def caught_def [symmetric] l_def [symmetric])
    qed (simp add: missed_on_def key)
  qed (use key in \<open>simp add: missed_on_def\<close>)
qed

interpretation journal_updates: update_feed "journal_feed to_json" "journal_serves to_json"
  "\<lambda>v u. missed_on v (cu_sequence u)"
proof
  fix full :: "ConfigUpdate list" and j :: journal_view and "from" :: u64 and u w
  obtain s evs k where j: "j = (s, evs, k)"
    by (cases j)
  assume "journal_serves to_json full j"
  then have s: "prefix (catch_up to_json s 0) full" "announces full evs"
    by (simp_all add: journal_serves_def j)
  show "u \<in> set full \<and> from \<le> cu_sequence u" if "u \<in> set (journal_feed to_json j from)"
  proof
    have u: "u \<in> set (subscribe_config_updates to_json s from evs)"
      using that by (auto simp: journal_feed_def j dest: in_set_takeD)
    then show "from \<le> cu_sequence u"
      by (rule subscribe_from)
    have "u \<in> set (catch_up to_json s 0) \<or> Received u \<in> set evs"
      using u catch_up_filter [of to_json s "from"]
      by (auto simp: subscribe_config_updates_def Let_def dest: live_push_subset)
    then show "u \<in> set full"
      using s set_mono_prefix [OF s(1)] by (auto simp: announces_def list_all_iff)
  qed
  assume full: "sorted_wrt (<) (map cu_sequence full)"
  note sorted = subscribe_sorted [OF full s(1), of "from" evs]
  then show "sorted_wrt (<) (map cu_sequence (journal_feed to_json j from))"
    by (simp add: journal_feed_def j take_map [symmetric] sorted_wrt_take)
  show "u \<in> set (journal_feed to_json j from) \<or> missed_on j (cu_sequence u)"
    if "u \<in> set full" "from \<le> cu_sequence u" "w \<in> set (journal_feed to_json j from)" "cu_sequence u \<le> cu_sequence w"
    using subscribe_gap [OF full s that(1,2) _ that(4), of k] that(3) take_sorted_closed [OF sorted _ _ that(4)]
    by (auto simp: journal_feed_def j dest: in_set_takeD)
qed

text \<open>
  An update that cannot be decoded is logged and skipped; the next one that can be moves the
  sequence past it, so it is not asked for again.
\<close>

lemma undecodable_update_lost:
  assumes "sbe_channel_open env" "update_action env k = Inl e" "update_action env k' = Inr a"
  shows "process_stream env [Inr \<lparr>cu_sequence = 5, cu_timestamp = t, cu_update = Some k\<rparr>,
      Inr \<lparr>cu_sequence = 6, cu_timestamp = t, cu_update = Some k'\<rparr>] st =
    (st\<lparr>sb_last_sequence := 6\<rparr>, [a])"
  using assms by (simp add: process_update_def)

text \<open>The updates of entries: always decodable, and distinct when the entries' numbers are.\<close>

definition dispatch_of :: "(ConfigEntry \<Rightarrow> bytes) \<Rightarrow> EntrySeq \<times> ConfigEntry \<Rightarrow> ConfigUpdateAction" where
  "dispatch_of to_json qe = OverlayChanged (to_json (snd qe))"

lemma entry_update_simps:
  "has_payload (entry_update to_json q e)" "decodes env (entry_update to_json q e)"
  "action_of env (entry_update to_json q e) = dispatch_of to_json (q, e)"
  "cu_sequence (entry_update to_json q e) = q"
  by (simp_all add: entry_update_def has_payload_def decodes_def action_of_def update_action_def dispatch_of_def)

lemma catch_up_0: "catch_up to_json s 0 = map (\<lambda>(q, e). entry_update to_json q e) (js_entries s)"
  by (simp add: catch_up_def case_prod_unfold)

lemma map_subset_image: "set ys \<subseteq> f ` A \<Longrightarrow> \<exists>xs. ys = map f xs \<and> set xs \<subseteq> A"
proof (induction ys)
  case (Cons y ys)
  then obtain x xs where "y = f x" "x \<in> A" "ys = map f xs" "set xs \<subseteq> A" by auto
  then show ?case by (intro exI [of _ "x # xs"]) simp
qed simp

lemma updates_of_entries:
  assumes "set us \<subseteq> set (catch_up to_json s 0)" "bt_inv (js_entries s)"
  shows "\<exists>ds. us = map (\<lambda>(q, e). entry_update to_json q e) ds \<and> set ds \<subseteq> set (js_entries s) \<and>
    map cu_sequence us = map fst ds \<and> map (action_of env) us = map (dispatch_of to_json) ds \<and>
    (\<forall>(q, e) \<in> set (js_entries s). entry_update to_json q e \<in> set us \<longrightarrow> (q, e) \<in> set ds)"
proof -
  obtain ds where ds: "us = map (\<lambda>(q, e). entry_update to_json q e) ds" "set ds \<subseteq> set (js_entries s)"
    using assms(1) map_subset_image [of us "\<lambda>(q, e). entry_update to_json q e" "set (js_entries s)"]
    by (auto simp: catch_up_0)
  have uniq: "e = e'" if "(q, e) \<in> set (js_entries s)" "(q, e') \<in> set (js_entries s)" for q e e'
    using that by (simp add: bt_get_in_set [OF assms(2), symmetric])
  have "(q, e) \<in> set ds" if here: "(q, e) \<in> set (js_entries s)" and sent: "entry_update to_json q e \<in> set us" for q e
  proof -
    obtain q' e' where e': "(q', e') \<in> set ds" "entry_update to_json q e = entry_update to_json q' e'"
      using sent ds(1) by auto
    then have "q' = q"
      by (metis entry_update_simps(4))
    with e' uniq [OF here, of e'] ds(2) show ?thesis by auto
  qed
  then have "\<forall>(q, e) \<in> set (js_entries s). entry_update to_json q e \<in> set us \<longrightarrow> (q, e) \<in> set ds"
    by blast
  moreover have "map cu_sequence us = map fst ds" "map (action_of env) us = map (dispatch_of to_json) ds"
    by (auto simp: ds(1) entry_update_simps)
  ultimately show ?thesis
    using ds by blast
qed

text \<open>With no one listening nothing is dispatched and the same sequence is asked for again.\<close>

lemma process_stream_closed:
  "\<not> sbe_channel_open env \<Longrightarrow> process_stream env items st = (st, [])"
  by (induction env items st rule: process_stream.induct)
    (auto simp: process_update_def split: option.splits sum.splits)

lemma run_closed:
  assumes "\<not> sbe_channel_open env"
    and "run_subscription c env conns st = (st', actions, delays, abandoned)"
  shows "actions = [] \<and> sb_last_sequence st' = sb_last_sequence st"
  using assms(2)
proof (induction conns arbitrary: st st' actions delays abandoned)
  case (Cons conn conns)
  define st1 where "st1 = (case conn (from_sequence st) of Inr _ \<Rightarrow> on_connected st | Inl _ \<Rightarrow> st)"
  have 1: "(case conn (from_sequence st) of Inr items \<Rightarrow> process_stream env items (on_connected st)
      | Inl e \<Rightarrow> (st, [])) = (st1, [])" "sb_last_sequence st1 = sb_last_sequence st"
    by (auto simp: st1_def process_stream_closed [OF assms(1)] on_connected_def split: sum.splits)
  obtain st2 delay where dis: "on_disconnected c st1 = (st2, delay)"
    by fastforce
  have seq2: "sb_last_sequence st2 = sb_last_sequence st"
    using dis 1(2) by (auto simp: on_disconnected_def Let_def split: if_splits)
  obtain st3 acts ds3 ab where rest: "run_subscription c env conns st2 = (st3, acts, ds3, ab)"
    by (metis prod_cases4)
  show ?case
    using Cons.prems Cons.IH [OF rest] rest dis seq2
    by (cases delay) (auto simp: 1(1) Let_def)
qed simp

text \<open>
  The attempts an agent can meet while the journal executes the commands \<open>is\<close>: refused, or served
  by a journal that has executed some of them, with entries of the log announced.
\<close>

definition possible ::
  "Ext \<Rightarrow> (ConfigEntry \<Rightarrow> bytes) \<Rightarrow> log_item list \<Rightarrow> journal_view attempt \<Rightarrow> bool" where
  "possible x to_json is a = (case a of Refused _ \<Rightarrow> True
     | Served (s, evs, k) _ \<Rightarrow> (\<exists>n. s = run_commands x (take n is) default_state) \<and>
         announces (catch_up to_json (run_commands x is default_state) 0) evs)"

lemma possible_prefix:
  assumes "length is < 2 ^ 64" "possible x to_json is (Served (s, evs, k) err)"
  shows "prefix (js_entries s) (js_entries (run_commands x is default_state))"
proof -
  obtain n where n: "s = run_commands x (take n is) default_state"
    using assms(2) by (auto simp: possible_def)
  have "entries_inv s" "unat (js_next_sequence s) \<le> length (take n is)"
    using entries_run [OF entries_inv_default, of "take n is" x] assms(1) by (auto simp: n)
  then have "prefix (js_entries s) (js_entries (run_commands x (drop n is) s))"
    using entries_run [of s "drop n is" x] assms(1) by (cases "n \<le> length is") auto
  then show ?thesis
    unfolding n run_commands_append [symmetric] by simp
qed

lemma possible_serves:
  assumes "length is < 2 ^ 64" "possible x to_json is (Served (s, evs, k) err)"
  shows "journal_serves to_json (catch_up to_json (run_commands x is default_state) 0) (s, evs, k)"
  using possible_prefix [OF assms] assms(2)
  by (simp add: journal_serves_def catch_up_0 map_mono_prefix possible_def)

lemma possible_faithful:
  assumes "length is < 2 ^ 64" "possible x to_json is a"
  shows "journal_updates.faithful to_json (catch_up to_json (run_commands x is default_state) 0) a"
proof (cases a)
  case (Served v err)
  then show ?thesis
    using possible_serves [OF assms(1), of x to_json] assms(2)
    by (cases v) (simp add: journal_updates.faithful_def)
qed (simp add: journal_updates.faithful_def)

lemma end_inv:
  assumes "length is < 2 ^ 64"
  shows "bt_inv (js_entries (run_commands x is default_state))"
  using entries_run [OF entries_inv_default, of "is" x] assms by (simp add: entries_inv_bt)

lemma catch_up_decodes: "\<forall>u \<in> set (catch_up to_json s from). has_payload u \<and> decodes env u"
  by (auto simp: catch_up_def entry_update_simps)

lemma lost_missed: "journal_updates.lost attempts = (\<lambda>u. missed_by attempts (cu_sequence u))"
  by (simp add: journal_updates.lost_def missed_by_def fun_eq_iff)

text \<open>What a run dispatches, and what one connection more adds.\<close>

lemma run_dispatches:
  assumes "length is < 2 ^ 64" "\<forall>a \<in> set attempts. possible x to_json is a"
    and "run_subscription c env (map (serve (journal_feed to_json)) attempts) st = (st', actions, delays, abandoned)"
  shows "\<exists>us. actions = map (action_of env) us \<and> journal_updates.delivered (\<lambda>u. missed_by attempts (cu_sequence u))
    (catch_up to_json (run_commands x is default_state) 0) (sb_last_sequence st) (sb_last_sequence st') us"
proof (cases "sbe_channel_open env")
  case True
  define full where "full = catch_up to_json (run_commands x is default_state) 0"
  have "sorted_wrt (<) (map cu_sequence full)"
    using end_inv [OF assms(1), of x] by (simp add: full_def catch_up_sequences bt_inv_def)
  moreover have "\<forall>u \<in> set full. decodes env u"
    using catch_up_decodes unfolding full_def by blast
  moreover have "\<forall>a \<in> set attempts. journal_updates.faithful to_json full a"
    unfolding full_def using possible_faithful [OF assms(1)] assms(2) by blast
  ultimately show ?thesis
    using journal_updates.run_delivers [OF True _ _ _ assms(3), of full]
    unfolding lost_missed full_def by blast
next
  case False
  from run_closed [OF False assms(3)] show ?thesis
    using journal_updates.delivered_none by fastforce
qed

lemma further_connection:
  fixes x "is" to_json
  defines "full \<equiv> catch_up to_json (run_commands x is default_state) 0"
  assumes "length is < 2 ^ 64"
    and "run_subscription c env (map (serve (journal_feed to_json)) attempts) st = (st', actions, delays, False)"
    and "journal_updates.delivered (\<lambda>u. missed_by attempts (cu_sequence u)) full
      (sb_last_sequence st) (sb_last_sequence st') us"
    and "sbe_channel_open env" "possible x to_json is (Served (s, evs, k) err)" "length (js_entries s) \<le> k"
    and "run_subscription c env (map (serve (journal_feed to_json)) (attempts @ [Served (s, evs, k) err])) st =
        (st2, actions2, delays2, abandoned2)"
  shows "\<exists>vs. actions2 = actions @ map (action_of env) vs \<and> set vs \<subseteq> set full \<and>
    (\<forall>(q, e) \<in> set (js_entries s). sb_last_sequence st \<le> q \<longrightarrow>
      entry_update to_json q e \<in> set us \<union> set vs \<or> missed_by attempts q)"
proof -
  have serves: "journal_serves to_json full (s, evs, k)"
    unfolding full_def by (rule possible_serves [OF assms(2,6)])
  have dec: "\<forall>u \<in> set full. decodes env u"
    using catch_up_decodes unfolding full_def by blast
  note more = journal_updates.run_completes [OF assms(5) dec serves assms(3) assms(4) [folded lost_missed] assms(8)]
  define vs where "vs = journal_feed to_json (s, evs, k) (sb_last_sequence st')"
  have vs: "set vs \<subseteq> set full"
    using journal_updates.feed_sound [OF serves] by (auto simp: vs_def)
  then have "filter has_payload vs = vs"
    using catch_up_decodes unfolding full_def by (auto intro!: filter_True)
  moreover have "entry_update to_json q e \<in> set us \<union> set vs \<or> missed_by attempts q"
    if "(q, e) \<in> set (js_entries s)" "sb_last_sequence st \<le> q" for q e
  proof -
    let ?u = "entry_update to_json q e"
    have here: "?u \<in> set (catch_up to_json s 0)"
      using that(1) by (force simp: catch_up_0)
    then have "?u \<in> set full"
      using serves by (auto simp: journal_serves_def dest: set_mono_prefix)
    moreover have "?u \<in> set vs" if "sb_last_sequence st' \<le> q"
    proof -
      have "?u \<in> set (catch_up to_json s (sb_last_sequence st'))"
        using here that by (subst catch_up_filter) (simp add: entry_update_simps)
      moreover have "length (catch_up to_json s (sb_last_sequence st')) \<le> k"
        using assms(7) by (simp add: catch_up_def) (meson le_trans length_filter_le)
      ultimately show ?thesis
        by (simp add: vs_def journal_feed_def subscribe_config_updates_def Let_def)
    qed
    ultimately show ?thesis
      using more(2) [of ?u] that(2) by (auto simp: vs_def entry_update_simps lost_missed)
  qed
  ultimately show ?thesis
    using more(1) vs by (intro exI [of _ vs]) (auto simp: vs_def)
qed

text \<open>
  C11. What the agent gets of the journal's log. While the journal executes any fewer than
  \<open>2 ^ 64\<close> commands, the agent makes any number of attempts to subscribe: refused, or served by a
  journal that has executed some of the commands, with any part of the log announced in any
  order, with lags, and the stream cut off anywhere. The actions dispatched are those of entries
  of the log with non-decreasing numbers, and the next request asks for the last of them. Of the
  entries between the first number asked for and that one, none is left out for a refused, broken,
  cut off or lagging connection: an entry is left out only if on some connection it was overtaken,
  that is, not yet in the log when the connection was made and then not announced before an entry
  with a higher number (announcements are made outside the journal's lock, and the channel is
  subscribed to after the catch-up is read), or if it is entry 0 and the log was empty. And when a
  further connection gets its catch-up through, every entry from the first number on that is then
  in the log has been dispatched, unless it had been overtaken before.
\<close>

theorem updates_lost_only_if_overtaken:
  assumes "length is < 2 ^ 64" "\<forall>a \<in> set attempts. possible x to_json is a"
    and "run_subscription c env (map (serve (journal_feed to_json)) attempts) st = (st', actions, delays, abandoned)"
  shows "\<exists>ds. actions = map (dispatch_of to_json) ds \<and>
    set ds \<subseteq> set (js_entries (run_commands x is default_state)) \<and> sorted_wrt (\<le>) (map fst ds) \<and>
    sb_last_sequence st' = (if ds = [] then sb_last_sequence st else fst (last ds)) \<and>
    (ds \<noteq> [] \<longrightarrow> (\<forall>(q, e) \<in> set (js_entries (run_commands x is default_state)).
      sb_last_sequence st \<le> q \<longrightarrow> q \<le> sb_last_sequence st' \<longrightarrow> (q, e) \<in> set ds \<or> missed_by attempts q)) \<and>
    (\<forall>s evs k err st2 actions2 delays2 abandoned2. sbe_channel_open env \<longrightarrow> \<not> abandoned \<longrightarrow>
      possible x to_json is (Served (s, evs, k) err) \<longrightarrow> length (js_entries s) \<le> k \<longrightarrow>
      run_subscription c env (map (serve (journal_feed to_json)) (attempts @ [Served (s, evs, k) err])) st =
        (st2, actions2, delays2, abandoned2) \<longrightarrow>
      (\<exists>ds2. actions2 = map (dispatch_of to_json) (ds @ ds2) \<and>
        (\<forall>(q, e) \<in> set (js_entries s). sb_last_sequence st \<le> q \<longrightarrow>
          (q, e) \<in> set (ds @ ds2) \<or> missed_by attempts q)))"
proof -
  define s_end where "s_end = run_commands x is default_state"
  note inv = end_inv [OF assms(1), of x, folded s_end_def]
  obtain us where us: "actions = map (action_of env) us"
    "journal_updates.delivered (\<lambda>u. missed_by attempts (cu_sequence u))
      (catch_up to_json s_end 0) (sb_last_sequence st) (sb_last_sequence st') us"
    using run_dispatches [OF assms] unfolding s_end_def by blast
  note d = journal_updates.deliveredD [OF us(2)]
  have "set us \<subseteq> set (catch_up to_json s_end 0)"
    using d(1) by auto
  from updates_of_entries [OF this inv, of env] obtain ds where
    ds: "us = map (\<lambda>(q, e). entry_update to_json q e) ds" "set ds \<subseteq> set (js_entries s_end)"
      "map cu_sequence us = map fst ds" "map (action_of env) us = map (dispatch_of to_json) ds"
    and mem: "\<And>q e. (q, e) \<in> set (js_entries s_end) \<Longrightarrow> entry_update to_json q e \<in> set us \<Longrightarrow> (q, e) \<in> set ds"
    by blast
  have in_end: "entry_update to_json q e \<in> set (filter has_payload (catch_up to_json s_end 0))"
    if "(q, e) \<in> set (js_entries s_end)" for q e
    using that by (force simp: catch_up_0 entry_update_simps)
  have gap: "(q, e) \<in> set ds \<or> missed_by attempts q"
    if "ds \<noteq> []" "(q, e) \<in> set (js_entries s_end)" "sb_last_sequence st \<le> q" "q \<le> sb_last_sequence st'" for q e
  proof -
    have "entry_update to_json q e \<in> set us \<or> missed_by attempts q"
      using d(5) [OF _ in_end [OF that(2)]] that ds(1) unfolding entry_update_simps(4) by blast
    then show ?thesis
      using mem [OF that(2)] by blast
  qed
  have more: "\<exists>ds2. actions2 = map (dispatch_of to_json) (ds @ ds2) \<and>
      (\<forall>(q, e) \<in> set (js_entries s). sb_last_sequence st \<le> q \<longrightarrow> (q, e) \<in> set (ds @ ds2) \<or> missed_by attempts q)"
    if a: "sbe_channel_open env" "\<not> abandoned" "possible x to_json is (Served (s, evs, k) err)"
      "length (js_entries s) \<le> k"
      "run_subscription c env (map (serve (journal_feed to_json)) (attempts @ [Served (s, evs, k) err])) st =
        (st2, actions2, delays2, abandoned2)" for s evs k err st2 actions2 delays2 abandoned2
  proof -
    have run: "run_subscription c env (map (serve (journal_feed to_json)) attempts) st = (st', actions, delays, False)"
      using assms(3) a(2) by simp
    from further_connection [OF assms(1) run us(2) [unfolded s_end_def] a(1,3-5), folded s_end_def]
    obtain vs where vs: "actions2 = actions @ map (action_of env) vs" "set vs \<subseteq> set (catch_up to_json s_end 0)"
      "\<And>q e. (q, e) \<in> set (js_entries s) \<Longrightarrow> sb_last_sequence st \<le> q \<Longrightarrow>
        entry_update to_json q e \<in> set us \<union> set vs \<or> missed_by attempts q"
      by blast
    from updates_of_entries [OF vs(2) inv, of env] obtain ds2 where ds2:
      "map (action_of env) vs = map (dispatch_of to_json) ds2"
      "\<And>q e. (q, e) \<in> set (js_entries s_end) \<Longrightarrow> entry_update to_json q e \<in> set vs \<Longrightarrow> (q, e) \<in> set ds2"
      by blast
    have "set (js_entries s) \<subseteq> set (js_entries s_end)"
      using possible_prefix [OF assms(1) a(3)] unfolding s_end_def by (rule set_mono_prefix)
    then have "(q, e) \<in> set (ds @ ds2) \<or> missed_by attempts q"
      if "(q, e) \<in> set (js_entries s)" "sb_last_sequence st \<le> q" for q e
      using vs(3) [OF that] mem [of q e] ds2(2) [of q e] that(1) by auto
    then show ?thesis
      using vs(1) us(1) ds(4) ds2(1) by (intro exI [of _ ds2]) auto
  qed
  show ?thesis
    unfolding s_end_def [symmetric]
  proof (rule exI [of _ ds], intro conjI allI impI)
    show "actions = map (dispatch_of to_json) ds" "set ds \<subseteq> set (js_entries s_end)" "sorted_wrt (\<le>) (map fst ds)"
      using us(1) ds(2,4) d(2) [unfolded ds(3)] by simp_all
    show "sb_last_sequence st' = (if ds = [] then sb_last_sequence st else fst (last ds))"
      using d(3) ds(1) by (auto simp: resumed_at_def last_map entry_update_simps split: prod.splits)
    show "\<forall>(q, e) \<in> set (js_entries s_end). sb_last_sequence st \<le> q \<longrightarrow> q \<le> sb_last_sequence st' \<longrightarrow>
        (q, e) \<in> set ds \<or> missed_by attempts q" if "ds \<noteq> []"
      using gap [OF that] by blast
  qed (rule more)
qed

definition sample_sub_env :: SubEnv where
  "sample_sub_env = \<lparr>sbe_policy_from_json = (\<lambda>_. Inr default_policy), sbe_patterns_from_json = (\<lambda>_. Inr []),
     sbe_channel_open = True\<rparr>"

text \<open>
  Three entries appended. The agent subscribes when the first is in the log, the third is
  announced before the second, and the connection breaks; the next one is made when all are in.
\<close>

definition sample_appends :: "log_item list" where
  "sample_appends = replicate 3 (0, AppendEntry (sample_entry None))"

definition sample_attempts :: "journal_view attempt list" where
  "sample_attempts = [Refused ''down'',
     Served (run_commands sample_ext (take (Suc 0) sample_appends) default_state,
       [Received (entry_update (\<lambda>_. [7]) 2 ((sample_entry None)\<lparr>ce_sequence := 2\<rparr>)), Lagged 3], 5) (Some ''reset''),
     Served (run_commands sample_ext (take 3 sample_appends) default_state, [], 3) None]"

lemma sample_appends_entries:
  "js_entries (run_commands sample_ext (take (Suc 0) sample_appends) default_state) =
     [(0, (sample_entry None)\<lparr>ce_sequence := 0\<rparr>)]"
  "js_entries (run_commands sample_ext sample_appends default_state) =
     [(0, (sample_entry None)\<lparr>ce_sequence := 0\<rparr>), (1, (sample_entry None)\<lparr>ce_sequence := 1\<rparr>),
      (2, (sample_entry None)\<lparr>ce_sequence := 2\<rparr>)]"
  by (simp_all add: sample_appends_def run_commands_def apply_item_def numeral_3_eq_3 append_entry_def
      sample_entry_def default_state_def ttl_too_long_def ttl_too_short_def parent_ok_def ops_alice_def
      TTL_MAX_SECONDS_def TTL_MIN_SECONDS_def)

theorem updates_lost_only_if_overtaken_witness:
  "\<exists>st' actions delays abandoned ds. run_subscription default_subscription_config sample_sub_env
      (map (serve (journal_feed (\<lambda>_. [7]))) sample_attempts) default_subscription_state =
        (st', actions, delays, abandoned) \<and>
    actions = map (dispatch_of (\<lambda>_. [7])) ds \<and> sorted_wrt (\<le>) (map fst ds) \<and>
    missed_by sample_attempts 1 \<and> \<not> missed_by sample_attempts 2"
proof -
  obtain st' actions delays abandoned where r: "run_subscription default_subscription_config sample_sub_env
      (map (serve (journal_feed (\<lambda>_. [7]))) sample_attempts) default_subscription_state =
        (st', actions, delays, abandoned)"
    by (metis prod_cases4)
  have poss: "\<forall>a \<in> set sample_attempts. possible sample_ext (\<lambda>_. [7]) sample_appends a"
    by (auto simp: sample_attempts_def possible_def announces_def catch_up_0 sample_appends_entries)
  have few: "length sample_appends < 2 ^ 64"
    by (simp add: sample_appends_def)
  have "\<exists>ds. actions = map (dispatch_of (\<lambda>_. [7])) ds \<and> sorted_wrt (\<le>) (map fst ds)"
    using updates_lost_only_if_overtaken [OF few poss r] by (elim exE conjE) (intro exI conjI)
  moreover have "take 3 sample_appends = sample_appends"
    by (simp add: sample_appends_def)
  then have "missed_by sample_attempts 1" "\<not> missed_by sample_attempts 2"
    by (simp_all add: missed_by_def sample_attempts_def missed_on_def sample_appends_entries entry_update_def
        ex_disj_distrib conj_disj_distribR word_less_nat_alt)
  ultimately show ?thesis
    using r by blast
qed

text \<open>
  C17. Reconnection is bounded. No delay exceeds the configured maximum. While the journal refuses
  every connection, the delays double from twice the base delay (in 64 bit arithmetic) until the
  tenth, and the subscription is abandoned exactly when more connections have been refused in a
  row than the configuration permits.
\<close>

theorem reconnection_bounded:
  assumes "unat (sbc_max_reconnect_attempts c) < 2 ^ 32 - 1"
    and "run_subscription c env conns st = (st', actions, delays, abandoned)"
  shows "(\<forall>d \<in> set delays. d \<le> sbc_reconnect_max_ms c) \<and>
    ((\<forall>conn \<in> set conns. \<forall>from. \<exists>e. conn from = Inl e) \<longrightarrow> sb_reconnect_attempts st = 0 \<longrightarrow>
      actions = [] \<and> (abandoned \<longleftrightarrow> unat (sbc_max_reconnect_attempts c) < length conns) \<and>
      delays = map (nth_delay c) [0 ..< min (length conns) (unat (sbc_max_reconnect_attempts c))])"
proof (intro conjI ballI impI)
  show "d \<le> sbc_reconnect_max_ms c" if "d \<in> set delays" for d
    using run_delays_bounded [OF assms(2) that] .
  assume r: "\<forall>conn \<in> set conns. \<forall>from. \<exists>e. conn from = Inl e" and z: "sb_reconnect_attempts st = 0"
  obtain st'' where "run_subscription c env conns st = (st'', [],
      map (nth_delay c) [0 ..< min (length conns) (unat (sbc_max_reconnect_attempts c))],
      unat (sbc_max_reconnect_attempts c) < length conns)"
    using run_refused [of st 0 c conns env] assms(1) r z by auto
  with assms(2) show "actions = []" "abandoned \<longleftrightarrow> unat (sbc_max_reconnect_attempts c) < length conns"
    "delays = map (nth_delay c) [0 ..< min (length conns) (unat (sbc_max_reconnect_attempts c))]"
    by auto
qed

theorem reconnection_bounded_witness:
  "\<exists>st' actions. run_subscription default_subscription_config sample_sub_env (replicate 3 (\<lambda>_. Inl ''down''))
      default_subscription_state = (st', actions, [2000, 4000, 8000], False)"
proof -
  obtain st' actions delays abandoned where r: "run_subscription default_subscription_config sample_sub_env
      (replicate 3 (\<lambda>_. Inl ''down'')) default_subscription_state = (st', actions, delays, abandoned)"
    by (metis prod_cases4)
  have "abandoned = False" "delays = map (nth_delay default_subscription_config) [0, Suc 0, Suc (Suc 0)]"
    using reconnection_bounded [OF _ r]
    by (simp_all add: default_subscription_config_def default_subscription_state_def upt_rec numeral_3_eq_3)
  then show ?thesis
    using r by (simp add: nth_delay_def default_subscription_config_def word_le_nat_alt min_def)
qed

end
