(* ===== verification/F64.thy ===== *)
theory F64
  imports Pact_Prelude "HOL-Library.Log_Nat"
begin

text \<open>
  The type \<open>f64\<close> of Rust: IEEE 754 binary64 with rounding to nearest, ties to even, as an
  executable function on rational numbers. A value is a finite rational, an infinity or NaN. The
  sign of zero is not represented: only a division by zero could tell the two zeros apart, and the
  divisors of the modelled code are \<open>1 + x\<close> and constants, which are never the negative zero.

  The main facts are that rounding is monotone (\<open>rnd_mono\<close>) and leaves representable numbers
  alone (\<open>rnd_fixed\<close>): bounds between representable numbers survive every operation.
\<close>

subsection \<open>Rounding to an integer\<close>

text \<open>Round half to even.\<close>

definition rne :: "rat \<Rightarrow> int" where
  "rne x = (let f = \<lfloor>x\<rfloor>; d = x - of_int f in
     if d < 1 / 2 then f else if d > 1 / 2 then f + 1 else if even f then f else f + 1)"

lemma rne_of_int [simp]: "rne (of_int n) = n"
  by (simp add: rne_def Let_def)

lemma rne_bounds: "\<lfloor>x\<rfloor> \<le> rne x" "rne x \<le> \<lfloor>x\<rfloor> + 1"
  by (simp_all add: rne_def Let_def)

lemma rne_mono:
  assumes "x \<le> y"
  shows "rne x \<le> rne y"
proof (cases "\<lfloor>x\<rfloor> = \<lfloor>y\<rfloor>")
  case True
  then show ?thesis using assms by (simp add: rne_def Let_def)
next
  case False
  then have "\<lfloor>x\<rfloor> + 1 \<le> \<lfloor>y\<rfloor>" using floor_mono [OF assms] by simp
  then show ?thesis using rne_bounds [of x] rne_bounds [of y] by simp
qed

lemma rne_error: "\<bar>of_int (rne x) - x\<bar> \<le> 1 / 2"
  using of_int_floor_le [of x] floor_correct [of x] by (auto simp: rne_def Let_def)

lemma rne_minus: "rne (- x) = - rne x"
proof (cases "x \<in> \<int>")
  case True
  then show ?thesis by (auto simp: Ints_def simp flip: of_int_minus)
next
  case False
  have "x \<noteq> of_int \<lfloor>x\<rfloor>" using False Ints_of_int [of "\<lfloor>x\<rfloor>"] by metis
  then have fl: "\<lfloor>- x\<rfloor> = - \<lfloor>x\<rfloor> - 1"
    using ceiling_def [of x] ceiling_altdef [of x] by simp
  show ?thesis unfolding rne_def Let_def fl by auto
qed

subsection \<open>Binary exponent\<close>

abbreviation pow2 :: "int \<Rightarrow> rat" where
  "pow2 e \<equiv> 2 powi e"

text \<open>The exponent \<open>e\<close> of a positive \<open>x\<close> with \<open>2 ^ e \<le> x < 2 ^ (e + 1)\<close>.\<close>

definition ilog2 :: "rat \<Rightarrow> int" where
  "ilog2 x = (case quotient_of x of (a, b) \<Rightarrow>
     let e = bitlen a - bitlen b in if pow2 e \<le> x then e else e - 1)"

lemma pow2_mono: "a \<le> b \<Longrightarrow> pow2 a \<le> pow2 b"
  by (rule power_int_increasing) simp_all

lemma pow2_mono_strict: "a < b \<Longrightarrow> pow2 a < pow2 b"
  by (rule power_int_strict_increasing) simp_all

lemma pow2_le_iff [simp]: "pow2 a \<le> pow2 b \<longleftrightarrow> a \<le> b"
  using pow2_mono [of a b] pow2_mono_strict [of b a] by linarith

lemma pow2_less_iff [simp]: "pow2 a < pow2 b \<longleftrightarrow> a < b"
  using pow2_mono [of b a] pow2_mono_strict [of a b] by linarith

lemma pow2_add: "pow2 (a + b) = pow2 a * pow2 b"
  by (simp add: power_int_add)

lemma pow2_pos [simp]: "0 < pow2 e"
  by simp

lemma pow2_nonneg_int: "0 \<le> e \<Longrightarrow> pow2 e = of_int (2 ^ nat e)"
  by (simp add: power_int_def)

lemma pow2_of_nat: "pow2 (int n) = 2 ^ n"
  by simp

lemma bitlen_rat_bounds:
  assumes "0 < a"
  shows "pow2 (bitlen a - 1) \<le> of_int a" "of_int a < pow2 (bitlen a)"
proof -
  have b: "0 < bitlen a"
    using assms bitlen_nonneg [of a] by (simp add: bitlen_eq_zero_iff order_less_le)
  have "2 ^ nat (bitlen a - 1) \<le> a" "a < 2 ^ nat (bitlen a)"
    using bitlen_bounds [OF assms] by auto
  then have "of_int (2 ^ nat (bitlen a - 1)) \<le> (of_int a :: rat)"
    "(of_int a :: rat) < of_int (2 ^ nat (bitlen a))"
    by (simp_all only: of_int_le_iff of_int_less_iff)
  then show "pow2 (bitlen a - 1) \<le> of_int a" "of_int a < pow2 (bitlen a)"
    using b by (simp_all add: pow2_nonneg_int)
qed

lemma ilog2_bounds:
  assumes "0 < x"
  shows "pow2 (ilog2 x) \<le> x" "x < pow2 (ilog2 x + 1)"
proof -
  obtain a b where q: "quotient_of x = (a, b)" by force
  have b: "0 < b" using q by (rule quotient_of_denom_pos)
  have x: "x = of_int a / of_int b" using q by (rule quotient_of_div)
  have a: "0 < a" using assms b by (simp add: x zero_less_divide_iff)
  have "pow2 (bitlen a - 1) / pow2 (bitlen b) \<le> x"
    unfolding x using bitlen_rat_bounds [OF a] bitlen_rat_bounds [OF b] a b
    by (intro frac_le) auto
  then have lo: "pow2 (bitlen a - bitlen b - 1) \<le> x"
    by (simp add: power_int_diff)
  have "x < pow2 (bitlen a) / pow2 (bitlen b - 1)"
    unfolding x using bitlen_rat_bounds [OF a] bitlen_rat_bounds [OF b] a
    by (intro frac_less) auto
  then have hi: "x < pow2 (bitlen a - bitlen b + 1)"
    by (simp add: power_int_diff power_int_add)
  show "pow2 (ilog2 x) \<le> x" "x < pow2 (ilog2 x + 1)"
    using lo hi by (auto simp: ilog2_def q Let_def)
qed

lemma ilog2_mono:
  assumes "0 < x" "x \<le> y"
  shows "ilog2 x \<le> ilog2 y"
proof -
  have "pow2 (ilog2 x) < pow2 (ilog2 y + 1)"
    using ilog2_bounds(1) [OF assms(1)] ilog2_bounds(2) [of y] assms
    by (simp del: pow2_less_iff)
  then show ?thesis by simp
qed

lemma ilog2_less: "0 < x \<Longrightarrow> x < pow2 e \<Longrightarrow> ilog2 x < e"
  using ilog2_bounds(1) [of x] pow2_less_iff [of "ilog2 x" e] by (simp del: pow2_less_iff)


subsection \<open>Rounding to 53 significant bits\<close>

text \<open>The distance of neighbouring numbers around \<open>x\<close>, as an exponent of two.\<close>

definition quantum :: "rat \<Rightarrow> int" where
  "quantum x = max (ilog2 \<bar>x\<bar> - 52) (- 1074)"

definition rnd :: "rat \<Rightarrow> rat" where
  "rnd x = (if x = 0 then 0 else of_int (rne (x / pow2 (quantum x))) * pow2 (quantum x))"

definition is_f64 :: "rat \<Rightarrow> bool" where
  "is_f64 x \<longleftrightarrow> (\<exists>m e. x = of_int m * pow2 e \<and> \<bar>m\<bar> \<le> 2 ^ 53 \<and> - 1074 \<le> e)"

lemma rnd_0 [simp]: "rnd 0 = 0"
  by (simp add: rnd_def)

lemma quantum_minus [simp]: "quantum (- x) = quantum x"
  by (simp add: quantum_def)

lemma rnd_minus [simp]: "rnd (- x) = - rnd x"
  by (simp add: rnd_def rne_minus)

lemma rnd_multiple:
  assumes "x = of_int n * pow2 e" "quantum x \<le> e"
  shows "rnd x = x"
proof -
  have "x / pow2 (quantum x) = of_int (n * 2 ^ nat (e - quantum x))"
    using assms pow2_nonneg_int [of "e - quantum x"]
    by (simp add: power_int_diff field_simps)
  then have "rne (x / pow2 (quantum x)) = n * 2 ^ nat (e - quantum x)"
    by (simp only: rne_of_int)
  then show ?thesis
    using assms pow2_nonneg_int [of "e - quantum x"]
    by (simp add: rnd_def power_int_diff field_simps)
qed

lemma rnd_fixed:
  assumes "is_f64 x"
  shows "rnd x = x"
proof (cases "x = 0")
  case False
  from assms obtain m e where me: "x = of_int m * pow2 e" "\<bar>m\<bar> \<le> 2 ^ 53" "- 1074 \<le> e"
    by (auto simp: is_f64_def)
  have abs: "\<bar>x\<bar> = of_int \<bar>m\<bar> * pow2 e" using me(1) by (simp add: abs_mult)
  show ?thesis
  proof (cases "\<bar>m\<bar> = 2 ^ 53")
    case True
    define n where "n = sgn m"
    have "m = n * 2 ^ 53" using True by (auto simp: n_def sgn_if abs_if split: if_splits)
    then have "x = of_int n * pow2 (e + 53)"
      using me(1) by (simp add: pow2_add pow2_of_nat [of 53, simplified])
    moreover have "\<bar>x\<bar> < pow2 (e + 54)"
      unfolding abs True by (simp add: pow2_add pow2_of_nat [of 54, simplified])
    then have "ilog2 \<bar>x\<bar> < e + 54" using False by (intro ilog2_less) simp_all
    then have "quantum x \<le> e + 53" using me(3) by (simp add: quantum_def)
    ultimately show ?thesis by (rule rnd_multiple)
  next
    case neq: False
    then have "of_int \<bar>m\<bar> < (of_int (2 ^ 53) :: rat)" using me(2) by (simp only: of_int_less_iff)
    then have "\<bar>x\<bar> < pow2 (e + 53)"
      unfolding abs by (simp add: pow2_add pow2_of_nat [of 53, simplified])
    then have "ilog2 \<bar>x\<bar> < e + 53" using False by (intro ilog2_less) simp_all
    then have "quantum x \<le> e" using me(3) by (simp add: quantum_def)
    with me(1) show ?thesis by (rule rnd_multiple)
  qed
qed simp

lemma is_f64_of_int: "\<bar>n\<bar> \<le> 2 ^ 53 \<Longrightarrow> is_f64 (of_int n)"
  unfolding is_f64_def by (rule exI [of _ n], rule exI [of _ 0]) simp

lemma rnd_of_int: "\<bar>n\<bar> \<le> 2 ^ 53 \<Longrightarrow> rnd (of_int n) = of_int n"
  by (rule rnd_fixed) (rule is_f64_of_int)

text \<open>Monotonicity, first on positive numbers: between different exponents lies a power of two.\<close>

lemma rnd_at_most:
  assumes "0 < x" "x \<le> of_int n * pow2 (quantum x)"
  shows "rnd x \<le> of_int n * pow2 (quantum x)"
proof -
  have "x / pow2 (quantum x) \<le> of_int n" using assms by (simp add: field_simps)
  then have "rne (x / pow2 (quantum x)) \<le> n" using rne_mono rne_of_int by metis
  then have "of_int (rne (x / pow2 (quantum x))) \<le> (of_int n :: rat)" by (simp only: of_int_le_iff)
  then show ?thesis using assms(1) by (simp add: rnd_def)
qed

lemma rnd_at_least:
  assumes "0 < x" "of_int n * pow2 (quantum x) \<le> x"
  shows "of_int n * pow2 (quantum x) \<le> rnd x"
proof -
  have "of_int n \<le> x / pow2 (quantum x)" using assms by (simp add: field_simps)
  then have "n \<le> rne (x / pow2 (quantum x))" using rne_mono rne_of_int by metis
  then have "(of_int n :: rat) \<le> of_int (rne (x / pow2 (quantum x)))" by (simp only: of_int_le_iff)
  then show ?thesis using assms(1) by (simp add: rnd_def)
qed

lemma pow2_split: "k \<le> e \<Longrightarrow> pow2 e = of_int (2 ^ nat (e - k)) * pow2 k"
  using pow2_nonneg_int [of "e - k"] pow2_add [of "e - k" k] by simp

lemma rnd_mono_pos:
  assumes "0 < x" "x \<le> y"
  shows "rnd x \<le> rnd y"
proof (cases "quantum x = quantum y")
  case True
  have "x / pow2 (quantum x) \<le> y / pow2 (quantum x)" using assms by (simp add: divide_right_mono)
  then have "rne (x / pow2 (quantum x)) \<le> rne (y / pow2 (quantum x))" by (rule rne_mono)
  then show ?thesis using assms True by (simp add: rnd_def)
next
  case False
  let ?E = "ilog2 y"
  have y: "0 < y" using assms by simp
  have le: "ilog2 x \<le> ?E" using assms by (rule ilog2_mono)
  then have q: "quantum x < ?E - 52" "quantum y = ?E - 52" "ilog2 x < ?E"
    using False assms y by (auto simp: quantum_def max_def split: if_splits)
  have "x \<le> pow2 ?E"
    using ilog2_bounds(2) [OF assms(1)] pow2_mono [of "ilog2 x + 1" ?E] q(3)
    by (simp del: pow2_le_iff)
  moreover have "pow2 ?E = of_int (2 ^ nat (?E - quantum x)) * pow2 (quantum x)"
    using q(1) by (intro pow2_split) simp
  ultimately have "rnd x \<le> pow2 ?E" using rnd_at_most [OF assms(1)] by metis
  also have "pow2 ?E = of_int (2 ^ nat (?E - quantum y)) * pow2 (quantum y)"
    using q(2) by (intro pow2_split) simp
  then have "pow2 ?E \<le> rnd y" using rnd_at_least [OF y] ilog2_bounds(1) [OF y] by metis
  finally show ?thesis .
qed

lemma rnd_nonneg: "0 \<le> x \<Longrightarrow> 0 \<le> rnd x"
  using rnd_at_least [of x 0] by (cases "x = 0") simp_all

lemma rnd_mono:
  assumes "x \<le> y"
  shows "rnd x \<le> rnd y"
proof -
  consider "0 < x" | "x = 0" | "x < 0" "0 \<le> y" | "x < 0" "y < 0" by linarith
  then show ?thesis
  proof cases
    case 3
    then show ?thesis using rnd_nonneg [of "- x"] rnd_nonneg [of y] by simp
  next
    case 4
    then show ?thesis using rnd_mono_pos [of "- y" "- x"] assms by simp
  qed (use assms rnd_nonneg rnd_mono_pos in auto)
qed

lemma rnd_le: "x \<le> b \<Longrightarrow> is_f64 b \<Longrightarrow> rnd x \<le> b"
  using rnd_mono rnd_fixed by metis

lemma rnd_ge: "b \<le> x \<Longrightarrow> is_f64 b \<Longrightarrow> b \<le> rnd x"
  using rnd_mono rnd_fixed by metis

text \<open>The error of a rounding is at most half a quantum.\<close>

lemma rnd_error:
  assumes "\<bar>x\<bar> < pow2 e" "- 1021 \<le> e"
  shows "\<bar>rnd x - x\<bar> \<le> pow2 (e - 54)"
proof (cases "x = 0")
  case False
  let ?q = "pow2 (quantum x)"
  have "\<bar>of_int (rne (x / ?q)) - x / ?q\<bar> * ?q \<le> 1 / 2 * ?q"
    by (intro mult_right_mono rne_error) simp
  also have "\<bar>of_int (rne (x / ?q)) - x / ?q\<bar> * ?q = \<bar>rnd x - x\<bar>"
    using False abs_mult_pos [of ?q "of_int (rne (x / ?q)) - x / ?q"]
    by (simp add: rnd_def left_diff_distrib)
  also have "quantum x \<le> e - 53"
    using ilog2_less [of "\<bar>x\<bar>" e] False assms by (simp add: quantum_def)
  then have "1 / 2 * ?q \<le> 1 / 2 * pow2 (e - 53)" by simp
  also have "1 / 2 * pow2 (e - 53) = pow2 (e - 54)"
    using pow2_add [of "- 1" "e - 53"] by simp
  finally show ?thesis .
qed simp


subsection \<open>Rounded square root\<close>

text \<open>The integer square root, two bits at a time.\<close>

fun isqrt :: "nat \<Rightarrow> nat" where
  "isqrt n = (if n = 0 then 0 else
     let r = 2 * isqrt (n div 4) in if (r + 1) * (r + 1) \<le> n then r + 1 else r)"

declare isqrt.simps [simp del]

lemma isqrt_0 [simp]: "isqrt 0 = 0"
  by (simp add: isqrt.simps)

lemma isqrt_bounds: "isqrt n * isqrt n \<le> n \<and> n < (isqrt n + 1) * (isqrt n + 1)"
proof (induction n rule: isqrt.induct)
  case (1 n)
  show ?case
  proof (cases "n = 0")
    case False
    let ?k = "isqrt (n div 4)"
    have IH: "?k * ?k \<le> n div 4" "n div 4 < (?k + 1) * (?k + 1)" using 1 False by auto
    have "4 * (?k * ?k) \<le> n" "n < 4 * ((?k + 1) * (?k + 1))" using IH by linarith+
    then have "(2 * ?k) * (2 * ?k) \<le> n" "n < (2 * ?k + 2) * (2 * ?k + 2)"
      by (simp_all add: algebra_simps)
    then show ?thesis using False by (subst (1 2 3 4) isqrt.simps) (simp add: Let_def)
  qed simp
qed

lemma isqrt_mono:
  assumes "m \<le> n"
  shows "isqrt m \<le> isqrt n"
proof (rule ccontr)
  assume "\<not> ?thesis"
  then have "isqrt n + 1 \<le> isqrt m" by simp
  then have "(isqrt n + 1) * (isqrt n + 1) \<le> isqrt m * isqrt m" by (intro mult_le_mono) simp_all
  then show False using isqrt_bounds [of m] isqrt_bounds [of n] assms by linarith
qed

text \<open>The square root of a number, rounded to an integer.\<close>

definition sqrt_rne :: "rat \<Rightarrow> nat" where
  "sqrt_rne u = (let k = isqrt (nat \<lfloor>u\<rfloor>); h = of_nat ((2 * k + 1) * (2 * k + 1)) in
     if 4 * u < h then k else if 4 * u > h then k + 1 else if even k then k else k + 1)"

lemma sqrt_rne_bounds: "isqrt (nat \<lfloor>u\<rfloor>) \<le> sqrt_rne u" "sqrt_rne u \<le> isqrt (nat \<lfloor>u\<rfloor>) + 1"
  by (simp_all add: sqrt_rne_def Let_def)

lemma sqrt_rne_mono:
  assumes "u \<le> v"
  shows "sqrt_rne u \<le> sqrt_rne v"
proof (cases "isqrt (nat \<lfloor>u\<rfloor>) = isqrt (nat \<lfloor>v\<rfloor>)")
  case True
  then show ?thesis using assms by (simp add: sqrt_rne_def Let_def)
next
  case False
  have "nat \<lfloor>u\<rfloor> \<le> nat \<lfloor>v\<rfloor>" using assms by (intro nat_mono floor_mono)
  then have "isqrt (nat \<lfloor>u\<rfloor>) + 1 \<le> isqrt (nat \<lfloor>v\<rfloor>)" using isqrt_mono False by fastforce
  then show ?thesis using sqrt_rne_bounds(2) [of u] sqrt_rne_bounds(1) [of v] by simp
qed

lemma sqrt_rne_range:
  assumes "2 ^ 104 \<le> u" "u < 2 ^ 106"
  shows "2 ^ 52 \<le> sqrt_rne u" "sqrt_rne u \<le> 2 ^ 53"
proof -
  let ?n = "nat \<lfloor>u\<rfloor>"
  have "2 ^ 104 \<le> \<lfloor>u\<rfloor>" "\<lfloor>u\<rfloor> < 2 ^ 106" using assms by (simp_all add: le_floor_iff floor_less_iff)
  then have n: "2 ^ 104 \<le> ?n" "?n < 2 ^ 106" by (simp_all add: le_nat_iff nat_less_iff)
  have "2 ^ 52 \<le> isqrt ?n"
  proof (rule ccontr)
    assume "\<not> ?thesis"
    then have "(isqrt ?n + 1) * (isqrt ?n + 1) \<le> 2 ^ 52 * 2 ^ 52" by (intro mult_le_mono) simp_all
    then show False using isqrt_bounds [of ?n] n by simp
  qed
  then show "2 ^ 52 \<le> sqrt_rne u" using sqrt_rne_bounds(1) [of u] by simp
  have "isqrt ?n < 2 ^ 53"
  proof (rule ccontr)
    assume "\<not> ?thesis"
    then have "2 ^ 53 * 2 ^ 53 \<le> isqrt ?n * isqrt ?n" by (intro mult_le_mono) simp_all
    then show False using isqrt_bounds [of ?n] n by simp
  qed
  then show "sqrt_rne u \<le> 2 ^ 53" using sqrt_rne_bounds(2) [of u] by simp
qed

text \<open>The square root of a positive number lies in the binade of half the exponent.\<close>

definition sqrt_quantum :: "rat \<Rightarrow> int" where
  "sqrt_quantum x = ilog2 x div 2 - 52"

definition sqrt_rnd :: "rat \<Rightarrow> rat" where
  "sqrt_rnd x = (if x \<le> 0 then 0 else
     of_nat (sqrt_rne (x / pow2 (2 * sqrt_quantum x))) * pow2 (sqrt_quantum x))"

lemma sqrt_scaled_range:
  assumes "0 < x"
  shows "2 ^ 104 \<le> x / pow2 (2 * sqrt_quantum x)" "x / pow2 (2 * sqrt_quantum x) < 2 ^ 106"
proof -
  let ?h = "ilog2 x div 2"
  have "2 * ?h \<le> ilog2 x" "ilog2 x + 1 \<le> 2 * ?h + 2" by presburger+
  then have "pow2 (2 * ?h) \<le> pow2 (ilog2 x)" "pow2 (ilog2 x + 1) \<le> pow2 (2 * ?h + 2)"
    by simp_all
  then have "pow2 (2 * ?h) \<le> x" "x < pow2 (2 * ?h + 2)"
    using ilog2_bounds [OF assms] by linarith+
  moreover have "pow2 (2 * ?h) = 2 ^ 104 * pow2 (2 * sqrt_quantum x)"
    "pow2 (2 * ?h + 2) = 2 ^ 106 * pow2 (2 * sqrt_quantum x)"
    using pow2_add [of 104 "2 * sqrt_quantum x"] pow2_add [of 106 "2 * sqrt_quantum x"]
    by (simp_all add: sqrt_quantum_def algebra_simps)
  ultimately show "2 ^ 104 \<le> x / pow2 (2 * sqrt_quantum x)"
    "x / pow2 (2 * sqrt_quantum x) < 2 ^ 106"
    by (simp_all add: pos_le_divide_eq pos_divide_less_eq)
qed

lemma sqrt_rnd_range:
  assumes "0 < x"
  shows "pow2 (sqrt_quantum x + 52) \<le> sqrt_rnd x" "sqrt_rnd x \<le> pow2 (sqrt_quantum x + 53)"
proof -
  let ?s = "sqrt_rne (x / pow2 (2 * sqrt_quantum x))"
  have "2 ^ 52 \<le> ?s" "?s \<le> 2 ^ 53" using sqrt_rne_range [OF sqrt_scaled_range [OF assms]] .
  then have "(of_nat (2 ^ 52) :: rat) \<le> of_nat ?s" "(of_nat ?s :: rat) \<le> of_nat (2 ^ 53)"
    by (simp_all only: of_nat_le_iff)
  then show "pow2 (sqrt_quantum x + 52) \<le> sqrt_rnd x" "sqrt_rnd x \<le> pow2 (sqrt_quantum x + 53)"
    using assms by (simp_all add: sqrt_rnd_def pow2_add mult.commute)
qed

lemma sqrt_rnd_nonneg: "0 \<le> sqrt_rnd x"
  by (simp add: sqrt_rnd_def)

lemma sqrt_rnd_pos: "0 < x \<Longrightarrow> 0 < sqrt_rnd x"
  using sqrt_rnd_range(1) [of x] pow2_pos [of "sqrt_quantum x + 52"] by linarith

lemma sqrt_rnd_mono:
  assumes "x \<le> y"
  shows "sqrt_rnd x \<le> sqrt_rnd y"
proof (cases "0 < x")
  case True
  have le: "sqrt_quantum x \<le> sqrt_quantum y"
    using ilog2_mono [OF True assms] by (simp add: sqrt_quantum_def zdiv_mono1)
  show ?thesis
  proof (cases "sqrt_quantum x = sqrt_quantum y")
    case same: True
    have "x / pow2 (2 * sqrt_quantum x) \<le> y / pow2 (2 * sqrt_quantum x)"
      using assms by (simp add: divide_right_mono)
    then have "sqrt_rne (x / pow2 (2 * sqrt_quantum x)) \<le> sqrt_rne (y / pow2 (2 * sqrt_quantum x))"
      by (rule sqrt_rne_mono)
    then have "(of_nat (sqrt_rne (x / pow2 (2 * sqrt_quantum x))) :: rat) \<le>
        of_nat (sqrt_rne (y / pow2 (2 * sqrt_quantum x)))"
      by (simp only: of_nat_le_iff)
    then show ?thesis using True assms same by (simp add: sqrt_rnd_def)
  next
    case False
    then have "pow2 (sqrt_quantum x + 53) \<le> pow2 (sqrt_quantum y + 52)" using le by simp
    then show ?thesis
      using sqrt_rnd_range(2) [OF True] sqrt_rnd_range(1) [of y] True assms
      by (simp del: pow2_le_iff)
  qed
qed (use sqrt_rnd_nonneg in \<open>simp add: sqrt_rnd_def\<close>)


subsection \<open>The type and its operations\<close>

datatype F64 = Fin rat | PInf | NInf | NaN

text \<open>A result of rounding beyond the largest finite number is an infinity.\<close>

definition f64_limit :: rat where
  "f64_limit = pow2 1024"

definition to_f64 :: "rat \<Rightarrow> F64" where
  "to_f64 x = (if rnd x \<ge> f64_limit then PInf else if rnd x \<le> - f64_limit then NInf
     else Fin (rnd x))"

fun f64_le :: "F64 \<Rightarrow> F64 \<Rightarrow> bool" where
  "f64_le (Fin x) (Fin y) = (x \<le> y)"
| "f64_le NaN _ = False"
| "f64_le _ NaN = False"
| "f64_le NInf _ = True"
| "f64_le _ PInf = True"
| "f64_le _ _ = False"

fun f64_sign :: "F64 \<Rightarrow> int" where
  "f64_sign (Fin x) = (if x > 0 then 1 else if x < 0 then - 1 else 0)"
| "f64_sign PInf = 1"
| "f64_sign NInf = - 1"
| "f64_sign NaN = 0"

definition signed_inf :: "int \<Rightarrow> F64" where
  "signed_inf n = (if n > 0 then PInf else if n < 0 then NInf else NaN)"

fun f64_neg :: "F64 \<Rightarrow> F64" where
  "f64_neg (Fin x) = Fin (- x)"
| "f64_neg PInf = NInf"
| "f64_neg NInf = PInf"
| "f64_neg NaN = NaN"

definition f64_add :: "F64 \<Rightarrow> F64 \<Rightarrow> F64" where
  "f64_add a b = (case (a, b) of
     (Fin x, Fin y) \<Rightarrow> to_f64 (x + y)
   | (Fin _, _) \<Rightarrow> b
   | (_, Fin _) \<Rightarrow> a
   | _ \<Rightarrow> if a = b then a else NaN)"

definition f64_sub :: "F64 \<Rightarrow> F64 \<Rightarrow> F64" where
  "f64_sub a b = f64_add a (f64_neg b)"

text \<open>An infinity times zero is NaN: the sign of the product is then zero.\<close>

definition f64_mul :: "F64 \<Rightarrow> F64 \<Rightarrow> F64" where
  "f64_mul a b = (case (a, b) of
     (Fin x, Fin y) \<Rightarrow> to_f64 (x * y)
   | _ \<Rightarrow> signed_inf (f64_sign a * f64_sign b))"

definition f64_mul_add :: "F64 \<Rightarrow> F64 \<Rightarrow> F64 \<Rightarrow> F64" where
  "f64_mul_add a b c = (case (a, b, c) of
     (Fin x, Fin y, Fin z) \<Rightarrow> to_f64 (x * y + z)
   | (Fin _, Fin _, _) \<Rightarrow> c
   | _ \<Rightarrow> f64_add (f64_mul a b) c)"

definition f64_div :: "F64 \<Rightarrow> F64 \<Rightarrow> F64" where
  "f64_div a b = (case (a, b) of
     (Fin x, Fin y) \<Rightarrow> if y = 0 then signed_inf (f64_sign a) else to_f64 (x / y)
   | (Fin _, NaN) \<Rightarrow> NaN
   | (Fin _, _) \<Rightarrow> Fin 0
   | (_, Fin y) \<Rightarrow> signed_inf (f64_sign a * (if y < 0 then - 1 else 1))
   | _ \<Rightarrow> NaN)"

fun f64_sqrt :: "F64 \<Rightarrow> F64" where
  "f64_sqrt (Fin x) = (if x < 0 then NaN else Fin (sqrt_rnd x))"
| "f64_sqrt PInf = PInf"
| "f64_sqrt _ = NaN"

text \<open>\<open>f64::max\<close> and \<open>f64::min\<close> ignore a NaN.\<close>

definition f64_max :: "F64 \<Rightarrow> F64 \<Rightarrow> F64" where
  "f64_max a b = (if a = NaN then b else if b = NaN then a else if f64_le a b then b else a)"

definition f64_min :: "F64 \<Rightarrow> F64 \<Rightarrow> F64" where
  "f64_min a b = (if a = NaN then b else if b = NaN then a else if f64_le a b then a else b)"

text \<open>\<open>f64::from(u32)\<close>, and the saturating cast \<open>as u32\<close>.\<close>

definition f64_of_u32 :: "u32 \<Rightarrow> F64" where
  "f64_of_u32 w = Fin (of_int (uint w))"

fun f64_to_u32 :: "F64 \<Rightarrow> u32" where
  "f64_to_u32 (Fin x) = (if x \<le> 0 then 0 else if x \<ge> 2 ^ 32 then - 1 else word_of_int \<lfloor>x\<rfloor>)"
| "f64_to_u32 PInf = - 1"
| "f64_to_u32 _ = 0"

text \<open>The value of a bit pattern: sign, eleven bits of exponent, 52 bits of fraction.\<close>

definition f64_of_bits :: "u64 \<Rightarrow> F64" where
  "f64_of_bits w = (let s = (if bit w 63 then - 1 else 1 :: rat);
       e = uint w div 2 ^ 52 mod 2 ^ 11; f = uint w mod 2 ^ 52 in
     if e = 2047 then (if f = 0 then signed_inf (if bit w 63 then - 1 else 1) else NaN)
     else if e = 0 then Fin (s * of_int f * pow2 (- 1074))
     else Fin (s * of_int (2 ^ 52 + f) * pow2 (e - 1075)))"

lemma f64_of_bits_examples:
  "f64_of_bits 0x4000000000000000 = Fin 2" "f64_of_bits 0x3FF0000000000000 = Fin 1"
  "f64_of_bits 0x3FE0000000000000 = Fin (1 / 2)" "f64_of_bits 0 = Fin 0"
  by (simp_all add: f64_of_bits_def Let_def bit_iff_odd_drop_bit)


subsection \<open>Order\<close>

lemma f64_limit_large: "2 ^ 53 < f64_limit"
  using pow2_mono_strict [of 53 1024] by (simp add: f64_limit_def del: pow2_less_iff)

lemma f64_limit_pos [simp]: "0 < f64_limit"
  by (simp add: f64_limit_def)

lemma to_f64_not_nan [simp]: "to_f64 x \<noteq> NaN"
  by (simp add: to_f64_def)

lemma f64_le_refl [simp]: "f64_le a a \<longleftrightarrow> a \<noteq> NaN"
  by (cases a) simp_all

lemma f64_le_trans [trans]: "f64_le a b \<Longrightarrow> f64_le b c \<Longrightarrow> f64_le a c"
  by (cases a; cases b; cases c) simp_all

lemma f64_le_antisym: "f64_le a b \<Longrightarrow> f64_le b a \<Longrightarrow> a = b"
  by (cases a; cases b) simp_all

lemma f64_le_not_nan: "f64_le a b \<Longrightarrow> a \<noteq> NaN" "f64_le a b \<Longrightarrow> b \<noteq> NaN"
  by (cases a; cases b; simp)+

lemma f64_le_PInf [simp]: "f64_le a PInf \<longleftrightarrow> a \<noteq> NaN" "f64_le PInf a \<longleftrightarrow> a = PInf"
  by (cases a; simp)+

lemma f64_le_total: "a \<noteq> NaN \<Longrightarrow> b \<noteq> NaN \<Longrightarrow> f64_le a b \<or> f64_le b a"
  by (cases a; cases b) auto

lemma to_f64_mono: "x \<le> y \<Longrightarrow> f64_le (to_f64 x) (to_f64 y)"
  using rnd_mono [of x y] f64_limit_pos by (auto simp: to_f64_def)

lemma to_f64_fixed: "is_f64 x \<Longrightarrow> \<bar>x\<bar> < f64_limit \<Longrightarrow> to_f64 x = Fin x"
  by (auto simp: to_f64_def rnd_fixed)

lemma to_f64_of_int:
  assumes "\<bar>n\<bar> \<le> 2 ^ 53"
  shows "to_f64 (of_int n) = Fin (of_int n)"
proof (rule to_f64_fixed)
  have "of_int \<bar>n\<bar> \<le> (of_int (2 ^ 53) :: rat)" using assms by (simp only: of_int_le_iff)
  then show "\<bar>of_int n\<bar> < f64_limit" using f64_limit_large by simp
qed (rule is_f64_of_int [OF assms])

lemma to_f64_0 [simp]: "to_f64 0 = Fin 0"
  using to_f64_of_int [of 0] by simp

lemma to_f64_1 [simp]: "to_f64 1 = Fin 1"
  using to_f64_of_int [of 1] by simp

lemma to_f64_nonneg: "0 \<le> x \<Longrightarrow> f64_le (Fin 0) (to_f64 x)"
  using to_f64_mono [of 0 x] by simp

lemma f64_max_mono: "f64_le a b \<Longrightarrow> f64_le (f64_max a c) (f64_max b c)"
  using f64_le_total [of b c] f64_le_total [of a c]
  by (auto simp: f64_max_def dest: f64_le_not_nan f64_le_trans)

lemma f64_max_ge: "c \<noteq> NaN \<Longrightarrow> f64_le c (f64_max a c)"
  using f64_le_total [of a c] by (auto simp: f64_max_def)

lemma f64_max_le: "f64_le a b \<Longrightarrow> f64_le c b \<Longrightarrow> f64_le (f64_max a c) b"
  by (simp add: f64_max_def)

lemma f64_min_le:
  "a \<noteq> NaN \<Longrightarrow> f64_le (f64_min a b) a" "b \<noteq> NaN \<Longrightarrow> f64_le (f64_min a b) b"
  using f64_le_total [of a b] by (auto simp: f64_min_def)

subsection \<open>Casts\<close>

lemma uint_f64_to_u32_Fin:
  assumes "0 \<le> x" "x < 2 ^ 32"
  shows "uint (f64_to_u32 (Fin x)) = \<lfloor>x\<rfloor>"
proof -
  have "0 \<le> \<lfloor>x\<rfloor>" "\<lfloor>x\<rfloor> < 2 ^ 32" using assms by (simp_all add: floor_less_iff)
  then show ?thesis using assms by (auto simp: word_of_int_inverse uint_word_of_int)
qed

lemma f64_to_u32_mono:
  assumes "f64_le a b"
  shows "f64_to_u32 a \<le> f64_to_u32 b"
proof (cases "\<exists>x y. a = Fin x \<and> b = Fin y \<and> 0 < x \<and> y < 2 ^ 32")
  case True
  then obtain x y where xy: "a = Fin x" "b = Fin y" "0 < x" "y < 2 ^ 32" by blast
  then have "x \<le> y" using assms by simp
  then have "uint (f64_to_u32 a) \<le> uint (f64_to_u32 b)"
    using xy by (simp only: uint_f64_to_u32_Fin floor_mono less_imp_le le_less_trans)
  then show ?thesis by (simp only: word_le_def)
next
  case False
  then show ?thesis using assms by (cases a; cases b) (auto simp: word_order.extremum)
qed

lemma f64_of_u32_exact: "to_f64 (of_int (uint (w :: u32))) = f64_of_u32 w"
  using uint_lt2p [of w] uint_ge_0 [of w] to_f64_of_int [of "uint w"]
  by (simp add: f64_of_u32_def del: of_int_uint)

lemma f64_to_u32_of_u32 [simp]: "f64_to_u32 (f64_of_u32 w) = w"
proof -
  have "0 \<le> (of_int (uint w) :: rat)" "(of_int (uint w) :: rat) < of_int (2 ^ 32)"
    using uint_lt2p [of w] uint_ge_0 [of w] by (simp_all only: of_int_less_iff of_int_0_le_iff) simp_all
  then have "uint (f64_to_u32 (f64_of_u32 w)) = uint w"
    unfolding f64_of_u32_def by (subst uint_f64_to_u32_Fin) (simp_all del: of_int_uint)
  then show ?thesis by (metis word_of_int_uint)
qed

lemma f64_of_u32_mono: "f64_le (f64_of_u32 v) (f64_of_u32 w) \<longleftrightarrow> v \<le> w"
  by (simp add: f64_of_u32_def word_le_def del: of_int_uint)

end
