(* ===== verification/Commit_Window.thy ===== *)
theory Commit_Window
  imports F64
begin

text \<open>
  The commit window of an agent, \<open>crates/pact-agent/src/commit/mod.rs\<close>: a deadline for committing
  or rolling back local changes that gets shorter the more the node has drifted. The arithmetic is
  that of \<open>F64\<close>; the clock is an argument of every operation that reads it.
\<close>

subsection \<open>The manager\<close>

record CommitWindowConfig =
  cw_base_window_seconds :: u32
  cw_drift_sensitivity :: F64
  cw_emergency_window_seconds :: u32

datatype WindowState =
    WindowIdle
  | WindowOpen (opened_at: time) (deadline: time)
  | WindowExpired (opened_at: time) (expired_at: time)

record CommitWindowManager =
  cw_config :: CommitWindowConfig
  cw_state :: WindowState
  cw_emergency :: bool

definition default_window_config :: CommitWindowConfig where
  "default_window_config = \<lparr>cw_base_window_seconds = 900, cw_drift_sensitivity = Fin 2,
     cw_emergency_window_seconds = 14400\<rparr>"

definition window_new :: "CommitWindowConfig \<Rightarrow> CommitWindowManager" where
  "window_new c = \<lparr>cw_config = c, cw_state = WindowIdle, cw_emergency = False\<rparr>"

definition update_config :: "u32 \<Rightarrow> F64 \<Rightarrow> u32 \<Rightarrow> CommitWindowManager \<Rightarrow> CommitWindowManager" where
  "update_config base sens em m = m\<lparr>cw_config := \<lparr>cw_base_window_seconds = base,
     cw_drift_sensitivity = sens, cw_emergency_window_seconds = em\<rparr>\<rparr>"

definition calculate_window_seconds :: "CommitWindowConfig \<Rightarrow> F64 \<Rightarrow> u32" where
  "calculate_window_seconds c magnitude =
     (let denominator = f64_mul_add magnitude (cw_drift_sensitivity c) (Fin 1);
          window = f64_div (f64_of_u32 (cw_base_window_seconds c)) denominator
      in f64_to_u32 (f64_max window (Fin 60)))"

definition window_seconds :: "CommitWindowManager \<Rightarrow> F64 \<Rightarrow> u32" where
  "window_seconds m magnitude =
     (if cw_emergency m then cw_emergency_window_seconds (cw_config m)
      else calculate_window_seconds (cw_config m) magnitude)"

definition window_open :: "time \<Rightarrow> F64 \<Rightarrow> CommitWindowManager \<Rightarrow> CommitWindowManager" where
  "window_open now magnitude m = m\<lparr>cw_state := WindowOpen
     (case cw_state m of WindowOpen t d \<Rightarrow> t | _ \<Rightarrow> now)
     (now + seconds (uint (window_seconds m magnitude)))\<rparr>"

definition check_expired :: "time \<Rightarrow> CommitWindowManager \<Rightarrow> CommitWindowManager \<times> bool" where
  "check_expired now m = (case cw_state m of
     WindowOpen t d \<Rightarrow>
       if now \<ge> d then
         if cw_emergency m then (m, False) else (m\<lparr>cw_state := WindowExpired t d\<rparr>, True)
       else (m, False)
   | WindowExpired _ _ \<Rightarrow> (m, True)
   | WindowIdle \<Rightarrow> (m, False))"

definition commit :: "CommitWindowManager \<Rightarrow> CommitWindowManager" where
  "commit m = m\<lparr>cw_state := WindowIdle\<rparr>"

definition rollback :: "CommitWindowManager \<Rightarrow> CommitWindowManager" where
  "rollback m = m\<lparr>cw_state := WindowIdle\<rparr>"

definition rollback_with_check ::
  "nat \<Rightarrow> CommitWindowManager \<Rightarrow> CommitWindowManager \<times> (string + unit)" where
  "rollback_with_check active_consumers m =
     (if active_consumers > 0 then
        (m, Inl (show_nat active_consumers @ '' active consumers '' @ em_dash @
                 '' rollback blocked (A5)''))
      else (m\<lparr>cw_state := WindowIdle\<rparr>, Inr ()))"

definition extend_window :: "u32 \<Rightarrow> CommitWindowManager \<Rightarrow> CommitWindowManager" where
  "extend_window additional m = (case cw_state m of
     WindowOpen t d \<Rightarrow> m\<lparr>cw_state := WindowOpen t (d + seconds (uint additional))\<rparr>
   | _ \<Rightarrow> m)"

definition enter_emergency :: "time \<Rightarrow> CommitWindowManager \<Rightarrow> CommitWindowManager" where
  "enter_emergency now m = (let m = m\<lparr>cw_emergency := True\<rparr> in case cw_state m of
     WindowOpen _ _ \<Rightarrow> m\<lparr>cw_state := WindowOpen now
       (now + seconds (uint (cw_emergency_window_seconds (cw_config m))))\<rparr>
   | _ \<Rightarrow> m)"

definition exit_emergency :: "CommitWindowManager \<Rightarrow> CommitWindowManager" where
  "exit_emergency m = m\<lparr>cw_emergency := False\<rparr>"

definition seconds_remaining :: "time \<Rightarrow> CommitWindowManager \<Rightarrow> u32" where
  "seconds_remaining now m = (case cw_state m of
     WindowOpen _ d \<Rightarrow> word_of_int (max (num_seconds (d - now)) 0)
   | _ \<Rightarrow> 0)"

subsection \<open>The length of the window\<close>

text \<open>A usable magnitude or sensitivity: not NaN and not negative.\<close>

abbreviation nonneg64 :: "F64 \<Rightarrow> bool" where
  "nonneg64 a \<equiv> f64_le (Fin 0) a"

text \<open>The denominator is NaN (for zero times infinity) or at least one, and grows with the drift.\<close>

lemma denominator_cases:
  assumes "nonneg64 m" "nonneg64 s"
  shows "f64_mul_add m s (Fin 1) = NaN \<or> f64_le (Fin 1) (f64_mul_add m s (Fin 1))"
proof (cases "\<exists>x y. m = Fin x \<and> s = Fin y")
  case True
  then show ?thesis using assms to_f64_mono [of 1] by (auto simp: f64_mul_add_def)
next
  case False
  then show ?thesis using assms
    by (cases m; cases s) (auto simp: f64_mul_add_def f64_mul_def signed_inf_def f64_add_def)
qed

lemma denominator_mono:
  assumes "nonneg64 m" "f64_le m m'" "nonneg64 s"
  shows "f64_mul_add m' s (Fin 1) = NaN \<or> f64_mul_add m s (Fin 1) = NaN \<or>
    f64_le (f64_mul_add m s (Fin 1)) (f64_mul_add m' s (Fin 1))"
proof (cases "\<exists>x y z. m = Fin x \<and> m' = Fin y \<and> s = Fin z")
  case True
  then show ?thesis using assms by (auto simp: f64_mul_add_def intro!: to_f64_mono mult_right_mono)
next
  case False
  then show ?thesis using assms
    by (cases m; cases m'; cases s)
      (auto simp: f64_mul_add_def f64_mul_def signed_inf_def f64_add_def)
qed

lemma div_antitone:
  assumes "f64_le (Fin 1) d" "f64_le d d'"
  shows "f64_le (f64_div (f64_of_u32 b) d') (f64_div (f64_of_u32 b) d)"
proof -
  let ?x = "of_int (uint b) :: rat"
  have x: "0 \<le> ?x" by (simp del: of_int_uint)
  show ?thesis
  proof (cases "\<exists>u v. d = Fin u \<and> d' = Fin v")
    case True
    then obtain u v where uv: "d = Fin u" "d' = Fin v" "1 \<le> u" "u \<le> v" using assms by auto
    then have "?x / v \<le> ?x / u" using x by (intro divide_left_mono mult_pos_pos) simp_all
    then show ?thesis using uv
      by (auto simp: f64_div_def f64_of_u32_def simp del: of_int_uint intro: to_f64_mono)
  next
    case False
    then have "d' = PInf" using assms by (cases d; cases d') auto
    then show ?thesis using assms(1) x to_f64_nonneg [of "?x / _"]
      by (cases d) (auto simp: f64_div_def f64_of_u32_def simp del: of_int_uint)
  qed
qed

lemma div_by_one [simp]: "f64_div (f64_of_u32 b) (Fin 1) = f64_of_u32 b"
  using f64_of_u32_exact [of b] by (simp add: f64_div_def f64_of_u32_def del: of_int_uint)

lemma f64_div_NaN [simp]: "f64_div a NaN = NaN"
  by (cases a) (simp_all add: f64_div_def)

lemma window_upper:
  assumes "nonneg64 m" "nonneg64 s"
  shows "f64_le (f64_max (f64_div (f64_of_u32 b) (f64_mul_add m s (Fin 1))) (Fin 60))
    (f64_max (f64_of_u32 b) (Fin 60))"
proof -
  consider "f64_mul_add m s (Fin 1) = NaN" | "f64_le (Fin 1) (f64_mul_add m s (Fin 1))"
    using denominator_cases [OF assms] by blast
  then show ?thesis
  proof cases
    case 1
    then show ?thesis using f64_max_ge [of "Fin 60" "f64_of_u32 b"] by (simp add: f64_max_def)
  next
    case 2
    from div_antitone [OF _ this, of b] show ?thesis by (intro f64_max_mono) simp
  qed
qed

lemma f64_max_u32: "f64_to_u32 (f64_max (f64_of_u32 b) (Fin 60)) = max b 60"
proof -
  have s: "(60 :: u32) = word_of_int 60" by simp
  have c: "Fin 60 = f64_of_u32 60" by (simp add: f64_of_u32_def)
  show ?thesis unfolding c
    by (auto simp: f64_max_def f64_of_u32_mono max_def) (simp_all add: f64_of_u32_def)
qed


lemma nan_window [simp]: "f64_max NaN (Fin 60) = Fin 60"
  by (simp add: f64_max_def)

lemma window_seconds_60: "f64_to_u32 (Fin 60) = 60"
  by simp

lemma calculate_at_least: "60 \<le> calculate_window_seconds c m"
  using f64_to_u32_mono [OF f64_max_ge [of "Fin 60"]] window_seconds_60
  by (simp add: calculate_window_seconds_def Let_def del: f64_to_u32.simps)

lemma calculate_at_most:
  assumes "nonneg64 m" "nonneg64 (cw_drift_sensitivity c)"
  shows "calculate_window_seconds c m \<le> max (cw_base_window_seconds c) 60"
  using f64_to_u32_mono [OF window_upper [OF assms, of "cw_base_window_seconds c"]]
  by (simp add: calculate_window_seconds_def Let_def f64_max_u32 del: f64_to_u32.simps)

lemma mul_add_infinite [simp]:
  "0 < x \<Longrightarrow> f64_mul_add (Fin x) PInf (Fin z) = PInf"
  "f64_mul_add (Fin 0) PInf c = NaN"
  "f64_mul_add PInf PInf (Fin z) = PInf"
  "f64_mul_add PInf (Fin 0) c = NaN"
  by (cases c; simp add: f64_mul_add_def f64_mul_def signed_inf_def f64_add_def)+

lemma calculate_nan:
  assumes "nonneg64 m" "f64_le m m'" "nonneg64 (cw_drift_sensitivity c)"
    and "f64_mul_add m (cw_drift_sensitivity c) (Fin 1) = NaN"
  shows "calculate_window_seconds c m' = 60"
proof -
  have "m = Fin 0 \<and> cw_drift_sensitivity c = PInf \<or> m = PInf \<and> cw_drift_sensitivity c = Fin 0"
    using assms(1,3,4)
    by (cases m; cases "cw_drift_sensitivity c")
      (auto simp: f64_mul_add_def f64_mul_def signed_inf_def f64_add_def split: if_splits)
  then have "f64_mul_add m' (cw_drift_sensitivity c) (Fin 1) \<in> {NaN, PInf}"
    using assms(2) by (cases m'; cases "m' = Fin 0") auto
  then show ?thesis
    by (auto simp: calculate_window_seconds_def Let_def f64_div_def f64_of_u32_def f64_max_def)
qed

lemma calculate_antitone:
  assumes "nonneg64 m" "f64_le m m'" "nonneg64 (cw_drift_sensitivity c)"
  shows "calculate_window_seconds c m' \<le> calculate_window_seconds c m"
proof -
  let ?d = "\<lambda>m. f64_mul_add m (cw_drift_sensitivity c) (Fin 1)"
  consider "?d m = NaN" | "?d m \<noteq> NaN" "?d m' = NaN" | "?d m \<noteq> NaN" "?d m' \<noteq> NaN" by blast
  then show ?thesis
  proof cases
    case 1
    then show ?thesis using calculate_nan [OF assms] calculate_at_least [of c m] by simp
  next
    case 2
    then show ?thesis using calculate_at_least [of c m]
      by (simp add: calculate_window_seconds_def Let_def)
  next
    case 3
    have "f64_le (Fin 1) (?d m)" using denominator_cases [OF assms(1,3)] 3 by blast
    moreover have "f64_le (?d m) (?d m')" using denominator_mono [OF assms] 3 by blast
    ultimately have "f64_le (f64_div (f64_of_u32 (cw_base_window_seconds c)) (?d m'))
        (f64_div (f64_of_u32 (cw_base_window_seconds c)) (?d m))"
      by (rule div_antitone)
    then show ?thesis
      unfolding calculate_window_seconds_def Let_def by (intro f64_to_u32_mono f64_max_mono)
  qed
qed

text \<open>Zero drift gives the base window, whatever the (finite) sensitivity.\<close>

lemma calculate_no_drift: "calculate_window_seconds c (Fin 0) \<le> max (cw_base_window_seconds c) 60"
  by (cases "cw_drift_sensitivity c")
    (simp_all add: calculate_window_seconds_def Let_def f64_mul_add_def f64_mul_def signed_inf_def
      f64_add_def f64_max_u32)

lemma calculate_no_drift_finite:
  "cw_drift_sensitivity c = Fin s \<Longrightarrow>
   calculate_window_seconds c (Fin 0) = max (cw_base_window_seconds c) 60"
  by (simp add: calculate_window_seconds_def Let_def f64_mul_add_def f64_max_u32)

subsection \<open>Windows over time\<close>

datatype window_op =
    DoOpen time F64
  | DoCheck time
  | DoExtend u32
  | DoUpdate u32 F64 u32

fun window_step :: "window_op \<Rightarrow> CommitWindowManager \<Rightarrow> CommitWindowManager" where
  "window_step (DoOpen now mag) m = window_open now mag m"
| "window_step (DoCheck now) m = fst (check_expired now m)"
| "window_step (DoExtend n) m = extend_window n m"
| "window_step (DoUpdate b s e) m = update_config b s e m"

interpretation window: state_machine window_step .

text \<open>In emergency mode an open window stays open, with its opening time, whatever happens.\<close>

lemma emergency_step_open:
  "cw_emergency m \<and> (\<exists>d. cw_state m = WindowOpen t d) \<Longrightarrow>
   cw_emergency (window_step i m) \<and> (\<exists>d. cw_state (window_step i m) = WindowOpen t d)"
  by (cases i) (auto simp: window_open_def check_expired_def extend_window_def update_config_def)

lemma emergency_window_kept:
  assumes "cw_state m = WindowOpen t d"
  shows "\<exists>d. cw_state (window.run ops (enter_emergency now m)) = WindowOpen now d"
proof -
  have "cw_emergency (window.run ops (enter_emergency now m)) \<and>
      (\<exists>d. cw_state (window.run ops (enter_emergency now m)) = WindowOpen now d)"
    by (rule window.run_invariant [where Q = "\<lambda>_. True"])
      (use assms emergency_step_open in \<open>auto simp: enter_emergency_def\<close>)
  then show ?thesis ..
qed

text \<open>A window that is only checked expires exactly at its deadline, and then for good.\<close>

lemma checks_expire:
  assumes "cw_state m = WindowOpen t d" "\<not> cw_emergency m"
  shows "window.run (map DoCheck nows) m =
    (if \<exists>now \<in> set nows. now \<ge> d then m\<lparr>cw_state := WindowExpired t d\<rparr> else m)"
proof -
  have expired: "window.run (map DoCheck nows) m = m" if "cw_state m = WindowExpired t d" for nows m
    using that by (induction nows) (simp_all add: check_expired_def)
  show ?thesis
    using assms by (induction nows arbitrary: m) (auto simp: check_expired_def expired)
qed

end
