(* ===== verification/Drift.thy ===== *)
theory Drift
  imports Commit_Window Rust_Strings
begin

text \<open>
  Drift evaluation, \<open>crates/pact-agent/src/drift/mod.rs\<close>, with the drift vector and its weighted
  norm from \<open>crates/pact-common/src/types.rs\<close>. The counters are floating point numbers; the lemmas
  show that they count exactly up to \<open>2 ^ 53\<close>, that the magnitude never decreases when an event
  arrives, and so that the commit window never gets longer.
\<close>

subsection \<open>The drift vector\<close>

record DriftVector =
  dv_mounts :: F64
  dv_files :: F64
  dv_network :: F64
  dv_services :: F64
  dv_kernel :: F64
  dv_packages :: F64
  dv_gpu :: F64

record DriftWeights =
  dw_mounts :: F64
  dw_files :: F64
  dw_network :: F64
  dw_services :: F64
  dw_kernel :: F64
  dw_packages :: F64
  dw_gpu :: F64

definition default_drift :: DriftVector where
  "default_drift = \<lparr>dv_mounts = Fin 0, dv_files = Fin 0, dv_network = Fin 0, dv_services = Fin 0,
     dv_kernel = Fin 0, dv_packages = Fin 0, dv_gpu = Fin 0\<rparr>"

definition default_weights :: DriftWeights where
  "default_weights = \<lparr>dw_mounts = Fin 1, dw_files = Fin 1, dw_network = Fin 1, dw_services = Fin 1,
     dw_kernel = Fin 2, dw_packages = Fin 1, dw_gpu = Fin 2\<rparr>"

text \<open>One summand \<open>weight * x * x\<close> of the norm.\<close>

definition weighted_square :: "F64 \<Rightarrow> F64 \<Rightarrow> F64" where
  "weighted_square w x = f64_mul (f64_mul w x) x"

definition drift_sum :: "DriftWeights \<Rightarrow> DriftVector \<Rightarrow> F64" where
  "drift_sum w v =
     f64_add (f64_add (f64_add (f64_add (f64_add (f64_add
       (weighted_square (dw_mounts w) (dv_mounts v))
       (weighted_square (dw_files w) (dv_files v)))
       (weighted_square (dw_network w) (dv_network v)))
       (weighted_square (dw_services w) (dv_services v)))
       (weighted_square (dw_kernel w) (dv_kernel v)))
       (weighted_square (dw_packages w) (dv_packages v)))
       (weighted_square (dw_gpu w) (dv_gpu v))"

definition drift_magnitude :: "DriftWeights \<Rightarrow> DriftVector \<Rightarrow> F64" where
  "drift_magnitude w v = f64_sqrt (drift_sum w v)"

subsection \<open>Blacklist patterns\<close>

text \<open>
  Slicing a string at a byte that is not the start of a character panics; so does slicing past
  the end. \<open>None\<close> is the panic.
\<close>

definition slice_from_1 :: "string \<Rightarrow> string option" where
  "slice_from_1 s = (case s of [] \<Rightarrow> None
   | _ # r \<Rightarrow> (case r of [] \<Rightarrow> Some [] | c # _ \<Rightarrow> if is_continuation c then None else Some r))"

definition matches_glob :: "string \<Rightarrow> string \<Rightarrow> bool option" where
  "matches_glob pattern path = (case strip_suffix ''/**'' pattern of
     Some pre \<Rightarrow> Some (prefix pre path)
   | None \<Rightarrow> (case strip_suffix ''/*'' pattern of
       Some pre \<Rightarrow>
         if \<not> prefix pre path then Some False
         else map_option (\<lambda>rest. CHR ''/'' \<notin> set rest) (slice_from_1 (drop (length pre) path))
     | None \<Rightarrow> Some (pattern = path)))"

fun is_blacklisted :: "string list \<Rightarrow> string \<Rightarrow> bool option" where
  "is_blacklisted [] path = Some False"
| "is_blacklisted (p # ps) path = (case matches_glob p path of
     None \<Rightarrow> None
   | Some True \<Rightarrow> Some True
   | Some False \<Rightarrow> is_blacklisted ps path)"

subsection \<open>The evaluator\<close>

record ObserverEvent =
  oe_category :: string
  oe_path :: string
  oe_detail :: string
  oe_timestamp :: time

record DriftEvaluator =
  de_blacklist :: "string list"
  de_weights :: DriftWeights
  de_current_drift :: DriftVector

definition drift_new :: "string list \<Rightarrow> DriftWeights \<Rightarrow> DriftEvaluator" where
  "drift_new b w = \<lparr>de_blacklist = b, de_weights = w, de_current_drift = default_drift\<rparr>"

definition count_one :: "F64 \<Rightarrow> F64" where
  "count_one x = f64_add x (Fin 1)"

definition bump :: "string \<Rightarrow> DriftVector \<Rightarrow> DriftVector" where
  "bump category v =
     (if category = ''mount'' then v\<lparr>dv_mounts := count_one (dv_mounts v)\<rparr>
      else if category = ''file'' then v\<lparr>dv_files := count_one (dv_files v)\<rparr>
      else if category = ''network'' then v\<lparr>dv_network := count_one (dv_network v)\<rparr>
      else if category = ''service'' then v\<lparr>dv_services := count_one (dv_services v)\<rparr>
      else if category = ''kernel'' then v\<lparr>dv_kernel := count_one (dv_kernel v)\<rparr>
      else if category = ''package'' then v\<lparr>dv_packages := count_one (dv_packages v)\<rparr>
      else if category = ''gpu'' then v\<lparr>dv_gpu := count_one (dv_gpu v)\<rparr>
      else v)"

definition process_event :: "ObserverEvent \<Rightarrow> DriftEvaluator \<Rightarrow> DriftEvaluator option" where
  "process_event e d = map_option (\<lambda>skip.
     if skip then d
     else d\<lparr>de_current_drift := bump (oe_category e) (de_current_drift d)\<rparr>)
     (is_blacklisted (de_blacklist d) (oe_path e))"

definition magnitude :: "DriftEvaluator \<Rightarrow> F64" where
  "magnitude d = drift_magnitude (de_weights d) (de_current_drift d)"

definition reset :: "DriftEvaluator \<Rightarrow> DriftEvaluator" where
  "reset d = d\<lparr>de_current_drift := default_drift\<rparr>"

definition set_weights :: "DriftWeights \<Rightarrow> DriftEvaluator \<Rightarrow> DriftEvaluator" where
  "set_weights w d = d\<lparr>de_weights := w\<rparr>"

text \<open>The evaluator on a stream of events; \<open>None\<close> if one of them panics.\<close>

fun process_events :: "ObserverEvent list \<Rightarrow> DriftEvaluator \<Rightarrow> DriftEvaluator option" where
  "process_events [] d = Some d"
| "process_events (e # es) d = Option.bind (process_event e d) (process_events es)"

subsection \<open>Counting\<close>

text \<open>A counter that is a whole number of at most \<open>2 ^ 53\<close>; there it saturates.\<close>

definition counter :: "nat \<Rightarrow> F64" where
  "counter n = Fin (of_nat (min n (2 ^ 53)))"

lemma rnd_saturates: "rnd (2 ^ 53 + 1) = 2 ^ 53"
proof -
  define x :: rat where "x = 2 ^ 53 + 1"
  have "ilog2 x < 54" by (rule ilog2_less) (simp_all add: x_def)
  moreover have "pow2 53 < pow2 (ilog2 x + 1)"
    using ilog2_bounds(2) [of x] by (simp add: x_def del: pow2_less_iff)
  then have "53 < ilog2 x + 1" by (simp only: pow2_less_iff)
  ultimately have "quantum x = 1" by (simp add: quantum_def x_def)
  then have "rnd x = of_int (rne (x / 2)) * 2" by (simp add: rnd_def x_def)
  moreover have "\<lfloor>x / 2\<rfloor> = 2 ^ 52" by (simp add: x_def floor_eq_iff)
  ultimately show ?thesis by (simp add: rne_def Let_def) (simp add: x_def)
qed

lemma count_one_counter: "count_one (counter n) = counter (Suc n)"
proof (cases "n < 2 ^ 53")
  case True
  then have "\<bar>int n + 1\<bar> \<le> 2 ^ 53" by simp
  from to_f64_of_int [OF this] True show ?thesis
    by (simp add: count_one_def counter_def f64_add_def min_def add.commute)
next
  case False
  have "to_f64 (2 ^ 53 + 1) = Fin (2 ^ 53)"
    using f64_limit_large f64_limit_pos unfolding to_f64_def rnd_saturates by simp
  then show ?thesis using False
    by (simp add: count_one_def counter_def f64_add_def min_def)
qed

definition counted :: "string \<Rightarrow> string list \<Rightarrow> F64" where
  "counted c cs = counter (length (filter ((=) c) cs))"

definition drift_of :: "string list \<Rightarrow> DriftVector" where
  "drift_of cs = \<lparr>dv_mounts = counted ''mount'' cs, dv_files = counted ''file'' cs,
     dv_network = counted ''network'' cs, dv_services = counted ''service'' cs,
     dv_kernel = counted ''kernel'' cs, dv_packages = counted ''package'' cs,
     dv_gpu = counted ''gpu'' cs\<rparr>"

lemma counted_Nil [simp]: "counted c [] = Fin 0"
  by (simp add: counted_def counter_def)

lemma counted_Cons: "counted c (a # cs) = (if a = c then count_one (counted c cs) else counted c cs)"
  by (simp add: counted_def count_one_counter)

lemma drift_of_Nil: "drift_of [] = default_drift"
  by (simp add: drift_of_def default_drift_def)

lemma drift_of_Cons: "drift_of (a # cs) = bump a (drift_of cs)"
  by (simp add: drift_of_def bump_def counted_Cons)

text \<open>The categories of the events that are not blacklisted, the latest first.\<close>

definition relevant :: "string list \<Rightarrow> ObserverEvent list \<Rightarrow> string list" where
  "relevant bl es =
     rev (map oe_category (filter (\<lambda>e. is_blacklisted bl (oe_path e) = Some False) es))"

lemma process_event_some:
  "process_event e d = Some d' \<longleftrightarrow>
     is_blacklisted (de_blacklist d) (oe_path e) = Some True \<and> d' = d \<or>
     is_blacklisted (de_blacklist d) (oe_path e) = Some False \<and>
       d' = d\<lparr>de_current_drift := bump (oe_category e) (de_current_drift d)\<rparr>"
  by (auto simp: process_event_def split: if_splits)


lemma process_events_counts:
  assumes "process_events es d = Some d'" "de_current_drift d = drift_of cs"
  shows "de_current_drift d' = drift_of (relevant (de_blacklist d) es @ cs) \<and>
    de_blacklist d' = de_blacklist d \<and> de_weights d' = de_weights d"
  using assms
proof (induction es arbitrary: d cs)
  case Nil
  then show ?case by (simp add: relevant_def)
next
  case (Cons e es)
  from Cons.prems(1) obtain d1 where d1: "process_event e d = Some d1" "process_events es d1 = Some d'"
    by (auto split: Option.bind_splits)
  from d1(1) consider
      "is_blacklisted (de_blacklist d) (oe_path e) = Some True" "d1 = d"
    | "is_blacklisted (de_blacklist d) (oe_path e) = Some False"
      "d1 = d\<lparr>de_current_drift := bump (oe_category e) (de_current_drift d)\<rparr>"
    unfolding process_event_some by blast
  then show ?case
  proof cases
    case 1
    then show ?thesis using Cons.IH [OF d1(2), of cs] Cons.prems(2) by (simp add: relevant_def)
  next
    case 2
    then have "de_current_drift d1 = drift_of (oe_category e # cs)"
      using Cons.prems(2) by (simp add: drift_of_Cons)
    from Cons.IH [OF d1(2) this] 2 show ?thesis by (simp add: relevant_def)
  qed
qed

subsection \<open>The magnitude grows with the drift\<close>

lemma to_f64_nonneg_cases:
  assumes "0 \<le> x"
  obtains "to_f64 x = PInf" | "to_f64 x = Fin (rnd x)" "0 \<le> rnd x"
proof (cases "rnd x \<ge> f64_limit")
  case True
  then show ?thesis using that(1) by (simp add: to_f64_def)
next
  case False
  then have "to_f64 x = Fin (rnd x)"
    using rnd_nonneg [OF assms] f64_limit_pos by (auto simp: to_f64_def)
  then show ?thesis using that(2) rnd_nonneg [OF assms] by blast
qed

lemma weighted_square_nonneg:
  assumes "0 \<le> x" "0 \<le> y"
  shows "nonneg64 (weighted_square (Fin x) (Fin y))"
proof -
  have "0 \<le> x * y" using assms by simp
  then show ?thesis
  proof (cases rule: to_f64_nonneg_cases)
    case 1
    then have "y \<noteq> 0" by auto
    with 1 assms show ?thesis by (simp add: weighted_square_def f64_mul_def signed_inf_def)
  next
    case 2
    then show ?thesis using assms by (simp add: weighted_square_def f64_mul_def to_f64_nonneg)
  qed
qed

lemma weighted_square_mono:
  assumes "0 \<le> x" "0 \<le> y" "y \<le> z"
  shows "f64_le (weighted_square (Fin x) (Fin y)) (weighted_square (Fin x) (Fin z))"
proof -
  have xy: "0 \<le> x * y" "x * y \<le> x * z" "0 \<le> x * z"
    using assms by (simp_all add: mult_left_mono)
  from xy(3) show ?thesis
  proof (cases rule: to_f64_nonneg_cases)
    case 1
    then have "z > 0" using assms by (cases "z = 0") auto
    then have "weighted_square (Fin x) (Fin z) = PInf"
      using 1 by (simp add: weighted_square_def f64_mul_def signed_inf_def)
    then show ?thesis using weighted_square_nonneg [OF assms(1,2)] f64_le_not_nan(2) by simp
  next
    case 2
    have "to_f64 (x * y) \<noteq> PInf" using to_f64_mono [OF xy(2)] 2 by auto
    then have "to_f64 (x * y) = Fin (rnd (x * y))" using to_f64_nonneg_cases [OF xy(1)] by blast
    moreover have "rnd (x * y) * y \<le> rnd (x * z) * z"
      using rnd_mono [OF xy(2)] rnd_nonneg [OF xy(1)] rnd_nonneg [OF xy(3)] assms by (intro mult_mono)
    ultimately show ?thesis using 2 by (simp add: weighted_square_def f64_mul_def to_f64_mono)
  qed
qed

lemma f64_add_nonneg: "nonneg64 a \<Longrightarrow> nonneg64 b \<Longrightarrow> nonneg64 (f64_add a b)"
  by (cases a; cases b) (simp_all add: f64_add_def to_f64_nonneg)

lemma f64_add_mono:
  "nonneg64 a \<Longrightarrow> nonneg64 b \<Longrightarrow> f64_le a a' \<Longrightarrow> f64_le b b' \<Longrightarrow> f64_le (f64_add a b) (f64_add a' b')"
  by (cases a; cases b; cases a'; cases b') (simp_all add: f64_add_def to_f64_mono add_mono)

lemma f64_sqrt_mono: "nonneg64 a \<Longrightarrow> f64_le a b \<Longrightarrow> f64_le (f64_sqrt a) (f64_sqrt b)"
  by (cases a; cases b) (simp_all add: sqrt_rnd_mono)

lemma f64_sqrt_nonneg: "nonneg64 a \<Longrightarrow> nonneg64 (f64_sqrt a)"
  by (cases a) (simp_all add: sqrt_rnd_nonneg)

fun finite_nonneg :: "F64 \<Rightarrow> bool" where
  "finite_nonneg (Fin x) = (0 \<le> x)"
| "finite_nonneg _ = False"

definition weights_ok :: "DriftWeights \<Rightarrow> bool" where
  "weights_ok w \<longleftrightarrow> list_all finite_nonneg [dw_mounts w, dw_files w, dw_network w, dw_services w,
     dw_kernel w, dw_packages w, dw_gpu w]"

lemma finite_nonnegE: "finite_nonneg a \<Longrightarrow> \<exists>x. a = Fin x \<and> 0 \<le> x"
  by (cases a) simp_all

lemma counted_mono: "f64_le (counted c cs) (counted c (ds @ cs))"
proof -
  have "min (length (filter ((=) c) cs)) (2 ^ 53) \<le> min (length (filter ((=) c) (ds @ cs))) (2 ^ 53)"
    by (intro min.mono) simp_all
  then have "(of_nat (min (length (filter ((=) c) cs)) (2 ^ 53)) :: rat) \<le>
      of_nat (min (length (filter ((=) c) (ds @ cs))) (2 ^ 53))"
    by (simp only: of_nat_le_iff)
  then show ?thesis by (simp add: counted_def counter_def)
qed

lemma counted_finite: "finite_nonneg (counted c cs)"
  by (simp add: counted_def counter_def)

lemma square_counted:
  assumes "finite_nonneg w"
  shows "nonneg64 (weighted_square w (counted c cs))"
    "f64_le (weighted_square w (counted c cs)) (weighted_square w (counted c (ds @ cs)))"
proof -
  obtain x y z where "w = Fin x" "0 \<le> x" "counted c cs = Fin y" "0 \<le> y"
      "counted c (ds @ cs) = Fin z"
    using finite_nonnegE assms counted_finite by metis
  moreover have "y \<le> z" using calculation counted_mono [of c cs ds] by simp
  ultimately show "nonneg64 (weighted_square w (counted c cs))"
    "f64_le (weighted_square w (counted c cs)) (weighted_square w (counted c (ds @ cs)))"
    by (simp_all add: weighted_square_nonneg weighted_square_mono)
qed

lemma drift_sum_nonneg: "weights_ok w \<Longrightarrow> nonneg64 (drift_sum w (drift_of cs))"
  unfolding drift_sum_def drift_of_def weights_ok_def
  by (simp add: f64_add_nonneg square_counted(1))

lemma drift_sum_mono:
  "weights_ok w \<Longrightarrow> f64_le (drift_sum w (drift_of cs)) (drift_sum w (drift_of (ds @ cs)))"
  unfolding drift_sum_def drift_of_def weights_ok_def
  by (simp add: f64_add_nonneg f64_add_mono square_counted)

lemma drift_magnitude_nonneg: "weights_ok w \<Longrightarrow> nonneg64 (drift_magnitude w (drift_of cs))"
  by (simp add: drift_magnitude_def f64_sqrt_nonneg drift_sum_nonneg)

lemma drift_magnitude_mono:
  "weights_ok w \<Longrightarrow>
   f64_le (drift_magnitude w (drift_of cs)) (drift_magnitude w (drift_of (ds @ cs)))"
  by (simp add: drift_magnitude_def f64_sqrt_mono drift_sum_nonneg drift_sum_mono)

lemma default_weights_ok: "weights_ok default_weights"
  by (simp add: weights_ok_def default_weights_def)


subsection \<open>Drift and the commit window\<close>

text \<open>
  C13. Drift shortens the commit window: the evaluator counts, per category, exactly the events
  that are not blacklisted (saturating at \<open>2 ^ 53\<close>), and whatever events arrive later, the commit
  window computed from the drift never gets longer, is never shorter than a minute and never
  longer than the configured base window (or a minute, if that is less).
\<close>

theorem drift_shortens_window:
  assumes "process_events es (drift_new bl w) = Some d" "process_events es' d = Some d'"
    and "weights_ok w" "nonneg64 (cw_drift_sensitivity c)"
  shows "de_current_drift d = drift_of (relevant bl es) \<and>
    calculate_window_seconds c (magnitude d') \<le> calculate_window_seconds c (magnitude d) \<and>
    60 \<le> calculate_window_seconds c (magnitude d') \<and>
    calculate_window_seconds c (magnitude d) \<le> max (cw_base_window_seconds c) 60"
proof -
  have d: "de_current_drift d = drift_of (relevant bl es)" "de_weights d = w" "de_blacklist d = bl"
    using process_events_counts [OF assms(1), of "[]"] by (simp_all add: drift_new_def drift_of_Nil)
  have d': "de_current_drift d' = drift_of (relevant bl es' @ relevant bl es)" "de_weights d' = w"
    using process_events_counts [OF assms(2) d(1)] d by simp_all
  have "nonneg64 (magnitude d)" "f64_le (magnitude d) (magnitude d')"
    using assms(3) by (simp_all add: magnitude_def d d' drift_magnitude_nonneg drift_magnitude_mono)
  then show ?thesis
    using calculate_antitone [OF _ _ assms(4)] calculate_at_least calculate_at_most [OF _ assms(4)] d(1)
    by blast
qed

definition mount_event :: ObserverEvent where
  "mount_event = \<lparr>oe_category = ''mount'', oe_path = ''/data'', oe_detail = [], oe_timestamp = 0\<rparr>"

theorem drift_shortens_window_witness:
  "\<exists>d d'. process_events [mount_event] (drift_new [''/tmp/**''] default_weights) = Some d \<and>
     process_events [mount_event] d = Some d' \<and> nonneg64 (cw_drift_sensitivity default_window_config) \<and>
     calculate_window_seconds default_window_config (magnitude d') \<le>
       calculate_window_seconds default_window_config (magnitude d)"
proof -
  have "is_blacklisted [''/tmp/**''] ''/data'' = Some False" by code_simp
  then have ok: "\<exists>d'. process_events [mount_event] d = Some d' \<and> de_blacklist d' = [''/tmp/**'']"
    if "de_blacklist d = [''/tmp/**'']" for d
    using that by (simp add: process_event_def mount_event_def)
  obtain d where d: "process_events [mount_event] (drift_new [''/tmp/**''] default_weights) = Some d"
      "de_blacklist d = [''/tmp/**'']"
    using ok [of "drift_new [''/tmp/**''] default_weights"] by (auto simp: drift_new_def)
  obtain d' where d': "process_events [mount_event] d = Some d'" using ok [OF d(2)] by blast
  have s: "nonneg64 (cw_drift_sensitivity default_window_config)"
    by (simp add: default_window_config_def)
  show ?thesis
    using drift_shortens_window [OF d(1) d' default_weights_ok s] d(1) d' s by blast
qed

end
