(* ===== verification/Supervisor.thy ===== *)
theory Supervisor
  imports Rust_Strings Rust_Numbers "HOL-Library.Multiset"
begin

text \<open>
  Process supervision, \<open>crates/pact-agent/src/supervisor\<close>: the table of processes, the operations
  of \<open>PactSupervisor\<close> (start, stop, restart, status, health, all services at once), one round of
  the supervision loop, and the backend that delegates to systemd. The operating system and the
  cgroup library are parameters (the record \<open>SupEnv\<close>); what is done to them is recorded in order
  as a list of effects. A child process is known by its identifier.
\<close>

subsection \<open>Declarations\<close>

datatype ServiceState =
  SvcStarting | SvcRunning | SvcStopping | SvcStopped | SvcFailed | SvcRestarting

datatype RestartPolicy = RestartAlways | RestartOnFailure | RestartNever

datatype HealthCheckType = CheckProcess | CheckHttp string | CheckTcp u16

record HealthCheck =
  hc_check_type :: HealthCheckType
  hc_interval_seconds :: u32

record ServiceDecl =
  sd_name :: string
  sd_binary :: string
  sd_args :: "string list"
  sd_restart :: RestartPolicy
  sd_restart_delay_seconds :: u32
  sd_depends_on :: "string list"
  sd_order :: u32
  sd_cgroup_memory_max :: "string option"
  sd_cgroup_slice :: "string option"
  sd_cgroup_cpu_weight :: "u16 option"
  sd_health_check :: "HealthCheck option"

record ResourceLimits =
  rl_memory_max :: "u64 option"
  rl_cpu_weight :: "u16 option"

record ServiceStatus =
  st_name :: string
  st_state :: ServiceState
  st_pid :: "u32 option"
  st_restarts :: u32
  st_last_exit_code :: "int option"

record HealthCheckResult =
  hr_healthy :: bool
  hr_detail :: string

subsection \<open>The supervisor\<close>

record ProcessState =
  ps_state :: ServiceState
  ps_pid :: "u32 option"
  ps_restarts :: u32
  ps_last_exit_code :: "int option"
  ps_child :: "u32 option"
  ps_cgroup_handle :: "string option"

record SupervisionConfig =
  sc_idle_interval_ms :: u64
  sc_active_interval_ms :: u64

definition default_supervision_config :: SupervisionConfig where
  "default_supervision_config = \<lparr>sc_idle_interval_ms = 500, sc_active_interval_ms = 2000\<rparr>"

record PactSupervisor =
  pv_processes :: "(string, ProcessState) hashmap"
  pv_service_decls :: "ServiceDecl list"
  pv_shutdown_grace_seconds :: u64
  pv_supervision_config :: SupervisionConfig
  pv_cgroup_manager :: bool

definition supervisor_new :: PactSupervisor where
  "supervisor_new = \<lparr>pv_processes = [], pv_service_decls = [], pv_shutdown_grace_seconds = 10,
     pv_supervision_config = default_supervision_config, pv_cgroup_manager = False\<rparr>"

definition with_config :: "SupervisionConfig \<Rightarrow> PactSupervisor" where
  "with_config c = supervisor_new\<lparr>pv_supervision_config := c\<rparr>"

definition with_cgroup_manager :: "PactSupervisor \<Rightarrow> PactSupervisor" where
  "with_cgroup_manager sv = sv\<lparr>pv_cgroup_manager := True\<rparr>"

text \<open>
  What the operating system answers: a spawn, whether a child has exited (with its code, or none
  when it was ended by a signal), how it ends within the grace period, the creation of a cgroup
  scope, and health probes.
\<close>

datatype GraceOutcome = GraceExited "int option" | GraceWaitError | GraceExpired

record SupEnv =
  se_spawn :: "ServiceDecl \<Rightarrow> string + u32"
  se_try_wait :: "u32 \<Rightarrow> int option option"
  se_wait_grace :: "u32 \<Rightarrow> GraceOutcome"
  se_create_scope :: "string \<Rightarrow> string \<Rightarrow> ResourceLimits \<Rightarrow> string + string"
  se_default_slice :: string
  se_http_get :: "string \<Rightarrow> string + bool \<times> string"
  se_tcp_connect :: "u16 \<Rightarrow> string + unit"

datatype sup_effect =
    EffSpawn string u32
  | EffTerm u32
  | EffKill u32
  | EffCreateScope string
  | EffDestroyScope string
  | EffAudit string string "int option" bool
  | EffSleepSeconds nat
  | EffSleepMillis nat
  | EffPet

definition parse_memory_value :: "string \<Rightarrow> u64 option" where
  "parse_memory_value s0 = (let s = trim s0 in
     if s = [] then None
     else
       let suffixed = (\<lambda>up low. case strip_suffix up s of Some n \<Rightarrow> Some n | None \<Rightarrow> strip_suffix low s);
           (num, multiplier) =
             (case suffixed ''G'' ''g'' of Some n \<Rightarrow> (n, 1024 * 1024 * 1024)
              | None \<Rightarrow> (case suffixed ''M'' ''m'' of Some n \<Rightarrow> (n, 1024 * 1024)
              | None \<Rightarrow> (case suffixed ''K'' ''k'' of Some n \<Rightarrow> (n, 1024)
              | None \<Rightarrow> (s, 1 :: u64))))
       in map_option (\<lambda>v. of_nat v * multiplier) (parse_unsigned (2 ^ 64) (trim num)))"

definition resource_limits :: "ServiceDecl \<Rightarrow> ResourceLimits" where
  "resource_limits d = \<lparr>
     rl_memory_max = Option.bind (sd_cgroup_memory_max d) parse_memory_value,
     rl_cpu_weight = sd_cgroup_cpu_weight d\<rparr>"

definition cgroup_slice :: "SupEnv \<Rightarrow> ServiceDecl \<Rightarrow> string" where
  "cgroup_slice env d = (case sd_cgroup_slice d of Some s \<Rightarrow> s | None \<Rightarrow> se_default_slice env)"

definition sorted_services :: "ServiceDecl list \<Rightarrow> ServiceDecl list" where
  "sorted_services = sort_key sd_order"

text \<open>Creation of a scope before a spawn; a failure is logged and the service runs without one.\<close>

definition create_scope_for :: "SupEnv \<Rightarrow> PactSupervisor \<Rightarrow> ServiceDecl \<Rightarrow> string option" where
  "create_scope_for env sv d =
     (if pv_cgroup_manager sv then
        (case se_create_scope env (cgroup_slice env d) (sd_name d) (resource_limits d) of
           Inr handle \<Rightarrow> Some handle | Inl e \<Rightarrow> None)
      else None)"

definition scope_effect :: "(string \<Rightarrow> sup_effect) \<Rightarrow> string option \<Rightarrow> sup_effect list" where
  "scope_effect f h = (case h of Some handle \<Rightarrow> [f handle] | None \<Rightarrow> [])"

definition start ::
  "SupEnv \<Rightarrow> ServiceDecl \<Rightarrow> PactSupervisor \<Rightarrow> PactSupervisor \<times> sup_effect list \<times> (string + unit)" where
  "start env d sv =
     (let ps = hm_get (pv_processes sv) (sd_name d) in
      if (case ps of Some p \<Rightarrow> ps_state p = SvcRunning | None \<Rightarrow> False) then (sv, [], Inr ())
      else
        let prev_restarts = (case ps of Some p \<Rightarrow> ps_restarts p | None \<Rightarrow> 0);
            handle = create_scope_for env sv d
        in case se_spawn env d of
          Inr pid \<Rightarrow>
            (sv\<lparr>pv_processes := hm_insert (sd_name d) \<lparr>ps_state = SvcRunning, ps_pid = Some pid,
               ps_restarts = prev_restarts, ps_last_exit_code = None, ps_child = Some pid,
               ps_cgroup_handle = handle\<rparr> (pv_processes sv)\<rparr>,
             scope_effect EffCreateScope handle @ [EffSpawn (sd_name d) pid], Inr ())
        | Inl e \<Rightarrow>
            (sv, scope_effect EffCreateScope handle @ scope_effect EffDestroyScope handle, Inl e))"

definition stop_child :: "SupEnv \<Rightarrow> ProcessState \<Rightarrow> sup_effect list \<times> int option" where
  "stop_child env p = (case ps_child p of
     None \<Rightarrow> ([], ps_last_exit_code p)
   | Some pid \<Rightarrow> (case se_wait_grace env pid of
       GraceExited code \<Rightarrow> ([EffTerm pid], code)
     | GraceWaitError \<Rightarrow> ([EffTerm pid], ps_last_exit_code p)
     | GraceExpired \<Rightarrow> ([EffTerm pid, EffKill pid], ps_last_exit_code p)))"

definition stop :: "SupEnv \<Rightarrow> ServiceDecl \<Rightarrow> PactSupervisor \<Rightarrow> PactSupervisor \<times> sup_effect list" where
  "stop env d sv = (case hm_get (pv_processes sv) (sd_name d) of
     None \<Rightarrow> (sv, [])
   | Some p \<Rightarrow>
       if ps_state p \<noteq> SvcRunning then (sv, [])
       else case stop_child env p of (effects, code) \<Rightarrow>
         (sv\<lparr>pv_processes := hm_insert (sd_name d)
            (p\<lparr>ps_state := SvcStopped, ps_last_exit_code := code, ps_child := None, ps_pid := None,
               ps_cgroup_handle := None\<rparr>) (pv_processes sv)\<rparr>,
          effects @ (if pv_cgroup_manager sv then scope_effect EffDestroyScope (ps_cgroup_handle p) else [])))"

definition mark_restarting :: "string \<Rightarrow> PactSupervisor \<Rightarrow> PactSupervisor" where
  "mark_restarting name sv = (case hm_get (pv_processes sv) name of
     None \<Rightarrow> sv
   | Some p \<Rightarrow> sv\<lparr>pv_processes := hm_insert name
       (p\<lparr>ps_restarts := ps_restarts p + 1, ps_state := SvcRestarting\<rparr>) (pv_processes sv)\<rparr>)"

definition delay_effect :: "ServiceDecl \<Rightarrow> sup_effect list" where
  "delay_effect d = (if 0 < sd_restart_delay_seconds d
     then [EffSleepSeconds (unat (sd_restart_delay_seconds d))] else [])"

definition restart ::
  "SupEnv \<Rightarrow> ServiceDecl \<Rightarrow> PactSupervisor \<Rightarrow> PactSupervisor \<times> sup_effect list \<times> (string + unit)" where
  "restart env d sv = (case stop env d sv of (sv1, effects1) \<Rightarrow>
     (case start env d (mark_restarting (sd_name d) sv1) of (sv2, effects2, r) \<Rightarrow>
        (sv2, effects1 @ delay_effect d @ effects2, r)))"

text \<open>\<open>try_wait\<close> on the child of an entry that is thought to be running.\<close>

definition exited :: "SupEnv \<Rightarrow> ProcessState \<Rightarrow> int option option" where
  "exited env p = (if ps_state p = SvcRunning
     then (case ps_child p of Some pid \<Rightarrow> se_try_wait env pid | None \<Rightarrow> None) else None)"

definition status :: "SupEnv \<Rightarrow> ServiceDecl \<Rightarrow> PactSupervisor \<Rightarrow> PactSupervisor \<times> ServiceStatus" where
  "status env d sv = (case hm_get (pv_processes sv) (sd_name d) of
     None \<Rightarrow> (sv, \<lparr>st_name = sd_name d, st_state = SvcStopped, st_pid = None, st_restarts = 0,
       st_last_exit_code = None\<rparr>)
   | Some p \<Rightarrow>
       let p' = (case exited env p of
             Some code \<Rightarrow> p\<lparr>ps_last_exit_code := code, ps_child := None, ps_pid := None,
               ps_state := SvcFailed\<rparr>
           | None \<Rightarrow> p)
       in (sv\<lparr>pv_processes := hm_insert (sd_name d) p' (pv_processes sv)\<rparr>,
           \<lparr>st_name = sd_name d, st_state = ps_state p', st_pid = ps_pid p',
            st_restarts = ps_restarts p', st_last_exit_code = ps_last_exit_code p'\<rparr>))"

fun debug_ServiceState :: "ServiceState \<Rightarrow> string" where
  "debug_ServiceState SvcStarting = ''Starting''"
| "debug_ServiceState SvcRunning = ''Running''"
| "debug_ServiceState SvcStopping = ''Stopping''"
| "debug_ServiceState SvcStopped = ''Stopped''"
| "debug_ServiceState SvcFailed = ''Failed''"
| "debug_ServiceState SvcRestarting = ''Restarting''"

definition health :: "SupEnv \<Rightarrow> ServiceDecl \<Rightarrow> PactSupervisor \<Rightarrow> PactSupervisor \<times> HealthCheckResult" where
  "health env d sv = (case status env d sv of (sv', st) \<Rightarrow>
     (sv', if st_state st \<noteq> SvcRunning then
        \<lparr>hr_healthy = False, hr_detail = ''service is '' @ debug_ServiceState (st_state st)\<rparr>
      else (case map_option hc_check_type (sd_health_check d) of
          None \<Rightarrow> \<lparr>hr_healthy = True, hr_detail = ''process alive''\<rparr>
        | Some CheckProcess \<Rightarrow> \<lparr>hr_healthy = True, hr_detail = ''process alive''\<rparr>
        | Some (CheckHttp url) \<Rightarrow> (case se_http_get env url of
            Inr (ok, shown) \<Rightarrow> \<lparr>hr_healthy = ok, hr_detail = ''HTTP '' @ shown\<rparr>
          | Inl e \<Rightarrow> \<lparr>hr_healthy = False, hr_detail = ''HTTP check failed: '' @ e\<rparr>)
        | Some (CheckTcp port) \<Rightarrow> (case se_tcp_connect env port of
            Inr _ \<Rightarrow> \<lparr>hr_healthy = True, hr_detail = ''TCP port '' @ show_nat (unat port) @ '' open''\<rparr>
          | Inl e \<Rightarrow> \<lparr>hr_healthy = False,
              hr_detail = ''TCP port '' @ show_nat (unat port) @ '' closed: '' @ e\<rparr>))))"

fun start_each ::
  "SupEnv \<Rightarrow> ServiceDecl list \<Rightarrow> PactSupervisor \<Rightarrow> PactSupervisor \<times> sup_effect list \<times> (string + unit)" where
  "start_each env [] sv = (sv, [], Inr ())"
| "start_each env (d # ds) sv = (case start env d sv of
     (sv1, effects, Inl e) \<Rightarrow> (sv1, effects, Inl e)
   | (sv1, effects, Inr _) \<Rightarrow> (case start_each env ds sv1 of
       (sv2, effects', r) \<Rightarrow> (sv2, effects @ effects', r)))"

definition start_all ::
  "SupEnv \<Rightarrow> ServiceDecl list \<Rightarrow> PactSupervisor \<Rightarrow> PactSupervisor \<times> sup_effect list \<times> (string + unit)" where
  "start_all env ds sv = start_each env (sorted_services ds) (sv\<lparr>pv_service_decls := ds\<rparr>)"

fun stop_each :: "SupEnv \<Rightarrow> ServiceDecl list \<Rightarrow> PactSupervisor \<Rightarrow> PactSupervisor \<times> sup_effect list" where
  "stop_each env [] sv = (sv, [])"
| "stop_each env (d # ds) sv = (case stop env d sv of (sv1, effects) \<Rightarrow>
     (case stop_each env ds sv1 of (sv2, effects') \<Rightarrow> (sv2, effects @ effects')))"

definition stop_all :: "SupEnv \<Rightarrow> ServiceDecl list \<Rightarrow> PactSupervisor \<Rightarrow> PactSupervisor \<times> sup_effect list" where
  "stop_all env ds sv = stop_each env (rev (sorted_services ds)) sv"

subsection \<open>The supervision loop\<close>

definition crashed_entry :: "SupEnv \<Rightarrow> ProcessState \<Rightarrow> ProcessState" where
  "crashed_entry env p = (case exited env p of
     Some code \<Rightarrow> p\<lparr>ps_last_exit_code := code, ps_child := None, ps_pid := None,
       ps_state := SvcFailed, ps_restarts := ps_restarts p + 1\<rparr>
   | None \<Rightarrow> p)"

definition detect_crashed_services ::
  "SupEnv \<Rightarrow> PactSupervisor \<Rightarrow> PactSupervisor \<times> (string \<times> int option) list" where
  "detect_crashed_services env sv =
     (sv\<lparr>pv_processes := hm_map (\<lambda>_. crashed_entry env) (pv_processes sv)\<rparr>,
      List.map_filter (\<lambda>(name, p). map_option (\<lambda>code. (name, code)) (exited env p)) (pv_processes sv))"

definition do_restart ::
  "SupEnv \<Rightarrow> ServiceDecl \<Rightarrow> PactSupervisor \<Rightarrow> PactSupervisor \<times> sup_effect list \<times> (string + unit)" where
  "do_restart env d sv =
     (let old = hm_get (pv_processes sv) (sd_name d);
          destroyed = (case old of
              Some p \<Rightarrow> if pv_cgroup_manager sv then scope_effect EffDestroyScope (ps_cgroup_handle p) else []
            | None \<Rightarrow> []);
          sv1 = (case old of
              Some p \<Rightarrow> sv\<lparr>pv_processes := hm_insert (sd_name d) (p\<lparr>ps_cgroup_handle := None\<rparr>) (pv_processes sv)\<rparr>
            | None \<Rightarrow> sv);
          handle = create_scope_for env sv1 d;
          created = scope_effect EffCreateScope handle
      in case se_spawn env d of
        Inl e \<Rightarrow> (sv1, destroyed @ created, Inl e)
      | Inr pid \<Rightarrow>
          (sv1\<lparr>pv_processes := hm_insert (sd_name d)
             (case hm_get (pv_processes sv1) (sd_name d) of
                Some p \<Rightarrow> p\<lparr>ps_state := SvcRunning, ps_pid := Some pid, ps_child := Some pid,
                  ps_cgroup_handle := handle\<rparr>
              | None \<Rightarrow> \<lparr>ps_state = SvcRunning, ps_pid = Some pid, ps_restarts = 1,
                  ps_last_exit_code = None, ps_child = Some pid, ps_cgroup_handle = handle\<rparr>)
             (pv_processes sv1)\<rparr>,
           destroyed @ created @ [EffSpawn (sd_name d) pid], Inr ()))"

definition should_restart :: "RestartPolicy \<Rightarrow> int option \<Rightarrow> bool" where
  "should_restart policy code = (case policy of
     RestartAlways \<Rightarrow> True
   | RestartOnFailure \<Rightarrow> (case code of None \<Rightarrow> True | Some c \<Rightarrow> c \<noteq> 0)
   | RestartNever \<Rightarrow> False)"

definition not_restarted :: "ServiceDecl \<Rightarrow> PactSupervisor \<Rightarrow> PactSupervisor" where
  "not_restarted d sv = (case hm_get (pv_processes sv) (sd_name d) of
     None \<Rightarrow> sv
   | Some p \<Rightarrow> if sd_restart d = RestartNever
       then sv\<lparr>pv_processes := hm_insert (sd_name d) (p\<lparr>ps_state := SvcStopped\<rparr>) (pv_processes sv)\<rparr>
       else sv)"

definition find_decl :: "ServiceDecl list \<Rightarrow> string \<Rightarrow> ServiceDecl option" where
  "find_decl decls name = find (\<lambda>d. sd_name d = name) decls"

definition handle_crash ::
  "SupEnv \<Rightarrow> string \<Rightarrow> ServiceDecl \<Rightarrow> int option \<Rightarrow> PactSupervisor \<Rightarrow> PactSupervisor \<times> sup_effect list" where
  "handle_crash env node_id d code sv =
     (let restart = should_restart (sd_restart d) code;
          audit = EffAudit node_id (sd_name d) code restart
      in if restart then
           (case do_restart env d sv of (sv1, effects, _) \<Rightarrow> (sv1, audit # delay_effect d @ effects))
         else (not_restarted d sv, [audit]))"

fun handle_crashes ::
  "SupEnv \<Rightarrow> string \<Rightarrow> ServiceDecl list \<Rightarrow> (string \<times> int option) list \<Rightarrow> PactSupervisor \<Rightarrow>
   PactSupervisor \<times> sup_effect list" where
  "handle_crashes env node_id decls [] sv = (sv, [])"
| "handle_crashes env node_id decls ((name, code) # cs) sv =
     (case find_decl decls name of
        None \<Rightarrow> handle_crashes env node_id decls cs sv
      | Some d \<Rightarrow> (case handle_crash env node_id d code sv of (sv1, effects) \<Rightarrow>
          (case handle_crashes env node_id decls cs sv1 of (sv2, effects') \<Rightarrow>
             (sv2, effects @ effects'))))"

definition supervision_tick ::
  "SupEnv \<Rightarrow> string \<Rightarrow> bool \<Rightarrow> bool \<Rightarrow> PactSupervisor \<Rightarrow> PactSupervisor \<times> sup_effect list" where
  "supervision_tick env node_id has_watchdog is_active sv =
     (let c = pv_supervision_config sv;
          interval_ms = (if is_active then sc_active_interval_ms c else sc_idle_interval_ms c)
      in case detect_crashed_services env sv of (sv1, crashed) \<Rightarrow>
        (case handle_crashes env node_id (pv_service_decls sv1) crashed sv1 of (sv2, effects) \<Rightarrow>
           (sv2, (if has_watchdog then [EffPet] else []) @ effects @ [EffSleepMillis (unat interval_ms)])))"

subsection \<open>Memory limits\<close>

lemma digit_char: "is_digit c \<Longrightarrow> is_ascii c \<and> \<not> ascii_whitespace c \<and> c \<notin> set ''GgMmKk''"
  by (auto simp: is_digit_def is_ascii_def ascii_whitespace_def Let_def)

lemma show_nat_chars: "c \<in> set (show_nat n) \<Longrightarrow> is_ascii c \<and> \<not> ascii_whitespace c \<and> c \<notin> set ''GgMmKk''"
  using show_nat_digits [of n] digit_char unfolding list_all_iff by blast

lemma trim_show_nat [simp]: "trim (show_nat n) = show_nat n"
  using show_nat_chars [of "hd (show_nat n)" n] show_nat_chars [of "last (show_nat n)" n]
  by (intro trim_ascii_id) (auto simp: list_all_iff show_nat_chars)

lemma trim_show_nat_suffixed:
  "c \<in> set ''GgMmKk'' \<Longrightarrow> trim (show_nat n @ [c]) = show_nat n @ [c]"
proof (rule trim_ascii_id)
  assume c: "c \<in> set ''GgMmKk''"
  then show "list_all is_ascii (show_nat n @ [c])"
    using show_nat_chars by (auto simp: list_all_iff is_ascii_def)
  show "show_nat n @ [c] = [] \<or> \<not> ascii_whitespace (hd (show_nat n @ [c])) \<and>
      \<not> ascii_whitespace (last (show_nat n @ [c]))"
    using c show_nat_chars [of "hd (show_nat n)" n] by (auto simp: ascii_whitespace_def)
qed

lemma parse_memory_suffixes:
  assumes "n < 2 ^ 64"
  shows "parse_memory_value (show_nat n) = Some (of_nat n)"
    and "parse_memory_value (show_nat n @ ''K'') = Some (of_nat n * 2 ^ 10)"
    and "parse_memory_value (show_nat n @ ''M'') = Some (of_nat n * 2 ^ 20)"
    and "parse_memory_value (show_nat n @ ''G'') = Some (of_nat n * 2 ^ 30)"
proof -
  have "\<not> suffix [c] (show_nat n)" if "c \<in> set ''GgMmKk''" for c
    using show_nat_chars [of c n] that by (auto simp: suffix_def)
  then have none: "strip_suffix [c] (show_nat n) = None" if "c \<in> set ''GgMmKk''" for c
    using that unfolding strip_suffix_None_iff by blast
  show "parse_memory_value (show_nat n) = Some (of_nat n)"
    using assms by (simp add: parse_memory_value_def Let_def none)
  show "parse_memory_value (show_nat n @ ''K'') = Some (of_nat n * 2 ^ 10)"
    "parse_memory_value (show_nat n @ ''M'') = Some (of_nat n * 2 ^ 20)"
    "parse_memory_value (show_nat n @ ''G'') = Some (of_nat n * 2 ^ 30)"
    using assms by (simp_all add: parse_memory_value_def Let_def trim_show_nat_suffixed strip_suffix_def
        suffix_def)
qed

text \<open>A limit of \<open>2 ^ 64\<close> bytes or more wraps: 16 EiB, written in GiB, is read as no memory at all.\<close>

lemma parse_memory_wraps: "parse_memory_value (show_nat 17179869184 @ ''G'') = Some 0"
  using parse_memory_suffixes(4) [of 17179869184] by simp

subsection \<open>The table stays consistent\<close>

text \<open>A service is running exactly when its child is held, under the identifier recorded for it.\<close>

definition entry_ok :: "ProcessState \<Rightarrow> bool" where
  "entry_ok p \<longleftrightarrow> (ps_state p = SvcRunning \<longleftrightarrow> ps_child p \<noteq> None) \<and> ps_pid p = ps_child p"

definition supervisor_inv :: "PactSupervisor \<Rightarrow> bool" where
  "supervisor_inv sv \<longleftrightarrow> hm_inv (pv_processes sv) \<and>
     (\<forall>name p. hm_get (pv_processes sv) name = Some p \<longrightarrow> entry_ok p)"

lemma supervisor_inv_new: "supervisor_inv supervisor_new"
  by (simp add: supervisor_inv_def supervisor_new_def)

lemma supervisor_inv_insert:
  "supervisor_inv sv \<Longrightarrow> entry_ok p \<Longrightarrow>
   supervisor_inv (sv\<lparr>pv_processes := hm_insert name p (pv_processes sv)\<rparr>)"
  by (simp add: supervisor_inv_def)

lemma supervisor_invD: "supervisor_inv sv \<Longrightarrow> hm_get (pv_processes sv) name = Some p \<Longrightarrow> entry_ok p"
  by (simp add: supervisor_inv_def)

lemma start_inv [inv_intros]: "supervisor_inv sv \<Longrightarrow> supervisor_inv (fst (start env d sv))"
  by (auto simp: start_def Let_def entry_ok_def intro!: supervisor_inv_insert split: sum.splits)

lemma stop_inv [inv_intros]: "supervisor_inv sv \<Longrightarrow> supervisor_inv (fst (stop env d sv))"
  by (auto simp: stop_def entry_ok_def intro!: supervisor_inv_insert split: option.splits prod.splits)

lemma mark_restarting_inv:
  assumes "supervisor_inv sv" "\<And>p. hm_get (pv_processes sv) name = Some p \<Longrightarrow> ps_state p \<noteq> SvcRunning"
  shows "supervisor_inv (mark_restarting name sv)"
  using assms
  by (auto simp: mark_restarting_def entry_ok_def intro!: supervisor_inv_insert
      dest: supervisor_invD split: option.splits)

lemma stop_not_running:
  "hm_get (pv_processes (fst (stop env d sv))) (sd_name d) = Some p \<Longrightarrow> ps_state p \<noteq> SvcRunning"
  by (auto simp: stop_def split: option.splits prod.splits if_splits)

lemma restart_inv [inv_intros]: "supervisor_inv sv \<Longrightarrow> supervisor_inv (fst (restart env d sv))"
proof -
  assume "supervisor_inv sv"
  then have "supervisor_inv (mark_restarting (sd_name d) (fst (stop env d sv)))"
    by (intro mark_restarting_inv stop_inv stop_not_running)
  then have "supervisor_inv (fst (start env d (mark_restarting (sd_name d) (fst (stop env d sv)))))"
    by (rule start_inv)
  then show ?thesis
    by (simp add: restart_def case_prod_beta)
qed

lemma status_inv [inv_intros]: "supervisor_inv sv \<Longrightarrow> supervisor_inv (fst (status env d sv))"
  by (auto simp: status_def Let_def entry_ok_def intro!: supervisor_inv_insert
      dest: supervisor_invD split: option.splits)

lemma entry_ok_crashed: "entry_ok p \<Longrightarrow> entry_ok (crashed_entry env p)"
  by (auto simp: crashed_entry_def entry_ok_def split: option.splits)

lemma detect_inv [inv_intros]: "supervisor_inv sv \<Longrightarrow> supervisor_inv (fst (detect_crashed_services env sv))"
  by (auto simp: supervisor_inv_def detect_crashed_services_def hm_get_map entry_ok_crashed)

lemma do_restart_inv [inv_intros]: "supervisor_inv sv \<Longrightarrow> supervisor_inv (fst (do_restart env d sv))"
proof (cases "hm_get (pv_processes sv) (sd_name d)")
  case None
  assume "supervisor_inv sv"
  with None show ?thesis
    by (auto simp: do_restart_def Let_def entry_ok_def intro!: supervisor_inv_insert split: sum.splits)
next
  case (Some p)
  assume inv: "supervisor_inv sv"
  then have "entry_ok (p\<lparr>ps_cgroup_handle := None\<rparr>)"
    using Some by (auto simp: entry_ok_def dest: supervisor_invD)
  with inv Some show ?thesis
    by (auto simp: do_restart_def Let_def supervisor_inv_def split: sum.splits) (simp add: entry_ok_def)
qed

lemma not_restarted_inv:
  assumes "supervisor_inv sv" "\<And>p. hm_get (pv_processes sv) (sd_name d) = Some p \<Longrightarrow> ps_state p \<noteq> SvcRunning"
  shows "supervisor_inv (not_restarted d sv)"
  using assms
  by (auto simp: not_restarted_def entry_ok_def intro!: supervisor_inv_insert
      dest: supervisor_invD split: option.splits)

subsection \<open>One round of supervision\<close>

lemma detect_frame [simp]:
  "pv_service_decls (fst (detect_crashed_services env sv)) = pv_service_decls sv"
  "pv_cgroup_manager (fst (detect_crashed_services env sv)) = pv_cgroup_manager sv"
  by (simp_all add: detect_crashed_services_def)

lemma detect_get:
  "hm_get (pv_processes (fst (detect_crashed_services env sv))) name =
   map_option (crashed_entry env) (hm_get (pv_processes sv) name)"
  by (simp add: detect_crashed_services_def hm_get_map)

lemma map_of_map_filter:
  "distinct (map fst m) \<Longrightarrow> map_of (List.map_filter (\<lambda>(k, v). map_option (Pair k) (f v)) m) k =
   Option.bind (map_of m k) f"
proof (induction m)
  case (Cons x m)
  have "map_of (List.map_filter (\<lambda>(k, v). map_option (Pair k) (f v)) m) k = None"
    if "k \<notin> fst ` set m"
    using that by (force simp: map_of_eq_None_iff map_filter_def)
  with Cons show ?case
    by (cases x) (auto simp: List.map_filter_simps split: option.splits)
qed (simp add: List.map_filter_simps)

lemma map_fst_map_filter:
  "map fst (List.map_filter (\<lambda>(k, v). map_option (Pair k) (f v)) m) =
   map fst (filter (\<lambda>(k, v). f v \<noteq> None) m)"
  by (induction m) (auto simp: List.map_filter_simps split: option.splits)

lemma detect_crashes:
  assumes "hm_inv (pv_processes sv)"
  shows "distinct (map fst (snd (detect_crashed_services env sv)))"
    and "map_of (snd (detect_crashed_services env sv)) name =
      Option.bind (hm_get (pv_processes sv) name) (exited env)"
proof -
  have eq: "snd (detect_crashed_services env sv) =
      List.map_filter (\<lambda>(k, v). map_option (Pair k) (exited env v)) (pv_processes sv)"
    by (simp add: detect_crashed_services_def)
  show "distinct (map fst (snd (detect_crashed_services env sv)))"
    using assms unfolding eq map_fst_map_filter hm_inv_def by (rule distinct_map_filter)
  show "map_of (snd (detect_crashed_services env sv)) name =
      Option.bind (hm_get (pv_processes sv) name) (exited env)"
    using assms by (simp add: eq map_of_map_filter hm_inv_def hm_get_def)
qed

text \<open>What the handling of a crash makes of the entry of the service.\<close>

definition handled_entry ::
  "SupEnv \<Rightarrow> bool \<Rightarrow> ServiceDecl \<Rightarrow> int option \<Rightarrow> ProcessState \<Rightarrow> ProcessState" where
  "handled_entry env mgr d code p =
     (if should_restart (sd_restart d) code then
        (case se_spawn env d of
           Inr pid \<Rightarrow> p\<lparr>ps_state := SvcRunning, ps_pid := Some pid, ps_child := Some pid,
             ps_cgroup_handle := create_scope_for env (supervisor_new\<lparr>pv_cgroup_manager := mgr\<rparr>) d\<rparr>
         | Inl _ \<Rightarrow> p\<lparr>ps_cgroup_handle := None\<rparr>)
      else if sd_restart d = RestartNever then p\<lparr>ps_state := SvcStopped\<rparr> else p)"

lemma create_scope_for_cong:
  "create_scope_for env sv d =
   create_scope_for env (supervisor_new\<lparr>pv_cgroup_manager := pv_cgroup_manager sv\<rparr>) d"
  by (simp add: create_scope_for_def)

lemma handle_crash_frame [simp]:
  "pv_cgroup_manager (fst (handle_crash env node d code sv)) = pv_cgroup_manager sv"
  by (auto simp: handle_crash_def do_restart_def not_restarted_def Let_def
      split: option.splits sum.splits prod.splits)

lemma handle_crash_get:
  assumes "hm_get (pv_processes sv) (sd_name d) = Some p"
  shows "hm_get (pv_processes (fst (handle_crash env node d code sv))) name =
    (if name = sd_name d then Some (handled_entry env (pv_cgroup_manager sv) d code p)
     else hm_get (pv_processes sv) name)"
  using assms
  by (simp add: handle_crash_def do_restart_def not_restarted_def handled_entry_def Let_def case_prod_beta
      create_scope_for_def split: sum.split)

lemma find_decl_name: "find_decl decls name = Some d \<Longrightarrow> sd_name d = name"
  by (auto simp: find_decl_def find_Some_iff)

lemma handle_crashes_get:
  assumes "distinct (map fst cs)" "fst ` set cs \<subseteq> dom (hm_get (pv_processes sv))"
  shows "hm_get (pv_processes (fst (handle_crashes env node decls cs sv))) name =
    (case (map_of cs name, find_decl decls name) of
       (Some code, Some d) \<Rightarrow> map_option (handled_entry env (pv_cgroup_manager sv) d code)
         (hm_get (pv_processes sv) name)
     | _ \<Rightarrow> hm_get (pv_processes sv) name)"
  using assms
proof (induction env node decls cs sv rule: handle_crashes.induct)
  case (2 env node decls n code cs sv)
  show ?case
  proof (cases "find_decl decls n")
    case None
    moreover have "map_of cs n = None"
      using 2(3) by (simp add: map_of_eq_None_iff)
    ultimately show ?thesis
      using 2(1) 2(3,4) by simp
  next
    case (Some d)
    define sv1 where "sv1 = fst (handle_crash env node d code sv)"
    obtain p where p: "hm_get (pv_processes sv) n = Some p"
      using 2(4) by auto
    have n: "sd_name d = n"
      using Some by (rule find_decl_name)
    have get: "hm_get (pv_processes sv1) x = (if x = n
        then Some (handled_entry env (pv_cgroup_manager sv) d code p) else hm_get (pv_processes sv) x)" for x
      unfolding sv1_def using handle_crash_get [of sv d p env node code x] p n by simp
    have dom: "fst ` set cs \<subseteq> dom (hm_get (pv_processes sv1))"
      using 2(4) by (auto simp: get)
    have mgr: "pv_cgroup_manager sv1 = pv_cgroup_manager sv"
      by (simp add: sv1_def)
    have "hm_get (pv_processes (fst (handle_crashes env node decls cs sv1))) name =
      (case (map_of cs name, find_decl decls name) of
         (Some code, Some d) \<Rightarrow> map_option (handled_entry env (pv_cgroup_manager sv1) d code)
           (hm_get (pv_processes sv1) name)
       | _ \<Rightarrow> hm_get (pv_processes sv1) name)"
      using 2(3) dom by (intro 2(2) [OF Some, of _ "snd (handle_crash env node d code sv)"]) (auto simp: sv1_def)
    note this [unfolded mgr]
    moreover have "map_of cs n = None"
      using 2(3) by (simp add: map_of_eq_None_iff)
    ultimately show ?thesis
      using Some p by (auto simp: case_prod_beta sv1_def [symmetric] get split: option.splits)
  qed
qed simp

text \<open>The audit events of a round: one for each crash of a declared service, in order.\<close>

definition audits :: "sup_effect list \<Rightarrow> sup_effect list" where
  "audits = filter (\<lambda>e. case e of EffAudit _ _ _ _ \<Rightarrow> True | _ \<Rightarrow> False)"

lemma audits_simps [simp]:
  "audits [] = []" "audits (xs @ ys) = audits xs @ audits ys"
  "audits (scope_effect EffCreateScope h) = []" "audits (scope_effect EffDestroyScope h) = []"
  "audits (delay_effect d) = []"
  by (auto simp: audits_def scope_effect_def delay_effect_def split: option.splits)

lemma audits_do_restart [simp]: "audits (fst (snd (do_restart env d sv))) = []"
proof -
  have "audits [EffSpawn n pid] = []" for n pid
    by (simp add: audits_def)
  then show ?thesis
    by (auto simp: do_restart_def Let_def split: sum.splits option.splits)
qed

definition crash_audit :: "string \<Rightarrow> ServiceDecl list \<Rightarrow> string \<times> int option \<Rightarrow> sup_effect option" where
  "crash_audit node decls c = map_option
     (\<lambda>d. EffAudit node (fst c) (snd c) (should_restart (sd_restart d) (snd c))) (find_decl decls (fst c))"

lemma audits_handle_crash:
  "audits (snd (handle_crash env node d code sv)) =
   [EffAudit node (sd_name d) code (should_restart (sd_restart d) code)]"
proof -
  have *: "audits (EffAudit a b c r # es) = EffAudit a b c r # audits es" for a b c r es
    by (simp add: audits_def)
  show ?thesis
    by (simp add: handle_crash_def Let_def case_prod_beta *)
qed

lemma audits_handle_crashes:
  "audits (snd (handle_crashes env node decls cs sv)) = List.map_filter (crash_audit node decls) cs"
proof (induction env node decls cs sv rule: handle_crashes.induct)
  case (2 env node decls n code cs sv)
  show ?case
  proof (cases "find_decl decls n")
    case None
    with 2(1) show ?thesis
      by (simp add: List.map_filter_simps crash_audit_def)
  next
    case (Some d)
    have "audits (snd (handle_crashes env node decls cs (fst (handle_crash env node d code sv)))) =
        List.map_filter (crash_audit node decls) cs"
      by (rule 2(2) [OF Some, of _ "snd (handle_crash env node d code sv)"]) simp_all
    with Some show ?thesis
      by (simp add: List.map_filter_simps case_prod_beta audits_handle_crash find_decl_name)
        (simp add: crash_audit_def)
  qed
qed (simp add: List.map_filter_simps)

definition audit_of :: "string \<Rightarrow> string \<Rightarrow> sup_effect \<Rightarrow> bool" where
  "audit_of node name e = (\<exists>c r. e = EffAudit node name c r)"

lemma filter_audits: "filter (audit_of node name) es = filter (audit_of node name) (audits es)"
  by (induction es) (auto simp: audits_def audit_of_def split: sup_effect.splits)

lemma audits_of_crashes:
  assumes "distinct (map fst cs)" "find_decl decls name = Some d"
  shows "filter (audit_of node name) (List.map_filter (crash_audit node decls) cs) =
    (case map_of cs name of
       Some code \<Rightarrow> [EffAudit node name code (should_restart (sd_restart d) code)] | None \<Rightarrow> [])"
  using assms
proof (induction cs)
  case (Cons c cs)
  have "map_of cs (fst c) = None"
    using Cons.prems(1) by (simp add: map_of_eq_None_iff)
  with Cons show ?case
    by (cases c) (auto simp: List.map_filter_simps crash_audit_def audit_of_def split: option.splits)
qed (simp add: List.map_filter_simps)

lemma tick_effects:
  assumes "hm_inv (pv_processes sv)" "find_decl (pv_service_decls sv) name = Some d"
  shows "filter (audit_of node name) (snd (supervision_tick env node wd active sv)) =
    (case Option.bind (hm_get (pv_processes sv) name) (exited env) of
       Some code \<Rightarrow> [EffAudit node name code (should_restart (sd_restart d) code)] | None \<Rightarrow> [])"
proof -
  have "audits (snd (supervision_tick env node wd active sv)) =
      List.map_filter (crash_audit node (pv_service_decls sv)) (snd (detect_crashed_services env sv))"
    by (simp add: supervision_tick_def Let_def case_prod_beta audits_handle_crashes) (simp add: audits_def)
  then show ?thesis
    using audits_of_crashes [OF detect_crashes(1) [OF assms(1)] assms(2)] detect_crashes(2) [OF assms(1)]
    by (simp add: filter_audits [of node name "snd (supervision_tick env node wd active sv)"])
qed

definition tick_entry :: "SupEnv \<Rightarrow> PactSupervisor \<Rightarrow> string \<Rightarrow> ProcessState \<Rightarrow> ProcessState" where
  "tick_entry env sv name p = (case (exited env p, find_decl (pv_service_decls sv) name) of
     (Some code, Some d) \<Rightarrow> handled_entry env (pv_cgroup_manager sv) d code (crashed_entry env p)
   | _ \<Rightarrow> crashed_entry env p)"

lemma tick_get:
  assumes inv: "hm_inv (pv_processes sv)"
  shows "hm_get (pv_processes (fst (supervision_tick env node wd active sv))) name =
    map_option (tick_entry env sv name) (hm_get (pv_processes sv) name)"
proof -
  define sv1 where "sv1 = fst (detect_crashed_services env sv)"
  define cs where "cs = snd (detect_crashed_services env sv)"
  have dist: "distinct (map fst cs)"
    and crash: "map_of cs n = Option.bind (hm_get (pv_processes sv) n) (exited env)" for n
    using detect_crashes [OF inv] by (simp_all add: cs_def)
  have get1: "hm_get (pv_processes sv1) n = map_option (crashed_entry env) (hm_get (pv_processes sv) n)" for n
    by (simp add: sv1_def detect_get)
  have "fst ` set cs \<subseteq> dom (hm_get (pv_processes sv1))"
    using crash by (auto simp: get1 dom_def map_of_eq_Some_iff [OF dist, symmetric] bind_eq_Some_conv)
  moreover have "fst (supervision_tick env node wd active sv) =
      fst (handle_crashes env node (pv_service_decls sv) cs sv1)"
    by (simp add: supervision_tick_def Let_def case_prod_beta sv1_def cs_def)
  moreover have "pv_cgroup_manager sv1 = pv_cgroup_manager sv"
    by (simp add: sv1_def)
  ultimately show ?thesis
    using handle_crashes_get [OF dist, of sv1 env node "pv_service_decls sv" name]
    by (cases "hm_get (pv_processes sv) name") (auto simp: crash get1 tick_entry_def split: option.splits)
qed

lemma tick_entry_ok: "entry_ok p \<Longrightarrow> entry_ok (tick_entry env sv name p)"
  by (auto simp: tick_entry_def handled_entry_def crashed_entry_def entry_ok_def
      split: option.splits sum.splits)

lemma handle_crash_hm_inv:
  "hm_inv (pv_processes sv) \<Longrightarrow> hm_inv (pv_processes (fst (handle_crash env node d code sv)))"
  by (auto simp: handle_crash_def do_restart_def not_restarted_def Let_def
      split: option.splits sum.splits prod.splits)

lemma handle_crashes_hm_inv:
  "hm_inv (pv_processes sv) \<Longrightarrow> hm_inv (pv_processes (fst (handle_crashes env node decls cs sv)))"
proof (induction cs arbitrary: sv)
  case (Cons c cs)
  then show ?case
    by (cases c) (auto simp: case_prod_beta handle_crash_hm_inv split: option.splits)
qed simp

lemma tick_inv [inv_intros]:
  "supervisor_inv sv \<Longrightarrow> supervisor_inv (fst (supervision_tick env node wd active sv))"
proof -
  assume inv: "supervisor_inv sv"
  then have "hm_inv (pv_processes (fst (detect_crashed_services env sv)))"
    using detect_inv supervisor_inv_def by blast
  then have "hm_inv (pv_processes (fst (supervision_tick env node wd active sv)))"
    by (simp add: supervision_tick_def Let_def case_prod_beta handle_crashes_hm_inv)
  with inv show ?thesis
    by (auto simp: supervisor_inv_def tick_get intro: tick_entry_ok)
qed

text \<open>
  C19. One round of the supervision loop does what the restart policies say. A service that has not
  exited keeps its entry. A declared service whose process has exited is counted as one more
  restart with its exit code, and is running again under the new process if its policy asks for a
  restart and the process can be started (failed if it cannot), stopped if its policy is never to
  restart, failed otherwise. The round audits each such crash once and keeps the table consistent.
\<close>

theorem supervision_tick_exact:
  assumes "supervisor_inv sv" "supervision_tick env node wd active sv = (sv', effects)"
    and "hm_get (pv_processes sv) name = Some p"
  shows "supervisor_inv sv' \<and> (\<exists>p'. hm_get (pv_processes sv') name = Some p' \<and>
    (exited env p = None \<longrightarrow> p' = p) \<and>
    (\<forall>code d. exited env p = Some code \<longrightarrow> find_decl (pv_service_decls sv) name = Some d \<longrightarrow>
      ps_restarts p' = ps_restarts p + 1 \<and> ps_last_exit_code p' = code \<and>
      filter (audit_of node name) effects =
        [EffAudit node name code (should_restart (sd_restart d) code)] \<and>
      (if should_restart (sd_restart d) code
       then (case se_spawn env d of
           Inr pid \<Rightarrow> ps_state p' = SvcRunning \<and> ps_child p' = Some pid
         | Inl _ \<Rightarrow> ps_state p' = SvcFailed \<and> ps_child p' = None)
       else ps_child p' = None \<and>
         ps_state p' = (if sd_restart d = RestartNever then SvcStopped else SvcFailed))))"
proof -
  have inv: "hm_inv (pv_processes sv)"
    using assms(1) by (simp add: supervisor_inv_def)
  have "supervisor_inv sv'"
    using tick_inv [OF assms(1), of env node wd active] assms(2) by simp
  moreover have "hm_get (pv_processes sv') name = Some (tick_entry env sv name p)"
    using tick_get [OF inv, of env node wd active name] assms(2,3) by simp
  moreover have "filter (audit_of node name) effects =
      [EffAudit node name code (should_restart (sd_restart d) code)]"
    if "exited env p = Some code" "find_decl (pv_service_decls sv) name = Some d" for code d
    using tick_effects [OF inv that(2), of node env wd active] assms(2,3) that(1) by simp
  moreover have "tick_entry env sv name p = p" if "exited env p = None"
    using that by (simp add: tick_entry_def crashed_entry_def)
  ultimately show ?thesis
    by (auto simp: tick_entry_def crashed_entry_def handled_entry_def split: option.splits sum.splits)
qed

definition sample_decl :: ServiceDecl where
  "sample_decl = \<lparr>sd_name = ''a'', sd_binary = ''/bin/a'', sd_args = [], sd_restart = RestartOnFailure,
     sd_restart_delay_seconds = 0, sd_depends_on = [], sd_order = 1, sd_cgroup_memory_max = None,
     sd_cgroup_slice = None, sd_cgroup_cpu_weight = None, sd_health_check = None\<rparr>"

definition sample_sup_env :: SupEnv where
  "sample_sup_env = \<lparr>se_spawn = (\<lambda>_. Inr 7), se_try_wait = (\<lambda>_. Some (Some 1)),
     se_wait_grace = (\<lambda>_. GraceExpired), se_create_scope = (\<lambda>_ _ _. Inl ''no cgroups''),
     se_default_slice = ''infra'', se_http_get = (\<lambda>_. Inl ''refused''), se_tcp_connect = (\<lambda>_. Inl ''refused'')\<rparr>"

definition sample_supervisor :: PactSupervisor where
  "sample_supervisor = fst (start_all (sample_sup_env\<lparr>se_spawn := \<lambda>_. Inr 5\<rparr>) [sample_decl] supervisor_new)"

lemma sample_supervisor_simps:
  "sample_supervisor = supervisor_new\<lparr>pv_service_decls := [sample_decl],
     pv_processes := [(''a'', \<lparr>ps_state = SvcRunning, ps_pid = Some 5, ps_restarts = 0,
       ps_last_exit_code = None, ps_child = Some 5, ps_cgroup_handle = None\<rparr>)]\<rparr>"
  by (simp add: sample_supervisor_def start_all_def sorted_services_def start_def supervisor_new_def
      create_scope_for_def sample_decl_def hm_insert_def Let_def)

theorem supervision_tick_exact_witness:
  "\<exists>sv' effects p'. supervision_tick sample_sup_env ''n1'' True False sample_supervisor = (sv', effects) \<and>
    hm_get (pv_processes sv') ''a'' = Some p' \<and> ps_state p' = SvcRunning \<and> ps_child p' = Some 7 \<and>
    ps_restarts p' = 1 \<and> ps_last_exit_code p' = Some 1"
proof -
  obtain sv' effects where t: "supervision_tick sample_sup_env ''n1'' True False sample_supervisor = (sv', effects)"
    by fastforce
  have inv: "supervisor_inv sample_supervisor"
    by (simp add: sample_supervisor_simps supervisor_inv_def hm_inv_def hm_get_def entry_ok_def)
  obtain p where p: "hm_get (pv_processes sample_supervisor) ''a'' = Some p" "ps_restarts p = 0"
    "exited sample_sup_env p = Some (Some 1)"
    by (simp add: sample_supervisor_simps hm_get_def exited_def sample_sup_env_def)
  have "find_decl (pv_service_decls sample_supervisor) ''a'' = Some sample_decl"
    by (simp add: sample_supervisor_simps find_decl_def sample_decl_def)
  with supervision_tick_exact [OF inv t p(1)] p t show ?thesis
    by (auto simp: sample_sup_env_def sample_decl_def should_restart_def)
qed

text \<open>
  A status request that meets an exited process records the failure itself, and the loop, which
  looks at running services only, then leaves the service down whatever its policy.
\<close>

lemma status_hides_crash:
  assumes "hm_inv (pv_processes sv)" "hm_get (pv_processes sv) (sd_name d) = Some p" "exited env p \<noteq> None"
  shows "\<exists>p'. hm_get (pv_processes (fst (supervision_tick env node wd active (fst (status env d sv)))))
      (sd_name d) = Some p' \<and> ps_state p' = SvcFailed"
proof -
  have "hm_inv (pv_processes (fst (status env d sv)))"
    using assms(1) by (simp add: status_def Let_def split: option.splits)
  then show ?thesis
    using assms
    by (auto simp: tick_get) (auto simp: status_def Let_def tick_entry_def crashed_entry_def exited_def)
qed

subsection \<open>All services\<close>

definition running :: "PactSupervisor \<Rightarrow> string \<Rightarrow> bool" where
  "running sv name = (case hm_get (pv_processes sv) name of
     Some p \<Rightarrow> ps_state p = SvcRunning | None \<Rightarrow> False)"

definition running_child :: "PactSupervisor \<Rightarrow> ServiceDecl \<Rightarrow> u32 option" where
  "running_child sv d = (case hm_get (pv_processes sv) (sd_name d) of
     Some p \<Rightarrow> if ps_state p = SvcRunning then ps_child p else None | None \<Rightarrow> None)"

definition spawned :: "sup_effect list \<Rightarrow> string list" where
  "spawned = List.map_filter (\<lambda>e. case e of EffSpawn n _ \<Rightarrow> Some n | _ \<Rightarrow> None)"

definition terminated :: "sup_effect list \<Rightarrow> u32 list" where
  "terminated = List.map_filter (\<lambda>e. case e of EffTerm pid \<Rightarrow> Some pid | _ \<Rightarrow> None)"

lemma map_filter_append [simp]: "List.map_filter f (xs @ ys) = List.map_filter f xs @ List.map_filter f ys"
  by (simp add: map_filter_def)

lemma map_filter_same:
  "(\<And>x. x \<in> set xs \<Longrightarrow> f x = g x) \<Longrightarrow> List.map_filter f xs = List.map_filter g xs"
  by (induction xs) (auto simp: List.map_filter_simps split: option.split)

lemma effect_simps [simp]:
  "spawned [] = []" "spawned (xs @ ys) = spawned xs @ spawned ys"
  "terminated [] = []" "terminated (xs @ ys) = terminated xs @ terminated ys"
  "spawned (scope_effect EffCreateScope h) = []" "spawned (scope_effect EffDestroyScope h) = []"
  "terminated (scope_effect EffDestroyScope h) = []"
  "spawned (EffSpawn n pid # es) = n # spawned es"
  by (auto simp: spawned_def terminated_def scope_effect_def List.map_filter_simps split: option.splits)

text \<open>A service that runs already or that can be spawned.\<close>

definition startable :: "SupEnv \<Rightarrow> PactSupervisor \<Rightarrow> ServiceDecl \<Rightarrow> bool" where
  "startable env sv d \<longleftrightarrow> running sv (sd_name d) \<or> (\<exists>pid. se_spawn env d = Inr pid)"

lemma start_result:
  assumes "start env d sv = (sv', effects, r)"
  shows "n \<noteq> sd_name d \<Longrightarrow> hm_get (pv_processes sv') n = hm_get (pv_processes sv) n"
    and "startable env sv d \<Longrightarrow> r = Inr () \<and> running sv' (sd_name d) \<and>
      spawned effects = (if running sv (sd_name d) then [] else [sd_name d])"
    and "\<not> startable env sv d \<Longrightarrow> sv' = sv \<and> spawned effects = [] \<and> se_spawn env d = Inl (projl r) \<and> isl r"
  using assms
  by (auto simp: start_def Let_def running_def startable_def split: sum.splits if_splits option.splits)

text \<open>What starting services in a given order does, exactly.\<close>

lemma start_each_result:
  assumes "distinct (map sd_name ds)" "start_each env ds sv = (sv', effects, r)"
  shows "spawned effects = map sd_name (filter (\<lambda>d. \<not> running sv (sd_name d)) (takeWhile (startable env sv) ds)) \<and>
    (\<forall>d \<in> set (takeWhile (startable env sv) ds). running sv' (sd_name d)) \<and>
    (\<forall>n. n \<notin> sd_name ` set (takeWhile (startable env sv) ds) \<longrightarrow>
       hm_get (pv_processes sv') n = hm_get (pv_processes sv) n) \<and>
    (case dropWhile (startable env sv) ds of [] \<Rightarrow> r = Inr () | d # _ \<Rightarrow> isl r \<and> se_spawn env d = Inl (projl r))"
  using assms
proof (induction ds arbitrary: sv effects)
  case (Cons d ds)
  obtain sv1 eff1 r1 where s: "start env d sv = (sv1, eff1, r1)"
    by (cases "start env d sv") auto
  show ?case
  proof (cases "startable env sv d")
    case False
    with start_result(3) [OF s] obtain e where "r1 = Inl e"
      by (cases r1) auto
    with s Cons.prems have "sv' = sv1" "effects = eff1" "r = r1"
      by auto
    with False start_result(3) [OF s] show ?thesis
      by simp
  next
    case True
    note one = start_result(2) [OF s True]
    obtain sv2 eff2 r2 where ss: "start_each env ds sv1 = (sv2, eff2, r2)"
      by (cases "start_each env ds sv1") auto
    with s one Cons.prems have eq: "sv' = sv2" "effects = eff1 @ eff2" "r = r2"
      by auto
    have same: "running sv1 (sd_name x) = running sv (sd_name x)" if "x \<in> set ds" for x
    proof -
      have "sd_name x \<noteq> sd_name d"
        using that Cons.prems(1) by (metis distinct.simps(2) image_eqI list.simps(9) set_map)
      then show ?thesis
        using start_result(1) [OF s, of "sd_name x"] by (simp add: running_def)
    qed
    then have startable: "startable env sv1 x = startable env sv x" if "x \<in> set ds" for x
      using that by (simp add: startable_def)
    have ws: "takeWhile (startable env sv1) ds = takeWhile (startable env sv) ds"
      "dropWhile (startable env sv1) ds = dropWhile (startable env sv) ds"
      using startable by (auto intro: takeWhile_cong dropWhile_cong)
    have fs: "filter (\<lambda>d. \<not> running sv1 (sd_name d)) (takeWhile (startable env sv) ds) =
        filter (\<lambda>d. \<not> running sv (sd_name d)) (takeWhile (startable env sv) ds)"
      using same by (intro filter_cong) (auto dest: set_takeWhileD)
    have ih: "spawned eff2 = map sd_name (filter (\<lambda>d. \<not> running sv (sd_name d)) (takeWhile (startable env sv) ds))"
      "\<forall>d \<in> set (takeWhile (startable env sv) ds). running sv' (sd_name d)"
      "\<forall>n. n \<notin> sd_name ` set (takeWhile (startable env sv) ds) \<longrightarrow> hm_get (pv_processes sv') n = hm_get (pv_processes sv1) n"
      "case dropWhile (startable env sv) ds of [] \<Rightarrow> r = Inr () | d # _ \<Rightarrow> isl r \<and> se_spawn env d = Inl (projl r)"
      using Cons.IH [OF _ ss [folded eq(1) eq(3)]] Cons.prems(1) unfolding ws fs by auto
    have "sd_name d \<notin> sd_name ` set (takeWhile (startable env sv) ds)"
      using Cons.prems(1) by (auto dest: set_takeWhileD)
    then have "running sv' (sd_name d)"
      using ih(3) one by (simp add: running_def)
    moreover have "hm_get (pv_processes sv') n = hm_get (pv_processes sv) n"
        if "n \<notin> sd_name ` set (takeWhile (startable env sv) (d # ds))" for n
      using that True ih(3) start_result(1) [OF s, of n] by simp
    ultimately show ?thesis
      using True ih one eq(2) by auto
  qed
qed auto

lemma stop_result:
  "terminated (snd (stop env d sv)) = (case running_child sv d of Some pid \<Rightarrow> [pid] | None \<Rightarrow> [])"
  "\<not> running (fst (stop env d sv)) (sd_name d)"
  "running (fst (stop env d sv)) n \<Longrightarrow> running sv n"
  "sd_name x \<noteq> sd_name d \<Longrightarrow> running_child (fst (stop env d sv)) x = running_child sv x"
  by (auto simp: stop_def stop_child_def running_child_def running_def terminated_def scope_effect_def
      List.map_filter_simps split: option.splits GraceOutcome.splits prod.splits if_splits)

lemma stop_each_result:
  "d \<in> set ds \<Longrightarrow> \<not> running (fst (stop_each env ds sv)) (sd_name d)"
  "distinct (map sd_name ds) \<Longrightarrow>
     terminated (snd (stop_each env ds sv)) = List.map_filter (running_child sv) ds"
proof -
  have mono: "running (fst (stop_each env ds sv)) n \<Longrightarrow> running sv n" for ds sv n
  proof (induction ds arbitrary: sv)
    case (Cons x ds)
    then show ?case
      using stop_result(3) [of env x sv n] by (simp add: case_prod_beta)
  qed simp
  show "d \<in> set ds \<Longrightarrow> \<not> running (fst (stop_each env ds sv)) (sd_name d)"
  proof (induction ds arbitrary: sv)
    case (Cons x ds)
    then show ?case
      using mono [of ds "fst (stop env x sv)" "sd_name d"] stop_result(2) [of env x sv]
      by (auto simp: case_prod_beta)
  qed simp
  show "distinct (map sd_name ds) \<Longrightarrow>
      terminated (snd (stop_each env ds sv)) = List.map_filter (running_child sv) ds"
  proof (induction ds arbitrary: sv)
    case (Cons x ds)
    have "List.map_filter (running_child (fst (stop env x sv))) ds = List.map_filter (running_child sv) ds"
      using Cons.prems by (intro map_filter_same stop_result(4)) (auto simp: image_iff)
    with Cons show ?case
      by (simp add: case_prod_beta stop_result(1) List.map_filter_simps split: option.split)
  qed (simp add: List.map_filter_simps)
qed

text \<open>
  C12. Starting all services takes them in the order of their declared numbers, up to the first that
  does not run already and cannot be spawned: exactly the ones before it that were not running are
  spawned, in that order; all before it run afterwards, the error is that of its spawn, and
  neither it nor any service after it is touched. Stopping them all leaves none running, and
  terminates the processes in the reverse order.
\<close>

theorem services_in_order:
  assumes "start_all env ds sv = (sv', effects, r)" "stop_all env' ds sv' = (sv'', effects')"
    and "distinct (map sd_name ds)"
  shows "let started = takeWhile (startable env sv) (sorted_services ds) in
    mset (sorted_services ds) = mset ds \<and> sorted (map sd_order (sorted_services ds)) \<and>
    spawned effects = map sd_name (filter (\<lambda>d. \<not> running sv (sd_name d)) started) \<and>
    (\<forall>d \<in> set started. running sv' (sd_name d)) \<and>
    (\<forall>n. n \<notin> sd_name ` set started \<longrightarrow> hm_get (pv_processes sv') n = hm_get (pv_processes sv) n) \<and>
    (case r of
       Inr _ \<Rightarrow> started = sorted_services ds
     | Inl e \<Rightarrow> \<exists>d rest. sorted_services ds = started @ d # rest \<and> \<not> running sv (sd_name d) \<and> se_spawn env d = Inl e) \<and>
    (\<forall>d \<in> set ds. \<not> running sv'' (sd_name d)) \<and>
    terminated effects' = rev (List.map_filter (running_child sv') (sorted_services ds))"
proof -
  define started where "started = takeWhile (startable env sv) (sorted_services ds)"
  have rev_filter: "List.map_filter f (rev xs) = rev (List.map_filter f xs)"
    for f :: "ServiceDecl \<Rightarrow> u32 option" and xs
    by (simp add: map_filter_def rev_map rev_filter)
  have stop: "sv'' = fst (stop_each env' (rev (sorted_services ds)) sv')"
    "effects' = snd (stop_each env' (rev (sorted_services ds)) sv')"
    using assms(2) by (simp_all add: stop_all_def)
  have "mset (map sd_name (sorted_services ds)) = mset (map sd_name ds)"
    by (simp add: sorted_services_def)
  then have dist: "distinct (map sd_name (sorted_services ds))"
    using assms(3) mset_eq_imp_distinct_iff by blast
  then have stopped: "terminated effects' = rev (List.map_filter (running_child sv') (sorted_services ds))"
    unfolding stop(2) by (simp add: stop_each_result(2) rev_filter rev_map [symmetric])
  have none: "\<not> running sv'' (sd_name d)" if "d \<in> set ds" for d
    unfolding stop(1) using that by (intro stop_each_result(1)) (simp add: sorted_services_def)
  define sv0 where "sv0 = sv\<lparr>pv_service_decls := ds\<rparr>"
  have same: "running sv0 = running sv" "startable env sv0 = startable env sv" "pv_processes sv0 = pv_processes sv"
    by (simp_all add: sv0_def running_def startable_def fun_eq_iff)
  note result = start_each_result [OF dist assms(1) [unfolded start_all_def, folded sv0_def], unfolded same, folded started_def]
  have split: "sorted_services ds = started @ dropWhile (startable env sv) (sorted_services ds)"
    by (simp add: started_def)
  have ends: "case r of Inr _ \<Rightarrow> started = sorted_services ds
      | Inl e \<Rightarrow> \<exists>d rest. sorted_services ds = started @ d # rest \<and> \<not> running sv (sd_name d) \<and> se_spawn env d = Inl e"
  proof (cases "dropWhile (startable env sv) (sorted_services ds)")
    case Nil
    with result split show ?thesis
      by simp
  next
    case (Cons d rest)
    then have "\<not> startable env sv d"
      by (metis dropWhile_eq_Cons_conv)
    with Cons result split show ?thesis
      by (cases r) (auto simp: startable_def)
  qed
  show ?thesis
    using result stopped none ends unfolding started_def [symmetric] Let_def by (auto simp: sorted_services_def)
qed

theorem services_in_order_witness:
  "\<exists>sv' effects r. start_all sample_sup_env [sample_decl\<lparr>sd_name := ''b'', sd_order := 2\<rparr>, sample_decl]
      supervisor_new = (sv', effects, r) \<and>
    spawned effects = [''a'', ''b''] \<and> running sv' ''a''"
proof -
  obtain sv' effects r where s: "start_all sample_sup_env
      [sample_decl\<lparr>sd_name := ''b'', sd_order := 2\<rparr>, sample_decl] supervisor_new = (sv', effects, r)"
    by (cases "start_all sample_sup_env
      [sample_decl\<lparr>sd_name := ''b'', sd_order := 2\<rparr>, sample_decl] supervisor_new") auto
  obtain sv'' effects' where t: "stop_all sample_sup_env
      [sample_decl\<lparr>sd_name := ''b'', sd_order := 2\<rparr>, sample_decl] sv' = (sv'', effects')"
    by fastforce
  have "sorted_services [sample_decl\<lparr>sd_name := ''b'', sd_order := 2\<rparr>, sample_decl] =
      [sample_decl, sample_decl\<lparr>sd_name := ''b'', sd_order := 2\<rparr>]"
    by (simp add: sorted_services_def sample_decl_def word_le_nat_alt)
  moreover from this have "spawned effects = [''a'', ''b'']"
    using s by (auto simp: start_all_def start_def supervisor_new_def create_scope_for_def sample_decl_def
        sample_sup_env_def Let_def)
  ultimately have sp: "spawned effects = [''a'', ''b'']"
    and srt: "sorted_services [sample_decl\<lparr>sd_name := ''b'', sd_order := 2\<rparr>, sample_decl] =
      [sample_decl, sample_decl\<lparr>sd_name := ''b'', sd_order := 2\<rparr>]"
    by simp_all
  have st: "startable sample_sup_env supervisor_new d" for d
    by (simp add: startable_def sample_sup_env_def)
  have "distinct (map sd_name [sample_decl\<lparr>sd_name := ''b'', sd_order := 2\<rparr>, sample_decl])"
    by (simp add: sample_decl_def)
  from services_in_order [OF s t this] have "\<forall>d \<in> set [sample_decl, sample_decl\<lparr>sd_name := ''b'', sd_order := 2\<rparr>]. running sv' (sd_name d)"
    unfolding Let_def srt by (simp add: st)
  then have "running sv' ''a''"
    by (simp add: sample_decl_def)
  with s sp show ?thesis
    by blast
qed

end
