(* ===== verification/Systemd.thy ===== *)
theory Systemd
  imports Supervisor
begin

text \<open>
  The backend that delegates services to systemd,
  \<open>crates/pact-agent/src/supervisor/systemd_backend.rs\<close>: the unit file of a service and the
  \<open>systemctl\<close> calls of each operation. The answer of \<open>systemctl\<close> (standard output, or the error of
  a call that fails) is a parameter, and the calls made are returned in order.
\<close>

type_synonym systemctl = "string list \<Rightarrow> string + string"

definition nl :: string where
  "nl = [newline]"

definition generate_unit :: "ServiceDecl \<Rightarrow> string" where
  "generate_unit d =
     (let restart = (case sd_restart d of
          RestartAlways \<Rightarrow> ''always'' | RestartOnFailure \<Rightarrow> ''on-failure'' | RestartNever \<Rightarrow> ''no'');
        args = (if sd_args d = [] then [] else '' '' @ join_with '' '' (sd_args d))
      in ''[Unit]'' @ nl @
         ''Description=pact-managed: '' @ sd_name d @ nl @
         ''After=network.target'' @ nl @ nl @
         ''[Service]'' @ nl @
         ''Type=simple'' @ nl @
         ''ExecStart='' @ sd_binary d @ args @ nl @
         ''Restart='' @ restart @ nl @
         ''RestartSec='' @ show_nat (unat (sd_restart_delay_seconds d)) @ nl @
         (case sd_cgroup_memory_max d of Some m \<Rightarrow> ''MemoryMax='' @ m @ nl | None \<Rightarrow> []) @
         (case sd_cgroup_cpu_weight d of
            Some w \<Rightarrow> ''CPUWeight='' @ show_nat (unat w) @ nl | None \<Rightarrow> []) @
         nl @ ''[Install]'' @ nl @ ''WantedBy=multi-user.target'' @ nl)"

definition unit_name :: "ServiceDecl \<Rightarrow> string" where
  "unit_name d = ''pact-'' @ sd_name d @ ''.service''"

definition systemctl_unit :: "systemctl \<Rightarrow> string \<Rightarrow> ServiceDecl \<Rightarrow> string list \<times> (string + unit)" where
  "systemctl_unit ctl verb d = ([verb, unit_name d],
     (case ctl [verb, unit_name d] of Inl e \<Rightarrow> Inl e | Inr _ \<Rightarrow> Inr ()))"

definition systemd_start :: "systemctl \<Rightarrow> ServiceDecl \<Rightarrow> string list \<times> (string + unit)" where
  "systemd_start ctl d = systemctl_unit ctl ''start'' d"

definition systemd_stop :: "systemctl \<Rightarrow> ServiceDecl \<Rightarrow> string list \<times> (string + unit)" where
  "systemd_stop ctl d = systemctl_unit ctl ''stop'' d"

definition systemd_restart :: "systemctl \<Rightarrow> ServiceDecl \<Rightarrow> string list \<times> (string + unit)" where
  "systemd_restart ctl d = systemctl_unit ctl ''restart'' d"

definition systemd_status :: "systemctl \<Rightarrow> ServiceDecl \<Rightarrow> ServiceStatus" where
  "systemd_status ctl d =
     (let out = trim (case ctl [''is-active'', unit_name d] of Inr s \<Rightarrow> s | Inl _ \<Rightarrow> []) in
      \<lparr>st_name = sd_name d,
       st_state = (if out = ''active'' then SvcRunning else if out = ''failed'' then SvcFailed
         else SvcStopped),
       st_pid = None, st_restarts = 0, st_last_exit_code = None\<rparr>)"

definition systemd_health :: "systemctl \<Rightarrow> ServiceDecl \<Rightarrow> HealthCheckResult" where
  "systemd_health ctl d = (let st = systemd_status ctl d in
     \<lparr>hr_healthy = (st_state st = SvcRunning),
      hr_detail = ''systemd state: '' @ debug_ServiceState (st_state st)\<rparr>)"

fun systemd_start_each :: "systemctl \<Rightarrow> ServiceDecl list \<Rightarrow> string list list \<times> (string + unit)" where
  "systemd_start_each ctl [] = ([], Inr ())"
| "systemd_start_each ctl (d # ds) = (case systemd_start ctl d of
     (call, Inl e) \<Rightarrow> ([call], Inl e)
   | (call, Inr _) \<Rightarrow> (case systemd_start_each ctl ds of (calls, r) \<Rightarrow> (call # calls, r)))"

definition systemd_start_all :: "systemctl \<Rightarrow> ServiceDecl list \<Rightarrow> string list list \<times> (string + unit)" where
  "systemd_start_all ctl ds = systemd_start_each ctl (sorted_services ds)"

definition systemd_stop_all :: "systemctl \<Rightarrow> ServiceDecl list \<Rightarrow> string list list" where
  "systemd_stop_all ctl ds = map (\<lambda>d. fst (systemd_stop ctl d)) (rev (sorted_services ds))"

text \<open>
  The calls follow the declared order as with pact's own supervisor, and stop at the first that
  fails; \<open>stop_all\<close> goes through all of them in reverse.
\<close>

lemma systemd_start_each_calls:
  assumes "systemd_start_each ctl ds = (calls, r)"
  shows "prefix calls (map (\<lambda>d. [''start'', unit_name d]) ds)"
    and "r = Inr () \<Longrightarrow> length calls = length ds"
    and "r = Inl e \<Longrightarrow> \<exists>d \<in> set ds. last calls = [''start'', unit_name d] \<and>
      ctl [''start'', unit_name d] = Inl e"
  using assms
proof (induction ds arbitrary: calls)
  case (Cons d ds)
  {
    case 1
    then show ?case
      using Cons.IH(1) by (auto simp: systemd_start_def systemctl_unit_def split: sum.splits prod.splits)
  next
    case 2
    then show ?case
      using Cons.IH(2) by (auto simp: systemd_start_def systemctl_unit_def split: sum.splits prod.splits)
  next
    case 3
    show ?case
    proof (cases "ctl [''start'', unit_name d]")
      case (Inl e')
      with 3 show ?thesis
        by (auto simp: systemd_start_def systemctl_unit_def)
    next
      case (Inr x)
      obtain cs r' where cs: "systemd_start_each ctl ds = (cs, r')"
        by fastforce
      then have "calls = [''start'', unit_name d] # cs" "r' = r"
        using 3 Inr by (auto simp: systemd_start_def systemctl_unit_def)
      moreover have "cs \<noteq> []"
        using cs 3(1) \<open>r' = r\<close> by (cases ds) (auto simp: systemd_start_def systemctl_unit_def split: sum.splits prod.splits)
      ultimately show ?thesis
        using Cons.IH(3) [of cs] cs 3(1) by auto
    qed
  }
qed auto

lemma systemd_stop_all_calls:
  "systemd_stop_all ctl ds = rev (map (\<lambda>d. [''stop'', unit_name d]) (sorted_services ds))"
  by (simp add: systemd_stop_all_def systemd_stop_def systemctl_unit_def rev_map)

end
