(* ===== verification/Diag.thy ===== *)
theory Diag
  imports Shell_Server
begin

text \<open>
  Collection of diagnostic logs, \<open>crates/pact-agent/src/shell/diag.rs\<close>. Regular expressions,
  reading a file and running a program with a time limit are parameters (the record \<open>DiagEnv\<close>);
  a text is split into lines as \<open>str::lines\<close> does.
\<close>

record DiagRequest =
  dr_source_filter :: string
  dr_service_name :: string
  dr_grep_pattern :: string
  dr_line_limit :: u32

record DiagChunk =
  dc_source :: string
  dc_lines :: "string list"
  dc_truncated :: bool

record DiagEnv =
  de_regex_new :: "string \<Rightarrow> string + (string \<Rightarrow> bool)"
  de_read_to_string :: "string \<Rightarrow> string option"
  de_run_command :: "string \<Rightarrow> string list \<Rightarrow> string + string"

definition MAX_GREP_PATTERN_LEN :: nat where
  "MAX_GREP_PATTERN_LEN = 255"

definition DEFAULT_LINE_LIMIT :: u32 where
  "DEFAULT_LINE_LIMIT = 100"

definition MAX_LINE_LIMIT :: u32 where
  "MAX_LINE_LIMIT = 10000"

definition validate_grep_pattern :: "DiagEnv \<Rightarrow> string \<Rightarrow> Status + (string \<Rightarrow> bool) option" where
  "validate_grep_pattern env pattern =
     (if pattern = [] then Inr None
      else if length pattern > MAX_GREP_PATTERN_LEN then
        Inl (Status InvalidArgument (''invalid grep pattern: exceeds maximum length of '' @
          show_nat MAX_GREP_PATTERN_LEN @ '' chars''))
      else case de_regex_new env pattern of
        Inr re \<Rightarrow> Inr (Some re)
      | Inl e \<Rightarrow> Inl (Status InvalidArgument (''invalid grep pattern: '' @ e)))"

definition validate_service_name :: "string \<Rightarrow> string list \<Rightarrow> Status + unit" where
  "validate_service_name name declared =
     (if name = [] then Inr ()
      else if contains name ''/'' \<or> contains name ''..'' then
        Inl (Status InvalidArgument
          (''invalid service name: must not contain path separators: '' @ name))
      else Inr ())"

definition normalize_line_limit :: "u32 \<Rightarrow> u32" where
  "normalize_line_limit limit = (if limit = 0 then DEFAULT_LINE_LIMIT else min limit MAX_LINE_LIMIT)"

definition read_last_n_lines :: "string \<Rightarrow> u32 \<Rightarrow> string list" where
  "read_last_n_lines content n = (let ls = lines content in
     if length ls \<le> unat n then ls else drop (length ls - unat n) ls)"

definition apply_grep :: "(string \<Rightarrow> bool) option \<Rightarrow> string list \<Rightarrow> string list" where
  "apply_grep pattern ls = (case pattern of None \<Rightarrow> ls | Some re \<Rightarrow> filter re ls)"

definition file_chunk :: "string \<Rightarrow> u32 \<Rightarrow> (string \<Rightarrow> bool) option \<Rightarrow> string \<Rightarrow> DiagChunk" where
  "file_chunk source limit grep content = \<lparr>dc_source = source,
     dc_lines = apply_grep grep (read_last_n_lines content limit),
     dc_truncated = unat limit < length (lines content)\<rparr>"

definition empty_chunk :: "string \<Rightarrow> bool \<Rightarrow> DiagChunk" where
  "empty_chunk source truncated = \<lparr>dc_source = source, dc_lines = [], dc_truncated = truncated\<rparr>"

definition collect_dmesg :: "DiagEnv \<Rightarrow> u32 \<Rightarrow> (string \<Rightarrow> bool) option \<Rightarrow> DiagChunk" where
  "collect_dmesg env limit grep = (case de_read_to_string env ''/dev/kmsg'' of
     Some content \<Rightarrow> file_chunk ''dmesg'' limit grep content
   | None \<Rightarrow> (case de_run_command env ''dmesg'' [] of
       Inr content \<Rightarrow> file_chunk ''dmesg'' limit grep content
     | Inl e \<Rightarrow> empty_chunk ''dmesg'' False))"

definition collect_syslog :: "DiagEnv \<Rightarrow> u32 \<Rightarrow> (string \<Rightarrow> bool) option \<Rightarrow> DiagChunk" where
  "collect_syslog env limit grep = (case de_read_to_string env ''/var/log/syslog'' of
     Some content \<Rightarrow> file_chunk ''syslog'' limit grep content
   | None \<Rightarrow> (case de_read_to_string env ''/var/log/messages'' of
       Some content \<Rightarrow> file_chunk ''syslog'' limit grep content
     | None \<Rightarrow> empty_chunk ''syslog'' False))"

definition service_log_path :: "string \<Rightarrow> string" where
  "service_log_path service = ''/run/pact/logs/'' @ service @ ''.log''"

definition collect_service_log ::
  "DiagEnv \<Rightarrow> string \<Rightarrow> u32 \<Rightarrow> (string \<Rightarrow> bool) option \<Rightarrow> SupervisorBackend \<Rightarrow> DiagChunk" where
  "collect_service_log env service limit grep backend =
     (let source = ''service:'' @ service in case backend of
        BackendPact \<Rightarrow> (case de_read_to_string env (service_log_path service) of
          Some content \<Rightarrow> file_chunk source limit grep content
        | None \<Rightarrow> empty_chunk source False)
      | BackendSystemd \<Rightarrow>
          (case de_run_command env ''journalctl''
             [''-u'', service, ''--no-pager'', ''-n'', show_nat (unat limit)] of
             Inr content \<Rightarrow> \<lparr>dc_source = source, dc_lines = apply_grep grep (lines content),
               dc_truncated = False\<rparr>
           | Inl e \<Rightarrow> empty_chunk source True))"

definition collect_diag :: "DiagEnv \<Rightarrow> DiagRequest \<Rightarrow> SupervisorBackend \<Rightarrow> string list \<Rightarrow> DiagChunk list" where
  "collect_diag env r backend declared =
     (let limit = normalize_line_limit (dr_line_limit r);
          grep = (if dr_grep_pattern r = [] then None
                  else case de_regex_new env (dr_grep_pattern r) of Inr re \<Rightarrow> Some re | Inl _ \<Rightarrow> None);
          source = dr_source_filter r;
          collect_system = (source = ''system'' \<or> source = ''all'' \<or> source = []);
          collect_service = (source = ''service'' \<or> source = ''all'' \<or> source = [])
      in (if collect_system then [collect_dmesg env limit grep, collect_syslog env limit grep] else []) @
         (if collect_service then
            if dr_service_name r = []
            then map (\<lambda>svc. collect_service_log env svc limit grep backend) declared
            else [collect_service_log env (dr_service_name r) limit grep backend]
          else []))"

subsection \<open>Bounds and confinement\<close>

lemma unat_normalize_line_limit:
  "unat (normalize_line_limit l) = min 10000 (if l = 0 then 100 else unat l)"
  by (auto simp: normalize_line_limit_def DEFAULT_LINE_LIMIT_def MAX_LINE_LIMIT_def
      min_def word_le_nat_alt)

lemma read_last_n_lines_bound: "length (read_last_n_lines content n) \<le> unat n"
  by (simp add: read_last_n_lines_def Let_def)

lemma read_last_n_lines_suffix: "suffix (read_last_n_lines content n) (lines content)"
  by (simp add: read_last_n_lines_def Let_def suffix_drop)

lemma apply_grep_length: "length (apply_grep p ls) \<le> length ls"
  by (simp add: apply_grep_def split: option.splits)

lemma file_chunk_bound: "length (dc_lines (file_chunk source limit grep content)) \<le> unat limit"
  using le_trans [OF apply_grep_length read_last_n_lines_bound] by (simp add: file_chunk_def)

lemma empty_chunk_lines [simp]: "dc_lines (empty_chunk source t) = []"
  by (simp add: empty_chunk_def)

lemma source_bounds:
  "length (dc_lines (collect_dmesg env limit grep)) \<le> unat limit"
  "length (dc_lines (collect_syslog env limit grep)) \<le> unat limit"
  "length (dc_lines (collect_service_log env s limit grep BackendPact)) \<le> unat limit"
  by (simp_all add: collect_dmesg_def collect_syslog_def collect_service_log_def file_chunk_bound Let_def
      split: option.splits sum.splits)

lemma collect_diag_bounded:
  assumes "c \<in> set (collect_diag env r BackendPact declared)"
  shows "length (dc_lines c) \<le> unat (normalize_line_limit (dr_line_limit r))"
  using assms source_bounds unfolding collect_diag_def Let_def
  by (auto simp del: not_None_eq split: if_split_asm)

text \<open>The pattern of a request, and that every line returned matches it.\<close>

definition request_matches :: "DiagEnv \<Rightarrow> DiagRequest \<Rightarrow> string \<Rightarrow> bool" where
  "request_matches env r l = (if dr_grep_pattern r = [] then True
     else case de_regex_new env (dr_grep_pattern r) of Inr re \<Rightarrow> re l | Inl _ \<Rightarrow> True)"

lemma source_matches:
  "l \<in> set (dc_lines (collect_dmesg env limit (Some re))) \<Longrightarrow> re l"
  "l \<in> set (dc_lines (collect_syslog env limit (Some re))) \<Longrightarrow> re l"
  "l \<in> set (dc_lines (collect_service_log env s limit (Some re) backend)) \<Longrightarrow> re l"
  by (auto simp: collect_dmesg_def collect_syslog_def collect_service_log_def file_chunk_def
      apply_grep_def Let_def split: option.splits sum.splits SupervisorBackend.splits)

lemma collect_diag_matches:
  assumes "c \<in> set (collect_diag env r backend declared)" "l \<in> set (dc_lines c)"
  shows "request_matches env r l"
  using assms source_matches unfolding collect_diag_def request_matches_def Let_def
  by (cases "de_regex_new env (dr_grep_pattern r)") (auto split: if_split_asm)

text \<open>
  The files a request may touch: the three system logs and, for the service it names or each
  declared one, a file directly in the directory of service logs.
\<close>

definition diag_paths :: "DiagRequest \<Rightarrow> string list \<Rightarrow> string set" where
  "diag_paths r declared = {''/dev/kmsg'', ''/var/log/syslog'', ''/var/log/messages''} \<union>
     service_log_path ` (if dr_service_name r = [] then set declared else {dr_service_name r})"

lemma collect_diag_confined:
  assumes "\<forall>p \<in> diag_paths r declared. f p = de_read_to_string env p"
  shows "collect_diag (env\<lparr>de_read_to_string := f\<rparr>) r backend declared =
    collect_diag env r backend declared"
proof -
  have "collect_dmesg (env\<lparr>de_read_to_string := f\<rparr>) limit grep = collect_dmesg env limit grep"
    "collect_syslog (env\<lparr>de_read_to_string := f\<rparr>) limit grep = collect_syslog env limit grep"
    for limit grep
    using assms by (simp_all add: collect_dmesg_def collect_syslog_def diag_paths_def split: option.split sum.split)
  moreover have "collect_service_log (env\<lparr>de_read_to_string := f\<rparr>) s limit grep backend =
      collect_service_log env s limit grep backend"
    if "s \<in> (if dr_service_name r = [] then set declared else {dr_service_name r})" for s limit grep
    using assms that
    by (cases backend) (simp_all add: collect_service_log_def diag_paths_def split: option.split sum.split)
  ultimately show ?thesis
    by (simp add: collect_diag_def Let_def)
qed

lemma contains_char: "contains s [c] \<longleftrightarrow> c \<in> set s"
  by (auto simp: contains_def sublist_def in_set_conv_decomp)

text \<open>An accepted service name stays in that directory, whatever the file system.\<close>

lemma service_path_direct:
  assumes "validate_service_name s declared = Inr ()"
  shows "path_components (service_log_path s) = [''run'', ''pact'', ''logs'', s @ ''.log'']"
proof -
  have s: "CHR ''/'' \<notin> set s"
    using assms by (auto simp: validate_service_name_def contains_char split: if_splits)
  have "split_on CHR ''/'' (service_log_path s) = [[], ''run'', ''pact'', ''logs'', s @ ''.log'']"
    using s by (simp add: service_log_path_def split_on_no_sep)
  moreover have "s @ ''.log'' \<noteq> []" "s @ ''.log'' \<noteq> ''.''" "s @ ''.log'' \<noteq> ''..''"
    by (cases s; simp)+
  ultimately show ?thesis
    by (simp add: path_components_def push_component_def)
qed

end
