(* ===== verification/Shell_Service.thy ===== *)
theory Shell_Service
  imports Diag Commit_Window
begin

text \<open>
  The gRPC service of the agent shell, \<open>crates/pact-agent/src/shell/grpc_service.rs\<close>: the RPCs
  \<open>exec\<close>, \<open>shell\<close>, \<open>list_commands\<close>, \<open>extend_commit_window\<close> and \<open>collect_diag\<close>. The authorization
  header is the metadata value where there is one. The terminal (allocation, writes and what it
  prints) is a parameter; the effects of a session on it are recorded in order.
\<close>

record ShellServiceImpl =
  si_server :: ShellServer
  si_commit_window :: CommitWindowManager

definition missing_header :: Status where
  "missing_header = Status Unauthenticated ''missing authorization header''"

fun show_AuthError :: "AuthError \<Rightarrow> string" where
  "show_AuthError MissingToken = ''missing authorization metadata''"
| "show_AuthError InvalidFormat = ''invalid Bearer token format''"
| "show_AuthError TokenExpired = ''token expired''"
| "show_AuthError (InvalidAudience a) = ''invalid audience: expected '' @ a"
| "show_AuthError (InvalidIssuer i) = ''invalid issuer: expected '' @ i"
| "show_AuthError (InvalidToken t) = ''invalid token: '' @ t"
| "show_AuthError NoSigningKey = ''no signing key configured''"
| "show_AuthError (JwksFetchError e) = ''JWKS fetch error: '' @ e"
| "show_AuthError (AuthInsufficientPrivileges p) = ''insufficient privileges: '' @ p"

fun show_ExecError :: "ExecError \<Rightarrow> string" where
  "show_ExecError (NotWhitelisted c) = ''command not whitelisted: '' @ c"
| "show_ExecError (CommandNotFound c) = ''command not found on PATH: '' @ c"
| "show_ExecError (ExecutionFailed e) = ''execution failed: '' @ e"
| "show_ExecError (ExecTimeout n) = ''command timed out after '' @ show_nat (unat n) @ '' seconds''"

fun show_SessionError :: "SessionError \<Rightarrow> string" where
  "show_SessionError (MaxSessionsExceeded n) =
     ''maximum concurrent sessions ('' @ show_nat n @ '') exceeded''"
| "show_SessionError (SessionNotFound s) = ''session not found: '' @ s"
| "show_SessionError (PtyFailed e) = ''PTY allocation failed: '' @ e"
| "show_SessionError (SetupFailed e) = ''session setup failed: '' @ e"

fun show_ShellError :: "ShellError \<Rightarrow> string" where
  "show_ShellError (ShellAuth e) = ''authentication failed: '' @ show_AuthError e"
| "show_ShellError (ShellExec e) = ''execution failed: '' @ show_ExecError e"
| "show_ShellError (ShellSessionError e) = ''session error: '' @ show_SessionError e"

subsection \<open>exec\<close>

datatype ExecOutput = ExecStdout bytes | ExecStderr bytes | ExecExitCode int | ExecErrorText string

definition exec_outputs :: "ShellError + ExecResult \<times> bool \<Rightarrow> ExecOutput list" where
  "exec_outputs r = (case r of
     Inr (result, _) \<Rightarrow>
       (if xr_stdout result = [] then [] else [ExecStdout (xr_stdout result)]) @
       (if xr_stderr result = [] then [] else [ExecStderr (xr_stderr result)]) @
       [ExecExitCode (xr_exit_code result)]
   | Inl e \<Rightarrow> [ExecErrorText (show_ShellError e)])"

text \<open>The effect \<open>CommitWindowOpened\<close> of the pipeline, on the window the service shares with it.\<close>

definition open_window_for :: "time \<Rightarrow> ShellEffect list \<Rightarrow> CommitWindowManager \<Rightarrow> CommitWindowManager" where
  "open_window_for now effects cw = (if CommitWindowOpened \<in> set effects then window_open now (Fin 1) cw else cw)"

definition rpc_exec ::
  "TokenClaims Jwt \<Rightarrow> (string \<Rightarrow> string list \<Rightarrow> ExecConfig \<Rightarrow> ExecError + ExecResult) \<Rightarrow> time \<Rightarrow> string option \<Rightarrow> string \<Rightarrow>
   string list \<Rightarrow> ShellServiceImpl \<Rightarrow> ShellServiceImpl \<times> ShellEffect list \<times> (Status + ExecOutput list)" where
  "rpc_exec jwt execute now header command args si = (case header of
     None \<Rightarrow> (si, [], Inl missing_header)
   | Some h \<Rightarrow> (case shell_exec jwt execute now h command args (si_server si) of
       (sv, effects, r) \<Rightarrow>
         (si\<lparr>si_server := sv, si_commit_window := open_window_for now effects (si_commit_window si)\<rparr>,
          effects, Inr (exec_outputs r))))"

subsection \<open>shell\<close>

datatype ShellInput = InOpen u32 u32 string | InStdin bytes | InResize u32 u32 | InClose

text \<open>An item of the client's stream: an error of the stream, or a message that may be empty.\<close>

type_synonym input_item = "string + ShellInput option"

datatype ShellOutput = OutSessionId string | OutStdout bytes | OutExitCode int

text \<open>
  What is done to the terminal of a session and to the shell behind it. Closing kills the shell.
\<close>

datatype PtyEffect =
    PtyAllocated ShellSession | PtyWrite bytes | PtyResize u16 u16 | PtyClosed | RemoveDir string

definition clamp_dim :: "u32 \<Rightarrow> u16" where
  "clamp_dim n = ucast (min n 500)"

definition shell_accept ::
  "TokenClaims Jwt \<Rightarrow> string option \<Rightarrow> input_item list \<Rightarrow> ShellServer \<Rightarrow>
   Status + (Identity \<times> u16 \<times> u16 \<times> string) \<times> input_item list" where
  "shell_accept jwt header items sv = (case header of
     None \<Rightarrow> Inl missing_header
   | Some h \<Rightarrow> (case shell_authenticate jwt sv h of
       Inl e \<Rightarrow> Inl (Status Unauthenticated (show_AuthError e))
     | Inr identity \<Rightarrow>
         if \<not> has_ops_role identity (ss_vcluster_id sv) then
           Inl (Status PermissionDenied (''shell requires pact-ops-'' @ ss_vcluster_id sv @
             '' or pact-platform-admin role''))
         else (case items of
           [] \<Rightarrow> Inl (Status InvalidArgument ''stream closed before ShellOpen'')
         | Inl e # _ \<Rightarrow> Inl (Status Internal (''stream error: '' @ e))
         | Inr (Some (InOpen rows cols term)) # rest \<Rightarrow>
             Inr ((identity, clamp_dim rows, clamp_dim cols,
               if term = [] then ''xterm-256color'' else term), rest)
         | Inr _ # _ \<Rightarrow> Inl (Status InvalidArgument
             ''first message must be ShellOpen with terminal dimensions''))))"

definition shell_create ::
  "string \<Rightarrow> time \<Rightarrow> Identity \<times> u16 \<times> u16 \<times> string \<Rightarrow> ShellServer \<Rightarrow> ShellServer \<times> (Status + string)" where
  "shell_create uuid now opened sv = (case opened of (identity, rows, cols, term) \<Rightarrow>
     (case create_session uuid now identity (ss_node_id sv) (ss_vcluster_id sv) rows cols term
        (ss_sessions sv) of
        (m, Inl e) \<Rightarrow> (sv\<lparr>ss_sessions := m\<rparr>, Inl (Status ResourceExhausted (show_SessionError e)))
      | (m, Inr s) \<Rightarrow> (sv\<lparr>ss_sessions := m\<rparr>, Inr (sh_session_id s))))"

definition shell_start ::
  "(ShellSession \<Rightarrow> SessionError + unit) \<Rightarrow> string \<Rightarrow> ShellServer \<Rightarrow>
   ShellServer \<times> PtyEffect list \<times> (Status + ShellSession)" where
  "shell_start allocate_pty sid sv = (case get_session (ss_sessions sv) sid of
     None \<Rightarrow> (sv, [], Inl (Status Internal ''session vanished''))
   | Some session_data \<Rightarrow> (case allocate_pty session_data of
       Inl e \<Rightarrow> (sv\<lparr>ss_sessions := fst (remove_session sid (ss_sessions sv))\<rparr>, [],
         Inl (Status Internal (''PTY allocation failed: '' @ show_SessionError e)))
     | Inr _ \<Rightarrow> (sv\<lparr>ss_sessions := update_session sid session_activate (ss_sessions sv)\<rparr>,
         [PtyAllocated session_data], Inr session_data)))"

text \<open>The loop that passes the client's messages to the terminal.\<close>

fun writer_loop :: "(bytes \<Rightarrow> bool) \<Rightarrow> input_item list \<Rightarrow> PtyEffect list" where
  "writer_loop write [] = []"
| "writer_loop write (Inl e # items) = []"
| "writer_loop write (Inr None # items) = writer_loop write items"
| "writer_loop write (Inr (Some (InStdin d)) # items) =
     (if write d then PtyWrite d # writer_loop write items else [])"
| "writer_loop write (Inr (Some (InResize rows cols)) # items) =
     PtyResize (clamp_dim rows) (clamp_dim cols) # writer_loop write items"
| "writer_loop write (Inr (Some InClose) # items) = []"
| "writer_loop write (Inr (Some (InOpen _ _ _)) # items) = writer_loop write items"

definition shell_finish :: "string \<Rightarrow> ShellServer \<Rightarrow> ShellServer" where
  "shell_finish sid sv = sv\<lparr>ss_sessions := fst (remove_session sid
     (update_session sid session_finalize (update_session sid session_close (ss_sessions sv))))\<rparr>"

text \<open>
  The end of a session. The reader task reads the terminal in a blocking call that holds a
  reference to it and that aborting the task does not stop. With such a read outstanding the
  handle cannot be taken out of its \<open>Arc\<close> and is not closed; the reader has ended after an empty
  read or an error of the terminal.
\<close>

definition reader_waits :: "bool \<Rightarrow> bytes list \<Rightarrow> bool" where
  "reader_waits reading stdout \<longleftrightarrow> reading \<and> [] \<notin> set stdout"

definition shell_cleanup :: "bool \<Rightarrow> bytes list \<Rightarrow> ShellSession \<Rightarrow> PtyEffect list" where
  "shell_cleanup reading stdout session_data =
     (if reader_waits reading stdout then [] else [PtyClosed]) @ [RemoveDir (bin_dir session_data)]"

text \<open>
  The whole RPC. \<open>stdout\<close> is what the reader of the terminal has read when the loop above ends, and
  \<open>reading\<close> whether it waits for more; \<open>others\<close> is what other sessions do to the session manager
  while this one is open.
\<close>

definition rpc_shell ::
  "TokenClaims Jwt \<Rightarrow> (ShellSession \<Rightarrow> SessionError + unit) \<Rightarrow> (bytes \<Rightarrow> bool) \<Rightarrow> bytes list \<Rightarrow> bool \<Rightarrow> string \<Rightarrow> time \<Rightarrow>
   session_op list \<Rightarrow> string option \<Rightarrow> input_item list \<Rightarrow> ShellServer \<Rightarrow>
   ShellServer \<times> PtyEffect list \<times> (Status + ShellOutput list)" where
  "rpc_shell jwt allocate_pty write stdout reading uuid now others header items sv =
     (case shell_accept jwt header items sv of
        Inl e \<Rightarrow> (sv, [], Inl e)
      | Inr (opened, rest) \<Rightarrow>
          (case shell_create uuid now opened sv of
             (sv1, Inl e) \<Rightarrow> (sv1, [], Inl e)
           | (sv1, Inr sid) \<Rightarrow>
               (case shell_start allocate_pty sid sv1 of
                  (sv2, effects, Inl e) \<Rightarrow> (sv2, effects, Inl e)
                | (sv2, effects, Inr session_data) \<Rightarrow>
                    let sv3 = sv2\<lparr>ss_sessions := sessions.run others (ss_sessions sv2)\<rparr> in
                    (shell_finish sid sv3,
                     effects @ writer_loop write rest @ shell_cleanup reading stdout session_data,
                     Inr ([OutSessionId sid] @ map OutStdout (takeWhile (\<lambda>d. d \<noteq> []) stdout) @
                       [OutExitCode 0])))))"

subsection \<open>list_commands, extend_commit_window, collect_diag\<close>

record CommandEntry =
  ce_command :: string
  ce_state_changing :: bool
  ce_description :: string

definition rpc_list_commands :: "string option \<Rightarrow> ShellServiceImpl \<Rightarrow> Status + CommandEntry list" where
  "rpc_list_commands header si = (case header of
     None \<Rightarrow> Inl missing_header
   | Some _ \<Rightarrow> Inr (map (\<lambda>e. \<lparr>ce_command = we_command e, ce_state_changing = we_state_changing e,
       ce_description = we_description e\<rparr>) (list_commands (si_server si))))"

record ExtendWindowResponse =
  ew_success :: bool
  ew_new_deadline_seconds :: u32
  ew_error :: "string option"

definition rpc_extend_commit_window ::
  "time \<Rightarrow> string option \<Rightarrow> u32 \<Rightarrow> ShellServiceImpl \<Rightarrow>
   ShellServiceImpl \<times> (Status + ExtendWindowResponse)" where
  "rpc_extend_commit_window now header mins si = (case header of
     None \<Rightarrow> (si, Inl missing_header)
   | Some _ \<Rightarrow>
       if mins = 0 then (si, Inr \<lparr>ew_success = False, ew_new_deadline_seconds = 0,
         ew_error = Some ''additional_minutes must be > 0''\<rparr>)
       else let cw = extend_window (mins * 60) (si_commit_window si) in
         (si\<lparr>si_commit_window := cw\<rparr>, Inr \<lparr>ew_success = True,
           ew_new_deadline_seconds = seconds_remaining now cw, ew_error = None\<rparr>))"

definition rpc_collect_diag ::
  "TokenClaims Jwt \<Rightarrow> DiagEnv \<Rightarrow> string option \<Rightarrow> DiagRequest \<Rightarrow> ShellServer \<Rightarrow> Status + DiagChunk list" where
  "rpc_collect_diag jwt env header r sv = (case header of
     None \<Rightarrow> Inl missing_header
   | Some h \<Rightarrow> (case shell_authenticate jwt sv h of
       Inl e \<Rightarrow> Inl (Status Unauthenticated (show_AuthError e))
     | Inr identity \<Rightarrow>
         if \<not> has_ops_role identity (ss_vcluster_id sv) then
           Inl (Status PermissionDenied ''diag requires pact-ops or pact-platform-admin role'')
         else (case validate_grep_pattern env (dr_grep_pattern r) of
           Inl e \<Rightarrow> Inl e
         | Inr _ \<Rightarrow> (case validate_service_name (dr_service_name r) (ss_declared_services sv) of
             Inl e \<Rightarrow> Inl e
           | Inr _ \<Rightarrow> Inr (collect_diag env r (ss_supervisor_backend sv) (ss_declared_services sv))))))"

subsection \<open>Sessions are opened by operators only\<close>

lemma clamp_dim_bound: "unat (clamp_dim n) \<le> 500"
proof -
  have "unat (min n (500 :: u32)) \<le> unat (500 :: u32)"
    by (rule word_le_nat_alt [THEN iffD1]) (rule min.cobounded2)
  then show ?thesis
    by (simp add: clamp_dim_def unsigned_ucast_eq take_bit_nat_eq_self)
qed

lemma shell_accept_ok:
  assumes "shell_accept jwt header items sv = Inr ((i, rows, cols, term), rest)"
  shows "\<exists>h r c t. header = Some h \<and> shell_authenticate jwt sv h = Inr i \<and>
    has_ops_role i (ss_vcluster_id sv) \<and> items = Inr (Some (InOpen r c t)) # rest \<and>
    rows = clamp_dim r \<and> cols = clamp_dim c"
  using assms
  by (auto simp: shell_accept_def split: option.splits sum.splits if_splits list.splits
      ShellInput.splits)

lemma shell_create_ok:
  assumes "shell_create uuid now (i, rows, cols, term) sv = (sv1, Inr sid)"
  shows "sid = uuid \<and> session_count (ss_sessions sv) < sm_max_sessions (ss_sessions sv) \<and>
    sv1 = sv\<lparr>ss_sessions := (ss_sessions sv)\<lparr>sm_sessions := hm_insert uuid
      (session_new uuid now i (ss_node_id sv) (ss_vcluster_id sv) rows cols term)
      (sm_sessions (ss_sessions sv))\<rparr>\<rparr>"
  using assms
  by (auto simp: shell_create_def create_session_def session_count_def session_new_def Let_def
      split: if_splits)

lemma shell_create_error:
  assumes "shell_create uuid now opened sv = (sv1, Inl e)"
  shows "sv1 = sv"
  using assms by (auto simp: shell_create_def create_session_def Let_def split: if_splits prod.splits)

lemma get_session_finish:
  "get_session (ss_sessions (shell_finish sid sv)) s =
     (if s = sid then None else get_session (ss_sessions sv) s)"
  by (simp add: shell_finish_def remove_session_def update_session_def get_session_def
      split: option.split)

lemma get_session_start:
  assumes "shell_start allocate sid sv = (sv2, effects, r)"
  shows "s \<noteq> sid \<Longrightarrow> get_session (ss_sessions sv2) s = get_session (ss_sessions sv) s"
    and "r = Inl e \<Longrightarrow> effects = [] \<and> get_session (ss_sessions sv2) sid = None"
    and "r = Inr d \<Longrightarrow> get_session (ss_sessions sv) sid = Some d \<and> allocate d = Inr () \<and>
      effects = [PtyAllocated d]"
  using assms
  by (auto simp: shell_start_def remove_session_def update_session_def get_session_def
      split: option.splits sum.splits)

text \<open>What an accepted call has done to the terminal, and what is left in the manager.\<close>

definition session_outcome ::
  "(bytes \<Rightarrow> bool) \<Rightarrow> bytes list \<Rightarrow> bool \<Rightarrow> string \<Rightarrow> session_op list \<Rightarrow> Identity \<Rightarrow> input_item list \<Rightarrow>
   ShellServer \<Rightarrow> ShellServer \<Rightarrow> PtyEffect list \<Rightarrow> bool" where
  "session_outcome write stdout reading uuid others i rest sv sv' effects \<longleftrightarrow>
     (effects = [] \<or> (\<exists>s. effects = PtyAllocated s # writer_loop write rest @
          (if reading \<and> [] \<notin> set stdout then [] else [PtyClosed]) @
          [RemoveDir (''/run/pact/shell/'' @ uuid @ ''/bin'')] \<and> sh_user s = i \<and> unat (sh_rows s) \<le> 500 \<and> unat (sh_cols s) \<le> 500)) \<and>
     get_session (ss_sessions sv') uuid = None \<and>
     (others = [] \<longrightarrow> get_session (ss_sessions sv') = get_session (ss_sessions sv))"

lemma rpc_shell_created:
  assumes rpc: "rpc_shell jwt allocate_pty write stdout reading uuid now others header items sv = (sv', effects, r)"
    and fresh: "get_session (ss_sessions sv) uuid = None"
    and acc: "shell_accept jwt header items sv = Inr ((i, rows, cols, tm), rest)"
    and create: "shell_create uuid now (i, rows, cols, tm) sv = (sv1, Inr sid)"
  shows "session_outcome write stdout reading uuid others i rest sv sv' effects"
proof -
  define d where "d = session_new uuid now i (ss_node_id sv) (ss_vcluster_id sv) rows cols tm"
  have sid: "sid = uuid" and sv1: "get_session (ss_sessions sv1) = (get_session (ss_sessions sv)) (uuid := Some d)"
    using shell_create_ok [OF create] by (auto simp: get_session_def fun_eq_iff d_def)
  have d: "sh_user d = i" "unat (sh_rows d) \<le> 500" "unat (sh_cols d) \<le> 500" "sh_session_id d = uuid"
    using shell_accept_ok [OF acc] by (auto simp: d_def session_new_def clamp_dim_bound)
  obtain sv2 eff st where start: "shell_start allocate_pty uuid sv1 = (sv2, eff, st)"
    by (cases "shell_start allocate_pty uuid sv1") auto
  have sv2: "get_session (ss_sessions sv2) s = get_session (ss_sessions sv) s" if "s \<noteq> uuid" for s
    using get_session_start(1) [OF start that] sv1 that by simp
  show ?thesis
  proof (cases st)
    case (Inl e)
    then have "sv' = sv2" "effects = []" "get_session (ss_sessions sv2) uuid = None"
      using rpc acc create sid start get_session_start(2) [OF start] by (auto simp: rpc_shell_def)
    then show ?thesis
      using sv2 fresh unfolding session_outcome_def fun_eq_iff by metis
  next
    case (Inr u)
    then have "sv' = shell_finish uuid (sv2\<lparr>ss_sessions := sessions.run others (ss_sessions sv2)\<rparr>)"
      and "effects = PtyAllocated d # writer_loop write rest @ shell_cleanup reading stdout d"
      using rpc acc create sid start get_session_start(3) [OF start] sv1
      by (auto simp: rpc_shell_def Let_def)
    then show ?thesis
      using sv2 fresh d
      by (auto simp: session_outcome_def fun_eq_iff get_session_finish shell_cleanup_def reader_waits_def bin_dir_def)
  qed
qed


definition sample_server :: ShellServer where
  "sample_server = shell_server_new (sample_config\<lparr>au_hmac_secret := Some [1]\<rparr>) default_exec_config
     ''n1'' ''ml'' False 1"

lemma sample_auth:
  "shell_authenticate sample_jwt sample_server ''Bearer tok'' = Inr (claims_to_identity sample_claims)"
  by (simp add: shell_authenticate_def extract_bearer_token_def strip_prefix_def validate_token_def
      sample_server_def shell_server_new_def sample_config_def sample_jwt_def)

lemma sample_ops: "has_ops_role (claims_to_identity sample_claims) (ss_vcluster_id sample_server)"
  by (simp add: has_ops_role_def claims_to_identity_def sample_claims_def sample_server_def
      shell_server_new_def)


subsection \<open>Diagnostics are confined\<close>

text \<open>
  Diagnostic logs are collected only for an authenticated operator of this vCluster (or a
  platform admin). Every line returned matches the pattern of the request; with pact's own
  supervisor no source gives more than 10000 lines or more than the limit asked for. The answer
  depends on no file but the three system logs and the log files of the requested services, and a
  service named in the request designates a file directly in the directory of service logs.
\<close>

theorem diag_confined:
  assumes "rpc_collect_diag jwt env header r sv = Inr chunks"
  shows "(\<exists>h i. header = Some h \<and> shell_authenticate jwt sv h = Inr i \<and>
        has_ops_role i (ss_vcluster_id sv)) \<and>
    (\<forall>c \<in> set chunks. (\<forall>l \<in> set (dc_lines c). request_matches env r l) \<and>
      (ss_supervisor_backend sv = BackendPact \<longrightarrow>
        length (dc_lines c) \<le> min 10000 (if dr_line_limit r = 0 then 100 else unat (dr_line_limit r)))) \<and>
    (\<forall>f. (\<forall>p \<in> diag_paths r (ss_declared_services sv). f p = de_read_to_string env p) \<longrightarrow>
      rpc_collect_diag jwt (env\<lparr>de_read_to_string := f\<rparr>) header r sv = Inr chunks) \<and>
    path_components (service_log_path (dr_service_name r)) =
      [''run'', ''pact'', ''logs'', dr_service_name r @ ''.log'']"
proof (intro conjI)
  have chunks: "chunks = collect_diag env r (ss_supervisor_backend sv) (ss_declared_services sv)"
    and name: "validate_service_name (dr_service_name r) (ss_declared_services sv) = Inr ()"
    and auth: "\<exists>h i. header = Some h \<and> shell_authenticate jwt sv h = Inr i \<and>
        has_ops_role i (ss_vcluster_id sv)"
    using assms by (auto simp: rpc_collect_diag_def split: option.splits sum.splits if_splits)
  show "\<exists>h i. header = Some h \<and> shell_authenticate jwt sv h = Inr i \<and>
      has_ops_role i (ss_vcluster_id sv)"
    by (rule auth)
  show "path_components (service_log_path (dr_service_name r)) =
      [''run'', ''pact'', ''logs'', dr_service_name r @ ''.log'']"
    by (rule service_path_direct [OF name])
  show "\<forall>c \<in> set chunks. (\<forall>l \<in> set (dc_lines c). request_matches env r l) \<and>
      (ss_supervisor_backend sv = BackendPact \<longrightarrow>
        length (dc_lines c) \<le> min 10000 (if dr_line_limit r = 0 then 100 else unat (dr_line_limit r)))"
    using collect_diag_matches collect_diag_bounded unfolding chunks unat_normalize_line_limit
    by fastforce
  show "\<forall>f. (\<forall>p \<in> diag_paths r (ss_declared_services sv). f p = de_read_to_string env p) \<longrightarrow>
      rpc_collect_diag jwt (env\<lparr>de_read_to_string := f\<rparr>) header r sv = Inr chunks"
    using assms chunks
    by (auto simp: rpc_collect_diag_def collect_diag_confined validate_grep_pattern_def
        split: option.splits sum.splits if_splits)
qed

definition sample_env :: DiagEnv where
  "sample_env = \<lparr>de_regex_new = (\<lambda>p. Inr (\<lambda>l. contains l p)),
     de_read_to_string = (\<lambda>p. if p = ''/dev/kmsg'' then Some ''boot ok'' else None),
     de_run_command = (\<lambda>_ _. Inl ''no such command'')\<rparr>"

definition sample_diag_request :: DiagRequest where
  "sample_diag_request = \<lparr>dr_source_filter = ''system'', dr_service_name = ''sshd'',
     dr_grep_pattern = ''ok'', dr_line_limit = 20\<rparr>"

theorem diag_confined_witness:
  "rpc_collect_diag sample_jwt sample_env (Some ''Bearer tok'') sample_diag_request sample_server =
     Inr (collect_diag sample_env sample_diag_request BackendPact []) \<and>
   path_components (service_log_path ''sshd'') = [''run'', ''pact'', ''logs'', ''sshd.log'']"
proof -
  have "rpc_collect_diag sample_jwt sample_env (Some ''Bearer tok'') sample_diag_request sample_server =
     Inr (collect_diag sample_env sample_diag_request BackendPact [])"
    using sample_ops
    by (simp add: rpc_collect_diag_def sample_auth validate_grep_pattern_def validate_service_name_def
        sample_env_def sample_diag_request_def MAX_GREP_PATTERN_LEN_def contains_def)
      (simp add: sample_server_def shell_server_new_def sublist_Cons_right)
  with diag_confined [OF this] show ?thesis
    by (simp add: sample_diag_request_def)
qed

subsection \<open>The commit window of state-changing commands\<close>

lemma shell_exec_changes:
  assumes "shell_exec jwt execute now h command args sv = (sv', effects, Inr (result, sc))"
  shows "sv' = sv \<and> (CommitWindowOpened \<in> set effects \<longleftrightarrow> sc \<and> ss_has_commit_window sv) \<and>
    (\<exists>i. shell_authenticate jwt sv h = Inr i \<and> may_exec sv i command)"
proof -
  obtain i where i: "shell_authenticate jwt sv h = Inr i"
    using assms by (auto simp: shell_exec_def split: sum.splits)
  obtain sv1 d where a: "authorize_exec i command sv = (sv1, d)" by fastforce
  with assms i obtain c where "d = Inr c"
    by (cases d) (auto simp: shell_exec_def)
  with a have "sv1 = sv" "may_exec sv i command" by (simp_all add: authorize_exec_ok)
  with assms i a \<open>d = Inr c\<close> show ?thesis
    by (auto simp: shell_exec_def split: sum.splits)
qed

lemma window_open_expires:
  assumes "\<not> cw_emergency cw" "now + seconds (uint (window_seconds cw m)) \<le> t"
  shows "snd (check_expired t (window_open now m cw))"
  using assms by (simp add: check_expired_def window_open_def)

text \<open>
  A successful command that may change state leaves the commit window open: at least 60
  seconds remain (outside an emergency), and once the computed window is over without a commit,
  rollback or extension, the next check reports it as expired. A command that does not change
  state leaves the window alone.
\<close>

theorem exec_opens_window:
  assumes "rpc_exec jwt execute now (Some h) command args si = (si', effects, Inr outs)"
    and "shell_exec jwt execute now h command args (si_server si) = (sv, effects, Inr (result, sc))"
    and "ss_has_commit_window (si_server si)" and "\<not> cw_emergency (si_commit_window si)"
  shows "outs \<noteq> [] \<and> last outs = ExecExitCode (xr_exit_code result) \<and>
    (if sc then
       60 \<le> seconds_remaining now (si_commit_window si') \<and>
       (\<forall>t \<ge> now + seconds (uint (calculate_window_seconds (cw_config (si_commit_window si)) (Fin 1))).
          snd (check_expired t (si_commit_window si')))
     else si_commit_window si' = si_commit_window si)"
proof -
  define w where "w = calculate_window_seconds (cw_config (si_commit_window si)) (Fin 1)"
  have cw: "si_commit_window si' = (if sc then window_open now (Fin 1) (si_commit_window si)
      else si_commit_window si)" and outs: "outs = exec_outputs (Inr (result, sc))"
    using assms(1,2,3) shell_exec_changes [OF assms(2)]
    by (auto simp: rpc_exec_def open_window_for_def)
  have w: "window_seconds (si_commit_window si) (Fin 1) = w"
    using assms(4) by (simp add: window_seconds_def w_def)
  have "60 \<le> seconds_remaining now (window_open now (Fin 1) (si_commit_window si))"
    using calculate_at_least [of "cw_config (si_commit_window si)" "Fin 1"]
    by (simp add: seconds_remaining_def window_open_def w w_def)
  then show ?thesis
    using window_open_expires [OF assms(4), of now "Fin 1"]
    by (auto simp: cw outs exec_outputs_def w w_def [symmetric])
qed

lemma sample_sysctl_exec:
  "\<exists>effects. shell_exec sample_jwt (\<lambda>_ _ _. Inr res) 5 ''Bearer tok'' ''sysctl'' []
     (with_commit_window sample_server) = (with_commit_window sample_server, effects, Inr (res, True))"
proof -
  define sv where "sv = with_commit_window sample_server"
  have auth: "shell_authenticate sample_jwt sv ''Bearer tok'' = Inr (claims_to_identity sample_claims)"
    using sample_auth by (simp add: sv_def with_commit_window_def shell_authenticate_def split: option.splits)
  have "is_exec_allowed (whitelist_new False) ''sysctl''" "is_state_changing (whitelist_new False) ''sysctl''"
    by code_simp+
  then have "authorize_exec (claims_to_identity sample_claims) ''sysctl'' sv = (sv, Inr True)"
    using sample_ops by (simp add: authorize_exec_def sv_def with_commit_window_def sample_server_def
        shell_server_new_def)
  then show ?thesis
    using auth by (simp add: shell_exec_def sv_def)
qed

theorem exec_opens_window_witness:
  "\<exists>si' effects outs. rpc_exec sample_jwt
      (\<lambda>_ _ _. Inr \<lparr>xr_stdout = [], xr_stderr = [], xr_exit_code = 0\<rparr>) 5 (Some ''Bearer tok'') ''sysctl'' []
      \<lparr>si_server = with_commit_window sample_server, si_commit_window = window_new default_window_config\<rparr> =
      (si', effects, Inr outs) \<and>
    60 \<le> seconds_remaining 5 (si_commit_window si')"
proof -
  define res where "res = \<lparr>xr_stdout = [], xr_stderr = [], xr_exit_code = 0\<rparr>"
  define si where "si = \<lparr>si_server = with_commit_window sample_server,
    si_commit_window = window_new default_window_config\<rparr>"
  obtain effects where ex: "shell_exec sample_jwt (\<lambda>_ _ _. Inr res) 5 ''Bearer tok'' ''sysctl'' []
      (si_server si) = (si_server si, effects, Inr (res, True))"
    using sample_sysctl_exec by (auto simp: si_def)
  then obtain si' outs where run: "rpc_exec sample_jwt (\<lambda>_ _ _. Inr res) 5 (Some ''Bearer tok'') ''sysctl'' [] si =
      (si', effects, Inr outs)"
    by (simp add: rpc_exec_def)
  have "60 \<le> seconds_remaining 5 (si_commit_window si')"
    using exec_opens_window [OF run ex]
    by (simp add: si_def with_commit_window_def window_new_def)
  with run show ?thesis
    unfolding si_def res_def by blast
qed

text \<open>
  An extension adds the minutes asked for as long as they are below \<open>2 ^ 32\<close> seconds; beyond that
  the product wraps.
\<close>

lemma extend_exact:
  assumes "0 < mins" "uint mins \<le> 71582788" "cw_state (si_commit_window si) = WindowOpen t d"
  shows "cw_state (si_commit_window (fst (rpc_extend_commit_window now (Some h) mins si))) =
    WindowOpen t (d + seconds (uint mins * 60))"
proof -
  have "uint mins * 60 < 2 ^ 32"
    using assms(2) by simp
  then have "uint (mins * 60) = uint mins * 60"
    by (simp add: uint_word_ariths)
  with assms show ?thesis
    by (auto simp: rpc_extend_commit_window_def extend_window_def Let_def)
qed

lemma extend_wraps:
  assumes "cw_state (si_commit_window si) = WindowOpen t d"
  shows "cw_state (si_commit_window (fst (rpc_extend_commit_window now (Some h) 71582789 si))) =
    WindowOpen t (d + seconds 44)"
  using assms by (simp add: rpc_extend_commit_window_def extend_window_def Let_def)

end
