(* ===== verification/Agent_Boot.thy ===== *)
theory Agent_Boot
  imports Journal_Auth Subscription Drift Conflict Emergency Systemd Shell_Service
begin

text \<open>
  Start-up of the agent and what it wires together, \<open>crates/pact-agent/src/boot/mod.rs\<close>: the boot
  sequence with its phases, the client side of the boot configuration stream, the application of
  kernel parameters and mounts, the timer that rolls an expired commit window back, and the
  dispatch of configuration updates. System calls, JSON and zstd are parameters; what is done to
  the system is recorded in order.
\<close>

subsection \<open>Receiving the boot configuration\<close>

record BootConfigData =
  bd_overlay_data :: bytes
  bd_node_delta_data :: bytes
  bd_base_version :: u64

text \<open>The loop over the stream; a message may be empty, an error ends it.\<close>

fun receive_chunks :: "(string + Chunk option) list \<Rightarrow> BootConfigData \<Rightarrow> string + BootConfigData" where
  "receive_chunks [] d = Inr d"
| "receive_chunks (Inl e # ms) d = Inl (''boot config stream error: '' @ e)"
| "receive_chunks (Inr None # ms) d = receive_chunks ms d"
| "receive_chunks (Inr (Some (BaseOverlay ov)) # ms) d = receive_chunks ms
     (d\<lparr>bd_overlay_data := bd_overlay_data d @ oc_data ov, bd_base_version := oc_version ov\<rparr>)"
| "receive_chunks (Inr (Some (NodeDeltaMsg nd)) # ms) d = receive_chunks ms
     (d\<lparr>bd_node_delta_data := ndc_data nd\<rparr>)"
| "receive_chunks (Inr (Some (Complete c)) # ms) d = Inr d"

definition decompress_overlay :: "(bytes \<Rightarrow> bytes option) \<Rightarrow> bytes \<Rightarrow> bytes" where
  "decompress_overlay decode_all data = (if 4 \<le> length data
     then (case decode_all data of Some d \<Rightarrow> d | None \<Rightarrow> data) else data)"

definition boot_request :: "string \<Rightarrow> string \<Rightarrow> BootConfigRequest" where
  "boot_request node_id vcluster_id = \<lparr>bcr_node_id = node_id, bcr_vcluster_id = vcluster_id,
     bcr_last_known_version = None\<rparr>"

definition fetch_boot_config ::
  "(bytes \<Rightarrow> bytes option) \<Rightarrow> (BootConfigRequest \<Rightarrow> string + (string + Chunk option) list) \<Rightarrow>
   string \<Rightarrow> string \<Rightarrow> string + BootConfigData" where
  "fetch_boot_config decode_all call node_id vcluster_id =
     (case call (boot_request node_id vcluster_id) of
        Inl e \<Rightarrow> Inl (''StreamBootConfig failed: '' @ e)
      | Inr ms \<Rightarrow>
          (case receive_chunks ms \<lparr>bd_overlay_data = [], bd_node_delta_data = [], bd_base_version = 0\<rparr> of
             Inl e \<Rightarrow> Inl e
           | Inr d \<Rightarrow> Inr (d\<lparr>bd_overlay_data := decompress_overlay decode_all (bd_overlay_data d)\<rparr>)))"

subsection \<open>Applying a state delta\<close>

text \<open>
  What is done to the system. A mount has its source, path, type, whether the read-only flag
  \<open>MS_RDONLY\<close> is set, and the options handed over as data.
\<close>

datatype sys_effect =
    WriteFile string string
  | Unmount string
  | Mount string string string bool string

text \<open>\<open>str::replace\<close> of one character by another.\<close>

definition replace_char :: "char \<Rightarrow> char \<Rightarrow> string \<Rightarrow> string" where
  "replace_char a b = map (\<lambda>c. if c = a then b else c)"

definition sysctl_path :: "string \<Rightarrow> string" where
  "sysctl_path key = ''/proc/sys/'' @ replace_char CHR ''.'' CHR ''/'' key"

definition apply_sysctl :: "DeltaItem list \<Rightarrow> sys_effect list" where
  "apply_sysctl entries = concat (map (\<lambda>e.
     if di_action e = Remove then []
     else case di_value e of None \<Rightarrow> [] | Some v \<Rightarrow> [WriteFile (sysctl_path (di_key e)) v]) entries)"

definition parse_mount_value :: "string \<Rightarrow> string \<times> string \<times> string" where
  "parse_mount_value value =
     (let (main, options) = (case split_once CHR ''('' value of
          Some (before, after) \<Rightarrow> (trim before, trim (trim_end_char CHR '')'' after))
        | None \<Rightarrow> (trim value, []))
      in case split_once CHR '':'' main of
           Some (fs_type, source) \<Rightarrow> (trim fs_type, trim source, options)
         | None \<Rightarrow> (main, [], options))"

definition apply_mounts :: "DeltaItem list \<Rightarrow> sys_effect list" where
  "apply_mounts entries = concat (map (\<lambda>e. case di_action e of
       Remove \<Rightarrow> [Unmount (di_key e)]
     | _ \<Rightarrow> (case di_value e of
         None \<Rightarrow> []
       | Some v \<Rightarrow> (case parse_mount_value v of (fs_type, source, options) \<Rightarrow>
           [Mount source (di_key e) fs_type False options]))) entries)"

definition apply_state_delta :: "StateDelta \<Rightarrow> sys_effect list" where
  "apply_state_delta d = apply_sysctl (sd_kernel d) @ apply_mounts (sd_mounts d)"

subsection \<open>The rollback timer\<close>

definition rollback_tick ::
  "string \<Rightarrow> EmergencyManager \<Rightarrow> time \<Rightarrow> CommitWindowManager \<Rightarrow> CommitWindowManager" where
  "rollback_tick enforcement em now cw =
     (if enforcement = ''observe'' then cw
      else if is_active em then cw
      else let cw1 = fst (check_expired now cw) in
        case cw_state cw1 of
          WindowExpired _ _ \<Rightarrow> fst (rollback_with_check 0 cw1)
        | _ \<Rightarrow> cw1)"

subsection \<open>Configuration updates\<close>

record ConfigActionHandles =
  ch_drift_evaluator :: DriftEvaluator
  ch_commit_window :: CommitWindowManager
  ch_cached_policy :: "VClusterPolicy option"

definition handle_config_action :: "ConfigUpdateAction \<Rightarrow> ConfigActionHandles \<Rightarrow> ConfigActionHandles" where
  "handle_config_action action h = (case action of
     OverlayChanged _ \<Rightarrow> h
   | NodeDeltaChanged _ \<Rightarrow> h
   | PolicyChanged p \<Rightarrow> h\<lparr>
       ch_commit_window := update_config (vp_base_commit_window_seconds p)
         (f64_of_bits (vp_drift_sensitivity p)) (vp_emergency_window_seconds p) (ch_commit_window h),
       ch_cached_policy := Some p\<rparr>
   | BlacklistChanged patterns \<Rightarrow> h\<lparr>ch_drift_evaluator := drift_new patterns default_weights\<rparr>)"

definition start_subscription :: "string \<Rightarrow> string option \<Rightarrow> SubscriptionConfig" where
  "start_subscription node_id vcluster = default_subscription_config\<lparr>sbc_node_id := node_id,
     sbc_vcluster_id := (case vcluster of Some v \<Rightarrow> v | None \<Rightarrow> [])\<rparr>"

subsection \<open>The boot sequence\<close>

record AgentConfig =
  ac_node_id :: string
  ac_vcluster :: "string option"
  ac_enforcement_mode :: string
  ac_backend :: SupervisorBackend
  ac_commit_window :: CommitWindowConfig
  ac_blacklist :: "string list"

record BootEnv =
  be_is_pid1 :: bool
  be_mount_pseudofs :: "string + unit"
  be_zombie_reaper :: "string + unit"
  be_watchdog_open :: "string + bool"
  be_report :: "string + unit"
  be_decode_all :: "bytes \<Rightarrow> bytes option"
  be_delta_from_json :: "bytes \<Rightarrow> StateDelta option"

datatype boot_event =
    EvMountPseudofs | EvSetupConsole | EvSpawnReaper
  | EvProtectOom | EvCgroupHierarchy | EvOpenWatchdog | EvBootPetter
  | EvIdentity | EvReport | EvStreamConfig | EvApply "sys_effect list" | EvRollbackTimer | EvReady

datatype agent_supervisor = SupPact PactSupervisor | SupSystemd

record BootResult =
  br_supervisor :: agent_supervisor
  br_drift_evaluator :: DriftEvaluator
  br_commit_window :: CommitWindowManager
  br_emergency :: EmergencyManager
  br_conflict_manager :: ConflictManager
  br_config_state :: ConfigState
  br_enforcement_mode :: string
  br_cached_policy :: "VClusterPolicy option"
  br_watchdog :: bool
  br_boot_petter :: bool
  br_zombie_reaper :: bool

definition init_hardware :: "BootEnv \<Rightarrow> AgentConfig \<Rightarrow> boot_event list \<times> bool" where
  "init_hardware env c = (case ac_backend c of
     BackendSystemd \<Rightarrow> ([], False)
   | BackendPact \<Rightarrow>
       (let watchdog = be_is_pid1 env \<and> be_watchdog_open env = Inr True in
        ([EvProtectOom, EvCgroupHierarchy] @ (if be_is_pid1 env then [EvOpenWatchdog] else []) @
           (if watchdog then [EvBootPetter] else []),
         watchdog)))"

definition stream_phase ::
  "BootEnv \<Rightarrow> AgentConfig \<Rightarrow> (BootConfigRequest \<Rightarrow> string + (string + Chunk option) list) option \<Rightarrow>
   boot_event list" where
  "stream_phase env c journal = (case journal of
     None \<Rightarrow> []
   | Some call \<Rightarrow> EvStreamConfig #
       (case fetch_boot_config (be_decode_all env) call (ac_node_id c)
               (case ac_vcluster c of Some v \<Rightarrow> v | None \<Rightarrow> ''default'') of
          Inl e \<Rightarrow> []
        | Inr d \<Rightarrow>
            if bd_overlay_data d = [] then []
            else (case be_delta_from_json env (bd_overlay_data d) of
                Some delta \<Rightarrow> [EvApply (apply_state_delta delta)]
              | None \<Rightarrow> [])))"

definition boot ::
  "BootEnv \<Rightarrow> AgentConfig \<Rightarrow> (BootConfigRequest \<Rightarrow> string + (string + Chunk option) list) option \<Rightarrow>
   boot_event list \<times> (string + BootResult)" where
  "boot env c journal =
     (let early = (if be_is_pid1 env then [EvMountPseudofs] else []) in
      if be_is_pid1 env \<and> isl (be_mount_pseudofs env) then
        (early, Inl (''PID 1 early init failed: mount_pseudofs: '' @ projl (be_mount_pseudofs env)))
      else
        let pid1 = (if be_is_pid1 env then [EvSetupConsole, EvSpawnReaper] else []);
            (hardware, watchdog) = init_hardware env c;
            before = early @ pid1 @ hardware @ [EvIdentity, EvReport]
        in case be_report env of
          Inl e \<Rightarrow> (before, Inl e)
        | Inr _ \<Rightarrow>
            (before @ stream_phase env c journal @ [EvRollbackTimer, EvReady],
             Inr \<lparr>br_supervisor = (case ac_backend c of
                    BackendPact \<Rightarrow> SupPact (with_cgroup_manager supervisor_new)
                  | BackendSystemd \<Rightarrow> SupSystemd),
                  br_drift_evaluator = drift_new (ac_blacklist c) default_weights,
                  br_commit_window = window_new (ac_commit_window c),
                  br_emergency = emergency_new (cw_emergency_window_seconds (ac_commit_window c)),
                  br_conflict_manager = conflict_new (cw_base_window_seconds (ac_commit_window c)),
                  br_config_state = ObserveOnly,
                  br_enforcement_mode = ac_enforcement_mode c,
                  br_cached_policy = None,
                  br_watchdog = watchdog,
                  br_boot_petter = watchdog,
                  br_zombie_reaper = (be_is_pid1 env \<and> \<not> isl (be_zombie_reaper env))\<rparr>))"

subsection \<open>From the journal to the node\<close>

definition overlay_version :: "Chunk list \<Rightarrow> u64 \<Rightarrow> u64" where
  "overlay_version cs v = fold (\<lambda>c v. case c of BaseOverlay oc \<Rightarrow> oc_version oc | _ \<Rightarrow> v) cs v"

lemma receive_overlay:
  assumes "\<forall>c \<in> set cs. \<exists>oc. c = BaseOverlay oc"
  shows "receive_chunks (map (Inr \<circ> Some) cs @ ms) d = receive_chunks ms
    (d\<lparr>bd_overlay_data := bd_overlay_data d @ concat (map chunk_data cs),
       bd_base_version := overlay_version cs (bd_base_version d)\<rparr>)"
  using assms
proof (induction cs arbitrary: d)
  case (Cons c cs)
  then obtain oc where "c = BaseOverlay oc"
    by auto
  with Cons show ?case
    by (simp add: chunk_data_def overlay_version_def)
qed (simp add: overlay_version_def)

lemma overlay_chunks_versions:
  "\<forall>c \<in> set (overlay_chunks ov data). \<exists>oc. c = BaseOverlay oc"
  "overlay_version (overlay_chunks ov data) v = bo_version ov"
proof -
  have all: "\<exists>oc. c = BaseOverlay oc \<and> oc_version oc = bo_version ov" if "c \<in> set (overlay_chunks ov data)" for c
    using that overlay_chunks_nth [of _ ov data] by (metis in_set_conv_nth)
  then show "\<forall>c \<in> set (overlay_chunks ov data). \<exists>oc. c = BaseOverlay oc"
    by blast
  have "overlay_chunks ov data \<noteq> []"
  proof (cases "data = []")
    case False
    then have "chunks_of CHUNK_SIZE data \<noteq> []"
      by (subst chunks_of.simps) (simp add: CHUNK_SIZE_def)
    with False show ?thesis
      by (simp add: overlay_chunks_def Let_def enumerate_eq_zip)
  qed (simp add: overlay_chunks_def)
  then obtain cs c where cs: "overlay_chunks ov data = cs @ [c]"
    by (metis rev_exhaust)
  with all [of c] show "overlay_version (overlay_chunks ov data) v = bo_version ov"
    by (auto simp: overlay_version_def)
qed

text \<open>
  The call of the agent answered by the journal, with nothing lost on the way: the interceptor,
  then the handler. How the RPC library prints a status is an argument.
\<close>

definition journal_call ::
  "auth_header \<Rightarrow> (Status \<Rightarrow> string) \<Rightarrow> (bytes \<Rightarrow> bytes option) \<Rightarrow> (ConfigEntry list \<Rightarrow> bytes) \<Rightarrow>
   (bytes \<Rightarrow> string) \<Rightarrow> time \<Rightarrow> JournalState \<Rightarrow>
   BootConfigRequest \<Rightarrow> string + (string + Chunk option) list" where
  "journal_call h show_status compress entries_json hash_hex now s req =
     (case intercepted h (stream_boot_config compress entries_json hash_hex now req s) of
        Inl st \<Rightarrow> Inl (show_status st) | Inr cs \<Rightarrow> Inr (map (Inr \<circ> Some) cs))"

definition journal_subscribe ::
  "auth_header \<Rightarrow> (Status \<Rightarrow> string) \<Rightarrow> (ConfigEntry \<Rightarrow> bytes) \<Rightarrow> JournalState \<Rightarrow> RecvEvent list \<Rightarrow>
   connection" where
  "journal_subscribe h show_status to_json s announced from =
     (case intercepted h (Inr (subscribe_config_updates to_json s from announced)) of
        Inl st \<Rightarrow> Inl (show_status st) | Inr us \<Rightarrow> Inr (map Inr us))"

text \<open>
  The clients of \<open>JournalClient::connect\<close> are built without an interceptor of their own, and no
  call of the agent adds metadata: its requests carry no \<open>authorization\<close> header.
\<close>

definition journal_client_header :: auth_header where
  "journal_client_header = None"

lemma fetch_from_handler:
  assumes "\<And>d z. compress d = Some z \<Longrightarrow> 4 \<le> length z \<and> decode_all z = Some d"
    and "hm_get (js_overlays s) vc = Some ov"
  shows "fetch_boot_config decode_all
      (\<lambda>req. case stream_boot_config compress entries_json hash_hex now req s of
         Inl st \<Rightarrow> Inl (show_status st) | Inr cs \<Rightarrow> Inr (map (Inr \<circ> Some) cs)) node vc =
    Inr \<lparr>bd_overlay_data = (if compress (bo_data ov) = None then decompress_overlay decode_all (bo_data ov)
           else bo_data ov),
      bd_node_delta_data = build_node_delta entries_json s node, bd_base_version = bo_version ov\<rparr>"
proof -
  define data where "data = (case compress (bo_data ov) of Some d \<Rightarrow> d | None \<Rightarrow> bo_data ov)"
  have "decompress_overlay decode_all data =
      (if compress (bo_data ov) = None then decompress_overlay decode_all (bo_data ov) else bo_data ov)"
    using assms(1) [of "bo_data ov"]
    by (cases "compress (bo_data ov)") (simp_all add: data_def decompress_overlay_def)
  then show ?thesis
    using assms(2) unfolding fetch_boot_config_def
    by (simp add: boot_request_def stream_boot_config_def Let_def data_def [symmetric]
        receive_overlay [OF overlay_chunks_versions(1)] overlay_chunks_data overlay_chunks_versions(2))
qed

text \<open>
  C32. The two ends of the boot stream agree, for every request header. A call the interceptor
  refuses is an error with its status; a call it lets through for a vCluster without an overlay
  is the error \<open>NotFound\<close>; and any other receives exactly the overlay the journal stores, with
  its version, and the node delta the journal builds for the node: compression, splitting into
  chunks, streaming, reassembly and decompression together lose nothing. (Of zstd it uses that a
  compressed frame has at least four bytes and decompresses to what was compressed; an overlay
  that could not be compressed is sent as it is, and still tried to be decompressed.) Which of
  these cases a booting agent is in is another matter: its clients send no header and are refused.
\<close>

theorem boot_stream_lossless:
  assumes "\<And>d z. compress d = Some z \<Longrightarrow> 4 \<le> length z \<and> decode_all z = Some d"
  shows "fetch_boot_config decode_all (journal_call h show_status compress entries_json hash_hex now s) node vc =
    (case auth_interceptor h of
       Inl st \<Rightarrow> Inl (''StreamBootConfig failed: '' @ show_status st)
     | Inr _ \<Rightarrow>
        (case hm_get (js_overlays s) vc of
           None \<Rightarrow> Inl (''StreamBootConfig failed: '' @
             show_status (Status NotFound (''no overlay for vCluster '' @ vc)))
         | Some ov \<Rightarrow> Inr \<lparr>bd_overlay_data = (if compress (bo_data ov) = None
                 then decompress_overlay decode_all (bo_data ov) else bo_data ov),
               bd_node_delta_data = build_node_delta entries_json s node,
               bd_base_version = bo_version ov\<rparr>))"
proof (cases "auth_interceptor h")
  case (Inl st)
  then show ?thesis
    by (simp add: fetch_boot_config_def journal_call_def intercepted_def)
next
  case (Inr u)
  then have call: "journal_call h show_status compress entries_json hash_hex now s =
      (\<lambda>req. case stream_boot_config compress entries_json hash_hex now req s of
         Inl st \<Rightarrow> Inl (show_status st) | Inr cs \<Rightarrow> Inr (map (Inr \<circ> Some) cs))"
    by (simp add: journal_call_def intercepted_def fun_eq_iff)
  show ?thesis
  proof (cases "hm_get (js_overlays s) vc")
    case None
    with Inr show ?thesis
      unfolding call by (simp add: fetch_boot_config_def boot_request_def stream_boot_config_def)
  next
    case (Some ov)
    with Inr fetch_from_handler [OF assms Some] show ?thesis
      unfolding call by simp
  qed
qed

theorem boot_stream_lossless_witness:
  "fetch_boot_config (\<lambda>z. Some (drop 4 z)) (journal_call (Some (Some ''Bearer t'')) status_message
      (\<lambda>d. Some ([40, 181, 47, 253] @ d)) (\<lambda>_. [7]) (\<lambda>_. ''h'') 0
      (default_state\<lparr>js_overlays := [(''ml'', new_overlay (\<lambda>_. ''c'') ''ml'' 3 [1, 2])]\<rparr>)) ''n1'' ''ml'' =
    Inr \<lparr>bd_overlay_data = [1, 2], bd_node_delta_data = [], bd_base_version = 3\<rparr>"
proof -
  let ?s = "default_state\<lparr>js_overlays := [(''ml'', new_overlay (\<lambda>_. ''c'') ''ml'' 3 [1, 2])]\<rparr>"
  have "auth_interceptor (Some (Some (''Bearer '' @ ''t''))) = Inr ()"
    by (simp only: auth_interceptor_ok) blast
  moreover have "hm_get (js_overlays ?s) ''ml'' = Some (new_overlay (\<lambda>_. ''c'') ''ml'' 3 [1, 2])"
    by (simp add: hm_get_def)
  ultimately show ?thesis
    by (subst boot_stream_lossless)
      (auto simp: new_overlay_def build_node_delta_def default_state_def)
qed

text \<open>
  A stream that ends early without an error is taken for complete: the agent goes on with the
  part of the overlay it has.
\<close>

lemma truncated_stream_accepted:
  "receive_chunks [Inr (Some (BaseOverlay oc))] \<lparr>bd_overlay_data = [], bd_node_delta_data = [], bd_base_version = 0\<rparr> =
   Inr \<lparr>bd_overlay_data = oc_data oc, bd_node_delta_data = [], bd_base_version = oc_version oc\<rparr>"
  by simp

subsection \<open>Kernel parameters and mounts\<close>

lemma trim_ascii:
  assumes "list_all is_ascii s"
  shows "trim s = rev (dropWhile ascii_whitespace (rev (dropWhile ascii_whitespace s)))"
proof -
  have drop: "concat (dropWhile is_whitespace (map (\<lambda>c. [c]) xs)) = dropWhile ascii_whitespace xs" for xs
    by (induction xs) auto
  have start: "trim_start s = dropWhile ascii_whitespace s"
    using assms by (simp add: trim_start_def utf8_chars_ascii_string drop)
  then have "list_all is_ascii (trim_start s)"
    using assms by (auto simp: list_all_iff dest: set_dropWhileD)
  then have chars: "utf8_chars (trim_start s) = map (\<lambda>c. [c]) (trim_start s)"
    by (rule utf8_chars_ascii_string)
  have "concat (rev ys) = rev (concat (map rev ys))" for ys :: "string list"
    by (induction ys) auto
  moreover have "dropWhile is_whitespace (map (\<lambda>c. [c]) xs) = map (\<lambda>c. [c]) (dropWhile ascii_whitespace xs)" for xs
    by (induction xs) auto
  moreover have "concat (map (\<lambda>c. [c]) xs) = xs" for xs :: string
    by (induction xs) auto
  ultimately show ?thesis
    unfolding trim_def trim_end_def chars by (simp add: rev_map o_def start)
qed

text \<open>A field of a mount: ASCII, without white space at either end.\<close>

definition clean_field :: "string \<Rightarrow> bool" where
  "clean_field s \<longleftrightarrow> list_all is_ascii s \<and>
     (s = [] \<or> \<not> ascii_whitespace (hd s) \<and> \<not> ascii_whitespace (last s))"

definition clean_mount :: "MountSpec \<Rightarrow> bool" where
  "clean_mount m \<longleftrightarrow> clean_field (ms_fs_type m) \<and> clean_field (ms_source m) \<and> clean_field (ms_options m) \<and>
     CHR '':'' \<notin> set (ms_fs_type m) \<and> CHR ''('' \<notin> set (ms_fs_type m) \<and> CHR ''('' \<notin> set (ms_source m) \<and>
     (ms_options m = [] \<or> last (ms_options m) \<noteq> CHR '')'')"

lemma trim_clean: "clean_field s \<Longrightarrow> trim s = s"
  by (rule trim_ascii_id) (auto simp: clean_field_def)

lemma trim_clean_space:
  assumes "clean_field s" "s \<noteq> []"
  shows "trim (s @ '' '') = s"
proof -
  have "list_all is_ascii (s @ '' '')" "\<not> ascii_whitespace (hd s)" "\<not> ascii_whitespace (last s)"
    using assms by (auto simp: clean_field_def is_ascii_def)
  moreover from this have "dropWhile ascii_whitespace (s @ '' '') = s @ '' ''"
    using assms(2) by (cases s) auto
  moreover have "dropWhile ascii_whitespace (rev s) = rev s"
    using \<open>\<not> ascii_whitespace (last s)\<close> assms(2) by (cases s rule: rev_cases) auto
  ultimately show ?thesis
    by (simp add: trim_ascii) (simp add: ascii_whitespace_def)
qed

lemma parse_mount_value_clean:
  assumes "clean_mount m"
  shows "parse_mount_value (mount_value m) = (ms_fs_type m, ms_source m, ms_options m)"
proof -
  define main where "main = ms_fs_type m @ '':'' @ ms_source m"
  have "clean_field main"
    using assms unfolding main_def clean_mount_def clean_field_def
    by (cases "ms_fs_type m"; cases "ms_source m" rule: rev_cases)
      (auto simp: is_ascii_def ascii_whitespace_def)
  then have main: "trim (main @ '' '') = main"
    by (rule trim_clean_space) (simp add: main_def)
  have val: "mount_value m = (main @ '' '') @ CHR ''('' # (ms_options m @ '')'')"
    by (simp add: mount_value_def main_def)
  have "CHR ''('' \<notin> set (main @ '' '')"
    using assms by (simp add: main_def clean_mount_def)
  then have split: "split_once CHR ''('' (mount_value m) = Some (main @ '' '', ms_options m @ '')'')"
    unfolding val by (rule split_once_append)
  have "trim_end_char CHR '')'' (ms_options m @ '')'') = ms_options m"
    using assms by (cases "ms_options m" rule: rev_cases) (auto simp: trim_end_char_def clean_mount_def)
  moreover have "split_once CHR '':'' main = Some (ms_fs_type m, ms_source m)"
    using assms by (simp add: main_def clean_mount_def)
  ultimately show ?thesis
    using assms by (simp add: parse_mount_value_def split main trim_clean clean_mount_def)
qed

lemma push_component_keeps: "p \<noteq> ''..'' \<Longrightarrow> prefix cs (push_component p cs)"
  by (simp add: push_component_def)

lemma fold_push_prefix:
  "(\<And>p. p \<in> set ps \<Longrightarrow> CHR ''.'' \<notin> set p) \<Longrightarrow> prefix cs (fold push_component ps cs)"
proof (induction ps arbitrary: cs)
  case (Cons p ps)
  have "p \<noteq> ''..''"
    using Cons.prems [of p] by auto
  then have "prefix cs (push_component p cs)"
    by (rule push_component_keeps)
  also have "prefix (push_component p cs) (fold push_component ps (push_component p cs))"
    by (rule Cons.IH) (use Cons.prems in auto)
  finally show ?case
    by simp
qed simp

lemma split_on_subset: "p \<in> set (split_on c s) \<Longrightarrow> set p \<subseteq> set s"
proof (induction s arbitrary: p)
  case (Cons x s)
  then show ?case
    by (cases "split_on c s") (auto split: if_splits, blast+)
qed simp

lemma sysctl_path_confined:
  "CHR ''.'' \<notin> set (sysctl_path key) \<and> prefix [''proc'', ''sys''] (path_components (sysctl_path key))"
proof -
  define k where "k = replace_char CHR ''.'' CHR ''/'' key"
  have k: "CHR ''.'' \<notin> set k"
    by (auto simp: k_def replace_char_def)
  then have pieces: "CHR ''.'' \<notin> set p" if "p \<in> set (split_on CHR ''/'' k)" for p
    using split_on_subset [OF that] by blast
  have "path_components (sysctl_path key) = fold push_component (split_on CHR ''/'' k) [''proc'', ''sys'']"
    by (simp add: path_components_def sysctl_path_def k_def [symmetric] push_component_def)
  then show ?thesis
    using fold_push_prefix [OF pieces] k by (simp add: sysctl_path_def k_def [symmetric])
qed

text \<open>What the mounts of a message ask for, the flag \<open>read_only\<close> of the mount included.\<close>

definition declared_mounts :: "MountDelta list \<Rightarrow> sys_effect list" where
  "declared_mounts ms = concat (map (\<lambda>m.
     if proto_action (md_action m) = Remove then [Unmount (md_path m)]
     else case md_declared m of
         None \<Rightarrow> []
       | Some spec \<Rightarrow> [Mount (ms_source spec) (md_path m) (ms_fs_type spec) (ms_read_only spec)
           (ms_options spec)]) ms)"

fun writable :: "sys_effect \<Rightarrow> sys_effect" where
  "writable (Mount source path fs_type ro options) = Mount source path fs_type False options"
| "writable e = e"

definition asks_read_only :: "MountDelta \<Rightarrow> bool" where
  "asks_read_only m \<longleftrightarrow> proto_action (md_action m) \<noteq> Remove \<and>
     (case md_declared m of None \<Rightarrow> False | Some spec \<Rightarrow> ms_read_only spec)"

lemma declared_mounts_Cons:
  "declared_mounts (m # ms) = declared_mounts [m] @ declared_mounts ms"
  by (simp add: declared_mounts_def)

lemma writable_declared:
  "map writable (declared_mounts ms) = declared_mounts ms \<longleftrightarrow> \<not> list_ex asks_read_only ms"
proof (induction ms)
  case (Cons m ms)
  have "map writable (declared_mounts [m]) = declared_mounts [m] \<longleftrightarrow> \<not> asks_read_only m"
    by (auto simp: declared_mounts_def asks_read_only_def split: option.splits)
  moreover have "length (map writable (declared_mounts [m])) = length (declared_mounts [m])"
    by simp
  ultimately show ?case
    using Cons.IH unfolding declared_mounts_Cons [of m ms] map_append by (simp add: append_eq_append_conv)
qed (simp add: declared_mounts_def)

lemma apply_mounts_of_message:
  assumes "\<forall>m \<in> set (psd_mounts p). \<forall>spec. md_declared m = Some spec \<longrightarrow> clean_mount spec"
  shows "apply_mounts (sd_mounts (proto_to_state_delta p)) = map writable (declared_mounts (psd_mounts p))"
  unfolding apply_mounts_def declared_mounts_def proto_to_state_delta_def
  using assms by (auto simp: parse_mount_value_clean map_concat split: option.splits DeltaAction.splits
      intro!: arg_cong [of _ _ concat])

lemma sysctl_of_message:
  "e \<in> set (apply_sysctl (sd_kernel (proto_to_state_delta p))) \<longleftrightarrow>
    (\<exists>k \<in> set (psd_kernel p). \<exists>v. proto_action (kd_action k) \<noteq> Remove \<and>
      kd_declared_value k = Some v \<and> e = WriteFile (sysctl_path (kd_key k)) v)"
proof -
  have "set (apply_sysctl (sd_kernel (proto_to_state_delta p))) = (\<Union>k \<in> set (psd_kernel p).
      set (if proto_action (kd_action k) = Remove then []
        else case kd_declared_value k of None \<Rightarrow> [] | Some v \<Rightarrow> [WriteFile (sysctl_path (kd_key k)) v]))"
    by (simp only: apply_sysctl_def proto_to_state_delta_def StateDelta.simps DeltaItem.simps
        set_concat set_map image_image map_map o_def)
  also have "e \<in> \<dots> \<longleftrightarrow> (\<exists>k \<in> set (psd_kernel p). \<exists>v. proto_action (kd_action k) \<noteq> Remove \<and>
      kd_declared_value k = Some v \<and> e = WriteFile (sysctl_path (kd_key k)) v)"
    unfolding UN_iff by (rule bex_cong [OF refl]) (simp add: eq_commute [of "Some _"])
  finally show ?thesis .
qed


definition sample_mount :: MountSpec where
  "sample_mount = \<lparr>ms_fs_type = ''nfs'', ms_source = ''srv:/data'', ms_options = ''hard'',
     ms_read_only = True\<rparr>"

definition sample_delta :: ProtoStateDelta where
  "sample_delta = \<lparr>psd_mounts = [\<lparr>md_path = ''/data'', md_action = 1, md_declared = Some sample_mount, md_actual = None\<rparr>],
     psd_files = [], psd_network = [], psd_services = [],
     psd_kernel = [\<lparr>kd_key = ''vm.swappiness'', kd_action = 1, kd_declared_value = Some ''10'', kd_actual_value = None\<rparr>],
     psd_packages = [], psd_gpu = []\<rparr>"


subsection \<open>Automatic rollback\<close>

definition run_ticks ::
  "string \<Rightarrow> EmergencyManager \<Rightarrow> time list \<Rightarrow> CommitWindowManager \<Rightarrow> CommitWindowManager" where
  "run_ticks enforcement em ts cw = fold (rollback_tick enforcement em) ts cw"

lemma rollback_tick_suspended:
  "enforcement = ''observe'' \<or> is_active em \<Longrightarrow> rollback_tick enforcement em now cw = cw"
  by (auto simp: rollback_tick_def)

lemma rollback_tick_idle: "cw_state cw = WindowIdle \<Longrightarrow> rollback_tick enforcement em now cw = cw"
  by (simp add: rollback_tick_def check_expired_def Let_def)

lemma rollback_tick_open:
  assumes "cw_state cw = WindowOpen t0 d" "\<not> cw_emergency cw" "enforcement \<noteq> ''observe''" "\<not> is_active em"
  shows "rollback_tick enforcement em now cw = (if d \<le> now then cw\<lparr>cw_state := WindowIdle\<rparr> else cw)"
  using assms by (simp add: rollback_tick_def check_expired_def rollback_with_check_def Let_def)

lemma run_ticks_open:
  assumes "cw_state cw = WindowOpen t0 d" "\<not> cw_emergency cw" "enforcement \<noteq> ''observe''" "\<not> is_active em"
  shows "run_ticks enforcement em ts cw = (if \<exists>t \<in> set ts. d \<le> t then cw\<lparr>cw_state := WindowIdle\<rparr> else cw)"
proof (induction ts)
  case (Cons t ts)
  have idle: "fold (rollback_tick enforcement em) xs (cw\<lparr>cw_state := WindowIdle\<rparr>) = cw\<lparr>cw_state := WindowIdle\<rparr>" for xs
    by (induction xs) (auto simp: rollback_tick_idle)
  show ?case
    using Cons rollback_tick_open [OF assms, of t] by (auto simp: run_ticks_def idle)
qed (simp add: run_ticks_def)

text \<open>
  C27. Uncommitted changes are rolled back in time, and not earlier. After a successful command
  that may change state, with enforcement on and no emergency, the timer leaves the commit window
  alone at every tick before its deadline; the first tick at or after the deadline closes it; and
  since the timer ticks every ten seconds, it is closed within ten seconds of the deadline, unless
  a commit, a rollback or an extension comes first. In observe mode and in an emergency the timer
  never touches the window.
\<close>

theorem auto_rollback_in_time:
  assumes "rpc_exec jwt execute now (Some h) command args si = (si', effects, Inr outs)"
    and "shell_exec jwt execute now h command args (si_server si) = (sv, effects, Inr (result, True))"
    and "ss_has_commit_window (si_server si)" and "\<not> cw_emergency (si_commit_window si)"
  shows "let cw = si_commit_window si';
      d = now + seconds (uint (calculate_window_seconds (cw_config (si_commit_window si)) (Fin 1))) in
    (if enforcement = ''observe'' \<or> is_active em then run_ticks enforcement em ts cw = cw
     else ((\<forall>t \<in> set ts. t < d) \<longrightarrow> run_ticks enforcement em ts cw = cw) \<and>
       ((\<exists>t \<in> set ts. d \<le> t) \<longrightarrow> cw_state (run_ticks enforcement em ts cw) = WindowIdle) \<and>
       (\<forall>n. first \<le> d \<longrightarrow> d + seconds 10 \<le> first + seconds (10 * int n) \<longrightarrow>
          cw_state (run_ticks enforcement em (map (\<lambda>i. first + seconds (10 * int i)) [0 ..< n]) cw) = WindowIdle))"
proof -
  define cw where "cw = si_commit_window si'"
  define d where "d = now + seconds (uint (calculate_window_seconds (cw_config (si_commit_window si)) (Fin 1)))"
  have "cw = window_open now (Fin 1) (si_commit_window si)"
    using assms(1-3) shell_exec_changes [OF assms(2)] by (auto simp: cw_def rpc_exec_def open_window_for_def)
  then have cw: "\<exists>t0. cw_state cw = WindowOpen t0 d" "\<not> cw_emergency cw"
    using assms(4) by (auto simp: window_open_def window_seconds_def d_def)
  then obtain t0 where t0: "cw_state cw = WindowOpen t0 d"
    by blast
  have suspended: "run_ticks enforcement em ts cw = cw" if "enforcement = ''observe'' \<or> is_active em"
    using rollback_tick_suspended [OF that] by (induction ts) (simp_all add: run_ticks_def)
  have periodic: "\<exists>t \<in> set (map (\<lambda>i. first + seconds (10 * int i)) [0 ..< n]). d \<le> t"
    if "first \<le> d" "d + seconds 10 \<le> first + seconds (10 * int n)" for n
  proof -
    have "0 < n"
      using that by (cases n) (simp_all add: seconds_def nanos_per_sec_def)
    moreover have "d \<le> first + seconds (10 * int (n - 1))"
      using that \<open>0 < n\<close> by (simp add: seconds_def nanos_per_sec_def of_nat_diff algebra_simps)
    moreover have "first + seconds (10 * int (n - 1)) \<in> set (map (\<lambda>i. first + seconds (10 * int i)) [0 ..< n])"
      using \<open>0 < n\<close> unfolding set_map by (intro imageI) simp
    ultimately show ?thesis
      by blast
  qed
  show ?thesis
    unfolding Let_def cw_def [symmetric] d_def [symmetric]
    using suspended periodic by (auto simp: run_ticks_open [OF t0 cw(2)] not_le [symmetric])
qed

theorem auto_rollback_in_time_witness:
  "\<exists>si' effects outs. rpc_exec sample_jwt
      (\<lambda>_ _ _. Inr \<lparr>xr_stdout = [], xr_stderr = [], xr_exit_code = 0\<rparr>) 5 (Some ''Bearer tok'') ''sysctl'' []
      \<lparr>si_server = with_commit_window sample_server, si_commit_window = window_new default_window_config\<rparr> =
      (si', effects, Inr outs) \<and>
    cw_state (run_ticks ''enforce'' (emergency_new 60) [seconds 5000000000] (si_commit_window si')) = WindowIdle"
proof -
  define res where "res = \<lparr>xr_stdout = [], xr_stderr = [], xr_exit_code = 0\<rparr>"
  define si where "si = \<lparr>si_server = with_commit_window sample_server,
    si_commit_window = window_new default_window_config\<rparr>"
  obtain effects where ex: "shell_exec sample_jwt (\<lambda>_ _ _. Inr res) 5 ''Bearer tok'' ''sysctl'' []
      (si_server si) = (si_server si, effects, Inr (res, True))"
    using sample_sysctl_exec by (auto simp: si_def)
  then obtain si' outs where run: "rpc_exec sample_jwt (\<lambda>_ _ _. Inr res) 5 (Some ''Bearer tok'') ''sysctl'' [] si =
      (si', effects, Inr outs)"
    by (simp add: rpc_exec_def)
  have late: "5 + seconds (uint (calculate_window_seconds c (Fin 1))) \<le> seconds 5000000000" for c
    using unsigned_less [of "calculate_window_seconds c (Fin 1)", where 'a = int]
    by (simp add: seconds_def nanos_per_sec_def)
  have "cw_state (run_ticks ''enforce'' (emergency_new 60) [seconds 5000000000] (si_commit_window si')) = WindowIdle"
    using auto_rollback_in_time [OF run ex, of "''enforce''" "emergency_new 60" "[seconds 5000000000]"] late
    by (simp add: si_def with_commit_window_def window_new_def Let_def emergency_new_def is_active_def)
  with run show ?thesis
    unfolding si_def res_def by blast
qed

subsection \<open>The order of boot\<close>

text \<open>
  Nothing precedes the pseudo file systems when the agent is the first process, and a failure to
  mount them ends the boot. The watchdog is opened by the first process with pact's own supervisor
  only. The agent is ready last, and only after its capability report.
\<close>

lemma boot_order:
  assumes "boot env c journal = (events, r)"
  shows "be_is_pid1 env \<Longrightarrow> hd events = EvMountPseudofs"
    and "EvReady \<in> set events \<longleftrightarrow> (\<exists>b. r = Inr b)"
    and "r = Inr b \<Longrightarrow> last events = EvReady \<and> EvReport \<in> set events \<and> br_config_state b = ObserveOnly \<and>
      cw_state (br_commit_window b) = WindowIdle \<and> \<not> is_active (br_emergency b)"
    and "EvOpenWatchdog \<in> set events \<Longrightarrow> be_is_pid1 env \<and> ac_backend c = BackendPact"
  using assms
  by (auto simp: boot_def init_hardware_def stream_phase_def Let_def window_new_def emergency_new_def is_active_def
      split: if_splits sum.splits option.splits SupervisorBackend.splits)

text \<open>Connections that are refused deliver nothing.\<close>

lemma run_refused_silent:
  assumes "\<forall>conn \<in> set conns. \<forall>from. isl (conn from)"
  shows "fst (snd (run_subscription c env conns st)) = []"
  using assms
proof (induction conns arbitrary: st)
  case (Cons conn conns)
  then obtain e where "conn (from_sequence st) = Inl e"
    unfolding isl_def by (meson list.set_intros(1))
  with Cons show ?case
    by (auto simp: Let_def split: prod.splits option.splits) (metis fst_conv snd_conv)+
qed simp

text \<open>
  C31. The agent and the journal as they are wired do not work together. The interceptor refuses
  every call of the agent's clients, whatever the journal holds: the boot configuration is an
  error, the boot sequence applies no delta, and over any number of connections the subscription
  delivers no update.
\<close>

theorem agent_calls_unauthenticated:
  "fetch_boot_config decode_all
      (journal_call journal_client_header show_status compress entries_json hash_hex now s) node vc =
    Inl (''StreamBootConfig failed: '' @
      show_status (Status Unauthenticated ''missing authorization header'')) \<and>
   EvApply effects \<notin> set (fst (boot env c
      (Some (journal_call journal_client_header show_status compress entries_json hash_hex now s)))) \<and>
   fst (snd (run_subscription sc senv
      (map (\<lambda>(s, us). journal_subscribe journal_client_header show_status to_json s us) views) st)) = []"
proof (intro conjI)
  show fetch: "fetch_boot_config decode_all
      (journal_call journal_client_header show_status compress entries_json hash_hex now s) node vc =
    Inl (''StreamBootConfig failed: '' @
      show_status (Status Unauthenticated ''missing authorization header''))" for decode_all node vc
    by (simp add: fetch_boot_config_def journal_call_def journal_client_header_def)
  show "EvApply effects \<notin> set (fst (boot env c
      (Some (journal_call journal_client_header show_status compress entries_json hash_hex now s))))"
    by (auto simp: boot_def init_hardware_def stream_phase_def fetch Let_def
        split: sum.splits SupervisorBackend.splits)
  show "fst (snd (run_subscription sc senv
      (map (\<lambda>(s, us). journal_subscribe journal_client_header show_status to_json s us) views) st)) = []"
    by (rule run_refused_silent) (auto simp: journal_subscribe_def journal_client_header_def)
qed

text \<open>A policy update takes effect on the next window; a new blacklist forgets the drift so far.\<close>

lemma policy_update_window:
  "cw_config (ch_commit_window (handle_config_action (PolicyChanged p) h)) =
   \<lparr>cw_base_window_seconds = vp_base_commit_window_seconds p,
    cw_drift_sensitivity = f64_of_bits (vp_drift_sensitivity p),
    cw_emergency_window_seconds = vp_emergency_window_seconds p\<rparr>"
  by (simp add: handle_config_action_def update_config_def)

lemma blacklist_update_resets_drift:
  "ch_drift_evaluator (handle_config_action (BlacklistChanged ps) h) = drift_new ps default_weights"
  by (simp add: handle_config_action_def)

end
