(* ===== verification/Rate_Limiter.thy ===== *)
theory Rate_Limiter
  imports F64
begin

text \<open>
  The token bucket in front of enrollment, \<open>crates/pact-journal/src/rate_limiter.rs\<close>. An
  \<open>Instant\<close> is a \<^typ>\<open>time\<close>; \<open>duration_since\<close> saturates at zero, as in the standard library.
  The lemmas account for the rounding of every step: over any sequence of attempts the bucket
  grants at most its size plus what was refilled, up to a fraction of \<open>2 ^ -20\<close> per attempt.
\<close>

subsection \<open>Buckets\<close>

text \<open>\<open>Duration::as_secs_f64\<close>.\<close>

definition as_secs_f64 :: "time \<Rightarrow> F64" where
  "as_secs_f64 d = f64_add (to_f64 (of_int (d div nanos_per_sec)))
     (f64_div (Fin (of_int (d mod nanos_per_sec))) (Fin (of_int nanos_per_sec)))"

definition duration_since :: "time \<Rightarrow> time \<Rightarrow> time" where
  "duration_since now earlier = max (now - earlier) 0"

record Bucket =
  bk_tokens :: F64
  bk_max_tokens :: F64
  bk_refill_rate :: F64
  bk_last_refill :: time

definition bucket_new :: "time \<Rightarrow> F64 \<Rightarrow> Bucket" where
  "bucket_new now max_per_minute = \<lparr>bk_tokens = max_per_minute, bk_max_tokens = max_per_minute,
     bk_refill_rate = f64_div max_per_minute (Fin 60), bk_last_refill = now\<rparr>"

definition refilled :: "time \<Rightarrow> Bucket \<Rightarrow> F64" where
  "refilled now b = f64_min
     (f64_mul_add (as_secs_f64 (duration_since now (bk_last_refill b))) (bk_refill_rate b) (bk_tokens b))
     (bk_max_tokens b)"

definition bucket_try_acquire :: "time \<Rightarrow> Bucket \<Rightarrow> Bucket \<times> bool" where
  "bucket_try_acquire now b =
     (let tokens = refilled now b; b = b\<lparr>bk_tokens := tokens, bk_last_refill := now\<rparr> in
      if f64_le (Fin 1) tokens then (b\<lparr>bk_tokens := f64_sub tokens (Fin 1)\<rparr>, True)
      else (b, False))"

subsection \<open>The limiter\<close>

datatype IpAddr = V4 "32 word" | V6 "128 word"

record RateLimiter =
  rl_global :: Bucket
  rl_per_ip :: "(IpAddr \<times> Bucket) list"
  rl_per_ip_max :: F64

definition limiter_new :: "time \<Rightarrow> u32 \<Rightarrow> RateLimiter" where
  "limiter_new now global_per_minute =
     (let global_max = f64_of_u32 global_per_minute in
      \<lparr>rl_global = bucket_new now global_max, rl_per_ip = [],
       rl_per_ip_max = f64_max (f64_div global_max (Fin 10)) (Fin 5)\<rparr>)"

definition try_acquire :: "time \<Rightarrow> RateLimiter \<Rightarrow> RateLimiter \<times> bool" where
  "try_acquire now l = (let (g, ok) = bucket_try_acquire now (rl_global l) in
     (l\<lparr>rl_global := g\<rparr>, ok))"

definition try_acquire_for_ip :: "time \<Rightarrow> IpAddr \<Rightarrow> RateLimiter \<Rightarrow> RateLimiter \<times> bool" where
  "try_acquire_for_ip now ip l =
     (let (l, ok) = try_acquire now l in
      if \<not> ok then (l, False)
      else
        let b = (case hm_get (rl_per_ip l) ip of
            Some b \<Rightarrow> b | None \<Rightarrow> bucket_new now (rl_per_ip_max l));
          (b, ok) = bucket_try_acquire now b
        in (l\<lparr>rl_per_ip := hm_insert ip b (rl_per_ip l)\<rparr>, ok))"

definition cleanup_stale_buckets :: "time \<Rightarrow> RateLimiter \<Rightarrow> RateLimiter" where
  "cleanup_stale_buckets now l = l\<lparr>rl_per_ip := hm_retain (\<lambda>_ b.
     duration_since now (bk_last_refill b) div nanos_per_sec < 300) (rl_per_ip l)\<rparr>"

text \<open>A sequence of attempts at given times, with their outcomes.\<close>

fun attempts :: "time list \<Rightarrow> RateLimiter \<Rightarrow> RateLimiter \<times> bool list" where
  "attempts [] l = (l, [])"
| "attempts (t # ts) l = (let (l, ok) = try_acquire t l; (l, oks) = attempts ts l in (l, ok # oks))"

subsection \<open>Elapsed time is finite\<close>

fun fin_of :: "F64 \<Rightarrow> rat" where
  "fin_of (Fin x) = x"
| "fin_of _ = 0"

text \<open>The seconds, as a floating point number, between consecutive attempts, added up.\<close>

fun total_elapsed :: "time \<Rightarrow> time list \<Rightarrow> rat" where
  "total_elapsed prev [] = 0"
| "total_elapsed prev (t # ts) = fin_of (as_secs_f64 (duration_since t prev)) + total_elapsed t ts"

lemma to_f64_small:
  assumes "0 \<le> x" "x \<le> 2 ^ 53"
  shows "to_f64 x = Fin (rnd x)" "0 \<le> rnd x" "rnd x \<le> 2 ^ 53"
proof -
  show b: "0 \<le> rnd x" "rnd x \<le> 2 ^ 53"
    using assms rnd_nonneg rnd_le [of x "2 ^ 53"] is_f64_of_int [of "2 ^ 53"] by simp_all
  show "to_f64 x = Fin (rnd x)"
    using b f64_limit_large by (auto simp: to_f64_def simp del: power_numeral)
qed


lemma as_secs_finite:
  assumes "0 \<le> d" "d \<le> 2 ^ 62"
  shows "\<exists>x \<ge> 0. as_secs_f64 d = Fin x"
proof -
  let ?s = "of_int (d div nanos_per_sec) :: rat"
  let ?n = "of_int (d mod nanos_per_sec) / of_int nanos_per_sec :: rat"
  have "0 \<le> d div nanos_per_sec" "d div nanos_per_sec \<le> 2 ^ 62 div nanos_per_sec"
    using assms by (simp_all add: nanos_per_sec_def zdiv_mono1)
  then have "0 \<le> ?s" "?s \<le> of_int (2 ^ 62 div nanos_per_sec)"
    by (simp_all only: of_int_le_iff of_int_0_le_iff)
  then have s: "0 \<le> ?s" "?s \<le> 2 ^ 33" by (simp_all add: nanos_per_sec_def)
  have "0 \<le> d mod nanos_per_sec" "d mod nanos_per_sec \<le> nanos_per_sec"
    by (simp_all add: nanos_per_sec_def less_imp_le)
  then have n: "0 \<le> ?n" "?n \<le> 1"
    by (simp_all add: nanos_per_sec_def)
  have rs: "to_f64 ?s = Fin (rnd ?s)" "0 \<le> rnd ?s" "rnd ?s \<le> 2 ^ 33"
    using to_f64_small [of ?s] s rnd_le [of ?s "2 ^ 33"] is_f64_of_int [of "2 ^ 33"] by simp_all
  have rn: "to_f64 ?n = Fin (rnd ?n)" "0 \<le> rnd ?n" "rnd ?n \<le> 1"
    using to_f64_small [of ?n] n rnd_le [of ?n 1] is_f64_of_int [of 1] by simp_all
  have "to_f64 (rnd ?s + rnd ?n) = Fin (rnd (rnd ?s + rnd ?n))" "0 \<le> rnd (rnd ?s + rnd ?n)"
    using to_f64_small [of "rnd ?s + rnd ?n"] rs rn by simp_all
  then show ?thesis using rs(1) rn(1)
    by (simp add: as_secs_f64_def f64_add_def f64_div_def nanos_per_sec_def)
qed

subsection \<open>One attempt\<close>

text \<open>A bucket of size \<open>m\<close> with refill rate \<open>r\<close>.\<close>

definition bucket_ok :: "rat \<Rightarrow> rat \<Rightarrow> Bucket \<Rightarrow> bool" where
  "bucket_ok m r b \<longleftrightarrow> bk_max_tokens b = Fin m \<and> bk_refill_rate b = Fin r \<and>
     (\<exists>t. bk_tokens b = Fin t \<and> 0 \<le> t \<and> t \<le> m)"

lemma refill_bounds:
  assumes "0 \<le> t" "t \<le> m" "m < 2 ^ 32" "0 \<le> y" "is_f64 m"
  shows "\<exists>u. f64_min (to_f64 (y + t)) (Fin m) = Fin u \<and> 0 \<le> u \<and> u \<le> m \<and>
    u \<le> t + y + pow2 (- 21) \<and> (\<forall>k. k \<le> t \<longrightarrow> is_f64 k \<longrightarrow> k \<le> u)"
proof (cases "y + t \<le> 2 ^ 32")
  case True
  have "to_f64 (y + t) = Fin (rnd (y + t))" "0 \<le> rnd (y + t)"
    using to_f64_small [of "y + t"] True assms by simp_all
  then have u: "f64_min (to_f64 (y + t)) (Fin m) = Fin (min (rnd (y + t)) m)"
    by (simp add: f64_min_def min_def)
  have "rnd (y + t) - (y + t) \<le> pow2 (33 - 54)"
    using True assms by (intro abs_le_D1 [OF rnd_error]) simp_all
  then have "rnd (y + t) \<le> t + y + pow2 (- 21)" by simp
  moreover have "k \<le> rnd (y + t)" if "k \<le> t" "is_f64 k" for k
    using that assms(4) by (intro rnd_ge) simp_all
  ultimately show ?thesis using u assms \<open>0 \<le> rnd (y + t)\<close>
    by (intro exI [of _ "min (rnd (y + t)) m"]) (auto simp: min_le_iff_disj)
next
  case False
  have "is_f64 (2 ^ 32)" using is_f64_of_int [of "2 ^ 32"] by simp
  then have "2 ^ 32 \<le> rnd (y + t)" using False by (intro rnd_ge) simp_all
  then have "f64_le (Fin m) (to_f64 (y + t))" "to_f64 (y + t) \<noteq> Fin m"
    using assms(3) f64_limit_pos by (auto simp: to_f64_def)
  then have "f64_min (to_f64 (y + t)) (Fin m) = Fin m"
    using f64_le_antisym [of "Fin m" "to_f64 (y + t)"] by (auto simp: f64_min_def)
  moreover have "0 \<le> pow2 (- 21)" by simp
  ultimately show ?thesis using assms False by (intro exI [of _ m]) (auto simp del: pow2_pos)
qed

lemma spend_bounds:
  assumes "1 \<le> u" "u < 2 ^ 32"
  shows "\<exists>v. f64_sub (Fin u) (Fin 1) = Fin v \<and> 0 \<le> v \<and> v \<le> u \<and> v \<le> u - 1 + pow2 (- 22) \<and>
    (\<forall>k. k \<le> u - 1 \<longrightarrow> is_f64 k \<longrightarrow> k \<le> v)"
proof -
  have "to_f64 (u - 1) = Fin (rnd (u - 1))" "0 \<le> rnd (u - 1)"
    using to_f64_small [of "u - 1"] assms by simp_all
  moreover have "rnd (u - 1) - (u - 1) \<le> pow2 (32 - 54)"
    using assms by (intro abs_le_D1 [OF rnd_error]) simp_all
  then have "rnd (u - 1) \<le> u - 1 + pow2 (- 22)" by simp
  moreover have "pow2 (- 22) \<le> 1" by simp
  ultimately show ?thesis by (auto simp: f64_sub_def f64_add_def intro: rnd_ge)
qed

lemma acquire_step:
  assumes "bucket_ok m r b" "m < 2 ^ 32" "0 \<le> r" "is_f64 m"
    and "as_secs_f64 (duration_since now (bk_last_refill b)) = Fin x" "0 \<le> x"
    and "bucket_try_acquire now b = (b', ok)"
  shows "bucket_ok m r b' \<and> bk_last_refill b' = now \<and>
    fin_of (bk_tokens b') + (if ok then 1 else 0) \<le> fin_of (bk_tokens b) + x * r + pow2 (- 20) \<and>
    (\<forall>k. 1 \<le> k \<longrightarrow> of_int k \<le> fin_of (bk_tokens b) \<longrightarrow> k \<le> 2 ^ 53 \<longrightarrow>
       ok \<and> of_int (k - 1) \<le> fin_of (bk_tokens b'))"
proof -
  obtain t where t: "bk_tokens b = Fin t" "0 \<le> t" "t \<le> m"
      "bk_max_tokens b = Fin m" "bk_refill_rate b = Fin r"
    using assms(1) by (auto simp: bucket_ok_def)
  have "0 \<le> x * r" using assms by simp
  from refill_bounds [OF t(2,3) assms(2) this assms(4)] obtain u where
    u: "refilled now b = Fin u" "0 \<le> u" "u \<le> m" "u \<le> t + x * r + pow2 (- 21)"
      "\<And>k. k \<le> t \<Longrightarrow> is_f64 k \<Longrightarrow> k \<le> u"
    using assms(5) t by (auto simp: refilled_def f64_mul_add_def)
  have k: "is_f64 (of_int k)" "is_f64 (of_int (k - 1))" if "1 \<le> k" "k \<le> 2 ^ 53" for k
    using that by (auto intro!: is_f64_of_int simp del: of_int_diff)
  have p: "pow2 (- 21) + pow2 (- 22) \<le> pow2 (- 20)" "pow2 (- 21) \<le> pow2 (- 20)" by simp_all
  show ?thesis
  proof (cases "1 \<le> u")
    case True
    from spend_bounds [OF this] u(3) assms(2) obtain v where
      v: "f64_sub (Fin u) (Fin 1) = Fin v" "0 \<le> v" "v \<le> u" "v \<le> u - 1 + pow2 (- 22)"
        "\<And>k. k \<le> u - 1 \<Longrightarrow> is_f64 k \<Longrightarrow> k \<le> v"
      by auto
    have b': "b' = b\<lparr>bk_tokens := Fin v, bk_last_refill := now\<rparr>" "ok"
      using assms(7) True u(1) v(1) by (auto simp: bucket_try_acquire_def Let_def)
    have "of_int (k - 1) \<le> v" if "1 \<le> k" "of_int k \<le> t" "k \<le> 2 ^ 53" for k
      using u(5) [OF that(2) k(1) [OF that(1,3)]] v(5) [OF _ k(2) [OF that(1,3)]] by simp
    then show ?thesis using b' t u v p by (auto simp: bucket_ok_def)
  next
    case False
    have b': "b' = b\<lparr>bk_tokens := Fin u, bk_last_refill := now\<rparr>" "\<not> ok"
      using assms(7) False u(1) by (auto simp: bucket_try_acquire_def Let_def)
    have "\<not> of_int k \<le> t" if "1 \<le> k" "k \<le> 2 ^ 53" for k
      using u(5) [OF _ k(1) [OF that]] False that(1) by (metis le_of_int_ceiling of_int_1_le_iff order_trans)
    then show ?thesis using b' t u p by (auto simp: bucket_ok_def)
  qed
qed


subsection \<open>Sequences of attempts\<close>

text \<open>The attempts happen within \<open>2 ^ 62\<close> nanoseconds (146 years) of the previous one, in order.\<close>

fun in_order :: "time \<Rightarrow> time list \<Rightarrow> bool" where
  "in_order prev [] = True"
| "in_order prev (t # ts) = (prev \<le> t \<and> t - prev \<le> 2 ^ 62 \<and> in_order t ts)"

lemma attempts_bounds:
  assumes "bucket_ok m r (rl_global l)" "m < 2 ^ 32" "0 \<le> r" "is_f64 m"
    and "in_order (bk_last_refill (rl_global l)) ts" "attempts ts l = (l', oks)"
  shows "of_nat (length (filter id oks)) + fin_of (bk_tokens (rl_global l')) \<le>
      fin_of (bk_tokens (rl_global l)) + total_elapsed (bk_last_refill (rl_global l)) ts * r +
      of_nat (length ts) * pow2 (- 20) \<and>
    (of_nat (length ts) \<le> fin_of (bk_tokens (rl_global l)) \<longrightarrow> oks = replicate (length ts) True) \<and>
    0 \<le> fin_of (bk_tokens (rl_global l'))"
  using assms
proof (induction ts arbitrary: l oks)
  case Nil
  then show ?case by (auto simp: bucket_ok_def)
next
  case (Cons a ts)
  let ?b = "rl_global l"
  obtain b1 ok where b1: "bucket_try_acquire a ?b = (b1, ok)" by force
  define l1 where "l1 = l\<lparr>rl_global := b1\<rparr>"
  obtain oks1 where oks1: "attempts ts l1 = (l', oks1)" "oks = ok # oks1"
    using Cons.prems(6) b1 by (auto simp: try_acquire_def l1_def split: prod.splits)
  have d: "0 \<le> duration_since a (bk_last_refill ?b)" "duration_since a (bk_last_refill ?b) \<le> 2 ^ 62"
    using Cons.prems(5) by (simp_all add: duration_since_def)
  obtain x where x: "as_secs_f64 (duration_since a (bk_last_refill ?b)) = Fin x" "0 \<le> x"
    using as_secs_finite [OF d] by blast
  note step = acquire_step [OF Cons.prems(1-4) x b1]
  have l1: "rl_global l1 = b1" by (simp add: l1_def)
  have ok1: "bucket_ok m r (rl_global l1)" and last1: "bk_last_refill (rl_global l1) = a"
    using step by (simp_all add: l1)
  have "in_order (bk_last_refill (rl_global l1)) ts" using Cons.prems(5) last1 by simp
  note IH = Cons.IH [OF ok1 Cons.prems(2-4) this oks1(1), unfolded last1, unfolded l1]
  have n: "of_nat (length (filter id oks)) = (if ok then 1 else 0) + (of_nat (length (filter id oks1)) :: rat)"
    using oks1(2) by simp
  have "of_nat (length (filter id oks)) + fin_of (bk_tokens (rl_global l')) \<le>
      (if ok then 1 else 0) + fin_of (bk_tokens b1) + total_elapsed a ts * r +
      of_nat (length ts) * pow2 (- 20)"
    using conjunct1 [OF IH] unfolding n by linarith
  also have "\<dots> \<le> fin_of (bk_tokens ?b) + x * r + pow2 (- 20) + total_elapsed a ts * r +
      of_nat (length ts) * pow2 (- 20)"
    using step by (simp only: add.commute [of "if ok then 1 else 0"]) simp
  also have "\<dots> = fin_of (bk_tokens ?b) + total_elapsed (bk_last_refill ?b) (a # ts) * r +
      of_nat (length (a # ts)) * pow2 (- 20)"
    by (simp add: x algebra_simps)
  finally have count: "of_nat (length (filter id oks)) + fin_of (bk_tokens (rl_global l')) \<le>
      fin_of (bk_tokens ?b) + total_elapsed (bk_last_refill ?b) (a # ts) * r +
      of_nat (length (a # ts)) * pow2 (- 20)" .
  have "oks = replicate (length (a # ts)) True"
    if le: "of_nat (length (a # ts)) \<le> fin_of (bk_tokens ?b)"
  proof -
    have "fin_of (bk_tokens ?b) \<le> m" using Cons.prems(1) by (auto simp: bucket_ok_def)
    then have "(of_nat (length (a # ts)) :: rat) < of_nat (2 ^ 32)" using le Cons.prems(2) by simp
    then have "length (a # ts) < 2 ^ 32" by (simp only: of_nat_less_iff)
    moreover have "\<forall>k. 1 \<le> k \<longrightarrow> of_int k \<le> fin_of (bk_tokens ?b) \<longrightarrow> k \<le> 2 ^ 53 \<longrightarrow>
        ok \<and> of_int (k - 1) \<le> fin_of (bk_tokens b1)"
      using step by blast
    ultimately have "ok \<and> of_int (int (length (a # ts)) - 1) \<le> fin_of (bk_tokens b1)"
      using le by (auto dest!: spec [of _ "int (length (a # ts))"])
    then show ?thesis using IH oks1(2) by simp
  qed
  with count IH show ?case by blast
qed

text \<open>
  C25. The rate limiter is fair and tight: a fresh limiter for \<open>n\<close> requests a minute grants the
  first \<open>n\<close> requests, whenever they come; and over any sequence of requests it grants at most
  \<open>n\<close> plus the refill rate times the time elapsed, up to a rounding error of \<open>2 ^ -20\<close> per request.
\<close>

theorem rate_limiter_bounds:
  assumes "in_order t0 ts" "attempts ts (limiter_new t0 n) = (l, oks)"
  shows "(length ts \<le> unat n \<longrightarrow> oks = replicate (length ts) True) \<and>
    of_nat (length (filter id oks)) \<le> of_nat (unat n) +
      total_elapsed t0 ts * rnd (of_nat (unat n) / 60) + of_nat (length ts) * pow2 (- 20)"
proof -
  let ?m = "of_nat (unat n) :: rat"
  have um: "of_int (uint n) = ?m" by simp
  have "(of_nat (unat n) :: rat) < of_nat (2 ^ 32)"
    using unsigned_less [of n] by (simp only: of_nat_less_iff) simp
  then have m: "0 \<le> ?m" "?m < 2 ^ 32" by (simp_all del: of_nat_unat)
  have "unat n < 2 ^ 32" using unsigned_less [of n] by simp
  then have f: "is_f64 ?m" using is_f64_of_int [of "int (unat n)"] by (simp del: of_nat_unat)
  have "to_f64 (?m / 60) = Fin (rnd (?m / 60))" "0 \<le> rnd (?m / 60)"
    using to_f64_small [of "?m / 60"] m by (simp_all del: of_nat_unat)
  then have g: "rl_global (limiter_new t0 n) = \<lparr>bk_tokens = Fin ?m, bk_max_tokens = Fin ?m,
      bk_refill_rate = Fin (rnd (?m / 60)), bk_last_refill = t0\<rparr>"
    by (simp add: limiter_new_def bucket_new_def f64_of_u32_def f64_div_def Let_def um
        del: of_nat_unat of_int_uint)
  have "bucket_ok ?m (rnd (?m / 60)) (rl_global (limiter_new t0 n))"
    using m by (simp add: bucket_ok_def g)
  from attempts_bounds [OF this m(2) _ f, of ts l oks] assms g \<open>0 \<le> rnd (?m / 60)\<close>
  show ?thesis by (simp del: of_nat_unat)
qed

theorem rate_limiter_bounds_witness:
  "in_order 0 [1, 2] \<and>
   (\<exists>l oks. attempts [1, 2] (limiter_new 0 100) = (l, oks) \<and> oks = [True, True])"
proof -
  have "in_order 0 [1, 2]" by simp
  moreover obtain l oks where a: "attempts [1, 2] (limiter_new 0 100) = (l, oks)" by force
  ultimately show ?thesis
    using conjunct1 [OF rate_limiter_bounds [of 0 "[1, 2]" 100 l oks]] by simp
qed

end
