(* ===== verification/Iam.thy ===== *)
theory Iam
  imports Shell_Auth
begin

text \<open>
  Token validation of the journal, \<open>crates/pact-policy/src/iam/mod.rs\<close>: claims, the cache of the
  provider's keys, the HS256 validator and the validator \<open>main.rs\<close> installs, which tries HS256
  first and RS256 with the provider's keys then. The crate repeats what the agent's shell does
  (theory \<open>Shell_Auth\<close>); the wire format of a key is the record \<open>Jwk\<close> there. The two copies are
  proved to answer a token alike but for its claim \<open>groups\<close>, which only the journal reads. The
  jsonwebtoken crate is the record \<open>Jwt\<close>, refined by \<open>RawJwt\<close> where the two crates decode the claims
  of one token, and the HTTP client the record \<open>Http\<close>.
\<close>

subsection \<open>Claims, configuration, errors\<close>

datatype ClaimAudience = ClaimNone | ClaimSingle string | ClaimMultiple "string list"

record IamClaims =
  ic_sub :: string
  ic_aud :: ClaimAudience
  ic_iss :: string
  ic_exp :: u64
  ic_iat :: u64
  ic_pact_role :: "string option"
  ic_pact_principal_type :: "string option"
  ic_groups :: "string list"

record OidcConfig =
  oi_issuer :: string
  oi_audience :: string
  oi_hmac_secret :: "bytes option"

datatype IamError =
    IamMissingToken | IamInvalidFormat | IamTokenExpired
  | IamInvalidAudience string | IamInvalidIssuer string | IamInvalidToken string
  | IamNoSigningKey | IamJwksFetchError string

fun show_IamError :: "IamError \<Rightarrow> string" where
  "show_IamError IamMissingToken = ''missing authorization metadata''"
| "show_IamError IamInvalidFormat = ''invalid Bearer token format''"
| "show_IamError IamTokenExpired = ''token expired''"
| "show_IamError (IamInvalidAudience a) = ''invalid audience: expected '' @ a"
| "show_IamError (IamInvalidIssuer i) = ''invalid issuer: expected '' @ i"
| "show_IamError (IamInvalidToken m) = ''invalid token: '' @ m"
| "show_IamError IamNoSigningKey = ''no signing key configured''"
| "show_IamError (IamJwksFetchError m) = ''JWKS fetch error: '' @ m"

subsection \<open>HS256\<close>

definition iam_jwt_error :: "OidcConfig \<Rightarrow> JwtErrorKind \<times> string \<Rightarrow> IamError" where
  "iam_jwt_error cfg e = (case fst e of
     ExpiredSignature \<Rightarrow> IamTokenExpired
   | WrongAudience \<Rightarrow> IamInvalidAudience (oi_audience cfg)
   | WrongIssuer \<Rightarrow> IamInvalidIssuer (oi_issuer cfg)
   | OtherJwtError \<Rightarrow> IamInvalidToken (snd e))"

definition iam_claims_to_identity :: "IamClaims \<Rightarrow> Identity" where
  "iam_claims_to_identity c = \<lparr>id_principal = ic_sub c,
     id_principal_type =
       (if ic_pact_principal_type c = Some ''agent'' then Agent
        else if ic_pact_principal_type c = Some ''service'' then Service else Human),
     id_role = (case ic_pact_role c of Some r \<Rightarrow> r | None \<Rightarrow> [])\<rparr>"

definition validate_sync :: "IamClaims Jwt \<Rightarrow> OidcConfig \<Rightarrow> string \<Rightarrow> IamError + Identity" where
  "validate_sync jwt cfg token = (case oi_hmac_secret cfg of
     None \<Rightarrow> Inl IamNoSigningKey
   | Some secret \<Rightarrow>
       (case jwt_decode_hs256 jwt token secret (oi_audience cfg) (oi_issuer cfg) of
          Inl e \<Rightarrow> Inl (iam_jwt_error cfg e)
        | Inr claims \<Rightarrow> Inr (iam_claims_to_identity claims)))"

subsection \<open>The key cache\<close>

record IamCache =
  kc_keys :: "Jwk list"
  kc_fetched_at :: "time option"
  kc_ttl :: time

definition iam_cache_new :: IamCache where
  "iam_cache_new = \<lparr>kc_keys = [], kc_fetched_at = None, kc_ttl = seconds 3600\<rparr>"

definition iam_cache_with_ttl :: "time \<Rightarrow> IamCache" where
  "iam_cache_with_ttl ttl = \<lparr>kc_keys = [], kc_fetched_at = None, kc_ttl = ttl\<rparr>"

definition iam_cached_keys :: "IamCache \<Rightarrow> Jwk list" where
  "iam_cached_keys c = kc_keys c"

definition iam_set_keys :: "time \<Rightarrow> Jwk list \<Rightarrow> IamCache \<Rightarrow> IamCache" where
  "iam_set_keys now keys c = c\<lparr>kc_keys := keys, kc_fetched_at := Some now\<rparr>"

text \<open>
  The HTTP client: building it, a request (an error, or the status code with its rendering and
  the body), and the decoding of a body as a key set.
\<close>

record Http =
  http_build :: "string + unit"
  http_get :: "string \<Rightarrow> string + (nat \<times> string \<times> bytes)"
  http_json :: "bytes \<Rightarrow> string + Jwk list"

definition fetch_remote :: "Http \<Rightarrow> string \<Rightarrow> IamError + Jwk list" where
  "fetch_remote http url = (case http_build http of
     Inl e \<Rightarrow> Inl (IamJwksFetchError e)
   | Inr _ \<Rightarrow> (case http_get http url of
       Inl e \<Rightarrow> Inl (IamJwksFetchError e)
     | Inr (code, shown, body) \<Rightarrow>
         if \<not> (200 \<le> code \<and> code < 300)
         then Inl (IamJwksFetchError (''JWKS endpoint returned HTTP '' @ shown))
         else (case http_json http body of
           Inl e \<Rightarrow> Inl (IamJwksFetchError e)
         | Inr keys \<Rightarrow> Inr keys)))"

definition iam_fetch :: "Http \<Rightarrow> time \<Rightarrow> string \<Rightarrow> IamCache \<Rightarrow> IamCache \<times> (IamError + Jwk list)" where
  "iam_fetch http now url c =
     (if (case kc_fetched_at c of Some t \<Rightarrow> now - t < kc_ttl c \<and> kc_keys c \<noteq> [] | None \<Rightarrow> False)
      then (c, Inr (kc_keys c))
      else case fetch_remote http url of
        Inr keys \<Rightarrow> (c\<lparr>kc_keys := keys, kc_fetched_at := Some now\<rparr>, Inr keys)
      | Inl e \<Rightarrow> if kc_keys c = [] then (c, Inl e) else (c, Inr (kc_keys c)))"

subsection \<open>The validator of the journal\<close>

record JwksTokenValidator =
  jv_config :: OidcConfig
  jv_jwks_cache :: IamCache
  jv_jwks_url :: string

definition jwks_validator_new :: "OidcConfig \<Rightarrow> string option \<Rightarrow> JwksTokenValidator" where
  "jwks_validator_new cfg url = \<lparr>jv_config = cfg, jv_jwks_cache = iam_cache_new,
     jv_jwks_url = (case url of Some u \<Rightarrow> u
       | None \<Rightarrow> trim_end_slashes (oi_issuer cfg) @ ''/.well-known/jwks.json'')\<rparr>"

definition with_jwks_cache :: "IamCache \<Rightarrow> JwksTokenValidator \<Rightarrow> JwksTokenValidator" where
  "with_jwks_cache c v = v\<lparr>jv_jwks_cache := c\<rparr>"

definition iam_matching_keys :: "string option \<Rightarrow> Jwk list \<Rightarrow> Jwk list" where
  "iam_matching_keys token_kid keys =
     filter (\<lambda>k. case (token_kid, jwk_kid k) of
         (Some tk, Some kk) \<Rightarrow> tk = kk | (Some _, None) \<Rightarrow> False | (None, _) \<Rightarrow> True)
       (filter (\<lambda>k. jwk_kty k = ''RSA'' \<and> jwk_n k \<noteq> None \<and> jwk_e k \<noteq> None) keys)"

fun iam_try_keys ::
  "IamClaims Jwt \<Rightarrow> string \<Rightarrow> OidcConfig \<Rightarrow> IamError \<Rightarrow> Jwk list \<Rightarrow> IamError + Identity" where
  "iam_try_keys jwt token cfg last_err [] = Inl last_err"
| "iam_try_keys jwt token cfg last_err (k # ks) =
     (case jwt_rsa_components jwt (the (jwk_n k)) (the (jwk_e k)) of
        Inl err \<Rightarrow> iam_try_keys jwt token cfg (IamInvalidToken err) ks
      | Inr key \<Rightarrow>
          (case jwt_decode_rs256 jwt token key (oi_audience cfg) (oi_issuer cfg) of
             Inr claims \<Rightarrow> Inr (iam_claims_to_identity claims)
           | Inl e \<Rightarrow> iam_try_keys jwt token cfg (iam_jwt_error cfg e) ks))"

definition iam_validate_rs256 ::
  "IamClaims Jwt \<Rightarrow> OidcConfig \<Rightarrow> string \<Rightarrow> Jwk list \<Rightarrow> IamError + Identity" where
  "iam_validate_rs256 jwt cfg token keys =
     (if keys = [] then Inl IamNoSigningKey
      else case jwt_decode_header jwt token of
        Inl e \<Rightarrow> Inl (IamInvalidToken e)
      | Inr token_kid \<Rightarrow>
          let ms = iam_matching_keys token_kid keys in
          if ms = [] then
            Inl (IamInvalidToken (''no matching JWKS key for kid '' @ debug_kid token_kid))
          else iam_try_keys jwt token cfg IamNoSigningKey ms)"

definition validate_impl ::
  "IamClaims Jwt \<Rightarrow> Http \<Rightarrow> time \<Rightarrow> string \<Rightarrow> JwksTokenValidator \<Rightarrow>
   JwksTokenValidator \<times> (IamError + Identity)" where
  "validate_impl jwt http now token v =
     (case (if oi_hmac_secret (jv_config v) \<noteq> None then validate_sync jwt (jv_config v) token
            else Inl IamNoSigningKey) of
        Inr identity \<Rightarrow> (v, Inr identity)
      | Inl _ \<Rightarrow>
          (case iam_fetch http now (jv_jwks_url v) (jv_jwks_cache v) of
             (c, Inl e) \<Rightarrow> (v\<lparr>jv_jwks_cache := c\<rparr>, Inl e)
           | (c, Inr keys) \<Rightarrow>
               (v\<lparr>jv_jwks_cache := c\<rparr>, iam_validate_rs256 jwt (jv_config v) token keys)))"

subsection \<open>Reading the claims\<close>

text \<open>
  The claims of a token are the fields of a JSON object, in order. A derived \<open>Deserialize\<close> goes
  through them: a field of the structure that was there before or has a value of another type is
  an error, one the structure does not have is skipped; a field without a default must be there.
\<close>

datatype Claim =
    ClNull | ClBool bool | ClString string | ClInt int | ClFloat string
  | ClArray "Claim list" | ClObject "(string \<times> Claim) list"

datatype serde_error = DuplicateField string | InvalidField string | MissingField string

fun is_string :: "Claim \<Rightarrow> bool" where
  "is_string (ClString s) = True" | "is_string c = False"

fun is_strings :: "Claim \<Rightarrow> bool" where
  "is_strings (ClArray cs) = list_all is_string cs" | "is_strings c = False"

definition is_audience :: "Claim \<Rightarrow> bool" where
  "is_audience c \<longleftrightarrow> c = ClNull \<or> is_string c \<or> is_strings c"

fun is_u64 :: "Claim \<Rightarrow> bool" where
  "is_u64 (ClInt n) = (0 \<le> n \<and> n < 2 ^ 64)" | "is_u64 c = False"

definition is_opt_string :: "Claim \<Rightarrow> bool" where
  "is_opt_string c \<longleftrightarrow> c = ClNull \<or> is_string c"

fun the_string :: "Claim \<Rightarrow> string" where
  "the_string (ClString s) = s" | "the_string c = []"

fun the_strings :: "Claim \<Rightarrow> string list" where
  "the_strings (ClArray cs) = map the_string cs" | "the_strings c = []"

fun the_u64 :: "Claim \<Rightarrow> u64" where
  "the_u64 (ClInt n) = word_of_int n" | "the_u64 c = 0"

fun visit_fields ::
  "(string \<Rightarrow> (Claim \<Rightarrow> bool) option) \<Rightarrow> string list \<Rightarrow> (string \<times> Claim) list \<Rightarrow> serde_error option" where
  "visit_fields field seen [] = None"
| "visit_fields field seen ((k, c) # es) = (case field k of
     None \<Rightarrow> visit_fields field seen es
   | Some good \<Rightarrow>
       if k \<in> set seen then Some (DuplicateField k)
       else if \<not> good c then Some (InvalidField k)
       else visit_fields field (k # seen) es)"

text \<open>The fields of the journal's claims and of the agent's.\<close>

definition iam_field :: "string \<Rightarrow> (Claim \<Rightarrow> bool) option" where
  "iam_field k =
     (if k = ''sub'' then Some is_string else if k = ''aud'' then Some is_audience
      else if k = ''iss'' then Some is_string else if k = ''exp'' then Some is_u64
      else if k = ''iat'' then Some is_u64 else if k = ''pact_role'' then Some is_opt_string
      else if k = ''pact_principal_type'' then Some is_opt_string
      else if k = ''groups'' then Some is_strings else None)"

definition agent_field :: "string \<Rightarrow> (Claim \<Rightarrow> bool) option" where
  "agent_field k =
     (if k = ''sub'' then Some is_string else if k = ''aud'' then Some is_audience
      else if k = ''iss'' then Some is_string else if k = ''exp'' then Some is_u64
      else if k = ''iat'' then Some is_u64 else if k = ''pact_role'' then Some is_opt_string
      else if k = ''pact_principal_type'' then Some is_opt_string else None)"

definition claim_or :: "'a \<Rightarrow> (Claim \<Rightarrow> 'a) \<Rightarrow> (string \<times> Claim) list \<Rightarrow> string \<Rightarrow> 'a" where
  "claim_or d f es k = (case map_of es k of None \<Rightarrow> d | Some c \<Rightarrow> f c)"

definition opt_string :: "Claim \<Rightarrow> string option" where
  "opt_string c = (if c = ClNull then None else Some (the_string c))"

definition iam_audience :: "Claim \<Rightarrow> ClaimAudience" where
  "iam_audience c = (case c of ClString s \<Rightarrow> ClaimSingle s | ClArray cs \<Rightarrow> ClaimMultiple (map the_string cs)
     | _ \<Rightarrow> ClaimNone)"

definition agent_audience :: "Claim \<Rightarrow> StringOrVec" where
  "agent_audience c = (case c of ClString s \<Rightarrow> Single s | ClArray cs \<Rightarrow> Multiple (map the_string cs)
     | _ \<Rightarrow> AudNone)"

definition iam_deserialize :: "(string \<times> Claim) list \<Rightarrow> serde_error + IamClaims" where
  "iam_deserialize es = (case visit_fields iam_field [] es of
     Some e \<Rightarrow> Inl e
   | None \<Rightarrow> (case map_of es ''sub'' of
       None \<Rightarrow> Inl (MissingField ''sub'')
     | Some sub \<Rightarrow> Inr \<lparr>ic_sub = the_string sub, ic_aud = claim_or ClaimNone iam_audience es ''aud'',
         ic_iss = claim_or [] the_string es ''iss'', ic_exp = claim_or 0 the_u64 es ''exp'',
         ic_iat = claim_or 0 the_u64 es ''iat'', ic_pact_role = claim_or None opt_string es ''pact_role'',
         ic_pact_principal_type = claim_or None opt_string es ''pact_principal_type'',
         ic_groups = claim_or [] the_strings es ''groups''\<rparr>))"

definition agent_deserialize :: "(string \<times> Claim) list \<Rightarrow> serde_error + TokenClaims" where
  "agent_deserialize es = (case visit_fields agent_field [] es of
     Some e \<Rightarrow> Inl e
   | None \<Rightarrow> (case map_of es ''sub'' of
       None \<Rightarrow> Inl (MissingField ''sub'')
     | Some sub \<Rightarrow> Inr \<lparr>tc_sub = the_string sub, tc_aud = claim_or AudNone agent_audience es ''aud'',
         tc_iss = claim_or [] the_string es ''iss'', tc_exp = claim_or 0 the_u64 es ''exp'',
         tc_iat = claim_or 0 the_u64 es ''iat'', tc_pact_role = claim_or None opt_string es ''pact_role'',
         tc_pact_principal_type = claim_or None opt_string es ''pact_principal_type''\<rparr>))"

text \<open>
  The jsonwebtoken crate below the claims: signatures, the claims of a token, and the validation of
  the registered claims, which reads \<open>exp\<close>, \<open>nbf\<close>, \<open>sub\<close>, \<open>aud\<close> and \<open>iss\<close>. Decoding verifies the
  signature, reads the claims into the structure of the caller, and validates.
\<close>

record RawJwt =
  rj_verify_hs256 :: "string \<Rightarrow> bytes \<Rightarrow> (JwtErrorKind \<times> string) + unit"
  rj_verify_rs256 :: "string \<Rightarrow> string \<times> string \<Rightarrow> (JwtErrorKind \<times> string) + unit"
  rj_claims :: "string \<Rightarrow> (JwtErrorKind \<times> string) + (string \<times> Claim) list"
  rj_validate :: "(string \<times> Claim) list \<Rightarrow> string \<Rightarrow> string \<Rightarrow> (JwtErrorKind \<times> string) + unit"
  rj_show :: "serde_error \<Rightarrow> string"
  rj_rsa_components :: "string \<Rightarrow> string \<Rightarrow> string + (string \<times> string)"
  rj_decode_header :: "string \<Rightarrow> string + string option"

definition registered :: "(string \<times> Claim) list \<Rightarrow> (string \<times> Claim) list" where
  "registered es = filter (\<lambda>(k, _). k \<in> set [''exp'', ''nbf'', ''sub'', ''aud'', ''iss'']) es"

definition decode_claims ::
  "RawJwt \<Rightarrow> ((string \<times> Claim) list \<Rightarrow> serde_error + 'c) \<Rightarrow> string \<Rightarrow> string \<Rightarrow> string \<Rightarrow> (JwtErrorKind \<times> string) + 'c" where
  "decode_claims R deserialize token aud iss = (case rj_claims R token of
     Inl e \<Rightarrow> Inl e
   | Inr es \<Rightarrow> (case deserialize es of
       Inl e \<Rightarrow> Inl (OtherJwtError, rj_show R e)
     | Inr claims \<Rightarrow> (case rj_validate R (registered es) aud iss of
         Inl e \<Rightarrow> Inl e | Inr _ \<Rightarrow> Inr claims)))"

definition decoder :: "((string \<times> Claim) list \<Rightarrow> serde_error + 'c) \<Rightarrow> RawJwt \<Rightarrow> 'c Jwt" where
  "decoder deserialize R = \<lparr>
     jwt_decode_hs256 = (\<lambda>t s a i. case rj_verify_hs256 R t s of Inl e \<Rightarrow> Inl e
       | Inr _ \<Rightarrow> decode_claims R deserialize t a i),
     jwt_decode_rs256 = (\<lambda>t k a i. case rj_verify_rs256 R t k of Inl e \<Rightarrow> Inl e
       | Inr _ \<Rightarrow> decode_claims R deserialize t a i),
     jwt_rsa_components = rj_rsa_components R, jwt_decode_header = rj_decode_header R\<rparr>"

subsection \<open>Agreement with the agent\<close>

text \<open>How the types of the two crates correspond; the agent's claims have no groups.\<close>

fun agent_aud :: "ClaimAudience \<Rightarrow> StringOrVec" where
  "agent_aud ClaimNone = AudNone"
| "agent_aud (ClaimSingle s) = Single s"
| "agent_aud (ClaimMultiple ss) = Multiple ss"

definition agent_claims :: "IamClaims \<Rightarrow> TokenClaims" where
  "agent_claims c = \<lparr>tc_sub = ic_sub c, tc_aud = agent_aud (ic_aud c), tc_iss = ic_iss c,
     tc_exp = ic_exp c, tc_iat = ic_iat c, tc_pact_role = ic_pact_role c,
     tc_pact_principal_type = ic_pact_principal_type c\<rparr>"

fun agent_error :: "IamError \<Rightarrow> AuthError" where
  "agent_error IamMissingToken = MissingToken"
| "agent_error IamInvalidFormat = InvalidFormat"
| "agent_error IamTokenExpired = TokenExpired"
| "agent_error (IamInvalidAudience a) = InvalidAudience a"
| "agent_error (IamInvalidIssuer i) = InvalidIssuer i"
| "agent_error (IamInvalidToken m) = InvalidToken m"
| "agent_error IamNoSigningKey = NoSigningKey"
| "agent_error (IamJwksFetchError m) = JwksFetchError m"

definition agent_cache :: "IamCache \<Rightarrow> JwksCache" where
  "agent_cache c = \<lparr>jc_keys = kc_keys c, jc_fetched_at = kc_fetched_at c, jc_ttl = kc_ttl c\<rparr>"

definition agent_config :: "JwksTokenValidator \<Rightarrow> AuthConfig" where
  "agent_config v = \<lparr>au_issuer = oi_issuer (jv_config v), au_audience = oi_audience (jv_config v),
     au_hmac_secret = oi_hmac_secret (jv_config v), au_jwks_url = Some (jv_jwks_url v)\<rparr>"

text \<open>A decoder of the journal's claims, made one of the agent's: the claims without the groups.\<close>

definition agent_jwt :: "IamClaims Jwt \<Rightarrow> TokenClaims Jwt" where
  "agent_jwt j = \<lparr>jwt_decode_hs256 = (\<lambda>t s a i. map_sum id agent_claims (jwt_decode_hs256 j t s a i)),
     jwt_decode_rs256 = (\<lambda>t k a i. map_sum id agent_claims (jwt_decode_rs256 j t k a i)),
     jwt_rsa_components = jwt_rsa_components j, jwt_decode_header = jwt_decode_header j\<rparr>"

lemma agent_config_sels [simp]:
  "au_issuer (agent_config v) = oi_issuer (jv_config v)"
  "au_audience (agent_config v) = oi_audience (jv_config v)"
  "au_hmac_secret (agent_config v) = oi_hmac_secret (jv_config v)"
  "jwks_url (agent_config v) = jv_jwks_url v"
  by (simp_all add: agent_config_def jwks_url_def)

lemma agent_jwt_sels [simp]:
  "jwt_decode_hs256 (agent_jwt j) t s a i = map_sum id agent_claims (jwt_decode_hs256 j t s a i)"
  "jwt_decode_rs256 (agent_jwt j) t k a i = map_sum id agent_claims (jwt_decode_rs256 j t k a i)"
  "jwt_rsa_components (agent_jwt j) = jwt_rsa_components j"
  "jwt_decode_header (agent_jwt j) = jwt_decode_header j"
  by (simp_all add: agent_jwt_def)

lemma iam_identity [simp]: "claims_to_identity (agent_claims c) = iam_claims_to_identity c"
  by (simp add: claims_to_identity_def iam_claims_to_identity_def agent_claims_def)

lemma iam_jwt_error_agent [simp]:
  "agent_error (iam_jwt_error (jv_config v) e) = map_jwt_error (agent_config v) e"
  by (simp add: iam_jwt_error_def map_jwt_error_def split: JwtErrorKind.split)

lemma iam_matching_keys_agent [simp]: "iam_matching_keys kid keys = matching_keys kid keys"
  by (simp add: iam_matching_keys_def matching_keys_def kid_matches_def conj_ac)

lemma iam_try_keys_agent:
  "map_sum agent_error id (iam_try_keys j token (jv_config v) err ks) =
   map_sum id claims_to_identity (try_keys (agent_jwt j) token (agent_config v) (agent_error err) ks)"
  by (induction ks arbitrary: err) (auto split: sum.splits)

lemma iam_validate_rs256_agent:
  "map_sum agent_error id (iam_validate_rs256 j (jv_config v) token keys) =
   map_sum id claims_to_identity (validate_rs256 (agent_jwt j) token (agent_config v) keys)"
  using iam_try_keys_agent [of j token v IamNoSigningKey]
  by (simp add: iam_validate_rs256_def validate_rs256_def Let_def split: sum.split)

lemma validate_sync_agent:
  "map_sum agent_error id (validate_sync j (jv_config v) token) =
   map_sum id claims_to_identity (validate_token (agent_jwt j) token (agent_config v))"
  by (simp add: validate_sync_def validate_token_def
      split: option.split sum.split)

lemma iam_fetch_agent:
  "jwks_fetch (\<lambda>u. map_sum agent_error id (fetch_remote http u)) now url (agent_cache c) =
   map_prod agent_cache (map_sum agent_error id) (iam_fetch http now url c)"
  by (auto simp: jwks_fetch_def iam_fetch_def cache_valid_def agent_cache_def
      split: option.splits sum.split)

lemma validate_agent:
  "map_prod (\<lambda>v'. agent_cache (jv_jwks_cache v')) (map_sum agent_error id)
     (validate_impl j http now token v) =
   map_prod id (map_sum id claims_to_identity)
     (validate_token_with_jwks (agent_jwt j) (\<lambda>u. map_sum agent_error id (fetch_remote http u)) now
       token (agent_config v) (agent_cache (jv_jwks_cache v)))"
proof -
  let ?sync = "if oi_hmac_secret (jv_config v) \<noteq> None then validate_sync j (jv_config v) token
    else Inl IamNoSigningKey"
  let ?token = "if au_hmac_secret (agent_config v) \<noteq> None
    then validate_token (agent_jwt j) token (agent_config v) else Inl NoSigningKey"
  have first: "map_sum agent_error id ?sync = map_sum id claims_to_identity ?token"
    by (simp add: validate_sync_agent)
  show ?thesis
  proof (cases "iam_fetch http now (jv_jwks_url v) (jv_jwks_cache v)")
    case (Pair c r)
    with first show ?thesis
      unfolding validate_impl_def validate_token_with_jwks_def agent_config_sels iam_fetch_agent
      by (cases r; cases ?sync; cases ?token) (simp_all add: iam_validate_rs256_agent)
  qed
qed

text \<open>The token with its claim \<open>groups\<close> taken out, and the values of that claim the journal accepts.\<close>

definition drop_groups :: "(string \<times> Claim) list \<Rightarrow> (string \<times> Claim) list" where
  "drop_groups es = filter (\<lambda>(k, _). k \<noteq> ''groups'') es"

definition ungrouped :: "RawJwt \<Rightarrow> RawJwt" where
  "ungrouped R = R\<lparr>rj_claims := (\<lambda>t. map_sum id drop_groups (rj_claims R t))\<rparr>"

definition groups_ok :: "(string \<times> Claim) list \<Rightarrow> bool" where
  "groups_ok es \<longleftrightarrow> (case filter (\<lambda>(k, _). k = ''groups'') es of
     [] \<Rightarrow> True | [kc] \<Rightarrow> is_strings (snd kc) | _ \<Rightarrow> False)"

lemma agent_field_iam: "k \<noteq> ''groups'' \<Longrightarrow> agent_field k = iam_field k"
  by (simp add: agent_field_def iam_field_def)

lemma agent_field_groups: "agent_field ''groups'' = None"
  by (simp add: agent_field_def)

lemma iam_field_groups: "iam_field ''groups'' = Some is_strings"
  by (simp add: iam_field_def)

lemma visit_agent: "visit_fields agent_field seen es = visit_fields iam_field seen (drop_groups es)"
proof (induction es arbitrary: seen)
  case (Cons x es)
  obtain k c where x: "x = (k, c)" by (cases x)
  show ?case
  proof (cases "k = ''groups''")
    case True
    with Cons show ?thesis by (simp add: x agent_field_groups drop_groups_def)
  next
    case False
    with Cons show ?thesis by (simp add: x agent_field_iam drop_groups_def split: option.split)
  qed
qed (simp add: drop_groups_def)

lemma visit_groups_ok:
  assumes "\<forall>k. k \<noteq> ''groups'' \<longrightarrow> (k \<in> set seen \<longleftrightarrow> k \<in> set seen')"
    and "if ''groups'' \<in> set seen then filter (\<lambda>(k, _). k = ''groups'') es = [] else groups_ok es"
  shows "visit_fields iam_field seen es = visit_fields iam_field seen' (drop_groups es)"
  using assms
proof (induction es arbitrary: seen seen')
  case (Cons x es)
  obtain k c where x: "x = (k, c)" by (cases x)
  show ?case
  proof (cases "k = ''groups''")
    case True
    then have "''groups'' \<notin> set seen" "is_strings c" "filter (\<lambda>(k, _). k = ''groups'') es = []"
      using Cons.prems(2) by (auto simp: x groups_ok_def split: if_splits list.splits)
    with True Cons.prems(1) Cons.IH [of "''groups'' # seen" seen'] show ?thesis
      by (simp add: x iam_field_groups drop_groups_def)
  next
    case False
    have "if ''groups'' \<in> set (k # seen) then filter (\<lambda>(k, _). k = ''groups'') es = [] else groups_ok es"
      "if ''groups'' \<in> set seen then filter (\<lambda>(k, _). k = ''groups'') es = [] else groups_ok es"
      using Cons.prems(2) False by (auto simp: x groups_ok_def split: if_splits)
    then have IH: "visit_fields iam_field (k # seen) es = visit_fields iam_field (k # seen') (drop_groups es)"
      "visit_fields iam_field seen es = visit_fields iam_field seen' (drop_groups es)"
      using Cons.prems(1) by (auto intro!: Cons.IH)
    have "drop_groups ((k, c) # es) = (k, c) # drop_groups es" "k \<in> set seen \<longleftrightarrow> k \<in> set seen'"
      using False Cons.prems(1) by (auto simp: drop_groups_def)
    then show ?thesis
      unfolding x by (simp add: IH split: option.split)
  qed
qed (simp add: drop_groups_def)

lemma visit_groups_bad:
  "visit_fields iam_field seen es = None \<Longrightarrow>
   if ''groups'' \<in> set seen then filter (\<lambda>(k, _). k = ''groups'') es = [] else groups_ok es"
proof (induction es arbitrary: seen)
  case (Cons x es)
  obtain k c where x: "x = (k, c)" by (cases x)
  show ?case
  proof (cases "k = ''groups''")
    case True
    then have "''groups'' \<notin> set seen" "is_strings c" "visit_fields iam_field (k # seen) es = None"
      using Cons.prems by (auto simp: x iam_field_groups split: if_splits)
    with True Cons.IH [of "k # seen"] show ?thesis
      by (simp add: x groups_ok_def)
  next
    case False
    then obtain seen' where "visit_fields iam_field seen' es = None" "''groups'' \<in> set seen' \<longleftrightarrow> ''groups'' \<in> set seen"
      using Cons.prems by (auto simp: x split: option.splits if_splits)
    with False Cons.IH [of seen'] show ?thesis
      by (simp add: x groups_ok_def split: if_splits)
  qed
qed (simp add: groups_ok_def)

lemma drop_groups_map_of: "k \<noteq> ''groups'' \<Longrightarrow> map_of (drop_groups es) k = map_of es k"
  by (induction es) (auto simp: drop_groups_def)

lemma drop_groups_claim: "k \<noteq> ''groups'' \<Longrightarrow> claim_or d f (drop_groups es) k = claim_or d f es k"
  by (simp add: claim_or_def drop_groups_map_of)

lemma agent_audience_iam: "agent_aud (iam_audience c) = agent_audience c"
  by (simp add: iam_audience_def agent_audience_def split: Claim.split)

lemma agent_audience_or: "agent_aud (claim_or ClaimNone iam_audience es k) = claim_or AudNone agent_audience es k"
  by (simp add: claim_or_def agent_audience_iam split: option.split)

lemma agent_deserialize_iam: "agent_deserialize es = map_sum id agent_claims (iam_deserialize (drop_groups es))"
  unfolding agent_deserialize_def iam_deserialize_def visit_agent
  by (simp add: drop_groups_map_of drop_groups_claim agent_claims_def agent_audience_or split: option.split)

lemma iam_deserialize_ungrouped:
  assumes "groups_ok es"
  shows "map_sum id iam_claims_to_identity (iam_deserialize (drop_groups es)) =
    map_sum id iam_claims_to_identity (iam_deserialize es)"
  using visit_groups_ok [of "[]" "[]" es] assms
  by (simp add: iam_deserialize_def drop_groups_map_of drop_groups_claim iam_claims_to_identity_def split: option.split)

lemma iam_deserialize_bad: "\<not> groups_ok es \<Longrightarrow> isl (iam_deserialize es)"
  using visit_groups_bad [of "[]" es] by (auto simp: iam_deserialize_def split: option.split)

lemma registered_drop: "registered (drop_groups es) = registered es"
  by (auto simp: registered_def drop_groups_def intro!: filter_cong)

lemma decode_claims_agent:
  "decode_claims R agent_deserialize t a i =
     map_sum id agent_claims (decode_claims (ungrouped R) iam_deserialize t a i)"
  by (simp add: decode_claims_def ungrouped_def agent_deserialize_iam registered_drop split: sum.split)

lemma decoder_agent: "decoder agent_deserialize R = agent_jwt (decoder iam_deserialize (ungrouped R))"
  by (auto simp: decoder_def agent_jwt_def decode_claims_agent fun_eq_iff split: sum.split)
    (simp_all add: ungrouped_def)

text \<open>The journal's answer to a token depends on the decoders through the identity they give.\<close>

lemma try_keys_cong:
  assumes "jwt_rsa_components j = jwt_rsa_components j'"
    and "\<And>k a i. map_sum id iam_claims_to_identity (jwt_decode_rs256 j token k a i) =
      map_sum id iam_claims_to_identity (jwt_decode_rs256 j' token k a i)"
  shows "iam_try_keys j token cfg err ks = iam_try_keys j' token cfg err ks"
proof (induction ks arbitrary: err)
  case (Cons k ks)
  show ?case
  proof (cases "jwt_rsa_components j' (the (jwk_n k)) (the (jwk_e k))")
    case (Inr key)
    then show ?thesis
      using assms(2) [of key "oi_audience cfg" "oi_issuer cfg"] Cons.IH assms(1)
      by (cases "jwt_decode_rs256 j token key (oi_audience cfg) (oi_issuer cfg)";
          cases "jwt_decode_rs256 j' token key (oi_audience cfg) (oi_issuer cfg)") simp_all
  qed (use Cons.IH assms(1) in simp)
qed simp

lemma validate_impl_cong:
  assumes "jwt_rsa_components j = jwt_rsa_components j'" "jwt_decode_header j = jwt_decode_header j'"
    and "\<And>s a i. map_sum id iam_claims_to_identity (jwt_decode_hs256 j token s a i) =
      map_sum id iam_claims_to_identity (jwt_decode_hs256 j' token s a i)"
    and "\<And>k a i. map_sum id iam_claims_to_identity (jwt_decode_rs256 j token k a i) =
      map_sum id iam_claims_to_identity (jwt_decode_rs256 j' token k a i)"
  shows "validate_impl j http now token v = validate_impl j' http now token v"
proof -
  have sync: "validate_sync j cfg token = validate_sync j' cfg token" for cfg
  proof (cases "oi_hmac_secret cfg")
    case (Some secret)
    then show ?thesis
      using assms(3) [of secret "oi_audience cfg" "oi_issuer cfg"]
      by (cases "jwt_decode_hs256 j token secret (oi_audience cfg) (oi_issuer cfg)";
          cases "jwt_decode_hs256 j' token secret (oi_audience cfg) (oi_issuer cfg)")
        (simp_all add: validate_sync_def)
  qed (simp add: validate_sync_def)
  have rs256: "iam_validate_rs256 j cfg token keys = iam_validate_rs256 j' cfg token keys" for cfg keys
    unfolding iam_validate_rs256_def assms(2) try_keys_cong [OF assms(1,4)] by (rule refl)
  show ?thesis
    unfolding validate_impl_def sync rs256 by (rule refl)
qed

lemma undecodable_refused:
  assumes "\<And>s a i. isl (jwt_decode_hs256 j token s a i)" "\<And>k a i. isl (jwt_decode_rs256 j token k a i)"
  shows "isl (snd (validate_impl j http now token v))"
proof -
  have "isl (validate_sync j cfg token)" for cfg
    using assms(1) by (auto simp: validate_sync_def split: option.splits sum.splits) (metis sum.disc(2))
  moreover have "isl (iam_try_keys j token cfg err ks)" for cfg err ks
  proof (induction ks arbitrary: err)
    case (Cons k ks)
    then show ?case
      using assms(2) by (auto split: sum.splits) (metis sum.disc(2))
  qed simp
  then have "isl (iam_validate_rs256 j cfg token keys)" for cfg keys
    by (auto simp: iam_validate_rs256_def Let_def split: sum.splits)
  ultimately show ?thesis
    unfolding validate_impl_def by (auto split: sum.splits prod.splits) (metis sum.disc(2))+
qed

lemma decoder_ungrouped:
  assumes "rj_claims R token = Inr es" "groups_ok es"
  shows "map_sum id iam_claims_to_identity (decode_claims (ungrouped R) iam_deserialize token a i) =
    map_sum id iam_claims_to_identity (decode_claims R iam_deserialize token a i)"
  using iam_deserialize_ungrouped [OF assms(2)] assms(1)
  by (cases "iam_deserialize es"; cases "iam_deserialize (drop_groups es)")
    (simp_all add: decode_claims_def ungrouped_def registered_drop split: sum.split)

lemma validate_ungrouped:
  assumes "\<And>es. rj_claims R token = Inr es \<Longrightarrow> groups_ok es"
  shows "validate_impl (decoder iam_deserialize (ungrouped R)) http now token v =
    validate_impl (decoder iam_deserialize R) http now token v"
proof -
  have claims: "map_sum id iam_claims_to_identity (decode_claims (ungrouped R) iam_deserialize token a i) =
      map_sum id iam_claims_to_identity (decode_claims R iam_deserialize token a i)" for a i
    using decoder_ungrouped [of R token] assms
    by (cases "rj_claims R token") (auto simp: decode_claims_def ungrouped_def)
  have "rj_verify_hs256 (ungrouped R) = rj_verify_hs256 R" "rj_verify_rs256 (ungrouped R) = rj_verify_rs256 R"
    "rj_rsa_components (ungrouped R) = rj_rsa_components R" "rj_decode_header (ungrouped R) = rj_decode_header R"
    by (simp_all add: ungrouped_def)
  then show ?thesis
    by (intro validate_impl_cong) (simp_all add: decoder_def claims split: sum.split)
qed

text \<open>
  C29. The journal and the agent's shell read the same tokens alike but for the claim \<open>groups\<close>, which
  only the journal's structure has. Over the same provider, configuration and key cache, the agent
  answers every token (identity or reason of refusal, and what becomes of the cache) as the journal
  answers it with that claim taken out; the journal answers a token whose claim \<open>groups\<close> is absent
  or is one array of strings as the agent does; and it refuses every token in which the claim is
  there twice or is anything else, a single string or null for instance, whatever the agent says
  of it.
\<close>

theorem tokens_agree_up_to_groups:
  "map_prod id (map_sum id claims_to_identity)
     (validate_token_with_jwks (decoder agent_deserialize R) (\<lambda>u. map_sum agent_error id (fetch_remote http u)) now
       token (agent_config v) (agent_cache (jv_jwks_cache v))) =
   map_prod (\<lambda>v'. agent_cache (jv_jwks_cache v')) (map_sum agent_error id)
     (validate_impl (decoder iam_deserialize (ungrouped R)) http now token v) \<and>
   (if (case rj_claims R token of Inl _ \<Rightarrow> True | Inr es \<Rightarrow> groups_ok es)
    then validate_impl (decoder iam_deserialize R) http now token v =
      validate_impl (decoder iam_deserialize (ungrouped R)) http now token v
    else isl (snd (validate_impl (decoder iam_deserialize R) http now token v)))"
proof
  show "map_prod id (map_sum id claims_to_identity)
     (validate_token_with_jwks (decoder agent_deserialize R) (\<lambda>u. map_sum agent_error id (fetch_remote http u)) now
       token (agent_config v) (agent_cache (jv_jwks_cache v))) =
   map_prod (\<lambda>v'. agent_cache (jv_jwks_cache v')) (map_sum agent_error id)
     (validate_impl (decoder iam_deserialize (ungrouped R)) http now token v)"
    unfolding decoder_agent by (rule validate_agent [symmetric])
  show "if (case rj_claims R token of Inl _ \<Rightarrow> True | Inr es \<Rightarrow> groups_ok es)
    then validate_impl (decoder iam_deserialize R) http now token v =
      validate_impl (decoder iam_deserialize (ungrouped R)) http now token v
    else isl (snd (validate_impl (decoder iam_deserialize R) http now token v))"
  proof (cases "case rj_claims R token of Inl _ \<Rightarrow> True | Inr es \<Rightarrow> groups_ok es")
    case True
    then show ?thesis
      using validate_ungrouped [of R token http now v] by (cases "rj_claims R token") simp_all
  next
    case False
    then obtain es where es: "rj_claims R token = Inr es" "\<not> groups_ok es"
      by (auto split: sum.splits)
    have "isl (decode_claims R iam_deserialize token a i)" for a i
      using iam_deserialize_bad [OF es(2)] es(1) by (auto simp: decode_claims_def isl_def)
    then have "isl (snd (validate_impl (decoder iam_deserialize R) http now token v))"
      by (intro undecodable_refused) (auto simp: decoder_def split: sum.split)
    with False show ?thesis by simp
  qed
qed

text \<open>
  A token with a single string for its groups: the agent accepts it, the journal does not.
\<close>

definition string_groups :: RawJwt where
  "string_groups = \<lparr>rj_verify_hs256 = (\<lambda>t s. Inr ()), rj_verify_rs256 = (\<lambda>t k. Inr ()),
     rj_claims = (\<lambda>t. Inr [(''sub'', ClString ''alice''), (''groups'', ClString ''staff'')]),
     rj_validate = (\<lambda>es a i. Inr ()), rj_show = (\<lambda>e. ''JSON error''), rj_rsa_components = (\<lambda>n e. Inr (n, e)),
     rj_decode_header = (\<lambda>t. Inr None)\<rparr>"

lemma string_groups_disagree:
  "validate_token (decoder agent_deserialize string_groups) token
     \<lparr>au_issuer = iss, au_audience = aud, au_hmac_secret = Some secret, au_jwks_url = url\<rparr> =
   Inr \<lparr>tc_sub = ''alice'', tc_aud = AudNone, tc_iss = [], tc_exp = 0, tc_iat = 0, tc_pact_role = None,
     tc_pact_principal_type = None\<rparr> \<and>
   isl (snd (validate_impl (decoder iam_deserialize string_groups) http now token v))"
proof
  show "validate_token (decoder agent_deserialize string_groups) token
     \<lparr>au_issuer = iss, au_audience = aud, au_hmac_secret = Some secret, au_jwks_url = url\<rparr> =
   Inr \<lparr>tc_sub = ''alice'', tc_aud = AudNone, tc_iss = [], tc_exp = 0, tc_iat = 0, tc_pact_role = None,
     tc_pact_principal_type = None\<rparr>"
    by (simp add: validate_token_def decoder_def decode_claims_def string_groups_def agent_deserialize_def
        agent_field_def claim_or_def)
  show "isl (snd (validate_impl (decoder iam_deserialize string_groups) http now token v))"
    by (rule undecodable_refused)
      (simp_all add: decoder_def decode_claims_def string_groups_def iam_deserialize_def iam_field_def)
qed

subsection \<open>Tokens that are not tokens\<close>

text \<open>
  A compact token has three parts separated by dots (RFC 7519); the decoders refuse every other
  string.
\<close>

definition jwt_structured :: "'c Jwt \<Rightarrow> bool" where
  "jwt_structured j \<longleftrightarrow> (\<forall>token. length (filter (\<lambda>c. c = CHR ''.'') token) \<noteq> 2 \<longrightarrow>
     (\<forall>s a i. isl (jwt_decode_hs256 j token s a i)) \<and>
     (\<forall>k a i. isl (jwt_decode_rs256 j token k a i)) \<and> isl (jwt_decode_header j token))"

lemma structured_hs256:
  "jwt_structured j \<Longrightarrow> length (filter (\<lambda>c. c = CHR ''.'') token) \<noteq> 2 \<Longrightarrow>
   isl (jwt_decode_hs256 j token s a i)"
  by (simp add: jwt_structured_def)

lemma structured_header:
  "jwt_structured j \<Longrightarrow> length (filter (\<lambda>c. c = CHR ''.'') token) \<noteq> 2 \<Longrightarrow> isl (jwt_decode_header j token)"
  by (simp add: jwt_structured_def)

lemma unstructured_refused:
  assumes "jwt_structured j" "length (filter (\<lambda>c. c = CHR ''.'') token) \<noteq> 2"
  shows "\<exists>e. snd (validate_impl j http now token v) = Inl e"
proof -
  have "isl (validate_sync j cfg token)" for cfg
    using structured_hs256 [OF assms]
    by (auto simp: validate_sync_def split: option.splits sum.splits) (metis sum.disc(2))
  then have sync: "validate_sync j cfg token = Inl (projl (validate_sync j cfg token))" for cfg
    by simp
  have "isl (iam_validate_rs256 j cfg token keys)" for cfg keys
    using structured_header [OF assms] by (auto simp: iam_validate_rs256_def isl_def)
  then have "iam_validate_rs256 j cfg token keys = Inl (projl (iam_validate_rs256 j cfg token keys))" for cfg keys
    by simp
  then show ?thesis
    unfolding validate_impl_def by (subst sync) (auto split: sum.split prod.split)
qed

end
