(* ===== verification/Rust_Parse.thy ===== *)
theory Rust_Parse
  imports Rust_Strings Rust_Numbers F64
begin

text \<open>
  More of the standard library of Rust: well-formed UTF-8 and lossy decoding, replacing and
  comparing text, the last component of a path, signed integers and decimal floating point.
\<close>

subsection \<open>Validity of UTF-8\<close>

text \<open>\<open>String::from_utf8\<close> accepts the well-formed byte sequences of the Unicode standard.\<close>

definition cont_byte :: "nat \<Rightarrow> bool" where
  "cont_byte b \<longleftrightarrow> 128 \<le> b \<and> b < 192"

fun utf8_valid :: "nat list \<Rightarrow> bool" where
  "utf8_valid [] = True"
| "utf8_valid (a # xs) =
     (if a < 128 then utf8_valid xs
      else if 194 \<le> a \<and> a < 224 then
        (case xs of b # ys \<Rightarrow> cont_byte b \<and> utf8_valid ys | _ \<Rightarrow> False)
      else if 224 \<le> a \<and> a < 240 then
        (case xs of b # c # ys \<Rightarrow>
           cont_byte b \<and> cont_byte c \<and> (a = 224 \<longrightarrow> 160 \<le> b) \<and> (a = 237 \<longrightarrow> b < 160) \<and> utf8_valid ys
         | _ \<Rightarrow> False)
      else if 240 \<le> a \<and> a < 245 then
        (case xs of b # c # d # ys \<Rightarrow>
           cont_byte b \<and> cont_byte c \<and> cont_byte d \<and> (a = 240 \<longrightarrow> 144 \<le> b) \<and> (a = 244 \<longrightarrow> b < 144) \<and>
           utf8_valid ys
         | _ \<Rightarrow> False)
      else False)"

definition from_utf8 :: "string \<Rightarrow> string option" where
  "from_utf8 s = (if utf8_valid (map of_char s) then Some s else None)"

lemma utf8_ascii: "(\<And>b. b \<in> set bs \<Longrightarrow> b < 128) \<Longrightarrow> utf8_valid bs"
  by (induction bs) auto

lemma from_utf8_Some: "from_utf8 s = Some t \<Longrightarrow> t = s"
  by (simp add: from_utf8_def split: if_splits)

text \<open>
  \<open>String::from_utf8_lossy\<close>: every maximal beginning of an ill-formed sequence is replaced by the
  replacement character.
\<close>

definition replacement :: "nat list" where
  "replacement = [239, 191, 189]"

definition second_ok :: "nat \<Rightarrow> nat \<Rightarrow> bool" where
  "second_ok a b \<longleftrightarrow> cont_byte b \<and> (a = 224 \<longrightarrow> 160 \<le> b) \<and> (a = 237 \<longrightarrow> b < 160) \<and>
     (a = 240 \<longrightarrow> 144 \<le> b) \<and> (a = 244 \<longrightarrow> b < 144)"

function lossy :: "nat list \<Rightarrow> nat list" where
  "lossy [] = []"
| "lossy (a # xs) =
     (if a < 128 then a # lossy xs
      else if 194 \<le> a \<and> a < 224 then
        (case xs of
           b # ys \<Rightarrow> if cont_byte b then a # b # lossy ys else replacement @ lossy xs
         | [] \<Rightarrow> replacement)
      else if 224 \<le> a \<and> a < 240 then
        (case xs of
           b # ys \<Rightarrow>
             if \<not> second_ok a b then replacement @ lossy xs
             else (case ys of
               c # zs \<Rightarrow> if cont_byte c then a # b # c # lossy zs else replacement @ lossy ys
             | [] \<Rightarrow> replacement)
         | [] \<Rightarrow> replacement)
      else if 240 \<le> a \<and> a < 245 then
        (case xs of
           b # ys \<Rightarrow>
             if \<not> second_ok a b then replacement @ lossy xs
             else (case ys of
               c # zs \<Rightarrow>
                 if \<not> cont_byte c then replacement @ lossy ys
                 else (case zs of
                   d # ws \<Rightarrow> if cont_byte d then a # b # c # d # lossy ws else replacement @ lossy zs
                 | [] \<Rightarrow> replacement)
             | [] \<Rightarrow> replacement)
         | [] \<Rightarrow> replacement)
      else replacement @ lossy xs)"
  by pat_completeness auto

termination lossy
  by (relation "measure length") auto

definition from_utf8_lossy :: "string \<Rightarrow> string" where
  "from_utf8_lossy s = map char_of (lossy (map of_char s))"

lemma utf8_valid_replacement [simp]: "utf8_valid (replacement @ xs) = utf8_valid xs"
  by (simp add: replacement_def cont_byte_def)

lemma utf8_valid_replacement_only [simp]: "utf8_valid replacement"
  by (simp add: replacement_def cont_byte_def)

declare lossy.simps(2) [simp del]

lemma lossy_valid: "utf8_valid (lossy bs)"
proof (induction bs rule: length_induct)
  case (1 bs)
  show ?case
  proof (cases bs)
    case (Cons a xs)
    have IH: "length ys \<le> length xs \<Longrightarrow> utf8_valid (lossy ys)" for ys
      using 1 Cons by simp
    show ?thesis
      unfolding Cons lossy.simps(2)
      by (simp add: IH second_ok_def split: list.split) blast
  qed simp
qed

lemma lossy_id: "utf8_valid bs \<Longrightarrow> lossy bs = bs"
proof (induction bs rule: length_induct)
  case (1 bs)
  show ?case
  proof (cases bs)
    case (Cons a xs)
    have IH: "length ys \<le> length xs \<Longrightarrow> utf8_valid ys \<Longrightarrow> lossy ys = ys" for ys
      using 1 Cons by simp
    note v = 1(2) [unfolded Cons utf8_valid.simps(2)]
    have l: "lossy (a # xs) = a # xs"
    proof (cases "a < 128")
      case True
      with v IH [of xs] show ?thesis
        by (simp add: lossy.simps(2) del: utf8_valid.simps(2))
    next
      case False
      with v consider (two) b ys where "194 \<le> a" "a < 224" "xs = b # ys" "cont_byte b" "utf8_valid ys"
        | (three) b c ys where "224 \<le> a" "a < 240" "xs = b # c # ys" "second_ok a b" "cont_byte c" "utf8_valid ys"
        | (four) b c d ys where "240 \<le> a" "a < 245" "xs = b # c # d # ys" "second_ok a b" "cont_byte c"
            "cont_byte d" "utf8_valid ys"
        unfolding second_ok_def
        by (simp del: utf8_valid.simps(2) split: if_splits list.splits)
      then show ?thesis
        by cases (simp_all add: lossy.simps(2) IH del: utf8_valid.simps(2))
    qed
    then show ?thesis
      by (simp add: Cons)
  qed simp
qed

subsection \<open>Paths\<close>

text \<open>\<open>str::replace\<close> for a pattern that is not empty: leftmost matches, without overlap.\<close>

fun replace_from :: "string \<Rightarrow> string \<Rightarrow> nat \<Rightarrow> string \<Rightarrow> string" where
  "replace_from pat to k [] = []"
| "replace_from pat to (Suc k) (c # cs) = replace_from pat to k cs"
| "replace_from pat to 0 (c # cs) =
     (if prefix pat (c # cs) then to @ replace_from pat to (length pat - 1) cs
      else c # replace_from pat to 0 cs)"

definition replace_str :: "string \<Rightarrow> string \<Rightarrow> string \<Rightarrow> string" where
  "replace_str pat to s = replace_from pat to 0 s"

text \<open>The part after the last slash, \<open>rsplit('/').next()\<close>.\<close>

definition last_segment :: "string \<Rightarrow> string" where
  "last_segment s = rev (takeWhile (\<lambda>c. c \<noteq> CHR ''/'') (rev s))"

lemma last_segment_plain: "CHR ''/'' \<notin> set s \<Longrightarrow> last_segment s = s"
  unfolding last_segment_def by (subst takeWhile_eq_all_conv [THEN iffD2]) auto

lemma last_segment_no_slash: "CHR ''/'' \<notin> set (last_segment s)"
  by (auto simp: last_segment_def dest: set_takeWhileD)

text \<open>
  The last component of a path, \<open>Path::file_name\<close>: empty components and dots do not count, and a
  path that ends in two dots has none.
\<close>

definition file_name :: "string \<Rightarrow> string option" where
  "file_name path = (case rev (filter (\<lambda>c. c \<noteq> [] \<and> c \<noteq> ''.'') (split_on CHR ''/'' path)) of
     [] \<Rightarrow> None | c # _ \<Rightarrow> if c = ''..'' then None else Some c)"

definition eq_ignore_ascii_case :: "string \<Rightarrow> string \<Rightarrow> bool" where
  "eq_ignore_ascii_case s t \<longleftrightarrow> to_lowercase s = to_lowercase t"

subsection \<open>Numbers\<close>

abbreviation parse_u32 :: "string \<Rightarrow> nat option" where
  "parse_u32 \<equiv> parse_unsigned (2 ^ 32)"

abbreviation parse_u64 :: "string \<Rightarrow> nat option" where
  "parse_u64 \<equiv> parse_unsigned (2 ^ 64)"

text \<open>A sign, then digits, for a type with \<open>w\<close> bits.\<close>

definition split_sign :: "string \<Rightarrow> bool \<times> string" where
  "split_sign s = (case s of
     c # r \<Rightarrow> if c = CHR ''-'' then (True, r) else if c = CHR ''+'' then (False, r) else (False, s)
   | [] \<Rightarrow> (False, s))"

definition parse_signed :: "nat \<Rightarrow> string \<Rightarrow> int option" where
  "parse_signed w s = (case split_sign s of (neg, ds) \<Rightarrow>
     if ds = [] \<or> \<not> list_all is_digit ds then None
     else let v = (if neg then - int (digits_value ds) else int (digits_value ds)) in
       if - (2 ^ (w - 1)) \<le> v \<and> v < 2 ^ (w - 1) then Some v else None)"

text \<open>
  Decimal numbers with fraction and exponent, and the names of the special values; the result is
  the nearest representable number. (The sign of a zero is not kept, as in theory \<open>F64\<close>.)
\<close>

definition parse_exponent :: "string \<Rightarrow> int option" where
  "parse_exponent s = (case s of
     [] \<Rightarrow> Some 0
   | c # r \<Rightarrow>
       if c \<noteq> CHR ''e'' \<and> c \<noteq> CHR ''E'' then None
       else case split_sign r of (neg, ds) \<Rightarrow>
         if ds = [] \<or> \<not> list_all is_digit ds then None
         else Some (if neg then - int (digits_value ds) else int (digits_value ds)))"

definition decimal :: "nat \<Rightarrow> int \<Rightarrow> rat" where
  "decimal m e = (if 0 \<le> e then of_nat m * 10 ^ nat e else of_nat m / 10 ^ nat (- e))"

definition parse_f64 :: "string \<Rightarrow> F64 option" where
  "parse_f64 s = (case split_sign s of (neg, r) \<Rightarrow>
     if to_lowercase r = ''inf'' \<or> to_lowercase r = ''infinity'' then Some (if neg then NInf else PInf)
     else if to_lowercase r = ''nan'' then Some NaN
     else
       let whole = takeWhile is_digit r; r1 = dropWhile is_digit r;
           (fraction, r2) = (case r1 of
              c # x \<Rightarrow> if c = CHR ''.'' then (takeWhile is_digit x, dropWhile is_digit x) else ([], r1)
            | [] \<Rightarrow> ([], r1))
       in if whole @ fraction = [] then None
          else case parse_exponent r2 of
            None \<Rightarrow> None
          | Some e \<Rightarrow>
              let v = to_f64 (decimal (digits_value (whole @ fraction)) (e - int (length fraction)))
              in Some (if neg then f64_neg v else v))"

lemma split_sign_digits:
  assumes "list_all is_digit s"
  shows "split_sign s = (False, s)"
  using assms by (cases s) (auto simp: split_sign_def is_digit_def)

lemma lowercase_digits:
  assumes "list_all is_digit s"
  shows "to_lowercase s = s"
proof -
  have "char_lower c = c" if "is_digit c" for c
    using that by (auto simp: char_lower_def is_digit_def)
  with assms show ?thesis
    unfolding to_lowercase_def by (intro map_idI) (auto simp: list_all_iff)
qed

text \<open>A whole number up to \<open>2 ^ 53\<close> is read exactly.\<close>

lemma parse_f64_show_nat:
  assumes "n \<le> 2 ^ 53"
  shows "parse_f64 (show_nat n) = Some (Fin (of_nat n))"
proof -
  have d: "list_all is_digit (show_nat n)"
    by (rule show_nat_digits)
  have ne: "show_nat n \<noteq> []"
    by (rule show_nat_nonempty)
  have names: "show_nat n \<noteq> ''inf''" "show_nat n \<noteq> ''infinity''" "show_nat n \<noteq> ''nan''"
    using d by (auto simp: is_digit_def)
  have all: "takeWhile is_digit (show_nat n) = show_nat n" "dropWhile is_digit (show_nat n) = []"
    using d by (auto simp: list_all_iff takeWhile_eq_all_conv dropWhile_eq_Nil_conv)
  have "to_f64 (of_int (int n)) = Fin (of_int (int n))"
    using assms by (intro to_f64_of_int) auto
  then have "to_f64 (of_nat n) = Fin (of_nat n)"
    by simp
  then show ?thesis
    using ne names
    by (simp add: parse_f64_def split_sign_digits [OF d] lowercase_digits [OF d] all Let_def
        parse_exponent_def decimal_def)
qed

lemma parse_signed_examples:
  "parse_signed 64 ''-1'' = Some (- 1)" "parse_signed 64 ''+'' = None"
  "parse_signed 8 ''-128'' = Some (- 128)" "parse_signed 8 ''128'' = None"
  by code_simp+

end
