(* ===== verification/Node_Identity.thy ===== *)
theory Node_Identity
  imports Enrollment_Service Iam Rust_Parse
begin

text \<open>
  How an agent obtains and keeps its identity: enrollment with a certificate request
  (\<open>crates/pact-agent/src/enrollment.rs\<close>), rotation of the certificate before it expires
  (\<open>cert_rotation.rs\<close>) and the connection to the journal (\<open>journal_client.rs\<close>), and what they
  achieve together with the journal's enrollment service. Files, key generation and transport are
  the record \<open>NodeEnv\<close>; the build for Linux is modelled.
\<close>

subsection \<open>The node\<close>

record TlsConfig =
  tls_ca_certificate :: string
  tls_identity :: "(string \<times> string) option"

text \<open>
  A key pair is its private bytes. Connecting to an address may fail because the address or the
  TLS settings are invalid, which ends the search, or because it is unreachable.
\<close>

record NodeEnv =
  nv_read_file :: "string \<Rightarrow> string + string"
  nv_net_dir :: "string + (string + string) list"
  nv_generate_key :: "string + bytes"
  nv_csr_der :: "bytes \<Rightarrow> string + bytes"
  nv_key_pem :: "bytes \<Rightarrow> string"
  nv_from_shared :: "string \<Rightarrow> string + unit"
  nv_tls_config :: "TlsConfig \<Rightarrow> string + unit"
  nv_connect :: "string \<Rightarrow> TlsConfig option \<Rightarrow> bool"

datatype AgentError = AgentMsg string | AgentStatus Status

definition https_uri :: "string \<Rightarrow> string" where
  "https_uri endpoint = (if prefix ''http'' endpoint then endpoint else ''https://'' @ endpoint)"

subsection \<open>Hardware identity\<close>

fun primary_mac :: "NodeEnv \<Rightarrow> (string + string) list \<Rightarrow> string option" where
  "primary_mac env [] = None"
| "primary_mac env (Inl e # es) = None"
| "primary_mac env (Inr name # es) =
     (if name = ''lo'' then primary_mac env es
      else case nv_read_file env (''/sys/class/net/'' @ name @ ''/address'') of
        Inr mac \<Rightarrow>
          if trim mac \<noteq> ''00:00:00:00:00:00'' then Some (trim mac) else primary_mac env es
      | Inl _ \<Rightarrow> primary_mac env es)"

definition read_primary_mac :: "NodeEnv \<Rightarrow> string option" where
  "read_primary_mac env = (case nv_net_dir env of
     Inl e \<Rightarrow> None | Inr entries \<Rightarrow> primary_mac env entries)"

definition read_hardware_identity :: "NodeEnv \<Rightarrow> ProtoHardwareIdentity" where
  "read_hardware_identity env =
     \<lparr>phw_mac_address = (case read_primary_mac env of Some m \<Rightarrow> m | None \<Rightarrow> ''00:00:00:00:00:00''),
      phw_bmc_serial = trim (case nv_read_file env ''/sys/class/dmi/id/board_serial'' of
        Inr s \<Rightarrow> s | Inl _ \<Rightarrow> []),
      phw_extra = []\<rparr>"

subsection \<open>Enrollment\<close>

record EnrollmentConfig =
  ef_journal_endpoints :: "string list"
  ef_ca_cert :: string
  ef_cert_dir :: string
  ef_renewal_before_expiry_seconds :: u32

record AgentEnrollment =
  ar_node_id :: NodeId
  ar_domain_id :: DomainId
  ar_vcluster_id :: "VClusterId option"
  ar_cert_pem :: string
  ar_ca_chain_pem :: string
  ar_cert_serial :: string
  ar_cert_expires_at :: string
  ar_key_pair_pem :: string

definition generate_keypair_and_csr :: "NodeEnv \<Rightarrow> AgentError + (bytes \<times> bytes)" where
  "generate_keypair_and_csr env = (case nv_generate_key env of
     Inl e \<Rightarrow> Inl (AgentMsg (''keypair generation failed: '' @ e))
   | Inr key \<Rightarrow> (case nv_csr_der env key of
       Inl e \<Rightarrow> Inl (AgentMsg (''CSR generation failed: '' @ e))
     | Inr der \<Rightarrow> Inr (key, der)))"

fun try_enrollment_endpoints :: "NodeEnv \<Rightarrow> TlsConfig \<Rightarrow> string list \<Rightarrow> AgentError + string" where
  "try_enrollment_endpoints env tls [] = Inl (AgentMsg ''no reachable enrollment endpoint'')"
| "try_enrollment_endpoints env tls (ep # eps) =
     (let uri = https_uri ep in
      case nv_from_shared env uri of
        Inl e \<Rightarrow> Inl (AgentMsg (''invalid endpoint: '' @ e))
      | Inr _ \<Rightarrow> (case nv_tls_config env tls of
          Inl e \<Rightarrow> Inl (AgentMsg (''TLS config error: '' @ e))
        | Inr _ \<Rightarrow>
            if nv_connect env uri (Some tls) then Inr uri
            else try_enrollment_endpoints env tls eps))"

definition connect_enrollment :: "NodeEnv \<Rightarrow> EnrollmentConfig \<Rightarrow> AgentError + string" where
  "connect_enrollment env cfg = (case nv_read_file env (ef_ca_cert cfg) of
     Inl e \<Rightarrow> Inl (AgentMsg (''cannot read CA cert '' @ ef_ca_cert cfg @ '': '' @ e))
   | Inr ca_pem \<Rightarrow>
       try_enrollment_endpoints env \<lparr>tls_ca_certificate = ca_pem, tls_identity = None\<rparr>
         (ef_journal_endpoints cfg))"

text \<open>The call to the journal changes its state and answers.\<close>

type_synonym 's enroll_call =
  "ProtoHardwareIdentity option \<Rightarrow> bytes \<Rightarrow> 's \<Rightarrow> 's \<times> (Status + EnrollResponse)"

definition agent_enroll ::
  "NodeEnv \<Rightarrow> EnrollmentConfig \<Rightarrow> 's enroll_call \<Rightarrow> 's \<Rightarrow> 's \<times> (AgentError + AgentEnrollment)" where
  "agent_enroll env cfg call s =
     (let hw = read_hardware_identity env in
      case generate_keypair_and_csr env of
        Inl e \<Rightarrow> (s, Inl e)
      | Inr (key, csr) \<Rightarrow> (case connect_enrollment env cfg of
          Inl e \<Rightarrow> (s, Inl e)
        | Inr channel \<Rightarrow> (case call (Some hw) csr s of
            (s', Inl st) \<Rightarrow> (s', Inl (AgentStatus st))
          | (s', Inr resp) \<Rightarrow>
              (s', Inr \<lparr>ar_node_id = er_node_id resp, ar_domain_id = er_domain_id resp,
                 ar_vcluster_id = (if er_vcluster_id resp = [] then None else Some (er_vcluster_id resp)),
                 ar_cert_pem = er_signed_cert resp, ar_ca_chain_pem = er_ca_chain resp,
                 ar_cert_serial = er_cert_serial resp, ar_cert_expires_at = er_cert_expires_at resp,
                 ar_key_pair_pem = nv_key_pem env key\<rparr>))))"

subsection \<open>Rotation of the certificate\<close>

record DualChannelManager =
  dc_cert_serial :: string
  dc_cert_expires_at :: string
  dc_renewal_before_expiry_seconds :: u32
  dc_journal_endpoints :: "string list"
  dc_ca_cert_pem :: string
  dc_key_pem :: string
  dc_cert_pem :: string

definition dual_channel_new ::
  "string \<Rightarrow> string \<Rightarrow> u32 \<Rightarrow> string list \<Rightarrow> string \<Rightarrow> string \<Rightarrow> string \<Rightarrow> DualChannelManager" where
  "dual_channel_new serial expires before endpoints ca key cert =
     \<lparr>dc_cert_serial = serial, dc_cert_expires_at = expires,
      dc_renewal_before_expiry_seconds = before, dc_journal_endpoints = endpoints,
      dc_ca_cert_pem = ca, dc_key_pem = key, dc_cert_pem = cert\<rparr>"

definition should_renew :: "(string \<Rightarrow> time option) \<Rightarrow> time \<Rightarrow> DualChannelManager \<Rightarrow> bool" where
  "should_renew parse_rfc3339 now m =
     (if dc_cert_expires_at m = [] then False
      else case parse_rfc3339 (dc_cert_expires_at m) of
        Some expires \<Rightarrow> num_seconds (expires - now) < uint (dc_renewal_before_expiry_seconds m)
      | None \<Rightarrow> False)"

fun connect_first :: "NodeEnv \<Rightarrow> TlsConfig option \<Rightarrow> string list \<Rightarrow> AgentError + string" where
  "connect_first env tls [] = Inl (AgentMsg ''no reachable endpoint'')"
| "connect_first env tls (ep # eps) =
     (let uri = https_uri ep in
      case nv_from_shared env uri of
        Inl e \<Rightarrow> Inl (AgentMsg (''invalid endpoint: '' @ e))
      | Inr _ \<Rightarrow> (case (case tls of None \<Rightarrow> Inr () | Some t \<Rightarrow> nv_tls_config env t) of
          Inl e \<Rightarrow> Inl (AgentMsg (''TLS config error: '' @ e))
        | Inr _ \<Rightarrow> if nv_connect env uri tls then Inr uri else connect_first env tls eps))"

definition mtls :: "DualChannelManager \<Rightarrow> string \<Rightarrow> string \<Rightarrow> TlsConfig" where
  "mtls m cert key = \<lparr>tls_ca_certificate = dc_ca_cert_pem m, tls_identity = Some (cert, key)\<rparr>"

definition renewal_header :: auth_header where
  "renewal_header = Some (Some ''Bearer renewal-token'')"

type_synonym 's renew_call =
  "auth_header \<Rightarrow> string \<Rightarrow> bytes \<Rightarrow> 's \<Rightarrow> 's \<times> (Status + RenewCertResponse)"

definition renew_swap ::
  "NodeEnv \<Rightarrow> bytes \<Rightarrow> RenewCertResponse \<Rightarrow> DualChannelManager \<Rightarrow> DualChannelManager \<times> (AgentError + unit)" where
  "renew_swap env new_key resp m = (case from_utf8 (rc_signed_cert resp) of
     None \<Rightarrow> (m, Inl (AgentMsg ''invalid cert PEM''))
   | Some new_cert_pem \<Rightarrow>
       (let new_key_pem = nv_key_pem env new_key in
        case connect_first env (Some (mtls m new_cert_pem new_key_pem)) (dc_journal_endpoints m) of
          Inl e \<Rightarrow> (m, Inl e)
        | Inr _ \<Rightarrow>
            (m\<lparr>dc_cert_serial := rc_cert_serial resp, dc_cert_expires_at := rc_cert_expires_at resp,
               dc_key_pem := new_key_pem, dc_cert_pem := new_cert_pem\<rparr>, Inr ())))"

definition renew ::
  "NodeEnv \<Rightarrow> 's renew_call \<Rightarrow> DualChannelManager \<times> 's \<Rightarrow> (DualChannelManager \<times> 's) \<times> (AgentError + unit)" where
  "renew env call ms = (case ms of (m, s) \<Rightarrow>
     (case generate_keypair_and_csr env of
        Inl e \<Rightarrow> ((m, s), Inl e)
      | Inr (new_key, csr_der) \<Rightarrow>
          (case connect_first env (Some (mtls m (dc_cert_pem m) (dc_key_pem m))) (dc_journal_endpoints m) of
             Inl e \<Rightarrow> ((m, s), Inl e)
           | Inr channel \<Rightarrow>
               (case call renewal_header (dc_cert_serial m) csr_der s of
                  (s', Inl st) \<Rightarrow> ((m, s'), Inl (AgentStatus st))
                | (s', Inr resp) \<Rightarrow>
                    (case renew_swap env new_key resp m of (m', r) \<Rightarrow> ((m', s'), r))))))"

text \<open>One tick of the renewal loop, every 60 seconds; a failure is only logged.\<close>

definition renewal_tick ::
  "(string \<Rightarrow> time option) \<Rightarrow> NodeEnv \<Rightarrow> 's renew_call \<Rightarrow> time \<Rightarrow> DualChannelManager \<times> 's \<Rightarrow>
   DualChannelManager \<times> 's" where
  "renewal_tick parse_rfc3339 env call now ms =
     (if should_renew parse_rfc3339 now (fst ms) then fst (renew env call ms) else ms)"

subsection \<open>The connection to the journal\<close>

record JournalConnectionConfig =
  jn_endpoints :: "string list"
  jn_tls_enabled :: bool
  jn_tls_cert :: "string option"
  jn_tls_key :: "string option"
  jn_tls_ca :: "string option"

definition read_pem :: "NodeEnv \<Rightarrow> string \<Rightarrow> string \<Rightarrow> string + string" where
  "read_pem env what path = (case nv_read_file env path of
     Inl e \<Rightarrow> Inl (''cannot read '' @ what @ '' '' @ path @ '': '' @ e) | Inr pem \<Rightarrow> Inr pem)"

definition load_tls_config :: "NodeEnv \<Rightarrow> JournalConnectionConfig \<Rightarrow> string + TlsConfig" where
  "load_tls_config env c = (case jn_tls_ca c of
     None \<Rightarrow> Inl ''tls_enabled=true but tls_ca path is not set''
   | Some ca_path \<Rightarrow> (case jn_tls_cert c of
       None \<Rightarrow> Inl ''tls_enabled=true but tls_cert path is not set''
     | Some cert_path \<Rightarrow> (case jn_tls_key c of
         None \<Rightarrow> Inl ''tls_enabled=true but tls_key path is not set''
       | Some key_path \<Rightarrow> (case read_pem env ''CA cert'' ca_path of
           Inl e \<Rightarrow> Inl e
         | Inr ca_pem \<Rightarrow> (case read_pem env ''client cert'' cert_path of
             Inl e \<Rightarrow> Inl e
           | Inr cert_pem \<Rightarrow> (case read_pem env ''client key'' key_path of
               Inl e \<Rightarrow> Inl e
             | Inr key_pem \<Rightarrow>
                 Inr \<lparr>tls_ca_certificate = ca_pem, tls_identity = Some (cert_pem, key_pem)\<rparr>))))))"

definition channel_uri :: "TlsConfig option \<Rightarrow> string \<Rightarrow> string" where
  "channel_uri tls endpoint =
     (if prefix ''http'' endpoint then endpoint
      else if tls \<noteq> None then ''https://'' @ endpoint else ''http://'' @ endpoint)"

fun try_channels :: "NodeEnv \<Rightarrow> TlsConfig option \<Rightarrow> string list \<Rightarrow> string list \<Rightarrow> string + string" where
  "try_channels env tls all [] =
     Inl (''no reachable journal endpoint (tried '' @ join_with '', '' all @ '')'')"
| "try_channels env tls all (ep # eps) =
     (let uri = channel_uri tls ep in
      case nv_from_shared env uri of
        Inl e \<Rightarrow> Inl (''invalid endpoint '' @ uri @ '': '' @ e)
      | Inr _ \<Rightarrow> (case (case tls of None \<Rightarrow> Inr () | Some t \<Rightarrow> nv_tls_config env t) of
          Inl e \<Rightarrow> Inl (''TLS config error for '' @ uri @ '': '' @ e)
        | Inr _ \<Rightarrow> if nv_connect env uri tls then Inr uri else try_channels env tls all eps))"

definition connect_channel :: "NodeEnv \<Rightarrow> string list \<Rightarrow> TlsConfig option \<Rightarrow> string + string" where
  "connect_channel env endpoints tls = try_channels env tls endpoints endpoints"

text \<open>The channel, by its address, that all clients of the agent share.\<close>

definition journal_connect :: "NodeEnv \<Rightarrow> JournalConnectionConfig \<Rightarrow> string + string" where
  "journal_connect env c =
     (case (if jn_tls_enabled c then map_sum id Some (load_tls_config env c) else Inr None) of
        Inl e \<Rightarrow> Inl e
      | Inr tls \<Rightarrow> connect_channel env (jn_endpoints c) tls)"

definition try_connect :: "NodeEnv \<Rightarrow> JournalConnectionConfig \<Rightarrow> string option" where
  "try_connect env c = (case journal_connect env c of Inr ch \<Rightarrow> Some ch | Inl e \<Rightarrow> None)"

subsection \<open>Lemmas\<close>

text \<open>
  The three searches for an endpoint return an address they could connect to with exactly the TLS
  settings given, the first in the configured order.
\<close>

lemma try_enrollment_endpoints_ok:
  "try_enrollment_endpoints env tls eps = Inr uri \<Longrightarrow>
   \<exists>pre ep post. eps = pre @ ep # post \<and> uri = https_uri ep \<and> nv_connect env uri (Some tls) \<and>
     (\<forall>q \<in> set pre. \<not> nv_connect env (https_uri q) (Some tls))"
proof (induction env tls eps rule: try_enrollment_endpoints.induct)
  case (2 env tls ep eps)
  show ?case
  proof (cases "nv_connect env (https_uri ep) (Some tls)")
    case True
    with 2 have "uri = https_uri ep"
      by (auto simp: Let_def split: sum.splits)
    with True show ?thesis
      by (metis append_Nil empty_iff list.set(1))
  next
    case False
    with 2 obtain pre q post where "eps = pre @ q # post" "uri = https_uri q" "nv_connect env uri (Some tls)"
      "\<forall>q \<in> set pre. \<not> nv_connect env (https_uri q) (Some tls)"
      by (auto simp: Let_def split: sum.splits)
    with False show ?thesis
      by (metis append_Cons set_ConsD)
  qed
qed simp

lemma connect_first_ok:
  "connect_first env tls eps = Inr uri \<Longrightarrow>
   \<exists>pre ep post. eps = pre @ ep # post \<and> uri = https_uri ep \<and> nv_connect env uri tls \<and>
     (\<forall>q \<in> set pre. \<not> nv_connect env (https_uri q) tls)"
proof (induction env tls eps rule: connect_first.induct)
  case (2 env tls ep eps)
  show ?case
  proof (cases "nv_connect env (https_uri ep) tls")
    case True
    with 2 have "uri = https_uri ep"
      by (auto simp: Let_def split: sum.splits option.splits)
    with True show ?thesis
      by (metis append_Nil empty_iff list.set(1))
  next
    case False
    with 2 obtain pre q post where "eps = pre @ q # post" "uri = https_uri q" "nv_connect env uri tls"
      "\<forall>q \<in> set pre. \<not> nv_connect env (https_uri q) tls"
      by (auto simp: Let_def split: sum.splits option.splits)
    with False show ?thesis
      by (metis append_Cons set_ConsD)
  qed
qed simp

lemma try_channels_ok:
  "try_channels env tls all eps = Inr uri \<Longrightarrow>
   \<exists>ep \<in> set eps. uri = channel_uri tls ep \<and> nv_connect env uri tls"
proof (induction env tls all eps rule: try_channels.induct)
  case (2 env tls all ep eps)
  then show ?case
    by (auto simp: Let_def split: sum.splits if_splits option.splits)
qed simp

lemma connect_channel_ok:
  "connect_channel env eps tls = Inr uri \<Longrightarrow>
   \<exists>ep \<in> set eps. uri = channel_uri tls ep \<and> nv_connect env uri tls"
  unfolding connect_channel_def by (rule try_channels_ok)

text \<open>With TLS enabled the agent never talks to the journal without its client certificate.\<close>

lemma load_tls_config_mtls: "load_tls_config env c = Inr tls \<Longrightarrow> tls_identity tls \<noteq> None"
  unfolding load_tls_config_def
  by (cases "jn_tls_ca c"; cases "jn_tls_cert c"; cases "jn_tls_key c") (auto split: sum.splits)

lemma journal_connect_mtls:
  assumes "journal_connect env c = Inr uri" "jn_tls_enabled c"
  shows "\<exists>tls. nv_connect env uri (Some tls) \<and> tls_identity tls \<noteq> None"
proof (cases "load_tls_config env c")
  case (Inl e)
  with assms show ?thesis
    by (simp add: journal_connect_def)
next
  case (Inr tls)
  with assms have "connect_channel env (jn_endpoints c) (Some tls) = Inr uri"
    by (simp add: journal_connect_def)
  then have "nv_connect env uri (Some tls)"
    by (blast dest: connect_channel_ok)
  with load_tls_config_mtls [OF Inr] show ?thesis
    by blast
qed

lemma renew_swap_cases:
  "renew_swap env key resp m = (m', r) \<Longrightarrow>
   (\<exists>e. r = Inl e \<and> m' = m) \<or>
   (r = Inr () \<and> m' = m\<lparr>dc_cert_serial := rc_cert_serial resp, dc_cert_expires_at := rc_cert_expires_at resp,
      dc_key_pem := nv_key_pem env key, dc_cert_pem := rc_signed_cert resp\<rparr>)"
  by (auto simp: renew_swap_def Let_def split: option.splits sum.splits dest: from_utf8_Some)

lemma renew_refused:
  assumes "\<And>serial csr. \<exists>st. call renewal_header serial csr s = (s, Inl st)"
  shows "fst (renew env call (m, s)) = (m, s) \<and> isl (snd (renew env call (m, s)))"
proof -
  obtain st where "call renewal_header (dc_cert_serial m) csr s = (s, Inl (st csr))" for csr
    using assms by metis
  then show ?thesis
    unfolding renew_def by (auto split: sum.split prod.split)
qed

lemma known_step:
  assumes "hm_contains (js_enrollments s) n"
  shows "hm_contains (js_enrollments (fst (apply_command x now c s))) n"
proof (cases "\<exists>e. c = RegisterNode e")
  case True
  with assms show ?thesis
    by (auto simp: register_node_def hm_contains_def Let_def split: option.split)
next
  case False
  then have "enrollment_update s (fst (apply_command x now c s))"
    using enrollment_update_command by blast
  with assms show ?thesis
    unfolding enrollment_update_def by (auto simp: hm_contains_def)
qed

lemma known_run:
  "hm_contains (js_enrollments s) n \<Longrightarrow> hm_contains (js_enrollments (run_commands x is s)) n"
  by (induction "is" arbitrary: s) (simp_all add: apply_item_def known_step)

lemma renew_cert_ok:
  assumes "journal_reachable x s" "raft_client x (ev_write ev 0)"
    and "svc_renew_cert ev h serial csr s = (s', Inr resp)"
  obtains n e cert pre t post where "hm_get (js_enrollments s) n = Some e" "ne_cert_serial e = Some serial"
    "ev_sign_csr ev csr n (ev_domain_id ev) = Inr cert"
    "rc_signed_cert resp = sc_cert_pem cert" "rc_cert_serial resp = sc_cert_serial cert"
    "rc_cert_expires_at resp = sc_cert_expires_at cert"
    "s' = run_commands x (pre @ (t, UpdateNodeCert n (sc_cert_serial cert) (sc_cert_expires_at cert)) # post) s"
proof -
  from assms(3) obtain e cert r where
    f: "find (\<lambda>e. ne_cert_serial e = Some serial) (hm_values (js_enrollments s)) = Some e"
    and cert: "ev_sign_csr ev csr (ne_node_id e) (ev_domain_id ev) = Inr cert"
    and w: "ev_write ev 0 (UpdateNodeCert (ne_node_id e) (sc_cert_serial cert) (sc_cert_expires_at cert)) s =
      (s', Inr r)"
    and resp: "rc_signed_cert resp = sc_cert_pem cert" "rc_cert_serial resp = sc_cert_serial cert"
      "rc_cert_expires_at resp = sc_cert_expires_at cert"
    by (auto simp: svc_renew_cert_def Let_def split: sum.splits option.splits prod.splits)
  from f have e: "e \<in> set (hm_values (js_enrollments s))" "ne_cert_serial e = Some serial"
    by (auto simp: find_Some_iff)
  have "enroll_inv s"
    using assms(1) by (rule reachable_enroll_inv)
  then have "hm_get (js_enrollments s) (ne_node_id e) = Some e"
    using e(1) by (auto simp: enroll_inv_def hm_values_iff)
  with raft_client.write_ok [OF assms(2) w] show ?thesis
    using that e(2) cert resp by blast
qed

text \<open>What the journal records of the certificate. A node once registered stays in the table.\<close>

lemma enrolled_step:
  assumes "hm_get (js_enrollments s) n \<noteq> None"
  shows "hm_get (js_enrollments (fst (apply_command x now c s))) n \<noteq> None"
proof (cases "\<exists>e. c = RegisterNode e")
  case True
  then show ?thesis
    using assms by (auto simp: register_node_def Let_def split: option.splits)
next
  case False
  then show ?thesis
    using enrollment_update_command [of c s x now] assms by (auto simp: enrollment_update_def)
qed

lemma enrolled_run:
  "hm_get (js_enrollments s) n \<noteq> None \<Longrightarrow> hm_get (js_enrollments (run_commands x is s)) n \<noteq> None"
proof (induction "is" arbitrary: s)
  case (Cons i "is")
  then show ?case
    using enrolled_step [OF Cons.prems, of x "fst i" "snd i"] by (simp add: run_commands_def apply_item_def)
qed (simp add: run_commands_def)

lemma update_cert_recorded:
  assumes "hm_get (js_enrollments s) n \<noteq> None"
  shows "\<exists>e. hm_get (js_enrollments (fst (apply_command x t (UpdateNodeCert n serial expires) s))) n = Some e \<and>
    ne_cert_serial e = Some serial \<and> ne_cert_expires_at e = ext_parse_rfc3339 x expires"
  using assms by (auto simp: update_node_cert_def with_enrollment_def put_enrollment_def)

lemma enroll_cert_recorded:
  assumes "\<forall>k. raft_client x (ev_write ev k)"
    and "enroll ev acquired (Some h) csr s = (s', Inr resp)"
    and "snd (ev_write ev 1 (UpdateNodeCert (er_node_id resp) (er_cert_serial resp) (er_cert_expires_at resp))
      (fst (ev_write ev 0 (activate_command ev (er_node_id resp)) s))) = Inr answer"
  shows "\<exists>pre t post e.
    s' = run_commands x (pre @ (t, UpdateNodeCert (er_node_id resp) (er_cert_serial resp) (er_cert_expires_at resp)) # post) s \<and>
    hm_get (js_enrollments (run_commands x (pre @
      [(t, UpdateNodeCert (er_node_id resp) (er_cert_serial resp) (er_cert_expires_at resp))]) s)) (er_node_id resp) = Some e \<and>
    ne_cert_serial e = Some (er_cert_serial resp) \<and>
    ne_cert_expires_at e = ext_parse_rfc3339 x (er_cert_expires_at resp)"
proof -
  define n where "n = er_node_id resp"
  define cmd where "cmd = UpdateNodeCert n (er_cert_serial resp) (er_cert_expires_at resp)"
  obtain n' s1 m st vc where "hm_get (js_hw_index s) (hw_canonical_key (proto_hw_to_domain h)) = Some n'"
    and w0: "ev_write ev 0 (activate_command ev n) s = (s1, Inr (EnrollmentResult m st vc))"
    and s': "s' = fst (enroll_activated ev csr n vc s1)"
    using assms(2) unfolding n_def by (rule enroll_ok) auto
  obtain pre0 t0 post0 where s1: "s1 = run_commands x (pre0 @ (t0, activate_command ev n) # post0) s"
    and r0: "EnrollmentResult m st vc = snd (apply_command x t0 (activate_command ev n) (run_commands x pre0 s))"
    using raft_client.write_ok [of x "ev_write ev 0"] w0 assms(1) by blast
  have "hm_get (js_enrollments (run_commands x pre0 s)) n \<noteq> None"
    using activate_result [of "ext_parse_rfc3339 x" t0 n "ev_uuid ev 0"
      "ev_to_rfc3339 ev (ev_now ev + seconds (3 * 86400))" "run_commands x pre0 s" m st vc] r0
    unfolding activate_command_def by auto
  then have known: "hm_get (js_enrollments s1) n \<noteq> None"
    unfolding s1 run_commands_append by (rule enrolled_run)
  obtain s2 where w1: "ev_write ev 1 cmd s1 = (s2, Inr answer)"
    using assms(3) w0 unfolding cmd_def n_def by (metis fst_conv prod.collapse)
  obtain pre1 t1 post1 where s2: "s2 = run_commands x (pre1 @ (t1, cmd) # post1) s1"
    using raft_client.write_ok [of x "ev_write ev 1"] w1 assms(1) by blast
  have "fst (enroll_activated ev csr n vc s1) = audit_enrollment ev 2 NodeEnroll n
      (''SUCCESS: node activated, cert_serial='' @ er_cert_serial resp) s2"
    using enroll_certificate [OF assms(2)] w1 unfolding n_def [symmetric]
    by (auto simp: enroll_activated_def Let_def cmd_def)
  moreover obtain tail where "audit_enrollment ev 2 NodeEnroll n
      (''SUCCESS: node activated, cert_serial='' @ er_cert_serial resp) s2 = run_commands x tail s2"
    using audit_enrollment_run [of x ev 2] assms(1) by blast
  ultimately have run: "s' = run_commands x
      ((pre0 @ (t0, activate_command ev n) # post0 @ pre1) @ (t1, cmd) # (post1 @ tail)) s"
    by (simp add: s' s2 s1 run_commands_append)
  define pre where "pre = pre0 @ (t0, activate_command ev n) # post0 @ pre1"
  have before: "hm_get (js_enrollments (run_commands x pre s)) n \<noteq> None"
    using enrolled_run [OF known, of x pre1] by (simp add: s1 pre_def run_commands_append)
  have "run_commands x (pre @ [(t1, cmd)]) s = fst (apply_command x t1 cmd (run_commands x pre s))"
    by (simp add: run_commands_append) (simp add: run_commands_def apply_item_def)
  then obtain e where "hm_get (js_enrollments (run_commands x (pre @ [(t1, cmd)]) s)) n = Some e"
    "ne_cert_serial e = Some (er_cert_serial resp)" "ne_cert_expires_at e = ext_parse_rfc3339 x (er_cert_expires_at resp)"
    using update_cert_recorded [OF before, of x t1 "er_cert_serial resp" "er_cert_expires_at resp"]
    unfolding cmd_def by auto
  with run [folded pre_def] show ?thesis
    unfolding n_def [symmetric] cmd_def [symmetric] by blast
qed

subsection \<open>Properties\<close>

text \<open>
  C20. A successful enrollment gives the agent a matching identity: the node it is told to be is
  the one registered for its own hardware, which the journal activated on the way; the
  certificate is the authority's signature over the request made from the very key the agent
  keeps, for that node; and its vCluster is the one assigned to the node, none if there is none.
  The activation records a placeholder for the serial number; the serial number and expiry of
  the certificate the agent has are recorded for the node by a second write, if that one is
  accepted. The handler does not look at its outcome: the agent gets its certificate in either
  case.
\<close>

theorem agent_enrollment_end_to_end:
  assumes "\<forall>k. raft_client x (ev_write ev k)"
    and "agent_enroll env cfg (enroll ev acquired) s = (s', Inr r)"
  shows "hm_get (js_hw_index s) (hw_canonical_key (proto_hw_to_domain (read_hardware_identity env))) =
      Some (ar_node_id r) \<and>
    (\<exists>key csr cert. nv_generate_key env = Inr key \<and> nv_csr_der env key = Inr csr \<and>
      ev_sign_csr ev csr (ar_node_id r) (ev_domain_id ev) = Inr cert \<and>
      ar_cert_pem r = sc_cert_pem cert \<and> ar_cert_serial r = sc_cert_serial cert \<and>
      ar_cert_expires_at r = sc_cert_expires_at cert \<and> ar_key_pair_pem r = nv_key_pem env key) \<and>
    (\<exists>pre t post e vc. s' = run_commands x (pre @ (t, activate_command ev (ar_node_id r)) # post) s \<and>
      snd (apply_command x t (activate_command ev (ar_node_id r)) (run_commands x pre s)) =
        EnrollmentResult (ar_node_id r) Active vc \<and>
      hm_get (js_enrollments (run_commands x pre s)) (ar_node_id r) = Some e \<and>
      ne_state e \<in> {Registered, Inactive} \<and>
      ar_vcluster_id r = (if ne_vcluster_id e = Some [] then None else ne_vcluster_id e)) \<and>
    (\<forall>answer. snd (ev_write ev 1 (UpdateNodeCert (ar_node_id r) (ar_cert_serial r) (ar_cert_expires_at r))
        (fst (ev_write ev 0 (activate_command ev (ar_node_id r)) s))) = Inr answer \<longrightarrow>
      (\<exists>pre t post e. s' = run_commands x (pre @
          (t, UpdateNodeCert (ar_node_id r) (ar_cert_serial r) (ar_cert_expires_at r)) # post) s \<and>
        hm_get (js_enrollments (run_commands x (pre @
          [(t, UpdateNodeCert (ar_node_id r) (ar_cert_serial r) (ar_cert_expires_at r))]) s)) (ar_node_id r) = Some e \<and>
        ne_cert_serial e = Some (ar_cert_serial r) \<and>
        ne_cert_expires_at e = ext_parse_rfc3339 x (ar_cert_expires_at r)))"
proof -
  let ?hw = "read_hardware_identity env"
  obtain key csr resp where k: "nv_generate_key env = Inr key" "nv_csr_der env key = Inr csr"
    and e: "enroll ev acquired (Some ?hw) csr s = (s', Inr resp)"
    and r: "ar_node_id r = er_node_id resp" "ar_cert_pem r = er_signed_cert resp"
      "ar_cert_serial r = er_cert_serial resp" "ar_key_pair_pem r = nv_key_pem env key"
      "ar_vcluster_id r = (if er_vcluster_id resp = [] then None else Some (er_vcluster_id resp))"
      "ar_cert_expires_at r = er_cert_expires_at resp"
    using assms(2)
    by (auto simp: agent_enroll_def generate_keypair_and_csr_def Let_def
        split: sum.splits prod.splits if_splits)
  have vc: "ar_vcluster_id r = (if v = Some [] then None else v)" if "er_vcluster_id resp = or_empty v" for v
    using that by (simp add: r or_empty_def split: option.splits)
  from enroll_certificate [OF e] k have cert: "\<exists>key csr cert. nv_generate_key env = Inr key \<and>
      nv_csr_der env key = Inr csr \<and> ev_sign_csr ev csr (ar_node_id r) (ev_domain_id ev) = Inr cert \<and>
      ar_cert_pem r = sc_cert_pem cert \<and> ar_cert_serial r = sc_cert_serial cert \<and>
      ar_cert_expires_at r = sc_cert_expires_at cert \<and> ar_key_pair_pem r = nv_key_pem env key"
    unfolding r by blast
  note activated = enroll_accepted [OF assms(1) e]
  show ?thesis
  proof (intro conjI)
    show "hm_get (js_hw_index s) (hw_canonical_key (proto_hw_to_domain ?hw)) = Some (ar_node_id r)"
      using activated unfolding r(1) by blast
    show "\<exists>pre t post e vc. s' = run_commands x (pre @ (t, activate_command ev (ar_node_id r)) # post) s \<and>
      snd (apply_command x t (activate_command ev (ar_node_id r)) (run_commands x pre s)) =
        EnrollmentResult (ar_node_id r) Active vc \<and>
      hm_get (js_enrollments (run_commands x pre s)) (ar_node_id r) = Some e \<and>
      ne_state e \<in> {Registered, Inactive} \<and>
      ar_vcluster_id r = (if ne_vcluster_id e = Some [] then None else ne_vcluster_id e)"
      using activated vc unfolding r(1) by blast
  qed (use cert enroll_cert_recorded [OF assms(1) e] r in \<open>auto\<close>)
qed

text \<open>
  A second write that fails: the journal keeps the placeholder of the activation as the serial
  number of the node, and the agent has a certificate with another one, for which a renewal finds
  no node.
\<close>

lemma failed_record_keeps_placeholder:
  assumes "hm_get (js_hw_index s) (hw_canonical_key (proto_hw_to_domain h)) = Some n"
    and "hm_get (js_enrollments s) n = Some e" "ne_state e = Registered"
    and "ev_write ev 0 = (\<lambda>c s. map_prod id Inr (apply_command x t c s))"
    and "ev_write ev 1 = (\<lambda>c s. (s, Inl err))" "ev_write ev 2 = (\<lambda>c s. (s, Inl err))"
    and "ev_sign_csr ev csr n (ev_domain_id ev) = Inr cert"
  shows "\<exists>s' resp e'. enroll ev True (Some h) csr s = (s', Inr resp) \<and> er_cert_serial resp = sc_cert_serial cert \<and>
    hm_get (js_enrollments s') n = Some e' \<and> ne_cert_serial e' = Some (ev_uuid ev 0)"
  using assms
  by (simp add: enroll_def enroll_known_def activate_command_def activate_node_def with_enrollment_def
      put_enrollment_def enroll_activated_def audit_enrollment_def Let_def)

definition sample_node_env :: NodeEnv where
  "sample_node_env = \<lparr>nv_read_file = (\<lambda>p. if p = ''/sys/class/net/eth0/address'' then Inr ''AA''
       else if p = ''/ca'' then Inr ''CA'' else Inl ''not found''),
     nv_net_dir = Inr [Inr ''lo'', Inr ''eth0''], nv_generate_key = Inr [7], nv_csr_der = (\<lambda>k. Inr (k @ [1])),
     nv_key_pem = (\<lambda>k. ''KEY''), nv_from_shared = (\<lambda>u. Inr ()), nv_tls_config = (\<lambda>t. Inr ()),
     nv_connect = (\<lambda>u t. u = ''https://j2:9443'')\<rparr>"

definition sample_enrollment_config :: EnrollmentConfig where
  "sample_enrollment_config = \<lparr>ef_journal_endpoints = [''j1:9443'', ''j2:9443''], ef_ca_cert = ''/ca'',
     ef_cert_dir = ''/certs'', ef_renewal_before_expiry_seconds = 43200\<rparr>"

theorem agent_enrollment_end_to_end_witness:
  "\<exists>s' r. agent_enroll sample_node_env sample_enrollment_config (enroll sample_env True) sample_enrolled =
     (s', Inr r) \<and> ar_node_id r = ''n1'' \<and> ar_vcluster_id r = None"
proof -
  have hw: "read_hardware_identity sample_node_env =
      \<lparr>phw_mac_address = ''AA'', phw_bmc_serial = [], phw_extra = []\<rparr>"
    by code_simp
  have key: "hw_canonical_key (proto_hw_to_domain
      \<lparr>phw_mac_address = ''AA'', phw_bmc_serial = [], phw_extra = []\<rparr>) = ''mac:aa''"
    by code_simp
  have channel: "connect_enrollment sample_node_env sample_enrollment_config = Inr ''https://j2:9443''"
    by code_simp
  have gen: "generate_keypair_and_csr sample_node_env = Inr ([7], [7, 1])"
    by code_simp
  obtain s' r where e: "agent_enroll sample_node_env sample_enrollment_config (enroll sample_env True)
      sample_enrolled = (s', Inr r)" and v: "ar_vcluster_id r = None"
    by (simp add: agent_enroll_def hw channel gen enroll_def key sample_enrolled_def hm_get_def
        enroll_known_def sample_node_def sample_env_def interleaved_write_def activate_command_def
        activate_node_def with_enrollment_def put_enrollment_def enroll_activated_def Let_def
        or_empty_def)
  have "\<forall>k. raft_client sample_ext (ev_write sample_env k)"
    by (simp add: sample_env_def interleaved.raft_client_axioms)
  from agent_enrollment_end_to_end [OF this e, THEN conjunct1]
  have "ar_node_id r = ''n1''"
    by (simp add: hw key sample_enrolled_def hm_get_def)
  with e v show ?thesis
    by blast
qed

text \<open>
  The journal's validator as the enrollment service calls it: the error as it is printed.
\<close>

definition iam_validator ::
  "IamClaims Jwt \<Rightarrow> Http \<Rightarrow> time \<Rightarrow> JwksTokenValidator \<Rightarrow> string \<Rightarrow> string + Identity" where
  "iam_validator jwt http now v token = map_sum show_IamError id (snd (validate_impl jwt http now token v))"

lemma renewal_token_refused:
  assumes "jwt_structured jwt" "ev_validate ev = iam_validator jwt http now v"
  shows "\<exists>st. svc_renew_cert ev renewal_header serial csr s = (s, Inl st)"
proof -
  have "\<exists>e. ev_validate ev ''renewal-token'' = Inl e"
    using unstructured_refused [OF assms(1), of "''renewal-token''" http now v] assms(2)
    by (auto simp: iam_validator_def)
  then show ?thesis
    by (auto simp: svc_renew_cert_def authenticate_def extract_token_def renewal_header_def
        strip_prefix_def validate_token_str_def)
qed

text \<open>
  C36. The certificate of an agent is never renewed. The renewal call carries a fixed string in
  place of a token, which no validator of the journal accepts (of the decoders this uses that a
  token has three parts): every tick of the renewal loop, whenever it runs, whatever the network
  and the journal do, leaves the agent's certificate and the journal as they were, so that a
  certificate that is due stays due until it expires.
\<close>

theorem certificate_never_renewed:
  assumes "jwt_structured jwt"
    and "\<forall>(now, env, ev) \<in> set ticks. \<exists>http t v. ev_validate ev = iam_validator jwt http t v"
  shows "fold (\<lambda>(now, env, ev). renewal_tick parse_rfc3339 env (svc_renew_cert ev) now) ticks (m, s) = (m, s)"
  using assms(2)
proof (induction ticks)
  case (Cons tick ticks)
  obtain now env ev where t: "tick = (now, env, ev)"
    by (cases tick)
  with Cons.prems obtain http t v where "ev_validate ev = iam_validator jwt http t v"
    by auto
  then have "fst (renew env (svc_renew_cert ev) (m, s)) = (m, s)"
    by (intro conjunct1 [OF renew_refused] renewal_token_refused [OF assms(1)])
  then have "renewal_tick parse_rfc3339 env (svc_renew_cert ev) now (m, s) = (m, s)"
    by (simp add: renewal_tick_def)
  with Cons t show ?case
    by simp
qed simp

text \<open>A decoder that accepts every well-formed string.\<close>

definition lax_jwt :: "IamClaims Jwt" where
  "lax_jwt = (let claims = \<lparr>ic_sub = ''agent'', ic_aud = ClaimNone, ic_iss = [], ic_exp = 0, ic_iat = 0,
       ic_pact_role = None, ic_pact_principal_type = Some ''agent'', ic_groups = []\<rparr>;
     check = (\<lambda>t v. if length (filter (\<lambda>c. c = CHR ''.'') t) = 2 then Inr v else Inl ''InvalidToken'') in
     \<lparr>jwt_decode_hs256 = (\<lambda>t _ _ _. map_sum (Pair OtherJwtError) id (check t claims)),
      jwt_decode_rs256 = (\<lambda>t _ _ _. map_sum (Pair OtherJwtError) id (check t claims)),
      jwt_rsa_components = (\<lambda>n e. Inr (n, e)),
      jwt_decode_header = (\<lambda>t. if length (filter (\<lambda>c. c = CHR ''.'') t) = 2 then Inr None else Inl ''InvalidToken'')\<rparr>)"

theorem certificate_never_renewed_witness:
  "let v = jwks_validator_new \<lparr>oi_issuer = ''https://idp'', oi_audience = ''pact-journal'',
         oi_hmac_secret = Some [1]\<rparr> None;
       http = \<lparr>http_build = Inr (), http_get = (\<lambda>u. Inl ''unreachable''), http_json = (\<lambda>b. Inl ''json'')\<rparr>;
       ev = sample_env\<lparr>ev_validate := iam_validator lax_jwt http 0 v\<rparr>;
       m = dual_channel_new ''serial-1'' ''2026'' 43200 [''j2:9443''] ''CA'' ''KEY'' ''CERT'' in
   should_renew (\<lambda>_. Some 0) 0 m \<and> \<not> isl (iam_validator lax_jwt http 0 v ''a.b.c'') \<and>
   fold (\<lambda>(now, env, ev). renewal_tick (\<lambda>_. Some 0) env (svc_renew_cert ev) now)
     [(0, sample_node_env, ev), (60, sample_node_env, ev)] (m, sample_enrolled) = (m, sample_enrolled)"
proof -
  have "jwt_structured lax_jwt"
    by (simp add: jwt_structured_def lax_jwt_def Let_def)
  note never = certificate_never_renewed [OF this]
  show ?thesis
    unfolding Let_def
    by (intro conjI never) (code_simp, simp add: iam_validator_def validate_impl_def validate_sync_def
        lax_jwt_def jwks_validator_new_def Let_def, auto)
qed

text \<open>
  Were the call authorised, rotation would be sound: an attempt either changes nothing in the
  agent, or leaves it with the new key, the certificate signed for the request made from that
  key, and the serial that the journal recorded for the node that held the old one.
\<close>

lemma renewal_sound:
  assumes "journal_reachable x s" "raft_client x (ev_write ev 0)"
    and "renew env (svc_renew_cert ev) (m, s) = ((m', s'), r)"
  shows "isl r \<and> m' = m \<or>
    (\<exists>key csr n e cert pre t post. nv_generate_key env = Inr key \<and> nv_csr_der env key = Inr csr \<and>
       hm_get (js_enrollments s) n = Some e \<and> ne_cert_serial e = Some (dc_cert_serial m) \<and>
       ev_sign_csr ev csr n (ev_domain_id ev) = Inr cert \<and>
       dc_key_pem m' = nv_key_pem env key \<and> dc_cert_pem m' = sc_cert_pem cert \<and>
       dc_cert_serial m' = sc_cert_serial cert \<and> dc_cert_expires_at m' = sc_cert_expires_at cert \<and>
       s' = run_commands x (pre @ (t, UpdateNodeCert n (dc_cert_serial m') (dc_cert_expires_at m')) # post) s \<and>
       (\<exists>e'. hm_get (js_enrollments (run_commands x (pre @
           [(t, UpdateNodeCert n (dc_cert_serial m') (dc_cert_expires_at m'))]) s)) n = Some e' \<and>
         ne_cert_serial e' = Some (dc_cert_serial m')))"
proof (cases r)
  case (Inl e)
  with assms(3) show ?thesis
    by (auto simp: renew_def split: sum.splits prod.splits dest: renew_swap_cases)
next
  case (Inr u)
  with assms(3) obtain key csr resp where k: "nv_generate_key env = Inr key" "nv_csr_der env key = Inr csr"
    and c: "svc_renew_cert ev renewal_header (dc_cert_serial m) csr s = (s', Inr resp)"
    and sw: "renew_swap env key resp m = (m', Inr ())"
    by (auto simp: renew_def generate_keypair_and_csr_def split: sum.splits prod.splits)
  from renew_swap_cases [OF sw] have m': "dc_key_pem m' = nv_key_pem env key"
    "dc_cert_pem m' = rc_signed_cert resp" "dc_cert_serial m' = rc_cert_serial resp"
    "dc_cert_expires_at m' = rc_cert_expires_at resp"
    by auto
  obtain n e cert pre t post where n: "hm_get (js_enrollments s) n = Some e"
      "ne_cert_serial e = Some (dc_cert_serial m)" "ev_sign_csr ev csr n (ev_domain_id ev) = Inr cert"
      "rc_signed_cert resp = sc_cert_pem cert" "rc_cert_serial resp = sc_cert_serial cert"
      "rc_cert_expires_at resp = sc_cert_expires_at cert"
      "s' = run_commands x (pre @ (t, UpdateNodeCert n (sc_cert_serial cert) (sc_cert_expires_at cert)) # post) s"
    by (rule renew_cert_ok [OF assms(1,2) c])
  have "hm_contains (js_enrollments (run_commands x pre s)) n"
    using n(1) by (intro known_run) (simp add: hm_contains_def)
  then have "\<exists>e'. hm_get (js_enrollments (run_commands x (pre @ [(t, UpdateNodeCert n (sc_cert_serial cert)
      (sc_cert_expires_at cert))]) s)) n = Some e' \<and> ne_cert_serial e' = Some (sc_cert_serial cert)"
    by (auto simp: run_commands_append apply_item_def update_node_cert_def with_enrollment_def
        put_enrollment_def hm_contains_def)
  moreover have "dc_cert_pem m' = sc_cert_pem cert" "dc_cert_serial m' = sc_cert_serial cert"
    "dc_cert_expires_at m' = sc_cert_expires_at cert"
    by (simp_all add: m' n)
  ultimately show ?thesis
    using k n(1-3,7) m'(1) by (intro disjI2) metis
qed

text \<open>
  The journal records the new serial before the agent has tried it. If the new certificate does
  not get a connection, the agent keeps the old one, whose serial the journal no longer knows:
  further attempts are answered with \<open>NotFound\<close>.
\<close>

definition active_node :: JournalState where
  "active_node = default_state\<lparr>js_enrollments := [(''n1'', (sample_node ''n1'' ''aa'')
     \<lparr>ne_state := Active, ne_cert_serial := Some ''serial-0''\<rparr>)]\<rparr>"

definition passive_fails :: NodeEnv where
  "passive_fails = sample_node_env\<lparr>nv_connect := (\<lambda>u t. case t of
     Some c \<Rightarrow> tls_identity c = Some (''CERT'', ''OLD'') | None \<Rightarrow> False)\<rparr>"

lemma renewal_desync:
  fixes m :: DualChannelManager and ev :: EnrollEnv
  defines "ev \<equiv> sample_env\<lparr>ev_validate := (\<lambda>t. Inr ops_alice)\<rparr>"
    and "m \<equiv> dual_channel_new ''serial-0'' ''2026'' 43200 [''j2:9443''] ''CA'' ''OLD'' ''CERT''"
  shows "\<exists>s'. renew passive_fails (svc_renew_cert ev) (m, active_node) =
      ((m, s'), Inl (AgentMsg ''no reachable endpoint'')) \<and>
    snd (svc_renew_cert ev renewal_header (dc_cert_serial m) csr s') =
      Inl (Status NotFound ''no enrollment for this certificate serial'')"
proof -
  have gen: "generate_keypair_and_csr passive_fails = Inr ([7], [7, 1])"
    by code_simp
  have active: "connect_first passive_fails (Some (mtls m (dc_cert_pem m) (dc_key_pem m))) (dc_journal_endpoints m) =
      Inr ''https://j2:9443''"
    unfolding m_def by code_simp
  have swap: "renew_swap passive_fails [7] \<lparr>rc_signed_cert = ''PEM'', rc_ca_chain = ''CA'',
      rc_cert_serial = ''serial-1'', rc_cert_expires_at = ''2026''\<rparr> m = (m, Inl (AgentMsg ''no reachable endpoint''))"
    unfolding m_def by code_simp
  have auth: "authenticate ev renewal_header = Inr ops_alice"
    by (simp add: authenticate_def extract_token_def strip_prefix_def validate_token_str_def ev_def renewal_header_def)
  have serial: "dc_cert_serial m = ''serial-0''"
    by (simp add: m_def dual_channel_new_def)
  have ev: "ev_write ev k = interleaved_write sample_ext [] 7 []"
    "ev_sign_csr ev c n d = Inr \<lparr>sc_cert_pem = ''PEM'', sc_ca_chain_pem = ''CA'', sc_cert_serial = ''serial-1'',
      sc_cert_expires_at = ''2026''\<rparr>" for k c n d
    by (simp_all add: ev_def sample_env_def)
  show ?thesis
    using swap
    by (simp add: renew_def gen active svc_renew_cert_def auth serial active_node_def hm_values_def sample_node_def
        ev Let_def interleaved_write_def apply_item_def update_node_cert_def with_enrollment_def
        put_enrollment_def hm_get_def hm_insert_def)
qed

text \<open>The service neither compares the caller with the node nor looks at the state of the node.\<close>

lemma revoked_node_renews:
  "snd (svc_renew_cert (sample_env\<lparr>ev_validate := (\<lambda>t. Inr ops_alice)\<rparr>) (Some (Some ''Bearer t'')) ''serial-0'' csr
     (default_state\<lparr>js_enrollments := [(''n1'', (sample_node ''n1'' ''aa'')
        \<lparr>ne_state := Revoked, ne_cert_serial := Some ''serial-0''\<rparr>)]\<rparr>)) =
   Inr \<lparr>rc_signed_cert = ''PEM'', rc_ca_chain = ''CA'', rc_cert_serial = ''serial-1'', rc_cert_expires_at = ''2026''\<rparr>"
  by (simp add: svc_renew_cert_def authenticate_def extract_token_def strip_prefix_def
      validate_token_str_def sample_env_def interleaved_write_def hm_values_def sample_node_def)

end
