(* ===== verification/Handoff.thy ===== *)
theory Handoff
  imports Rust_Parse
begin

text \<open>
  Workload integration of the agent, \<open>crates/pact-agent/src/handoff\<close>: the reference counts of
  shared image mounts (\<open>mounts.rs\<close>) and the provider of namespaces for allocations (\<open>mod.rs\<close>).
  The clock is an argument; a failing assertion is the value \<open>None\<close>; the kinds of namespace and
  the mount directory belong to the crate hpc-node and are parameters.
\<close>

subsection \<open>Mount references\<close>

record MountRefState =
  mt_image_path :: string
  mt_mount_point :: string
  mt_refcount :: u32
  mt_hold_start :: "time option"

record MountRefManager =
  mr_mounts :: "(string, MountRefState) hashmap"
  mr_hold_duration :: time
  mr_mount_base :: string

definition mounts_new :: "string \<Rightarrow> u64 \<Rightarrow> MountRefManager" where
  "mounts_new base hold_secs =
     \<lparr>mr_mounts = [], mr_hold_duration = seconds (uint hold_secs), mr_mount_base = base\<rparr>"

definition mount_point_of :: "MountRefManager \<Rightarrow> string \<Rightarrow> string" where
  "mount_point_of m img = mr_mount_base m @ ''/'' @ replace_str ''.sqfs'' [] (last_segment img)"

definition acquire :: "string \<Rightarrow> MountRefManager \<Rightarrow> MountRefManager \<times> string" where
  "acquire img m = (case hm_get (mr_mounts m) img of
     Some st \<Rightarrow>
       (m\<lparr>mr_mounts := hm_insert img (st\<lparr>mt_refcount := mt_refcount st + 1, mt_hold_start := None\<rparr>)
            (mr_mounts m)\<rparr>, mt_mount_point st)
   | None \<Rightarrow>
       (m\<lparr>mr_mounts := hm_insert img \<lparr>mt_image_path = img, mt_mount_point = mount_point_of m img,
            mt_refcount = 1, mt_hold_start = None\<rparr> (mr_mounts m)\<rparr>, mount_point_of m img))"

definition release :: "time \<Rightarrow> string \<Rightarrow> MountRefManager \<Rightarrow> MountRefManager option" where
  "release now img m = (case hm_get (mr_mounts m) img of
     None \<Rightarrow> Some m
   | Some st \<Rightarrow>
       if \<not> 0 < mt_refcount st then None
       else Some (m\<lparr>mr_mounts := hm_insert img (st\<lparr>mt_refcount := mt_refcount st - 1,
              mt_hold_start := (if mt_refcount st - 1 = 0 then Some now else mt_hold_start st)\<rparr>)
            (mr_mounts m)\<rparr>))"

definition force_unmount :: "string \<Rightarrow> MountRefManager \<Rightarrow> MountRefManager" where
  "force_unmount img m = m\<lparr>mr_mounts := hm_remove img (mr_mounts m)\<rparr>"

definition hold_expired :: "time \<Rightarrow> MountRefManager \<Rightarrow> MountRefState \<Rightarrow> bool" where
  "hold_expired now m st \<longleftrightarrow> mt_refcount st = 0 \<and>
     (case mt_hold_start st of Some t \<Rightarrow> mr_hold_duration m \<le> now - t | None \<Rightarrow> False)"

definition check_expired_holds :: "time \<Rightarrow> MountRefManager \<Rightarrow> MountRefManager \<times> string list" where
  "check_expired_holds now m =
     (let expired = map fst (filter (\<lambda>(path, st). hold_expired now m st) (mr_mounts m))
      in (m\<lparr>mr_mounts := fold hm_remove expired (mr_mounts m)\<rparr>, expired))"

definition reconstruct_one :: "time \<Rightarrow> string \<times> u32 \<Rightarrow> MountRefManager \<Rightarrow> MountRefManager" where
  "reconstruct_one now p m = (case p of (img, count) \<Rightarrow>
     m\<lparr>mr_mounts := hm_insert img \<lparr>mt_image_path = img, mt_mount_point = mount_point_of m img,
         mt_refcount = count, mt_hold_start = (if count = 0 then Some now else None)\<rparr> (mr_mounts m)\<rparr>)"

definition reconstruct :: "time \<Rightarrow> (string \<times> u32) list \<Rightarrow> MountRefManager \<Rightarrow> MountRefManager" where
  "reconstruct now active m = fold (reconstruct_one now) active m"

definition mount_states :: "MountRefManager \<Rightarrow> MountRefState list" where
  "mount_states m = hm_values (mr_mounts m)"

definition mount_refcount :: "MountRefManager \<Rightarrow> string \<Rightarrow> u32 option" where
  "mount_refcount m img = map_option mt_refcount (hm_get (mr_mounts m) img)"

definition mount_count :: "MountRefManager \<Rightarrow> nat" where
  "mount_count m = length (mr_mounts m)"

subsection \<open>Namespaces\<close>

record 'ns AllocationNamespaces =
  an_allocation_id :: string
  an_types :: "'ns list"
  an_uenv_image :: "string option"

record 'ns NamespaceResponse =
  nr_allocation_id :: string
  nr_fd_types :: "'ns list"
  nr_uenv_mount_path :: "string option"

datatype NamespaceError = SocketUnavailable string

record 'ns HandoffServer =
  hs_allocations :: "(string, 'ns AllocationNamespaces) hashmap"
  hs_ready :: bool

definition handoff_new :: "'ns HandoffServer" where
  "handoff_new = \<lparr>hs_allocations = [], hs_ready = False\<rparr>"

definition set_ready :: "'ns HandoffServer \<Rightarrow> 'ns HandoffServer" where
  "set_ready h = h\<lparr>hs_ready := True\<rparr>"

definition active_allocation_count :: "'ns HandoffServer \<Rightarrow> nat" where
  "active_allocation_count h = length (hs_allocations h)"

definition active_allocation_ids :: "'ns HandoffServer \<Rightarrow> string list" where
  "active_allocation_ids h = map fst (hs_allocations h)"

definition on_allocation_ended :: "string \<Rightarrow> 'ns HandoffServer \<Rightarrow> 'ns HandoffServer" where
  "on_allocation_ended i h = h\<lparr>hs_allocations := hm_remove i (hs_allocations h)\<rparr>"

text \<open>A request has the fields of an allocation; \<open>free\<close> tells whether the lock was available.\<close>

definition create_namespaces ::
  "string \<Rightarrow> bool \<Rightarrow> 'ns AllocationNamespaces \<Rightarrow> 'ns HandoffServer \<Rightarrow>
   'ns HandoffServer \<times> (NamespaceError + 'ns NamespaceResponse)" where
  "create_namespaces mount_base free req h =
     (if \<not> hs_ready h then (h, Inl (SocketUnavailable ''node not ready''))
      else
        ((if free then h\<lparr>hs_allocations := hm_insert (an_allocation_id req) req (hs_allocations h)\<rparr> else h),
         Inr \<lparr>nr_allocation_id = an_allocation_id req, nr_fd_types = an_types req,
           nr_uenv_mount_path = map_option (\<lambda>img. mount_base @ ''/'' @ replace_str ''.sqfs'' [] img)
             (an_uenv_image req)\<rparr>))"

definition release_namespaces :: "bool \<Rightarrow> string \<Rightarrow> 'ns HandoffServer \<Rightarrow> 'ns HandoffServer" where
  "release_namespaces free i h =
     (if free then h\<lparr>hs_allocations := hm_remove i (hs_allocations h)\<rparr> else h)"

subsection \<open>Reference counts are the holders\<close>

text \<open>
  The abstract view of the manager is the number of holders of each image. An image that is not
  mounted has none; the hold timer runs exactly while a mounted image has none.
\<close>

type_synonym holders = "string \<Rightarrow> nat"

definition counts :: "MountRefManager \<Rightarrow> holders \<Rightarrow> bool" where
  "counts m h \<longleftrightarrow> hm_inv (mr_mounts m) \<and> (\<forall>img. case hm_get (mr_mounts m) img of
     None \<Rightarrow> h img = 0
   | Some st \<Rightarrow> unat (mt_refcount st) = h img \<and> (mt_hold_start st = None \<longleftrightarrow> 0 < h img))"

lemma countsD:
  assumes "counts m h"
  shows "hm_inv (mr_mounts m)"
    and "hm_get (mr_mounts m) img = None \<Longrightarrow> h img = 0"
    and "hm_get (mr_mounts m) img = Some st \<Longrightarrow> unat (mt_refcount st) = h img"
    and "hm_get (mr_mounts m) img = Some st \<Longrightarrow> mt_hold_start st = None \<longleftrightarrow> 0 < h img"
  using assms unfolding counts_def by (auto split: option.splits dest: spec [of _ img])

lemma counts_insert:
  assumes "counts m h" "unat (mt_refcount st) = n" "mt_hold_start st = None \<longleftrightarrow> 0 < n"
  shows "counts (m\<lparr>mr_mounts := hm_insert img st (mr_mounts m)\<rparr>) (h(img := n))"
  unfolding counts_def
proof (intro conjI allI)
  show "case hm_get (mr_mounts (m\<lparr>mr_mounts := hm_insert img st (mr_mounts m)\<rparr>)) i of
      None \<Rightarrow> (h(img := n)) i = 0
    | Some st \<Rightarrow> unat (mt_refcount st) = (h(img := n)) i \<and> (mt_hold_start st = None \<longleftrightarrow> 0 < (h(img := n)) i)" for i
    using assms countsD(2-4) [OF assms(1), of i] by (auto split: option.split)
qed (use assms(1) in \<open>simp add: counts_def\<close>)

lemma acquire_counts:
  assumes "counts m h" "h img < 2 ^ 32 - 1"
  shows "counts (fst (acquire img m)) (h(img := Suc (h img)))"
proof (cases "hm_get (mr_mounts m) img")
  case None
  with assms(1) countsD(2) [OF assms(1) None] show ?thesis
    by (simp add: acquire_def counts_insert)
next
  case (Some st)
  then have "unat (mt_refcount st + 1) = Suc (h img)"
    using countsD(3) [OF assms(1) Some] assms(2) by (simp add: unat_word_ariths)
  with Some assms(1) show ?thesis
    by (simp add: acquire_def counts_insert)
qed

lemma release_counts:
  assumes "counts m h" "0 < h img"
  shows "\<exists>m'. release now img m = Some m' \<and> counts m' (h(img := h img - 1))"
proof (cases "hm_get (mr_mounts m) img")
  case None
  with countsD(2) [OF assms(1), of img] assms(2) show ?thesis
    by simp
next
  case (Some st)
  have n: "unat (mt_refcount st) = h img"
    by (rule countsD(3) [OF assms(1) Some])
  then have pos: "0 < mt_refcount st"
    using assms(2) by (simp add: word_less_nat_alt)
  then have pred: "unat (mt_refcount st - 1) = h img - 1"
    using n by (metis One_nat_def Suc_leI assms(2) unat_1 unat_sub word_le_nat_alt)
  then have z: "mt_refcount st - 1 = 0 \<longleftrightarrow> \<not> 0 < h img - 1"
    by (metis gr0I less_numeral_extra(3) unat_0 unat_eq_zero)
  have "mt_hold_start st = None"
    using countsD(4) [OF assms(1) Some] assms(2) by simp
  then have "counts (m\<lparr>mr_mounts := hm_insert img (st\<lparr>mt_refcount := mt_refcount st - 1,
      mt_hold_start := (if mt_refcount st - 1 = 0 then Some now else mt_hold_start st)\<rparr>) (mr_mounts m)\<rparr>)
      (h(img := h img - 1))"
    using pred z by (intro counts_insert [OF assms(1)]) auto
  with Some pos show ?thesis
    by (simp add: release_def)
qed

lemma hm_get_fold_remove:
  "hm_get (fold hm_remove ks m) k = (if k \<in> set ks then None else hm_get m k)"
  by (induction ks arbitrary: m) auto

lemma hm_inv_fold_remove: "hm_inv m \<Longrightarrow> hm_inv (fold hm_remove ks m)"
  by (induction ks arbitrary: m) auto

lemma hold_expired_iff:
  "hm_inv (mr_mounts m) \<Longrightarrow> img \<in> set (snd (check_expired_holds now m)) \<longleftrightarrow>
   (\<exists>st. hm_get (mr_mounts m) img = Some st \<and> hold_expired now m st)"
  by (force simp: check_expired_holds_def Let_def hm_get_in_set)

lemma check_counts:
  assumes "counts m h"
  shows "counts (fst (check_expired_holds now m)) h"
proof -
  have e: "img \<in> set (snd (check_expired_holds now m)) \<Longrightarrow> h img = 0" for img
    using countsD(1,3) [OF assms] by (auto simp: hold_expired_iff hold_expired_def) (metis unat_0)
  have "fst (check_expired_holds now m) =
      m\<lparr>mr_mounts := fold hm_remove (snd (check_expired_holds now m)) (mr_mounts m)\<rparr>"
    by (simp add: check_expired_holds_def Let_def)
  then show ?thesis
    using assms e by (auto simp: counts_def hm_get_fold_remove hm_inv_fold_remove)
qed

text \<open>
  A history of the manager: its users acquire and release images, and the supervision loop checks
  the hold timers. It is orderly when nobody releases what they do not hold (and no count reaches
  the width of the counter).
\<close>

datatype MountOp = Acquire string | Release string | CheckHolds

fun mount_op :: "time \<Rightarrow> MountOp \<Rightarrow> MountRefManager \<Rightarrow> MountRefManager option" where
  "mount_op now (Acquire img) m = Some (fst (acquire img m))"
| "mount_op now (Release img) m = release now img m"
| "mount_op now CheckHolds m = Some (fst (check_expired_holds now m))"

fun mount_run :: "(time \<times> MountOp) list \<Rightarrow> MountRefManager \<Rightarrow> MountRefManager option" where
  "mount_run [] m = Some m"
| "mount_run ((now, op) # ops) m = (case mount_op now op m of None \<Rightarrow> None | Some m' \<Rightarrow> mount_run ops m')"

fun holders_op :: "MountOp \<Rightarrow> holders \<Rightarrow> holders option" where
  "holders_op (Acquire img) h =
     (if h img < 2 ^ 32 - 1 then Some (h(img := Suc (h img))) else None)"
| "holders_op (Release img) h =
     (if 0 < h img then Some (h(img := h img - 1)) else None)"
| "holders_op CheckHolds h = Some h"

fun holders_run :: "(time \<times> MountOp) list \<Rightarrow> holders \<Rightarrow> holders option" where
  "holders_run [] h = Some h"
| "holders_run ((now, op) # ops) h = (case holders_op op h of None \<Rightarrow> None | Some h' \<Rightarrow> holders_run ops h')"

lemma mount_op_counts:
  "counts m h \<Longrightarrow> holders_op op h = Some h' \<Longrightarrow> \<exists>m'. mount_op now op m = Some m' \<and> counts m' h'"
  using acquire_counts release_counts [unfolded One_nat_def] check_counts
  by (cases op) (auto split: if_splits)

lemma mount_run_counts:
  "counts m h \<Longrightarrow> holders_run ops h = Some h' \<Longrightarrow> \<exists>m'. mount_run ops m = Some m' \<and> counts m' h'"
proof (induction ops arbitrary: m h)
  case (Cons x ops)
  obtain now op where x: "x = (now, op)"
    by (cases x)
  with Cons.prems obtain h1 where h1: "holders_op op h = Some h1" "holders_run ops h1 = Some h'"
    by (auto split: option.splits)
  obtain m1 where "mount_op now op m = Some m1" "counts m1 h1"
    using mount_op_counts [OF Cons.prems(1) h1(1)] by blast
  with Cons.IH h1(2) x show ?case
    by auto
qed simp

lemma counts_new: "counts (mounts_new base hold) (\<lambda>_. 0)"
  by (simp add: counts_def mounts_new_def)

text \<open>
  C24. Reference counts implement the number of holders. After any orderly history no assertion
  has failed; every image that is held is mounted with its exact count; a mounted image nobody
  holds has its timer running; and the next check of the timers unmounts exactly the images that
  nobody holds and whose hold time is over.
\<close>

theorem mount_refs_exact:
  assumes "holders_run ops (\<lambda>_. 0) = Some h"
  shows "\<exists>m. mount_run ops (mounts_new base hold) = Some m \<and>
    (\<forall>img. 0 < h img \<longrightarrow> mount_refcount m img = Some (of_nat (h img))) \<and>
    (\<forall>img n. mount_refcount m img = Some n \<longrightarrow> unat n = h img) \<and>
    (\<forall>now img. img \<in> set (snd (check_expired_holds now m)) \<longleftrightarrow>
       (\<exists>st t. hm_get (mr_mounts m) img = Some st \<and> h img = 0 \<and> mt_hold_start st = Some t \<and>
          mr_hold_duration m \<le> now - t))"
proof -
  obtain m where m: "mount_run ops (mounts_new base hold) = Some m" and c: "counts m h"
    using mount_run_counts [OF counts_new assms] by blast
  have held: "mount_refcount m img = Some (of_nat (h img))" if "0 < h img" for img
  proof (cases "hm_get (mr_mounts m) img")
    case None
    with countsD(2) [OF c] that show ?thesis
      by simp
  next
    case (Some st)
    from countsD(3) [OF c Some, symmetric] Some show ?thesis
      by (simp add: mount_refcount_def)
  qed
  have exact: "unat n = h img" if "mount_refcount m img = Some n" for img n
    using that countsD(3) [OF c] by (auto simp: mount_refcount_def)
  have zero: "mt_refcount st = 0 \<longleftrightarrow> h img = 0" if "hm_get (mr_mounts m) img = Some st" for img st
    using countsD(3) [OF c that] by (simp add: unat_eq_zero flip: unat_eq_zero)
  have "img \<in> set (snd (check_expired_holds now m)) \<longleftrightarrow>
      (\<exists>st t. hm_get (mr_mounts m) img = Some st \<and> h img = 0 \<and> mt_hold_start st = Some t \<and>
         mr_hold_duration m \<le> now - t)" for now img
    using zero by (auto simp: hold_expired_iff [OF countsD(1) [OF c]] hold_expired_def split: option.splits)
  with m held exact show ?thesis
    by blast
qed

theorem mount_refs_exact_witness:
  "\<exists>m. mount_run [(0, Acquire ''a''), (1, Acquire ''a''), (2, Release ''a''), (3, CheckHolds)]
      (mounts_new ''/run/pact/uenv'' 60) = Some m \<and> mount_refcount m ''a'' = Some 1"
proof -
  let ?ops = "[(0, Acquire ''a''), (1, Acquire ''a''), (2, Release ''a''), (3, CheckHolds)]"
  have "holders_run ?ops (\<lambda>_. 0) = Some ((\<lambda>_. 0)(''a'' := 1))"
    by simp
  from mount_refs_exact [OF this, of "''/run/pact/uenv''" 60] show ?thesis
    by auto
qed

text \<open>
  A forced unmount forgets the holders. When the image is mounted again, the release by an old
  holder is taken for one of the new holder, whose own release then fails the assertion.
\<close>

lemma stale_release_panics:
  assumes "hm_get (mr_mounts m) img = None"
  shows "Option.bind (release t1 img (fst (acquire img (force_unmount img (fst (acquire img m))))))
    (release t2 img) = None"
  by (simp add: acquire_def force_unmount_def release_def assms)

text \<open>
  The path promised to a workload is the mount point of the image only for images named without
  a directory.
\<close>

lemma uenv_path_is_mount_point:
  assumes "hs_ready h" "an_uenv_image req = Some img" "CHR ''/'' \<notin> set img"
  shows "\<exists>h' resp. create_namespaces (mr_mount_base m) free req h = (h', Inr resp) \<and>
    nr_uenv_mount_path resp = Some (mount_point_of m img)"
  using assms by (simp add: create_namespaces_def mount_point_of_def last_segment_plain)

lemma uenv_path_differs:
  "nr_uenv_mount_path (projr (snd (create_namespaces ''/run/pact/uenv'' True
     \<lparr>an_allocation_id = ''a'', an_types = [], an_uenv_image = Some ''/images/pytorch.sqfs''\<rparr>
     (set_ready handoff_new)))) = Some ''/run/pact/uenv//images/pytorch'' \<and>
   mount_point_of (mounts_new ''/run/pact/uenv'' 60) ''/images/pytorch.sqfs'' = ''/run/pact/uenv/pytorch''"
  by (simp add: create_namespaces_def set_ready_def handoff_new_def mount_point_of_def mounts_new_def
      replace_str_def last_segment_def)

text \<open>
  The provider tracks exactly the allocations granted and not ended: as long as its lock is
  available, an allocation is active from its grant to its end; before the node is ready none is
  granted.
\<close>

lemma allocation_tracked:
  assumes "hs_ready h"
  shows "hm_get (hs_allocations (fst (create_namespaces base True req h))) i =
      (if i = an_allocation_id req then Some req else hm_get (hs_allocations h) i)"
    and "hm_get (hs_allocations (on_allocation_ended i h)) j =
      (if i = j then None else hm_get (hs_allocations h) j)"
    and "hm_get (hs_allocations (release_namespaces True i h)) j =
      (if i = j then None else hm_get (hs_allocations h) j)"
  using assms by (simp_all add: create_namespaces_def on_allocation_ended_def release_namespaces_def)

lemma not_ready_refuses:
  "\<not> hs_ready h \<Longrightarrow> create_namespaces base free req h = (h, Inl (SocketUnavailable ''node not ready''))"
  by (simp add: create_namespaces_def)

text \<open>With the lock taken, a granted allocation stays untracked and is never cleaned up.\<close>

lemma busy_allocation_untracked:
  "hs_ready h \<Longrightarrow> fst (create_namespaces base False req h) = h \<and>
   \<not> isl (snd (create_namespaces base False req h))"
  by (simp add: create_namespaces_def)

end
