(* ===== verification/Capability.thy ===== *)
theory Capability
  imports Rust_Parse Drift Supervisor Shell_Server
begin

text \<open>
  Hardware detection and reporting, \<open>crates/pact-agent/src/capability\<close>: the parsers of the
  files under \<open>/proc\<close> and \<open>/sys\<close>, the detection of processors, memory, network interfaces, disks,
  mounts and GPUs over them, and the report assembled from the parts. The system is the record
  \<open>SysEnv\<close>: the texts of files, the entries of directories, links, file system statistics and
  the programs that are run. The builds for Linux are modelled. A file that cannot be read or is
  not UTF-8 has no text; a directory lists names, or an error in place of one.
\<close>

subsection \<open>The system\<close>

datatype ToolResult =
    ToolExit bool string string string
  | ToolNotFound
  | ToolError string

text \<open>
  An exit carries success, the status as it is printed, and both output streams; an error stands
  for a timeout as well, where the caller has set one. File system statistics are the fields \<open>f_blocks\<close>, \<open>f_bavail\<close> and \<open>f_frsize\<close>.
\<close>

record SysEnv =
  sy_read :: "string \<Rightarrow> string option"
  sy_dir :: "string \<Rightarrow> (unit + string) list option"
  sy_exists :: "string \<Rightarrow> bool"
  sy_link :: "string \<Rightarrow> string option"
  sy_statvfs :: "string \<Rightarrow> (u64 \<times> u64 \<times> u64) option"
  sy_run :: "string \<Rightarrow> string list \<Rightarrow> ToolResult"
  sy_arch :: string

definition read_or_empty :: "SysEnv \<Rightarrow> string \<Rightarrow> string" where
  "read_or_empty env path = (case sy_read env path of Some s \<Rightarrow> s | None \<Rightarrow> [])"

text \<open>
  The two ways a directory is walked: up to the first error with the names that are UTF-8, or over
  all errors with the names decoded lossily.
\<close>

definition entries_until_error :: "(unit + string) list \<Rightarrow> string list" where
  "entries_until_error es = filter (\<lambda>n. from_utf8 n \<noteq> None) (map projr (takeWhile (\<lambda>e. \<not> isl e) es))"

definition entries_flattened :: "(unit + string) list \<Rightarrow> string list" where
  "entries_flattened es = map (\<lambda>e. from_utf8_lossy (projr e)) (filter (\<lambda>e. \<not> isl e) es)"

subsection \<open>Processors\<close>

datatype CpuArchitecture = X86_64 | Aarch64 | ArchUnknown

record CpuCapability =
  cpu_architecture :: CpuArchitecture
  cpu_model :: string
  cpu_physical_cores :: u32
  cpu_logical_cores :: u32
  cpu_base_frequency_mhz :: u32
  cpu_max_frequency_mhz :: u32
  cpu_features :: "string list"
  cpu_numa_nodes :: u32
  cpu_cache_l3_bytes :: u64

definition default_cpu :: CpuCapability where
  "default_cpu = \<lparr>cpu_architecture = ArchUnknown, cpu_model = [], cpu_physical_cores = 0,
     cpu_logical_cores = 0, cpu_base_frequency_mhz = 0, cpu_max_frequency_mhz = 0, cpu_features = [],
     cpu_numa_nodes = 1, cpu_cache_l3_bytes = 0\<rparr>"

definition detect_architecture :: "SysEnv \<Rightarrow> CpuArchitecture" where
  "detect_architecture env =
     (if sy_arch env = ''x86_64'' then X86_64
      else if sy_arch env = ''aarch64'' then Aarch64 else ArchUnknown)"

record CpuInfo =
  ci_model :: string
  ci_features :: "string list"
  ci_logical_cores :: u32
  ci_physical_ids :: "nat list"
  ci_cores_per_socket :: u32

definition cpuinfo_start :: CpuInfo where
  "cpuinfo_start = \<lparr>ci_model = [], ci_features = [], ci_logical_cores = 0, ci_physical_ids = [],
     ci_cores_per_socket = 0\<rparr>"

definition cpuinfo_field :: "string \<Rightarrow> string \<Rightarrow> CpuInfo \<Rightarrow> CpuInfo" where
  "cpuinfo_field key v c =
     (if key = ''model name'' \<and> ci_model c = [] then c\<lparr>ci_model := v\<rparr>
      else if key = ''CPU implementer'' \<and> ci_model c = [] then
        c\<lparr>ci_model := ''ARM implementer '' @ v\<rparr>
      else if key = ''CPU part'' \<and> prefix ''ARM implementer'' (ci_model c) then
        c\<lparr>ci_model := ci_model c @ '' part '' @ v\<rparr>
      else if (key = ''flags'' \<or> key = ''Features'') \<and> ci_features c = [] then
        c\<lparr>ci_features := split_whitespace v\<rparr>
      else if key = ''processor'' then
        (if parse_u32 v \<noteq> None then c\<lparr>ci_logical_cores := ci_logical_cores c + 1\<rparr> else c)
      else if key = ''physical id'' then
        (case parse_u32 v of
           Some i \<Rightarrow> c\<lparr>ci_physical_ids := List.insert i (ci_physical_ids c)\<rparr> | None \<Rightarrow> c)
      else if key = ''cpu cores'' \<and> ci_cores_per_socket c = 0 then
        (case parse_u32 v of Some n \<Rightarrow> c\<lparr>ci_cores_per_socket := of_nat n\<rparr> | None \<Rightarrow> c)
      else c)"

definition cpuinfo_line :: "string \<Rightarrow> CpuInfo \<Rightarrow> CpuInfo" where
  "cpuinfo_line l c =
     (let line = trim l in
      if line = [] then c
      else case split_once CHR '':'' line of
        Some (key, v) \<Rightarrow> cpuinfo_field (trim key) (trim v) c
      | None \<Rightarrow> c)"

definition physical_cores :: "CpuInfo \<Rightarrow> u32" where
  "physical_cores c =
     (if ci_physical_ids c \<noteq> [] \<and> 0 < ci_cores_per_socket c then
        of_nat (length (ci_physical_ids c)) * ci_cores_per_socket c
      else if 0 < ci_logical_cores c then ci_logical_cores c else 0)"

definition parse_cpuinfo :: "string \<Rightarrow> string \<times> string list \<times> u32 \<times> u32" where
  "parse_cpuinfo content =
     (let c = fold cpuinfo_line (lines content) cpuinfo_start
      in (ci_model c, ci_features c, physical_cores c, ci_logical_cores c))"

definition read_sysfs_number :: "SysEnv \<Rightarrow> string \<Rightarrow> u64 option" where
  "read_sysfs_number env path = (case sy_read env path of
     Some s \<Rightarrow> map_option of_nat (parse_u64 (trim s)) | None \<Rightarrow> None)"

fun first_mhz :: "string list \<Rightarrow> u32 option" where
  "first_mhz [] = None"
| "first_mhz (l # ls) =
     (if prefix ''cpu MHz'' l then
        (case split_once CHR '':'' l of
           Some (k, v) \<Rightarrow> (case parse_f64 (trim v) of Some mhz \<Rightarrow> Some (f64_to_u32 mhz) | None \<Rightarrow> first_mhz ls)
         | None \<Rightarrow> first_mhz ls)
      else first_mhz ls)"

definition read_cpuinfo_mhz :: "SysEnv \<Rightarrow> u32 option" where
  "read_cpuinfo_mhz env = (case sy_read env ''/proc/cpuinfo'' of
     Some content \<Rightarrow> first_mhz (lines content) | None \<Rightarrow> None)"

definition or_else :: "'a option \<Rightarrow> 'a option \<Rightarrow> 'a option" where
  "or_else a b = (case a of Some x \<Rightarrow> Some x | None \<Rightarrow> b)"

definition unwrap_or :: "'a option \<Rightarrow> 'a \<Rightarrow> 'a" where
  "unwrap_or a d = (case a of Some x \<Rightarrow> x | None \<Rightarrow> d)"

definition detect_frequency :: "SysEnv \<Rightarrow> u32 \<times> u32" where
  "detect_frequency env =
     (let base = or_else (read_sysfs_number env ''/sys/devices/system/cpu/cpu0/cpufreq/base_frequency'')
                   (read_sysfs_number env ''/sys/devices/system/cpu/cpu0/cpufreq/cpuinfo_min_freq'');
          top = read_sysfs_number env ''/sys/devices/system/cpu/cpu0/cpufreq/cpuinfo_max_freq'';
          fallback = (if base = None \<or> top = None then read_cpuinfo_mhz env else None);
          mhz = (\<lambda>k. unwrap_or (or_else (map_option (\<lambda>khz. ucast (khz div 1000)) k) fallback) 0)
      in (mhz base, mhz top))"

definition detect_numa_nodes :: "SysEnv \<Rightarrow> u32" where
  "detect_numa_nodes env =
     (if \<not> sy_exists env ''/sys/devices/system/node'' then 1
      else
        let names = (case sy_dir env ''/sys/devices/system/node'' of
                       Some es \<Rightarrow> entries_until_error es | None \<Rightarrow> []);
            count = of_nat (length (filter (\<lambda>n. prefix ''node'' n \<and> parse_u32 (drop 4 n) \<noteq> None) names))
        in if count = 0 then 1 else count)"

definition parse_cache_size :: "string \<Rightarrow> u64" where
  "parse_cache_size text =
     (let s = trim text; num = (\<lambda>t. of_nat (unwrap_or (parse_u64 t) 0)) in
      if s = [] then 0
      else case strip_suffix ''K'' s of
        Some kb \<Rightarrow> num kb * 1024
      | None \<Rightarrow> (case strip_suffix ''M'' s of
          Some mb \<Rightarrow> num mb * 1024 * 1024 | None \<Rightarrow> num s))"

definition detect_l3_cache :: "SysEnv \<Rightarrow> u64" where
  "detect_l3_cache env = (case sy_read env ''/sys/devices/system/cpu/cpu0/cache/index3/size'' of
     Some content \<Rightarrow> parse_cache_size (trim content) | None \<Rightarrow> 0)"

definition detect_cpu :: "SysEnv \<Rightarrow> CpuCapability" where
  "detect_cpu env =
     (case parse_cpuinfo (read_or_empty env ''/proc/cpuinfo'') of (model, features, physical, logical) \<Rightarrow>
      case detect_frequency env of (base_freq, max_freq) \<Rightarrow>
        \<lparr>cpu_architecture = detect_architecture env, cpu_model = model, cpu_physical_cores = physical,
         cpu_logical_cores = logical, cpu_base_frequency_mhz = base_freq,
         cpu_max_frequency_mhz = max_freq, cpu_features = features,
         cpu_numa_nodes = detect_numa_nodes env, cpu_cache_l3_bytes = detect_l3_cache env\<rparr>)"

subsection \<open>Memory\<close>

datatype MemoryType = Ddr4 | Ddr5 | Hbm2e | Hbm3 | Hbm3e | MemoryUnknown

record NumaNode =
  nn_id :: u32
  nn_total_bytes :: u64
  nn_cpus :: "u32 list"

record HugePageInfo =
  hp_size_2mb_total :: u64
  hp_size_2mb_free :: u64
  hp_size_1gb_total :: u64
  hp_size_1gb_free :: u64

record MemoryCapability =
  mem_total_bytes :: u64
  mem_available_bytes :: u64
  mem_memory_type :: MemoryType
  mem_numa_nodes :: u32
  mem_numa_topology :: "NumaNode list"
  mem_hugepages :: HugePageInfo

definition default_memory :: MemoryCapability where
  "default_memory = \<lparr>mem_total_bytes = 0, mem_available_bytes = 0, mem_memory_type = MemoryUnknown,
     mem_numa_nodes = 1, mem_numa_topology = [],
     mem_hugepages = \<lparr>hp_size_2mb_total = 0, hp_size_2mb_free = 0, hp_size_1gb_total = 0, hp_size_1gb_free = 0\<rparr>\<rparr>"

definition parse_meminfo_kb :: "string \<Rightarrow> u64 option" where
  "parse_meminfo_kb line = (case split_whitespace line of
     _ # v # _ \<Rightarrow> map_option of_nat (parse_u64 v) | _ \<Rightarrow> None)"

record MemInfo =
  mi_total :: u64
  mi_available :: u64
  mi_hp_total :: u64
  mi_hp_free :: u64
  mi_hp_size_kb :: u64

definition meminfo_line :: "string \<Rightarrow> MemInfo \<Rightarrow> MemInfo" where
  "meminfo_line line m = (case parse_meminfo_kb line of
     None \<Rightarrow> m
   | Some kb \<Rightarrow>
       if prefix ''MemTotal:'' line then m\<lparr>mi_total := kb * 1024\<rparr>
       else if prefix ''MemAvailable:'' line then m\<lparr>mi_available := kb * 1024\<rparr>
       else if prefix ''HugePages_Total:'' line then m\<lparr>mi_hp_total := kb\<rparr>
       else if prefix ''HugePages_Free:'' line then m\<lparr>mi_hp_free := kb\<rparr>
       else if prefix ''Hugepagesize:'' line then m\<lparr>mi_hp_size_kb := kb\<rparr>
       else m)"

definition parse_meminfo :: "string \<Rightarrow> u64 \<times> u64 \<times> (u64 \<times> u64)" where
  "parse_meminfo content =
     (let m = fold meminfo_line (lines content)
                \<lparr>mi_total = 0, mi_available = 0, mi_hp_total = 0, mi_hp_free = 0, mi_hp_size_kb = 0\<rparr>
      in (mi_total m, mi_available m,
          if mi_hp_size_kb m = 2048 then (mi_hp_total m, mi_hp_free m) else (0, 0)))"

definition detect_1gb_hugepages :: "SysEnv \<Rightarrow> u64 \<times> u64" where
  "detect_1gb_hugepages env =
     (let base = ''/sys/kernel/mm/hugepages/hugepages-1048576kB'' in
      (unwrap_or (read_sysfs_number env (base @ ''/nr_hugepages'')) 0,
       unwrap_or (read_sysfs_number env (base @ ''/free_hugepages'')) 0))"

fun kb_value :: "string list \<Rightarrow> u64 option" where
  "kb_value (p # q # ps) =
     (if q = ''kB'' then (case parse_u64 p of Some kb \<Rightarrow> Some (of_nat kb * 1024) | None \<Rightarrow> kb_value (q # ps))
      else kb_value (q # ps))"
| "kb_value _ = None"

fun node_memtotal :: "string list \<Rightarrow> u64 option" where
  "node_memtotal [] = None"
| "node_memtotal (l # ls) =
     (if contains l ''MemTotal:'' then
        (case kb_value (split_whitespace l) of Some b \<Rightarrow> Some b | None \<Rightarrow> node_memtotal ls)
      else node_memtotal ls)"

definition read_node_memtotal :: "SysEnv \<Rightarrow> string \<Rightarrow> u64 option" where
  "read_node_memtotal env path = (case sy_read env path of
     Some content \<Rightarrow> node_memtotal (lines content) | None \<Rightarrow> None)"

definition cpu_range :: "nat \<Rightarrow> nat \<Rightarrow> u32 list" where
  "cpu_range s e = map of_nat [s ..< Suc e]"

definition cpulist_part :: "string \<Rightarrow> u32 list" where
  "cpulist_part text =
     (let part = trim text in
      if part = [] then []
      else case split_once CHR ''-'' part of
        Some (s, e) \<Rightarrow> (case (parse_u32 (trim s), parse_u32 (trim e)) of
          (Some a, Some b) \<Rightarrow> cpu_range a b | _ \<Rightarrow> [])
      | None \<Rightarrow> (case parse_u32 part of Some v \<Rightarrow> [of_nat v] | None \<Rightarrow> []))"

definition parse_cpulist :: "string \<Rightarrow> u32 list" where
  "parse_cpulist text =
     (let content = trim text in
      if content = [] then [] else concat (map cpulist_part (split_on CHR '','' content)))"

definition numa_node :: "SysEnv \<Rightarrow> string \<Rightarrow> NumaNode option" where
  "numa_node env name = (case strip_prefix ''node'' name of
     None \<Rightarrow> None
   | Some id_str \<Rightarrow> (case parse_u32 id_str of
       None \<Rightarrow> None
     | Some i \<Rightarrow>
         let node_dir = ''/sys/devices/system/node/'' @ name in
         Some \<lparr>nn_id = of_nat i,
           nn_total_bytes = unwrap_or (read_node_memtotal env (node_dir @ ''/meminfo'')) 0,
           nn_cpus = (case sy_read env (node_dir @ ''/cpulist'') of
             Some cpulist \<Rightarrow> parse_cpulist (trim cpulist) | None \<Rightarrow> [])\<rparr>))"

definition detect_numa_topology :: "SysEnv \<Rightarrow> u32 \<times> NumaNode list" where
  "detect_numa_topology env =
     (if \<not> sy_exists env ''/sys/devices/system/node'' then (1, [])
      else
        let names = (case sy_dir env ''/sys/devices/system/node'' of
                       Some es \<Rightarrow> entries_until_error es | None \<Rightarrow> []);
            nodes = sort_key nn_id (List.map_filter (numa_node env) names)
        in (if nodes = [] then 1 else of_nat (length nodes), nodes))"

fun dmidecode_type :: "string list \<Rightarrow> MemoryType" where
  "dmidecode_type [] = MemoryUnknown"
| "dmidecode_type (l # ls) = (case strip_prefix ''Type:'' (trim l) of
     None \<Rightarrow> dmidecode_type ls
   | Some v \<Rightarrow>
       let type_val = trim v in
       if type_val = ''DDR4'' then Ddr4
       else if type_val = ''DDR5'' then Ddr5
       else if eq_ignore_ascii_case type_val ''HBM2E'' then Hbm2e
       else if eq_ignore_ascii_case type_val ''HBM3'' then Hbm3
       else if eq_ignore_ascii_case type_val ''HBM3E'' then Hbm3e
       else MemoryUnknown)"

definition detect_memory_type :: "SysEnv \<Rightarrow> MemoryType" where
  "detect_memory_type env = (case sy_run env ''dmidecode'' [''--type'', ''17''] of
     ToolExit True shown stdout stderr \<Rightarrow> dmidecode_type (lines (from_utf8_lossy stdout))
   | _ \<Rightarrow> MemoryUnknown)"

definition detect_memory :: "SysEnv \<Rightarrow> MemoryCapability" where
  "detect_memory env =
     (case parse_meminfo (read_or_empty env ''/proc/meminfo'') of (all_bytes, available, small_hp) \<Rightarrow>
      case detect_1gb_hugepages env of giant_hp \<Rightarrow>
      case detect_numa_topology env of (numa_count, topology) \<Rightarrow>
        \<lparr>mem_total_bytes = all_bytes, mem_available_bytes = available,
         mem_memory_type = detect_memory_type env, mem_numa_nodes = numa_count,
         mem_numa_topology = topology,
         mem_hugepages = \<lparr>hp_size_2mb_total = fst small_hp, hp_size_2mb_free = snd small_hp,
           hp_size_1gb_total = fst giant_hp, hp_size_1gb_free = snd giant_hp\<rparr>\<rparr>)"

subsection \<open>Network interfaces\<close>

datatype NetworkFabric = Slingshot | Ethernet | FabricUnknown

datatype InterfaceOperState = Up | Down

record NetworkInterface =
  ni_name :: string
  ni_fabric :: NetworkFabric
  ni_speed_mbps :: u64
  ni_state :: InterfaceOperState
  ni_mac :: string
  ni_ipv4 :: "string option"

definition parse_speed :: "string \<Rightarrow> u64" where
  "parse_speed content = (case parse_signed 64 (trim content) of
     Some v \<Rightarrow> if 0 < v then of_int v else 0 | None \<Rightarrow> 0)"

definition parse_operstate :: "string \<Rightarrow> InterfaceOperState" where
  "parse_operstate content = (if trim content = ''up'' then Up else Down)"

definition parse_fabric :: "string \<Rightarrow> NetworkFabric" where
  "parse_fabric driver = (if contains driver ''cxi'' then Slingshot else Ethernet)"

definition net_path :: "string \<Rightarrow> string \<Rightarrow> string" where
  "net_path iface attr = ''/sys/class/net/'' @ iface @ ''/'' @ attr"

definition read_sysfs_speed :: "SysEnv \<Rightarrow> string \<Rightarrow> u64" where
  "read_sysfs_speed env iface = (case sy_read env (net_path iface ''speed'') of
     Some content \<Rightarrow> parse_speed content | None \<Rightarrow> 0)"

definition read_sysfs_file :: "SysEnv \<Rightarrow> string \<Rightarrow> string \<Rightarrow> string" where
  "read_sysfs_file env iface attr = (case sy_read env (net_path iface attr) of
     Some s \<Rightarrow> trim s | None \<Rightarrow> [])"

definition detect_fabric :: "SysEnv \<Rightarrow> string \<Rightarrow> NetworkFabric" where
  "detect_fabric env iface = (case sy_link env (net_path iface ''device/driver'') of
     Some target \<Rightarrow> parse_fabric (case file_name target of Some n \<Rightarrow> from_utf8_lossy n | None \<Rightarrow> [])
   | None \<Rightarrow> FabricUnknown)"

definition network_interface :: "SysEnv \<Rightarrow> string \<Rightarrow> NetworkInterface option" where
  "network_interface env name =
     (if name = ''lo'' then None
      else if \<not> sy_exists env (net_path name ''device'') then None
      else Some \<lparr>ni_name = name, ni_fabric = detect_fabric env name,
        ni_speed_mbps = read_sysfs_speed env name,
        ni_state = parse_operstate (read_sysfs_file env name ''operstate''),
        ni_mac = read_sysfs_file env name ''address'', ni_ipv4 = None\<rparr>)"

definition detect_network :: "SysEnv \<Rightarrow> NetworkInterface list" where
  "detect_network env = (case sy_dir env ''/sys/class/net'' of
     None \<Rightarrow> [] | Some es \<Rightarrow> List.map_filter (network_interface env) (entries_flattened es))"

subsection \<open>Storage\<close>

datatype StorageNodeType = Diskless | LocalStorage

datatype DiskType = Nvme | Ssd | Hdd | DiskUnknown

datatype FsType = Nfs | Lustre | Ext4 | Xfs | Tmpfs | OtherFs string

record LocalDisk =
  ld_device :: string
  ld_model :: string
  ld_capacity_bytes :: u64
  ld_disk_type :: DiskType

record MountInfo =
  mo_path :: string
  mo_fs_type :: FsType
  mo_source :: string
  mo_total_bytes :: u64
  mo_available_bytes :: u64

record StorageCapability =
  st_node_type :: StorageNodeType
  st_local_disks :: "LocalDisk list"
  st_mounts :: "MountInfo list"

definition read_block_sysfs :: "SysEnv \<Rightarrow> string \<Rightarrow> string \<Rightarrow> string" where
  "read_block_sysfs env device attr = (case sy_read env (''/sys/block/'' @ device @ ''/'' @ attr) of
     Some s \<Rightarrow> trim s | None \<Rightarrow> [])"

definition parse_block_size :: "string \<Rightarrow> u64" where
  "parse_block_size content = of_nat (min (unwrap_or (parse_u64 (trim content)) 0 * 512) (2 ^ 64 - 1))"

definition detect_disk_type :: "SysEnv \<Rightarrow> string \<Rightarrow> DiskType" where
  "detect_disk_type env name =
     (if prefix ''nvme'' name then Nvme
      else let rotational = trim (read_block_sysfs env name ''queue/rotational'') in
        if rotational = ''0'' then Ssd else if rotational = ''1'' then Hdd else DiskUnknown)"

definition local_disk :: "SysEnv \<Rightarrow> string \<Rightarrow> LocalDisk option" where
  "local_disk env name =
     (if \<not> prefix ''nvme'' name \<and> \<not> prefix ''sd'' name then None
      else Some \<lparr>ld_device = ''/dev/'' @ name, ld_model = read_block_sysfs env name ''device/model'',
        ld_capacity_bytes = parse_block_size (read_block_sysfs env name ''size''),
        ld_disk_type = detect_disk_type env name\<rparr>)"

definition detect_local_disks :: "SysEnv \<Rightarrow> LocalDisk list" where
  "detect_local_disks env = (case sy_dir env ''/sys/block'' of
     None \<Rightarrow> [] | Some es \<Rightarrow> List.map_filter (local_disk env) (entries_flattened es))"

definition mounts_line :: "string \<Rightarrow> (string \<times> string \<times> string) option" where
  "mounts_line line = (case split_whitespace line of
     a # b # c # _ \<Rightarrow> Some (a, b, c) | _ \<Rightarrow> None)"

definition parse_proc_mounts :: "string \<Rightarrow> (string \<times> string \<times> string) list" where
  "parse_proc_mounts content = List.map_filter mounts_line (lines content)"

definition parse_fs_type :: "string \<Rightarrow> FsType" where
  "parse_fs_type s =
     (if s = ''nfs'' \<or> s = ''nfs4'' then Nfs else if s = ''lustre'' then Lustre
      else if s = ''ext4'' then Ext4 else if s = ''xfs'' then Xfs
      else if s = ''tmpfs'' then Tmpfs else OtherFs s)"

text \<open>A path with a zero byte is no C string; an error and a timeout give zeros.\<close>

definition statvfs_with_timeout :: "SysEnv \<Rightarrow> string \<Rightarrow> u64 \<times> u64" where
  "statvfs_with_timeout env path =
     (if CHR 0x00 \<in> set path then (0, 0)
      else case sy_statvfs env path of
        Some (blocks, bavail, frsize) \<Rightarrow> (blocks * frsize, bavail * frsize)
      | None \<Rightarrow> (0, 0))"

definition is_pseudo_path :: "string \<Rightarrow> bool" where
  "is_pseudo_path path \<longleftrightarrow> prefix ''/proc'' path \<or> prefix ''/sys'' path \<or> prefix ''/dev'' path \<or>
     prefix ''/run/lock'' path"

definition mount_info :: "SysEnv \<Rightarrow> string \<times> string \<times> string \<Rightarrow> MountInfo option" where
  "mount_info env m = (case m of (source, path, fs) \<Rightarrow>
     if is_pseudo_path path then None
     else case statvfs_with_timeout env path of (all_bytes, available) \<Rightarrow>
       Some \<lparr>mo_path = path, mo_fs_type = parse_fs_type fs, mo_source = source,
         mo_total_bytes = all_bytes, mo_available_bytes = available\<rparr>)"

definition detect_storage :: "SysEnv \<Rightarrow> StorageCapability" where
  "detect_storage env =
     (let local_disks = detect_local_disks env;
          raw_mounts = (case sy_read env ''/proc/mounts'' of Some c \<Rightarrow> parse_proc_mounts c | None \<Rightarrow> [])
      in \<lparr>st_node_type = (if local_disks = [] then Diskless else LocalStorage),
          st_local_disks = local_disks, st_mounts = List.map_filter (mount_info env) raw_mounts\<rparr>)"

subsection \<open>GPUs\<close>

datatype GpuVendor = Nvidia | Amd

datatype GpuHealth = Healthy | Degraded | GpuFailed

record GpuCapability =
  gpu_index :: u32
  gpu_vendor :: GpuVendor
  gpu_model :: string
  gpu_memory_bytes :: u64
  gpu_health :: GpuHealth
  gpu_pci_bus_id :: string

definition nvidia_line :: "string \<Rightarrow> GpuCapability option" where
  "nvidia_line l = (let line = trim l in
     if line = [] then None
     else case map trim (splitn 4 CHR '','' line) of
       [idx, model, mem, bus] \<Rightarrow> (case parse_u32 idx of
         None \<Rightarrow> None
       | Some i \<Rightarrow> (case parse_u64 mem of
           None \<Rightarrow> None
         | Some mib \<Rightarrow> Some \<lparr>gpu_index = of_nat i, gpu_vendor = Nvidia, gpu_model = model,
             gpu_memory_bytes = of_nat mib * 1024 * 1024, gpu_health = Healthy, gpu_pci_bus_id = bus\<rparr>))
     | _ \<Rightarrow> None)"

definition parse_nvidia_csv :: "string \<Rightarrow> GpuCapability list" where
  "parse_nvidia_csv text = List.map_filter nvidia_line (lines text)"

definition position :: "('a \<Rightarrow> bool) \<Rightarrow> 'a list \<Rightarrow> nat option" where
  "position p xs = (if list_ex p xs then Some (length (takeWhile (\<lambda>x. \<not> p x) xs)) else None)"

definition column :: "nat option \<Rightarrow> string list \<Rightarrow> string option" where
  "column c parts = (case c of
     Some i \<Rightarrow> if i < length parts then Some (parts ! i) else None | None \<Rightarrow> None)"

definition rocm_line ::
  "nat option \<Rightarrow> nat option \<Rightarrow> nat option \<Rightarrow> nat option \<Rightarrow> string \<Rightarrow> GpuCapability list \<Rightarrow> GpuCapability list" where
  "rocm_line device_col model_col vram_col id_col l gpus =
     (let line = trim l in
      if line = [] then gpus
      else let parts = map trim (split_on CHR '','' line) in
        gpus @ [\<lparr>gpu_index = (case Option.bind (column device_col parts) parse_u32 of
                    Some i \<Rightarrow> of_nat i | None \<Rightarrow> of_nat (length gpus)),
           gpu_vendor = Amd, gpu_model = unwrap_or (column model_col parts) ''Unknown AMD GPU'',
           gpu_memory_bytes = of_nat (unwrap_or (Option.bind (column vram_col parts) parse_u64) 0),
           gpu_health = Healthy, gpu_pci_bus_id = unwrap_or (column id_col parts) []\<rparr>])"

definition parse_rocm_csv :: "string \<Rightarrow> GpuCapability list" where
  "parse_rocm_csv text = (case lines text of
     [] \<Rightarrow> []
   | header # ls \<Rightarrow>
       let headers = map trim (split_on CHR '','' header);
           device_col = position (\<lambda>h. contains h ''device'') headers;
           model_col = position (\<lambda>h. contains h ''Card series'' \<or> contains h ''Card Series'' \<or>
             contains h ''product'') headers;
           vram_col = position (\<lambda>h. contains h ''VRAM Total'' \<or> contains h ''vram'') headers;
           id_col = position (\<lambda>h. contains h ''GPU ID'' \<or> contains h ''Bus'') headers
       in fold (rocm_line device_col model_col vram_col id_col) ls [])"

definition gpu_tool :: "string \<Rightarrow> (string \<Rightarrow> GpuCapability list) \<Rightarrow> ToolResult \<Rightarrow> string + GpuCapability list" where
  "gpu_tool tool parse r = (case r of
     ToolExit ok shown stdout stderr \<Rightarrow>
       if ok then Inr (parse (from_utf8_lossy stdout))
       else Inl (tool @ '' failed (exit '' @ shown @ ''): '' @ trim (from_utf8_lossy stderr))
   | ToolNotFound \<Rightarrow> Inr []
   | ToolError e \<Rightarrow> Inl e)"

definition detect_nvidia :: "SysEnv \<Rightarrow> string + GpuCapability list" where
  "detect_nvidia env = gpu_tool ''nvidia-smi'' parse_nvidia_csv (sy_run env ''nvidia-smi''
     [''--query-gpu=index,name,memory.total,pci.bus_id'', ''--format=csv,noheader,nounits''])"

definition detect_rocm :: "SysEnv \<Rightarrow> string + GpuCapability list" where
  "detect_rocm env = gpu_tool ''rocm-smi'' parse_rocm_csv (sy_run env ''rocm-smi''
     [''--showid'', ''--showproductname'', ''--showmeminfo'', ''vram'', ''--csv''])"

subsection \<open>The report\<close>

record ServiceStatusInfo =
  ssi_name :: string
  ssi_state :: ServiceState
  ssi_pid :: u32
  ssi_uptime_seconds :: u64
  ssi_restart_count :: u32

record SoftwareCapability =
  sw_loaded_modules :: "string list"
  sw_uenv_image :: "string option"
  sw_services :: "ServiceStatusInfo list"

record EmergencyInfo =
  ei_reason :: string
  ei_admin_identity :: Identity
  ei_started_at :: time
  ei_expires_at :: time

record SupervisorStatus =
  sus_backend :: SupervisorBackend
  sus_services_declared :: u32
  sus_services_running :: u32
  sus_services_failed :: u32

record CapabilityReport =
  cap_node_id :: NodeId
  cap_timestamp :: time
  cap_report_id :: string
  cap_cpu :: CpuCapability
  cap_gpus :: "GpuCapability list"
  cap_memory :: MemoryCapability
  cap_network :: "NetworkInterface list"
  cap_storage :: StorageCapability
  cap_software :: SoftwareCapability
  cap_config_state :: ConfigState
  cap_drift_summary :: "DriftVector option"
  cap_emergency :: "EmergencyInfo option"
  cap_supervisor_status :: SupervisorStatus

definition parse_proc_modules :: "SysEnv \<Rightarrow> string list" where
  "parse_proc_modules env = (case sy_read env ''/proc/modules'' of
     None \<Rightarrow> []
   | Some content \<Rightarrow> List.map_filter (\<lambda>l. case split_whitespace l of m # _ \<Rightarrow> Some m | [] \<Rightarrow> None) (lines content))"

definition detect_software :: "SysEnv \<Rightarrow> SoftwareCapability" where
  "detect_software env = \<lparr>sw_loaded_modules = parse_proc_modules env, sw_uenv_image = None, sw_services = []\<rparr>"

text \<open>The backends of a reporter, by what detection returns.\<close>

record Backends =
  bk_cpu :: "string + CpuCapability"
  bk_gpu :: "string + GpuCapability list"
  bk_memory :: "string + MemoryCapability"
  bk_network :: "string + NetworkInterface list"
  bk_storage :: "string + StorageCapability"

definition ok_or :: "string + 'a \<Rightarrow> 'a \<Rightarrow> 'a" where
  "ok_or r d = (case r of Inr x \<Rightarrow> x | Inl _ \<Rightarrow> d)"

definition capability_report ::
  "SysEnv \<Rightarrow> Backends \<Rightarrow> NodeId \<Rightarrow> time \<Rightarrow> string \<Rightarrow> string + CapabilityReport" where
  "capability_report env b node now uuid = (case bk_gpu b of
     Inl e \<Rightarrow> Inl e
   | Inr gpus \<Rightarrow>
       Inr \<lparr>cap_node_id = node, cap_timestamp = now, cap_report_id = uuid,
         cap_cpu = ok_or (bk_cpu b) default_cpu, cap_gpus = gpus,
         cap_memory = ok_or (bk_memory b) default_memory, cap_network = ok_or (bk_network b) [],
         cap_storage = ok_or (bk_storage b) \<lparr>st_node_type = Diskless, st_local_disks = [], st_mounts = []\<rparr>,
         cap_software = detect_software env, cap_config_state = ObserveOnly,
         cap_drift_summary = None, cap_emergency = None,
         cap_supervisor_status = \<lparr>sus_backend = BackendPact, sus_services_declared = 0,
           sus_services_running = 0, sus_services_failed = 0\<rparr>\<rparr>)"

definition linux_backends :: "SysEnv \<Rightarrow> string + GpuCapability list \<Rightarrow> Backends" where
  "linux_backends env gpu = \<lparr>bk_cpu = Inr (detect_cpu env), bk_gpu = gpu,
     bk_memory = Inr (detect_memory env), bk_network = Inr (detect_network env),
     bk_storage = Inr (detect_storage env)\<rparr>"

text \<open>The reporter of the boot sequence detects GPUs only; its other backends are the mocks.\<close>

definition with_gpu_only :: "string + GpuCapability list \<Rightarrow> Backends" where
  "with_gpu_only gpu = \<lparr>bk_cpu = Inr default_cpu, bk_gpu = gpu, bk_memory = Inr default_memory,
     bk_network = Inr [], bk_storage = Inr \<lparr>st_node_type = Diskless, st_local_disks = [], st_mounts = []\<rparr>\<rparr>"

lemma boot_report_blank:
  "capability_report env (with_gpu_only (Inr gpus)) node now uuid = Inr r \<Longrightarrow>
   mem_total_bytes (cap_memory r) = 0 \<and> cpu_logical_cores (cap_cpu r) = 0 \<and> cap_network r = [] \<and>
   st_local_disks (cap_storage r) = []"
  by (auto simp: capability_report_def with_gpu_only_def ok_or_def default_memory_def default_cpu_def)

subsection \<open>Lists of processors\<close>

text \<open>The kernel prints a list of processors as ranges separated by commas, and a newline.\<close>

definition range_text :: "nat \<times> nat \<Rightarrow> string" where
  "range_text r = (case r of (a, b) \<Rightarrow> if a = b then show_nat a else show_nat a @ ''-'' @ show_nat b)"

definition cpulist_text :: "(nat \<times> nat) list \<Rightarrow> string" where
  "cpulist_text rs = join_with '','' (map range_text rs) @ [newline]"

definition plain_char :: "char \<Rightarrow> bool" where
  "plain_char c \<longleftrightarrow> is_ascii c \<and> \<not> ascii_whitespace c"

lemma trim_plain: "list_all plain_char s \<Longrightarrow> trim s = s"
  by (rule trim_ascii_id) (auto simp: plain_char_def list_all_iff)

lemma trim_plain_newline:
  assumes "list_all plain_char s"
  shows "trim (s @ [newline]) = s"
proof -
  have "list_all is_ascii (s @ [newline])"
    using assms by (auto simp: plain_char_def list_all_iff is_ascii_def newline_def)
  then have chars: "utf8_chars (s @ [newline]) = map (\<lambda>c. [c]) s @ [[newline]]"
    by (simp add: utf8_chars_ascii_string)
  have ws: "ascii_whitespace newline"
    by (simp add: ascii_whitespace_def newline_def)
  show ?thesis
  proof (cases s)
    case Nil
    then show ?thesis
      using chars ws by (simp add: trim_def trim_start_def trim_end_def)
  next
    case (Cons a t)
    with assms have "\<not> ascii_whitespace a"
      by (simp add: plain_char_def)
    then have start: "trim_start (s @ [newline]) = s @ [newline]"
      using chars Cons by (simp add: trim_start_def)
    have "dropWhile is_whitespace (rev (map (\<lambda>c. [c]) s)) = rev (map (\<lambda>c. [c]) s)"
      using assms by (cases s rule: rev_cases) (auto simp: plain_char_def list_all_iff)
    then show ?thesis
      using chars ws by (simp add: trim_def start trim_end_def)
  qed
qed

lemma digit_plain: "is_digit c \<Longrightarrow> plain_char c"
  by (auto simp: is_digit_def plain_char_def is_ascii_def ascii_whitespace_def Let_def)

lemma show_nat_plain: "list_all plain_char (show_nat n)"
  using show_nat_digits [of n] by (auto simp: list_all_iff intro: digit_plain)

lemma show_nat_notin: "\<not> is_digit c \<Longrightarrow> c \<notin> set (show_nat n)"
  using show_nat_digits [of n] by (auto simp: list_all_iff)

lemma range_text_plain: "list_all plain_char (range_text r)"
  by (cases r) (auto simp: range_text_def show_nat_plain plain_char_def is_ascii_def ascii_whitespace_def Let_def)

lemma range_text_no_comma: "CHR '','' \<notin> set (range_text r)"
  by (cases r) (auto simp: range_text_def show_nat_notin is_digit_def)

lemma cpulist_part_range:
  assumes "a \<le> b" "b < 2 ^ 32"
  shows "cpulist_part (range_text (a, b)) = cpu_range a b"
proof -
  have t: "trim (range_text (a, b)) = range_text (a, b)"
    by (rule trim_plain [OF range_text_plain])
  show ?thesis
  proof (cases "a = b")
    case True
    have "split_once CHR ''-'' (show_nat b) = None"
      by (simp add: split_once_def show_nat_notin is_digit_def)
    with True assms t show ?thesis
      by (simp add: cpulist_part_def Let_def range_text_def cpu_range_def)
  next
    case False
    have "split_once CHR ''-'' (show_nat a @ CHR ''-'' # show_nat b) = Some (show_nat a, show_nat b)"
      by (intro split_once_append) (simp add: show_nat_notin is_digit_def)
    with False assms t show ?thesis
      by (simp add: cpulist_part_def Let_def range_text_def trim_plain [OF show_nat_plain])
  qed
qed

text \<open>
  Reading a list of processors undoes the kernel's printing of it: from any list of ranges of
  processor numbers, in the format of \<open>cpulist\<close> files, the parser recovers exactly the numbers in
  them, in order; an empty list is read as empty.
\<close>

theorem cpulist_roundtrip:
  assumes "\<forall>(a, b) \<in> set rs. a \<le> b \<and> b < 2 ^ 32"
  shows "parse_cpulist (cpulist_text rs) = concat (map (\<lambda>(a, b). cpu_range a b) rs)"
proof (cases "rs = []")
  case True
  then show ?thesis
    using trim_plain_newline [of "[]"] by (simp add: parse_cpulist_def cpulist_text_def)
next
  case False
  let ?s = "join_with '','' (map range_text rs)"
  have plain: "list_all plain_char (join_with '','' ps)" if "\<forall>p \<in> set ps. list_all plain_char p" for ps
    using that
    by (induction "'',''" ps rule: join_with.induct)
      (auto simp: plain_char_def is_ascii_def ascii_whitespace_def Let_def)
  have t: "trim (cpulist_text rs) = ?s"
    unfolding cpulist_text_def by (rule trim_plain_newline) (auto intro!: plain range_text_plain)
  have sp: "split_on CHR '','' ?s = map range_text rs"
    using False by (intro split_on_join) (auto simp: range_text_no_comma)
  have ne: "?s \<noteq> []"
  proof
    assume "?s = []"
    with sp have "map range_text rs = [[]]"
      by simp
    then show False
      by (auto simp: range_text_def split: if_splits)
  qed
  have "map cpulist_part (map range_text rs) = map (\<lambda>(a, b). cpu_range a b) rs"
    using assms cpulist_part_range by auto
  then show ?thesis
    using ne unfolding parse_cpulist_def Let_def t sp by (simp only: if_False)
qed

theorem cpulist_roundtrip_witness:
  "parse_cpulist (cpulist_text [(0, 3), (8, 8)]) = [0, 1, 2, 3, 8]"
proof -
  have "parse_cpulist (cpulist_text [(0, 3), (8, 8)]) =
      concat (map (\<lambda>(a, b). cpu_range a b) [(0, 3), (8, 8)])"
    by (rule cpulist_roundtrip) simp
  also have "\<dots> = [0, 1, 2, 3, 8]"
    by (simp add: cpu_range_def upt_rec)
  finally show ?thesis .
qed

subsection \<open>Well-formed reports\<close>

lemma lossy_bytes: "(\<And>b. b \<in> set bs \<Longrightarrow> b < 256) \<Longrightarrow> b \<in> set (lossy bs) \<Longrightarrow> b < 256"
proof (induction bs arbitrary: b rule: length_induct)
  case (1 bs)
  show ?case
  proof (cases bs)
    case (Cons a xs)
    have IH: "c < 256" if "length ys \<le> length xs" "set ys \<subseteq> set xs" "c \<in> set (lossy ys)" for ys c
      by (rule 1(1) [rule_format, of ys c]) (use that 1(2) Cons in auto)
    have xs: "c < 256" if "c = a \<or> c \<in> set xs" for c
      using 1(2) that Cons by auto
    have r: "c < 256" if "c \<in> set replacement" for c
      using that by (auto simp: replacement_def)
    show ?thesis
      using 1(3) unfolding Cons lossy.simps(2)
      by (auto split: if_splits list.splits intro: xs r) (erule IH [rotated 2]; auto)+
  qed (use 1 in simp)
qed

text \<open>The text of a Rust string is well-formed UTF-8.\<close>

definition rust_string :: "string \<Rightarrow> bool" where
  "rust_string s \<longleftrightarrow> utf8_valid (map of_char s)"

lemma rust_string_lossy: "rust_string (from_utf8_lossy s)"
proof -
  have "b < 256" if "b \<in> set (lossy (map of_char s))" for b :: nat
    by (rule lossy_bytes [OF _ that]) auto
  then have "map of_char (map char_of (lossy (map of_char s))) = lossy (map of_char s)"
    unfolding map_map by (intro map_idI) simp
  then show ?thesis
    by (simp add: rust_string_def from_utf8_lossy_def lossy_valid)
qed

text \<open>What a consumer of reports may rely on, part by part.\<close>

definition wf_cpu :: "CpuCapability \<Rightarrow> bool" where
  "wf_cpu c \<longleftrightarrow> cpu_numa_nodes c \<noteq> 0 \<and> [] \<notin> set (cpu_features c)"

definition wf_memory :: "MemoryCapability \<Rightarrow> bool" where
  "wf_memory m \<longleftrightarrow> sorted (map nn_id (mem_numa_topology m)) \<and>
     mem_numa_nodes m = (if mem_numa_topology m = [] then 1 else of_nat (length (mem_numa_topology m)))"

definition wf_interface :: "NetworkInterface \<Rightarrow> bool" where
  "wf_interface i \<longleftrightarrow> rust_string (ni_name i) \<and> ni_name i \<noteq> ''lo'' \<and> ni_speed_mbps i < 2 ^ 63"

definition wf_disk :: "LocalDisk \<Rightarrow> bool" where
  "wf_disk d \<longleftrightarrow> rust_string (ld_device d) \<and>
     (prefix ''/dev/nvme'' (ld_device d) \<or> prefix ''/dev/sd'' (ld_device d)) \<and>
     (ld_disk_type d = Nvme \<longleftrightarrow> prefix ''/dev/nvme'' (ld_device d))"

definition wf_storage :: "StorageCapability \<Rightarrow> bool" where
  "wf_storage s \<longleftrightarrow> (st_node_type s = Diskless \<longleftrightarrow> st_local_disks s = []) \<and>
     list_all wf_disk (st_local_disks s) \<and> list_all (\<lambda>m. \<not> is_pseudo_path (mo_path m)) (st_mounts s)"

definition wf_report :: "CapabilityReport \<Rightarrow> bool" where
  "wf_report r \<longleftrightarrow> wf_cpu (cap_cpu r) \<and> wf_memory (cap_memory r) \<and>
     list_all wf_interface (cap_network r) \<and> wf_storage (cap_storage r)"

lemma map_filter_all:
  "(\<And>x y. x \<in> set xs \<Longrightarrow> f x = Some y \<Longrightarrow> P y) \<Longrightarrow> list_all P (List.map_filter f xs)"
  by (induction xs) (auto simp: List.map_filter_simps split: option.splits)

lemma entries_flattened_strings: "n \<in> set (entries_flattened es) \<Longrightarrow> rust_string n"
  by (auto simp: entries_flattened_def rust_string_lossy)

lemma cpuinfo_features: "[] \<notin> set (ci_features (fold cpuinfo_line ls c))" if "[] \<notin> set (ci_features c)"
  using that
proof (induction ls arbitrary: c)
  case (Cons l ls)
  have "[] \<notin> set (ci_features (cpuinfo_line l c))"
    using Cons.prems split_whitespace_nonempty
    by (auto simp: cpuinfo_line_def cpuinfo_field_def Let_def split: option.splits prod.splits)
  with Cons.IH show ?case
    by simp
qed simp

lemma detect_cpu_wf: "wf_cpu (detect_cpu env)"
  using cpuinfo_features [of cpuinfo_start]
  by (auto simp: wf_cpu_def detect_cpu_def parse_cpuinfo_def detect_numa_nodes_def Let_def cpuinfo_start_def
      split: prod.splits)

lemma detect_memory_wf: "wf_memory (detect_memory env)"
  by (auto simp: wf_memory_def detect_memory_def detect_numa_topology_def Let_def sorted_sort_key
      split: prod.splits)

lemma parse_speed_bound: "parse_speed content < 2 ^ 63"
proof -
  have "of_int v < (2 ^ 63 :: u64)" if "0 < v" "v < 2 ^ 63" for v :: int
    using that by (simp add: word_less_def uint_word_of_int)
  then show ?thesis
    by (auto simp: parse_speed_def parse_signed_def Let_def split: option.splits prod.splits if_splits)
qed

lemma detect_network_wf: "list_all wf_interface (detect_network env)"
proof (cases "sy_dir env ''/sys/class/net''")
  case (Some es)
  have "list_all wf_interface (List.map_filter (network_interface env) (entries_flattened es))"
  proof (rule map_filter_all)
    fix n i
    assume n: "n \<in> set (entries_flattened es)" "network_interface env n = Some i"
    have "read_sysfs_speed env n < 2 ^ 63"
      unfolding read_sysfs_speed_def using parse_speed_bound by (auto split: option.split)
    with n show "wf_interface i"
      by (auto simp: network_interface_def wf_interface_def entries_flattened_strings split: if_splits)
  qed
  with Some show ?thesis
    by (simp add: detect_network_def)
qed (simp add: detect_network_def)

lemma local_disk_wf:
  assumes "rust_string n" "local_disk env n = Some d"
  shows "wf_disk d"
proof -
  have "utf8_valid (map of_char (''/dev/'' @ n))"
    using assms(1) by (simp add: rust_string_def)
  with assms(2) show ?thesis
    by (auto simp: local_disk_def wf_disk_def rust_string_def detect_disk_type_def Let_def split: if_splits)
qed

lemma detect_storage_wf: "wf_storage (detect_storage env)"
proof -
  have "list_all wf_disk (detect_local_disks env)"
    by (auto simp: detect_local_disks_def intro!: map_filter_all local_disk_wf entries_flattened_strings
        split: option.split)
  moreover have "list_all (\<lambda>m. \<not> is_pseudo_path (mo_path m)) (List.map_filter (mount_info env) raw)" for raw
    by (rule map_filter_all) (auto simp: mount_info_def split: prod.splits if_splits)
  ultimately show ?thesis
    by (simp add: wf_storage_def detect_storage_def Let_def)
qed

lemma map_filter_length: "length (List.map_filter f xs) = length (filter (\<lambda>x. f x \<noteq> None) xs)"
  by (induction xs) (auto simp: List.map_filter_simps split: option.splits)

lemma of_nat_u32_zero: "k < 2 ^ 32 \<Longrightarrow> (of_nat k :: u32) = 0 \<longleftrightarrow> k = 0"
  by (simp flip: unat_eq_zero add: unsigned_of_nat take_bit_nat_eq_self)

definition numa_names :: "SysEnv \<Rightarrow> string list" where
  "numa_names env = (case sy_dir env ''/sys/devices/system/node'' of
     Some es \<Rightarrow> entries_until_error es | None \<Rightarrow> [])"

lemma numa_node_iff: "(numa_node env n \<noteq> None) = (prefix ''node'' n \<and> parse_u32 (drop 4 n) \<noteq> None)"
proof (cases "prefix ''node'' n")
  case True
  then obtain t where "n = ''node'' @ t"
    by (auto simp: prefix_def)
  then show ?thesis
    by (auto simp: numa_node_def strip_prefix_def Let_def split: option.split)
qed (simp add: numa_node_def strip_prefix_def)

lemma numa_names_length:
  assumes "\<And>es. sy_dir env ''/sys/devices/system/node'' = Some es \<Longrightarrow> length es < 2 ^ 32"
  shows "length (numa_names env) < 2 ^ 32"
proof -
  have "length (entries_until_error es) \<le> length es" for es
    unfolding entries_until_error_def
    by (rule order_trans [OF length_filter_le]) (simp add: length_takeWhile_le)
  with assms show ?thesis
    by (auto simp: numa_names_def split: option.split intro: le_less_trans)
qed

lemma numa_counts_agree:
  assumes "\<And>es. sy_dir env ''/sys/devices/system/node'' = Some es \<Longrightarrow> length es < 2 ^ 32"
  shows "detect_numa_nodes env = fst (detect_numa_topology env)"
proof -
  define k where "k = length (filter (\<lambda>n. prefix ''node'' n \<and> parse_u32 (drop 4 n) \<noteq> None) (numa_names env))"
  define nodes where "nodes = sort_key nn_id (List.map_filter (numa_node env) (numa_names env))"
  have len: "length nodes = k"
    unfolding nodes_def k_def by (simp only: length_sort map_filter_length numa_node_iff)
  have "k < 2 ^ 32"
    unfolding k_def by (rule le_less_trans [OF length_filter_le numa_names_length [OF assms]])
  then have z: "(of_nat k :: u32) = 0 \<longleftrightarrow> nodes = []"
    using len by (simp add: of_nat_u32_zero flip: length_0_conv)
  have "detect_numa_nodes env = (if \<not> sy_exists env ''/sys/devices/system/node'' then 1
      else if (of_nat k :: u32) = 0 then 1 else of_nat k)"
    unfolding detect_numa_nodes_def k_def numa_names_def Let_def by (rule refl)
  moreover have "fst (detect_numa_topology env) = (if \<not> sy_exists env ''/sys/devices/system/node'' then 1
      else if nodes = [] then 1 else of_nat (length nodes))"
    unfolding detect_numa_topology_def nodes_def numa_names_def Let_def by simp
  ultimately show ?thesis
    by (simp add: z len)
qed

text \<open>
  C33. Every report of the Linux backends is well formed, whatever the system files contain: names
  of devices and interfaces are valid text, the loopback interface and pseudo file systems are
  left out, a speed is never negative, a node counts as diskless exactly when no disk was found,
  disks are NVMe or SCSI devices and classified by their name, NUMA nodes are sorted and counted,
  and the number of NUMA nodes reported for the processors is the one of the memory topology.
\<close>

theorem capability_report_wf:
  assumes "capability_report env (linux_backends env gpu) node now uuid = Inr r"
    and "\<And>es. sy_dir env ''/sys/devices/system/node'' = Some es \<Longrightarrow> length es < 2 ^ 32"
  shows "wf_report r \<and> cpu_numa_nodes (cap_cpu r) = mem_numa_nodes (cap_memory r)"
proof -
  have r: "cap_cpu r = detect_cpu env" "cap_memory r = detect_memory env"
    "cap_network r = detect_network env" "cap_storage r = detect_storage env"
    using assms(1) by (auto simp: capability_report_def linux_backends_def ok_or_def split: sum.splits)
  have "cpu_numa_nodes (detect_cpu env) = mem_numa_nodes (detect_memory env)"
    using numa_counts_agree [OF assms(2)]
    by (simp add: detect_cpu_def detect_memory_def split: prod.split)
  then show ?thesis
    by (simp add: wf_report_def r detect_cpu_wf detect_memory_wf detect_network_wf detect_storage_wf)
qed

definition sample_sys :: SysEnv where
  "sample_sys = \<lparr>sy_read = (\<lambda>p. if p = ''/proc/cpuinfo'' then Some (''processor : 0'' @ [newline] @ ''flags : sse avx'')
       else if p = ''/sys/devices/system/node/node1/cpulist'' then Some ''0-1'' else None),
     sy_dir = (\<lambda>d. if d = ''/sys/devices/system/node'' then Some [Inr ''node1'', Inr ''node0'', Inr ''power''] else None),
     sy_exists = (\<lambda>p. True), sy_link = (\<lambda>p. None), sy_statvfs = (\<lambda>p. None),
     sy_run = (\<lambda>c a. ToolNotFound), sy_arch = ''x86_64''\<rparr>"

theorem capability_report_wf_witness:
  "\<exists>r. capability_report sample_sys (linux_backends sample_sys (detect_nvidia sample_sys)) ''n1'' 0 ''u'' = Inr r \<and>
     wf_report r \<and> cpu_numa_nodes (cap_cpu r) = mem_numa_nodes (cap_memory r)"
proof -
  have "detect_nvidia sample_sys = Inr []"
    by (simp add: detect_nvidia_def gpu_tool_def sample_sys_def)
  then obtain r where r: "capability_report sample_sys (linux_backends sample_sys (detect_nvidia sample_sys))
      ''n1'' 0 ''u'' = Inr r"
    by (simp add: capability_report_def linux_backends_def)
  have "length es < 2 ^ 32" if "sy_dir sample_sys ''/sys/devices/system/node'' = Some es" for es
    using that by (auto simp: sample_sys_def)
  from capability_report_wf [OF r this] r show ?thesis
    by blast
qed

end
