(* ===== verification/Cli_Client.thy ===== *)
theory Cli_Client
  imports Journal_Auth Whitelist Rust_Parse
begin

text \<open>
  How the command line tool reaches the journal and the agents: its configuration
  (\<open>crates/pact-cli/src/commands/config.rs\<close>), the connection, the bearer token that is added to
  every request and the identity read from it (the first part of \<open>execute.rs\<close>). Environment
  variables, files, TOML, the decoding of tokens and the transport are the record \<open>CliEnv\<close>; paths
  are strings. Warnings printed while the configuration is read are left out.
\<close>

subsection \<open>Configuration\<close>

datatype OutputFormat = TextOutput | JsonOutput

record CliConfig =
  cc_endpoint :: string
  cc_token :: "string option"
  cc_token_path :: string
  cc_default_vcluster :: "string option"
  cc_output_format :: OutputFormat
  cc_timeout_seconds :: u32

record CliTls =
  ct_ca_certificate :: "string option"
  ct_identity :: "(string \<times> string) option"

record CliEnv =
  ci_config_dir :: "string option"
  ci_var :: "string \<Rightarrow> string option"
  ci_exists :: "string \<Rightarrow> bool"
  ci_read :: "string \<Rightarrow> string + string"
  ci_config_toml :: "string \<Rightarrow> string + CliConfig"
  ci_decode :: "string \<Rightarrow> (string option \<times> string option) option"
  ci_header_value :: "string \<Rightarrow> bool"
  ci_show_status :: "Status \<Rightarrow> string"
  ci_from_shared :: "string \<Rightarrow> string + unit"
  ci_tls_config :: "CliTls \<Rightarrow> string + unit"
  ci_connect :: "string \<Rightarrow> CliTls option \<Rightarrow> u32 option \<Rightarrow> string + unit"
  ci_format_time :: "string \<Rightarrow> int \<Rightarrow> string option"

definition pact_dir :: "CliEnv \<Rightarrow> string" where
  "pact_dir env = path_join (case ci_config_dir env of Some d \<Rightarrow> d | None \<Rightarrow> ''.'') ''pact''"

definition default_token_path :: "CliEnv \<Rightarrow> string" where
  "default_token_path env = path_join (pact_dir env) ''token''"

definition default_cli_config :: "CliEnv \<Rightarrow> CliConfig" where
  "default_cli_config env = \<lparr>cc_endpoint = ''http://localhost:9443'', cc_token = None,
     cc_token_path = default_token_path env, cc_default_vcluster = None,
     cc_output_format = TextOutput, cc_timeout_seconds = 30\<rparr>"

definition load_cli_config :: "CliEnv \<Rightarrow> CliConfig" where
  "load_cli_config env =
     (let config_path = path_join (pact_dir env) ''cli.toml'' in
      if ci_exists env config_path then
        (case ci_read env config_path of
           Inr contents \<Rightarrow>
             (case ci_config_toml env contents of Inr c \<Rightarrow> c | Inl e \<Rightarrow> default_cli_config env)
         | Inl e \<Rightarrow> default_cli_config env)
      else default_cli_config env)"

definition with_env_overrides :: "CliEnv \<Rightarrow> CliConfig \<Rightarrow> CliConfig" where
  "with_env_overrides env c =
     c\<lparr>cc_endpoint := (case ci_var env ''PACT_ENDPOINT'' of Some e \<Rightarrow> e | None \<Rightarrow> cc_endpoint c),
       cc_token := (case ci_var env ''PACT_TOKEN'' of Some t \<Rightarrow> Some t | None \<Rightarrow> cc_token c),
       cc_default_vcluster :=
         (case ci_var env ''PACT_VCLUSTER'' of Some v \<Rightarrow> Some v | None \<Rightarrow> cc_default_vcluster c),
       cc_output_format :=
         (if ci_var env ''PACT_OUTPUT'' = Some ''json'' then JsonOutput else cc_output_format c)\<rparr>"

definition resolve_token :: "CliEnv \<Rightarrow> CliConfig \<Rightarrow> string + string" where
  "resolve_token env c =
     (let missing = Inl (''No auth token found. Set PACT_TOKEN, pass --token, or write to '' @ cc_token_path c) in
      case cc_token c of
        Some token \<Rightarrow> Inr token
      | None \<Rightarrow>
          if ci_exists env (cc_token_path c) then
            (case ci_read env (cc_token_path c) of
               Inl e \<Rightarrow> Inl e
             | Inr text \<Rightarrow> let token = trim text in if token \<noteq> [] then Inr token else missing)
          else missing)"

definition resolve_vcluster :: "CliConfig \<Rightarrow> string option \<Rightarrow> string + string" where
  "resolve_vcluster c arg = (case arg of
     Some v \<Rightarrow> Inr v
   | None \<Rightarrow> (case cc_default_vcluster c of
       Some v \<Rightarrow> Inr v
     | None \<Rightarrow> Inl ''No vCluster specified. Use --vcluster or set PACT_VCLUSTER''))"

text \<open>The flags of the command line, which \<open>main\<close> lays over the rest.\<close>

record CliFlags =
  fl_endpoint :: "string option"
  fl_token :: "string option"
  fl_vcluster :: "string option"

definition main_config :: "CliEnv \<Rightarrow> CliFlags \<Rightarrow> CliConfig" where
  "main_config env fl =
     (let c = with_env_overrides env (load_cli_config env) in
      c\<lparr>cc_endpoint := (case fl_endpoint fl of Some e \<Rightarrow> e | None \<Rightarrow> cc_endpoint c),
        cc_token := (case fl_token fl of Some t \<Rightarrow> Some t | None \<Rightarrow> cc_token c),
        cc_default_vcluster :=
          (case fl_vcluster fl of Some v \<Rightarrow> Some v | None \<Rightarrow> cc_default_vcluster c)\<rparr>)"

subsection \<open>Connections\<close>

record TlsOptions =
  to_ca_cert :: "string option"
  to_client_cert :: "string option"
  to_client_key :: "string option"

definition read_cli_pem :: "CliEnv \<Rightarrow> string \<Rightarrow> string \<Rightarrow> string + string" where
  "read_cli_pem env what path = (case ci_read env path of
     Inl e \<Rightarrow> Inl (''cannot read '' @ what @ '' '' @ path @ '': '' @ e) | Inr pem \<Rightarrow> Inr pem)"

definition to_tls_config :: "CliEnv \<Rightarrow> TlsOptions \<Rightarrow> string + CliTls" where
  "to_tls_config env opts =
     (case (case to_ca_cert opts of
              None \<Rightarrow> Inr None | Some path \<Rightarrow> map_sum id Some (read_cli_pem env ''CA cert'' path)) of
        Inl e \<Rightarrow> Inl e
      | Inr ca \<Rightarrow>
          (case (to_client_cert opts, to_client_key opts) of
             (Some cert_path, Some key_path) \<Rightarrow>
               (case read_cli_pem env ''client cert'' cert_path of
                  Inl e \<Rightarrow> Inl e
                | Inr cert_pem \<Rightarrow> (case read_cli_pem env ''client key'' key_path of
                    Inl e \<Rightarrow> Inl e
                  | Inr key_pem \<Rightarrow> Inr \<lparr>ct_ca_certificate = ca, ct_identity = Some (cert_pem, key_pem)\<rparr>))
           | _ \<Rightarrow> Inr \<lparr>ct_ca_certificate = ca, ct_identity = None\<rparr>))"

definition http_uri :: "string \<Rightarrow> string" where
  "http_uri endpoint = (if prefix ''http'' endpoint then endpoint else ''http://'' @ endpoint)"

text \<open>A channel is the address it is connected to.\<close>

definition connect_with_tls :: "CliEnv \<Rightarrow> CliConfig \<Rightarrow> TlsOptions option \<Rightarrow> string + string" where
  "connect_with_tls env c tls_options =
     (let uri = http_uri (cc_endpoint c) in
      case ci_from_shared env uri of
        Inl e \<Rightarrow> Inl (''invalid endpoint '' @ uri @ '': '' @ e)
      | Inr _ \<Rightarrow>
          (case (if prefix ''https'' uri \<or> tls_options \<noteq> None then
                   (case (case tls_options of
                            Some opts \<Rightarrow> to_tls_config env opts
                          | None \<Rightarrow> Inr \<lparr>ct_ca_certificate = None, ct_identity = None\<rparr>) of
                      Inl e \<Rightarrow> Inl e
                    | Inr tls \<Rightarrow> (case ci_tls_config env tls of
                        Inl e \<Rightarrow> Inl (''TLS config error for '' @ uri @ '': '' @ e)
                      | Inr _ \<Rightarrow> Inr (Some tls)))
                 else Inr None) of
             Inl e \<Rightarrow> Inl e
           | Inr tls \<Rightarrow> (case ci_connect env uri tls (Some (cc_timeout_seconds c)) of
               Inl e \<Rightarrow> Inl (''cannot connect to journal at '' @ uri @ '': '' @ e)
             | Inr _ \<Rightarrow> Inr uri)))"

definition cli_connect :: "CliEnv \<Rightarrow> CliConfig \<Rightarrow> string + string" where
  "cli_connect env c = connect_with_tls env c None"

definition connect_agent :: "CliEnv \<Rightarrow> string \<Rightarrow> string + string" where
  "connect_agent env agent_addr =
     (let uri = http_uri agent_addr in
      case ci_from_shared env uri of
        Inl e \<Rightarrow> Inl (''invalid agent endpoint '' @ uri @ '': '' @ e)
      | Inr _ \<Rightarrow> (case ci_connect env uri None None of
          Inl e \<Rightarrow> Inl (''cannot connect to agent at '' @ uri @ '': '' @ e)
        | Inr _ \<Rightarrow> Inr uri))"

subsection \<open>The token\<close>

definition resolve_identity_from_token :: "CliEnv \<Rightarrow> string \<Rightarrow> string \<times> string" where
  "resolve_identity_from_token env token = (case ci_decode env token of
     Some (sub, pact_role) \<Rightarrow>
       (case sub of Some p \<Rightarrow> p | None \<Rightarrow> ''cli-user'',
        case pact_role of Some r \<Rightarrow> r | None \<Rightarrow> ''pact-platform-admin'')
   | None \<Rightarrow> (''cli-user'', ''pact-platform-admin''))"

definition client_header :: "CliEnv \<Rightarrow> string \<Rightarrow> Status + auth_header" where
  "client_header env token =
     (if token = [] then Inr None
      else if ci_header_value env (''Bearer '' @ token) then Inr (Some (Some (''Bearer '' @ token)))
      else Inl (Status Internal ''invalid token format''))"

text \<open>
  A call through both interceptors, that of the client and that of the journal: a query, and a
  call that changes the journal.
\<close>

definition query :: "CliEnv \<Rightarrow> string \<Rightarrow> Status + 'a \<Rightarrow> Status + 'a" where
  "query env token answer = (case client_header env token of
     Inl st \<Rightarrow> Inl st | Inr h \<Rightarrow> intercepted h answer)"

definition submit :: "CliEnv \<Rightarrow> string \<Rightarrow> ('s \<Rightarrow> 's \<times> (Status + 'a)) \<Rightarrow> 's \<Rightarrow> 's \<times> (Status + 'a)" where
  "submit env token handler s = (case client_header env token of
     Inl st \<Rightarrow> (s, Inl st)
   | Inr h \<Rightarrow> (case auth_interceptor h of Inl st \<Rightarrow> (s, Inl st) | Inr _ \<Rightarrow> handler s))"

definition usable_token :: "CliEnv \<Rightarrow> string \<Rightarrow> bool" where
  "usable_token env token \<longleftrightarrow> token \<noteq> [] \<and> ci_header_value env (''Bearer '' @ token)"

subsection \<open>Lemmas\<close>

lemma map_sum_iff:
  "map_sum f g r = Inr y \<longleftrightarrow> (\<exists>x. r = Inr x \<and> y = g x)"
  "map_sum f g r = Inl e \<longleftrightarrow> (\<exists>x. r = Inl x \<and> e = f x)"
  by (cases r; auto)+

text \<open>
  A flag wins over the environment, the environment over the file, and the file over the default.
\<close>

lemma main_config_endpoint:
  "cc_endpoint (main_config env fl) =
     (case fl_endpoint fl of Some e \<Rightarrow> e | None \<Rightarrow>
        (case ci_var env ''PACT_ENDPOINT'' of Some e \<Rightarrow> e | None \<Rightarrow> cc_endpoint (load_cli_config env)))"
  "cc_token (main_config env fl) =
     (case fl_token fl of Some t \<Rightarrow> Some t | None \<Rightarrow>
        (case ci_var env ''PACT_TOKEN'' of Some t \<Rightarrow> Some t | None \<Rightarrow> cc_token (load_cli_config env)))"
  by (simp_all add: main_config_def with_env_overrides_def Let_def split: option.split)

lemma query_usable [simp]: "usable_token env token \<Longrightarrow> query env token answer = answer"
  using intercepted_bearer [of token answer]
  by (simp add: usable_token_def query_def client_header_def)

lemma submit_usable [simp]: "usable_token env token \<Longrightarrow> submit env token handler s = handler s"
  by (simp add: usable_token_def submit_def client_header_def auth_interceptor_def)

text \<open>A call without a usable token does not reach the journal.\<close>

lemma submit_unusable:
  assumes "\<not> usable_token env token"
  shows "\<exists>st. submit env token handler s = (s, Inl st)"
  using assms by (auto simp: usable_token_def submit_def client_header_def auth_interceptor_def)

lemma submit_ok:
  assumes "submit env token handler s = (s', Inr r)"
  shows "usable_token env token \<and> handler s = (s', Inr r)"
  using assms submit_unusable [of env token handler s] by (cases "usable_token env token") auto

lemma query_ok:
  assumes "query env token answer = Inr r"
  shows "usable_token env token \<and> answer = Inr r"
  using assms
  by (auto simp: usable_token_def query_def client_header_def intercepted_def auth_interceptor_def
      split: if_splits)

end
