(* ===== verification/Cli_Journal.thy ===== *)
theory Cli_Journal
  imports Cli_Client Config_Service Policy_Service "HOL-Library.List_Lexorder"
    "HOL-Library.Char_ord"
begin

text \<open>
  The commands of the command line tool that talk to the journal: \<open>execute.rs\<close>, with the parts of
  \<open>apply.rs\<close>, \<open>promote.rs\<close>, \<open>blacklist.rs\<close>, \<open>group.rs\<close> and \<open>approve.rs\<close> it uses, all under
  \<open>crates/pact-cli/src/commands\<close>. A command is a function of the calls it makes; the calls are
  connected to the handlers of the journal below. Tables of the specification file are lists in
  the order of their keys; its TOML text is read by a parameter.
\<close>

subsection \<open>Printing\<close>

text \<open>\<open>{:<w}\<close> pads with spaces to \<open>w\<close> characters.\<close>

definition pad :: "nat \<Rightarrow> string \<Rightarrow> string" where
  "pad w s = s @ replicate (w - length (utf8_chars s)) CHR '' ''"

definition show_u64 :: "u64 \<Rightarrow> string" where
  "show_u64 n = show_nat (unat n)"

definition show_int :: "int \<Rightarrow> string" where
  "show_int n = (if n < 0 then CHR ''-'' # show_nat (nat (- n)) else show_nat (nat n))"

definition nl :: string where
  "nl = [newline]"

definition with_status :: "CliEnv \<Rightarrow> string \<Rightarrow> Status + 'a \<Rightarrow> string + 'a" where
  "with_status env what r = (case r of
     Inl st \<Rightarrow> Inl (what @ '': '' @ ci_show_status env st) | Inr v \<Rightarrow> Inr v)"

definition unknown_error :: "string option \<Rightarrow> string" where
  "unknown_error e = (case e of Some t \<Rightarrow> t | None \<Rightarrow> ''unknown error'')"

definition human :: "string \<Rightarrow> string \<Rightarrow> ProtoIdentity" where
  "human who role = \<lparr>pid_principal = who, pid_principal_type = ''Human'', pid_role = role\<rparr>"

subsection \<open>Entries written by a command\<close>

type_synonym 's append_call = "ProtoConfigEntry \<Rightarrow> 's \<Rightarrow> 's \<times> (Status + EntrySeq)"

definition cli_entry :: "int \<Rightarrow> string \<Rightarrow> string \<Rightarrow> string \<Rightarrow> ProtoConfigEntry" where
  "cli_entry entry_type vcluster who role = \<lparr>
     pce_sequence = 0, pce_timestamp = None, pce_entry_type = entry_type,
     pce_scope = Some (Some (ProtoVclusterId vcluster)), pce_author = Some (human who role),
     pce_parent = None, pce_state_delta = None, pce_policy_ref = [], pce_ttl = None,
     pce_emergency_reason = None\<rparr>"

definition append_command ::
  "CliEnv \<Rightarrow> 's append_call \<Rightarrow> string \<Rightarrow> ProtoConfigEntry \<Rightarrow> (EntrySeq \<Rightarrow> string) \<Rightarrow> 's \<Rightarrow> 's \<times> (string + string)" where
  "append_command env call what entry report s =
     (case call entry s of (s', r) \<Rightarrow> (s', map_sum id report (with_status env what r)))"

definition cli_commit ::
  "CliEnv \<Rightarrow> 's append_call \<Rightarrow> string \<Rightarrow> string \<Rightarrow> string \<Rightarrow> string \<Rightarrow> 's \<Rightarrow> 's \<times> (string + string)" where
  "cli_commit env call message vcluster who role =
     append_command env call ''commit failed''
       ((cli_entry 1 vcluster who role)\<lparr>pce_policy_ref := message\<rparr>)
       (\<lambda>seq. ''Committed (seq:'' @ show_u64 seq @ '') on vCluster: '' @ vcluster)"

definition cli_rollback ::
  "CliEnv \<Rightarrow> 's append_call \<Rightarrow> u64 \<Rightarrow> string \<Rightarrow> string \<Rightarrow> string \<Rightarrow> 's \<Rightarrow> 's \<times> (string + string)" where
  "cli_rollback env call target_seq vcluster who role =
     append_command env call ''rollback failed''
       ((cli_entry 2 vcluster who role)\<lparr>pce_parent := Some target_seq\<rparr>)
       (\<lambda>seq. ''Rolled back to seq:'' @ show_u64 target_seq @ '' (new seq:'' @ show_u64 seq @ '')'')"

definition cli_emergency_start ::
  "CliEnv \<Rightarrow> 's append_call \<Rightarrow> string \<Rightarrow> string \<Rightarrow> string \<Rightarrow> string \<Rightarrow> 's \<Rightarrow> 's \<times> (string + string)" where
  "cli_emergency_start env call reason vcluster who role =
     append_command env call ''emergency start failed''
       ((cli_entry 8 vcluster who role)\<lparr>pce_emergency_reason := Some reason\<rparr>)
       (\<lambda>seq. ''Emergency mode ACTIVE (seq:'' @ show_u64 seq @ '') on vCluster: '' @ vcluster @ nl @
          ''Reason: '' @ reason)"

definition cli_emergency_end ::
  "CliEnv \<Rightarrow> 's append_call \<Rightarrow> string \<Rightarrow> string \<Rightarrow> string \<Rightarrow> 's \<Rightarrow> 's \<times> (string + string)" where
  "cli_emergency_end env call vcluster who role =
     append_command env call ''emergency end failed'' (cli_entry 9 vcluster who role)
       (\<lambda>seq. ''Emergency mode ENDED (seq:'' @ show_u64 seq @ '') on vCluster: '' @ vcluster)"

datatype BlacklistOp = BlacklistList | BlacklistAdd string | BlacklistRemove string

fun format_blacklist_result :: "BlacklistOp \<Rightarrow> string list \<Rightarrow> string" where
  "format_blacklist_result BlacklistList paths =
     (if paths = [] then ''No blacklist entries.''
      else ''Blacklisted paths:'' @ nl @ concat (map (\<lambda>p. ''  '' @ p @ nl) paths))"
| "format_blacklist_result (BlacklistAdd path) paths = ''Added to blacklist: '' @ path"
| "format_blacklist_result (BlacklistRemove path) paths = ''Removed from blacklist: '' @ path"

definition cli_default_blacklist :: "string list" where
  "cli_default_blacklist = [''/tmp/**'', ''/var/log/**'', ''/proc/**'', ''/sys/**'', ''/dev/**'', ''/run/user/**'']"

definition cli_blacklist_add ::
  "CliEnv \<Rightarrow> 's append_call \<Rightarrow> string \<Rightarrow> string \<Rightarrow> string \<Rightarrow> string \<Rightarrow> 's \<Rightarrow> 's \<times> (string + string)" where
  "cli_blacklist_add env call pattern vcluster who role =
     append_command env call ''blacklist add failed''
       ((cli_entry 1 vcluster who role)\<lparr>pce_policy_ref := ''blacklist:add:'' @ pattern\<rparr>)
       (\<lambda>seq. format_blacklist_result (BlacklistAdd pattern) [pattern] @ '' (seq:'' @ show_u64 seq @
          '') on vCluster: '' @ vcluster)"

definition cli_blacklist_remove ::
  "CliEnv \<Rightarrow> 's append_call \<Rightarrow> string \<Rightarrow> string \<Rightarrow> string \<Rightarrow> string \<Rightarrow> 's \<Rightarrow> 's \<times> (string + string)" where
  "cli_blacklist_remove env call pattern vcluster who role =
     append_command env call ''blacklist remove failed''
       ((cli_entry 1 vcluster who role)\<lparr>pce_policy_ref := ''blacklist:remove:'' @ pattern\<rparr>)
       (\<lambda>seq. format_blacklist_result (BlacklistRemove pattern) [pattern] @ '' (seq:'' @ show_u64 seq @
          '') on vCluster: '' @ vcluster)"

subsection \<open>Applying a specification\<close>

record ApplyMount =
  am_fs_type :: string
  am_source :: string
  am_options :: string

record ApplyFile =
  af_content_hash :: "string option"
  af_mode :: "string option"
  af_owner :: "string option"

record VClusterSpec =
  vs_sysctl :: "(string \<times> string) list"
  vs_mounts :: "(string \<times> ApplyMount) list"
  vs_files :: "(string \<times> ApplyFile) list"
  vs_services :: "(string \<times> string) list"
  vs_network :: "(string \<times> string) list"
  vs_packages :: "(string \<times> string) list"

type_synonym ApplySpec = "(string \<times> VClusterSpec) list"

definition load_spec :: "CliEnv \<Rightarrow> (string \<Rightarrow> string + ApplySpec) \<Rightarrow> string \<Rightarrow> string + ApplySpec" where
  "load_spec env spec_toml path = (case ci_read env path of
     Inl e \<Rightarrow> Inl (''cannot read spec file '' @ path @ '': '' @ e)
   | Inr content \<Rightarrow> (case spec_toml content of
       Inl e \<Rightarrow> Inl (''invalid spec format in '' @ path @ '': '' @ e) | Inr spec \<Rightarrow> Inr spec))"

definition delta_item :: "DeltaAction \<Rightarrow> string \<Rightarrow> string option \<Rightarrow> string option \<Rightarrow> DeltaItem" where
  "delta_item action key v previous =
     \<lparr>di_action = action, di_key = key, di_value = v, di_previous = previous\<rparr>"

definition spec_to_delta :: "VClusterSpec \<Rightarrow> StateDelta" where
  "spec_to_delta spec = \<lparr>
     sd_mounts = map (\<lambda>(path, m). delta_item Add path
       (Some (am_fs_type m @ '':'' @ am_source m @ '' ('' @ am_options m @ '')'')) None) (vs_mounts spec),
     sd_files = map (\<lambda>(path, f). delta_item Modify path (af_content_hash f) (af_owner f)) (vs_files spec),
     sd_network = map (\<lambda>(iface, detail). delta_item Modify iface (Some detail) None) (vs_network spec),
     sd_services = map (\<lambda>(name, state). delta_item Modify name (Some state) None) (vs_services spec),
     sd_kernel = map (\<lambda>(key, v). delta_item Modify key (Some v) None) (vs_sysctl spec),
     sd_packages = map (\<lambda>(name, version). delta_item Add name (Some version) None) (vs_packages spec),
     sd_gpu = []\<rparr>"

definition right_arrow :: string where
  "right_arrow = [CHR 0xE2, CHR 0x86, CHR 0x92]"

definition spec_lines :: "string \<times> VClusterSpec \<Rightarrow> string list" where
  "spec_lines vc = (case vc of (name, spec) \<Rightarrow>
     (''vCluster '' @ name @ '': '' @ show_nat (length (vs_sysctl spec) + length (vs_mounts spec) +
        length (vs_files spec) + length (vs_services spec) + length (vs_network spec) +
        length (vs_packages spec)) @ '' changes'') #
     map (\<lambda>(key, v). ''  sysctl: '' @ key @ '' = '' @ v) (vs_sysctl spec) @
     map (\<lambda>(path, m). ''  mount: '' @ path @ '' ('' @ am_fs_type m @ '':'' @ am_source m @ '')'') (vs_mounts spec) @
     map (\<lambda>(name, state). ''  service: '' @ name @ '' '' @ right_arrow @ '' '' @ state) (vs_services spec))"

definition format_spec_summary :: "ApplySpec \<Rightarrow> string" where
  "format_spec_summary spec = join_with nl (concat (map spec_lines spec))"

definition apply_entry :: "string \<Rightarrow> string \<Rightarrow> string \<Rightarrow> string \<times> VClusterSpec \<Rightarrow> ProtoConfigEntry" where
  "apply_entry spec_path who role vc =
     (cli_entry 1 (fst vc) who role)\<lparr>
       pce_state_delta := Some (state_delta_to_proto (spec_to_delta (snd vc))),
       pce_policy_ref := ''apply:'' @ spec_path\<rparr>"

text \<open>The \<open>k\<close>-th vCluster is written by the \<open>k\<close>-th call; the first that fails ends the command.\<close>

fun apply_each ::
  "CliEnv \<Rightarrow> (nat \<Rightarrow> 's append_call) \<Rightarrow> string \<Rightarrow> string \<Rightarrow> string \<Rightarrow> nat \<Rightarrow> ApplySpec \<Rightarrow> 's \<Rightarrow>
   's \<times> (string + string list)" where
  "apply_each env calls path who role k [] s = (s, Inr [])"
| "apply_each env calls path who role k (vc # vcs) s =
     (case calls k (apply_entry path who role vc) s of
        (s', Inl st) \<Rightarrow> (s', Inl (''apply failed for '' @ fst vc @ '': '' @ ci_show_status env st))
      | (s', Inr seq) \<Rightarrow>
          (case apply_each env calls path who role (Suc k) vcs s' of
             (s'', r) \<Rightarrow> (s'', map_sum id (\<lambda>rs.
               (''Applied to '' @ fst vc @ '' (seq:'' @ show_u64 seq @ '')'') # rs) r)))"

definition cli_apply ::
  "CliEnv \<Rightarrow> (string \<Rightarrow> string + ApplySpec) \<Rightarrow> (nat \<Rightarrow> 's append_call) \<Rightarrow> string \<Rightarrow> string \<Rightarrow> string \<Rightarrow> 's \<Rightarrow>
   's \<times> (string + string)" where
  "cli_apply env spec_toml calls spec_path who role s = (case load_spec env spec_toml spec_path of
     Inl e \<Rightarrow> (s, Inl e)
   | Inr spec \<Rightarrow>
       if spec = [] then (s, Inr ''No changes in spec file.'')
       else (case apply_each env calls spec_path who role 0 spec s of
         (s', r) \<Rightarrow> (s', map_sum id (\<lambda>rs. format_spec_summary spec @ nl @ nl @ join_with nl rs) r)))"

subsection \<open>Status and log\<close>

definition cli_status :: "CliEnv \<Rightarrow> (NodeId \<Rightarrow> Status + NodeStateResponse) \<Rightarrow> NodeId \<Rightarrow> string + string" where
  "cli_status env get_node_state node_id =
     map_sum id (\<lambda>ns. ''Node: '' @ nsr_node_id ns @ ''  State: '' @ nsr_config_state ns)
       (with_status env ''status query failed'' (get_node_state node_id))"

definition parse_scope_filter :: "string \<Rightarrow> ProtoScope" where
  "parse_scope_filter s = (case strip_prefix ''node:'' s of
     Some node \<Rightarrow> Some (ProtoNodeId node)
   | None \<Rightarrow> (case strip_prefix ''vc:'' s of
       Some vc \<Rightarrow> Some (ProtoVclusterId vc) | None \<Rightarrow> Some (ProtoGlobal True)))"

definition entry_type_name :: "int \<Rightarrow> string" where
  "entry_type_name n =
     (if n = 1 then ''COMMIT''
      else if n = 2 then ''ROLLBACK''
      else if n = 3 then ''AUTO_CONVERGE''
      else if n = 4 then ''DRIFT_DETECTED''
      else if n = 5 then ''CAPABILITY_CHANGE''
      else if n = 6 then ''POLICY_UPDATE''
      else if n = 7 then ''BOOT_CONFIG''
      else if n = 8 then ''EMERGENCY_ON''
      else if n = 9 then ''EMERGENCY_OFF''
      else if n = 10 then ''EXEC_LOG''
      else if n = 11 then ''SHELL_SESSION''
      else if n = 12 then ''SERVICE_LIFECYCLE''
      else if n = 13 then ''PENDING_APPROVAL''
      else ''UNKNOWN'')"

definition show_time :: "CliEnv \<Rightarrow> string \<Rightarrow> Timestamp option \<Rightarrow> string" where
  "show_time env fmt ts = (case ts of
     None \<Rightarrow> ''---''
   | Some t \<Rightarrow> (case ci_format_time env fmt (ts_seconds t) of Some s \<Rightarrow> s | None \<Rightarrow> ''---''))"

definition format_proto_entry :: "CliEnv \<Rightarrow> ProtoConfigEntry \<Rightarrow> string" where
  "format_proto_entry env e =
     (let scope = (case pce_scope e of
            Some (Some (ProtoNodeId n)) \<Rightarrow> ''node:'' @ n
          | Some (Some (ProtoVclusterId v)) \<Rightarrow> ''vc:'' @ v
          | _ \<Rightarrow> ''global'');
          author = (case pce_author e of None \<Rightarrow> ''unknown'' | Some a \<Rightarrow> pid_principal a)
      in ''#'' @ pad 6 (show_u64 (pce_sequence e)) @ '' '' @
         show_time env ''%Y-%m-%d %H:%M:%S'' (pce_timestamp e) @ '' '' @
         pad 18 (entry_type_name (pce_entry_type e)) @ '' '' @ pad 20 scope @ '' by '' @ author)"

text \<open>
  The answer to \<open>list_entries\<close> is a stream; it may break off with an error after some entries.
\<close>

type_synonym list_call = "ListEntriesRequest \<Rightarrow> Status + (Status + ProtoConfigEntry) list"

fun stream_all :: "(Status + 'a) list \<Rightarrow> Status + 'a list" where
  "stream_all [] = Inr []"
| "stream_all (Inl st # xs) = Inl st"
| "stream_all (Inr x # xs) = map_sum id ((#) x) (stream_all xs)"

definition list_stream ::
  "CliEnv \<Rightarrow> list_call \<Rightarrow> string \<Rightarrow> string \<Rightarrow> ListEntriesRequest \<Rightarrow> string + ProtoConfigEntry list" where
  "list_stream env call failed broken req = (case with_status env failed (call req) of
     Inl e \<Rightarrow> Inl e
   | Inr items \<Rightarrow> with_status env broken (stream_all items))"

definition list_request :: "ProtoScope option \<Rightarrow> u32 option \<Rightarrow> ListEntriesRequest" where
  "list_request scope limit =
     \<lparr>ler_scope = scope, ler_from_sequence = None, ler_to_sequence = None, ler_limit = limit\<rparr>"

definition cli_log :: "CliEnv \<Rightarrow> list_call \<Rightarrow> u32 \<Rightarrow> string option \<Rightarrow> string + string" where
  "cli_log env call limit scope = map_sum id (\<lambda>es.
     if es = [] then ''No entries found.'' else join_with nl (map (format_proto_entry env) es))
     (list_stream env call ''log query failed'' ''log stream error''
       (list_request (map_option parse_scope_filter scope) (Some limit)))"

subsection \<open>Promotion\<close>

fun debug_DeltaAction :: "DeltaAction \<Rightarrow> string" where
  "debug_DeltaAction Add = ''Add''"
| "debug_DeltaAction Remove = ''Remove''"
| "debug_DeltaAction Modify = ''Modify''"

definition cli_proto_to_state_delta :: "ProtoStateDelta \<Rightarrow> StateDelta" where
  "cli_proto_to_state_delta p = \<lparr>
     sd_mounts = map (\<lambda>m. delta_item (proto_action (md_action m)) (md_path m) None None) (psd_mounts p),
     sd_files = map (\<lambda>f. delta_item (proto_action (fd_action f)) (fd_path f) (fd_content_hash f) (fd_owner f))
       (psd_files p),
     sd_network = map (\<lambda>n. delta_item (proto_action (nd_action n)) (nd_interface n) (nd_detail n) None)
       (psd_network p),
     sd_services = map (\<lambda>v. delta_item (proto_action (svd_action v)) (svd_name v) (svd_declared_state v)
       (svd_actual_state v)) (psd_services p),
     sd_kernel = map (\<lambda>k. delta_item (proto_action (kd_action k)) (kd_key k) (kd_declared_value k)
       (kd_actual_value k)) (psd_kernel p),
     sd_packages = map (\<lambda>q. delta_item (proto_action (pkd_action q)) (pkd_name q) (pkd_version q) None)
       (psd_packages p),
     sd_gpu = map (\<lambda>g. delta_item (proto_action (gd_action g)) (show_nat (unat (gd_gpu_index g)))
       (gd_detail g) None) (psd_gpu p)\<rparr>"

definition dquote :: string where
  "dquote = [CHR 0x22]"

definition toml_line :: "DeltaItem \<Rightarrow> string" where
  "toml_line i = (case di_value i of
     Some v \<Rightarrow> di_key i @ '' = '' @ dquote @ v @ dquote @ nl
   | None \<Rightarrow> ''# '' @ di_key i @ '' (action: '' @ debug_DeltaAction (di_action i) @ '')'' @ nl)"

definition write_section :: "string \<Rightarrow> DeltaItem list \<Rightarrow> string" where
  "write_section name items =
     (let active = filter (\<lambda>i. di_action i \<noteq> Remove) items in
      if active = [] then [] else ''['' @ name @ '']'' @ nl @ concat (map toml_line active) @ nl)"

definition export_delta :: "StateDelta \<Rightarrow> string" where
  "export_delta d =
     write_section ''kernel'' (sd_kernel d) @ write_section ''services'' (sd_services d) @
     write_section ''mounts'' (sd_mounts d) @ write_section ''files'' (sd_files d) @
     write_section ''network'' (sd_network d) @ write_section ''packages'' (sd_packages d) @
     write_section ''gpu'' (sd_gpu d)"

definition export_deltas_as_toml :: "StateDelta list \<Rightarrow> string" where
  "export_deltas_as_toml deltas =
     ''# Promoted from node deltas'' @ nl @
     ''# Review and apply with: pact apply <this-file.toml>'' @ nl @ nl @
     concat (map export_delta deltas)"

definition delta_sections :: "StateDelta \<Rightarrow> string list" where
  "delta_sections d =
     (if sd_kernel d = [] then [] else [''kernel'']) @
     (if sd_services d = [] then [] else [''services'']) @
     (if sd_mounts d = [] then [] else [''mounts'']) @
     (if sd_files d = [] then [] else [''files'']) @
     (if sd_network d = [] then [] else [''network'']) @
     (if sd_packages d = [] then [] else [''packages'']) @
     (if sd_gpu d = [] then [] else [''gpu''])"

definition committed_deltas :: "ProtoConfigEntry list \<Rightarrow> StateDelta list" where
  "committed_deltas es = List.map_filter (\<lambda>e.
     if pce_entry_type e = 1 then map_option cli_proto_to_state_delta (pce_state_delta e) else None) es"

definition cli_promote_node :: "CliEnv \<Rightarrow> list_call \<Rightarrow> NodeId \<Rightarrow> bool \<Rightarrow> string + string" where
  "cli_promote_node env call node_id dry_run =
     (case list_stream env call ''promote query failed'' ''promote stream error''
         (list_request (Some (Some (ProtoNodeId node_id))) None) of
        Inl e \<Rightarrow> Inl e
      | Inr es \<Rightarrow>
          let deltas = committed_deltas es; n = show_nat (length deltas) in
          if deltas = [] then Inr (''No committed deltas found for node '' @ node_id @ ''.'')
          else if dry_run then
            let sections = remdups_adj (sort (concat (map delta_sections deltas))) in
            Inr (''DRY RUN '' @ em_dash @ '' would export '' @ n @ '' delta(s) from node '' @ node_id @ nl @
              ''Sections: '' @ (if sections = [] then ''(none)'' else join_with '', '' sections))
          else Inr (''Exported '' @ n @ '' delta(s) from node '' @ node_id @ nl @ nl @
            export_deltas_as_toml deltas))"

subsection \<open>Approvals\<close>

text \<open>
  A slice of a string that does not end between two characters panics: the value \<^const>\<open>None\<close>.
\<close>

definition short_id :: "string \<Rightarrow> string option" where
  "short_id s = (if length s > 10 then (if is_continuation (s ! 10) then None else Some (take 10 s)) else Some s)"

definition approval_row :: "PendingApprovalEntry \<Rightarrow> string option" where
  "approval_row a = map_option (\<lambda>i. pad 12 i @ '' '' @ pad 20 (pae_scope a) @ '' '' @ pad 10 (pae_action a) @
     '' '' @ pad 24 (pae_requester a) @ '' '' @ pae_status a @ nl) (short_id (pae_approval_id a))"

definition cli_approve_list ::
  "CliEnv \<Rightarrow> (string option \<Rightarrow> Status + PendingApprovalEntry list) \<Rightarrow> string option \<Rightarrow> (string + string) option" where
  "cli_approve_list env call scope = (case with_status env ''list approvals failed'' (call scope) of
     Inl e \<Rightarrow> Some (Inl e)
   | Inr approvals \<Rightarrow>
       if approvals = [] then Some (Inr ''No pending approvals.'')
       else map_option (\<lambda>rows. Inr (pad 12 ''ID'' @ '' '' @ pad 20 ''SCOPE'' @ '' '' @ pad 10 ''ACTION'' @ '' '' @
         pad 24 ''REQUESTER'' @ '' STATUS'' @ nl @ concat rows)) (those (map approval_row approvals)))"

definition cli_approve_decide ::
  "CliEnv \<Rightarrow> (DecideApprovalRequest \<Rightarrow> 's \<Rightarrow> 's \<times> (Status + DecideApprovalResponse)) \<Rightarrow> string \<Rightarrow> string \<Rightarrow>
   string \<Rightarrow> string \<Rightarrow> 's \<Rightarrow> 's \<times> (string + string)" where
  "cli_approve_decide env call approval_id decision who role s =
     (case call \<lparr>dar_approval_id = approval_id, dar_approver = Some (human who role),
        dar_decision = decision\<rparr> s of
        (s', r) \<Rightarrow> (s', (case with_status env ''decide approval failed'' r of
           Inl e \<Rightarrow> Inl e
         | Inr result \<Rightarrow>
             if dap_success result then Inr (''Approval '' @ approval_id @ '': '' @ decision)
             else Inl (''approval decision failed: '' @ unknown_error (dap_error result)))))"

subsection \<open>Groups\<close>

record GroupSummary =
  gs_name :: string
  gs_node_count :: u32
  gs_enforcement_mode :: string
  gs_two_person_approval :: bool

definition format_group_list :: "GroupSummary list \<Rightarrow> string" where
  "format_group_list groups =
     (if groups = [] then ''No vClusters configured.''
      else pad 20 ''VCLUSTER'' @ '' '' @ pad 8 ''NODES'' @ '' '' @ pad 12 ''MODE'' @ '' 2PA'' @ nl @
        replicate 52 CHR ''-'' @ nl @
        concat (map (\<lambda>g. pad 20 (gs_name g) @ '' '' @ pad 8 (show_nat (unat (gs_node_count g))) @ '' '' @
          pad 12 (gs_enforcement_mode g) @ '' '' @ (if gs_two_person_approval g then ''yes'' else ''no'') @ nl) groups))"

definition mode_or_observe :: "string \<Rightarrow> string" where
  "mode_or_observe m = (if m = [] then ''observe'' else m)"

definition group_summary :: "(string \<Rightarrow> Status + ProtoVClusterPolicy) \<Rightarrow> string \<Rightarrow> GroupSummary" where
  "group_summary get_policy vc = (case get_policy vc of
     Inr p \<Rightarrow> \<lparr>gs_name = vc, gs_node_count = 0,
       gs_enforcement_mode = mode_or_observe (pvp_enforcement_mode p),
       gs_two_person_approval = pvp_two_person_approval p\<rparr>
   | Inl _ \<Rightarrow> \<lparr>gs_name = vc, gs_node_count = 0, gs_enforcement_mode = ''observe'',
       gs_two_person_approval = False\<rparr>)"

definition entry_vcluster :: "ProtoConfigEntry \<Rightarrow> string option" where
  "entry_vcluster e = (case pce_scope e of Some (Some (ProtoVclusterId vc)) \<Rightarrow> Some vc | _ \<Rightarrow> None)"

definition cli_group_list ::
  "CliEnv \<Rightarrow> list_call \<Rightarrow> (string \<Rightarrow> Status + ProtoVClusterPolicy) \<Rightarrow> string + string" where
  "cli_group_list env call get_policy = map_sum id (\<lambda>es.
     let vcluster_ids = sorted_list_of_set (set (List.map_filter entry_vcluster es)) in
     if vcluster_ids = [] then ''No vClusters configured.''
     else format_group_list (map (group_summary get_policy) vcluster_ids))
     (list_stream env call ''list entries failed'' ''list entries stream error'' (list_request None None))"

text \<open>The policy as it is shown. How a floating point number is printed is an argument.\<close>

definition shown_policy :: "from_timestamp \<Rightarrow> ProtoVClusterPolicy \<Rightarrow> VClusterPolicy" where
  "shown_policy from_ts p = (proto_to_vcluster_policy from_ts p)\<lparr>
     vp_updated_at := Option.bind (pvp_updated_at p) (\<lambda>ts. from_ts (ts_seconds ts) (word_of_int (ts_nanos ts))),
     vp_enforcement_mode := mode_or_observe (pvp_enforcement_mode p),
     vp_supervisor_backend := (if pvp_supervisor_backend p = [] then ''pact'' else pvp_supervisor_backend p)\<rparr>"

definition show_bool :: "bool \<Rightarrow> string" where
  "show_bool b = (if b then ''true'' else ''false'')"

definition format_group_detail :: "(f64_bits \<Rightarrow> string) \<Rightarrow> string \<Rightarrow> VClusterPolicy \<Rightarrow> string list \<Rightarrow> string" where
  "format_group_detail show_f64 name p node_ids =
     ''vCluster: '' @ name @ nl @ ''  enforcement: '' @ vp_enforcement_mode p @ nl @
     ''  two-person approval: '' @ show_bool (vp_two_person_approval p) @ nl @
     ''  base commit window: '' @ show_nat (unat (vp_base_commit_window_seconds p)) @ ''s'' @ nl @
     ''  drift sensitivity: '' @ show_f64 (vp_drift_sensitivity p) @ nl @
     ''  nodes: '' @ show_nat (length node_ids) @ nl @
     concat (map (\<lambda>n. ''    - '' @ n @ nl) node_ids)"

definition cli_group_show ::
  "CliEnv \<Rightarrow> from_timestamp \<Rightarrow> (f64_bits \<Rightarrow> string) \<Rightarrow> (string \<Rightarrow> Status + ProtoVClusterPolicy) \<Rightarrow> string \<Rightarrow>
   string + string" where
  "cli_group_show env from_ts show_f64 get_policy name =
     map_sum id (\<lambda>p. format_group_detail show_f64 name (shown_policy from_ts p) [])
       (with_status env (''get policy for '' @ squote @ name @ squote @ '' failed'') (get_policy name))"

definition policy_message :: "string \<Rightarrow> VClusterPolicy \<Rightarrow> ProtoVClusterPolicy" where
  "policy_message name p = (vcluster_policy_to_proto p)\<lparr>pvp_vcluster_id := name, pvp_updated_at := None\<rparr>"

definition cli_group_set_policy ::
  "CliEnv \<Rightarrow> (string \<Rightarrow> string + VClusterPolicy) \<Rightarrow>
   (UpdatePolicyRequest \<Rightarrow> 's \<Rightarrow> 's \<times> (Status + UpdatePolicyResponse)) \<Rightarrow> string \<Rightarrow> string \<Rightarrow> 's \<Rightarrow>
   's \<times> (string + string)" where
  "cli_group_set_policy env policy_toml call name policy_path s = (case ci_read env policy_path of
     Inl e \<Rightarrow> (s, Inl (''cannot read policy file '' @ policy_path @ '': '' @ e))
   | Inr content \<Rightarrow> (case policy_toml content of
       Inl e \<Rightarrow> (s, Inl (''invalid policy TOML in '' @ policy_path @ '': '' @ e))
     | Inr policy \<Rightarrow>
         (case call \<lparr>upr_vcluster_id = name, upr_policy = Some (policy_message name policy)\<rparr> s of
            (s', r) \<Rightarrow> (s', (case with_status env ''update policy failed'' r of
               Inl e \<Rightarrow> Inl e
             | Inr result \<Rightarrow>
                 if upp_success result then
                   Inr (''Policy updated for vCluster '' @ squote @ name @ squote @ '' (ref: '' @
                     upp_policy_ref result @ '')'')
                 else Inl (''policy update failed: '' @ unknown_error (upp_error result)))))))"

subsection \<open>Watching, and the address of an agent\<close>

definition update_kind_name :: "UpdateKind option \<Rightarrow> string" where
  "update_kind_name u = (case u of
     Some (VclusterChange _) \<Rightarrow> ''OVERLAY'' | Some (NodeChange _) \<Rightarrow> ''NODE_DELTA''
   | Some (PolicyChange _) \<Rightarrow> ''POLICY'' | Some (BlacklistChange _) \<Rightarrow> ''BLACKLIST'' | None \<Rightarrow> ''UNKNOWN'')"

definition watch_line :: "CliEnv \<Rightarrow> ConfigUpdate \<Rightarrow> string" where
  "watch_line env u = ''['' @ show_time env ''%H:%M:%S'' (cu_timestamp u) @ ''] seq:'' @
     pad 6 (show_u64 (cu_sequence u)) @ '' '' @ update_kind_name (cu_update u)"

fun watch_lines :: "CliEnv \<Rightarrow> (Status + ConfigUpdate) list \<Rightarrow> string list" where
  "watch_lines env [] = []"
| "watch_lines env (Inl st # xs) = [''Stream error: '' @ ci_show_status env st]"
| "watch_lines env (Inr u # xs) = watch_line env u # watch_lines env xs"

text \<open>What is printed while watching, and the result.\<close>

definition cli_watch ::
  "CliEnv \<Rightarrow> (EntrySeq \<Rightarrow> Status + (Status + ConfigUpdate) list) \<Rightarrow> string \<Rightarrow> string list \<times> (string + string)" where
  "cli_watch env subscribe vcluster = (case with_status env ''watch subscribe failed'' (subscribe 0) of
     Inl e \<Rightarrow> ([], Inl e)
   | Inr items \<Rightarrow>
       ((''Watching config updates for vCluster: '' @ vcluster @ '' (Ctrl-C to stop)'' @ nl) # watch_lines env items,
        Inr ''Watch ended.''))"

definition resolve_agent_address ::
  "CliEnv \<Rightarrow> (NodeId \<Rightarrow> Status + NodeStateResponse) \<Rightarrow> NodeId \<Rightarrow> string + string" where
  "resolve_agent_address env get_node_state node_id =
     (if node_id = ''local'' \<or> node_id = ''localhost'' then Inr ''http://127.0.0.1:9445''
      else (case get_node_state node_id of
        Inr _ \<Rightarrow> Inr (''http://'' @ node_id @ '':9445'')
      | Inl st \<Rightarrow>
          if status_code st = NotFound then Inr (''http://'' @ node_id @ '':9445'')
          else Inl (''cannot resolve node '' @ squote @ node_id @ squote @ '': '' @ ci_show_status env st)))"

subsection \<open>The journal behind the calls\<close>

definition append_client ::
  "CliEnv \<Rightarrow> string \<Rightarrow> client_write \<Rightarrow> (ConfigEntry \<Rightarrow> bytes) \<Rightarrow> time \<Rightarrow> JournalState append_call" where
  "append_client env token cw to_json now entry =
     submit env token (\<lambda>s. case svc_append_entry cw to_json now (Some entry) s of (s', _, r) \<Rightarrow> (s', r))"

text \<open>
  The requests of the tool name no range, for which \<^const>\<open>svc_list_entries\<close> does not panic.
\<close>

definition list_client :: "CliEnv \<Rightarrow> string \<Rightarrow> JournalState \<Rightarrow> list_call" where
  "list_client env token s req = query env token (case svc_list_entries s req of
     Some es \<Rightarrow> Inr (map Inr es) | None \<Rightarrow> Inr [])"

definition decide_client ::
  "CliEnv \<Rightarrow> string \<Rightarrow> client_write \<Rightarrow> DecideApprovalRequest \<Rightarrow> JournalState \<Rightarrow>
   JournalState \<times> (Status + DecideApprovalResponse)" where
  "decide_client env token cw req = submit env token (svc_decide_approval cw req)"

definition update_policy_client ::
  "CliEnv \<Rightarrow> string \<Rightarrow> client_write \<Rightarrow> from_timestamp \<Rightarrow> UpdatePolicyRequest \<Rightarrow> JournalState \<Rightarrow>
   JournalState \<times> (Status + UpdatePolicyResponse)" where
  "update_policy_client env token cw from_ts req = submit env token (svc_update_policy cw from_ts req)"

definition get_policy_client :: "CliEnv \<Rightarrow> string \<Rightarrow> JournalState \<Rightarrow> string \<Rightarrow> Status + ProtoVClusterPolicy" where
  "get_policy_client env token s vc = query env token (svc_get_effective_policy s vc)"

subsection \<open>What a command leaves in the journal\<close>

definition command_author :: "string \<Rightarrow> string \<Rightarrow> Identity" where
  "command_author who role = \<lparr>id_principal = who, id_principal_type = Human, id_role = role\<rparr>"

text \<open>The entry the journal makes of the message of a command.\<close>

lemma cli_entry_stored:
  assumes "entry_type_of_int n = Some ty"
  shows "proto_to_config_entry now ((cli_entry n vc who role)\<lparr>pce_parent := parent, pce_state_delta := delta,
      pce_policy_ref := ref, pce_emergency_reason := reason\<rparr>) =
    Inr \<lparr>ce_sequence = 0, ce_timestamp = now, ce_entry_type = ty, ce_scope = VCluster vc,
      ce_author = command_author who role, ce_parent = parent,
      ce_state_delta = map_option proto_to_state_delta delta,
      ce_policy_ref = (if ref = [] then None else Some ref), ce_ttl_seconds = None,
      ce_emergency_reason = reason\<rparr>"
  using assms
  by (simp add: proto_to_config_entry_def cli_entry_def human_def kind_to_scope_def command_author_def
      proto_principal_type_def)

text \<open>The change of a specification as it arrives: the values of the mounts are gone.\<close>

definition arrived_delta :: "VClusterSpec \<Rightarrow> StateDelta" where
  "arrived_delta spec = (spec_to_delta spec)\<lparr>
     sd_mounts := map (\<lambda>(path, _). delta_item Add path None None) (vs_mounts spec)\<rparr>"

lemma spec_delta_arrives: "proto_to_state_delta (state_delta_to_proto (spec_to_delta spec)) = arrived_delta spec"
  by (simp add: proto_to_state_delta_def state_delta_to_proto_def spec_to_delta_def arrived_delta_def
      delta_item_def split_beta comp_def proto_action_def)

definition applied_entry :: "time \<Rightarrow> string \<Rightarrow> string \<Rightarrow> string \<Rightarrow> string \<times> VClusterSpec \<Rightarrow> EntrySeq \<Rightarrow> ConfigEntry" where
  "applied_entry now path who role vc q = \<lparr>ce_sequence = q, ce_timestamp = now, ce_entry_type = Commit,
     ce_scope = VCluster (fst vc), ce_author = command_author who role, ce_parent = None,
     ce_state_delta = Some (arrived_delta (snd vc)), ce_policy_ref = Some (''apply:'' @ path),
     ce_ttl_seconds = None, ce_emergency_reason = None\<rparr>"

lemma apply_entry_stored:
  "proto_to_config_entry now (apply_entry path who role vc) = Inr (applied_entry now path who role vc 0)"
  using cli_entry_stored [where n = 1 and ty = Commit and now = now and vc = "fst vc" and who = who and
      role = role and parent = None and ref = "''apply:'' @ path" and reason = None and
      delta = "Some (state_delta_to_proto (spec_to_delta (snd vc)))"]
  by (simp add: apply_entry_def applied_entry_def spec_delta_arrives entry_type_of_int_def cli_entry_def)

text \<open>The journal as a command finds it: other clients write before and after.\<close>

definition busy_append ::
  "CliEnv \<Rightarrow> string \<Rightarrow> Ext \<Rightarrow> (ConfigEntry \<Rightarrow> bytes) \<Rightarrow> log_item list \<times> time \<times> log_item list \<Rightarrow> JournalState append_call" where
  "busy_append env token x to_json others = (case others of (pre, now, post) \<Rightarrow>
     append_client env token (interleaved_write x pre now post) to_json now)"

definition traffic :: "log_item list \<times> time \<times> log_item list \<Rightarrow> nat" where
  "traffic others = (case others of (pre, _, post) \<Rightarrow> length pre + length post + 1)"

lemma svc_append_run:
  assumes "svc_append_entry (interleaved_write x pre now post) to_json now req s = (s', sent, Inr q)"
  shows "\<exists>cmd. s' = run_commands x (pre @ (now, cmd) # post) s"
proof -
  obtain proto entry where "s' = run_commands x post (fst (append_entry entry (run_commands x pre s)))"
    using assms by (rule svc_append_entry_ok)
  then have "s' = run_commands x (pre @ (now, AppendEntry entry) # post) s"
    by (simp add: run_commands_append apply_item_def)
  then show ?thesis ..
qed

lemma busy_append_stores:
  assumes "entries_inv s" "unat (js_next_sequence s) + traffic others < 2 ^ 64"
    and "busy_append env token x to_json others proto s = (s', Inr q)"
  shows "\<exists>entry. usable_token env token \<and> proto_to_config_entry (fst (snd others)) proto = Inr entry \<and>
    bt_get (js_entries s') q = Some (entry\<lparr>ce_sequence := q\<rparr>) \<and> entries_inv s' \<and>
    prefix (js_entries s) (js_entries s') \<and>
    unat (js_next_sequence s') \<le> unat (js_next_sequence s) + traffic others"
proof -
  obtain pre now post where o: "others = (pre, now, post)"
    by (cases others)
  define w where "w = interleaved_write x pre now post"
  have "submit env token (\<lambda>s. case svc_append_entry w to_json now (Some proto) s of (s', _, r) \<Rightarrow> (s', r)) s
      = (s', Inr q)"
    using assms(3) by (simp add: busy_append_def append_client_def o w_def)
  from submit_ok [OF this] obtain sent where tok: "usable_token env token"
    and app: "svc_append_entry w to_json now (Some proto) s = (s', sent, Inr q)"
    by (auto split: prod.splits)
  have bound: "unat (js_next_sequence s) + length pre + length post + 1 < 2 ^ 64"
    using assms(2) by (simp add: o traffic_def)
  obtain entry where entry: "proto_to_config_entry now proto = Inr entry"
    "bt_get (js_entries s') q = Some (entry\<lparr>ce_sequence := q\<rparr>)" "prefix (js_entries s) (js_entries s')"
    using svc_append_entry_stores [OF assms(1) bound app [unfolded w_def]] by blast
  obtain cmd where s': "s' = run_commands x (pre @ (now, cmd) # post) s"
    using svc_append_run [OF app [unfolded w_def]] by blast
  have "entries_inv s' \<and> unat (js_next_sequence s') \<le> unat (js_next_sequence s) + traffic others"
    using entries_run [OF assms(1), of "pre @ (now, cmd) # post" x] bound unfolding s'
    by (simp add: o traffic_def)
  with entry tok show ?thesis
    by (simp add: o)
qed

lemma apply_each_stores:
  assumes "entries_inv s" "unat (js_next_sequence s) + (\<Sum>i<length spec. traffic (others (k + i))) < 2 ^ 64"
    and "apply_each env (\<lambda>k. busy_append env token x to_json (others k)) path who role k spec s = (s', Inr rs)"
  shows "\<exists>qs. length qs = length spec \<and>
    (\<forall>i < length spec. bt_get (js_entries s') (qs ! i) =
       Some (applied_entry (fst (snd (others (k + i)))) path who role (spec ! i) (qs ! i))) \<and>
    prefix (js_entries s) (js_entries s') \<and> entries_inv s' \<and> (spec \<noteq> [] \<longrightarrow> usable_token env token) \<and>
    rs = map2 (\<lambda>vc q. ''Applied to '' @ fst vc @ '' (seq:'' @ show_u64 q @ '')'') spec qs"
  using assms
proof (induction spec arbitrary: k s rs)
  case (Cons vc vcs)
  obtain s1 q rs' where call: "busy_append env token x to_json (others k) (apply_entry path who role vc) s = (s1, Inr q)"
    and rest: "apply_each env (\<lambda>k. busy_append env token x to_json (others k)) path who role (Suc k) vcs s1 = (s', Inr rs')"
    and rs: "rs = (''Applied to '' @ fst vc @ '' (seq:'' @ show_u64 q @ '')'') # rs'"
    using Cons.prems(3) by (auto simp: map_sum_iff split: prod.splits sum.splits)
  have sum: "(\<Sum>i<length (vc # vcs). traffic (others (k + i))) =
      traffic (others k) + (\<Sum>i<length vcs. traffic (others (Suc k + i)))"
    by (simp add: sum.lessThan_Suc_shift del: sum.lessThan_Suc)
  obtain tok: "usable_token env token"
    and get: "bt_get (js_entries s1) q =
      Some ((applied_entry (fst (snd (others k))) path who role vc 0)\<lparr>ce_sequence := q\<rparr>)"
    and s1: "entries_inv s1" "prefix (js_entries s) (js_entries s1)"
      "unat (js_next_sequence s1) \<le> unat (js_next_sequence s) + traffic (others k)"
    using busy_append_stores [OF Cons.prems(1) _ call] Cons.prems(2) sum
    by (auto simp: apply_entry_stored)
  obtain qs where qs: "length qs = length vcs" "prefix (js_entries s1) (js_entries s')" "entries_inv s'"
    "\<forall>i < length vcs. bt_get (js_entries s') (qs ! i) =
       Some (applied_entry (fst (snd (others (Suc k + i)))) path who role (vcs ! i) (qs ! i))"
    "rs' = map2 (\<lambda>vc q. ''Applied to '' @ fst vc @ '' (seq:'' @ show_u64 q @ '')'') vcs qs"
    using Cons.IH [OF s1(1) _ rest] Cons.prems(2) sum s1(3) by auto
  have "bt_get (js_entries s') q = Some (applied_entry (fst (snd (others k))) path who role vc q)"
    using bt_get_prefix [OF entries_inv_bt [OF qs(3)] qs(2) bt_get_in_set [OF entries_inv_bt [OF s1(1)], THEN iffD1, OF get]]
    by (simp add: applied_entry_def)
  then have "\<forall>i < length (vc # vcs). bt_get (js_entries s') ((q # qs) ! i) =
       Some (applied_entry (fst (snd (others (k + i)))) path who role ((vc # vcs) ! i) ((q # qs) ! i))"
    using qs(4) by (auto simp: less_Suc_eq_0_disj)
  moreover have "prefix (js_entries s) (js_entries s')"
    using s1(2) qs(2) by (rule prefix_order.trans)
  ultimately show ?case
    using qs tok rs by (intro exI [of _ "q # qs"]) simp
qed auto

text \<open>
  Applying a specification writes it to the journal: when the command succeeds, whatever other
  clients write meanwhile, every vCluster of the file has an entry, under the number the command
  reports, that commits its change in the name of the caller; nothing that was in the journal is
  lost. The change is the one of the file except for the mounts, which arrive without the source,
  type and options that were declared. The command needs a token that fits a header.
\<close>

theorem cli_apply_stores:
  assumes "entries_inv s" "load_spec env spec_toml path = Inr spec" "spec \<noteq> []"
    and "unat (js_next_sequence s) + (\<Sum>k<length spec. traffic (others k)) < 2 ^ 64"
    and "cli_apply env spec_toml (\<lambda>k. busy_append env token x to_json (others k)) path who role s = (s', Inr out)"
  shows "\<exists>qs. length qs = length spec \<and>
    (\<forall>k < length spec. bt_get (js_entries s') (qs ! k) =
       Some (applied_entry (fst (snd (others k))) path who role (spec ! k) (qs ! k))) \<and>
    prefix (js_entries s) (js_entries s') \<and> usable_token env token \<and>
    out = format_spec_summary spec @ nl @ nl @ join_with nl
      (map2 (\<lambda>vc q. ''Applied to '' @ fst vc @ '' (seq:'' @ show_u64 q @ '')'') spec qs)"
proof -
  obtain rs where "apply_each env (\<lambda>k. busy_append env token x to_json (others k)) path who role 0 spec s = (s', Inr rs)"
    and "out = format_spec_summary spec @ nl @ nl @ join_with nl rs"
    using assms(2,3,5) by (auto simp: cli_apply_def map_sum_iff split: prod.splits)
  with apply_each_stores [OF assms(1) _ this(1)] assms(3,4) show ?thesis
    by auto
qed

definition sample_cli :: CliEnv where
  "sample_cli = \<lparr>ci_config_dir = None, ci_var = (\<lambda>v. None), ci_exists = (\<lambda>p. False),
     ci_read = (\<lambda>p. Inr []), ci_config_toml = (\<lambda>t. Inl []), ci_decode = (\<lambda>t. None),
     ci_header_value = (\<lambda>v. True), ci_show_status = status_message, ci_from_shared = (\<lambda>u. Inr ()),
     ci_tls_config = (\<lambda>t. Inr ()), ci_connect = (\<lambda>u t n. Inr ()), ci_format_time = (\<lambda>f t. None)\<rparr>"

definition sample_spec :: ApplySpec where
  "sample_spec = [(''ml'', \<lparr>vs_sysctl = [(''vm.swappiness'', ''10'')],
     vs_mounts = [(''/scratch'', \<lparr>am_fs_type = ''nfs'', am_source = ''s:/x'', am_options = ''ro''\<rparr>)],
     vs_files = [], vs_services = [], vs_network = [], vs_packages = []\<rparr>)]"

theorem cli_apply_stores_witness:
  "\<exists>s' out qs. cli_apply sample_cli (\<lambda>t. Inr sample_spec)
      (\<lambda>k. busy_append sample_cli ''tok'' sample_ext (\<lambda>e. []) ([], 5, [])) ''f'' ''bob'' ''ops'' default_state
      = (s', Inr out) \<and>
    bt_get (js_entries s') (qs ! 0) = Some (applied_entry 5 ''f'' ''bob'' ''ops'' (sample_spec ! 0) (qs ! 0))"
proof -
  define e where "e = applied_entry 5 ''f'' ''bob'' ''ops'' (hd sample_spec) 0"
  have tok: "usable_token sample_cli ''tok''"
    by (simp add: usable_token_def sample_cli_def)
  have load: "load_spec sample_cli (\<lambda>t. Inr sample_spec) ''f'' = Inr sample_spec"
    by (simp add: load_spec_def sample_cli_def)
  have "snd (apply_command sample_ext 5 (AppendEntry e) default_state) = EntryAppended 0"
    by (simp add: e_def applied_entry_def command_author_def append_entry_def parent_ok_def ttl_too_short_def
        ttl_too_long_def TTL_MIN_SECONDS_def TTL_MAX_SECONDS_def default_state_def Let_def)
  then obtain s' where "busy_append sample_cli ''tok'' sample_ext (\<lambda>e. []) ([], 5, [])
      (apply_entry ''f'' ''bob'' ''ops'' (hd sample_spec)) default_state = (s', Inr 0)"
    by (simp add: busy_append_def append_client_def tok svc_append_entry_def apply_entry_stored
        interleaved_write_def flip: e_def)
  then obtain out where r: "cli_apply sample_cli (\<lambda>t. Inr sample_spec)
      (\<lambda>k. busy_append sample_cli ''tok'' sample_ext (\<lambda>e. []) ([], 5, [])) ''f'' ''bob'' ''ops'' default_state
      = (s', Inr out)"
    unfolding cli_apply_def load by (simp add: sample_spec_def)
  have "unat (js_next_sequence default_state) + (\<Sum>k<length sample_spec. traffic ([], 5, [])) < 2 ^ 64"
    by (simp add: sample_spec_def traffic_def)
  from cli_apply_stores [OF entries_inv_default load _ this r] r show ?thesis
    by (auto simp: sample_spec_def)
qed

end
