(* ===== verification/Cli_Node.thy ===== *)
theory Cli_Node
  imports Cli_Journal Node_Identity
begin

text \<open>
  The commands of the command line tool for nodes, \<open>crates/pact-cli/src/commands/node.rs\<close>:
  registration, assignment, listings, and the import of an inventory. The enrollment service is
  not behind the interceptor of the journal: its handlers receive the header of the tool. The
  inventory service is the record \<open>Smd\<close>.
\<close>

subsection \<open>Calls\<close>

type_synonym ('s, 'a) journal_call = "'s \<Rightarrow> 's \<times> (Status + 'a)"

definition enrollment_call :: "CliEnv \<Rightarrow> string \<Rightarrow> (auth_header \<Rightarrow> ('s, 'a) journal_call) \<Rightarrow> ('s, 'a) journal_call" where
  "enrollment_call env token handler s = (case client_header env token of
     Inl st \<Rightarrow> (s, Inl st) | Inr h \<Rightarrow> handler h s)"

definition report :: "CliEnv \<Rightarrow> ('a \<Rightarrow> string) \<Rightarrow> 's \<times> (Status + 'a) \<Rightarrow> 's \<times> (string + string)" where
  "report env show_ok r = (case r of (s, a) \<Rightarrow> (s, map_sum (ci_show_status env) show_ok a))"

definition cli_hardware :: "string \<Rightarrow> string \<Rightarrow> ProtoHardwareIdentity" where
  "cli_hardware mac bmc_serial = \<lparr>phw_mac_address = mac, phw_bmc_serial = bmc_serial, phw_extra = []\<rparr>"

subsection \<open>Commands on one node\<close>

definition cli_enroll ::
  "CliEnv \<Rightarrow> (NodeId \<Rightarrow> ProtoHardwareIdentity option \<Rightarrow> ('s, NodeId \<times> string) journal_call) \<Rightarrow> NodeId \<Rightarrow> string \<Rightarrow>
   string option \<Rightarrow> 's \<Rightarrow> 's \<times> (string + string)" where
  "cli_enroll env register node_id mac bmc_serial s =
     report env (\<lambda>(n, state). ''Enrolled node '' @ n @ '' '' @ em_dash @ '' state: '' @ state)
       (register node_id (Some (cli_hardware mac (or_empty bmc_serial))) s)"

definition decommission_text :: "DecommissionResponse \<Rightarrow> string" where
  "decommission_text resp =
     ''Decommissioned node '' @ dr_node_id resp @ '' '' @ em_dash @ '' state: '' @ dr_enrollment_state resp @
     (if dr_cert_serial_revoked resp = [] then []
      else nl @ ''  Certificate revoked: '' @ dr_cert_serial_revoked resp) @
     (if dr_sessions_terminated resp > 0
      then nl @ ''  Sessions terminated: '' @ show_nat (unat (dr_sessions_terminated resp)) else [])"

definition cli_decommission ::
  "CliEnv \<Rightarrow> (NodeId \<Rightarrow> bool \<Rightarrow> ('s, DecommissionResponse) journal_call) \<Rightarrow> NodeId \<Rightarrow> bool \<Rightarrow> 's \<Rightarrow>
   's \<times> (string + string)" where
  "cli_decommission env call node_id force s = report env decommission_text (call node_id force s)"

definition cli_assign ::
  "CliEnv \<Rightarrow> (NodeId \<Rightarrow> VClusterId \<Rightarrow> ('s, NodeId \<times> VClusterId) journal_call) \<Rightarrow> NodeId \<Rightarrow> VClusterId \<Rightarrow> 's \<Rightarrow>
   's \<times> (string + string)" where
  "cli_assign env call node_id vcluster_id s =
     report env (\<lambda>(n, vc). ''Assigned node '' @ n @ '' to vCluster '' @ vc) (call node_id vcluster_id s)"

definition cli_unassign ::
  "CliEnv \<Rightarrow> (NodeId \<Rightarrow> ('s, NodeId) journal_call) \<Rightarrow> NodeId \<Rightarrow> 's \<Rightarrow> 's \<times> (string + string)" where
  "cli_unassign env call node_id s =
     report env (\<lambda>n. ''Unassigned node '' @ n @ '' from vCluster'') (call node_id s)"

definition cli_move_node ::
  "CliEnv \<Rightarrow> (NodeId \<Rightarrow> VClusterId \<Rightarrow> ('s, NodeId \<times> VClusterId \<times> VClusterId) journal_call) \<Rightarrow> NodeId \<Rightarrow>
   VClusterId \<Rightarrow> 's \<Rightarrow> 's \<times> (string + string)" where
  "cli_move_node env call node_id to_vcluster s =
     report env (\<lambda>(n, from_vc, to_vc). ''Moved node '' @ n @ '' from '' @ from_vc @ '' to '' @ to_vc)
       (call node_id to_vcluster s)"

definition if_empty :: "string \<Rightarrow> string \<Rightarrow> string" where
  "if_empty s alt = (if s = [] then alt else s)"

definition node_row :: "NodeSummary \<Rightarrow> string" where
  "node_row n = pad 20 (su_node_id n) @ '' '' @ pad 12 (su_enrollment_state n) @ '' '' @
     pad 20 (if_empty (su_vcluster_id n) ''(none)'') @ '' '' @ pad 20 (if_empty (su_last_seen n) ''-'') @ '' '' @
     su_mac_address n @ nl"

definition cli_node_list ::
  "CliEnv \<Rightarrow> (ListNodesRequest \<Rightarrow> Status + NodeSummary list) \<Rightarrow> string option \<Rightarrow> string option \<Rightarrow> bool \<Rightarrow> string + string" where
  "cli_node_list env call state_filter vcluster_filter unassigned_only =
     map_sum (ci_show_status env) (\<lambda>nodes.
       if nodes = [] then ''No nodes found.''
       else pad 20 ''NODE ID'' @ '' '' @ pad 12 ''STATE'' @ '' '' @ pad 20 ''VCLUSTER'' @ '' '' @
         pad 20 ''LAST SEEN'' @ '' MAC'' @ nl @ replicate 90 CHR ''-'' @ nl @ concat (map node_row nodes))
       (call \<lparr>ln_state_filter = or_empty state_filter, ln_vcluster_filter = or_empty vcluster_filter,
          ln_unassigned_only = unassigned_only\<rparr>)"

definition inspect_text :: "InspectNodeResponse \<Rightarrow> string" where
  "inspect_text r =
     ''Node: '' @ in_node_id r @ nl @
     ''  Domain:            '' @ in_domain_id r @ nl @
     ''  Enrollment State:  '' @ in_enrollment_state r @ nl @
     ''  MAC Address:       '' @ phw_mac_address (in_hardware_identity r) @ nl @
     (if phw_bmc_serial (in_hardware_identity r) = [] then []
      else ''  BMC Serial:        '' @ phw_bmc_serial (in_hardware_identity r) @ nl) @
     ''  vCluster:          '' @ if_empty (in_vcluster_id r) ''(none)'' @ nl @
     (if in_cert_serial r = [] then []
      else ''  Certificate:       '' @ in_cert_serial r @ nl @
           ''  Cert Expires:      '' @ in_cert_expires_at r @ nl) @
     (if in_last_seen r = [] then [] else ''  Last Seen:         '' @ in_last_seen r @ nl) @
     ''  Enrolled At:       '' @ in_enrolled_at r @ nl @
     ''  Enrolled By:       '' @ in_enrolled_by r @ nl @
     (if in_active_sessions r > 0
      then ''  Active Sessions:   '' @ show_nat (unat (in_active_sessions r)) @ nl else [])"

definition cli_inspect ::
  "CliEnv \<Rightarrow> (NodeId \<Rightarrow> Status + InspectNodeResponse) \<Rightarrow> NodeId \<Rightarrow> string + string" where
  "cli_inspect env call node_id = map_sum (ci_show_status env) inspect_text (call node_id)"

subsection \<open>Import of an inventory\<close>

record SmdComponent =
  sm_id :: string
  sm_state :: string
  sm_component_type :: string
  sm_role :: string

record SmdEthernetInterface =
  si_id :: string
  si_mac_address :: string
  si_component_id :: string

text \<open>
  An HTTP answer: whether the status is a success, the status as it is printed, and the body as
  it is decoded.
\<close>

record 'a SmdAnswer =
  sa_success :: bool
  sa_status :: string
  sa_json :: "string + 'a"

record Smd =
  sd_client :: "string + unit"
  sd_prefix :: "string option"
  sd_components :: "string \<Rightarrow> string option \<Rightarrow> string + SmdComponent list SmdAnswer"
  sd_ethernet :: "string \<Rightarrow> string option \<Rightarrow> string + SmdEthernetInterface list SmdAnswer"

definition hsm_url :: "Smd \<Rightarrow> string \<Rightarrow> string \<Rightarrow> string" where
  "hsm_url smd smd_url path = trim_end_char CHR ''/'' smd_url @
     (case sd_prefix smd of Some p \<Rightarrow> p | None \<Rightarrow> ''/hsm/v2'') @ path"

definition query_smd_components ::
  "Smd \<Rightarrow> string \<Rightarrow> string option \<Rightarrow> string option \<Rightarrow> string + SmdComponent list" where
  "query_smd_components smd smd_url token grp = (case sd_client smd of
     Inl e \<Rightarrow> Inl e
   | Inr _ \<Rightarrow> (case sd_components smd (hsm_url smd smd_url ''/State/Components?type=Node'')
         (map_option (\<lambda>t. ''Bearer '' @ t) token) of
       Inl e \<Rightarrow> Inl e
     | Inr resp \<Rightarrow>
         if \<not> sa_success resp then Inl (''SMD components query failed: HTTP '' @ sa_status resp)
         else (case sa_json resp of
           Inl e \<Rightarrow> Inl e
         | Inr components \<Rightarrow> Inr (case grp of
             Some g \<Rightarrow> filter (\<lambda>c. eq_ignore_ascii_case (sm_role c) g) components
           | None \<Rightarrow> components))))"

definition query_smd_ethernet ::
  "Smd \<Rightarrow> string \<Rightarrow> string option \<Rightarrow> string \<Rightarrow> string + SmdEthernetInterface list" where
  "query_smd_ethernet smd smd_url token component_id = (case sd_client smd of
     Inl e \<Rightarrow> Inl e
   | Inr _ \<Rightarrow> (case sd_ethernet smd
         (hsm_url smd smd_url (''/Inventory/EthernetInterfaces?ComponentID='' @ component_id))
         (map_option (\<lambda>t. ''Bearer '' @ t) token) of
       Inl e \<Rightarrow> Inl e
     | Inr resp \<Rightarrow>
         if \<not> sa_success resp then Inr []
         else Inr (case sa_json resp of Inl e \<Rightarrow> [] | Inr interfaces \<Rightarrow> interfaces)))"

definition parse_smd_enrollment_data ::
  "SmdComponent list \<Rightarrow> SmdEthernetInterface list \<Rightarrow> (string \<times> string) list" where
  "parse_smd_enrollment_data components interfaces = map (\<lambda>c.
     (sm_id c, or_empty (map_option si_mac_address (find (\<lambda>i. si_component_id i = sm_id c) interfaces)))) components"

record ImportCounts =
  ip_enrolled :: u32
  ip_already_enrolled :: u32
  ip_failed :: u32
  ip_errors :: "string list"

definition import_start :: ImportCounts where
  "import_start = \<lparr>ip_enrolled = 0, ip_already_enrolled = 0, ip_failed = 0, ip_errors = []\<rparr>"

definition counts_already :: "string \<Rightarrow> bool" where
  "counts_already msg \<longleftrightarrow> contains msg ''already enrolled'' \<or> contains msg ''already registered''"

definition import_one :: "NodeId \<Rightarrow> Status + 'a \<Rightarrow> ImportCounts \<Rightarrow> ImportCounts" where
  "import_one node_id r acc = (case r of
     Inr _ \<Rightarrow> acc\<lparr>ip_enrolled := ip_enrolled acc + 1\<rparr>
   | Inl st \<Rightarrow>
       if counts_already (status_message st)
       then acc\<lparr>ip_already_enrolled := ip_already_enrolled acc + 1\<rparr>
       else acc\<lparr>ip_failed := ip_failed acc + 1,
         ip_errors := ip_errors acc @ [''  '' @ node_id @ '': '' @ status_message st]\<rparr>)"

fun import_each ::
  "(nat \<Rightarrow> NodeId \<Rightarrow> ProtoHardwareIdentity option \<Rightarrow> ('s, 'a) journal_call) \<Rightarrow> nat \<Rightarrow> (string \<times> string) list \<Rightarrow>
   ImportCounts \<Rightarrow> 's \<Rightarrow> 's \<times> ImportCounts" where
  "import_each register k [] acc s = (s, acc)"
| "import_each register k ((node_id, mac) # nodes) acc s =
     (case register k node_id (Some (cli_hardware mac [])) s of
        (s', r) \<Rightarrow> import_each register (Suc k) nodes (import_one node_id r acc) s')"

definition import_text :: "nat \<Rightarrow> ImportCounts \<Rightarrow> string" where
  "import_text discovered c =
     ''Imported from SMD: '' @ show_nat (unat (ip_enrolled c)) @ '' enrolled, '' @
     show_nat (unat (ip_already_enrolled c)) @ '' already enrolled, '' @
     show_nat (unat (ip_failed c)) @ '' failed (out of '' @ show_nat discovered @ '' discovered)'' @
     concat (map (\<lambda>e. nl @ e) (ip_errors c))"

fun query_all :: "('a \<Rightarrow> string + 'b list) \<Rightarrow> 'a list \<Rightarrow> string + 'b list" where
  "query_all q [] = Inr []"
| "query_all q (c # cs) = (case q c of
     Inl e \<Rightarrow> Inl e | Inr is \<Rightarrow> map_sum id ((@) is) (query_all q cs))"

definition import_from_smd ::
  "Smd \<Rightarrow> (nat \<Rightarrow> NodeId \<Rightarrow> ProtoHardwareIdentity option \<Rightarrow> ('s, 'a) journal_call) \<Rightarrow> string \<Rightarrow> string option \<Rightarrow>
   string option \<Rightarrow> 's \<Rightarrow> 's \<times> (string + string)" where
  "import_from_smd smd register smd_url token grp s = (case query_smd_components smd smd_url token grp of
     Inl e \<Rightarrow> (s, Inl e)
   | Inr components \<Rightarrow>
       if components = [] then (s, Inr ''No nodes found in SMD inventory.'')
       else (case query_all (\<lambda>c. query_smd_ethernet smd smd_url token (sm_id c)) components of
         Inl e \<Rightarrow> (s, Inl e)
       | Inr interfaces \<Rightarrow>
           let data = parse_smd_enrollment_data components interfaces in
           (case import_each register 0 data import_start s of
              (s', c) \<Rightarrow> (s', Inr (import_text (length data) c)))))"

definition register_client ::
  "CliEnv \<Rightarrow> string \<Rightarrow> EnrollEnv \<Rightarrow> NodeId \<Rightarrow> ProtoHardwareIdentity option \<Rightarrow> (JournalState, NodeId \<times> string) journal_call" where
  "register_client env token ev n hw = enrollment_call env token (\<lambda>h. svc_register_node ev h n hw)"

subsection \<open>Import\<close>

abbreviation known :: "JournalState \<Rightarrow> NodeId \<Rightarrow> bool" where
  "known s n \<equiv> hm_contains (js_enrollments s) n"

lemma register_node_new:
  assumes "register_node e s = (s', EnrollmentResult m st vc)"
  shows "\<not> known s (ne_node_id e) \<and> known s' (ne_node_id e)"
  using assms by (auto simp: register_node_def hm_contains_def Let_def split: if_splits option.splits)

lemma register_client_known:
  assumes "raft_client x (ev_write ev 0)"
  shows "known s m \<Longrightarrow> known (fst (register_client env token ev n hw s)) m"
    and "register_client env token ev n hw s = (s', Inr r) \<Longrightarrow> \<not> known s n \<and> known s' n"
proof -
  have run: "\<exists>is. fst (ev_write ev 0 c s) = run_commands x is s" for c
    by (rule raft_client.write_run [OF assms])
  have "fst (register_client env token ev n hw s) = s \<or>
      (\<exists>c. fst (register_client env token ev n hw s) = fst (ev_write ev 0 c s))"
    by (auto simp: register_client_def enrollment_call_def svc_register_node_def
        split: sum.splits option.splits prod.splits JournalResponse.splits) (metis fst_conv)+
  then show "known s m \<Longrightarrow> known (fst (register_client env token ev n hw s)) m"
    using run known_run by metis
  assume "register_client env token ev n hw s = (s', Inr r)"
  then obtain e st vc m where w: "ev_write ev 0 (RegisterNode e) s = (s', Inr (EnrollmentResult m st vc))"
    and n: "ne_node_id e = n"
    by (auto simp: register_client_def enrollment_call_def svc_register_node_def new_enrollment_def
        split: sum.splits option.splits prod.splits JournalResponse.splits)
  obtain pre now post where s': "s' = run_commands x (pre @ (now, RegisterNode e) # post) s"
    and r: "EnrollmentResult m st vc = snd (apply_command x now (RegisterNode e) (run_commands x pre s))"
    using raft_client.write_ok [OF assms w] by blast
  define s1 where "s1 = run_commands x pre s"
  have "\<not> known s1 n \<and> known (fst (register_node e s1)) n"
    using register_node_new [of e s1 "fst (register_node e s1)" m st vc] r n by (simp add: s1_def prod_eq_iff)
  then show "\<not> known s n \<and> known s' n"
    using known_run [of s n x pre] known_run [of "fst (register_node e s1)" n x post]
    by (auto simp: s' s1_def run_commands_append apply_item_def)
qed

lemma import_each_counts:
  assumes "\<And>k. raft_client x (ev_write (evs k) 0)"
  shows "import_each (\<lambda>k. register_client env token (evs k)) k data acc s = (s', c) \<Longrightarrow>
    \<exists>E a es. E \<subseteq> set (map fst data) \<and> (\<forall>n \<in> E. \<not> known s n \<and> known s' n) \<and> (\<forall>n. known s n \<longrightarrow> known s' n) \<and>
      c = acc\<lparr>ip_enrolled := ip_enrolled acc + of_nat (card E),
        ip_already_enrolled := ip_already_enrolled acc + of_nat a,
        ip_failed := ip_failed acc + of_nat (length es), ip_errors := ip_errors acc @ es\<rparr> \<and>
      card E + a + length es = length data"
proof (induction data arbitrary: k acc s)
  case Nil
  then show ?case
    by (intro exI [of _ "{}"] exI [of _ 0] exI [of _ "[]"]) simp
next
  case (Cons d data)
  obtain n mac where d: "d = (n, mac)"
    by (cases d)
  define call where "call = register_client env token (evs k) n (Some (cli_hardware mac []))"
  obtain s1 r where call: "call s = (s1, r)"
    by (cases "call s")
  have rest: "import_each (\<lambda>k. register_client env token (evs k)) (Suc k) data (import_one n r acc) s1 = (s', c)"
    using Cons.prems call by (simp add: d call_def)
  obtain E a es where IH: "E \<subseteq> set (map fst data)" "\<forall>m \<in> E. \<not> known s1 m \<and> known s' m"
    "\<forall>m. known s1 m \<longrightarrow> known s' m"
    "c = (import_one n r acc)\<lparr>ip_enrolled := ip_enrolled (import_one n r acc) + of_nat (card E),
        ip_already_enrolled := ip_already_enrolled (import_one n r acc) + of_nat a,
        ip_failed := ip_failed (import_one n r acc) + of_nat (length es),
        ip_errors := ip_errors (import_one n r acc) @ es\<rparr>"
    "card E + a + length es = length data"
    using Cons.IH [OF rest] by blast
  have mono: "known s m \<Longrightarrow> known s1 m" for m
    using register_client_known(1) [OF assms, of s m env token k n "Some (cli_hardware mac [])"] call
    by (simp add: call_def)
  have fin: "finite E"
    using IH(1) finite_subset by auto
  show ?case
  proof (cases r)
    case (Inr v)
    then have new: "\<not> known s n \<and> known s1 n"
      using register_client_known(2) [OF assms] call by (simp add: call_def)
    then have "n \<notin> E"
      using IH(2) by auto
    with new Inr IH mono fin show ?thesis
      by (intro exI [of _ "insert n E"] exI [of _ a] exI [of _ es]) (auto simp: d import_one_def algebra_simps)
  next
    case (Inl st)
    show ?thesis
    proof (cases "counts_already (status_message st)")
      case True
      with Inl IH mono show ?thesis
        by (intro exI [of _ E] exI [of _ "Suc a"] exI [of _ es]) (auto simp: d import_one_def algebra_simps)
    next
      case False
      with Inl IH mono show ?thesis
        by (intro exI [of _ E] exI [of _ a] exI [of _ "(''  '' @ n @ '': '' @ status_message st) # es"])
          (auto simp: d import_one_def algebra_simps)
    qed
  qed
qed

text \<open>
  The report of an import accounts for every node of the inventory: the three numbers add up
  to the number discovered, every failure is listed, and each node reported as enrolled was
  unknown to the journal before and is known to it afterwards, whatever other clients write.
\<close>

theorem import_accounts_for_all:
  assumes "\<And>k. raft_client x (ev_write (evs k) 0)"
    and "query_smd_components smd url tok grp = Inr components" "components \<noteq> []" "length components < 2 ^ 32"
    and "import_from_smd smd (\<lambda>k. register_client env token (evs k)) url tok grp s = (s', Inr out)"
  shows "\<exists>c. out = import_text (length components) c \<and>
    unat (ip_enrolled c) + unat (ip_already_enrolled c) + unat (ip_failed c) = length components \<and>
    length (ip_errors c) = unat (ip_failed c) \<and>
    unat (ip_enrolled c) \<le> card {n \<in> set (map sm_id components). \<not> known s n \<and> known s' n}"
proof -
  obtain interfaces c where out: "out = import_text (length (parse_smd_enrollment_data components interfaces)) c"
    and run: "import_each (\<lambda>k. register_client env token (evs k)) 0
      (parse_smd_enrollment_data components interfaces) import_start s = (s', c)"
    using assms(2,3,5) by (auto simp: import_from_smd_def Let_def split: sum.splits prod.splits)
  have data: "map fst (parse_smd_enrollment_data components interfaces) = map sm_id components"
    "length (parse_smd_enrollment_data components interfaces) = length components"
    by (simp_all add: parse_smd_enrollment_data_def)
  obtain E a es where E: "E \<subseteq> set (map sm_id components)" "\<forall>n \<in> E. \<not> known s n \<and> known s' n"
    and c: "c = \<lparr>ip_enrolled = of_nat (card E), ip_already_enrolled = of_nat a, ip_failed = of_nat (length es),
      ip_errors = es\<rparr>" and total: "card E + a + length es = length components"
    using import_each_counts [OF assms(1) run] unfolding data by (auto simp: import_start_def)
  have "card E \<le> card {n \<in> set (map sm_id components). \<not> known s n \<and> known s' n}"
    by (rule card_mono) (use E in auto)
  moreover have "unat (of_nat (card E) :: u32) = card E" "unat (of_nat a :: u32) = a"
    "unat (of_nat (length es) :: u32) = length es"
    using total assms(4) by (simp_all add: unsigned_of_nat take_bit_nat_eq_self)
  ultimately show ?thesis
    using out c total data(2) by (intro exI [of _ c]) simp
qed

definition sample_smd :: Smd where
  "sample_smd = \<lparr>sd_client = Inr (), sd_prefix = None,
     sd_components = (\<lambda>u t. Inr \<lparr>sa_success = True, sa_status = ''200 OK'',
       sa_json = Inr [\<lparr>sm_id = ''x1'', sm_state = ''Ready'', sm_component_type = ''Node'', sm_role = ''Compute''\<rparr>]\<rparr>),
     sd_ethernet = (\<lambda>u t. Inr \<lparr>sa_success = False, sa_status = ''404 Not Found'', sa_json = Inl []\<rparr>)\<rparr>"

theorem import_accounts_for_all_witness:
  "\<exists>s' out c. import_from_smd sample_smd (\<lambda>k. register_client sample_cli ''tok'' sample_env) ''u'' None None default_state
      = (s', Inr out) \<and> out = import_text 1 c \<and>
    unat (ip_enrolled c) + unat (ip_already_enrolled c) + unat (ip_failed c) = 1"
proof -
  have q: "query_smd_components sample_smd ''u'' None None =
      Inr [\<lparr>sm_id = ''x1'', sm_state = ''Ready'', sm_component_type = ''Node'', sm_role = ''Compute''\<rparr>]"
    by (simp add: query_smd_components_def sample_smd_def)
  have e: "query_smd_ethernet sample_smd ''u'' None i = Inr []" for i
    by (simp add: query_smd_ethernet_def sample_smd_def)
  obtain s' out where r: "import_from_smd sample_smd (\<lambda>k. register_client sample_cli ''tok'' sample_env) ''u'' None
      None default_state = (s', Inr out)"
    by (cases "import_each (\<lambda>k. register_client sample_cli ''tok'' sample_env) 0 (parse_smd_enrollment_data
      [\<lparr>sm_id = ''x1'', sm_state = ''Ready'', sm_component_type = ''Node'', sm_role = ''Compute''\<rparr>] [])
      import_start default_state") (auto simp: import_from_smd_def q e Let_def)
  have "raft_client sample_ext (ev_write sample_env 0)"
    by (simp add: sample_env_def interleaved.raft_client_axioms)
  from import_accounts_for_all [OF this q _ _ r] r show ?thesis
    by auto
qed

text \<open>
  What is counted as already enrolled is not that: the journal refuses a known node with the code
  \<open>NODE_ALREADY_ENROLLED\<close>, which is counted as a failure, and hardware that belongs to another
  node with the words \<open>already registered\<close>, which is counted as enrolled.
\<close>

lemma contains_skip:
  assumes "c \<notin> set p"
  shows "contains (p @ s) (c # q) \<longleftrightarrow> contains s (c # q)"
  using assms
proof (induction p)
  case (Cons a p)
  then show ?case
    by (auto simp: contains_def sublist_Cons_right)
qed simp

lemma import_misreports:
  assumes "usable_token env token" "ev_validate ev token = Inr admin" "id_role admin = ''pact-platform-admin''"
    and "ev_write ev 0 = interleaved_write x [] now []"
  shows "known s n \<Longrightarrow> \<not> counts_already n \<Longrightarrow>
      ip_failed (import_one n (snd (register_client env token ev n (Some hw) s)) acc) = ip_failed acc + 1"
    and "\<not> known s n \<Longrightarrow> hm_get (js_hw_index s) (hw_canonical_key (proto_hw_to_domain hw)) = Some other \<Longrightarrow>
      ip_already_enrolled (import_one n (snd (register_client env token ev n (Some hw) s)) acc) =
        ip_already_enrolled acc + 1"
proof -
  have call: "register_client env token ev n (Some hw) s =
      (case register_node (new_enrollment ev admin n hw) s of
         (s1, EnrollmentResult m st _) \<Rightarrow> (s1, Inr (m, debug_EnrollmentState st))
       | (s1, ValidationError reason) \<Rightarrow> (s1, Inl (Status FailedPrecondition reason))
       | (s1, _) \<Rightarrow> (s1, Inl (internal ''unexpected Raft response'')))"
    using assms
    by (auto simp: register_client_def enrollment_call_def usable_token_def client_header_def svc_register_node_def
        authenticate_admin_def authenticate_def extract_token_def strip_prefix_def validate_token_str_def
        interleaved_write_def apply_item_def split: prod.splits JournalResponse.splits)
  have a: "contains (''NODE_ALREADY_ENROLLED: '' @ n) (CHR ''a'' # q) \<longleftrightarrow> contains n (CHR ''a'' # q)" for q
    by (rule contains_skip) simp
  show "known s n \<Longrightarrow> \<not> counts_already n \<Longrightarrow>
      ip_failed (import_one n (snd (register_client env token ev n (Some hw) s)) acc) = ip_failed acc + 1"
    using a by (simp add: call register_node_def new_enrollment_def import_one_def counts_already_def)
  have "contains (''HARDWARE_IDENTITY_CONFLICT: hardware already registered to '' @ other) ''already registered''"
    unfolding contains_def sublist_def
    by (rule exI [of _ "''HARDWARE_IDENTITY_CONFLICT: hardware ''"], rule exI [of _ "'' to '' @ other"]) simp
  then show "\<not> known s n \<Longrightarrow> hm_get (js_hw_index s) (hw_canonical_key (proto_hw_to_domain hw)) = Some other \<Longrightarrow>
      ip_already_enrolled (import_one n (snd (register_client env token ev n (Some hw) s)) acc) =
        ip_already_enrolled acc + 1"
    by (simp add: call register_node_def new_enrollment_def import_one_def counts_already_def Let_def)
qed

end
