(* ===== verification/Cli_Agent.thy ===== *)
theory Cli_Agent
  imports Cli_Journal Shell_Service
begin

text \<open>
  The commands of the command line tool that talk to an agent: the second part of \<open>execute.rs\<close>,
  \<open>exec.rs\<close> and \<open>diag.rs\<close> under \<open>crates/pact-cli/src/commands\<close>. A command is a function of the call
  it makes; a stream is the list of its items, each an error or a message that may be empty. The
  calls are connected to the shell service of the agent below.
\<close>

subsection \<open>Calls\<close>

text \<open>The agent gets the header that the interceptor of the client wrote.\<close>

definition agent_header :: "auth_header \<Rightarrow> string option" where
  "agent_header h = (case h of Some (Some v) \<Rightarrow> Some v | _ \<Rightarrow> None)"

definition call_agent :: "CliEnv \<Rightarrow> string \<Rightarrow> (string option \<Rightarrow> 's \<Rightarrow> 's \<times> (Status + 'a)) \<Rightarrow> 's \<Rightarrow> 's \<times> (Status + 'a)" where
  "call_agent env token handler s = (case client_header env token of
     Inl st \<Rightarrow> (s, Inl st) | Inr h \<Rightarrow> handler (agent_header h) s)"

subsection \<open>Running a command\<close>

definition parse_exec_command :: "string list \<Rightarrow> string + string \<times> string list" where
  "parse_exec_command parts = (case parts of [] \<Rightarrow> Inl ''No command specified'' | c # args \<Rightarrow> Inr (c, args))"

fun exec_collect ::
  "CliEnv \<Rightarrow> (Status + ExecOutput option) list \<Rightarrow> bytes \<times> bytes \<times> int \<Rightarrow> string + bytes \<times> bytes \<times> int" where
  "exec_collect env [] acc = Inr acc"
| "exec_collect env (Inl st # items) acc = Inl (''exec stream error: '' @ ci_show_status env st)"
| "exec_collect env (Inr None # items) acc = exec_collect env items acc"
| "exec_collect env (Inr (Some (ExecStdout d)) # items) (stdout, stderr, code) =
     exec_collect env items (stdout @ d, stderr, code)"
| "exec_collect env (Inr (Some (ExecStderr d)) # items) (stdout, stderr, code) =
     exec_collect env items (stdout, stderr @ d, code)"
| "exec_collect env (Inr (Some (ExecExitCode c)) # items) (stdout, stderr, code) =
     exec_collect env items (stdout, stderr, c)"
| "exec_collect env (Inr (Some (ExecErrorText e)) # items) acc = Inl e"

definition bytes_text :: "bytes \<Rightarrow> string" where
  "bytes_text b = from_utf8_lossy (map (\<lambda>w. char_of (unat w)) b)"

definition exec_text :: "bytes \<Rightarrow> bytes \<Rightarrow> int \<Rightarrow> string" where
  "exec_text stdout stderr exit_code =
     (let out = (if stdout = [] then [] else bytes_text stdout);
          out = (if stderr = [] then out
                 else (if out = [] then [] else out @ nl) @ bytes_text stderr)
      in if exit_code = 0 then out else out @ nl @ ''(exit code: '' @ show_int exit_code @ '')'')"

type_synonym 's exec_call =
  "string option \<Rightarrow> string \<Rightarrow> string list \<Rightarrow> 's \<Rightarrow> 's \<times> (Status + (Status + ExecOutput option) list)"

definition exec_remote ::
  "CliEnv \<Rightarrow> string \<Rightarrow> 's exec_call \<Rightarrow> string \<Rightarrow> string list \<Rightarrow> 's \<Rightarrow> 's \<times> (string + string)" where
  "exec_remote env token exec command args s =
     (case call_agent env token (\<lambda>h. exec h command args) s of
        (s', r) \<Rightarrow> (s', case with_status env ''exec failed'' r of
           Inl e \<Rightarrow> Inl e
         | Inr items \<Rightarrow> (case exec_collect env items ([], [], 0) of
             Inl e \<Rightarrow> Inl e
           | Inr (stdout, stderr, exit_code) \<Rightarrow> Inr (exec_text stdout stderr exit_code))))"

text \<open>
  Two helpers of \<open>exec.rs\<close> that the tool itself does not use: it exits with 1 on every error, and
  with 0 when the remote command failed.
\<close>

definition format_exec_result :: "string \<Rightarrow> string \<Rightarrow> string" where
  "format_exec_result stdout stderr =
     (if stderr = [] then stdout else (if stdout = [] then [] else stdout @ nl) @ stderr)"

definition error_to_exit_code :: "string \<Rightarrow> int" where
  "error_to_exit_code e =
     (if contains e ''not whitelisted'' \<or> contains e ''not allowed'' then 6
      else if contains e ''auth'' \<or> contains e ''token'' \<or> contains e ''unauthorized'' then 2
      else if contains e ''policy'' \<or> contains e ''denied'' then 3
      else if contains e ''timeout'' \<or> contains e ''unreachable'' then 5
      else 1)"

subsection \<open>The other commands\<close>

definition list_agent_commands ::
  "CliEnv \<Rightarrow> string \<Rightarrow> (string option \<Rightarrow> Status + CommandEntry list) \<Rightarrow> string + string" where
  "list_agent_commands env token call =
     (case with_status env ''list commands failed'' (snd (call_agent env token (\<lambda>h s. (s, call h)) ())) of
        Inl e \<Rightarrow> Inl e
      | Inr [] \<Rightarrow> Inr ''No commands available.''
      | Inr commands \<Rightarrow> Inr (pad 24 ''COMMAND'' @ '' '' @ pad 6 ''STATE'' @ '' DESCRIPTION'' @ nl @
          concat (map (\<lambda>c. pad 24 (ce_command c) @ '' '' @ pad 6 (if ce_state_changing c then ''yes'' else ''no'') @ '' '' @
            ce_description c @ nl) commands)))"

definition cli_extend ::
  "CliEnv \<Rightarrow> string \<Rightarrow> (string option \<Rightarrow> u32 \<Rightarrow> 's \<Rightarrow> 's \<times> (Status + ExtendWindowResponse)) \<Rightarrow> u32 \<Rightarrow> 's \<Rightarrow> 's \<times> (string + string)" where
  "cli_extend env token call mins s =
     (case call_agent env token (\<lambda>h. call h mins) s of
        (s', r) \<Rightarrow> (s', case with_status env ''extend failed'' r of
           Inl e \<Rightarrow> Inl e
         | Inr result \<Rightarrow>
             if ew_success result then
               Inr (''Commit window extended by '' @ show_nat (unat mins) @ '' minutes ('' @
                 show_nat (unat (ew_new_deadline_seconds result div 60)) @ '' minutes remaining)'')
             else Inl (''extend failed: '' @ unknown_error (ew_error result))))"

text \<open>
  The terminal of the tool while a shell is open: what it prints to the standard output and to the
  standard error. The tool sends the message that opens the session and no other.
\<close>

datatype ShellPrint = PrintOut bytes | PrintErr string

definition shell_open_message :: "CliEnv \<Rightarrow> input_item" where
  "shell_open_message env =
     Inr (Some (InOpen 24 80 (case ci_var env ''TERM'' of Some t \<Rightarrow> t | None \<Rightarrow> ''xterm'')))"

datatype ShellMessage = ShellOut ShellOutput | ShellErrorText string

fun shell_output_loop :: "(Status + ShellMessage option) list \<Rightarrow> ShellPrint list \<times> (string + string)" where
  "shell_output_loop [] = ([], Inr ''Shell session ended.'')"
| "shell_output_loop (Inl st # items) = ([], Inr ''Shell session ended.'')"
| "shell_output_loop (Inr None # items) = shell_output_loop items"
| "shell_output_loop (Inr (Some (ShellOut (OutStdout d))) # items) =
     apfst ((#) (PrintOut d)) (shell_output_loop items)"
| "shell_output_loop (Inr (Some (ShellOut (OutSessionId sid))) # items) =
     apfst ((#) (PrintErr (''Shell session: '' @ sid))) (shell_output_loop items)"
| "shell_output_loop (Inr (Some (ShellOut (OutExitCode code))) # items) =
     ([], Inr (''Shell exited with code '' @ show_int code))"
| "shell_output_loop (Inr (Some (ShellErrorText e)) # items) = ([], Inl (''shell error: '' @ e))"

definition shell_interactive ::
  "CliEnv \<Rightarrow> string \<Rightarrow> (string option \<Rightarrow> input_item list \<Rightarrow> 's \<Rightarrow> 's \<times> (Status + (Status + ShellMessage option) list)) \<Rightarrow>
   's \<Rightarrow> 's \<times> ShellPrint list \<times> (string + string)" where
  "shell_interactive env token call s =
     (case call_agent env token (\<lambda>h. call h [shell_open_message env]) s of
        (s', Inl st) \<Rightarrow> (s', [], Inl (''shell connection failed: '' @ ci_show_status env st))
      | (s', Inr items) \<Rightarrow> (s', shell_output_loop items))"

definition chunk_text :: "DiagChunk \<Rightarrow> string" where
  "chunk_text c = (if dc_lines c = [] then []
     else ''--- '' @ dc_source c @ '' ---'' @ nl @ concat (map (\<lambda>l. l @ nl) (dc_lines c)) @
       (if dc_truncated c then ''(truncated)'' @ nl else []))"

fun diag_collect :: "CliEnv \<Rightarrow> (Status + DiagChunk) list \<Rightarrow> string + string" where
  "diag_collect env [] = Inr []"
| "diag_collect env (Inl st # items) = Inl (''diag stream error: '' @ ci_show_status env st)"
| "diag_collect env (Inr c # items) = map_sum id ((@) (chunk_text c)) (diag_collect env items)"

definition diag_node ::
  "CliEnv \<Rightarrow> string \<Rightarrow> (string option \<Rightarrow> DiagRequest \<Rightarrow> Status + (Status + DiagChunk) list) \<Rightarrow> string \<Rightarrow> string option \<Rightarrow>
   string option \<Rightarrow> u32 \<Rightarrow> string + string" where
  "diag_node env token call source service pattern n =
     (let request = \<lparr>dr_source_filter = source,
            dr_service_name = (case service of Some v \<Rightarrow> v | None \<Rightarrow> []),
            dr_grep_pattern = (case pattern of Some g \<Rightarrow> g | None \<Rightarrow> []), dr_line_limit = n\<rparr>
      in case with_status env ''diag failed'' (snd (call_agent env token (\<lambda>h s. (s, call h request)) ())) of
           Inl e \<Rightarrow> Inl e
         | Inr items \<Rightarrow> (case diag_collect env items of
             Inl e \<Rightarrow> Inl e
           | Inr [] \<Rightarrow> Inr ''No log entries found.''
           | Inr out \<Rightarrow> Inr out))"

definition diag_fleet :: "string + string" where
  "diag_fleet = Inl ''fleet-wide diag requires --node or is not yet implemented for vCluster fan-out''"

subsection \<open>The agent behind the calls\<close>

definition exec_client ::
  "TokenClaims Jwt \<Rightarrow> (string \<Rightarrow> string list \<Rightarrow> ExecConfig \<Rightarrow> ExecError + ExecResult) \<Rightarrow> time \<Rightarrow>
   (ShellServiceImpl \<times> ShellEffect list) exec_call" where
  "exec_client jwt execute now h command args s =
     (case rpc_exec jwt execute now h command args (fst s) of
        (si', effects, r) \<Rightarrow> ((si', snd s @ effects), map_sum id (map (Inr \<circ> Some)) r))"

text \<open>What the tool reads back from the stream the agent sends for a finished command.\<close>

lemma exec_collect_outputs:
  "exec_collect env (map (Inr \<circ> Some) (exec_outputs (Inr (result, sc)))) ([], [], 0) =
     Inr (xr_stdout result, xr_stderr result, xr_exit_code result)"
  "exec_collect env (map (Inr \<circ> Some) (exec_outputs (Inl e))) ([], [], 0) = Inl (show_ShellError e)"
  by (simp_all add: exec_outputs_def)

lemma call_agent_header:
  "call_agent env token handler s =
     (if token = [] then handler None s
      else if usable_token env token then handler (Some (''Bearer '' @ token)) s
      else (s, Inl (Status Internal ''invalid token format'')))"
  by (simp add: call_agent_def client_header_def usable_token_def agent_header_def)

text \<open>When the pipeline of the agent succeeds.\<close>

lemma shell_exec_iff:
  "(\<exists>sv' effects sc. shell_exec jwt execute now h command args sv = (sv', effects, Inr (result, sc))) \<longleftrightarrow>
     (\<exists>i. shell_authenticate jwt sv h = Inr i \<and> may_exec sv i command \<and> validate_args command args = Inr () \<and>
        execute command args (ss_exec_config sv) = Inr result)"
    (is "?L \<longleftrightarrow> ?R")
proof
  assume ?R
  then obtain i where i: "shell_authenticate jwt sv h = Inr i" "may_exec sv i command"
    "validate_args command args = Inr ()" "execute command args (ss_exec_config sv) = Inr result"
    by blast
  obtain sc where "authorize_exec i command sv = (sv, Inr sc)"
    using i(2) by (simp add: authorize_exec_ok)
  with i show ?L
    by (auto simp: shell_exec_def)
qed (auto simp: shell_exec_def authorize_exec_ok split: sum.splits prod.splits)

text \<open>
  \<open>pact exec\<close> prints an answer exactly when the token is sent and verifies at the agent, the role
  in it permits the command there, the arguments pass validation and the command ran; and what it
  prints is that run: its two streams and, when it is not zero, its exit code.
\<close>

theorem remote_exec_exact:
  "(\<exists>s'. exec_remote env token (exec_client jwt execute now) command args (si, trace) = (s', Inr out)) \<longleftrightarrow>
     usable_token env token \<and>
     (\<exists>i result. shell_authenticate jwt (si_server si) (''Bearer '' @ token) = Inr i \<and>
        may_exec (si_server si) i command \<and> validate_args command args = Inr () \<and>
        execute command args (ss_exec_config (si_server si)) = Inr result \<and>
        out = exec_text (xr_stdout result) (xr_stderr result) (xr_exit_code result))"
proof (cases "usable_token env token")
  case False
  then show ?thesis
    by (auto simp: exec_remote_def call_agent_header exec_client_def rpc_exec_def with_status_def)
next
  case True
  then have ne: "token \<noteq> []"
    by (simp add: usable_token_def)
  obtain sv' effects r where run: "shell_exec jwt execute now (''Bearer '' @ token) command args (si_server si) =
      (sv', effects, r)"
    by (cases "shell_exec jwt execute now (''Bearer '' @ token) command args (si_server si)") auto
  have "(\<exists>s'. exec_remote env token (exec_client jwt execute now) command args (si, trace) = (s', Inr out)) \<longleftrightarrow>
      (\<exists>result sc. r = Inr (result, sc) \<and> out = exec_text (xr_stdout result) (xr_stderr result) (xr_exit_code result))"
    using True ne run
    by (cases r) (auto simp: exec_remote_def call_agent_header exec_client_def rpc_exec_def with_status_def
        exec_collect_outputs)
  also have "\<dots> \<longleftrightarrow> (\<exists>result. (\<exists>sv' effects sc. shell_exec jwt execute now (''Bearer '' @ token) command args
      (si_server si) = (sv', effects, Inr (result, sc))) \<and>
      out = exec_text (xr_stdout result) (xr_stderr result) (xr_exit_code result))"
    using run by auto
  finally show ?thesis
    using True unfolding shell_exec_iff by blast
qed

text \<open>
  \<open>pact extend\<close> needs no valid token: any text that can be sent extends the window of the agent.
\<close>

lemma extend_unauthenticated:
  assumes "usable_token env token" "mins \<noteq> 0"
  shows "fst (cli_extend env token (rpc_extend_commit_window now) mins si) =
    si\<lparr>si_commit_window := extend_window (mins * 60) (si_commit_window si)\<rparr>"
proof -
  have "token \<noteq> []"
    using assms(1) by (simp add: usable_token_def)
  with assms show ?thesis
    by (simp add: cli_extend_def call_agent_header rpc_extend_commit_window_def Let_def)
qed

text \<open>The lines of a diagnostic report are those of the agent, each under the name of its source.\<close>

lemma diag_collect_all: "diag_collect env (map Inr cs) = Inr (concat (map chunk_text cs))"
  by (induction cs) simp_all

lemma diag_node_prints:
  assumes "usable_token env token"
    and "rpc_collect_diag jwt denv (Some (''Bearer '' @ token))
      \<lparr>dr_source_filter = source, dr_service_name = service, dr_grep_pattern = pattern, dr_line_limit = n\<rparr> sv = Inr cs"
    and "concat (map chunk_text cs) \<noteq> []"
  shows "diag_node env token (\<lambda>h r. map_sum id (map Inr) (rpc_collect_diag jwt denv h r sv)) source (Some service)
    (Some pattern) n = Inr (concat (map chunk_text cs))"
proof -
  have "token \<noteq> []"
    using assms(1) by (simp add: usable_token_def)
  with assms show ?thesis
    by (auto simp: diag_node_def call_agent_header with_status_def diag_collect_all split: list.split)
qed

end
