(* ===== verification/Cli_Delegate.thy ===== *)
theory Cli_Delegate
  imports Cli_Journal
begin

text \<open>
  Commands that are passed on to other systems: \<open>delegate.rs\<close>, \<open>csm.rs\<close> and \<open>openchami.rs\<close> under
  \<open>crates/pact-cli/src/commands\<close>, with \<open>node_mgmt.rs\<close> and \<open>DelegationConfig\<close> of \<open>pact-common\<close>. Each
  command first writes an audit entry to the journal and then calls the lattice scheduler or the
  node management system. The two systems are parameters, the lattice client library and the HTTP
  client; a command returns the calls it made to them.
\<close>

subsection \<open>Configuration\<close>

datatype NodeMgmtBackendType = Csm | Ochami

definition display_name :: "NodeMgmtBackendType \<Rightarrow> string" where
  "display_name t = (case t of Csm \<Rightarrow> ''CSM'' | Ochami \<Rightarrow> ''OpenCHAMI'')"

datatype NodeMgmtError =
  NotConfigured
| Unreachable string
| BackendError u16 string
| AuthError string
| NoBootTemplate string

definition show_NodeMgmtError :: "NodeMgmtError \<Rightarrow> string" where
  "show_NodeMgmtError e = (case e of
     NotConfigured \<Rightarrow> ''node management backend not configured''
   | Unreachable t \<Rightarrow> ''backend unreachable: '' @ t
   | BackendError code body \<Rightarrow>
       ''backend returned error: HTTP '' @ show_nat (unat code) @ '' '' @ em_dash @ '' '' @ body
   | AuthError t \<Rightarrow> ''authentication failed: '' @ t
   | NoBootTemplate node \<Rightarrow> ''no boot template found for node '' @ node)"

record DelegationConfig =
  de_lattice_endpoint :: "string option"
  de_lattice_token :: "string option"
  de_node_mgmt_backend :: "NodeMgmtBackendType option"
  de_node_mgmt_base_url :: "string option"
  de_node_mgmt_token :: "string option"
  de_openchami_smd_url :: "string option"
  de_openchami_token :: "string option"
  de_timeout_secs :: u64

definition default_delegation :: DelegationConfig where
  "default_delegation = \<lparr>de_lattice_endpoint = None, de_lattice_token = None, de_node_mgmt_backend = None,
     de_node_mgmt_base_url = None, de_node_mgmt_token = None, de_openchami_smd_url = None,
     de_openchami_token = None, de_timeout_secs = 30\<rparr>"

subsection \<open>The systems called\<close>

record LatticeConfig =
  lc_endpoint :: string
  lc_timeout_secs :: u64
  lc_token :: "string option"

datatype LatticeCall =
  DrainNode NodeId string
| DisableNode NodeId string
| EnableNode NodeId
| UndrainNode NodeId

record LatticeAnswer =
  ln_success :: bool
  ln_active_allocations :: u32

datatype BackendBody =
  CapmcPowerAction string "string list" bool
| BosSessionRequest string string
| PowerAction string

text \<open>
  The bearer token is present when the backend has one. The name of the boot session is \<open>None\<close> when
  the body of the answer cannot be read as a session; the text likewise.
\<close>

record HttpRequest =
  rq_url :: string
  rq_bearer :: "string option"
  rq_json :: BackendBody
  rq_timeout :: "u64 option"

record HttpAnswer =
  an_status :: u16
  an_text :: "string option"
  an_session :: "string option"

record Systems =
  sy_connect :: "LatticeConfig \<Rightarrow> string + unit"
  sy_lattice :: "LatticeConfig \<Rightarrow> LatticeCall \<Rightarrow> string + LatticeAnswer"
  sy_client_builds :: bool
  sy_http :: "HttpRequest \<Rightarrow> string + HttpAnswer"

datatype Delegated = ToLattice LatticeConfig LatticeCall | ToBackend HttpRequest

definition is_success :: "u16 \<Rightarrow> bool" where
  "is_success code \<longleftrightarrow> 200 \<le> code \<and> code < 300"

definition answer_text :: "HttpAnswer \<Rightarrow> string" where
  "answer_text a = (case an_text a of Some t \<Rightarrow> t | None \<Rightarrow> [])"

subsection \<open>The node management backends\<close>

text \<open>The HTTP client has no time limit when its builder failed.\<close>

record Backend =
  bk_base_url :: string
  bk_token :: "string option"
  bk_timeout :: "u64 option"

definition new_backend :: "Systems \<Rightarrow> string \<Rightarrow> string option \<Rightarrow> u64 \<Rightarrow> Backend" where
  "new_backend x base_url token timeout_secs = \<lparr>bk_base_url = trim_end_char CHR ''/'' base_url, bk_token = token,
     bk_timeout = (if sy_client_builds x then Some timeout_secs else None)\<rparr>"

definition build_request :: "Backend \<Rightarrow> string \<Rightarrow> BackendBody \<Rightarrow> HttpRequest" where
  "build_request b url body = \<lparr>rq_url = url, rq_bearer = bk_token b, rq_json = body, rq_timeout = bk_timeout b\<rparr>"

definition map_http_error :: "u16 \<Rightarrow> string \<Rightarrow> NodeMgmtError" where
  "map_http_error code body = (if code = 401 \<or> code = 403 then AuthError body else BackendError code body)"

definition csm_reboot :: "Systems \<Rightarrow> Backend \<Rightarrow> NodeId \<Rightarrow> HttpRequest \<times> (NodeMgmtError + string)" where
  "csm_reboot x b node_id =
     (let req = build_request b (bk_base_url b @ ''/capmc/capmc/v1/xname_reinit'')
                  (CapmcPowerAction ''pact reboot'' [node_id] False)
      in (req, case sy_http x req of
           Inl e \<Rightarrow> Inl (Unreachable e)
         | Inr a \<Rightarrow>
             if is_success (an_status a) then Inr (''reboot initiated for '' @ node_id @ '' via CAPMC'')
             else Inl (map_http_error (an_status a) (answer_text a))))"

definition csm_reimage :: "Systems \<Rightarrow> Backend \<Rightarrow> NodeId \<Rightarrow> HttpRequest \<times> (NodeMgmtError + string)" where
  "csm_reimage x b node_id =
     (let req = build_request b (bk_base_url b @ ''/bos/v2/sessions'') (BosSessionRequest ''reboot'' node_id)
      in (req, case sy_http x req of
           Inl e \<Rightarrow> Inl (Unreachable e)
         | Inr a \<Rightarrow>
             if is_success (an_status a) then
               let name = (case an_session a of Some n \<Rightarrow> n | None \<Rightarrow> []);
                   session_info = (if name = [] then [] else '' (session: '' @ name @ '')'')
               in Inr (''reimage initiated for '' @ node_id @ '' via BOS'' @ session_info)
             else
               let body = answer_text a
               in if (an_status a = 404 \<or> an_status a = 400) \<and>
                     (contains body ''template'' \<or> contains body ''not found'')
                  then Inl (NoBootTemplate node_id)
                  else Inl (map_http_error (an_status a) body)))"

definition power_cycle :: "Systems \<Rightarrow> Backend \<Rightarrow> NodeId \<Rightarrow> HttpRequest \<times> (NodeMgmtError + string)" where
  "power_cycle x b node_id =
     (let req = build_request b (bk_base_url b @ ''/hsm/v2/State/Components/'' @ node_id @ ''/Actions/PowerCycle'')
                  (PowerAction ''ForceRestart'')
      in (req, case sy_http x req of
           Inl e \<Rightarrow> Inl (Unreachable e)
         | Inr a \<Rightarrow>
             if is_success (an_status a) then Inr (''power cycle initiated for '' @ node_id)
             else if an_status a = 401 \<or> an_status a = 403 then Inl (AuthError (answer_text a))
             else Inl (BackendError (an_status a) (answer_text a))))"

definition ochami_reimage :: "Systems \<Rightarrow> Backend \<Rightarrow> NodeId \<Rightarrow> HttpRequest \<times> (NodeMgmtError + string)" where
  "ochami_reimage x b node_id = (case power_cycle x b node_id of (req, r) \<Rightarrow>
     (req, map_sum id (\<lambda>_. ''reimage initiated for '' @ node_id @ '' (power cycle + BSS re-provision)'') r))"

definition hsm_path_prefix :: "NodeMgmtBackendType \<Rightarrow> string" where
  "hsm_path_prefix t = (case t of Csm \<Rightarrow> ''/smd/hsm/v2'' | Ochami \<Rightarrow> ''/hsm/v2'')"

datatype NodeMgmtDispatch = CsmDispatch Backend | OchamiDispatch Backend

definition dispatch_reboot :: "Systems \<Rightarrow> NodeMgmtDispatch \<Rightarrow> NodeId \<Rightarrow> HttpRequest \<times> (NodeMgmtError + string)" where
  "dispatch_reboot x d node_id = (case d of
     CsmDispatch b \<Rightarrow> csm_reboot x b node_id | OchamiDispatch b \<Rightarrow> power_cycle x b node_id)"

definition dispatch_reimage :: "Systems \<Rightarrow> NodeMgmtDispatch \<Rightarrow> NodeId \<Rightarrow> HttpRequest \<times> (NodeMgmtError + string)" where
  "dispatch_reimage x d node_id = (case d of
     CsmDispatch b \<Rightarrow> csm_reimage x b node_id | OchamiDispatch b \<Rightarrow> ochami_reimage x b node_id)"

definition dispatch_name :: "NodeMgmtDispatch \<Rightarrow> string" where
  "dispatch_name d = (case d of CsmDispatch _ \<Rightarrow> ''CSM'' | OchamiDispatch _ \<Rightarrow> ''OpenCHAMI'')"

definition or_else :: "'a option \<Rightarrow> 'a option \<Rightarrow> 'a option" where
  "or_else a b = (case a of Some _ \<Rightarrow> a | None \<Rightarrow> b)"

definition create_node_mgmt_backend :: "Systems \<Rightarrow> DelegationConfig \<Rightarrow> NodeMgmtError + NodeMgmtDispatch" where
  "create_node_mgmt_backend x config =
     (let token = or_else (de_node_mgmt_token config) (de_openchami_token config)
      in case de_node_mgmt_backend config of
           None \<Rightarrow> (case de_openchami_smd_url config of
               Some url \<Rightarrow> Inr (OchamiDispatch (new_backend x url token (de_timeout_secs config)))
             | None \<Rightarrow> Inl NotConfigured)
         | Some backend_type \<Rightarrow>
             (case (case backend_type of
                      Ochami \<Rightarrow> or_else (de_node_mgmt_base_url config) (de_openchami_smd_url config)
                    | Csm \<Rightarrow> de_node_mgmt_base_url config) of
                None \<Rightarrow> Inl NotConfigured
              | Some base_url \<Rightarrow> Inr ((case backend_type of Csm \<Rightarrow> CsmDispatch | Ochami \<Rightarrow> OchamiDispatch)
                  (new_backend x base_url token (de_timeout_secs config)))))"

subsection \<open>The commands\<close>

record DelegationResult =
  dg_command :: string
  dg_node_id :: NodeId
  dg_target_system :: string
  dg_success :: bool
  dg_message :: string

definition format_delegation_result :: "DelegationResult \<Rightarrow> string" where
  "format_delegation_result r =
     (if dg_success r then [] else ''FAILED: '') @ dg_command r @ '' on '' @ dg_node_id r @ '' '' @ right_arrow @
     '' '' @ dg_message r @ '' (via '' @ dg_target_system r @ '')''"

definition delegation_entry :: "string \<Rightarrow> NodeId \<Rightarrow> string \<Rightarrow> string \<Rightarrow> string \<Rightarrow> ProtoConfigEntry" where
  "delegation_entry command node_id target_system who role = \<lparr>
     pce_sequence = 0, pce_timestamp = None, pce_entry_type = 12,
     pce_scope = Some (Some (ProtoNodeId node_id)), pce_author = Some (human who role),
     pce_parent = None, pce_state_delta = None,
     pce_policy_ref = ''delegate:'' @ target_system @ '':'' @ command @ '':'' @ node_id,
     pce_ttl = None, pce_emergency_reason = None\<rparr>"

definition audit_delegation ::
  "CliEnv \<Rightarrow> 's append_call \<Rightarrow> string \<Rightarrow> NodeId \<Rightarrow> string \<Rightarrow> string \<Rightarrow> string \<Rightarrow> 's \<Rightarrow> 's \<times> (string + EntrySeq)" where
  "audit_delegation env call command node_id target_system who role s =
     (case call (delegation_entry command node_id target_system who role) s of (s', r) \<Rightarrow>
        (s', with_status env (''audit logging for '' @ command @ '' failed'') r))"

definition audit_msg :: "string + EntrySeq \<Rightarrow> string" where
  "audit_msg r = (case r of Inr seq \<Rightarrow> ''audit seq:'' @ show_u64 seq | Inl _ \<Rightarrow> [])"

definition lattice_delegation ::
  "Systems \<Rightarrow> CliEnv \<Rightarrow> 's append_call \<Rightarrow> string \<Rightarrow> LatticeCall \<Rightarrow> (LatticeAnswer \<Rightarrow> string \<Rightarrow> string) \<Rightarrow>
   NodeId \<Rightarrow> string \<Rightarrow> string \<Rightarrow> DelegationConfig \<Rightarrow> 's \<Rightarrow> 's \<times> Delegated list \<times> DelegationResult" where
  "lattice_delegation x env journal command call said node_id who role config s =
     (case audit_delegation env journal command node_id ''lattice'' who role s of (s', audit_seq) \<Rightarrow>
        let audit = audit_msg audit_seq;
            result = (\<lambda>ok msg. \<lparr>dg_command = command, dg_node_id = node_id, dg_target_system = ''lattice'',
              dg_success = ok, dg_message = msg\<rparr>)
        in case de_lattice_endpoint config of
             None \<Rightarrow> (s', [], result False (''lattice endpoint not configured ('' @ audit @ '')''))
           | Some endpoint \<Rightarrow>
               let lc = \<lparr>lc_endpoint = endpoint, lc_timeout_secs = de_timeout_secs config,
                     lc_token = de_lattice_token config\<rparr>
               in (case sy_connect x lc of
                     Inl e \<Rightarrow> (s', [], result False (''connection failed: '' @ e @ '' ('' @ audit @ '')''))
                   | Inr _ \<Rightarrow> (s', [ToLattice lc call], (case sy_lattice x lc call of
                         Inl e \<Rightarrow> result False (e @ '' ('' @ audit @ '')'')
                       | Inr resp \<Rightarrow> result (ln_success resp) (said resp audit)))))"

definition drain_node ::
  "Systems \<Rightarrow> CliEnv \<Rightarrow> 's append_call \<Rightarrow> NodeId \<Rightarrow> string \<Rightarrow> string \<Rightarrow> DelegationConfig \<Rightarrow> 's \<Rightarrow> 's \<times> Delegated list \<times> DelegationResult" where
  "drain_node x env journal node_id = lattice_delegation x env journal ''drain'' (DrainNode node_id ''pact drain'')
     (\<lambda>resp audit. ''drained ('' @ show_nat (unat (ln_active_allocations resp)) @ '' active allocations, '' @ audit @ '')'')
     node_id"

definition cordon_node ::
  "Systems \<Rightarrow> CliEnv \<Rightarrow> 's append_call \<Rightarrow> NodeId \<Rightarrow> string \<Rightarrow> string \<Rightarrow> DelegationConfig \<Rightarrow> 's \<Rightarrow> 's \<times> Delegated list \<times> DelegationResult" where
  "cordon_node x env journal node_id = lattice_delegation x env journal ''cordon'' (DisableNode node_id ''pact cordon'')
     (\<lambda>resp audit. ''cordoned ('' @ audit @ '')'') node_id"

definition uncordon_node ::
  "Systems \<Rightarrow> CliEnv \<Rightarrow> 's append_call \<Rightarrow> NodeId \<Rightarrow> string \<Rightarrow> string \<Rightarrow> DelegationConfig \<Rightarrow> 's \<Rightarrow> 's \<times> Delegated list \<times> DelegationResult" where
  "uncordon_node x env journal node_id = lattice_delegation x env journal ''uncordon'' (EnableNode node_id)
     (\<lambda>resp audit. ''uncordoned ('' @ audit @ '')'') node_id"

definition undrain_node ::
  "Systems \<Rightarrow> CliEnv \<Rightarrow> 's append_call \<Rightarrow> NodeId \<Rightarrow> string \<Rightarrow> string \<Rightarrow> DelegationConfig \<Rightarrow> 's \<Rightarrow> 's \<times> Delegated list \<times> DelegationResult" where
  "undrain_node x env journal node_id = lattice_delegation x env journal ''undrain'' (UndrainNode node_id)
     (\<lambda>resp audit. ''undrained ('' @ audit @ '')'') node_id"

definition backend_delegation ::
  "Systems \<Rightarrow> CliEnv \<Rightarrow> 's append_call \<Rightarrow> string \<Rightarrow> (NodeMgmtDispatch \<Rightarrow> NodeId \<Rightarrow> HttpRequest \<times> (NodeMgmtError + string)) \<Rightarrow>
   NodeId \<Rightarrow> string \<Rightarrow> string \<Rightarrow> DelegationConfig \<Rightarrow> 's \<Rightarrow> 's \<times> Delegated list \<times> DelegationResult" where
  "backend_delegation x env journal command act node_id who role config s =
     (let target = (case de_node_mgmt_backend config of None \<Rightarrow> ''OpenCHAMI'' | Some t \<Rightarrow> display_name t)
      in case audit_delegation env journal command node_id target who role s of (s', audit_seq) \<Rightarrow>
        let audit = audit_msg audit_seq;
            result = (\<lambda>via ok msg. \<lparr>dg_command = command, dg_node_id = node_id, dg_target_system = via,
              dg_success = ok, dg_message = msg @ '' ('' @ audit @ '')''\<rparr>)
        in (case create_node_mgmt_backend x config of
              Inl e \<Rightarrow> (s', [], result target False (show_NodeMgmtError e))
            | Inr backend \<Rightarrow> (case act backend node_id of (req, r) \<Rightarrow>
                (s', [ToBackend req], (case r of
                   Inr msg \<Rightarrow> result (dispatch_name backend) True msg
                 | Inl e \<Rightarrow> result (dispatch_name backend) False (show_NodeMgmtError e))))))"

definition reboot_node ::
  "Systems \<Rightarrow> CliEnv \<Rightarrow> 's append_call \<Rightarrow> NodeId \<Rightarrow> string \<Rightarrow> string \<Rightarrow> DelegationConfig \<Rightarrow> 's \<Rightarrow> 's \<times> Delegated list \<times> DelegationResult" where
  "reboot_node x env journal = backend_delegation x env journal ''reboot'' (dispatch_reboot x)"

definition reimage_node ::
  "Systems \<Rightarrow> CliEnv \<Rightarrow> 's append_call \<Rightarrow> NodeId \<Rightarrow> string \<Rightarrow> string \<Rightarrow> DelegationConfig \<Rightarrow> 's \<Rightarrow> 's \<times> Delegated list \<times> DelegationResult" where
  "reimage_node x env journal = backend_delegation x env journal ''reimage'' (dispatch_reimage x)"

text \<open>The six commands as the tool runs them.\<close>

datatype Delegation = Drain | Cordon | Uncordon | Undrain | Reboot | Reimage

definition delegate ::
  "Systems \<Rightarrow> CliEnv \<Rightarrow> 's append_call \<Rightarrow> Delegation \<Rightarrow> NodeId \<Rightarrow> string \<Rightarrow> string \<Rightarrow> DelegationConfig \<Rightarrow> 's \<Rightarrow>
   's \<times> Delegated list \<times> DelegationResult" where
  "delegate x env journal d = (case d of
     Drain \<Rightarrow> drain_node x env journal
   | Cordon \<Rightarrow> cordon_node x env journal
   | Uncordon \<Rightarrow> uncordon_node x env journal
   | Undrain \<Rightarrow> undrain_node x env journal
   | Reboot \<Rightarrow> reboot_node x env journal
   | Reimage \<Rightarrow> reimage_node x env journal)"

subsection \<open>What is audited\<close>

definition command_name :: "Delegation \<Rightarrow> string" where
  "command_name d = (case d of Drain \<Rightarrow> ''drain'' | Cordon \<Rightarrow> ''cordon'' | Uncordon \<Rightarrow> ''uncordon''
     | Undrain \<Rightarrow> ''undrain'' | Reboot \<Rightarrow> ''reboot'' | Reimage \<Rightarrow> ''reimage'')"

definition audit_target :: "DelegationConfig \<Rightarrow> Delegation \<Rightarrow> string" where
  "audit_target config d = (if d = Reboot \<or> d = Reimage
     then (case de_node_mgmt_backend config of None \<Rightarrow> ''OpenCHAMI'' | Some t \<Rightarrow> display_name t)
     else ''lattice'')"

lemmas delegate_defs = delegate_def drain_node_def cordon_node_def uncordon_node_def undrain_node_def
  reboot_node_def reimage_node_def

text \<open>The audit entry of a command is the only thing it does to the journal.\<close>

lemma delegate_journal:
  "fst (delegate x env journal d node who role config s) =
     fst (journal (delegation_entry (command_name d) node (audit_target config d) who role) s)"
  by (cases d) (auto simp: delegate_defs lattice_delegation_def backend_delegation_def audit_delegation_def
      command_name_def audit_target_def Let_def split: prod.split option.split sum.split)

text \<open>Which calls are made, and whether they succeed, does not depend on the journal.\<close>

definition outcome :: "'s \<times> Delegated list \<times> DelegationResult \<Rightarrow> Delegated list \<times> bool" where
  "outcome r = (case r of (_, calls, res) \<Rightarrow> (calls, dg_success res))"

lemma lattice_outcome:
  "outcome (lattice_delegation x env journal command call said node who role config s) =
     (case de_lattice_endpoint config of
        None \<Rightarrow> ([], False)
      | Some endpoint \<Rightarrow>
          let lc = \<lparr>lc_endpoint = endpoint, lc_timeout_secs = de_timeout_secs config,
                lc_token = de_lattice_token config\<rparr>
          in (case sy_connect x lc of
                Inl _ \<Rightarrow> ([], False)
              | Inr _ \<Rightarrow> ([ToLattice lc call],
                  case sy_lattice x lc call of Inl _ \<Rightarrow> False | Inr resp \<Rightarrow> ln_success resp)))"
  by (auto simp: lattice_delegation_def outcome_def Let_def split: prod.splits option.splits sum.splits)

lemma backend_outcome:
  "outcome (backend_delegation x env journal command act node who role config s) =
     (case create_node_mgmt_backend x config of
        Inl _ \<Rightarrow> ([], False)
      | Inr backend \<Rightarrow> ([ToBackend (fst (act backend node))],
          case snd (act backend node) of Inl _ \<Rightarrow> False | Inr _ \<Rightarrow> True))"
  by (auto simp: backend_delegation_def outcome_def Let_def split: prod.splits sum.splits)

lemma outcome_journal_independent:
  "outcome (delegate x env journal d node who role config s) =
   outcome (delegate x env' journal' d node who' role' config s')"
  by (cases d) (simp_all add: delegate_defs lattice_outcome backend_outcome)

lemma success_calls:
  assumes "delegate x env journal d node who role config s = (s', calls, r)"
  shows "length calls \<le> 1 \<and> (dg_success r \<longrightarrow> calls \<noteq> [])"
proof -
  have "outcome (delegate x env journal d node who role config s) = (calls, dg_success r)"
    by (simp add: assms outcome_def)
  then show ?thesis
    by (cases d) (auto simp: delegate_defs lattice_outcome backend_outcome Let_def split: option.splits sum.splits)
qed

definition delegation_stored ::
  "time \<Rightarrow> DelegationConfig \<Rightarrow> Delegation \<Rightarrow> NodeId \<Rightarrow> string \<Rightarrow> string \<Rightarrow> EntrySeq \<Rightarrow> ConfigEntry" where
  "delegation_stored now config d node who role q = \<lparr>
     ce_sequence = q, ce_timestamp = now, ce_entry_type = ServiceLifecycle, ce_scope = Node node,
     ce_author = command_author who role, ce_parent = None, ce_state_delta = None,
     ce_policy_ref = Some (''delegate:'' @ audit_target config d @ '':'' @ command_name d @ '':'' @ node),
     ce_ttl_seconds = None, ce_emergency_reason = None\<rparr>"

lemma delegation_entry_stored:
  "proto_to_config_entry now (delegation_entry (command_name d) node (audit_target config d) who role) =
     Inr (delegation_stored now config d node who role 0)"
  by (simp add: proto_to_config_entry_def delegation_entry_def human_def kind_to_scope_def command_author_def
      proto_principal_type_def entry_type_of_int_def delegation_stored_def)

text \<open>
  C30. A delegated command makes at most one call to the other system and reports success only
  when it made one. When the journal accepted the audit entry, it holds the command, its target,
  its node and the named author, together with all it held before; other clients may write
  meanwhile. The call is made, with the same outcome, whatever became of the audit entry.
\<close>

theorem delegation_audited:
  assumes "entries_inv s" "unat (js_next_sequence s) + traffic others < 2 ^ 64"
    and "delegate x env (busy_append env token xt to_json others) d node who role config s = (s', calls, r)"
  shows "length calls \<le> 1 \<and> (dg_success r \<longrightarrow> calls \<noteq> []) \<and>
    (\<forall>q. snd (busy_append env token xt to_json others
            (delegation_entry (command_name d) node (audit_target config d) who role) s) = Inr q \<longrightarrow>
       bt_get (js_entries s') q = Some (delegation_stored (fst (snd others)) config d node who role q) \<and>
       prefix (js_entries s) (js_entries s')) \<and>
    (\<forall>journal s2. outcome (delegate x env journal d node who role config (s2 :: JournalState)) = (calls, dg_success r))"
proof (intro conjI allI impI)
  fix q
  assume q: "snd (busy_append env token xt to_json others
      (delegation_entry (command_name d) node (audit_target config d) who role) s) = Inr q"
  have "busy_append env token xt to_json others
      (delegation_entry (command_name d) node (audit_target config d) who role) s = (s', Inr q)"
    using delegate_journal [of x env "busy_append env token xt to_json others" d node who role config s] assms(3) q
    by (simp add: prod_eq_iff)
  from busy_append_stores [OF assms(1,2) this]
  show "bt_get (js_entries s') q = Some (delegation_stored (fst (snd others)) config d node who role q)"
    "prefix (js_entries s) (js_entries s')"
    by (auto simp: delegation_entry_stored delegation_stored_def)
next
  fix journal and s2 :: JournalState
  show "outcome (delegate x env journal d node who role config s2) = (calls, dg_success r)"
    using outcome_journal_independent [of x env journal d node who role config s2 env
        "busy_append env token xt to_json others" who role s] assms(3)
    by (simp add: outcome_def)
qed (use success_calls [OF assms(3)] in auto)

definition sample_systems :: Systems where
  "sample_systems = \<lparr>sy_connect = (\<lambda>c. Inr ()), sy_lattice = (\<lambda>c l. Inr \<lparr>ln_success = True, ln_active_allocations = 2\<rparr>),
     sy_client_builds = True,
     sy_http = (\<lambda>r. Inr \<lparr>an_status = 200, an_text = None, an_session = None\<rparr>)\<rparr>"

theorem delegation_audited_witness:
  "\<exists>s' calls r. delegate sample_systems sample_cli (busy_append sample_cli ''tok'' sample_ext (\<lambda>e. []) ([], 5, []))
      Drain ''n1'' ''bob'' ''ops'' (default_delegation\<lparr>de_lattice_endpoint := Some ''l''\<rparr>) default_state = (s', calls, r) \<and>
    dg_success r \<and> calls \<noteq> [] \<and>
    bt_get (js_entries s') 0 = Some (delegation_stored 5 default_delegation Drain ''n1'' ''bob'' ''ops'' 0)"
proof -
  let ?c = "default_delegation\<lparr>de_lattice_endpoint := Some ''l''\<rparr>"
  let ?j = "busy_append sample_cli ''tok'' sample_ext (\<lambda>e. []) ([], 5, [])"
  obtain s' calls r where d: "delegate sample_systems sample_cli ?j Drain ''n1'' ''bob'' ''ops'' ?c default_state
      = (s', calls, r)"
    by (cases "delegate sample_systems sample_cli ?j Drain ''n1'' ''bob'' ''ops'' ?c default_state") auto
  have ok: "outcome (s', calls, r) = ([ToLattice \<lparr>lc_endpoint = ''l'', lc_timeout_secs = 30, lc_token = None\<rparr>
      (DrainNode ''n1'' ''pact drain'')], True)"
    unfolding d [symmetric] by (simp add: delegate_defs lattice_outcome sample_systems_def default_delegation_def)
  have tok: "usable_token sample_cli ''tok''"
    by (simp add: usable_token_def sample_cli_def)
  have "snd (apply_command sample_ext 5 (AppendEntry (delegation_stored 5 ?c Drain ''n1'' ''bob'' ''ops'' 0)) default_state)
      = EntryAppended 0"
    by (simp add: delegation_stored_def command_author_def append_entry_def parent_ok_def ttl_too_short_def
        ttl_too_long_def TTL_MIN_SECONDS_def TTL_MAX_SECONDS_def default_state_def Let_def)
  then have "snd (?j (delegation_entry (command_name Drain) ''n1'' (audit_target ?c Drain) ''bob'' ''ops'') default_state)
      = Inr 0"
    by (simp add: busy_append_def append_client_def submit_usable tok svc_append_entry_def delegation_entry_stored
        interleaved_write_def split: prod.split)
  moreover have "unat (js_next_sequence default_state) + traffic ([], 5, []) < 2 ^ 64"
    by (simp add: traffic_def)
  ultimately show ?thesis
    using delegation_audited [OF entries_inv_default _ d] d ok
    by (auto simp: outcome_def delegation_stored_def audit_target_def)
qed

text \<open>
  A command whose audit entry the journal refuses is carried out all the same, and its report
  shows an empty pair of brackets.
\<close>

lemma unaudited_reboot:
  assumes "create_node_mgmt_backend x config = Inr b" "snd (dispatch_reboot x b node) = Inr said"
    and "\<And>e s. journal e s = (s, Inl refused)"
  shows "reboot_node x env journal node who role config s =
    (s, [ToBackend (fst (dispatch_reboot x b node))],
     \<lparr>dg_command = ''reboot'', dg_node_id = node, dg_target_system = dispatch_name b, dg_success = True,
       dg_message = said @ '' ()''\<rparr>)"
  using assms
  by (cases "dispatch_reboot x b node")
    (simp add: reboot_node_def backend_delegation_def audit_delegation_def with_status_def audit_msg_def Let_def)

text \<open>
  The system is chosen by the configured type. The deprecated OpenCHAMI address is never used for
  CSM, but the deprecated OpenCHAMI token is sent to it when no other token is configured.
\<close>

lemma backend_choice:
  assumes "create_node_mgmt_backend x config = Inr d"
  shows "d = CsmDispatch b \<Longrightarrow> de_node_mgmt_backend config = Some Csm \<and>
      (\<exists>url. de_node_mgmt_base_url config = Some url \<and> bk_base_url b = trim_end_char CHR ''/'' url)"
    and "d = OchamiDispatch b \<Longrightarrow> de_node_mgmt_backend config \<noteq> Some Csm"
    and "d = CsmDispatch b \<or> d = OchamiDispatch b \<Longrightarrow>
      bk_token b = or_else (de_node_mgmt_token config) (de_openchami_token config)"
  using assms
  by (auto simp: create_node_mgmt_backend_def new_backend_def Let_def
      split: option.splits NodeMgmtBackendType.splits)

text \<open>Reimaging an OpenCHAMI node sends exactly the request that rebooting it sends.\<close>

lemma ochami_reimage_reboots:
  "fst (dispatch_reimage x (OchamiDispatch b) node) = fst (dispatch_reboot x (OchamiDispatch b) node)"
  by (simp add: dispatch_reimage_def dispatch_reboot_def ochami_reimage_def split: prod.split)

end
