(* ===== verification/Cli_Lattice.thy ===== *)
theory Cli_Lattice
  imports Cli_Delegate Enrollment_Service F64
begin

text \<open>
  The commands that query the lattice scheduler, \<open>crates/pact-cli/src/commands/lattice.rs\<close>: jobs,
  queues, accounting, services, workflows, budgets, nodes, the combined views of both systems, and
  the backup commands, which write an audit entry first. The client library is a parameter, a
  record of its calls; integers of its answers are of unbounded type, as they are only printed.
  \<open>fmt1\<close> prints a floating point number with one decimal. Upper case is taken on the ASCII range.
\<close>

subsection \<open>The client library\<close>

record LaProbe =
  lp_probe_type :: string
  lp_port :: int
  lp_path :: string
  lp_period_secs :: int
  lp_failure_threshold :: int
  lp_timeout_secs :: int
  lp_initial_delay_secs :: int

record LaSpec =
  ls_tenant :: string
  ls_project :: string
  ls_vcluster :: string
  ls_entrypoint :: string
  ls_sensitive :: bool
  ls_resources :: "(int \<times> int \<times> string) option"
  ls_liveness_probe :: "LaProbe option"

text \<open>Of a time stamp only the seconds are used.\<close>

record LaAllocation =
  lo_allocation_id :: string
  lo_state :: string
  lo_user :: string
  lo_message :: string
  lo_exit_code :: int
  lo_assigned_nodes :: "string list"
  lo_spec :: "LaSpec option"
  lo_created_at :: "int option"
  lo_started_at :: "int option"
  lo_completed_at :: "int option"

record LaQueue =
  lq_vcluster_id :: string
  lq_pending :: int
  lq_running :: int
  lq_total :: int

record LaMember =
  lm_node_id :: string
  lm_address :: string
  lm_role :: string
  lm_match_index :: int

record LaRaft =
  lr_leader_id :: string
  lr_current_term :: int
  lr_last_applied :: int
  lr_commit_index :: int
  lr_members :: "LaMember list"

record LaAuditEntry =
  lu_timestamp :: "int option"
  lu_user_id :: string
  lu_action :: string
  lu_details :: string

record LaUsage =
  lg_tenant_id :: string
  lg_cpu_hours :: F64
  lg_gpu_hours :: F64
  lg_storage_bytes :: int
  lg_allocation_count :: int

record LaHealth =
  lh_status :: string
  lh_version :: string
  lh_uptime_secs :: int

record LaEndpoint =
  lep_allocation_id :: string
  lep_tenant :: string
  lep_port :: int
  lep_protocol :: string
  lep_nodes :: "string list"

record LaDag =
  ld_dag_id :: string
  ld_state :: string
  ld_allocations :: "LaAllocation list"
  ld_created_at :: "int option"
  ld_completed_at :: "int option"

record LaTenantUsage =
  lt_tenant :: string
  lt_period_start :: string
  lt_period_end :: string
  lt_period_days :: int
  lt_gpu_hours_used :: F64
  lt_gpu_hours_budget :: "F64 option"
  lt_gpu_fraction_used :: "F64 option"
  lt_node_hours_used :: F64
  lt_node_hours_budget :: "F64 option"
  lt_node_fraction_used :: "F64 option"

record LaUserUsage =
  luu_user :: string
  luu_period_start :: string
  luu_period_end :: string
  luu_total_gpu_hours :: F64
  luu_tenants :: "LaTenantUsage list"

record LaBackup =
  lb_success :: bool
  lb_message :: string
  lb_counts :: "int \<times> int \<times> int \<times> int"
  lb_timestamp :: "int option"

record LaVerify =
  lv_valid :: bool
  lv_message :: string
  lv_timestamp :: "int option"
  lv_snapshot :: "int \<times> int"

record LaNode =
  lno_node_id :: string
  lno_state :: string
  lno_state_reason :: string
  lno_group :: string
  lno_gpu_count :: int
  lno_gpu_type :: string
  lno_cpu_cores :: int
  lno_memory_gb :: int
  lno_features :: "string list"
  lno_owner_tenant :: string
  lno_owner_vcluster :: string
  lno_owner_allocation :: string
  lno_allocation_ids :: "string list"
  lno_last_heartbeat :: "int option"

record Lattice = Systems +
  la_list_allocations :: "string \<Rightarrow> string + LaAllocation list"
  la_cancel :: "string \<Rightarrow> string + bool"
  la_get_allocation :: "string \<Rightarrow> string + LaAllocation"
  la_vcluster_queue :: "string \<Rightarrow> string + LaQueue"
  la_raft_status :: "string + LaRaft"
  la_query_audit :: "u32 \<Rightarrow> string + LaAuditEntry list"
  la_accounting_usage :: "string \<Rightarrow> string + LaUsage"
  la_health :: "string + LaHealth"
  la_list_services :: "string + string list"
  la_lookup_service :: "string \<Rightarrow> string + string \<times> LaEndpoint list"
  la_list_dags :: "string \<Rightarrow> string \<Rightarrow> u32 \<Rightarrow> string + LaDag list"
  la_get_dag :: "string \<Rightarrow> string + LaDag"
  la_cancel_dag :: "string \<Rightarrow> string + bool \<times> int"
  la_tenant_usage :: "string \<Rightarrow> u32 \<Rightarrow> string + LaTenantUsage"
  la_user_usage :: "string \<Rightarrow> u32 \<Rightarrow> string + LaUserUsage"
  la_create_backup :: "string \<Rightarrow> string + LaBackup"
  la_verify_backup :: "string \<Rightarrow> string + LaVerify"
  la_restore_backup :: "string \<Rightarrow> string + bool \<times> string"
  la_list_nodes :: "string \<Rightarrow> string \<Rightarrow> u32 \<Rightarrow> string + LaNode list"
  la_get_node :: "string \<Rightarrow> string + LaNode"

subsection \<open>Printing\<close>

definition char_upper :: "char \<Rightarrow> char" where
  "char_upper c = (let n = (of_char c :: nat) in
     if 97 \<le> n \<and> n \<le> 122 then char_of (n - 32) else c)"

definition to_uppercase :: "string \<Rightarrow> string" where
  "to_uppercase = map char_upper"

definition line :: "string \<Rightarrow> string \<Rightarrow> string" where
  "line label v = label @ v @ nl"

definition line_when :: "bool \<Rightarrow> string \<Rightarrow> string \<Rightarrow> string" where
  "line_when b label v = (if b then line label v else [])"

definition secs_line :: "string \<Rightarrow> int option \<Rightarrow> string" where
  "secs_line label t = (case t of Some n \<Rightarrow> line label (show_int n @ ''s'') | None \<Rightarrow> [])"

definition secs_or_dash :: "int option \<Rightarrow> string" where
  "secs_or_dash t = (case t of Some n \<Rightarrow> show_int n @ ''s'' | None \<Rightarrow> ''-'')"

definition rule_line :: "nat \<Rightarrow> string" where
  "rule_line n = replicate n CHR ''-'' @ nl"

text \<open>The columns of a table: all but the last padded, two spaces between them.\<close>

definition columns :: "(nat \<times> string) list \<Rightarrow> string \<Rightarrow> string" where
  "columns cs c = concat (map (\<lambda>(w, t). pad w t @ ''  '') cs) @ c @ nl"

definition connect_lattice :: "('a Lattice_scheme) \<Rightarrow> DelegationConfig \<Rightarrow> string + unit" where
  "connect_lattice x config = (case de_lattice_endpoint config of
     None \<Rightarrow> Inl ''lattice endpoint not configured (set PACT_LATTICE_ENDPOINT)''
   | Some endpoint \<Rightarrow> (case sy_connect x \<lparr>lc_endpoint = endpoint, lc_timeout_secs = de_timeout_secs config,
         lc_token = de_lattice_token config\<rparr> of
       Inl e \<Rightarrow> Inl (''lattice connection failed: '' @ e) | Inr _ \<Rightarrow> Inr ()))"

text \<open>Connect, call, print.\<close>

definition lattice_query ::
  "('a Lattice_scheme) \<Rightarrow> DelegationConfig \<Rightarrow> string + 'r \<Rightarrow> ('r \<Rightarrow> string) \<Rightarrow> string + string" where
  "lattice_query x config answer print = (case connect_lattice x config of
     Inl e \<Rightarrow> Inl e
   | Inr _ \<Rightarrow> (case answer of Inl e \<Rightarrow> Inl e | Inr r \<Rightarrow> Inr (print r)))"

subsection \<open>Jobs and queues\<close>

definition job_nodes :: "string list \<Rightarrow> string" where
  "job_nodes ns = (if ns = [] then ''-'' else if length ns \<le> 2 then join_with '','' ns
     else hd ns @ ''+'' @ show_nat (length ns - 1))"

definition list_jobs :: "('a Lattice_scheme) \<Rightarrow> DelegationConfig \<Rightarrow> string option \<Rightarrow> string option \<Rightarrow> string + string" where
  "list_jobs x config node_filter vcluster_filter =
     lattice_query x config (la_list_allocations x (or_empty vcluster_filter)) (\<lambda>allocs.
       if allocs = [] then ''No jobs found.''
       else columns [(36, ''ID''), (12, ''STATE''), (20, ''NODE(S)''), (16, ''VCLUSTER'')] ''USER'' @ rule_line 100 @
         concat (map (\<lambda>a. columns [(36, lo_allocation_id a), (12, lo_state a), (20, job_nodes (lo_assigned_nodes a)),
             (16, case lo_spec a of None \<Rightarrow> ''-'' | Some s \<Rightarrow> ls_vcluster s)] (lo_user a))
           (filter (\<lambda>a. case node_filter of None \<Rightarrow> True | Some n \<Rightarrow> n \<in> set (lo_assigned_nodes a)) allocs)))"

definition cancel_job :: "('a Lattice_scheme) \<Rightarrow> DelegationConfig \<Rightarrow> string \<Rightarrow> string + string" where
  "cancel_job x config job_id = lattice_query x config (la_cancel x job_id) (\<lambda>ok.
     if ok then ''Job '' @ job_id @ '' cancelled.'' else ''Job '' @ job_id @ '' cancel returned: success=false'')"

definition probe_desc :: "LaProbe \<Rightarrow> string" where
  "probe_desc p = (if lp_probe_type p = ''http'' then ''HTTP GET :'' @ show_int (lp_port p) @ lp_path p
       else ''TCP :'' @ show_int (lp_port p)) @ '' every '' @ show_int (lp_period_secs p) @ ''s (threshold='' @
     show_int (lp_failure_threshold p) @ '', timeout='' @ show_int (lp_timeout_secs p) @ ''s, delay='' @
     show_int (lp_initial_delay_secs p) @ ''s)''"

definition spec_text :: "LaSpec \<Rightarrow> string" where
  "spec_text s = line ''Tenant:     '' (ls_tenant s) @ line ''Project:    '' (ls_project s) @
     line ''vCluster:   '' (ls_vcluster s) @ line ''Entrypoint: '' (ls_entrypoint s) @
     line ''Sensitive:  '' (show_bool (ls_sensitive s)) @
     (case ls_resources s of None \<Rightarrow> [] | Some (lo, hi, gpu) \<Rightarrow> line ''Resources:  ''
        (''min_nodes='' @ show_int lo @ '', max_nodes='' @ show_int hi @ '', gpu_type='' @ gpu)) @
     (case ls_liveness_probe s of None \<Rightarrow> [] | Some p \<Rightarrow> line ''Probe:      '' (probe_desc p))"

definition inspect_job :: "('a Lattice_scheme) \<Rightarrow> DelegationConfig \<Rightarrow> string \<Rightarrow> string + string" where
  "inspect_job x config job_id = lattice_query x config (la_get_allocation x job_id) (\<lambda>a.
     line ''Allocation: '' (lo_allocation_id a) @ line ''State:      '' (lo_state a) @
     line ''User:       '' (lo_user a) @ line ''Message:    '' (lo_message a) @
     line ''Exit code:  '' (show_int (lo_exit_code a)) @
     line_when (lo_assigned_nodes a \<noteq> []) ''Nodes:      '' (join_with '', '' (lo_assigned_nodes a)) @
     (case lo_spec a of None \<Rightarrow> [] | Some s \<Rightarrow> spec_text s) @
     secs_line ''Created:    '' (lo_created_at a) @ secs_line ''Started:    '' (lo_started_at a) @
     secs_line ''Completed:  '' (lo_completed_at a))"

definition queue_status :: "('a Lattice_scheme) \<Rightarrow> DelegationConfig \<Rightarrow> string option \<Rightarrow> string + string" where
  "queue_status x config vcluster =
     lattice_query x config (la_vcluster_queue x (case vcluster of Some v \<Rightarrow> v | None \<Rightarrow> ''default'')) (\<lambda>q.
       line ''Queue status for vCluster: '' (lq_vcluster_id q) @ line ''  Pending: '' (show_int (lq_pending q)) @
       line ''  Running: '' (show_int (lq_running q)) @ line ''  Total:   '' (show_int (lq_total q)))"

subsection \<open>Combined views\<close>

definition raft_text :: "LaRaft \<Rightarrow> string" where
  "raft_text r = line ''  Leader:       '' (lr_leader_id r) @ line ''  Term:         '' (show_int (lr_current_term r)) @
     line ''  Last applied: '' (show_int (lr_last_applied r)) @ line ''  Commit index: '' (show_int (lr_commit_index r)) @
     (if lr_members r = [] then [] else line ''  Members:'' [] @
        concat (map (\<lambda>m. ''    '' @ lm_node_id m @ '' ('' @ lm_address m @ '') '' @ em_dash @ '' role='' @ lm_role m @
          '', match_index='' @ show_int (lm_match_index m) @ nl) (lr_members r)))"

definition cluster_status ::
  "CliEnv \<Rightarrow> ('a Lattice_scheme) \<Rightarrow> (NodeId \<Rightarrow> Status + NodeStateResponse) \<Rightarrow> DelegationConfig \<Rightarrow> string" where
  "cluster_status env x get_node_state config =
     line ''=== Pact Journal ==='' [] @
     (case cli_status env get_node_state ''local'' of
        Inr st \<Rightarrow> line st [] | Inl e \<Rightarrow> line ''  Status: error ('' (e @ '')'')) @
     nl @ line ''=== Lattice Scheduler ==='' [] @
     (case connect_lattice x config of
        Inl e \<Rightarrow> line ''  '' e
      | Inr _ \<Rightarrow> (case la_raft_status x of
          Inr r \<Rightarrow> raft_text r | Inl e \<Rightarrow> line ''  Raft query failed: '' e))"

definition audit_row :: "LaAuditEntry \<Rightarrow> string" where
  "audit_row a = ''  ['' @ secs_or_dash (lu_timestamp a) @ ''] '' @ lu_user_id a @ '' '' @ lu_action a @ '' '' @
     em_dash @ '' '' @ lu_details a @ nl"

definition audit_combined ::
  "CliEnv \<Rightarrow> ('a Lattice_scheme) \<Rightarrow> list_call \<Rightarrow> DelegationConfig \<Rightarrow> string \<Rightarrow> u32 \<Rightarrow> string" where
  "audit_combined env x call config source limit =
     (if source = ''all'' \<or> source = ''pact'' then
        line ''=== Pact Audit Log ==='' [] @
        (case cli_log env call limit None of Inr shown \<Rightarrow> line shown [] | Inl e \<Rightarrow> line ''  Error: '' e)
      else []) @
     (if source = ''all'' \<or> source = ''lattice'' then
        line ''=== Lattice Audit Log ==='' [] @
        (case connect_lattice x config of
           Inl e \<Rightarrow> line ''  '' e
         | Inr _ \<Rightarrow> (case la_query_audit x limit of
             Inr es \<Rightarrow> line_when (es = []) ''  No audit entries.'' [] @ concat (map audit_row es)
           | Inl e \<Rightarrow> line ''  Audit query failed: '' e))
      else [])"

text \<open>
  The number of endpoints is added up in 32 bits.
\<close>

definition services_text :: "('a Lattice_scheme) \<Rightarrow> string list \<Rightarrow> string" where
  "services_text x names =
     (let found = map (\<lambda>n. map_sum id (\<lambda>(_, eps). of_nat (length eps) :: u32) (la_lookup_service x n)) names in
      line ''  Registered: '' (show_nat (length names) @ '' services, '' @
        show_nat (unat (sum_list (map (\<lambda>r. case r of Inr c \<Rightarrow> c | Inl _ \<Rightarrow> 0) found))) @ '' endpoints'') @
      concat (map2 (\<lambda>n r. line (''    '' @ n @ '': '') (case r of
         Inr c \<Rightarrow> show_nat (unat c) @ '' endpoints'' | Inl _ \<Rightarrow> ''(lookup failed)'')) names found))"

definition health_check ::
  "CliEnv \<Rightarrow> ('a Lattice_scheme) \<Rightarrow> (NodeId \<Rightarrow> Status + NodeStateResponse) \<Rightarrow> DelegationConfig \<Rightarrow> string" where
  "health_check env x get_node_state config =
     (let (journal, journal_ok) = (case cli_status env get_node_state ''local'' of
              Inr _ \<Rightarrow> (line ''  Status: HEALTHY'' [], True)
            | Inl e \<Rightarrow> (line ''  Status: UNHEALTHY ('' (e @ '')''), False));
          (lattice, lattice_ok, connected) = (case connect_lattice x config of
              Inl e \<Rightarrow> (line ''  Status: UNAVAILABLE ('' (e @ '')''), False, False)
            | Inr _ \<Rightarrow> (case la_health x of
                Inr h \<Rightarrow> (line ''  Status:  '' (to_uppercase (lh_status h)) @ line ''  Version: '' (lh_version h) @
                   line ''  Uptime:  '' (show_int (lh_uptime_secs h) @ ''s''), lh_status h = ''healthy'', True)
              | Inl e \<Rightarrow> (line ''  Status: UNHEALTHY ('' (e @ '')''), False, False)));
          services = (if \<not> connected then line (''  (unavailable '' @ em_dash @ '' see above)'') []
            else (case la_list_services x of
                Inr [] \<Rightarrow> line ''  Registered: 0 services'' []
              | Inr names \<Rightarrow> services_text x names
              | Inl e \<Rightarrow> line ''  Service registry error: '' e))
      in line ''=== Pact Journal ==='' [] @ journal @ nl @ line ''=== Lattice Scheduler ==='' [] @ lattice @ nl @
         line ''=== Lattice Services ==='' [] @ services @ nl @ ''Overall: '' @
         (if journal_ok \<and> lattice_ok then ''PASS'' else ''FAIL''))"

subsection \<open>Accounting, services, workflows, budgets, nodes\<close>

definition accounting ::
  "('a Lattice_scheme) \<Rightarrow> (F64 \<Rightarrow> string) \<Rightarrow> DelegationConfig \<Rightarrow> string option \<Rightarrow> string + string" where
  "accounting x fmt1 config vcluster = lattice_query x config (la_accounting_usage x (or_empty vcluster)) (\<lambda>u.
     columns [(16, ''TENANT''), (14, ''CPU HOURS''), (14, ''GPU HOURS''), (16, ''STORAGE (bytes)'')] ''ALLOCATIONS'' @
     rule_line 80 @
     columns [(16, lg_tenant_id u), (14, fmt1 (lg_cpu_hours u)), (14, fmt1 (lg_gpu_hours u)),
       (16, show_int (lg_storage_bytes u))] (show_int (lg_allocation_count u)))"

definition list_services :: "('a Lattice_scheme) \<Rightarrow> DelegationConfig \<Rightarrow> string + string" where
  "list_services x config = lattice_query x config (la_list_services x) (\<lambda>names.
     if names = [] then line ''No services registered.'' []
     else show_nat (length names) @ line '' registered services:'' [] @ concat (map (line ''  '') names))"

definition endpoint_row :: "LaEndpoint \<Rightarrow> string" where
  "endpoint_row e = ''    alloc='' @ lep_allocation_id e @ '' tenant='' @ lep_tenant e @ '' port='' @ show_int (lep_port e) @
     '' proto='' @ (if lep_protocol e = [] then ''tcp'' else lep_protocol e) @ '' nodes=['' @ join_with '', '' (lep_nodes e) @
     '']'' @ nl"

definition lookup_service :: "('a Lattice_scheme) \<Rightarrow> DelegationConfig \<Rightarrow> string \<Rightarrow> string + string" where
  "lookup_service x config name = lattice_query x config (la_lookup_service x name) (\<lambda>(n, eps).
     line ''Service: '' n @
     (if eps = [] then line ''  No endpoints registered.'' []
      else ''  '' @ show_nat (length eps) @ line '' endpoints:'' [] @ concat (map endpoint_row eps)))"

definition list_dags ::
  "('a Lattice_scheme) \<Rightarrow> DelegationConfig \<Rightarrow> string option \<Rightarrow> string option \<Rightarrow> u32 \<Rightarrow> string + string" where
  "list_dags x config tenant state limit =
     lattice_query x config (la_list_dags x (or_empty tenant) (or_empty state) limit) (\<lambda>dags.
       if dags = [] then ''No DAGs found.''
       else columns [(36, ''DAG ID''), (12, ''STATE''), (12, ''STEPS'')] ''CREATED'' @ rule_line 80 @
         concat (map (\<lambda>d. columns [(36, ld_dag_id d), (12, ld_state d), (12, show_nat (length (ld_allocations d)))]
           (secs_or_dash (ld_created_at d))) dags))"

definition inspect_dag :: "('a Lattice_scheme) \<Rightarrow> DelegationConfig \<Rightarrow> string \<Rightarrow> string + string" where
  "inspect_dag x config dag_id = lattice_query x config (la_get_dag x dag_id) (\<lambda>d.
     line ''DAG:       '' (ld_dag_id d) @ line ''State:     '' (ld_state d) @
     line ''Steps:     '' (show_nat (length (ld_allocations d))) @
     secs_line ''Created:   '' (ld_created_at d) @ secs_line ''Completed: '' (ld_completed_at d) @
     (if ld_allocations d = [] then [] else nl @ line ''Allocations:'' [] @
        concat (map (\<lambda>a. ''  '' @ lo_allocation_id a @ '' '' @ em_dash @ '' '' @ lo_state a @ '' ('' @ lo_user a @ '')'' @ nl)
          (ld_allocations d))))"

definition cancel_dag :: "('a Lattice_scheme) \<Rightarrow> DelegationConfig \<Rightarrow> string \<Rightarrow> string + string" where
  "cancel_dag x config dag_id = lattice_query x config (la_cancel_dag x dag_id) (\<lambda>(ok, n).
     if ok then ''DAG '' @ dag_id @ '' cancelled ('' @ show_int n @ '' allocations cancelled).''
     else ''DAG '' @ dag_id @ '' cancel returned: success=false'')"

definition budget_part :: "(F64 \<Rightarrow> string) \<Rightarrow> F64 \<Rightarrow> F64 option \<Rightarrow> F64 option \<Rightarrow> string" where
  "budget_part fmt1 used budget part = fmt1 used @
     (case budget of Some b \<Rightarrow> '' / '' @ fmt1 b | None \<Rightarrow> []) @
     (case part of Some f \<Rightarrow> '' ('' @ fmt1 (f64_mul f (Fin 100)) @ ''%)'' | None \<Rightarrow> [])"

definition tenant_budget ::
  "('a Lattice_scheme) \<Rightarrow> (F64 \<Rightarrow> string) \<Rightarrow> DelegationConfig \<Rightarrow> string \<Rightarrow> u32 \<Rightarrow> string + string" where
  "tenant_budget x fmt1 config tenant_id days = lattice_query x config (la_tenant_usage x tenant_id days) (\<lambda>u.
     line ''Tenant: '' (lt_tenant u) @
     line ''Period: '' (lt_period_start u @ '' '' @ em_dash @ '' '' @ lt_period_end u @ '' ('' @ show_int (lt_period_days u) @
       '' days)'') @
     line ''GPU hours:  '' (budget_part fmt1 (lt_gpu_hours_used u) (lt_gpu_hours_budget u) (lt_gpu_fraction_used u)) @
     line ''Node hours: '' (budget_part fmt1 (lt_node_hours_used u) (lt_node_hours_budget u) (lt_node_fraction_used u)))"

definition user_budget ::
  "('a Lattice_scheme) \<Rightarrow> (F64 \<Rightarrow> string) \<Rightarrow> DelegationConfig \<Rightarrow> string \<Rightarrow> u32 \<Rightarrow> string + string" where
  "user_budget x fmt1 config user days = lattice_query x config (la_user_usage x user days) (\<lambda>u.
     line ''User: '' (luu_user u) @
     line ''Period: '' (luu_period_start u @ '' '' @ em_dash @ '' '' @ luu_period_end u) @
     line ''Total GPU hours: '' (fmt1 (luu_total_gpu_hours u)) @
     (if luu_tenants u = [] then []
      else nl @ columns [(16, ''TENANT''), (14, ''GPU HOURS''), (14, ''GPU BUDGET'')] ''NODE HOURS'' @ rule_line 65 @
        concat (map (\<lambda>t. columns [(16, lt_tenant t), (14, fmt1 (lt_gpu_hours_used t)),
          (14, case lt_gpu_hours_budget t of None \<Rightarrow> ''-'' | Some b \<Rightarrow> fmt1 b)] (fmt1 (lt_node_hours_used t)))
          (luu_tenants u))))"

definition list_lattice_nodes ::
  "('a Lattice_scheme) \<Rightarrow> DelegationConfig \<Rightarrow> string option \<Rightarrow> string option \<Rightarrow> u32 \<Rightarrow> string + string" where
  "list_lattice_nodes x config state vcluster limit =
     lattice_query x config (la_list_nodes x (or_empty state) (or_empty vcluster) limit) (\<lambda>nodes.
       if nodes = [] then ''No nodes found.''
       else columns [(20, ''NODE''), (10, ''STATE''), (8, ''GPUs''), (6, ''CORES''), (8, ''MEM GB''), (16, ''VCLUSTER'')]
           ''REASON'' @ rule_line 90 @
         concat (map (\<lambda>n. columns [(20, lno_node_id n), (10, lno_state n), (8, show_int (lno_gpu_count n)),
           (6, show_int (lno_cpu_cores n)), (8, show_int (lno_memory_gb n)),
           (16, if lno_owner_vcluster n = [] then ''-'' else lno_owner_vcluster n)] (lno_state_reason n)) nodes))"

definition inspect_lattice_node :: "('a Lattice_scheme) \<Rightarrow> DelegationConfig \<Rightarrow> string \<Rightarrow> string + string" where
  "inspect_lattice_node x config node_id = lattice_query x config (la_get_node x node_id) (\<lambda>n.
     line ''Node:      '' (lno_node_id n) @ line ''State:     '' (lno_state n) @
     line_when (lno_state_reason n \<noteq> []) ''Reason:    '' (lno_state_reason n) @
     line ''Group:     '' (lno_group n) @
     line ''GPU:       '' (show_int (lno_gpu_count n) @ '' x '' @ lno_gpu_type n) @
     line ''CPU:       '' (show_int (lno_cpu_cores n) @ '' cores'') @
     line ''Memory:    '' (show_int (lno_memory_gb n) @ '' GB'') @
     line_when (lno_features n \<noteq> []) ''Features:  '' (join_with '', '' (lno_features n)) @
     line_when (lno_owner_tenant n \<noteq> []) ''Tenant:    '' (lno_owner_tenant n) @
     line_when (lno_owner_vcluster n \<noteq> []) ''vCluster:  '' (lno_owner_vcluster n) @
     line_when (lno_owner_allocation n \<noteq> []) ''Allocation: '' (lno_owner_allocation n) @
     line_when (lno_allocation_ids n \<noteq> []) ''Active allocations: '' (join_with '', '' (lno_allocation_ids n)) @
     secs_line ''Heartbeat: '' (lno_last_heartbeat n))"

subsection \<open>Backups\<close>

datatype BackupCall = CreateBackup string | RestoreBackup string

definition backup_entry :: "string \<Rightarrow> string \<Rightarrow> string \<Rightarrow> string \<Rightarrow> ProtoConfigEntry" where
  "backup_entry operation path who role = \<lparr>
     pce_sequence = 0, pce_timestamp = None, pce_entry_type = 12,
     pce_scope = Some (Some (ProtoGlobal True)), pce_author = Some (human who role),
     pce_parent = None, pce_state_delta = None, pce_policy_ref = ''delegate:lattice:'' @ operation @ '':'' @ path,
     pce_ttl = None, pce_emergency_reason = None\<rparr>"

text \<open>The audit entry is required here: without it the scheduler is not called.\<close>

definition audited_backup ::
  "CliEnv \<Rightarrow> ('a Lattice_scheme) \<Rightarrow> 's append_call \<Rightarrow> DelegationConfig \<Rightarrow> string \<Rightarrow> BackupCall \<Rightarrow> string \<Rightarrow> (string + string) \<Rightarrow>
   string \<Rightarrow> string \<Rightarrow> 's \<Rightarrow> 's \<times> BackupCall list \<times> (string + string)" where
  "audited_backup env x journal config operation call path answer who role s =
     (case journal (backup_entry operation path who role) s of (s', r) \<Rightarrow>
        (case with_status env (''audit logging for '' @ operation @ '' failed'') r of
           Inl e \<Rightarrow> (s', [], Inl e)
         | Inr _ \<Rightarrow> (case connect_lattice x config of
             Inl e \<Rightarrow> (s', [], Inl e)
           | Inr _ \<Rightarrow> (s', [call], answer))))"

definition backup_create ::
  "CliEnv \<Rightarrow> ('a Lattice_scheme) \<Rightarrow> 's append_call \<Rightarrow> DelegationConfig \<Rightarrow> string \<Rightarrow> string \<Rightarrow> string \<Rightarrow> 's \<Rightarrow>
   's \<times> BackupCall list \<times> (string + string)" where
  "backup_create env x journal config path =
     audited_backup env x journal config ''backup_create'' (CreateBackup path) path
       (case la_create_backup x path of
          Inl e \<Rightarrow> Inl e
        | Inr b \<Rightarrow>
            if lb_success b then
              case lb_counts b of (nodes, allocs, tenants, audits) \<Rightarrow>
                Inr (line ''Backup created: '' (lb_message b) @
                  line ''  Nodes: '' (show_int nodes @ '', Allocations: '' @ show_int allocs @ '', Tenants: '' @
                    show_int tenants @ '', Audit entries: '' @ show_int audits) @
                  secs_line ''  Timestamp: '' (lb_timestamp b))
            else Inl (''Backup failed: '' @ lb_message b))"

definition backup_verify :: "('a Lattice_scheme) \<Rightarrow> DelegationConfig \<Rightarrow> string \<Rightarrow> string + string" where
  "backup_verify x config path = lattice_query x config (la_verify_backup x path) (\<lambda>v.
     line ''Backup valid: '' (if lv_valid v then ''YES'' else ''NO'') @ line (lv_message v) [] @
     secs_line ''  Timestamp: '' (lv_timestamp v) @
     line ''  Snapshot: term='' (show_int (fst (lv_snapshot v)) @ '', index='' @ show_int (snd (lv_snapshot v))))"

definition backup_restore ::
  "CliEnv \<Rightarrow> ('a Lattice_scheme) \<Rightarrow> 's append_call \<Rightarrow> DelegationConfig \<Rightarrow> string \<Rightarrow> string \<Rightarrow> string \<Rightarrow> 's \<Rightarrow>
   's \<times> BackupCall list \<times> (string + string)" where
  "backup_restore env x journal config path =
     audited_backup env x journal config ''backup_restore'' (RestoreBackup path) path
       (case la_restore_backup x path of
          Inl e \<Rightarrow> Inl e
        | Inr (ok, msg) \<Rightarrow> if ok then Inr (''Restore completed: '' @ msg) else Inl (''Restore failed: '' @ msg))"

definition run_backup ::
  "CliEnv \<Rightarrow> ('a Lattice_scheme) \<Rightarrow> 's append_call \<Rightarrow> DelegationConfig \<Rightarrow> BackupCall \<Rightarrow> string \<Rightarrow> string \<Rightarrow> 's \<Rightarrow>
   's \<times> BackupCall list \<times> (string + string)" where
  "run_backup env x journal config c = (case c of
     CreateBackup path \<Rightarrow> backup_create env x journal config path
   | RestoreBackup path \<Rightarrow> backup_restore env x journal config path)"

subsection \<open>Backups are audited\<close>

definition backup_ref :: "BackupCall \<Rightarrow> string" where
  "backup_ref c = ''delegate:lattice:'' @ (case c of
     CreateBackup path \<Rightarrow> ''backup_create:'' @ path | RestoreBackup path \<Rightarrow> ''backup_restore:'' @ path)"

definition backup_stored :: "time \<Rightarrow> BackupCall \<Rightarrow> string \<Rightarrow> string \<Rightarrow> EntrySeq \<Rightarrow> ConfigEntry" where
  "backup_stored now c who role q = \<lparr>
     ce_sequence = q, ce_timestamp = now, ce_entry_type = ServiceLifecycle, ce_scope = Global,
     ce_author = command_author who role, ce_parent = None, ce_state_delta = None,
     ce_policy_ref = Some (backup_ref c), ce_ttl_seconds = None, ce_emergency_reason = None\<rparr>"

lemma backup_entry_stored:
  "proto_to_config_entry now (backup_entry operation path who role) = Inr \<lparr>
     ce_sequence = 0, ce_timestamp = now, ce_entry_type = ServiceLifecycle, ce_scope = Global,
     ce_author = command_author who role, ce_parent = None, ce_state_delta = None,
     ce_policy_ref = Some (''delegate:lattice:'' @ operation @ '':'' @ path), ce_ttl_seconds = None,
     ce_emergency_reason = None\<rparr>"
  by (simp add: proto_to_config_entry_def backup_entry_def human_def kind_to_scope_def command_author_def
      proto_principal_type_def entry_type_of_int_def)

lemma audited_backup_calls:
  assumes "audited_backup env x journal config operation call path answer who role s = (s', calls, r)" "calls \<noteq> []"
  shows "calls = [call] \<and> (\<exists>q. journal (backup_entry operation path who role) s = (s', Inr q))"
  using assms
  by (auto simp: audited_backup_def with_status_def split: prod.splits sum.splits)

text \<open>
  The scheduler is asked for a backup or a restore only when the journal has accepted the audit
  entry: afterwards the journal holds an entry that names the operation, the path and the author,
  together with all it held before, although other clients write meanwhile.
\<close>

theorem backup_audited:
  assumes "entries_inv s" "unat (js_next_sequence s) + traffic others < 2 ^ 64"
    and "run_backup env x (busy_append env token xt to_json others) config c who role s = (s', calls, r)"
    and "calls \<noteq> []"
  shows "calls = [c] \<and> prefix (js_entries s) (js_entries s') \<and>
    (\<exists>q. bt_get (js_entries s') q = Some (backup_stored (fst (snd others)) c who role q))"
proof -
  define operation path where "operation = (case c of CreateBackup _ \<Rightarrow> ''backup_create'' | RestoreBackup _ \<Rightarrow> ''backup_restore'')"
    and "path = (case c of CreateBackup p \<Rightarrow> p | RestoreBackup p \<Rightarrow> p)"
  obtain answer where "audited_backup env x (busy_append env token xt to_json others) config operation c path answer
      who role s = (s', calls, r)"
    using assms(3) by (cases c) (auto simp: run_backup_def backup_create_def backup_restore_def operation_def path_def)
  from audited_backup_calls [OF this assms(4)] obtain q where c: "calls = [c]"
    and q: "busy_append env token xt to_json others (backup_entry operation path who role) s = (s', Inr q)"
    by blast
  have "''delegate:lattice:'' @ operation @ '':'' @ path = backup_ref c"
    by (cases c) (simp_all add: operation_def path_def backup_ref_def)
  with busy_append_stores [OF assms(1,2) q] have "prefix (js_entries s) (js_entries s')"
    "bt_get (js_entries s') q = Some (backup_stored (fst (snd others)) c who role q)"
    by (auto simp: backup_entry_stored backup_stored_def)
  with c show ?thesis
    by blast
qed

subsection \<open>The verdict on the health of the journal\<close>

lemma health_verdict_shape:
  "\<exists>pre. health_check env x get_node_state config = pre @ ''Overall: '' @
     (if \<not> isl (get_node_state ''local'') \<and> connect_lattice x config = Inr () \<and>
         (\<exists>h. la_health x = Inr h \<and> lh_status h = ''healthy'') then ''PASS'' else ''FAIL'')"
  unfolding health_check_def Let_def cli_status_def with_status_def
  by (cases "get_node_state ''local''"; cases "connect_lattice x config"; cases "la_health x") auto

text \<open>
  \<open>pact health\<close> ends with \<open>PASS\<close> exactly when the journal has a recorded state for a node called
  \<open>local\<close>, the token can be sent, and the scheduler is configured, reachable and healthy. A journal that is up and
  answers, but knows no node of that name, is reported as unhealthy.
\<close>

theorem health_verdict_exact:
  "suffix ''Overall: PASS'' (health_check env x (\<lambda>n. query env token (svc_get_node_state s n)) config) \<longleftrightarrow>
     usable_token env token \<and> hm_contains (js_node_states s) ''local'' \<and> connect_lattice x config = Inr () \<and>
     (\<exists>h. la_health x = Inr h \<and> lh_status h = ''healthy'')"
proof -
  let ?g = "\<lambda>n. query env token (svc_get_node_state s n)"
  have known: "\<not> isl (?g ''local'') \<longleftrightarrow> usable_token env token \<and> hm_contains (js_node_states s) ''local''"
  proof (cases "usable_token env token")
    case True
    then show ?thesis
      by (auto simp: svc_get_node_state_def hm_contains_def split: option.split)
  next
    case False
    then show ?thesis
      using query_ok [of env token "svc_get_node_state s ''local''"] by (cases "?g ''local''") auto
  qed
  obtain pre where shape: "health_check env x ?g config = pre @ ''Overall: '' @
     (if \<not> isl (?g ''local'') \<and> connect_lattice x config = Inr () \<and>
         (\<exists>h. la_health x = Inr h \<and> lh_status h = ''healthy'') then ''PASS'' else ''FAIL'')"
    using health_verdict_shape by blast
  show ?thesis
    unfolding shape unfolding known suffix_def by auto
qed

end
