(* ===== verification/Cli_Main.thy ===== *)
theory Cli_Main
  imports Cli_Node Cli_Agent Cli_Lattice
begin

text \<open>
  The entry point of the command line tool, \<open>crates/pact-cli/src/main.rs\<close>: the commands, the token, the
  connection to the journal, the delegation settings from the environment, and the dispatch to the
  functions of \<open>Cli_Journal\<close>, \<open>Cli_Node\<close>, \<open>Cli_Agent\<close>, \<open>Cli_Delegate\<close> and \<open>Cli_Lattice\<close>. The parsing of the
  arguments is done by a library: the model starts with the parsed command. The remote side is a
  record of the calls of one connection, over a state of its own.
\<close>

subsection \<open>Commands\<close>

datatype EmergencySubcommand = EmergencyStartCmd string | EmergencyEndCmd bool

datatype ApproveSubcommand = ApproveList | ApproveAccept string | ApproveDeny string string

datatype ServiceSubcommand = ServiceStatus "string option" | ServiceRestart string | ServiceLogs string

datatype NodeSubcommand =
  NodeEnroll NodeId string "string option"
| NodeDecommission NodeId bool
| NodeAssign NodeId VClusterId
| NodeUnassign NodeId
| NodeMove NodeId VClusterId
| NodeList "string option" "string option" bool
| NodeInspect NodeId
| NodeImport "string option"

datatype GroupSubcommand = GroupList | GroupShow string | GroupSetPolicy string string

datatype JobsSubcommand = JobsList "string option" "string option" | JobsCancel string | JobsInspect string

datatype ServicesSubcommand = ServicesList | ServicesLookup string

datatype BlacklistSubcommand = BlacklistListCmd | BlacklistAddCmd string | BlacklistRemoveCmd string

datatype DagSubcommand = DagList "string option" "string option" u32 | DagInspect string | DagCancel string

datatype BudgetSubcommand = BudgetTenant string u32 | BudgetUser string u32

datatype BackupSubcommand = BackupCreateCmd string | BackupVerifyCmd string | BackupRestoreCmd string bool

datatype NodesSubcommand = NodesList "string option" "string option" u32 | NodesInspect string

datatype Commands =
  CmdStatus "string option" "string option"
| CmdDiff "string option" bool
| CmdLog u32 "string option"
| CmdCommit string
| CmdRollback u64
| CmdExec NodeId "string list"
| CmdShell NodeId
| CmdEmergency EmergencySubcommand
| CmdApprove ApproveSubcommand
| CmdService ServiceSubcommand
| CmdCap "NodeId option"
| CmdWatch "string option"
| CmdApply string
| CmdNode NodeSubcommand
| CmdPromote NodeId bool
| CmdDelegate Delegation NodeId
| CmdGroup GroupSubcommand
| CmdDiag "NodeId option" u32 string "string option" "string option" "string option"
| CmdBlacklist BlacklistSubcommand
| CmdJobs JobsSubcommand
| CmdQueue "string option"
| CmdClusterStatus
| CmdAudit string u32
| CmdAccounting "string option"
| CmdDag DagSubcommand
| CmdBudget BudgetSubcommand
| CmdBackup BackupSubcommand
| CmdNodes NodesSubcommand
| CmdHealth
| CmdServices ServicesSubcommand
| CmdExtend u32
| CmdLogin "string option" bool bool
| CmdLogout

text \<open>
  The commands that get a token and a connection to the journal. \<open>Shell\<close> is not among them.
\<close>

definition needs_journal :: "Commands \<Rightarrow> bool" where
  "needs_journal c = (case c of
     CmdShell _ \<Rightarrow> False | CmdJobs _ \<Rightarrow> False | CmdQueue _ \<Rightarrow> False | CmdAccounting _ \<Rightarrow> False
   | CmdDag _ \<Rightarrow> False | CmdBudget _ \<Rightarrow> False | CmdNodes _ \<Rightarrow> False | CmdLogin _ _ _ \<Rightarrow> False | CmdLogout \<Rightarrow> False
   | _ \<Rightarrow> True)"

subsection \<open>The surroundings\<close>

datatype OAuthFlow = DeviceCode | ClientCredentials string string

record Tool =
  tl_env :: CliEnv
  tl_lattice :: Lattice
  tl_smd :: Smd
  tl_fmt1 :: "F64 \<Rightarrow> string"
  tl_spec_toml :: "string \<Rightarrow> string + ApplySpec"
  tl_policy_toml :: "string \<Rightarrow> string + VClusterPolicy"
  tl_from_ts :: from_timestamp
  tl_show_f64 :: "f64_bits \<Rightarrow> string"
  tl_get_token :: "string \<Rightarrow> string + string"
  tl_login :: "string \<Rightarrow> OAuthFlow option \<Rightarrow> string + unit"
  tl_logout :: "string \<Rightarrow> string + unit"

record 's Remote =
  rm_append :: "nat \<Rightarrow> 's append_call"
  rm_list :: "'s \<Rightarrow> list_call"
  rm_node_state :: "'s \<Rightarrow> NodeId \<Rightarrow> Status + NodeStateResponse"
  rm_approvals :: "'s \<Rightarrow> string option \<Rightarrow> Status + PendingApprovalEntry list"
  rm_decide :: "DecideApprovalRequest \<Rightarrow> ('s, DecideApprovalResponse) journal_call"
  rm_policy :: "'s \<Rightarrow> string \<Rightarrow> Status + ProtoVClusterPolicy"
  rm_set_policy :: "UpdatePolicyRequest \<Rightarrow> ('s, UpdatePolicyResponse) journal_call"
  rm_subscribe :: "'s \<Rightarrow> string \<Rightarrow> EntrySeq \<Rightarrow> Status + (Status + ConfigUpdate) list"
  rm_register :: "nat \<Rightarrow> NodeId \<Rightarrow> ProtoHardwareIdentity option \<Rightarrow> ('s, NodeId \<times> string) journal_call"
  rm_decommission :: "NodeId \<Rightarrow> bool \<Rightarrow> ('s, DecommissionResponse) journal_call"
  rm_assign :: "NodeId \<Rightarrow> VClusterId \<Rightarrow> ('s, NodeId \<times> VClusterId) journal_call"
  rm_unassign :: "NodeId \<Rightarrow> ('s, NodeId) journal_call"
  rm_move :: "NodeId \<Rightarrow> VClusterId \<Rightarrow> ('s, NodeId \<times> VClusterId \<times> VClusterId) journal_call"
  rm_nodes :: "'s \<Rightarrow> ListNodesRequest \<Rightarrow> Status + NodeSummary list"
  rm_inspect :: "'s \<Rightarrow> NodeId \<Rightarrow> Status + InspectNodeResponse"
  rm_exec :: "string \<Rightarrow> 's exec_call"
  rm_commands :: "string \<Rightarrow> 's \<Rightarrow> string option \<Rightarrow> Status + CommandEntry list"
  rm_extend :: "string \<Rightarrow> string option \<Rightarrow> u32 \<Rightarrow> ('s, ExtendWindowResponse) journal_call"
  rm_diag :: "string \<Rightarrow> 's \<Rightarrow> string option \<Rightarrow> DiagRequest \<Rightarrow> Status + (Status + DiagChunk) list"

text \<open>How the process ends: what it wrote to the two streams and its exit code, or a panic.\<close>

datatype Ended = Ended string string int | Panicked

definition ended :: "string + string \<Rightarrow> Ended" where
  "ended r = (case r of
     Inr out \<Rightarrow> Ended (out @ nl) [] 0 | Inl e \<Rightarrow> Ended [] (''Error: '' @ e @ nl) 1)"

definition printed :: "'s \<times> (string + string) \<Rightarrow> 's \<times> Ended" where
  "printed r = apsnd ended r"

subsection \<open>Delegation settings\<close>

definition parse_backend :: "string \<Rightarrow> NodeMgmtBackendType option" where
  "parse_backend v = (if v = ''csm'' then Some Csm else if v = ''ochami'' then Some Ochami else None)"

definition delegation_config :: "CliEnv \<Rightarrow> string \<Rightarrow> DelegationConfig" where
  "delegation_config env token = \<lparr>
     de_lattice_endpoint = ci_var env ''PACT_LATTICE_ENDPOINT'',
     de_lattice_token = (case ci_var env ''PACT_LATTICE_TOKEN'' of
       Some t \<Rightarrow> Some t | None \<Rightarrow> if token = [] then None else Some token),
     de_node_mgmt_backend = Option.bind (ci_var env ''PACT_NODE_MGMT_BACKEND'') parse_backend,
     de_node_mgmt_base_url = ci_var env ''PACT_NODE_MGMT_URL'',
     de_node_mgmt_token = ci_var env ''PACT_NODE_MGMT_TOKEN'',
     de_openchami_smd_url = ci_var env ''PACT_OPENCHAMI_SMD_URL'',
     de_openchami_token = ci_var env ''PACT_OPENCHAMI_TOKEN'',
     de_timeout_secs = 30\<rparr>"

subsection \<open>Dispatch\<close>

definition vcluster_or_default :: "CliConfig \<Rightarrow> string" where
  "vcluster_or_default c = (case cc_default_vcluster c of Some v \<Rightarrow> v | None \<Rightarrow> ''default'')"

definition with_agent ::
  "CliEnv \<Rightarrow> 's Remote \<Rightarrow> NodeId \<Rightarrow> (string \<Rightarrow> 's \<Rightarrow> 's \<times> (string + string)) \<Rightarrow> 's \<Rightarrow> 's \<times> (string + string)" where
  "with_agent env r node act s = (case resolve_agent_address env (rm_node_state r s) node of
     Inl e \<Rightarrow> (s, Inl e)
   | Inr addr \<Rightarrow> (case connect_agent env addr of Inl e \<Rightarrow> (s, Inl e) | Inr uri \<Rightarrow> act uri s))"

definition run_service :: "CliEnv \<Rightarrow> 's Remote \<Rightarrow> string \<Rightarrow> ServiceSubcommand \<Rightarrow> 's \<Rightarrow> 's \<times> (string + string)" where
  "run_service env r token a = with_agent env r ''local'' (\<lambda>uri. case a of
     ServiceStatus name \<Rightarrow> exec_remote env token (rm_exec r uri) ''systemctl''
       [''status'', case name of Some n \<Rightarrow> n | None \<Rightarrow> ''--all'']
   | ServiceRestart name \<Rightarrow> exec_remote env token (rm_exec r uri) ''systemctl'' [''restart'', name]
   | ServiceLogs name \<Rightarrow> exec_remote env token (rm_exec r uri) ''journalctl'' [''-u'', name, ''-n'', ''50''])"

definition run_node :: "Tool \<Rightarrow> DelegationConfig \<Rightarrow> 's Remote \<Rightarrow> NodeSubcommand \<Rightarrow> 's \<Rightarrow> 's \<times> (string + string)" where
  "run_node tool config r a s = (let env = tl_env tool in case a of
     NodeEnroll n mac bmc \<Rightarrow> cli_enroll env (rm_register r 0) n mac bmc s
   | NodeDecommission n force \<Rightarrow> cli_decommission env (rm_decommission r) n force s
   | NodeAssign n vc \<Rightarrow> cli_assign env (rm_assign r) n vc s
   | NodeUnassign n \<Rightarrow> cli_unassign env (rm_unassign r) n s
   | NodeMove n vc \<Rightarrow> cli_move_node env (rm_move r) n vc s
   | NodeList state vc unassigned \<Rightarrow> (s, cli_node_list env (rm_nodes r s) state vc unassigned)
   | NodeInspect n \<Rightarrow> (s, cli_inspect env (rm_inspect r s) n)
   | NodeImport grp \<Rightarrow> (case de_openchami_smd_url config of
       None \<Rightarrow> (s, Inl ''PACT_OPENCHAMI_SMD_URL not configured'')
     | Some url \<Rightarrow> import_from_smd (tl_smd tool) (rm_register r) url (de_openchami_token config) grp s))"

definition run_group :: "Tool \<Rightarrow> 's Remote \<Rightarrow> GroupSubcommand \<Rightarrow> 's \<Rightarrow> 's \<times> (string + string)" where
  "run_group tool r a s = (case a of
     GroupList \<Rightarrow> (s, cli_group_list (tl_env tool) (rm_list r s) (rm_policy r s))
   | GroupShow name \<Rightarrow> (s, cli_group_show (tl_env tool) (tl_from_ts tool) (tl_show_f64 tool) (rm_policy r s) name)
   | GroupSetPolicy name path \<Rightarrow>
       cli_group_set_policy (tl_env tool) (tl_policy_toml tool) (rm_set_policy r) name path s)"

definition run_emergency ::
  "CliEnv \<Rightarrow> CliConfig \<Rightarrow> 's Remote \<Rightarrow> EmergencySubcommand \<Rightarrow> 's \<Rightarrow> 's \<times> (string + string)" where
  "run_emergency env c r a = (case a of
     EmergencyStartCmd reason \<Rightarrow>
       cli_emergency_start env (rm_append r 0) reason (vcluster_or_default c) ''cli-user'' ''pact-platform-admin''
   | EmergencyEndCmd force \<Rightarrow>
       cli_emergency_end env (rm_append r 0) (vcluster_or_default c) ''cli-user'' ''pact-platform-admin'')"

definition run_approve :: "CliEnv \<Rightarrow> 's Remote \<Rightarrow> ApproveSubcommand \<Rightarrow> 's \<Rightarrow> 's \<times> Ended" where
  "run_approve env r a s = (case a of
     ApproveList \<Rightarrow> (s, case cli_approve_list env (rm_approvals r s) None of None \<Rightarrow> Panicked | Some x \<Rightarrow> ended x)
   | ApproveAccept i \<Rightarrow>
       printed (cli_approve_decide env (rm_decide r) i ''approved'' ''cli-user'' ''pact-platform-admin'' s)
   | ApproveDeny i m \<Rightarrow>
       printed (cli_approve_decide env (rm_decide r) i ''rejected'' ''cli-user'' ''pact-platform-admin'' s))"

definition run_diag ::
  "CliEnv \<Rightarrow> CliConfig \<Rightarrow> 's Remote \<Rightarrow> string \<Rightarrow> NodeId option \<Rightarrow> u32 \<Rightarrow> string \<Rightarrow> string option \<Rightarrow> string option \<Rightarrow>
   string option \<Rightarrow> 's \<Rightarrow> 's \<times> (string + string)" where
  "run_diag env c r token node n source service pattern vcluster s = (case node of
     Some node_id \<Rightarrow> with_agent env r node_id (\<lambda>uri s. (s, diag_node env token (rm_diag r uri s) source service pattern n)) s
   | None \<Rightarrow> (case or_else vcluster (cc_default_vcluster c) of
       Some vc \<Rightarrow> (s, diag_fleet)
     | None \<Rightarrow> (s, Inl ''specify --node <id> for single-node or --vcluster <name> for fleet-wide diag'')))"

definition run_blacklist ::
  "CliEnv \<Rightarrow> CliConfig \<Rightarrow> 's Remote \<Rightarrow> string \<Rightarrow> string \<Rightarrow> BlacklistSubcommand \<Rightarrow> 's \<Rightarrow> 's \<times> Ended" where
  "run_blacklist env c r who role a s = (case a of
     BlacklistListCmd \<Rightarrow> (s, Ended (format_blacklist_result BlacklistList cli_default_blacklist @ nl @ nl) [] 0)
   | BlacklistAddCmd p \<Rightarrow> printed (cli_blacklist_add env (rm_append r 0) p (vcluster_or_default c) who role s)
   | BlacklistRemoveCmd p \<Rightarrow> printed (cli_blacklist_remove env (rm_append r 0) p (vcluster_or_default c) who role s))"

definition run_delegation ::
  "Tool \<Rightarrow> DelegationConfig \<Rightarrow> 's Remote \<Rightarrow> string \<Rightarrow> string \<Rightarrow> Delegation \<Rightarrow> NodeId \<Rightarrow> 's \<Rightarrow> 's \<times> Ended" where
  "run_delegation tool config r who role d node s =
     (case delegate (Systems.truncate (tl_lattice tool)) (tl_env tool) (rm_append r 0) d node who role config s of
        (s', calls, res) \<Rightarrow> (s', if dg_success res then Ended (format_delegation_result res @ nl @ nl) [] 0
          else Ended (format_delegation_result res @ nl) [] 1))"

definition run_backup_cmd ::
  "Tool \<Rightarrow> DelegationConfig \<Rightarrow> 's Remote \<Rightarrow> string \<Rightarrow> string \<Rightarrow> BackupSubcommand \<Rightarrow> 's \<Rightarrow> 's \<times> (string + string)" where
  "run_backup_cmd tool config r who role a s = (case a of
     BackupCreateCmd path \<Rightarrow>
       (case backup_create (tl_env tool) (tl_lattice tool) (rm_append r 0) config path who role s of (s', _, x) \<Rightarrow> (s', x))
   | BackupVerifyCmd path \<Rightarrow> (s, backup_verify (tl_lattice tool) config path)
   | BackupRestoreCmd path confirm \<Rightarrow>
       if confirm then
         (case backup_restore (tl_env tool) (tl_lattice tool) (rm_append r 0) config path who role s of (s', _, x) \<Rightarrow> (s', x))
       else (s, Inl (''backup restore is destructive '' @ em_dash @ '' pass --confirm to proceed'')))"

text \<open>The commands that only query the scheduler.\<close>

definition run_lattice :: "Tool \<Rightarrow> DelegationConfig \<Rightarrow> Commands \<Rightarrow> string + string" where
  "run_lattice tool config c = (let x = tl_lattice tool in case c of
     CmdJobs (JobsList node vc) \<Rightarrow> list_jobs x config node vc
   | CmdJobs (JobsCancel i) \<Rightarrow> cancel_job x config i
   | CmdJobs (JobsInspect i) \<Rightarrow> inspect_job x config i
   | CmdQueue vc \<Rightarrow> queue_status x config vc
   | CmdAccounting vc \<Rightarrow> accounting x (tl_fmt1 tool) config vc
   | CmdDag (DagList tenant state n) \<Rightarrow> list_dags x config tenant state n
   | CmdDag (DagInspect i) \<Rightarrow> inspect_dag x config i
   | CmdDag (DagCancel i) \<Rightarrow> cancel_dag x config i
   | CmdBudget (BudgetTenant i days) \<Rightarrow> tenant_budget x (tl_fmt1 tool) config i days
   | CmdBudget (BudgetUser i days) \<Rightarrow> user_budget x (tl_fmt1 tool) config i days
   | CmdNodes (NodesList state vc n) \<Rightarrow> list_lattice_nodes x config state vc n
   | CmdNodes (NodesInspect n) \<Rightarrow> inspect_lattice_node x config n
   | CmdServices ServicesList \<Rightarrow> list_services x config
   | CmdServices (ServicesLookup name) \<Rightarrow> lookup_service x config name
   | _ \<Rightarrow> Inr [])"

definition login_flow :: "CliEnv \<Rightarrow> bool \<Rightarrow> bool \<Rightarrow> OAuthFlow option" where
  "login_flow env device_code service_account =
     (if device_code then Some DeviceCode
      else if service_account then
        Some (ClientCredentials (or_empty (ci_var env ''PACT_CLIENT_ID'')) (or_empty (ci_var env ''PACT_CLIENT_SECRET'')))
      else None)"

text \<open>
  The \<open>match\<close> over the command, with the connection \<open>Some\<close> when the command has one. Taking the value of
  an absent connection panics.
\<close>

definition run_connected ::
  "Tool \<Rightarrow> CliConfig \<Rightarrow> DelegationConfig \<Rightarrow> string \<Rightarrow> 's Remote \<Rightarrow> Commands \<Rightarrow> 's \<Rightarrow> 's \<times> Ended" where
  "run_connected tool c config token r cmd s =
     (let env = tl_env tool; (who, role) = resolve_identity_from_token env token; vcluster = vcluster_or_default c in
      case cmd of
        CmdStatus node _ \<Rightarrow> printed (s, cli_status env (rm_node_state r s) (case node of Some n \<Rightarrow> n | None \<Rightarrow> ''local''))
      | CmdLog n scope \<Rightarrow> printed (s, cli_log env (rm_list r s) n scope)
      | CmdCommit m \<Rightarrow> printed (cli_commit env (rm_append r 0) m vcluster who role s)
      | CmdRollback seq \<Rightarrow> printed (cli_rollback env (rm_append r 0) seq vcluster who role s)
      | CmdDiff node _ \<Rightarrow> printed (s, cli_log env (rm_list r s) 50 (map_option (\<lambda>n. ''node:'' @ n) node))
      | CmdExec node command \<Rightarrow> printed (case parse_exec_command command of
            Inl e \<Rightarrow> (s, Inl e)
          | Inr (exe, args) \<Rightarrow> with_agent env r node (\<lambda>uri. exec_remote env token (rm_exec r uri) exe args) s)
      | CmdEmergency a \<Rightarrow> printed (run_emergency env c r a s)
      | CmdApprove a \<Rightarrow> run_approve env r a s
      | CmdService a \<Rightarrow> printed (run_service env r token a s)
      | CmdCap node \<Rightarrow> printed (with_agent env r (case node of Some n \<Rightarrow> n | None \<Rightarrow> ''local'')
          (\<lambda>uri s. (s, list_agent_commands env token (rm_commands r uri s))) s)
      | CmdWatch vc \<Rightarrow>
          (case cli_watch env (rm_subscribe r s (case vc of Some v \<Rightarrow> v | None \<Rightarrow> vcluster))
               (case vc of Some v \<Rightarrow> v | None \<Rightarrow> vcluster) of
             (shown, x) \<Rightarrow> (s, case ended x of
               Ended out err code \<Rightarrow> Ended (concat (map (\<lambda>l. l @ nl) shown) @ out) err code | Panicked \<Rightarrow> Panicked))
      | CmdApply path \<Rightarrow> printed (cli_apply env (tl_spec_toml tool) (rm_append r) path who role s)
      | CmdExtend mins \<Rightarrow> printed (with_agent env r ''local'' (\<lambda>uri. cli_extend env token (rm_extend r uri) mins) s)
      | CmdNode a \<Rightarrow> printed (run_node tool config r a s)
      | CmdPromote node dry_run \<Rightarrow> printed (s, cli_promote_node env (rm_list r s) node dry_run)
      | CmdDelegate d node \<Rightarrow> run_delegation tool config r who role d node s
      | CmdGroup a \<Rightarrow> printed (run_group tool r a s)
      | CmdDiag node n source service pattern vc \<Rightarrow>
          printed (run_diag env c r token node n source service pattern vc s)
      | CmdBlacklist a \<Rightarrow> run_blacklist env c r who role a s
      | CmdClusterStatus \<Rightarrow> printed (s, Inr (cluster_status env (tl_lattice tool) (rm_node_state r s) config))
      | CmdAudit source n \<Rightarrow> printed (s, Inr (audit_combined env (tl_lattice tool) (rm_list r s) config source n))
      | CmdBackup a \<Rightarrow> printed (run_backup_cmd tool config r who role a s)
      | CmdHealth \<Rightarrow> printed (s, Inr (health_check env (tl_lattice tool) (rm_node_state r s) config))
      | _ \<Rightarrow> printed (s, run_lattice tool config cmd))"

definition run_offline :: "Tool \<Rightarrow> CliConfig \<Rightarrow> DelegationConfig \<Rightarrow> Commands \<Rightarrow> Ended" where
  "run_offline tool c config cmd = (case cmd of
     CmdShell _ \<Rightarrow> Panicked
   | CmdLogin server device service \<Rightarrow>
       ended (map_sum id (\<lambda>_. ''Login successful.'')
         (tl_login tool (case server of Some u \<Rightarrow> u | None \<Rightarrow> cc_endpoint c) (login_flow (tl_env tool) device service)))
   | CmdLogout \<Rightarrow> ended (map_sum id (\<lambda>_. ''Logged out.'') (tl_logout tool (cc_endpoint c)))
   | _ \<Rightarrow> ended (run_lattice tool config cmd))"

definition command_token :: "Tool \<Rightarrow> CliConfig \<Rightarrow> string + string" where
  "command_token tool c = (case resolve_token (tl_env tool) c of
     Inr t \<Rightarrow> Inr t
   | Inl _ \<Rightarrow> tl_get_token tool (cc_endpoint c))"

definition main :: "Tool \<Rightarrow> (string \<Rightarrow> 's Remote) \<Rightarrow> CliFlags \<Rightarrow> Commands \<Rightarrow> 's \<Rightarrow> 's \<times> Ended" where
  "main tool remote flags cmd s =
     (let env = tl_env tool; c = main_config env flags in
      if needs_journal cmd then
        (case command_token tool c of
           Inl e \<Rightarrow> (s, Ended [] (''Error: not authenticated. Run `pact login` first.'' @ nl @ ''  Detail: '' @ e @ nl) 2)
         | Inr token \<Rightarrow> (case cli_connect env c of
             Inl e \<Rightarrow> (s, ended (Inl e))
           | Inr _ \<Rightarrow> run_connected tool c (delegation_config env token) token (remote token) cmd s))
      else (s, run_offline tool c (delegation_config env []) cmd))"

subsection \<open>How the tool ends\<close>

lemma printed_simps [simp]:
  "fst (printed r) = fst r"
  "snd (printed r) = ended (snd r)"
  by (simp_all add: printed_def apsnd_def map_prod_def split: prod.split)

lemma ended_not_panicked [simp]: "ended r \<noteq> Panicked" "Panicked \<noteq> ended r"
  by (simp_all add: ended_def split: sum.split)

definition exit_ok :: "Ended \<Rightarrow> bool" where
  "exit_ok e = (case e of Ended _ _ code \<Rightarrow> code = 0 \<or> code = 1 | Panicked \<Rightarrow> True)"

lemma ended_exit_ok [simp]: "exit_ok (ended r)"
  by (simp add: ended_def exit_ok_def split: sum.split)

lemma run_approve_end:
  "snd (run_approve env r a s) = Panicked \<longleftrightarrow>
     a = ApproveList \<and> cli_approve_list env (rm_approvals r s) None = None"
  "exit_ok (snd (run_approve env r a s))"
  by (cases a; simp add: run_approve_def exit_ok_def split: option.split)
    (cases a; auto simp: run_approve_def exit_ok_def [of Panicked] split: option.split)

lemma run_blacklist_end [simp]:
  "snd (run_blacklist env c r who role a s) \<noteq> Panicked" "exit_ok (snd (run_blacklist env c r who role a s))"
  by (cases a; simp add: run_blacklist_def exit_ok_def [of "Ended _ _ _"])+

lemma run_delegation_end [simp]:
  "snd (run_delegation tool config r who role d node s) \<noteq> Panicked"
  "exit_ok (snd (run_delegation tool config r who role d node s))"
  by (simp_all add: run_delegation_def exit_ok_def split: prod.split)

lemma run_connected_end:
  "snd (run_connected tool c config token r cmd s) = Panicked \<longleftrightarrow>
     cmd = CmdApprove ApproveList \<and> cli_approve_list (tl_env tool) (rm_approvals r s) None = None" (is ?P)
  "exit_ok (snd (run_connected tool c config token r cmd s))" (is ?E)
proof -
  have watch: "snd (run_connected tool c config token r (CmdWatch vc) s) \<noteq> Panicked"
    "exit_ok (snd (run_connected tool c config token r (CmdWatch vc) s))" for vc
    by (auto simp: run_connected_def Let_def ended_def exit_ok_def split: prod.split sum.split)
  show ?P
    using watch by (cases cmd) (simp_all add: run_connected_def Let_def run_approve_end split: prod.split)
  show ?E
    using watch by (cases cmd) (simp_all add: run_connected_def Let_def run_approve_end split: prod.split)
qed

text \<open>
  C22. The tool panics exactly in two cases: always for \<open>pact shell\<close>, which has no connection to resolve
  the agent with, and for \<open>pact approve list\<close> when an identifier cannot be cut after its tenth byte.
  Otherwise it exits, with 0 or 1, or with 2 exactly when the command needs a token and there is
  none.
\<close>

theorem main_ends:
  "(snd (main tool remote flags cmd s) = Panicked \<longleftrightarrow>
      (\<exists>node. cmd = CmdShell node) \<or>
      cmd = CmdApprove ApproveList \<and>
      (\<exists>token u. command_token tool (main_config (tl_env tool) flags) = Inr token \<and>
         cli_connect (tl_env tool) (main_config (tl_env tool) flags) = Inr u \<and>
         cli_approve_list (tl_env tool) (rm_approvals (remote token) s) None = None)) \<and>
   (\<exists>code out err. snd (main tool remote flags cmd s) \<in> {Panicked, Ended out err code} \<and> code \<in> {0, 1, 2}) \<and>
   ((\<exists>out err. snd (main tool remote flags cmd s) = Ended out err 2) \<longleftrightarrow>
      needs_journal cmd \<and> (\<exists>e. command_token tool (main_config (tl_env tool) flags) = Inl e))"
proof (cases "needs_journal cmd")
  case False
  define r where "r = run_offline tool (main_config (tl_env tool) flags) (delegation_config (tl_env tool) []) cmd"
  have "exit_ok r" "r = Panicked \<longleftrightarrow> (\<exists>node. cmd = CmdShell node)"
    using False by (cases cmd; simp add: r_def run_offline_def needs_journal_def exit_ok_def [of Panicked])+
  moreover have "cmd \<noteq> CmdApprove ApproveList"
    using False by (auto simp: needs_journal_def)
  moreover have "snd (main tool remote flags cmd s) = r"
    using False by (simp add: main_def Let_def r_def)
  ultimately show ?thesis
    using False by (cases r) (auto simp: exit_ok_def)
next
  case True
  then have shell: "cmd \<noteq> CmdShell node" for node
    by (auto simp: needs_journal_def)
  show ?thesis
  proof (cases "command_token tool (main_config (tl_env tool) flags)")
    case (Inl e)
    with True shell show ?thesis
      by (simp add: main_def Let_def)
  next
    case (Inr token)
    note tok = this
    show ?thesis
    proof (cases "cli_connect (tl_env tool) (main_config (tl_env tool) flags)")
      case (Inl e)
      with True shell tok show ?thesis
        by (simp add: main_def Let_def ended_def)
    next
      case (Inr u)
      define r where "r = snd (main tool remote flags cmd s)"
      have r: "r = snd (run_connected tool (main_config (tl_env tool) flags) (delegation_config (tl_env tool) token)
          token (remote token) cmd s)"
        using True tok Inr by (simp add: r_def main_def Let_def)
      have "r = Panicked \<longleftrightarrow> cmd = CmdApprove ApproveList \<and>
          cli_approve_list (tl_env tool) (rm_approvals (remote token) s) None = None" "exit_ok r"
        unfolding r by (rule run_connected_end)+
      then show ?thesis
        using True tok Inr shell unfolding r_def [symmetric] by (cases r) (auto simp: exit_ok_def)
    qed
  qed
qed

text \<open>Without a connection nothing is called that could change the journal or an agent.\<close>

lemma offline_unchanged: "\<not> needs_journal cmd \<Longrightarrow> fst (main tool remote flags cmd s) = s"
  by (simp add: main_def Let_def)

text \<open>
  The scheduler gets the token of the caller only from the commands that connect to the journal:
  jobs, queues, workflows, budgets, accounting and nodes are queried without it.
\<close>

lemma lattice_token_missing:
  assumes "\<not> needs_journal cmd"
  shows "\<exists>config. main tool remote flags cmd s = (s, run_offline tool (main_config (tl_env tool) flags) config cmd) \<and>
    de_lattice_token config = ci_var (tl_env tool) ''PACT_LATTICE_TOKEN''"
  using assms
  by (intro exI [of _ "delegation_config (tl_env tool) []"])
    (simp add: main_def Let_def delegation_config_def split: option.split)

text \<open>A misspelt backend is taken for none, and the command goes to OpenCHAMI.\<close>

lemma unknown_backend_ignored:
  assumes "ci_var env ''PACT_NODE_MGMT_BACKEND'' = Some v" "v \<noteq> ''csm''" "v \<noteq> ''ochami''"
    and "ci_var env ''PACT_OPENCHAMI_SMD_URL'' = Some url"
  shows "\<exists>b. create_node_mgmt_backend x (delegation_config env token) = Inr (OchamiDispatch b) \<and>
    bk_base_url b = trim_end_char CHR ''/'' url"
  using assms by (simp add: create_node_mgmt_backend_def delegation_config_def parse_backend_def new_backend_def Let_def)

subsection \<open>Approvals\<close>

definition cli_user :: Identity where
  "cli_user = \<lparr>id_principal = ''cli-user'', id_principal_type = Human, id_role = ''pact-platform-admin''\<rparr>"

text \<open>
  C34. \<open>pact approve accept\<close> lets the author of a request approve it: whoever the token names, and
  whatever role it carries, the journal is told that \<open>cli-user\<close> approves as platform administrator,
  so that the test for self-approval compares the requester with that name.
\<close>

theorem requester_approves_own_request:
  assumes "command_token tool (main_config (tl_env tool) flags) = Inr token"
    and "usable_token (tl_env tool) token"
    and "cli_connect (tl_env tool) (main_config (tl_env tool) flags) = Inr u"
    and "rm_decide (remote token) = decide_client (tl_env tool) token (interleaved_write x [] now [])"
    and "hm_get (js_pending_approvals s) i = Some a" "pa_status a = Pending"
    and "resolve_identity_from_token (tl_env tool) token = (id_principal (pa_requester a), role)"
    and "id_principal (pa_requester a) \<noteq> ''cli-user''"
  shows "main tool remote flags (CmdApprove (ApproveAccept i)) s =
    (s\<lparr>js_pending_approvals := hm_insert i (a\<lparr>pa_status := Approved, pa_approver := Some cli_user\<rparr>)
        (js_pending_approvals s)\<rparr>,
     Ended (''Approval '' @ i @ '': approved'' @ nl) [] 0)"
proof -
  have "decide_client (tl_env tool) token (interleaved_write x [] now [])
      \<lparr>dar_approval_id = i, dar_approver = Some (human ''cli-user'' ''pact-platform-admin''), dar_decision = ''approved''\<rparr> s
    = (s\<lparr>js_pending_approvals := hm_insert i (a\<lparr>pa_status := Approved, pa_approver := Some cli_user\<rparr>)
        (js_pending_approvals s)\<rparr>, Inr \<lparr>dap_success = True, dap_error = None\<rparr>)"
    using assms(2,5,6,8)
    by (simp add: decide_client_def svc_decide_approval_def parse_decision_def human_def proto_to_identity_def
        interleaved_write_def apply_item_def decide_approval_def cli_user_def)
  with assms(1,3,4) show ?thesis
    by (simp add: main_def Let_def needs_journal_def run_connected_def run_approve_def cli_approve_decide_def
        with_status_def printed_def ended_def split: prod.split)
qed

definition sample_lattice :: Lattice where
  "sample_lattice = \<lparr>sy_connect = (\<lambda>c. Inr ()), sy_lattice = (\<lambda>c l. Inl []), sy_client_builds = True,
     sy_http = (\<lambda>r. Inl []), la_list_allocations = (\<lambda>_. Inl []), la_cancel = (\<lambda>_. Inl []),
     la_get_allocation = (\<lambda>_. Inl []), la_vcluster_queue = (\<lambda>_. Inl []), la_raft_status = Inl [],
     la_query_audit = (\<lambda>_. Inl []), la_accounting_usage = (\<lambda>_. Inl []), la_health = Inl [],
     la_list_services = Inl [], la_lookup_service = (\<lambda>_. Inl []), la_list_dags = (\<lambda>_ _ _. Inl []),
     la_get_dag = (\<lambda>_. Inl []), la_cancel_dag = (\<lambda>_. Inl []), la_tenant_usage = (\<lambda>_ _. Inl []),
     la_user_usage = (\<lambda>_ _. Inl []), la_create_backup = (\<lambda>_. Inl []), la_verify_backup = (\<lambda>_. Inl
     []), la_restore_backup = (\<lambda>_. Inl []), la_list_nodes = (\<lambda>_ _ _. Inl []), la_get_node = (\<lambda>_.
     Inl [])\<rparr>"

definition sample_remote :: "string \<Rightarrow> JournalState Remote" where
  "sample_remote token = \<lparr>rm_append = (\<lambda>k. append_client sample_cli token (interleaved_write sample_ext [] 5 []) (\<lambda>e. []) 5),
     rm_list = list_client sample_cli token,
     rm_node_state = (\<lambda>s n. query sample_cli token (svc_get_node_state s n)),
     rm_approvals = (\<lambda>s scope. query sample_cli token (Inr (svc_list_pending_approvals s scope))),
     rm_decide = decide_client sample_cli token (interleaved_write sample_ext [] 5 []),
     rm_policy = get_policy_client sample_cli token,
     rm_set_policy = update_policy_client sample_cli token (interleaved_write sample_ext [] 5 []) (\<lambda>s n. None),
     rm_subscribe = (\<lambda>s vc q. Inr []),
     rm_register = (\<lambda>k. register_client sample_cli token Enrollment_Service.sample_env),
     rm_decommission = (\<lambda>n force. enrollment_call sample_cli token (\<lambda>h. svc_decommission_node Enrollment_Service.sample_env h n force)),
     rm_assign = (\<lambda>n vc. enrollment_call sample_cli token (\<lambda>h. svc_assign_node Enrollment_Service.sample_env h n vc)),
     rm_unassign = (\<lambda>n. enrollment_call sample_cli token (\<lambda>h. svc_unassign_node Enrollment_Service.sample_env h n)),
     rm_move = (\<lambda>n vc. enrollment_call sample_cli token (\<lambda>h. svc_move_node Enrollment_Service.sample_env h n vc)),
     rm_nodes = (\<lambda>s req. snd (enrollment_call sample_cli token (\<lambda>h s. (s, svc_list_nodes Enrollment_Service.sample_env h req s)) s)),
     rm_inspect = (\<lambda>s n. snd (enrollment_call sample_cli token (\<lambda>h s. (s, svc_inspect_node Enrollment_Service.sample_env h n s)) s)),
     rm_exec = (\<lambda>uri h c args s. (s, Inl (Status Internal []))),
     rm_commands = (\<lambda>uri s h. Inl (Status Internal [])),
     rm_extend = (\<lambda>uri h mins s. (s, Inl (Status Internal []))),
     rm_diag = (\<lambda>uri s h req. Inl (Status Internal []))\<rparr>"

definition sample_tool :: Tool where
  "sample_tool = \<lparr>tl_env = sample_cli\<lparr>ci_decode := (\<lambda>t. Some (Some ''eve'', Some ''pact-regulated-hipaa''))\<rparr>,
     tl_lattice = sample_lattice, tl_smd = sample_smd, tl_fmt1 = (\<lambda>f. []), tl_spec_toml = (\<lambda>t. Inl []),
     tl_policy_toml = (\<lambda>t. Inl []), tl_from_ts = (\<lambda>s n. None), tl_show_f64 = (\<lambda>f. []),
     tl_get_token = (\<lambda>u. Inl []), tl_login = (\<lambda>u f. Inl []), tl_logout = (\<lambda>u. Inl [])\<rparr>"

definition sample_pending :: Approval where
  "sample_pending = \<lparr>pa_approval_id = ''a1'', pa_original_request = ''commit'', pa_action = ''commit'', pa_scope = VCluster ''hipaa'',
     pa_requester = \<lparr>id_principal = ''eve'', id_principal_type = Human, id_role = ''pact-regulated-hipaa''\<rparr>,
     pa_approver = None, pa_status = Pending, pa_created_at = 0, pa_expires_at = 9\<rparr>"

theorem requester_approves_own_request_witness:
  "main sample_tool sample_remote \<lparr>fl_endpoint = None, fl_token = Some ''tok'', fl_vcluster = None\<rparr>
      (CmdApprove (ApproveAccept ''a1'')) (default_state\<lparr>js_pending_approvals := [(''a1'', sample_pending)]\<rparr>) =
    (default_state\<lparr>js_pending_approvals := [(''a1'', sample_pending\<lparr>pa_status := Approved, pa_approver := Some cli_user\<rparr>)]\<rparr>,
     Ended (''Approval a1: approved'' @ nl) [] 0)"
proof -
  let ?fl = "\<lparr>fl_endpoint = None, fl_token = Some ''tok'', fl_vcluster = None\<rparr>"
  have "command_token sample_tool (main_config (tl_env sample_tool) ?fl) = Inr ''tok''"
    by (simp add: command_token_def resolve_token_def main_config_def Let_def)
  moreover have "usable_token (tl_env sample_tool) ''tok''"
    by (simp add: usable_token_def sample_tool_def sample_cli_def)
  moreover have "cli_connect (tl_env sample_tool) (main_config (tl_env sample_tool) ?fl) = Inr ''http://localhost:9443''"
    by (simp add: cli_connect_def connect_with_tls_def http_uri_def main_config_def with_env_overrides_def
        load_cli_config_def default_cli_config_def sample_tool_def sample_cli_def Let_def)
  moreover have "rm_decide (sample_remote ''tok'') =
      decide_client (tl_env sample_tool) ''tok'' (interleaved_write sample_ext [] 5 [])"
    by (simp add: sample_remote_def sample_tool_def decide_client_def submit_def client_header_def sample_cli_def
        fun_eq_iff)
  ultimately show ?thesis
    using requester_approves_own_request [of sample_tool ?fl "''tok''" _ sample_remote sample_ext 5
        "default_state\<lparr>js_pending_approvals := [(''a1'', sample_pending)]\<rparr>" "''a1''" sample_pending "''pact-regulated-hipaa''"]
    by (simp add: hm_get_def hm_insert_def sample_pending_def sample_tool_def resolve_identity_from_token_def)
qed

end
