(* ===== verification/Mcp_Tools.thy ===== *)
theory Mcp_Tools
  imports Cli_Agent F64
begin

text \<open>
  The tools the MCP server offers, \<open>crates/pact-mcp/src/tools.rs\<close>, and the messages of
  \<open>crates/pact-mcp/src/protocol.rs\<close>: JSON values as \<open>serde_json\<close> represents them (the members of an
  object in the order of their keys), the definition of every tool with its schema, and the
  answers given without a connection. \<open>debug\<close> is the debug format of a string.
\<close>

subsection \<open>JSON\<close>

datatype Json =
  JNull
| JBool bool
| JPos u64
| JNeg int
| JFloat F64
| JString string
| JArray "Json list"
| JObject "(string \<times> Json) list"

definition json_get :: "Json \<Rightarrow> string \<Rightarrow> Json option" where
  "json_get v k = (case v of JObject kvs \<Rightarrow> map_of kvs k | _ \<Rightarrow> None)"

definition as_str :: "Json \<Rightarrow> string option" where
  "as_str v = (case v of JString s \<Rightarrow> Some s | _ \<Rightarrow> None)"

definition as_bool :: "Json \<Rightarrow> bool option" where
  "as_bool v = (case v of JBool b \<Rightarrow> Some b | _ \<Rightarrow> None)"

definition as_u64 :: "Json \<Rightarrow> u64 option" where
  "as_u64 v = (case v of JPos n \<Rightarrow> Some n | _ \<Rightarrow> None)"

definition str_arg :: "Json \<Rightarrow> string \<Rightarrow> string option" where
  "str_arg v k = Option.bind (json_get v k) as_str"

definition str_arg_or :: "Json \<Rightarrow> string \<Rightarrow> string \<Rightarrow> string" where
  "str_arg_or v k d = (case str_arg v k of Some s \<Rightarrow> s | None \<Rightarrow> d)"

definition num_arg :: "Json \<Rightarrow> string \<Rightarrow> u64 option" where
  "num_arg v k = Option.bind (json_get v k) as_u64"

definition num_arg_or :: "Json \<Rightarrow> string \<Rightarrow> u64 \<Rightarrow> u64" where
  "num_arg_or v k d = (case num_arg v k of Some n \<Rightarrow> n | None \<Rightarrow> d)"

text \<open>
  Assignment to a member, \<open>v[k] = x\<close>: null becomes an object, and any other value that is not an object
  panics.
\<close>

definition json_set :: "string \<Rightarrow> Json \<Rightarrow> Json \<Rightarrow> Json option" where
  "json_set k x v = (case v of
     JObject kvs \<Rightarrow> Some (JObject ((k, x) # filter (\<lambda>(k', _). k' \<noteq> k) kvs))
   | JNull \<Rightarrow> Some (JObject [(k, x)])
   | _ \<Rightarrow> None)"

subsection \<open>Messages\<close>

record JsonRpcRequest =
  jq_jsonrpc :: string
  jq_id :: Json
  jq_method :: string
  jq_params :: Json

record JsonRpcError =
  je_code :: int
  je_message :: string

record JsonRpcResponse =
  jr_jsonrpc :: string
  jr_id :: Json
  jr_result :: "Json option"
  jr_error :: "JsonRpcError option"

record ToolDefinition =
  td_name :: string
  td_description :: string
  td_input_schema :: Json

record ToolCallParams =
  tp_name :: string
  tp_arguments :: Json

record ContentBlock =
  cb_content_type :: string
  cb_text :: string

record ToolCallResult =
  tr_content :: "ContentBlock list"
  tr_is_error :: bool

definition success_response :: "Json \<Rightarrow> Json \<Rightarrow> JsonRpcResponse" where
  "success_response i result = \<lparr>jr_jsonrpc = ''2.0'', jr_id = i, jr_result = Some result, jr_error = None\<rparr>"

definition error_response :: "Json \<Rightarrow> int \<Rightarrow> string \<Rightarrow> JsonRpcResponse" where
  "error_response i code message = \<lparr>jr_jsonrpc = ''2.0'', jr_id = i, jr_result = None,
     jr_error = Some \<lparr>je_code = code, je_message = message\<rparr>\<rparr>"

definition tool_result :: "string \<Rightarrow> bool \<Rightarrow> ToolCallResult" where
  "tool_result text is_error = \<lparr>tr_content = [\<lparr>cb_content_type = ''text'', cb_text = text\<rparr>], tr_is_error = is_error\<rparr>"

definition PARSE_ERROR :: int where "PARSE_ERROR = - 32700"
definition METHOD_NOT_FOUND :: int where "METHOD_NOT_FOUND = - 32601"
definition INVALID_PARAMS :: int where "INVALID_PARAMS = - 32602"

definition tool_json :: "ToolDefinition \<Rightarrow> Json" where
  "tool_json t = JObject [(''description'', JString (td_description t)), (''inputSchema'', td_input_schema t),
     (''name'', JString (td_name t))]"

definition result_json :: "ToolCallResult \<Rightarrow> Json" where
  "result_json r = JObject [(''content'', JArray (map (\<lambda>b. JObject [(''text'', JString (cb_text b)),
     (''type'', JString (cb_content_type b))]) (tr_content r))), (''isError'', JBool (tr_is_error r))]"

subsection \<open>Definitions of the tools\<close>

definition tool_prop :: "string \<Rightarrow> string \<Rightarrow> string \<Rightarrow> string \<times> Json" where
  "tool_prop name ty description =
     (name, JObject [(''description'', JString description), (''type'', JString ty)])"

definition schema :: "string list \<Rightarrow> (string \<times> Json) list \<Rightarrow> Json" where
  "schema required properties = JObject ([(''properties'', JObject properties)] @
     (if required = [] then [] else [(''required'', JArray (map JString required))]) @ [(''type'', JString ''object'')])"

definition pact_status :: ToolDefinition where
  "pact_status = \<lparr>td_name = ''pact_status'',
     td_description = ''Query node or vCluster state, drift, and capabilities.'',
     td_input_schema = schema [] [tool_prop ''node'' ''string'' ''Node ID to query. Omit for all nodes in vCluster.'',
       tool_prop ''vcluster'' ''string'' ''vCluster scope.'']\<rparr>"

definition pact_diff :: ToolDefinition where
  "pact_diff = \<lparr>td_name = ''pact_diff'',
     td_description = ''Show declared vs actual state differences for a node.'',
     td_input_schema = schema [] [(''committed'', JObject [(''default'', (JBool False)), (''description'', (JString
         ''Show committed node deltas not yet promoted.'')), (''type'', (JString ''boolean''))]),
       tool_prop ''node'' ''string'' ''Node ID to diff.'']\<rparr>"

definition pact_log :: ToolDefinition where
  "pact_log = \<lparr>td_name = ''pact_log'',
     td_description = ''Query configuration history from the journal.'',
     td_input_schema = schema [] [(''entry_types'', JObject [(''description'', (JString
         ''Filter by entry types (commit, rollback, drift_detected, etc.).'')), (''items'', (JObject [(''type'', (JString
         ''string''))])), (''type'', (JString ''array''))]),
       (''n'', JObject [(''default'', (JPos 20)), (''description'', (JString ''Number of entries to return.'')), (''type'',
           (JString ''integer''))]),
       tool_prop ''scope'' ''string'' (''Scope filter: '' @ squote @ ''node:X'' @ squote @ '', '' @ squote @ ''vc:X'' @ squote @
           '', or '' @ squote @ ''global'' @ squote @ ''.'')]\<rparr>"

definition pact_commit :: ToolDefinition where
  "pact_commit = \<lparr>td_name = ''pact_commit'',
     td_description = ''Commit pending drift as a configuration entry.'',
     td_input_schema = schema [''message''] [tool_prop ''message'' ''string'' ''Commit message describing the change.'',
       tool_prop ''scope'' ''string'' (''Scope: '' @ squote @ ''node:X'' @ squote @ '' or '' @ squote @ ''vc:X'' @ squote @
           ''.'')]\<rparr>"

definition pact_rollback :: ToolDefinition where
  "pact_rollback = \<lparr>td_name = ''pact_rollback'',
     td_description = ''Roll back to a previous configuration state.'',
     td_input_schema = schema [''sequence''] [tool_prop ''sequence'' ''integer'' ''Target sequence number to roll back to.'']\<rparr>"

definition pact_exec :: ToolDefinition where
  "pact_exec = \<lparr>td_name = ''pact_exec'',
     td_description = ''Run a whitelisted diagnostic command on a remote node.'',
     td_input_schema = schema [''node'', ''command''] [(''args'', JObject [(''description'', (JString
         ''Command arguments.'')), (''items'', (JObject [(''type'', (JString ''string''))])), (''type'', (JString
         ''array''))]),
       tool_prop ''command'' ''string'' ''Command to execute (must be whitelisted).'',
       tool_prop ''node'' ''string'' ''Target node ID.'']\<rparr>"

definition pact_apply :: ToolDefinition where
  "pact_apply = \<lparr>td_name = ''pact_apply'',
     td_description = ''Apply a declarative config spec to a vCluster.'',
     td_input_schema = schema [''scope'', ''config'', ''message''] [tool_prop ''config'' ''object'' ''Configuration object to apply.'',
       tool_prop ''message'' ''string'' ''Description of the change.'',
       tool_prop ''scope'' ''string'' (''Target scope: '' @ squote @ ''vc:X'' @ squote @ ''.'')]\<rparr>"

definition pact_cap :: ToolDefinition where
  "pact_cap = \<lparr>td_name = ''pact_cap'',
     td_description = ''Show node hardware capability report (GPUs, memory, network, storage).'',
     td_input_schema = schema [] [tool_prop ''node'' ''string'' ''Node ID. Omit for all nodes.'']\<rparr>"

definition pact_service_status :: ToolDefinition where
  "pact_service_status = \<lparr>td_name = ''pact_service_status'',
     td_description = ''Query service health across nodes.'',
     td_input_schema = schema [] [tool_prop ''node'' ''string'' ''Node ID. Omit for all nodes.'',
       tool_prop ''service'' ''string'' ''Service name. Omit for all services.'']\<rparr>"

definition pact_query_fleet :: ToolDefinition where
  "pact_query_fleet = \<lparr>td_name = ''pact_query_fleet'',
     td_description = ''Fleet-wide health query with capability filtering.'',
     td_input_schema = schema [] [tool_prop ''capability_filter'' ''string'' (''Filter expression (e.g. '' @ squote @
         ''gpu_health=degraded'' @ squote @ '').''),
       tool_prop ''config_state'' ''string'' ''Filter by config state (committed, drifted, emergency).'',
       tool_prop ''vcluster'' ''string'' ''vCluster scope.'']\<rparr>"

definition pact_emergency :: ToolDefinition where
  "pact_emergency = \<lparr>td_name = ''pact_emergency'',
     td_description = ''Start or end emergency mode. Note: AI agents are typically restricted from this (P8).'',
     td_input_schema = schema [''action''] [(''action'', JObject [(''description'', (JString ''Emergency action.'')),
         (''enum'', (JArray [(JString ''start''), (JString ''end'')])), (''type'', (JString ''string''))]),
       (''force'', JObject [(''default'', (JBool False)), (''description'', (JString (''Force-end another admin'' @ squote @
           ''s emergency.''))), (''type'', (JString ''boolean''))]),
       tool_prop ''reason'' ''string'' ''Reason for emergency (required for start).'']\<rparr>"

definition pact_jobs_list :: ToolDefinition where
  "pact_jobs_list = \<lparr>td_name = ''pact_jobs_list'',
     td_description = ''List running job allocations from the lattice scheduler.'',
     td_input_schema = schema [] [tool_prop ''node'' ''string'' ''Filter by node ID.'',
       tool_prop ''vcluster'' ''string'' ''Filter by vCluster.'']\<rparr>"

definition pact_queue_status :: ToolDefinition where
  "pact_queue_status = \<lparr>td_name = ''pact_queue_status'',
     td_description = ''Show scheduling queue depth and status from the lattice scheduler.'',
     td_input_schema = schema [] [tool_prop ''vcluster'' ''string'' (''vCluster to query queue for. Defaults to '' @ squote @
         ''default'' @ squote @ ''.'')]\<rparr>"

definition pact_cluster_health :: ToolDefinition where
  "pact_cluster_health = \<lparr>td_name = ''pact_cluster_health'',
     td_description = ''Combined cluster health: pact journal Raft status and lattice Raft status.'',
     td_input_schema = schema [] []\<rparr>"

definition pact_system_health :: ToolDefinition where
  "pact_system_health = \<lparr>td_name = ''pact_system_health'',
     td_description = ''Combined system health check across pact journal and lattice scheduler.'',
     td_input_schema = schema [] []\<rparr>"

definition pact_accounting :: ToolDefinition where
  "pact_accounting = \<lparr>td_name = ''pact_accounting'',
     td_description = ''Resource usage accounting (CPU hours, GPU hours, storage) from lattice.'',
     td_input_schema = schema [] [tool_prop ''vcluster'' ''string'' ''vCluster (maps to tenant) to query accounting for.'']\<rparr>"

definition pact_services_list :: ToolDefinition where
  "pact_services_list = \<lparr>td_name = ''pact_services_list'',
     td_description = ''List registered services from the lattice service registry.'',
     td_input_schema = schema [] []\<rparr>"

definition pact_services_lookup :: ToolDefinition where
  "pact_services_lookup = \<lparr>td_name = ''pact_services_lookup'',
     td_description = ''Look up endpoints for a named service in the lattice service registry.'',
     td_input_schema = schema [''name''] [tool_prop ''name'' ''string'' ''Service name to look up.'']\<rparr>"

definition pact_undrain :: ToolDefinition where
  "pact_undrain = \<lparr>td_name = ''pact_undrain'',
     td_description = ''Cancel a drain on a node, returning it to Ready state (delegates to lattice).'',
     td_input_schema = schema [''node''] [tool_prop ''node'' ''string'' ''Node ID to undrain.'']\<rparr>"

definition pact_dag_list :: ToolDefinition where
  "pact_dag_list = \<lparr>td_name = ''pact_dag_list'',
     td_description = ''List DAG workflows from the lattice scheduler.'',
     td_input_schema = schema [] [(''limit'', JObject [(''default'', (JPos 50)), (''description'', (JString
         ''Max results (default 50).'')), (''type'', (JString ''integer''))]),
       tool_prop ''state'' ''string'' ''Filter by state (running, completed, failed, cancelled).'',
       tool_prop ''tenant'' ''string'' ''Filter by tenant.'']\<rparr>"

definition pact_dag_inspect :: ToolDefinition where
  "pact_dag_inspect = \<lparr>td_name = ''pact_dag_inspect'',
     td_description = (''Inspect a DAG workflow '' @ em_dash @ '' show steps and allocation status.''),
     td_input_schema = schema [''dag_id''] [tool_prop ''dag_id'' ''string'' ''DAG ID to inspect.'']\<rparr>"

definition pact_budget :: ToolDefinition where
  "pact_budget = \<lparr>td_name = ''pact_budget'',
     td_description = ''Query budget/usage for a tenant or user from lattice.'',
     td_input_schema = schema [] [(''days'', JObject [(''default'', (JPos 90)), (''description'', (JString
         ''Rolling window in days (default 90).'')), (''type'', (JString ''integer''))]),
       tool_prop ''tenant'' ''string'' ''Tenant ID to query budget for.'',
       tool_prop ''user'' ''string'' ''User ID to query budget for (across all tenants).'']\<rparr>"

definition pact_backup_create :: ToolDefinition where
  "pact_backup_create = \<lparr>td_name = ''pact_backup_create'',
     td_description = ''Create a backup of lattice Raft state. Requires pact-platform-admin.'',
     td_input_schema = schema [''path''] [tool_prop ''path'' ''string'' ''Backup file path.'']\<rparr>"

definition pact_backup_verify :: ToolDefinition where
  "pact_backup_verify = \<lparr>td_name = ''pact_backup_verify'',
     td_description = ''Verify integrity of a lattice backup file.'',
     td_input_schema = schema [''path''] [tool_prop ''path'' ''string'' ''Backup file path to verify.'']\<rparr>"

definition pact_nodes_list :: ToolDefinition where
  "pact_nodes_list = \<lparr>td_name = ''pact_nodes_list'',
     td_description = ''List lattice nodes with state, GPU, and ownership info.'',
     td_input_schema = schema [] [(''limit'', JObject [(''default'', (JPos 100)), (''description'', (JString
         ''Max results (default 100).'')), (''type'', (JString ''integer''))]),
       tool_prop ''state'' ''string'' ''Filter by state (ready, draining, drained, down).'',
       tool_prop ''vcluster'' ''string'' ''Filter by vCluster.'']\<rparr>"

definition pact_node_inspect :: ToolDefinition where
  "pact_node_inspect = \<lparr>td_name = ''pact_node_inspect'',
     td_description = (''Inspect a single lattice node '' @ em_dash @ '' hardware, ownership, allocations.''),
     td_input_schema = schema [''node_id''] [tool_prop ''node_id'' ''string'' ''Node ID to inspect.'']\<rparr>"

definition all_tools :: "ToolDefinition list" where
  "all_tools = [pact_status, pact_diff, pact_log, pact_commit, pact_rollback, pact_exec, pact_apply, pact_cap,
      pact_service_status, pact_query_fleet, pact_emergency, pact_jobs_list, pact_queue_status, pact_cluster_health,
      pact_system_health, pact_accounting, pact_services_list, pact_services_lookup, pact_undrain, pact_dag_list,
      pact_dag_inspect, pact_budget, pact_backup_create, pact_backup_verify, pact_nodes_list, pact_node_inspect]"


subsection \<open>Answers without a connection\<close>

definition need :: "Json \<Rightarrow> string \<Rightarrow> string \<Rightarrow> (string \<Rightarrow> ToolCallResult) \<Rightarrow> ToolCallResult" where
  "need args k missing answer = (case str_arg args k of
     Some v \<Rightarrow> answer v | None \<Rightarrow> tool_result (''Error: '' @ missing) True)"

definition emergency_refused :: ToolCallResult where
  "emergency_refused = tool_result (''Error: AI agents are restricted from entering emergency mode (P8). '' @
     ''Request a human admin to enter emergency mode.'') True"

definition grpc_stub :: "(string \<Rightarrow> string) \<Rightarrow> string \<Rightarrow> Json \<Rightarrow> ToolCallResult" where
  "grpc_stub debug name args =
     (let g = ''(gRPC client required)'' in
      if name = ''pact_status'' then tool_result (''Status query: node='' @ str_arg_or args ''node'' ''all'' @
        '', vcluster='' @ str_arg_or args ''vcluster'' ''default'' @ '' '' @ g) False
      else if name = ''pact_diff'' then tool_result (''Diff query: node='' @ str_arg_or args ''node'' ''current'' @
        '', committed='' @ show_bool (case Option.bind (json_get args ''committed'') as_bool of Some b \<Rightarrow> b | None \<Rightarrow> False) @
        '' '' @ g) False
      else if name = ''pact_log'' then tool_result (''Log query: n='' @ show_u64 (num_arg_or args ''n'' 20) @ '', scope='' @
        str_arg_or args ''scope'' ''all'' @ '' '' @ g) False
      else if name = ''pact_commit'' then need args ''message'' ''commit message required''
        (\<lambda>m. tool_result (''Commit: message='' @ debug m @ '' '' @ g) False)
      else if name = ''pact_rollback'' then (case num_arg args ''sequence'' of
          None \<Rightarrow> tool_result ''Error: sequence number required'' True
        | Some n \<Rightarrow> tool_result (''Rollback: target_seq='' @ show_u64 n @ '' '' @ g) False)
      else if name = ''pact_exec'' then need args ''node'' ''node ID required'' (\<lambda>n.
        need args ''command'' ''command required'' (\<lambda>c.
          tool_result (''Exec: node='' @ n @ '', command='' @ debug c @ '' '' @ g) False))
      else if name = ''pact_apply'' then need args ''scope'' ''scope required'' (\<lambda>sc.
        tool_result (''Apply: scope='' @ sc @ '', message='' @ debug (str_arg_or args ''message'' ''auto-apply'') @ '' '' @ g) False)
      else if name = ''pact_cap'' then tool_result (''Capability report: node='' @ str_arg_or args ''node'' ''all'' @ '' '' @ g) False
      else if name = ''pact_service_status'' then tool_result (''Service status: node='' @ str_arg_or args ''node'' ''all'' @
        '', service='' @ str_arg_or args ''service'' ''all'' @ '' '' @ g) False
      else if name = ''pact_query_fleet'' then tool_result (''Fleet query: vcluster='' @ str_arg_or args ''vcluster'' ''all'' @
        '', filter='' @ str_arg_or args ''capability_filter'' ''none'' @ '' '' @ g) False
      else if name = ''pact_emergency'' then need args ''action'' ''action required (start/end)'' (\<lambda>a.
        if a = ''start'' then emergency_refused
        else tool_result (''Emergency: action='' @ a @ '' '' @ g) False)
      else tool_result (''Unknown tool: '' @ name) True)"

definition lattice_stub :: "string \<Rightarrow> Json \<Rightarrow> ToolCallResult option" where
  "lattice_stub name args =
     (let l = ''(lattice client required)''; j = ''(journal + lattice client required)'' in
      if name = ''pact_jobs_list'' then Some (tool_result (''Jobs list: node='' @ str_arg_or args ''node'' ''all'' @
        '', vcluster='' @ str_arg_or args ''vcluster'' ''all'' @ '' '' @ l) False)
      else if name = ''pact_queue_status'' then Some (tool_result (''Queue status: vcluster='' @
        str_arg_or args ''vcluster'' ''default'' @ '' '' @ l) False)
      else if name = ''pact_cluster_health'' then Some (tool_result ''Cluster health: (gRPC + lattice client required)'' False)
      else if name = ''pact_system_health'' then Some (tool_result ''System health: (gRPC + lattice client required)'' False)
      else if name = ''pact_accounting'' then Some (tool_result (''Accounting: vcluster='' @
        str_arg_or args ''vcluster'' ''all'' @ '' '' @ l) False)
      else if name = ''pact_services_list'' then Some (tool_result ''Services list (lattice client required)'' False)
      else if name = ''pact_services_lookup'' then Some (tool_result (''Service lookup: '' @
        str_arg_or args ''name'' ''unknown'' @ '' '' @ l) False)
      else if name = ''pact_undrain'' then Some (need args ''node'' ''node ID required'' (\<lambda>n.
        tool_result (''Undrain: node='' @ n @ '' '' @ j) False))
      else if name = ''pact_dag_list'' then Some (tool_result (''DAG list: tenant='' @ str_arg_or args ''tenant'' ''all'' @
        '', state='' @ str_arg_or args ''state'' ''all'' @ '' '' @ l) False)
      else if name = ''pact_dag_inspect'' then Some (need args ''dag_id'' ''dag_id required'' (\<lambda>i.
        tool_result (''DAG inspect: id='' @ i @ '' '' @ l) False))
      else if name = ''pact_budget'' then Some (case (str_arg args ''tenant'', str_arg args ''user'') of
          (Some t, _) \<Rightarrow> tool_result (''Budget: tenant='' @ t @ '' '' @ l) False
        | (None, Some u) \<Rightarrow> tool_result (''Budget: user='' @ u @ '' '' @ l) False
        | (None, None) \<Rightarrow> tool_result ''Error: specify tenant or user'' True)
      else if name = ''pact_backup_create'' then Some (need args ''path'' ''path required'' (\<lambda>p.
        tool_result (''Backup create: path='' @ p @ '' '' @ j) False))
      else if name = ''pact_backup_verify'' then Some (need args ''path'' ''path required'' (\<lambda>p.
        tool_result (''Backup verify: path='' @ p @ '' '' @ l) False))
      else if name = ''pact_nodes_list'' then Some (tool_result (''Nodes list: state='' @ str_arg_or args ''state'' ''all'' @
        '', vcluster='' @ str_arg_or args ''vcluster'' ''all'' @ '' '' @ l) False)
      else if name = ''pact_node_inspect'' then Some (need args ''node_id'' ''node_id required'' (\<lambda>i.
        tool_result (''Node inspect: id='' @ i @ '' '' @ l) False))
      else None)"

definition dispatch_tool :: "(string \<Rightarrow> string) \<Rightarrow> string \<Rightarrow> Json \<Rightarrow> ToolCallResult" where
  "dispatch_tool debug name args = (case lattice_stub name args of
     Some r \<Rightarrow> r | None \<Rightarrow> grpc_stub debug name args)"

end
