(* ===== verification/Mcp_Server.thy ===== *)
theory Mcp_Server
  imports Mcp_Tools Cli_Lattice
begin

text \<open>
  The MCP server, \<open>crates/pact-mcp/src/connected.rs\<close> and \<open>main.rs\<close>: the tools over connections to the
  journal, an agent and the scheduler, the JSON-RPC methods, and the loop over the lines of the
  standard input. The remote side is a record of the calls of one connection. Parsing and printing
  of JSON text are parameters. A handler that panics has the result \<^const>\<open>None\<close>.
\<close>

record 's McpCalls =
  mc_append :: "'s append_call"
  mc_list :: "'s \<Rightarrow> list_call"
  mc_node_state :: "'s \<Rightarrow> NodeId \<Rightarrow> Status + NodeStateResponse"
  mc_exec :: "string \<Rightarrow> string list \<Rightarrow> 's \<Rightarrow> 's \<times> (Status + (Status + ExecOutput option) list)"
  mc_commands :: "'s \<Rightarrow> Status + CommandEntry list"

text \<open>A connection is present or not; the calls carry the token of the environment.\<close>

record Connections =
  cn_journal :: bool
  cn_agent :: bool
  cn_delegation :: DelegationConfig
  cn_mcp_token :: "string option"

record McpEnv =
  me_env :: CliEnv
  me_lattice :: Lattice
  me_fmt1 :: "F64 \<Rightarrow> string"
  me_to_json :: "Json \<Rightarrow> string"
  me_debug :: "string \<Rightarrow> string"

definition mcp_author :: ProtoIdentity where
  "mcp_author = \<lparr>pid_principal = ''mcp-agent'', pid_principal_type = ''Agent'', pid_role = ''pact-service-ai''\<rparr>"

definition mcp_entry :: "int \<Rightarrow> string \<Rightarrow> ProtoConfigEntry" where
  "mcp_entry ty vcluster = (cli_entry ty vcluster [] [])\<lparr>pce_author := Some mcp_author\<rparr>"

text \<open>A stream is read up to its first error.\<close>

definition ok_items :: "(Status + 'a) list \<Rightarrow> 'a list" where
  "ok_items items = map projr (takeWhile (\<lambda>i. \<not> isl i) items)"

definition format_entry :: "ProtoConfigEntry \<Rightarrow> string" where
  "format_entry e = ''#'' @ show_u64 (pce_sequence e) @ '' '' @ entry_type_name (pce_entry_type e) @ '' '' @
     (case pce_scope e of
        Some (Some (ProtoNodeId n)) \<Rightarrow> ''node:'' @ n
      | Some (Some (ProtoVclusterId v)) \<Rightarrow> ''vc:'' @ v
      | _ \<Rightarrow> ''global'') @ '' by '' @
     (case pce_author e of None \<Rightarrow> ''unknown'' | Some a \<Rightarrow> pid_principal a)"

subsection \<open>Journal tools\<close>

definition mcp_append ::
  "CliEnv \<Rightarrow> 's McpCalls \<Rightarrow> string \<Rightarrow> ProtoConfigEntry \<Rightarrow> (EntrySeq \<Rightarrow> string) \<Rightarrow> 's \<Rightarrow> 's \<times> ToolCallResult" where
  "mcp_append env calls failed entry said s = (case mc_append calls entry s of
     (s', Inr seq) \<Rightarrow> (s', tool_result (said seq) False)
   | (s', Inl st) \<Rightarrow> (s', tool_result (failed @ '': '' @ ci_show_status env st) True))"

definition handle_status :: "CliEnv \<Rightarrow> 's McpCalls \<Rightarrow> Json \<Rightarrow> 's \<Rightarrow> ToolCallResult" where
  "handle_status env calls args s = (case mc_node_state calls s (str_arg_or args ''node'' ''local'') of
     Inr ns \<Rightarrow> tool_result (''Node: '' @ nsr_node_id ns @ ''  State: '' @ nsr_config_state ns) False
   | Inl st \<Rightarrow> tool_result (''Error querying status: '' @ ci_show_status env st) True)"

definition handle_log :: "CliEnv \<Rightarrow> 's McpCalls \<Rightarrow> Json \<Rightarrow> 's \<Rightarrow> ToolCallResult" where
  "handle_log env calls args s =
     (case mc_list calls s (list_request (map_option parse_scope_filter (str_arg args ''scope''))
         (Some (ucast (num_arg_or args ''n'' 20)))) of
        Inr items \<Rightarrow>
          (let entries = map format_entry (ok_items items) in
           if entries = [] then tool_result ''No entries found.'' False
           else tool_result (join_with nl entries) False)
      | Inl st \<Rightarrow> tool_result (''Error querying log: '' @ ci_show_status env st) True)"

definition handle_commit :: "CliEnv \<Rightarrow> 's McpCalls \<Rightarrow> Json \<Rightarrow> 's \<Rightarrow> 's \<times> ToolCallResult" where
  "handle_commit env calls args s = (case str_arg args ''message'' of
     None \<Rightarrow> (s, tool_result ''Error: commit message required'' True)
   | Some message \<Rightarrow>
       let vcluster = str_arg_or args ''vcluster'' ''default'' in
       mcp_append env calls ''Commit failed'' ((mcp_entry 1 vcluster)\<lparr>pce_policy_ref := message\<rparr>)
         (\<lambda>seq. ''Committed (seq:'' @ show_u64 seq @ '') on vCluster: '' @ vcluster) s)"

definition handle_rollback :: "CliEnv \<Rightarrow> 's McpCalls \<Rightarrow> Json \<Rightarrow> 's \<Rightarrow> 's \<times> ToolCallResult" where
  "handle_rollback env calls args s = (case num_arg args ''sequence'' of
     None \<Rightarrow> (s, tool_result ''Error: sequence number required'' True)
   | Some seq \<Rightarrow>
       mcp_append env calls ''Rollback failed''
         ((mcp_entry 2 (str_arg_or args ''vcluster'' ''default''))\<lparr>pce_parent := Some seq\<rparr>)
         (\<lambda>new_seq. ''Rolled back to seq:'' @ show_u64 seq @ '' (new seq:'' @ show_u64 new_seq @ '')'') s)"

definition handle_diff :: "CliEnv \<Rightarrow> 's McpCalls \<Rightarrow> Json \<Rightarrow> 's \<Rightarrow> ToolCallResult option" where
  "handle_diff env calls args s =
     map_option (\<lambda>modified. handle_log env calls modified s)
       (Option.bind (json_set ''scope'' (JString (''node:'' @ str_arg_or args ''node'' ''current'')) args)
         (json_set ''n'' (JPos 50)))"

definition handle_emergency :: "CliEnv \<Rightarrow> 's McpCalls \<Rightarrow> Json \<Rightarrow> 's \<Rightarrow> 's \<times> ToolCallResult" where
  "handle_emergency env calls args s = (case str_arg args ''action'' of
     None \<Rightarrow> (s, tool_result ''Error: action required (start/end)'' True)
   | Some action \<Rightarrow>
       if action = ''start'' then (s, emergency_refused)
       else mcp_append env calls ''Emergency end failed'' (mcp_entry 9 (str_arg_or args ''vcluster'' ''default''))
         (\<lambda>seq. ''Emergency mode ENDED (seq:'' @ show_u64 seq @ '')'') s)"

definition handle_apply :: "McpEnv \<Rightarrow> 's McpCalls \<Rightarrow> Json \<Rightarrow> 's \<Rightarrow> 's \<times> ToolCallResult" where
  "handle_apply me calls args s = (case str_arg args ''scope'' of
     None \<Rightarrow> (s, tool_result ''Error: scope required'' True)
   | Some scope \<Rightarrow>
       let message = str_arg_or args ''message'' ''mcp-apply'' in
       (case json_get args ''config'' of
          None \<Rightarrow> (s, tool_result ''Error: config required'' True)
        | Some config \<Rightarrow>
            mcp_append (me_env me) calls ''Apply failed''
              ((mcp_entry 1 scope)\<lparr>pce_policy_ref := message @ '': '' @ me_to_json me config\<rparr>)
              (\<lambda>seq. ''Applied to '' @ scope @ '' (seq:'' @ show_u64 seq @ ''): '' @ message) s))"

definition handle_query_fleet :: "CliEnv \<Rightarrow> 's McpCalls \<Rightarrow> Json \<Rightarrow> 's \<Rightarrow> ToolCallResult" where
  "handle_query_fleet env calls args s =
     (let vcluster = str_arg_or args ''vcluster'' ''all'';
          scope = (if vcluster = ''all'' then None else Some (Some (ProtoVclusterId vcluster)))
      in case mc_list calls s (list_request scope (Some 100)) of
           Inr items \<Rightarrow>
             (let entries = map format_entry (ok_items items) in
              if entries = [] then tool_result (''No entries for vCluster: '' @ vcluster) False
              else tool_result (''Fleet query ('' @ vcluster @ ''): '' @ show_nat (length entries) @ '' entries'' @ nl @
                join_with nl entries) False)
         | Inl st \<Rightarrow> tool_result (''Fleet query failed: '' @ ci_show_status env st) True)"

subsection \<open>Agent tools\<close>

fun mcp_collect ::
  "(Status + ExecOutput option) list \<Rightarrow> bytes \<times> bytes \<times> int \<Rightarrow> string + bytes \<times> bytes \<times> int" where
  "mcp_collect [] acc = Inr acc"
| "mcp_collect (Inl st # items) acc = Inr acc"
| "mcp_collect (Inr None # items) acc = mcp_collect items acc"
| "mcp_collect (Inr (Some (ExecStdout d)) # items) (stdout, stderr, code) = mcp_collect items (stdout @ d, stderr, code)"
| "mcp_collect (Inr (Some (ExecStderr d)) # items) (stdout, stderr, code) = mcp_collect items (stdout, stderr @ d, code)"
| "mcp_collect (Inr (Some (ExecExitCode c)) # items) (stdout, stderr, code) = mcp_collect items (stdout, stderr, c)"
| "mcp_collect (Inr (Some (ExecErrorText e)) # items) acc = Inl e"

definition mcp_exec_text :: "string \<Rightarrow> string \<Rightarrow> bytes \<times> bytes \<times> int \<Rightarrow> ToolCallResult" where
  "mcp_exec_text node command r = (case r of (stdout, stderr, exit_code) \<Rightarrow>
     tool_result (''['' @ node @ ''] '' @ command @ nl @
       (if stdout = [] then [] else bytes_text stdout) @
       (if stderr = [] then [] else nl @ ''stderr: '' @ bytes_text stderr) @
       (if exit_code = 0 then [] else nl @ ''(exit code: '' @ show_int exit_code @ '')''))
       (exit_code \<noteq> 0))"

definition handle_exec :: "CliEnv \<Rightarrow> 's McpCalls \<Rightarrow> Json \<Rightarrow> 's \<Rightarrow> 's \<times> ToolCallResult" where
  "handle_exec env calls args s = (case str_arg args ''node'' of
     None \<Rightarrow> (s, tool_result ''Error: node ID required'' True)
   | Some node \<Rightarrow> (case str_arg args ''command'' of
       None \<Rightarrow> (s, tool_result ''Error: command required'' True)
     | Some command \<Rightarrow> (case split_whitespace command of
         [] \<Rightarrow> (s, tool_result ''Error: empty command'' True)
       | cmd # cmd_args \<Rightarrow> (case mc_exec calls cmd cmd_args s of
           (s', Inl st) \<Rightarrow> (s', tool_result (''Exec failed: '' @ ci_show_status env st) True)
         | (s', Inr items) \<Rightarrow> (s', case mcp_collect items ([], [], 0) of
             Inl e \<Rightarrow> tool_result (''Exec error: '' @ e) True
           | Inr r \<Rightarrow> mcp_exec_text node command r)))))"

definition handle_cap :: "CliEnv \<Rightarrow> 's McpCalls \<Rightarrow> 's \<Rightarrow> ToolCallResult" where
  "handle_cap env calls s = (case mc_commands calls s of
     Inr [] \<Rightarrow> tool_result ''No commands available.'' False
   | Inr commands \<Rightarrow> tool_result (show_nat (length commands) @ '' whitelisted commands:'' @ nl @
       concat (map (\<lambda>c. ''  '' @ ce_command c @ '' '' @ (if ce_state_changing c then ''[state-changing]'' else []) @ '' '' @
         ce_description c @ nl) commands)) False
   | Inl st \<Rightarrow> tool_result (''Cap query failed: '' @ ci_show_status env st) True)"

fun service_output :: "(Status + ExecOutput option) list \<Rightarrow> string \<Rightarrow> string + string" where
  "service_output [] acc = Inr acc"
| "service_output (Inl st # items) acc = Inr acc"
| "service_output (Inr (Some (ExecStdout d)) # items) acc = service_output items (acc @ bytes_text d)"
| "service_output (Inr (Some (ExecErrorText e)) # items) acc = Inl e"
| "service_output (Inr _ # items) acc = service_output items acc"

definition handle_service_status :: "CliEnv \<Rightarrow> 's McpCalls \<Rightarrow> Json \<Rightarrow> 's \<Rightarrow> 's \<times> ToolCallResult" where
  "handle_service_status env calls args s =
     (case mc_exec calls ''systemctl'' [''status'', str_arg_or args ''service'' ''--all''] s of
        (s', Inl st) \<Rightarrow> (s', tool_result (''Service status failed: '' @ ci_show_status env st) True)
      | (s', Inr items) \<Rightarrow> (s', case service_output items [] of
          Inl e \<Rightarrow> tool_result (''Service status error: '' @ e) True
        | Inr out \<Rightarrow> tool_result out False))"

subsection \<open>Scheduler tools\<close>

definition lattice_result :: "string \<Rightarrow> string + string \<Rightarrow> ToolCallResult" where
  "lattice_result failed r = (case r of
     Inr out \<Rightarrow> tool_result out False | Inl e \<Rightarrow> tool_result (failed @ '': '' @ e) True)"

definition scheduler_query :: "McpEnv \<Rightarrow> DelegationConfig \<Rightarrow> string \<Rightarrow> Json \<Rightarrow> ToolCallResult option" where
  "scheduler_query me config name args =
     (let x = me_lattice me in
      if name = ''pact_jobs_list'' then
        Some (lattice_result ''Jobs list failed'' (list_jobs x config (str_arg args ''node'') (str_arg args ''vcluster'')))
      else if name = ''pact_queue_status'' then
        Some (lattice_result ''Queue status failed'' (queue_status x config (str_arg args ''vcluster'')))
      else if name = ''pact_accounting'' then
        Some (lattice_result ''Accounting query failed'' (accounting x (me_fmt1 me) config (str_arg args ''vcluster'')))
      else if name = ''pact_services_list'' then Some (lattice_result ''Service list failed'' (list_services x config))
      else if name = ''pact_services_lookup'' then
        Some (lattice_result ''Service lookup failed'' (lookup_service x config (str_arg_or args ''name'' ''unknown'')))
      else None)"

definition workflow_query :: "McpEnv \<Rightarrow> DelegationConfig \<Rightarrow> string \<Rightarrow> Json \<Rightarrow> ToolCallResult option" where
  "workflow_query me config name args =
     (let x = me_lattice me in
      if name = ''pact_dag_list'' then
        Some (lattice_result ''DAG list failed'' (list_dags x config (str_arg args ''tenant'') (str_arg args ''state'')
          (ucast (num_arg_or args ''limit'' 50))))
      else if name = ''pact_dag_inspect'' then Some (need args ''dag_id'' ''dag_id required''
        (\<lambda>i. lattice_result ''DAG inspect failed'' (inspect_dag x config i)))
      else if name = ''pact_budget'' then
        (let days = ucast (num_arg_or args ''days'' 90) in
         Some (case str_arg args ''tenant'' of
             Some t \<Rightarrow> lattice_result ''Tenant budget failed'' (tenant_budget x (me_fmt1 me) config t days)
           | None \<Rightarrow> (case str_arg args ''user'' of
               Some u \<Rightarrow> lattice_result ''User budget failed'' (user_budget x (me_fmt1 me) config u days)
             | None \<Rightarrow> tool_result ''Error: specify tenant or user'' True)))
      else if name = ''pact_backup_verify'' then Some (need args ''path'' ''path required''
        (\<lambda>p. lattice_result ''Backup verify failed'' (backup_verify x config p)))
      else if name = ''pact_nodes_list'' then
        Some (lattice_result ''Nodes list failed'' (list_lattice_nodes x config (str_arg args ''state'')
          (str_arg args ''vcluster'') (ucast (num_arg_or args ''limit'' 100))))
      else if name = ''pact_node_inspect'' then Some (need args ''node_id'' ''node_id required''
        (\<lambda>n. lattice_result ''Node inspect failed'' (inspect_lattice_node x config n)))
      else None)"

definition handle_undrain :: "McpEnv \<Rightarrow> 's McpCalls \<Rightarrow> DelegationConfig \<Rightarrow> Json \<Rightarrow> 's \<Rightarrow> 's \<times> ToolCallResult" where
  "handle_undrain me calls config args s = (case str_arg args ''node'' of
     None \<Rightarrow> (s, tool_result ''Error: node ID required'' True)
   | Some node \<Rightarrow>
       (case undrain_node (Systems.truncate (me_lattice me)) (me_env me) (mc_append calls) node ''mcp-agent''
           ''pact-service-ai'' config s of
          (s', _, r) \<Rightarrow> (s', tool_result (format_delegation_result r) (\<not> dg_success r))))"

definition handle_backup_create :: "McpEnv \<Rightarrow> 's McpCalls \<Rightarrow> DelegationConfig \<Rightarrow> Json \<Rightarrow> 's \<Rightarrow> 's \<times> ToolCallResult" where
  "handle_backup_create me calls config args s = (case str_arg args ''path'' of
     None \<Rightarrow> (s, tool_result ''Error: path required'' True)
   | Some path \<Rightarrow>
       (case backup_create (me_env me) (me_lattice me) (mc_append calls) config path ''mcp-agent'' ''pact-service-ai'' s of
          (s', _, r) \<Rightarrow> (s', lattice_result ''Backup create failed'' r)))"

subsection \<open>Dispatch\<close>

definition journal_tool ::
  "McpEnv \<Rightarrow> 's McpCalls \<Rightarrow> DelegationConfig \<Rightarrow> string \<Rightarrow> Json \<Rightarrow> 's \<Rightarrow> ('s \<times> ToolCallResult) option option" where
  "journal_tool me calls config name args s =
     (let env = me_env me in
      if name = ''pact_status'' then Some (Some (s, handle_status env calls args s))
      else if name = ''pact_log'' then Some (Some (s, handle_log env calls args s))
      else if name = ''pact_commit'' then Some (Some (handle_commit env calls args s))
      else if name = ''pact_rollback'' then Some (Some (handle_rollback env calls args s))
      else if name = ''pact_diff'' then Some (map_option (Pair s) (handle_diff env calls args s))
      else if name = ''pact_emergency'' then Some (Some (handle_emergency env calls args s))
      else if name = ''pact_apply'' then Some (Some (handle_apply me calls args s))
      else if name = ''pact_query_fleet'' then Some (Some (s, handle_query_fleet env calls args s))
      else if name = ''pact_cluster_health'' then
        Some (Some (s, tool_result (cluster_status env (me_lattice me) (mc_node_state calls s) config) False))
      else if name = ''pact_system_health'' then
        Some (Some (s, tool_result (health_check env (me_lattice me) (mc_node_state calls s) config) False))
      else if name = ''pact_undrain'' then Some (Some (handle_undrain me calls config args s))
      else if name = ''pact_backup_create'' then Some (Some (handle_backup_create me calls config args s))
      else None)"

definition agent_tool :: "McpEnv \<Rightarrow> 's McpCalls \<Rightarrow> string \<Rightarrow> Json \<Rightarrow> 's \<Rightarrow> ('s \<times> ToolCallResult) option" where
  "agent_tool me calls name args s =
     (let env = me_env me in
      if name = ''pact_exec'' then Some (handle_exec env calls args s)
      else if name = ''pact_cap'' then Some (s, handle_cap env calls s)
      else if name = ''pact_service_status'' then Some (handle_service_status env calls args s)
      else None)"

text \<open>
  The outer option says whether the tool is known, the inner one whether the handler returns.
\<close>

definition dispatch_connected ::
  "McpEnv \<Rightarrow> (string \<Rightarrow> 's McpCalls) \<Rightarrow> Connections \<Rightarrow> string \<Rightarrow> Json \<Rightarrow> 's \<Rightarrow> ('s \<times> ToolCallResult) option option" where
  "dispatch_connected me remote cn name args s =
     (let calls = remote (case cn_mcp_token cn of Some t \<Rightarrow> t | None \<Rightarrow> []); config = cn_delegation cn in
      case journal_tool me calls config name args s of
        Some r \<Rightarrow> Some (if cn_journal cn then r else Some (s, tool_result ''Error: not connected to journal'' True))
      | None \<Rightarrow>
          (case agent_tool me calls name args s of
             Some r \<Rightarrow> Some (Some (if cn_agent cn then r else (s, tool_result ''Error: not connected to agent'' True)))
           | None \<Rightarrow>
               (case scheduler_query me config name args of
                  Some r \<Rightarrow> Some (Some (s, r))
                | None \<Rightarrow> map_option (\<lambda>r. Some (s, r)) (workflow_query me config name args))))"

definition initialize_json :: "string \<Rightarrow> Json" where
  "initialize_json version = JObject [
     (''capabilities'', JObject [(''tools'', JObject [(''listChanged'', JBool False)])]),
     (''protocolVersion'', JString ''2024-11-05''),
     (''serverInfo'', JObject [(''name'', JString ''pact-mcp''), (''version'', JString version)])]"

definition handle_request ::
  "McpEnv \<Rightarrow> (Json \<Rightarrow> string + ToolCallParams) \<Rightarrow> string \<Rightarrow> (string \<Rightarrow> 's McpCalls) \<Rightarrow> Connections \<Rightarrow> JsonRpcRequest \<Rightarrow> 's \<Rightarrow>
   ('s \<times> JsonRpcResponse) option" where
  "handle_request me params_of version remote cn req s =
     (if jq_method req = ''initialize'' then Some (s, success_response (jq_id req) (initialize_json version))
      else if jq_method req = ''tools/list'' then
        Some (s, success_response (jq_id req) (JObject [(''tools'', JArray (map tool_json all_tools))]))
      else if jq_method req = ''tools/call'' then
        (case params_of (jq_params req) of
           Inl e \<Rightarrow> Some (s, error_response (jq_id req) INVALID_PARAMS (''invalid tool call params: '' @ e))
         | Inr p \<Rightarrow>
             (case dispatch_connected me remote cn (tp_name p) (tp_arguments p) s of
                Some r \<Rightarrow> map_option (\<lambda>(s', res). (s', success_response (jq_id req) (result_json res))) r
              | None \<Rightarrow> Some (s, success_response (jq_id req)
                  (result_json (dispatch_tool (me_debug me) (tp_name p) (tp_arguments p))))))
      else if jq_method req = ''notifications/initialized'' \<or> jq_method req = ''notifications/cancelled'' then
        Some (s, success_response (jq_id req) (JObject []))
      else Some (s, error_response (jq_id req) METHOD_NOT_FOUND (''unknown method: '' @ jq_method req)))"

text \<open>
  The loop of \<open>main\<close>: the state, the responses written, and whether the process panicked. An error of the
  input ends it.
\<close>

fun serve ::
  "(string \<Rightarrow> string + JsonRpcRequest) \<Rightarrow> (JsonRpcRequest \<Rightarrow> 's \<Rightarrow> ('s \<times> JsonRpcResponse) option) \<Rightarrow>
   (string + string) list \<Rightarrow> 's \<Rightarrow> 's \<times> JsonRpcResponse list \<times> bool" where
  "serve parse handle [] s = (s, [], False)"
| "serve parse handle (Inl e # ls) s = (s, [], False)"
| "serve parse handle (Inr l # ls) s =
     (if trim l = [] then serve parse handle ls s
      else (case parse l of
         Inl e \<Rightarrow> (case serve parse handle ls s of (s', out, p) \<Rightarrow> (s', error_response JNull PARSE_ERROR e # out, p))
       | Inr req \<Rightarrow> (case handle req s of
           None \<Rightarrow> (s, [], True)
         | Some (s1, resp) \<Rightarrow> (case serve parse handle ls s1 of (s', out, p) \<Rightarrow> (s', resp # out, p)))))"

subsection \<open>What the server offers is what it handles\<close>

lemma handled_names:
  "journal_tool me calls config name args s \<noteq> None \<longleftrightarrow> name \<in> {''pact_status'', ''pact_log'', ''pact_commit'',
     ''pact_rollback'', ''pact_diff'', ''pact_emergency'', ''pact_apply'', ''pact_query_fleet'', ''pact_cluster_health'',
     ''pact_system_health'', ''pact_undrain'', ''pact_backup_create''}"
  "agent_tool me calls name args s \<noteq> None \<longleftrightarrow> name \<in> {''pact_exec'', ''pact_cap'', ''pact_service_status''}"
  "scheduler_query me config name args \<noteq> None \<longleftrightarrow> name \<in> {''pact_jobs_list'', ''pact_queue_status'', ''pact_accounting'',
     ''pact_services_list'', ''pact_services_lookup''}"
  "workflow_query me config name args \<noteq> None \<longleftrightarrow> name \<in> {''pact_dag_list'', ''pact_dag_inspect'', ''pact_budget'',
     ''pact_backup_verify'', ''pact_nodes_list'', ''pact_node_inspect''}"
  by (simp_all add: journal_tool_def agent_tool_def scheduler_query_def workflow_query_def Let_def)

lemma dispatch_known:
  "dispatch_connected me remote cn name args s \<noteq> None \<longleftrightarrow>
     journal_tool me (remote (case cn_mcp_token cn of Some t \<Rightarrow> t | None \<Rightarrow> [])) (cn_delegation cn) name args s \<noteq> None \<or>
     agent_tool me (remote (case cn_mcp_token cn of Some t \<Rightarrow> t | None \<Rightarrow> [])) name args s \<noteq> None \<or>
     scheduler_query me (cn_delegation cn) name args \<noteq> None \<or> workflow_query me (cn_delegation cn) name args \<noteq> None"
  by (auto simp: dispatch_connected_def Let_def split: option.splits)

lemmas tool_defs = pact_status_def pact_diff_def pact_log_def pact_commit_def pact_rollback_def pact_exec_def
  pact_apply_def pact_cap_def pact_service_status_def pact_query_fleet_def pact_emergency_def pact_jobs_list_def
  pact_queue_status_def pact_cluster_health_def pact_system_health_def pact_accounting_def pact_services_list_def
  pact_services_lookup_def pact_undrain_def pact_dag_list_def pact_dag_inspect_def pact_budget_def
  pact_backup_create_def pact_backup_verify_def pact_nodes_list_def pact_node_inspect_def

lemma tool_names:
  "map td_name all_tools = [''pact_status'', ''pact_diff'', ''pact_log'', ''pact_commit'', ''pact_rollback'', ''pact_exec'',
     ''pact_apply'', ''pact_cap'', ''pact_service_status'', ''pact_query_fleet'', ''pact_emergency'', ''pact_jobs_list'',
     ''pact_queue_status'', ''pact_cluster_health'', ''pact_system_health'', ''pact_accounting'', ''pact_services_list'',
     ''pact_services_lookup'', ''pact_undrain'', ''pact_dag_list'', ''pact_dag_inspect'', ''pact_budget'',
     ''pact_backup_create'', ''pact_backup_verify'', ''pact_nodes_list'', ''pact_node_inspect'']"
  by (simp add: all_tools_def tool_defs)

text \<open>
  The tools the server lists are exactly those it handles over its connections, and no tool is
  listed twice. The answers it has for use without a connection are therefore never given: a
  call reaches them only for a name that is not listed, and gets \<open>Unknown tool\<close>.
\<close>

theorem tools_listed_are_handled:
  "distinct (map td_name all_tools) \<and>
   (dispatch_connected me remote cn name args s \<noteq> None \<longleftrightarrow> name \<in> set (map td_name all_tools)) \<and>
   (dispatch_connected me remote cn name args s = None \<longrightarrow>
      dispatch_tool debug name args = tool_result (''Unknown tool: '' @ name) True)"
proof (intro conjI impI)
  show "distinct (map td_name all_tools)"
    unfolding tool_names by code_simp
  show known: "dispatch_connected me remote cn name args s \<noteq> None \<longleftrightarrow> name \<in> set (map td_name all_tools)"
    unfolding dispatch_known handled_names tool_names by auto
  assume "dispatch_connected me remote cn name args s = None"
  with known have "name \<notin> set (map td_name all_tools)"
    by simp
  then show "dispatch_tool debug name args = tool_result (''Unknown tool: '' @ name) True"
    unfolding tool_names by (simp add: dispatch_tool_def lattice_stub_def grpc_stub_def Let_def)
qed

subsection \<open>What the server writes\<close>

definition mcp_ok :: "ProtoConfigEntry \<Rightarrow> bool" where
  "mcp_ok e \<longleftrightarrow> map_option pid_principal (pce_author e) = Some ''mcp-agent'' \<and>
     map_option pid_role (pce_author e) = Some ''pact-service-ai'' \<and>
     pce_entry_type e \<in> {1, 2, 9, 12} \<and> pce_state_delta e = None"

text \<open>A remote side that records what is written to the journal, whatever it answers.\<close>

definition recording :: "ProtoConfigEntry list McpCalls \<Rightarrow> bool" where
  "recording calls \<longleftrightarrow> (\<forall>e tr. fst (mc_append calls e tr) = tr @ [e]) \<and> (\<forall>c a tr. fst (mc_exec calls c a tr) = tr)"

text \<open>An end of an emergency, type 9, and the requests that ask for one.\<close>

definition is_end :: "ProtoConfigEntry \<Rightarrow> bool" where
  "is_end e \<longleftrightarrow> pce_entry_type e = 9"

definition ends_emergency :: "(Json \<Rightarrow> string + ToolCallParams) \<Rightarrow> JsonRpcRequest \<Rightarrow> bool" where
  "ends_emergency params_of req \<longleftrightarrow> jq_method req = ''tools/call'' \<and>
     (case params_of (jq_params req) of
        Inl _ \<Rightarrow> False
      | Inr p \<Rightarrow> tp_name p = ''pact_emergency'' \<and>
          (case str_arg (tp_arguments p) ''action'' of Some a \<Rightarrow> a \<noteq> ''start'' | None \<Rightarrow> False))"

text \<open>At most one entry is added, none without a connection, and an end of an emergency as said.\<close>

definition added :: "bool \<Rightarrow> bool \<Rightarrow> ProtoConfigEntry list \<Rightarrow> ProtoConfigEntry list \<Rightarrow> bool" where
  "added conn ends tr tr' \<longleftrightarrow> (\<exists>es. tr' = tr @ es \<and> length es \<le> 1 \<and> list_all mcp_ok es \<and> (\<not> conn \<longrightarrow> es = []) \<and>
     (list_ex is_end es \<longleftrightarrow> ends))"

lemma added_same [simp]: "added b False tr tr"
  by (simp add: added_def)

lemma added_one: "mcp_ok e \<Longrightarrow> added True (is_end e) tr (tr @ [e])"
  by (simp add: added_def)

lemma added_ends:
  "added b ends tr tr' \<Longrightarrow> (\<exists>e. tr' = tr @ [e] \<and> pce_entry_type e = 9) \<longleftrightarrow> ends"
  by (auto simp: added_def is_end_def list_ex_iff le_Suc_eq length_Suc_conv)

lemma mcp_append_added:
  assumes "recording calls" "mcp_ok e"
  shows "added True (is_end e) tr (fst (mcp_append env calls failed e said tr))"
proof -
  have "fst (mcp_append env calls failed e said tr) = fst (mc_append calls e tr)"
    by (simp add: mcp_append_def split: prod.split sum.split)
  with assms show ?thesis
    by (simp add: recording_def added_one)
qed

lemma mcp_entry_ok:
  "ty \<in> {1, 2, 9} \<Longrightarrow> mcp_ok ((mcp_entry ty vc)\<lparr>pce_policy_ref := ref\<rparr>)"
  "ty \<in> {1, 2, 9} \<Longrightarrow> mcp_ok ((mcp_entry ty vc)\<lparr>pce_parent := parent\<rparr>)"
  "ty \<in> {1, 2, 9} \<Longrightarrow> mcp_ok (mcp_entry ty vc)"
  by (auto simp: mcp_ok_def mcp_entry_def cli_entry_def mcp_author_def)

lemma mcp_entry_end:
  "is_end ((mcp_entry ty vc)\<lparr>pce_policy_ref := ref\<rparr>) \<longleftrightarrow> ty = 9"
  "is_end ((mcp_entry ty vc)\<lparr>pce_parent := parent\<rparr>) \<longleftrightarrow> ty = 9"
  "is_end (mcp_entry ty vc) \<longleftrightarrow> ty = 9"
  by (simp_all add: is_end_def mcp_entry_def cli_entry_def)

lemma handle_undrain_added:
  assumes "recording calls"
  shows "added True False tr (fst (handle_undrain me calls config args tr))"
proof (cases "str_arg args ''node''")
  case (Some node)
  define d where "d = delegate (Systems.truncate (me_lattice me)) (me_env me) (mc_append calls) Undrain node ''mcp-agent''
    ''pact-service-ai'' config tr"
  have "fst (handle_undrain me calls config args tr) = fst d"
    by (simp add: handle_undrain_def Some d_def delegate_def split: prod.split)
  also have "\<dots> = tr @ [delegation_entry (command_name Undrain) node (audit_target config Undrain) ''mcp-agent'' ''pact-service-ai'']"
    using assms unfolding d_def delegate_journal by (simp add: recording_def)
  finally show ?thesis
    by (simp add: added_def mcp_ok_def is_end_def delegation_entry_def human_def)
qed (simp add: handle_undrain_def)

lemma handle_backup_added:
  assumes "recording calls"
  shows "added True False tr (fst (handle_backup_create me calls config args tr))"
proof (cases "str_arg args ''path''")
  case (Some path)
  have "fst (handle_backup_create me calls config args tr) =
      fst (mc_append calls (backup_entry ''backup_create'' path ''mcp-agent'' ''pact-service-ai'') tr)"
    by (simp add: handle_backup_create_def Some backup_create_def audited_backup_def split: prod.split sum.split)
  with assms show ?thesis
    by (simp add: recording_def added_def mcp_ok_def is_end_def backup_entry_def human_def)
qed (simp add: handle_backup_create_def)

lemma agent_tool_unchanged:
  assumes "recording calls" "agent_tool me calls name args tr = Some (tr', r)"
  shows "tr' = tr"
proof -
  have exec: "fst (mc_exec calls c a tr) = tr" for c a
    using assms(1) by (simp add: recording_def)
  have "fst (handle_exec env calls args tr) = tr" for env
    using exec by (auto simp: handle_exec_def split: option.split list.split prod.split sum.split) (metis fst_conv)+
  moreover have "fst (handle_service_status env calls args tr) = tr" for env
    using exec [of "''systemctl''" "[''status'', str_arg_or args ''service'' ''--all'']"]
    by (auto simp: handle_service_status_def split: prod.split sum.split)
  ultimately show ?thesis
    using assms(2) unfolding agent_tool_def Let_def
    by (auto split: if_splits) (metis fst_conv)+
qed

definition action_ends :: "string \<Rightarrow> Json \<Rightarrow> bool" where
  "action_ends name args \<longleftrightarrow> name = ''pact_emergency'' \<and>
     (case str_arg args ''action'' of Some a \<Rightarrow> a \<noteq> ''start'' | None \<Rightarrow> False)"

lemma handle_emergency_added:
  assumes "recording calls"
  shows "added True (action_ends ''pact_emergency'' args) tr (fst (handle_emergency env calls args tr))"
  using mcp_append_added [OF assms mcp_entry_ok(3) [of 9]]
  by (auto simp: handle_emergency_def action_ends_def mcp_entry_end split: option.split)

lemma handle_writes_added:
  assumes "recording calls"
  shows "added True False tr (fst (handle_commit env calls args tr))"
    "added True False tr (fst (handle_rollback env calls args tr))"
    "added True False tr (fst (handle_apply me calls args tr))"
  using mcp_append_added [OF assms mcp_entry_ok(1) [of 1]] mcp_append_added [OF assms mcp_entry_ok(2) [of 2]]
  by (simp_all add: handle_commit_def handle_rollback_def handle_apply_def Let_def mcp_entry_end split: option.split)

lemma journal_tool_added:
  assumes "recording calls" "journal_tool me calls config name args tr = Some (Some (tr', r))"
  shows "added True (action_ends name args) tr tr'"
proof (cases "name = ''pact_emergency''")
  case True
  then show ?thesis
    using handle_emergency_added [OF assms(1), of args tr "me_env me"] assms(2)
    by (simp add: journal_tool_def Let_def)
next
  case False
  then have no: "action_ends name args = False"
    by (simp add: action_ends_def)
  show ?thesis
    unfolding no
    using handle_undrain_added [OF assms(1)] handle_backup_added [OF assms(1)] handle_writes_added [OF assms(1)]
      assms(2) False
    unfolding journal_tool_def Let_def by (auto split: if_splits) (metis fst_conv)+
qed

lemma dispatch_added:
  assumes "\<And>t. recording (remote t)" "dispatch_connected me remote cn name args tr = Some (Some (tr', r))"
  shows "added (cn_journal cn) (cn_journal cn \<and> action_ends name args) tr tr'"
proof -
  define calls where "calls = remote (case cn_mcp_token cn of Some t \<Rightarrow> t | None \<Rightarrow> [])"
  have rec: "recording calls"
    by (simp add: calls_def assms(1))
  show ?thesis
  proof (cases "journal_tool me calls (cn_delegation cn) name args tr")
    case None
    then have "name \<noteq> ''pact_emergency''"
      using handled_names(1) [of me calls "cn_delegation cn" name args tr] by auto
    then have no: "action_ends name args = False"
      by (simp add: action_ends_def)
    have "tr' = tr"
    proof (cases "agent_tool me calls name args tr")
      case (Some x)
      then show ?thesis
        using None assms(2) agent_tool_unchanged [OF rec, of me name args tr "fst x" "snd x"]
        by (auto simp: dispatch_connected_def Let_def simp flip: calls_def split: if_splits)
    qed (use None assms(2) in \<open>auto simp: dispatch_connected_def Let_def simp flip: calls_def split: option.splits\<close>)
    then show ?thesis
      by (simp add: no)
  next
    case (Some x)
    then show ?thesis
      using assms(2) journal_tool_added [OF rec, of me "cn_delegation cn" name args tr tr' r]
      by (auto simp: dispatch_connected_def Let_def simp flip: calls_def split: if_splits)
  qed
qed

lemma handle_request_added:
  assumes "\<And>t. recording (remote t)" "handle_request me params_of version remote cn req tr = Some (tr', resp)"
  shows "added (cn_journal cn) (cn_journal cn \<and> ends_emergency params_of req) tr tr'"
proof (cases "jq_method req = ''tools/call''")
  case call: True
  show ?thesis
  proof (cases "params_of (jq_params req)")
    case (Inr p)
    then have ends: "ends_emergency params_of req \<longleftrightarrow> action_ends (tp_name p) (tp_arguments p)"
      by (simp add: ends_emergency_def action_ends_def call)
    show ?thesis
    proof (cases "dispatch_connected me remote cn (tp_name p) (tp_arguments p) tr")
      case None
      then have "\<not> action_ends (tp_name p) (tp_arguments p)"
        using dispatch_known [of me remote cn "tp_name p" "tp_arguments p" tr] unfolding handled_names action_ends_def
        by blast
      with None assms(2) call Inr ends show ?thesis
        by (simp add: handle_request_def)
    next
      case (Some x)
      then obtain b where "dispatch_connected me remote cn (tp_name p) (tp_arguments p) tr = Some (Some (tr', b))"
        using assms(2) call Inr by (auto simp: handle_request_def)
      from dispatch_added [OF assms(1) this] show ?thesis
        unfolding ends .
    qed
  qed (use assms(2) call in \<open>simp add: handle_request_def ends_emergency_def\<close>)
next
  case False
  with assms(2) show ?thesis
    by (auto simp: handle_request_def ends_emergency_def split: if_splits)
qed

lemma added_serve:
  assumes "\<And>req tr tr' r. handle req tr = Some (tr', r) \<Longrightarrow> added b (ends req) tr tr'"
    and "serve parse handle ls tr = (tr', out, p)"
  shows "\<exists>es. tr' = tr @ es \<and> length es \<le> length ls \<and> list_all mcp_ok es \<and> (\<not> b \<longrightarrow> es = [])"
  using assms(2)
proof (induction ls arbitrary: tr tr' out)
  case (Cons i ls)
  have rest: ?case if run: "serve parse handle ls tr1 = (tr', out', p)" and one: "added b e tr tr1" for tr1 out' e
  proof -
    obtain es where "tr' = tr1 @ es" "length es \<le> length ls" "list_all mcp_ok es" "\<not> b \<longrightarrow> es = []"
      using Cons.IH [OF run] by blast
    moreover obtain fs where "tr1 = tr @ fs" "length fs \<le> 1" "list_all mcp_ok fs" "\<not> b \<longrightarrow> fs = []"
      using one by (auto simp: added_def)
    ultimately show ?thesis
      by (intro exI [of _ "fs @ es"]) auto
  qed
  show ?case
  proof (cases i)
    case (Inr l)
    show ?thesis
    proof (cases "trim l = []")
      case False
      show ?thesis
      proof (cases "parse l")
        case (Inl e)
        then show ?thesis
          using rest [OF _ added_same] Cons.prems Inr False by (auto split: prod.splits)
      next
        case (Inr req)
        with \<open>i = Inr l\<close> False Cons.prems rest [OF _ assms(1)] show ?thesis
          by (auto split: option.splits prod.splits)
      qed
    next
      case True
      with Cons.prems Inr rest [OF _ added_same, of out] show ?thesis
        by auto
    qed
  qed (use Cons.prems in auto)
qed auto

text \<open>
  C18. Whatever is sent to the server, and whatever the journal, the agent and the scheduler answer, the
  server writes at most one entry per line of input, always as \<open>mcp-agent\<close> with the role
  \<open>pact-service-ai\<close>, of one of the types commit, rollback, end of an emergency and delegation, never of
  the type start of an emergency, and never with a state delta: the entries of \<open>pact_commit\<close> and
  \<open>pact_apply\<close> are of the type commit and carry their message, and a configuration to apply, as text.
  Without a connection to the journal it writes nothing. And it does end emergencies: a request
  makes it write an end of an emergency exactly when it calls \<open>pact_emergency\<close>, over a connection to
  the journal, with any action other than \<open>start\<close>, although an AI agent may neither enter nor exit
  emergency mode (P8 in specs/invariants.md and docs/architecture/emergency-mode.md).
\<close>

theorem mcp_writes_confined:
  assumes "\<And>t. recording (remote t)"
    and "serve parse (handle_request me params_of version remote cn) ls [] = (tr, out, p)"
  shows "length tr \<le> length ls \<and> list_all mcp_ok tr \<and> (\<not> cn_journal cn \<longrightarrow> tr = []) \<and>
    (\<forall>req tr1 tr2 resp. handle_request me params_of version remote cn req tr1 = Some (tr2, resp) \<longrightarrow>
      ((\<exists>e. tr2 = tr1 @ [e] \<and> pce_entry_type e = 9) \<longleftrightarrow> cn_journal cn \<and> ends_emergency params_of req))"
proof (intro conjI allI impI)
  note run = added_serve [OF handle_request_added [OF assms(1)] assms(2)]
  show "length tr \<le> length ls" "list_all mcp_ok tr" "\<not> cn_journal cn \<Longrightarrow> tr = []"
    using run by auto
  show "(\<exists>e. tr2 = tr1 @ [e] \<and> pce_entry_type e = 9) \<longleftrightarrow> cn_journal cn \<and> ends_emergency params_of req"
    if "handle_request me params_of version remote cn req tr1 = Some (tr2, resp)" for req tr1 tr2 resp
    by (rule added_ends [OF handle_request_added [OF assms(1) that]])
qed

definition sample_recorder :: "ProtoConfigEntry list McpCalls" where
  "sample_recorder = \<lparr>mc_append = (\<lambda>e tr. (tr @ [e], Inr 0)), mc_list = (\<lambda>tr r. Inr []),
     mc_node_state = (\<lambda>tr n. Inl (Status NotFound [])), mc_exec = (\<lambda>c a tr. (tr, Inr [])), mc_commands = (\<lambda>tr. Inr [])\<rparr>"

definition sample_mcp :: McpEnv where
  "sample_mcp = \<lparr>me_env = sample_cli, me_lattice = Systems.extend sample_systems (Lattice.fields (\<lambda>_. Inl []) (\<lambda>_. Inl []) (\<lambda>_. Inl [])
       (\<lambda>_. Inl []) (Inl []) (\<lambda>_. Inl []) (\<lambda>_. Inl []) (Inl []) (Inl []) (\<lambda>_. Inl []) (\<lambda>_ _ _. Inl []) (\<lambda>_. Inl [])
       (\<lambda>_. Inl []) (\<lambda>_ _. Inl []) (\<lambda>_ _. Inl []) (\<lambda>_. Inl []) (\<lambda>_. Inl []) (\<lambda>_. Inl []) (\<lambda>_ _ _. Inl []) (\<lambda>_. Inl [])),
     me_fmt1 = (\<lambda>f. []), me_to_json = (\<lambda>j. []), me_debug = id\<rparr>"

definition sample_commit :: JsonRpcRequest where
  "sample_commit = \<lparr>jq_jsonrpc = ''2.0'', jq_id = JPos 1, jq_method = ''tools/call'', jq_params = JNull\<rparr>"

theorem mcp_writes_confined_witness:
  "\<exists>tr out p. serve (\<lambda>l. Inr sample_commit) (handle_request sample_mcp
       (\<lambda>j. Inr \<lparr>tp_name = ''pact_commit'', tp_arguments = JObject [(''message'', JString ''m'')]\<rparr>) ''1'' (\<lambda>t. sample_recorder)
       \<lparr>cn_journal = True, cn_agent = False, cn_delegation = default_delegation, cn_mcp_token = None\<rparr>) [Inr ''x''] [] =
       (tr, out, p) \<and> length tr = 1 \<and> list_all mcp_ok tr"
proof -
  have rec: "recording sample_recorder"
    by (simp add: recording_def sample_recorder_def)
  let ?h = "handle_request sample_mcp (\<lambda>j. Inr \<lparr>tp_name = ''pact_commit'',
    tp_arguments = JObject [(''message'', JString ''m'')]\<rparr>) ''1'' (\<lambda>t. sample_recorder)
    \<lparr>cn_journal = True, cn_agent = False, cn_delegation = default_delegation, cn_mcp_token = None\<rparr>"
  have x: "trim ''x'' \<noteq> []"
    by code_simp
  obtain tr out p where run: "serve (\<lambda>l. Inr sample_commit) ?h [Inr ''x''] [] = (tr, out, p)" and tr: "length tr = 1"
    using x by (simp add: handle_request_def sample_commit_def dispatch_connected_def journal_tool_def handle_commit_def
        str_arg_def json_get_def as_str_def mcp_append_def sample_recorder_def Let_def)
  from mcp_writes_confined [OF rec run] run tr show ?thesis
    by blast
qed

subsection \<open>Calls that do not do what they say\<close>

text \<open>
  The node of \<open>pact_exec\<close> only labels the answer: the command runs on the one agent the server is
  connected to.
\<close>

lemma exec_node_ignored:
  assumes "str_arg args ''node'' = Some n" "str_arg args' ''node'' = Some n'"
    and "str_arg args ''command'' = str_arg args' ''command''"
  shows "fst (handle_exec env calls args s) = fst (handle_exec env calls args' s) \<and>
    tr_is_error (snd (handle_exec env calls args s)) = tr_is_error (snd (handle_exec env calls args' s))"
  using assms
  by (auto simp: handle_exec_def mcp_exec_text_def tool_result_def split: option.split list.split prod.split sum.split)

text \<open>Every action but \<open>start\<close> ends the emergency.\<close>

lemma emergency_other_action_ends:
  assumes "str_arg args ''action'' = Some a" "a \<noteq> ''start''"
  shows "handle_emergency env calls args s = mcp_append env calls ''Emergency end failed''
    (mcp_entry 9 (str_arg_or args ''vcluster'' ''default'')) (\<lambda>seq. ''Emergency mode ENDED (seq:'' @ show_u64 seq @ '')'') s"
  using assms by (simp add: handle_emergency_def)

text \<open>
  A commit reads the argument \<open>vcluster\<close>, which the schema does not offer, and not the \<open>scope\<close> it does
  offer: a call made by the schema writes to \<open>default\<close>. An application takes the scope \<open>vc:X\<close> for the
  name of the vCluster.
\<close>

lemma commit_scope_ignored:
  "handle_commit env calls (JObject [(''message'', JString m), (''scope'', JString sc)]) s =
     mcp_append env calls ''Commit failed'' ((mcp_entry 1 ''default'')\<lparr>pce_policy_ref := m\<rparr>)
       (\<lambda>seq. ''Committed (seq:'' @ show_u64 seq @ '') on vCluster: default'') s"
  by (simp add: handle_commit_def str_arg_def str_arg_or_def json_get_def as_str_def Let_def)

lemma apply_scope_literal:
  assumes "recording calls" "json_get args ''config'' \<noteq> None" "str_arg args ''scope'' = Some (''vc:'' @ v)"
  shows "pce_scope (last (fst (handle_apply me calls args tr))) = Some (Some (ProtoVclusterId (''vc:'' @ v)))"
  using assms
  by (auto simp: handle_apply_def mcp_append_def recording_def mcp_entry_def cli_entry_def Let_def split: prod.split sum.split
      option.split) (metis fst_conv last_snoc ProtoConfigEntry.select_convs(4) ProtoConfigEntry.simps(4))+

text \<open>The server stops when a difference is asked for with arguments that are neither an object nor null.\<close>

lemma handler_panics:
  "handle_request me params_of version remote cn req s = None \<longleftrightarrow>
     jq_method req = ''tools/call'' \<and> cn_journal cn \<and>
     (\<exists>p. params_of (jq_params req) = Inr p \<and> tp_name p = ''pact_diff'' \<and>
        tp_arguments p \<noteq> JNull \<and> (\<nexists>kvs. tp_arguments p = JObject kvs))"
proof -
  have set: "json_set k x v = None \<longleftrightarrow> v \<noteq> JNull \<and> (\<nexists>kvs. v = JObject kvs)" for k x v
    by (cases v) (simp_all add: json_set_def)
  have set2: "json_set k x v = Some w \<Longrightarrow> json_set k' x' w \<noteq> None" for k x v w k' x'
    by (cases v) (auto simp: json_set_def)
  have diff: "handle_diff env calls args s = None \<longleftrightarrow> args \<noteq> JNull \<and> (\<nexists>kvs. args = JObject kvs)" for env calls args s
  proof (cases "json_set ''scope'' (JString (''node:'' @ str_arg_or args ''node'' ''current'')) args")
    case None
    moreover have "handle_diff env calls args s = None"
      using None by (simp add: handle_diff_def)
    ultimately show ?thesis
      unfolding set by simp
  next
    case (Some w)
    then show ?thesis
      using set2 [OF Some, of "''n''" "JPos 50"] set [of "''scope''" _ args] by (auto simp: handle_diff_def)
  qed
  have tool: "journal_tool me calls config name args s = Some None \<longleftrightarrow> name = ''pact_diff'' \<and> handle_diff (me_env me) calls args s = None"
    for calls config name args
    by (simp add: journal_tool_def Let_def)
  have "dispatch_connected me remote cn name args s = Some None \<longleftrightarrow>
      cn_journal cn \<and> name = ''pact_diff'' \<and> args \<noteq> JNull \<and> (\<nexists>kvs. args = JObject kvs)" for name args
  proof -
    define calls where "calls = remote (case cn_mcp_token cn of Some t \<Rightarrow> t | None \<Rightarrow> [])"
    show ?thesis
    proof (cases "journal_tool me calls (cn_delegation cn) name args s")
      case None
      then have "\<not> (name = ''pact_diff'' \<and> args \<noteq> JNull \<and> (\<nexists>kvs. args = JObject kvs))"
        using tool [of calls "cn_delegation cn" name args] unfolding diff by simp
      with None show ?thesis
        by (simp add: dispatch_connected_def Let_def flip: calls_def split: option.split)
    next
      case (Some x)
      then have "x = None \<longleftrightarrow> name = ''pact_diff'' \<and> args \<noteq> JNull \<and> (\<nexists>kvs. args = JObject kvs)"
        using tool [of calls "cn_delegation cn" name args] unfolding diff by simp
      with Some show ?thesis
        by (simp add: dispatch_connected_def Let_def flip: calls_def split: option.split)
    qed
  qed
  note disp = this
  show ?thesis
  proof (cases "params_of (jq_params req)")
    case (Inr p)
    then show ?thesis
      using disp [of "tp_name p" "tp_arguments p"]
      by (cases "dispatch_connected me remote cn (tp_name p) (tp_arguments p) s") (auto simp: handle_request_def)
  qed (simp add: handle_request_def)
qed

end
