(* ===== verification/Uid_Map.thy ===== *)
theory Uid_Map
  imports Rust_Parse Whitelist
begin

text \<open>
  The mapping of OIDC subjects to POSIX users: the table \<open>UidMap\<close> of
  \<open>crates/pact-common/src/types.rs\<close>, the manager that writes it to files
  (\<open>crates/pact-agent/src/identity.rs\<close>) and the NSS module that reads them
  (\<open>crates/pact-nss/src/lib.rs\<close>). The arithmetic on identifiers is that of \<open>u32\<close> in a release build,
  which wraps. Files are a map from paths to contents, the calls that change them and the JSON
  library are parameters.
\<close>

subsection \<open>The table\<close>

record UidEntry =
  ue_subject :: string
  ue_uid :: u32
  ue_gid :: u32
  ue_username :: string
  ue_home :: string
  ue_shell :: string
  ue_org :: string

record GroupEntry =
  ge_name :: string
  ge_gid :: u32
  ge_members :: "string list"

record OrgIndex =
  oi_org :: string
  oi_index :: u32

record UidMap =
  um_users :: "(string, UidEntry) hashmap"
  um_groups :: "(string, GroupEntry) hashmap"
  um_org_indices :: "OrgIndex list"
  um_base_uid :: u32
  um_base_gid :: u32
  um_stride :: u32
  um_next_uid_offset :: "(string, u32) hashmap"

datatype UidError = UidRangeExhausted string u32 u32 | OrgNotRegistered string

definition uid_map_new :: UidMap where
  "uid_map_new = \<lparr>um_users = [], um_groups = [], um_org_indices = [], um_base_uid = 10000, um_base_gid = 10000,
     um_stride = 10000, um_next_uid_offset = []\<rparr>"

definition uid_precursor :: "UidMap \<Rightarrow> u32 \<Rightarrow> u32" where
  "uid_precursor m i = um_base_uid m + i * um_stride m"

definition gid_precursor :: "UidMap \<Rightarrow> u32 \<Rightarrow> u32" where
  "gid_precursor m i = um_base_gid m + i * um_stride m"

definition org_index :: "UidMap \<Rightarrow> string \<Rightarrow> u32 option" where
  "org_index m org = map_option oi_index (find (\<lambda>x. oi_org x = org) (um_org_indices m))"

definition next_offset :: "UidMap \<Rightarrow> string \<Rightarrow> u32" where
  "next_offset m org = (case hm_get (um_next_uid_offset m) org of Some n \<Rightarrow> n | None \<Rightarrow> 0)"

definition assign_uid ::
  "string \<Rightarrow> string \<Rightarrow> string \<Rightarrow> string \<Rightarrow> string \<Rightarrow> UidMap \<Rightarrow> UidMap \<times> (UidError + UidEntry)" where
  "assign_uid subject username org home shell m = (case hm_get (um_users m) subject of
     Some existing \<Rightarrow> (m, Inr existing)
   | None \<Rightarrow> (case org_index m org of
       None \<Rightarrow> (m, Inl (OrgNotRegistered org))
     | Some idx \<Rightarrow>
         (let offset = next_offset m org in
          if um_stride m \<le> offset then (m, Inl (UidRangeExhausted org (um_stride m) offset))
          else
            (let e = \<lparr>ue_subject = subject, ue_uid = uid_precursor m idx + offset, ue_gid = gid_precursor m idx + offset,
                   ue_username = username, ue_home = home, ue_shell = shell, ue_org = org\<rparr> in
             (m\<lparr>um_users := hm_insert subject e (um_users m),
                um_next_uid_offset := hm_insert org (offset + 1) (um_next_uid_offset m)\<rparr>, Inr e)))))"

text \<open>The members of the groups are filtered after the users of the organisation have been removed.\<close>

definition gc_org :: "string \<Rightarrow> UidMap \<Rightarrow> UidMap" where
  "gc_org org m =
     (let users = hm_retain (\<lambda>_ e. ue_org e \<noteq> org) (um_users m) in
      m\<lparr>um_users := users,
        um_groups := hm_map (\<lambda>_ g. g\<lparr>ge_members := filter (\<lambda>mem. \<not> list_ex (\<lambda>u. ue_username u = mem \<and> ue_org u = org)
          (hm_values users)) (ge_members g)\<rparr>) (um_groups m),
        um_next_uid_offset := hm_remove org (um_next_uid_offset m),
        um_org_indices := filter (\<lambda>x. oi_org x \<noteq> org) (um_org_indices m)\<rparr>)"

definition get_by_uid :: "UidMap \<Rightarrow> u32 \<Rightarrow> UidEntry option" where
  "get_by_uid m uid = find (\<lambda>e. ue_uid e = uid) (hm_values (um_users m))"

definition get_by_username :: "UidMap \<Rightarrow> string \<Rightarrow> UidEntry option" where
  "get_by_username m name = find (\<lambda>e. ue_username e = name) (hm_values (um_users m))"

subsection \<open>The files\<close>

type_synonym files = "string \<Rightarrow> string option"

text \<open>The calls on files: the new files, and the error if the call failed.\<close>

record OsFiles =
  os_create_dir :: "string \<Rightarrow> files \<Rightarrow> files \<times> string option"
  os_write :: "string \<Rightarrow> string \<Rightarrow> files \<Rightarrow> files \<times> string option"
  os_chmod :: "string \<Rightarrow> files \<Rightarrow> files \<times> string option"
  os_rename :: "string \<Rightarrow> string \<Rightarrow> files \<Rightarrow> files \<times> string option"

record PasswdEntry =
  pe_subject :: string
  pe_uid :: u32
  pe_gid :: u32
  pe_username :: string
  pe_home :: string
  pe_shell :: string
  pe_org :: string

record GroupDbEntry =
  gd_name :: string
  gd_gid :: u32
  gd_members :: "string list"

text \<open>Printing and parsing by the JSON library.\<close>

record UidJson =
  uj_users :: "UidEntry list \<Rightarrow> string + string"
  uj_groups :: "GroupEntry list \<Rightarrow> string + string"
  uj_passwd_of :: "string \<Rightarrow> PasswdEntry list option"
  uj_group_of :: "string \<Rightarrow> GroupDbEntry list option"

record IdentityManager =
  im_base_dir :: string
  im_uid_map :: UidMap
  im_active :: bool

definition identity_new :: "string \<Rightarrow> bool \<Rightarrow> IdentityManager" where
  "identity_new base active = \<lparr>im_base_dir = base, im_uid_map = uid_map_new, im_active = active\<rparr>"

text \<open>\<open>Path::with_extension\<close> of a path that ends in a file name.\<close>

definition with_extension :: "string \<Rightarrow> string \<Rightarrow> string" where
  "with_extension p ext =
     (let name = rev (takeWhile (\<lambda>c. c \<noteq> CHR ''/'') (rev p));
          r = dropWhile (\<lambda>c. c \<noteq> CHR ''.'') (rev name);
          stem = (if length r \<le> 1 then name else rev (tl r)) in
      take (length p - length name) p @ stem @ ''.'' @ ext)"

definition write_atomic :: "OsFiles \<Rightarrow> string \<Rightarrow> string \<Rightarrow> files \<Rightarrow> files \<times> string option" where
  "write_atomic os path data fs =
     (let tmp_path = with_extension path ''tmp'' in
      case os_write os tmp_path data fs of
        (fs1, Some e) \<Rightarrow> (fs1, Some e)
      | (fs1, None) \<Rightarrow> (case os_chmod os tmp_path fs1 of
            (fs2, Some e) \<Rightarrow> (fs2, Some e)
          | (fs2, None) \<Rightarrow> os_rename os tmp_path path fs2))"

definition write_db :: "OsFiles \<Rightarrow> string \<Rightarrow> string + string \<Rightarrow> files \<Rightarrow> files \<times> string option" where
  "write_db os path json fs = (case json of Inl e \<Rightarrow> (fs, Some e) | Inr s \<Rightarrow> write_atomic os path s fs)"

definition write_db_files :: "OsFiles \<Rightarrow> UidJson \<Rightarrow> IdentityManager \<Rightarrow> files \<Rightarrow> files \<times> string option" where
  "write_db_files os js mgr fs =
     (if \<not> im_active mgr then (fs, None)
      else case os_create_dir os (im_base_dir mgr) fs of
        (fs1, Some e) \<Rightarrow> (fs1, Some e)
      | (fs1, None) \<Rightarrow>
          (case write_db os (path_join (im_base_dir mgr) ''passwd.db'') (uj_users js (hm_values (um_users (im_uid_map mgr)))) fs1 of
             (fs2, Some e) \<Rightarrow> (fs2, Some e)
           | (fs2, None) \<Rightarrow> write_db os (path_join (im_base_dir mgr) ''group.db'')
               (uj_groups js (hm_values (um_groups (im_uid_map mgr)))) fs2))"

text \<open>An error of the writer is logged only.\<close>

definition update_map :: "OsFiles \<Rightarrow> UidJson \<Rightarrow> UidMap \<Rightarrow> IdentityManager \<Rightarrow> files \<Rightarrow> IdentityManager \<times> files" where
  "update_map os js m mgr fs =
     (let mgr' = mgr\<lparr>im_uid_map := m\<rparr> in
      (mgr', if im_active mgr' then fst (write_db_files os js mgr' fs) else fs))"

subsection \<open>The NSS module\<close>

definition PASSWD_DB_PATH :: string where "PASSWD_DB_PATH = ''/run/pact/passwd.db''"
definition GROUP_DB_PATH :: string where "GROUP_DB_PATH = ''/run/pact/group.db''"

record Passwd =
  pw_name :: string
  pw_passwd :: string
  pw_uid :: u32
  pw_gid :: u32
  pw_gecos :: string
  pw_dir :: string
  pw_shell :: string

record Group =
  gr_name :: string
  gr_passwd :: string
  gr_gid :: u32
  gr_members :: "string list"

definition load_db :: "(string \<Rightarrow> 'e list option) \<Rightarrow> string \<Rightarrow> files \<Rightarrow> 'e list" where
  "load_db parse path fs = (case Option.bind (fs path) from_utf8 of
     Some data \<Rightarrow> (case parse data of Some es \<Rightarrow> es | None \<Rightarrow> []) | None \<Rightarrow> [])"

definition load_passwd :: "UidJson \<Rightarrow> files \<Rightarrow> PasswdEntry list" where
  "load_passwd js = load_db (uj_passwd_of js) PASSWD_DB_PATH"

definition load_groups :: "UidJson \<Rightarrow> files \<Rightarrow> GroupDbEntry list" where
  "load_groups js = load_db (uj_group_of js) GROUP_DB_PATH"

text \<open>The cache of a process is filled by its first call and never changed again.\<close>

definition get_passwd_entries :: "UidJson \<Rightarrow> files \<Rightarrow> PasswdEntry list option \<Rightarrow> PasswdEntry list option \<times> PasswdEntry list" where
  "get_passwd_entries js fs cache =
     (let c = (case cache of None \<Rightarrow> load_passwd js fs | Some es \<Rightarrow> es) in (Some c, c))"

definition get_group_entries :: "UidJson \<Rightarrow> files \<Rightarrow> GroupDbEntry list option \<Rightarrow> GroupDbEntry list option \<times> GroupDbEntry list" where
  "get_group_entries js fs cache =
     (let c = (case cache of None \<Rightarrow> load_groups js fs | Some es \<Rightarrow> es) in (Some c, c))"

definition to_passwd :: "PasswdEntry \<Rightarrow> Passwd" where
  "to_passwd e = \<lparr>pw_name = pe_username e, pw_passwd = ''x'', pw_uid = pe_uid e, pw_gid = pe_gid e, pw_gecos = pe_subject e,
     pw_dir = pe_home e, pw_shell = pe_shell e\<rparr>"

definition to_group :: "GroupDbEntry \<Rightarrow> Group" where
  "to_group g = \<lparr>gr_name = gd_name g, gr_passwd = ''x'', gr_gid = gd_gid g, gr_members = gd_members g\<rparr>"

definition passwd_all :: "UidJson \<Rightarrow> files \<Rightarrow> PasswdEntry list option \<Rightarrow> PasswdEntry list option \<times> Passwd list" where
  "passwd_all js fs cache = apsnd (map to_passwd) (get_passwd_entries js fs cache)"

definition passwd_by_uid :: "UidJson \<Rightarrow> files \<Rightarrow> u32 \<Rightarrow> PasswdEntry list option \<Rightarrow> PasswdEntry list option \<times> Passwd option" where
  "passwd_by_uid js fs uid cache =
     apsnd (\<lambda>es. map_option to_passwd (find (\<lambda>e. pe_uid e = uid) es)) (get_passwd_entries js fs cache)"

definition passwd_by_name :: "UidJson \<Rightarrow> files \<Rightarrow> string \<Rightarrow> PasswdEntry list option \<Rightarrow> PasswdEntry list option \<times> Passwd option" where
  "passwd_by_name js fs name cache =
     apsnd (\<lambda>es. map_option to_passwd (find (\<lambda>e. pe_username e = name) es)) (get_passwd_entries js fs cache)"

definition group_all :: "UidJson \<Rightarrow> files \<Rightarrow> GroupDbEntry list option \<Rightarrow> GroupDbEntry list option \<times> Group list" where
  "group_all js fs cache = apsnd (map to_group) (get_group_entries js fs cache)"

definition group_by_gid :: "UidJson \<Rightarrow> files \<Rightarrow> u32 \<Rightarrow> GroupDbEntry list option \<Rightarrow> GroupDbEntry list option \<times> Group option" where
  "group_by_gid js fs gid cache =
     apsnd (\<lambda>gs. map_option to_group (find (\<lambda>g. gd_gid g = gid) gs)) (get_group_entries js fs cache)"

definition group_by_name :: "UidJson \<Rightarrow> files \<Rightarrow> string \<Rightarrow> GroupDbEntry list option \<Rightarrow> GroupDbEntry list option \<times> Group option" where
  "group_by_name js fs name cache =
     apsnd (\<lambda>gs. map_option to_group (find (\<lambda>g. gd_name g = name) gs)) (get_group_entries js fs cache)"

subsection \<open>Identifiers are unique\<close>

text \<open>
  Organisations join with an index of their own whose range fits into 32 bits; users are assigned
  and organisations leave in any order.
\<close>

definition range_fits :: "UidMap \<Rightarrow> u32 \<Rightarrow> bool" where
  "range_fits m i \<longleftrightarrow> unat (um_base_uid m) + (unat i + 1) * unat (um_stride m) \<le> 2 ^ 32 \<and>
     unat (um_base_gid m) + (unat i + 1) * unat (um_stride m) \<le> 2 ^ 32"

definition join_org :: "string \<Rightarrow> u32 \<Rightarrow> UidMap \<Rightarrow> UidMap" where
  "join_org org i m = m\<lparr>um_org_indices := um_org_indices m @ [\<lparr>oi_org = org, oi_index = i\<rparr>]\<rparr>"

inductive uid_step :: "UidMap \<Rightarrow> UidMap \<Rightarrow> bool" where
  join: "\<lbrakk>org_index m org = None; i \<notin> oi_index ` set (um_org_indices m); range_fits m i\<rbrakk> \<Longrightarrow> uid_step m (join_org org i m)"
| assign: "assign_uid subject username org home shell m = (m', r) \<Longrightarrow> uid_step m m'"
| gc: "uid_step m (gc_org org m)"

definition uid_wf :: "UidMap \<Rightarrow> bool" where
  "uid_wf m \<longleftrightarrow> hm_inv (um_users m) \<and> distinct (map oi_org (um_org_indices m)) \<and> distinct (map oi_index (um_org_indices m)) \<and>
     (\<forall>x \<in> set (um_org_indices m). range_fits m (oi_index x)) \<and> (\<forall>org. next_offset m org \<le> um_stride m) \<and>
     (\<forall>s e. hm_get (um_users m) s = Some e \<longrightarrow> ue_subject e = s \<and>
        (\<exists>i k. org_index m (ue_org e) = Some i \<and> k < next_offset m (ue_org e) \<and>
           ue_uid e = uid_precursor m i + k \<and> ue_gid e = gid_precursor m i + k)) \<and>
     (\<forall>s e s' e'. hm_get (um_users m) s = Some e \<longrightarrow> hm_get (um_users m) s' = Some e' \<longrightarrow> s \<noteq> s' \<longrightarrow>
        ue_org e = ue_org e' \<longrightarrow> ue_uid e \<noteq> ue_uid e')"

lemma org_index_iff:
  assumes "distinct (map oi_org (um_org_indices m))"
  shows "org_index m org = Some i \<longleftrightarrow> \<lparr>oi_org = org, oi_index = i\<rparr> \<in> set (um_org_indices m)"
proof -
  have "distinct (map oi_org xs) \<Longrightarrow>
      map_option oi_index (find (\<lambda>x. oi_org x = org) xs) = Some i \<longleftrightarrow> \<lparr>oi_org = org, oi_index = i\<rparr> \<in> set xs" for xs :: "OrgIndex list"
  proof (induction xs)
    case (Cons x xs)
    show ?case
    proof (cases "oi_org x = org")
      case True
      with Cons.prems have "\<lparr>oi_org = org, oi_index = i\<rparr> \<notin> set xs"
        by (auto dest: imageI [of _ _ oi_org])
      with True show ?thesis
        by (cases x) auto
    next
      case False
      then have "\<lparr>oi_org = org, oi_index = i\<rparr> \<noteq> x"
        by auto
      with False Cons show ?thesis
        by simp
    qed
  qed simp
  with assms show ?thesis
    by (simp add: org_index_def)
qed

lemma org_index_None: "org_index m org = None \<longleftrightarrow> org \<notin> oi_org ` set (um_org_indices m)"
  by (auto simp: org_index_def find_None_iff)

lemma word_range:
  fixes b i s k :: u32
  assumes "unat b + (unat i + 1) * unat s \<le> 2 ^ 32" "k < s"
  shows "unat (b + i * s + k) = unat b + unat i * unat s + unat k"
proof -
  have "unat k < unat s"
    using assms(2) by (simp add: word_less_nat_alt)
  then have "unat b + unat i * unat s + unat k < unat b + (unat i + 1) * unat s"
    by (simp only: distrib_right mult_1 add.assoc nat_add_left_cancel_less)
  also note assms(1)
  finally have "unat b + unat i * unat s + unat k < 2 ^ LENGTH(32)"
    by (simp only: len_num0 len_num1 len_bit0 len_bit1) simp
  then have "unat (of_nat (unat b + unat i * unat s + unat k) :: u32) = unat b + unat i * unat s + unat k"
    by (simp only: unat_of_nat mod_less)
  then show ?thesis
    by (simp only: of_nat_add of_nat_mult of_nat_unat ucast_id)
qed

lemma ranges_disjoint:
  fixes k k' s i i' :: nat
  assumes "k < s" "k' < s" "i * s + k = i' * s + k'"
  shows "i = i' \<and> k = k'"
proof -
  have "(i * s + k) div s = (i' * s + k') div s" "(i * s + k) mod s = (i' * s + k') mod s"
    using assms(3) by simp_all
  with assms(1,2) show ?thesis
    by simp
qed

text \<open>In a well-formed table an identifier determines the index of the organisation and the offset.\<close>

lemma uid_wf_unat:
  assumes "uid_wf m" "hm_get (um_users m) s = Some e"
  obtains i k where "org_index m (ue_org e) = Some i" "k < next_offset m (ue_org e)" "unat k < unat (um_stride m)"
    "unat (ue_uid e) = unat (um_base_uid m) + (unat i * unat (um_stride m) + unat k)"
    "unat (ue_gid e) = unat (um_base_gid m) + (unat i * unat (um_stride m) + unat k)"
proof -
  from assms obtain i k where ik: "org_index m (ue_org e) = Some i" "k < next_offset m (ue_org e)"
      "ue_uid e = uid_precursor m i + k" "ue_gid e = gid_precursor m i + k"
    unfolding uid_wf_def by blast
  then have fits: "range_fits m i"
    using assms(1) org_index_iff [of m "ue_org e" i] unfolding uid_wf_def by fastforce
  have "next_offset m (ue_org e) \<le> um_stride m"
    using assms(1) by (simp add: uid_wf_def)
  with ik(2) have less: "k < um_stride m"
    by (rule order.strict_trans2)
  show thesis
    using that [OF ik(1,2)] fits less ik(3,4) word_range [of "um_base_uid m" i "um_stride m" k]
      word_range [of "um_base_gid m" i "um_stride m" k]
    by (simp add: range_fits_def uid_precursor_def gid_precursor_def word_less_nat_alt add.assoc)
qed

lemma uid_wf_unique:
  assumes wf: "uid_wf m" and e: "hm_get (um_users m) s = Some e" and e': "hm_get (um_users m) s' = Some e'" and "s \<noteq> s'"
  shows "ue_uid e \<noteq> ue_uid e' \<and> ue_gid e \<noteq> ue_gid e'"
proof -
  obtain i k :: u32 where ik: "org_index m (ue_org e) = Some i" "unat k < unat (um_stride m)"
      "unat (ue_uid e) = unat (um_base_uid m) + (unat i * unat (um_stride m) + unat k)"
      "unat (ue_gid e) = unat (um_base_gid m) + (unat i * unat (um_stride m) + unat k)"
    by (rule uid_wf_unat [OF wf e], rule that)
  obtain i' k' :: u32 where ik': "org_index m (ue_org e') = Some i'" "unat k' < unat (um_stride m)"
      "unat (ue_uid e') = unat (um_base_uid m) + (unat i' * unat (um_stride m) + unat k')"
      "unat (ue_gid e') = unat (um_base_gid m) + (unat i' * unat (um_stride m) + unat k')"
    by (rule uid_wf_unat [OF wf e'], rule that)
  have "\<not> (unat i * unat (um_stride m) + unat k = unat i' * unat (um_stride m) + unat k')"
  proof
    assume eq: "unat i * unat (um_stride m) + unat k = unat i' * unat (um_stride m) + unat k'"
    then have "i = i'"
      using ranges_disjoint [OF ik(2) ik'(2)] by (simp add: word_unat_eq_iff)
    have d: "distinct (map oi_org (um_org_indices m))" "inj_on oi_index (set (um_org_indices m))"
      using wf by (simp_all add: uid_wf_def distinct_map)
    have "\<lparr>oi_org = ue_org e, oi_index = i\<rparr> \<in> set (um_org_indices m)" "\<lparr>oi_org = ue_org e', oi_index = i\<rparr> \<in> set (um_org_indices m)"
      using ik(1) ik'(1) \<open>i = i'\<close> unfolding org_index_iff [OF d(1)] by simp_all
    from inj_onD [OF d(2) _ this] have "ue_org e = ue_org e'"
      by simp
    then have "ue_uid e \<noteq> ue_uid e'"
      using wf e e' \<open>s \<noteq> s'\<close> unfolding uid_wf_def by blast
    then show False
      using eq ik(3) ik'(3) by (simp add: word_unat_eq_iff)
  qed
  with ik(3,4) ik'(3,4) show ?thesis
    by auto
qed

lemma word_succ:
  fixes k s :: u32
  assumes "k < s"
  shows "unat (k + 1) = unat k + 1"
proof -
  have "unat k + 1 \<le> unat s"
    using assms by (simp add: word_less_nat_alt)
  also have "unat s < 2 ^ LENGTH(32)"
    by (rule unsigned_less)
  finally show ?thesis
    by (simp only: unat_word_ariths unat_1 mod_less)
qed

lemma find_app: "find P (xs @ ys) = (case find P xs of None \<Rightarrow> find P ys | Some x \<Rightarrow> Some x)"
  by (induction xs) auto

lemma uid_wf_entry:
  assumes "uid_wf m" "hm_get (um_users m) s = Some e"
  shows "ue_subject e = s \<and> (\<exists>i k. org_index m (ue_org e) = Some i \<and> k < next_offset m (ue_org e) \<and>
    ue_uid e = uid_precursor m i + k \<and> ue_gid e = gid_precursor m i + k)"
  using assms unfolding uid_wf_def by blast

lemma uid_wf_join:
  assumes "uid_wf m" "org_index m org = None" "i \<notin> oi_index ` set (um_org_indices m)" "range_fits m i"
  shows "uid_wf (join_org org i m)"
proof -
  have idx: "org_index (join_org org i m) org' = (if org' = org then Some i else org_index m org')" for org'
    using assms(2) by (auto simp: org_index_def join_org_def find_app split: option.split)
  have same: "um_users (join_org org i m) = um_users m" "next_offset (join_org org i m) = next_offset m"
    "range_fits (join_org org i m) = range_fits m" "um_stride (join_org org i m) = um_stride m"
    "uid_precursor (join_org org i m) = uid_precursor m" "gid_precursor (join_org org i m) = gid_precursor m"
    by (simp_all add: join_org_def next_offset_def range_fits_def uid_precursor_def gid_precursor_def fun_eq_iff)
  have "(\<exists>j k. org_index (join_org org i m) (ue_org e) = Some j \<and> k < next_offset m (ue_org e) \<and>
      ue_uid e = uid_precursor m j + k \<and> ue_gid e = gid_precursor m j + k)" if e: "hm_get (um_users m) s = Some e" for s e
  proof -
    obtain j k where "org_index m (ue_org e) = Some j" "k < next_offset m (ue_org e)" "ue_uid e = uid_precursor m j + k"
        "ue_gid e = gid_precursor m j + k"
      using uid_wf_entry [OF assms(1) e] by blast
    moreover from this assms(2) have "ue_org e \<noteq> org"
      by auto
    ultimately show ?thesis
      unfolding idx by auto
  qed
  moreover have "distinct (map oi_org (um_org_indices (join_org org i m)))" "distinct (map oi_index (um_org_indices (join_org org i m)))"
    "\<forall>x \<in> set (um_org_indices (join_org org i m)). range_fits m (oi_index x)"
    using assms by (auto simp: uid_wf_def join_org_def org_index_None)
  moreover note assms(1)
  ultimately show ?thesis
    unfolding uid_wf_def same by blast
qed

lemma uid_wf_assign:
  assumes wf: "uid_wf m" and "assign_uid subject username org home shell m = (m', r)"
  shows "uid_wf m'"
proof (cases "m' = m")
  case False
  define n where "n = next_offset m org"
  obtain i where i: "hm_get (um_users m) subject = None" "org_index m org = Some i" "n < um_stride m"
      and m': "m' = m\<lparr>um_users := hm_insert subject \<lparr>ue_subject = subject, ue_uid = uid_precursor m i + n,
          ue_gid = gid_precursor m i + n, ue_username = username, ue_home = home, ue_shell = shell, ue_org = org\<rparr> (um_users m),
        um_next_uid_offset := hm_insert org (n + 1) (um_next_uid_offset m)\<rparr>"
    using assms(2) False by (auto simp: assign_uid_def n_def Let_def not_le split: option.splits if_splits)
  have same: "org_index m' = org_index m" "range_fits m' = range_fits m" "um_stride m' = um_stride m"
    "uid_precursor m' = uid_precursor m" "gid_precursor m' = gid_precursor m" "um_org_indices m' = um_org_indices m"
    by (simp_all add: m' org_index_def range_fits_def uid_precursor_def gid_precursor_def fun_eq_iff)
  have off: "next_offset m' org' = (if org' = org then n + 1 else next_offset m org')" for org'
    by (simp add: m' next_offset_def)
  have succ: "k < n \<Longrightarrow> k < n + 1" "n < n + 1" "n + 1 \<le> um_stride m" for k
    using word_succ [OF i(3)] i(3) by (simp_all add: word_less_nat_alt word_le_nat_alt)
  have "ue_subject e = s \<and> (\<exists>i k. org_index m (ue_org e) = Some i \<and> k < next_offset m' (ue_org e) \<and>
      ue_uid e = uid_precursor m i + k \<and> ue_gid e = gid_precursor m i + k)" if e: "hm_get (um_users m') s = Some e" for s e
  proof (cases "s = subject")
    case True
    with e i(2) succ(2) show ?thesis
      by (auto simp: m' off [unfolded m'])
  next
    case False
    with e have old: "hm_get (um_users m) s = Some e"
      by (simp add: m')
    obtain i k where ik: "ue_subject e = s" "org_index m (ue_org e) = Some i" "k < next_offset m (ue_org e)"
        "ue_uid e = uid_precursor m i + k" "ue_gid e = gid_precursor m i + k"
      using uid_wf_entry [OF wf old] by blast
    moreover from ik(3) have "k < next_offset m' (ue_org e)"
      using succ(1) [of k] by (auto simp: off n_def)
    ultimately show ?thesis
      by blast
  qed
  moreover have "ue_uid e \<noteq> ue_uid e'" if e: "hm_get (um_users m') s = Some e" "hm_get (um_users m') s' = Some e'" "s \<noteq> s'"
      "ue_org e = ue_org e'" for s e s' e'
  proof -
    have new: "ue_uid x \<noteq> uid_precursor m i + n" if x: "hm_get (um_users m) s = Some x" "ue_org x = org" for x s
      using uid_wf_entry [OF wf x(1)] x(2) i(2) by (auto simp: n_def)
    have "ue_uid e \<noteq> ue_uid e'" if "s \<noteq> subject" "s' \<noteq> subject"
      using wf e that unfolding uid_wf_def by (simp add: m')
    moreover have "ue_uid e \<noteq> ue_uid e'" if "s = subject"
      using e that new [of s' e'] by (auto simp: m')
    moreover have "ue_uid e \<noteq> ue_uid e'" if "s' = subject"
      using e that new [of s e] by (auto simp: m')
    ultimately show ?thesis
      by blast
  qed
  moreover have "hm_inv (um_users m')" "\<forall>org. next_offset m' org \<le> um_stride m"
    using wf succ(3) by (simp_all add: uid_wf_def off, simp add: m')
  ultimately show ?thesis
    using wf unfolding uid_wf_def same by blast
qed (use wf in simp)

lemma find_other: "find (\<lambda>x. f x = a) (filter (\<lambda>x. f x \<noteq> b) xs) = (if a = b then None else find (\<lambda>x. f x = a) xs)"
  by (induction xs) auto

lemma uid_wf_gc:
  assumes wf: "uid_wf m"
  shows "uid_wf (gc_org org m)"
proof -
  have inv: "hm_inv (um_users m)"
    using wf by (simp add: uid_wf_def)
  have same: "range_fits (gc_org org m) = range_fits m" "um_stride (gc_org org m) = um_stride m"
    "uid_precursor (gc_org org m) = uid_precursor m" "gid_precursor (gc_org org m) = gid_precursor m"
    by (simp_all add: gc_org_def Let_def range_fits_def uid_precursor_def gid_precursor_def fun_eq_iff)
  have idx: "org_index (gc_org org m) org' = (if org' = org then None else org_index m org')" for org'
    by (simp add: org_index_def gc_org_def Let_def find_other)
  have off: "next_offset (gc_org org m) org' = (if org' = org then 0 else next_offset m org')" for org'
    by (simp add: next_offset_def gc_org_def Let_def)
  have users: "hm_get (um_users (gc_org org m)) s = Some e \<longleftrightarrow> hm_get (um_users m) s = Some e \<and> ue_org e \<noteq> org" for s e
    using inv by (auto simp: gc_org_def Let_def hm_get_retain split: option.splits)
  have orgs: "um_org_indices (gc_org org m) = filter (\<lambda>x. oi_org x \<noteq> org) (um_org_indices m)"
    by (simp add: gc_org_def Let_def)
  have "ue_subject e = s \<and> (\<exists>i k. org_index (gc_org org m) (ue_org e) = Some i \<and> k < next_offset (gc_org org m) (ue_org e) \<and>
      ue_uid e = uid_precursor m i + k \<and> ue_gid e = gid_precursor m i + k)" if "hm_get (um_users (gc_org org m)) s = Some e" for s e
    using uid_wf_entry [OF wf, of s e] that unfolding users idx off by simp
  moreover have "hm_inv (um_users (gc_org org m))"
    using inv by (simp add: gc_org_def Let_def)
  moreover have "distinct (map oi_org (um_org_indices (gc_org org m)))" "distinct (map oi_index (um_org_indices (gc_org org m)))"
    "\<forall>x \<in> set (um_org_indices (gc_org org m)). range_fits m (oi_index x)"
    using wf unfolding orgs by (simp_all add: uid_wf_def distinct_map_filter)
  moreover have "\<forall>org'. next_offset (gc_org org m) org' \<le> um_stride m"
    using wf by (simp add: off uid_wf_def)
  moreover have "ue_uid e \<noteq> ue_uid e'" if "hm_get (um_users (gc_org org m)) s = Some e"
      "hm_get (um_users (gc_org org m)) s' = Some e'" "s \<noteq> s'" "ue_org e = ue_org e'" for s e s' e'
    using wf that unfolding uid_wf_def users by blast
  ultimately show ?thesis
    unfolding uid_wf_def same by blast
qed

lemma uid_wf_reachable:
  assumes "uid_step\<^sup>*\<^sup>* uid_map_new m"
  shows "uid_wf m"
  using assms
proof (induction rule: rtranclp_induct)
  case base
  show ?case
    by (simp add: uid_wf_def uid_map_new_def next_offset_def)
next
  case (step m m')
  from step.hyps(2) step.IH show ?case
    by (cases rule: uid_step.cases) (auto intro: uid_wf_join uid_wf_assign uid_wf_gc)
qed

lemma uid_wf_range:
  assumes "uid_wf m" "hm_get (um_users m) s = Some e"
  shows "\<exists>i k. org_index m (ue_org e) = Some i \<and> k < unat (um_stride m) \<and>
    unat (ue_uid e) = unat (um_base_uid m) + unat i * unat (um_stride m) + k \<and>
    unat (ue_gid e) = unat (um_base_gid m) + unat i * unat (um_stride m) + k"
proof -
  obtain i k where ik: "org_index m (ue_org e) = Some i" "k < next_offset m (ue_org e)" "unat k < unat (um_stride m)"
      "unat (ue_uid e) = unat (um_base_uid m) + (unat i * unat (um_stride m) + unat k)"
      "unat (ue_gid e) = unat (um_base_gid m) + (unat i * unat (um_stride m) + unat k)"
    by (rule uid_wf_unat [OF assms], rule that)
  then show ?thesis
    by (auto simp: add.assoc)
qed

lemma get_by_uid_unique:
  assumes wf: "uid_wf m" and e: "hm_get (um_users m) s = Some e"
  shows "get_by_uid m (ue_uid e) = Some e"
proof -
  have inv: "hm_inv (um_users m)"
    using wf by (simp add: uid_wf_def)
  have "find (\<lambda>x. ue_uid x = ue_uid e) (hm_values (um_users m)) \<noteq> None"
    using hm_get_Some_value [OF e] by (auto simp: find_None_iff)
  then obtain x where x: "find (\<lambda>x. ue_uid x = ue_uid e) (hm_values (um_users m)) = Some x"
    by blast
  then have "x \<in> set (hm_values (um_users m))" "ue_uid x = ue_uid e"
    by (auto simp: find_Some_iff)
  then obtain s' where "hm_get (um_users m) s' = Some x"
    using hm_values_iff [OF inv] by blast
  with uid_wf_unique [OF wf e this] \<open>ue_uid x = ue_uid e\<close> e have "x = e"
    by (cases "s = s'") auto
  with x show ?thesis
    by (simp add: get_by_uid_def)
qed

lemma uid_step_keeps:
  assumes wf: "uid_wf m" and e: "hm_get (um_users m) s = Some e" and "uid_step m m'"
  shows "hm_get (um_users m') s = Some e \<or> m' = gc_org (ue_org e) m \<and> hm_get (um_users m') s = None"
  using assms(3)
proof cases
  case (assign subject username org home shell r)
  then show ?thesis
    using e by (auto simp: assign_uid_def Let_def split: option.splits if_splits)
next
  case (gc org)
  have "hm_inv (um_users m)"
    using wf by (simp add: uid_wf_def)
  with gc e show ?thesis
    by (auto simp: gc_org_def Let_def hm_get_retain)
qed (simp add: join_org_def e)


definition sample_uids :: UidMap where
  "sample_uids = fst (assign_uid ''bob@x'' ''bob'' ''x'' ''/bob'' ''/bin/sh''
     (fst (assign_uid ''amy@x'' ''amy'' ''x'' ''/amy'' ''/bin/sh'' (join_org ''x'' 0 uid_map_new))))"

lemma sample_uids_reachable: "uid_step\<^sup>*\<^sup>* uid_map_new sample_uids"
proof -
  have "uid_step uid_map_new (join_org ''x'' 0 uid_map_new)"
    by (rule uid_step.join) (simp_all add: uid_map_new_def org_index_def range_fits_def)
  then have 1: "uid_step\<^sup>*\<^sup>* uid_map_new (join_org ''x'' 0 uid_map_new)"
    by (rule r_into_rtranclp)
  have step: "uid_step\<^sup>*\<^sup>* uid_map_new (fst (assign_uid a b c d f m))" if "uid_step\<^sup>*\<^sup>* uid_map_new m" for a b c d f m
    using that uid_step.assign [of a b c d f m "fst (assign_uid a b c d f m)" "snd (assign_uid a b c d f m)"]
    by (simp add: rtranclp.rtrancl_into_rtrancl)
  show ?thesis
    unfolding sample_uids_def by (rule step [OF step [OF 1]])
qed


subsection \<open>The NSS module resolves what the table holds\<close>

text \<open>
  What is relied on: a successful call has its effect and nothing else; a failed write leaves every
  other file as it was; changing directories and modes changes no contents; and the JSON library
  reads the fields it has printed.
\<close>

definition files_ok :: "OsFiles \<Rightarrow> bool" where
  "files_ok os \<longleftrightarrow> (\<forall>p fs. fst (os_create_dir os p fs) = fs) \<and> (\<forall>p fs. fst (os_chmod os p fs) = fs) \<and>
     (\<forall>p d fs. (snd (os_write os p d fs) = None \<longrightarrow> fst (os_write os p d fs) = fs(p \<mapsto> d)) \<and>
        (\<forall>q. q \<noteq> p \<longrightarrow> fst (os_write os p d fs) q = fs q)) \<and>
     (\<forall>a b fs. fst (os_rename os a b fs) =
        (if snd (os_rename os a b fs) = None then fs(b := fs a, a := None) else fs))"

definition as_passwd :: "UidEntry \<Rightarrow> PasswdEntry" where
  "as_passwd e = \<lparr>pe_subject = ue_subject e, pe_uid = ue_uid e, pe_gid = ue_gid e, pe_username = ue_username e,
     pe_home = ue_home e, pe_shell = ue_shell e, pe_org = ue_org e\<rparr>"

definition serde_ok :: "UidJson \<Rightarrow> bool" where
  "serde_ok js \<longleftrightarrow> (\<forall>us t. uj_users js us = Inr t \<longrightarrow> from_utf8 t = Some t \<and> uj_passwd_of js t = Some (map as_passwd us))"

text \<open>A file is replaced as a whole or not at all.\<close>

lemma write_atomic_whole:
  assumes ok: "files_ok os" and w: "write_atomic os p d fs = (fs', r)" and tmp: "with_extension p ''tmp'' \<noteq> p"
  shows "(r = None \<longrightarrow> fs' p = Some d) \<and> (r \<noteq> None \<longrightarrow> fs' p = fs p) \<and>
    (\<forall>q. q \<noteq> p \<and> q \<noteq> with_extension p ''tmp'' \<longrightarrow> fs' q = fs q)"
proof -
  define t where "t = with_extension p ''tmp''"
  obtain fs1 r1 where 1: "os_write os t d fs = (fs1, r1)"
    by fastforce
  have w1: "r1 = None \<Longrightarrow> fs1 = fs(t \<mapsto> d)" "\<And>q. q \<noteq> t \<Longrightarrow> fs1 q = fs q"
    using ok 1 unfolding files_ok_def by (metis fst_conv snd_conv)+
  obtain r2 where 2: "os_chmod os t fs1 = (fs1, r2)"
    using ok unfolding files_ok_def by (metis prod.collapse)
  obtain fs3 r3 where 3: "os_rename os t p fs1 = (fs3, r3)"
    by fastforce
  have w3: "fs3 = (if r3 = None then fs1(p := fs1 t, t := None) else fs1)"
    using ok 3 unfolding files_ok_def by (metis fst_conv snd_conv)
  show ?thesis
    using w 1 2 3 w1 w3 tmp unfolding write_atomic_def t_def [symmetric]
    by (cases r1; cases r2) (auto simp: Let_def)
qed

lemma db_paths [simp]:
  "path_join ''/run/pact'' ''passwd.db'' = PASSWD_DB_PATH" "path_join ''/run/pact'' ''group.db'' = GROUP_DB_PATH"
  "with_extension PASSWD_DB_PATH ''tmp'' = ''/run/pact/passwd.tmp''"
  "with_extension GROUP_DB_PATH ''tmp'' = ''/run/pact/group.tmp''"
  "''/run/pact/passwd.tmp'' \<noteq> PASSWD_DB_PATH" "''/run/pact/group.tmp'' \<noteq> GROUP_DB_PATH"
  "PASSWD_DB_PATH \<noteq> ''/run/pact/passwd.tmp''" "GROUP_DB_PATH \<noteq> ''/run/pact/group.tmp''"
  "PASSWD_DB_PATH \<noteq> ''/run/pact/group.tmp''" "PASSWD_DB_PATH \<noteq> GROUP_DB_PATH"
  by (simp_all add: path_join_def PASSWD_DB_PATH_def GROUP_DB_PATH_def with_extension_def)

lemma write_db_files_passwd:
  assumes ok: "files_ok os" and "im_base_dir mgr = ''/run/pact''" "im_active mgr"
    and w: "write_db_files os js mgr fs = (fs', r)"
  shows "fs' PASSWD_DB_PATH = fs PASSWD_DB_PATH \<and> r \<noteq> None \<or>
    (\<exists>t. uj_users js (hm_values (um_users (im_uid_map mgr))) = Inr t \<and> fs' PASSWD_DB_PATH = Some t)"
proof -
  define r0 where "r0 = snd (os_create_dir os ''/run/pact'' fs)"
  have 0: "os_create_dir os ''/run/pact'' fs = (fs, r0)"
    using ok by (simp add: files_ok_def r0_def prod_eq_iff)
  define u where "u = uj_users js (hm_values (um_users (im_uid_map mgr)))"
  define g where "g = uj_groups js (hm_values (um_groups (im_uid_map mgr)))"
  obtain fs1 r1 where 1: "write_db os PASSWD_DB_PATH u fs = (fs1, r1)"
    by fastforce
  obtain fs2 r2 where 2: "write_db os GROUP_DB_PATH g fs1 = (fs2, r2)"
    by fastforce
  have eq: "(fs', r) = (if r0 \<noteq> None then (fs, r0) else if r1 \<noteq> None then (fs1, r1) else (fs2, r2))"
    using w 0 1 2 assms(2,3) unfolding write_db_files_def u_def [symmetric] g_def [symmetric]
    by (cases r0; cases r1) auto
  have u1: "r1 \<noteq> None \<and> fs1 PASSWD_DB_PATH = fs PASSWD_DB_PATH \<or> r1 = None \<and> (\<exists>t. u = Inr t \<and> fs1 PASSWD_DB_PATH = Some t)"
  proof (cases u)
    case (Inr t)
    with 1 have "write_atomic os PASSWD_DB_PATH t fs = (fs1, r1)"
      by (simp add: write_db_def)
    from write_atomic_whole [OF ok this] Inr show ?thesis
      by (cases r1) simp_all
  qed (use 1 in \<open>auto simp: write_db_def\<close>)
  have g1: "fs2 PASSWD_DB_PATH = fs1 PASSWD_DB_PATH"
  proof (cases g)
    case (Inr t)
    with 2 have "write_atomic os GROUP_DB_PATH t fs1 = (fs2, r2)"
      by (simp add: write_db_def)
    from write_atomic_whole [OF ok this] show ?thesis
      by simp
  qed (use 2 in \<open>simp add: write_db_def\<close>)
  show ?thesis
    using eq u1 g1 unfolding u_def [symmetric] by (cases r0; cases r1) auto
qed

text \<open>
  C35. An update of the table and the processes of a node. A process that has not used the NSS module
  before sees, whatever failed while the files were written, the table the files held before or the
  new one, never a part; and when they have been written, looking up the identifier of a subject
  gives the entry of that subject. A process that has used it before keeps the table it saw then,
  whatever is written: it is not told of the update (the module's documentation says it is).
\<close>

theorem nss_resolves:
  assumes "uid_step\<^sup>*\<^sup>* uid_map_new m" and "files_ok os" and "serde_ok js"
    and "im_base_dir mgr = ''/run/pact''" and "im_active mgr"
    and "hm_get (um_users m) s = Some e"
  shows "snd (get_passwd_entries js (snd (update_map os js m mgr fs)) None) \<in>
      {snd (get_passwd_entries js fs None), map as_passwd (hm_values (um_users m))} \<and>
    (\<forall>es. snd (get_passwd_entries js (snd (update_map os js m mgr fs)) (Some es)) = es \<and>
       snd (passwd_by_uid js (snd (update_map os js m mgr fs)) (ue_uid e) (Some es)) =
         map_option to_passwd (find (\<lambda>x. pe_uid x = ue_uid e) es)) \<and>
    (snd (write_db_files os js (mgr\<lparr>im_uid_map := m\<rparr>) fs) = None \<longrightarrow>
       snd (passwd_by_uid js (snd (update_map os js m mgr fs)) (ue_uid e) None) =
         Some \<lparr>pw_name = ue_username e, pw_passwd = ''x'', pw_uid = ue_uid e, pw_gid = ue_gid e, pw_gecos = s,
           pw_dir = ue_home e, pw_shell = ue_shell e\<rparr>)"
proof -
  define mgr' where "mgr' = mgr\<lparr>im_uid_map := m\<rparr>"
  obtain fs' r where w: "write_db_files os js mgr' fs = (fs', r)"
    by fastforce
  have up: "snd (update_map os js m mgr fs) = fs'"
    using w assms(5) by (simp add: update_map_def mgr'_def)
  have load: "load_passwd js fs' = load_passwd js fs \<and> r \<noteq> None \<or> load_passwd js fs' = map as_passwd (hm_values (um_users m))"
    using write_db_files_passwd [OF assms(2) _ _ w] assms(3-5)
    by (auto simp: mgr'_def load_passwd_def load_db_def serde_ok_def)
  have wf: "uid_wf m"
    by (rule uid_wf_reachable) fact
  have "find (\<lambda>x. pe_uid x = ue_uid e) (map as_passwd us) = map_option as_passwd (find (\<lambda>x. ue_uid x = ue_uid e) us)" for us
    by (induction us) (simp_all add: as_passwd_def)
  note this [of "hm_values (um_users m)", folded get_by_uid_def]
  then have "r = None \<Longrightarrow> snd (passwd_by_uid js fs' (ue_uid e) None) = Some (to_passwd (as_passwd e))"
    using load get_by_uid_unique [OF wf assms(6)] by (auto simp: passwd_by_uid_def get_passwd_entries_def Let_def)
  moreover have "ue_subject e = s"
    using uid_wf_entry [OF wf assms(6)] by blast
  ultimately show ?thesis
    using load w unfolding up mgr'_def [symmetric]
    by (auto simp: to_passwd_def as_passwd_def get_passwd_entries_def passwd_by_uid_def Let_def)
qed

definition sample_os :: OsFiles where
  "sample_os = \<lparr>os_create_dir = (\<lambda>p fs. (fs, None)), os_write = (\<lambda>p d fs. (fs(p \<mapsto> d), None)),
     os_chmod = (\<lambda>p fs. (fs, None)), os_rename = (\<lambda>a b fs. (fs(b := fs a, a := None), None))\<rparr>"

text \<open>A JSON library that prints one table only.\<close>

definition sample_json :: UidJson where
  "sample_json = \<lparr>uj_users = (\<lambda>us. if us = hm_values (um_users sample_uids) then Inr ''[]'' else Inl ''error''),
     uj_groups = (\<lambda>gs. Inr ''[]''), uj_passwd_of = (\<lambda>t. Some (map as_passwd (hm_values (um_users sample_uids)))),
     uj_group_of = (\<lambda>t. Some [])\<rparr>"

theorem nss_resolves_witness:
  "\<exists>e. hm_get (um_users sample_uids) ''bob@x'' = Some e \<and>
     map_option pw_gecos (snd (passwd_by_uid sample_json (snd (update_map sample_os sample_json sample_uids
       (identity_new ''/run/pact'' True) Map.empty)) (ue_uid e) None)) = Some ''bob@x''"
proof -
  have "hm_get (um_users sample_uids) ''bob@x'' \<noteq> None"
    by code_simp
  then obtain e where e: "hm_get (um_users sample_uids) ''bob@x'' = Some e"
    by blast
  have os: "files_ok sample_os"
    by (simp add: files_ok_def sample_os_def)
  have "from_utf8 ''[]'' = Some ''[]''"
    by code_simp
  then have js: "serde_ok sample_json"
    by (simp add: serde_ok_def sample_json_def)
  have "snd (write_db_files sample_os sample_json ((identity_new ''/run/pact'' True)\<lparr>im_uid_map := sample_uids\<rparr>) Map.empty) = None"
    by (simp add: write_db_files_def identity_new_def sample_os_def sample_json_def write_db_def write_atomic_def)
  with nss_resolves [OF sample_uids_reachable os js _ _ e, of "identity_new ''/run/pact'' True" Map.empty] e show ?thesis
    by (auto simp: identity_new_def)
qed

subsection \<open>Where the code does not do what it says\<close>

text \<open>
  When an organisation leaves, its users stay members of the groups: they are looked for among the
  users that remain.
\<close>

lemma gc_keeps_group_members: "um_groups (gc_org org m) = um_groups m"
proof -
  have "\<not> list_ex (\<lambda>u. ue_username u = mem \<and> ue_org u = org) (hm_values (hm_retain (\<lambda>_ e. ue_org e \<noteq> org) (um_users m)))" for mem
    by (auto simp: list_ex_iff hm_values_def hm_retain_def)
  then show ?thesis
    by (simp add: gc_org_def Let_def hm_map_def case_prod_unfold)
qed

text \<open>
  Beyond the ranges that fit into 32 bits the arithmetic wraps: with the default configuration the
  7297th user of the organisation with the index 429495 is the superuser.
\<close>

lemma wrapped_uid_is_root: "uid_precursor uid_map_new 429495 + 7296 = 0" "7296 < um_stride uid_map_new"
  by (simp_all add: uid_precursor_def uid_map_new_def)

text \<open>A process that has asked once never sees an update again.\<close>

lemma nss_never_reloads:
  "snd (passwd_by_uid js fs' uid (fst (passwd_by_uid js fs uid0 cache))) = snd (passwd_by_uid js fs uid cache)"
  by (simp add: passwd_by_uid_def get_passwd_entries_def Let_def)

text \<open>Two subjects may have the same user name, of which a look-up by name finds one.\<close>

lemma usernames_not_unique:
  "\<exists>m s s' e e'. uid_step\<^sup>*\<^sup>* uid_map_new m \<and> hm_get (um_users m) s = Some e \<and> hm_get (um_users m) s' = Some e' \<and>
     s \<noteq> s' \<and> ue_username e = ue_username e'"
proof -
  define m where "m = fst (assign_uid ''bob@y'' ''bob'' ''x'' ''/bob'' ''/bin/sh'' sample_uids)"
  have "uid_step sample_uids m"
    unfolding m_def by (rule uid_step.assign [of _ _ _ _ _ _ _ "snd (assign_uid ''bob@y'' ''bob'' ''x'' ''/bob'' ''/bin/sh'' sample_uids)"]) simp
  then have "uid_step\<^sup>*\<^sup>* uid_map_new m"
    using sample_uids_reachable by (rule rtranclp.rtrancl_into_rtrancl [rotated])
  moreover have "map_option ue_username (hm_get (um_users m) ''bob@x'') = Some ''bob''"
    "map_option ue_username (hm_get (um_users m) ''bob@y'') = Some ''bob''"
    unfolding m_def by code_simp+
  moreover have "''bob@x'' \<noteq> ''bob@y''"
    by simp
  ultimately show ?thesis
    by fastforce
qed

end
