(* ===== verification/Node_System.thy ===== *)
theory Node_System
  imports Supervisor Rust_Parse Whitelist
begin

text \<open>
  What the agent does to the operating system of its node: cgroups
  (\<open>crates/pact-agent/src/isolation\<close>), network interfaces (\<open>network\<close>), the duties of an init
  process (\<open>boot/init.rs\<close>) and the hardware watchdog (\<open>boot/watchdog.rs\<close>). The kernel is a parameter:
  a state with the calls made on it. The names and owners of slices belong to the crate
  hpc-node and are parameters too.
\<close>

text \<open>The operator \<open>?\<close> on results without a value.\<close>

definition and_then :: "'s \<times> 'e option \<Rightarrow> ('s \<Rightarrow> 's \<times> 'e option) \<Rightarrow> 's \<times> 'e option" where
  "and_then r f = (case r of (s, Some e) \<Rightarrow> (s, Some e) | (s, None) \<Rightarrow> f s)"

fun each_ok :: "('a \<Rightarrow> 's \<Rightarrow> 's \<times> 'e option) \<Rightarrow> 'a list \<Rightarrow> 's \<Rightarrow> 's \<times> 'e option" where
  "each_ok f [] s = (s, None)"
| "each_ok f (x # xs) s = and_then (f x s) (each_ok f xs)"

subsection \<open>Control groups\<close>

record 's CgroupFs =
  cf_exists :: "'s \<Rightarrow> string \<Rightarrow> bool"
  cf_create_dir_all :: "string \<Rightarrow> 's \<Rightarrow> 's \<times> string option"
  cf_write :: "string \<Rightarrow> string \<Rightarrow> 's \<Rightarrow> 's \<times> string option"
  cf_read :: "'s \<Rightarrow> string \<Rightarrow> string + string"
  cf_remove_dir :: "string \<Rightarrow> 's \<Rightarrow> 's \<times> string option"
  cf_kill :: "int \<Rightarrow> 's \<Rightarrow> 's"

datatype 'o CgroupError =
    CreationFailed string | PermissionDenied string 'o | KillFailed string string | CgNotFound string | CgIo string

record 'o HpcSlices =
  hs_pact_slices :: "string list"
  hs_workload_root :: string
  hs_slice_owner :: "string \<Rightarrow> 'o option"
  hs_pact :: 'o

record CgroupLimits = ResourceLimits +
  rl_io_max :: "nat option"

record CgroupMetrics =
  cm_memory_current :: nat
  cm_memory_max :: "nat option"
  cm_cpu_usage_usec :: nat
  cm_nr_processes :: u32

definition full_path :: "string \<Rightarrow> string \<Rightarrow> string" where
  "full_path base p = path_join base p"

definition ensure_dir :: "'s CgroupFs \<Rightarrow> string \<Rightarrow> 's \<Rightarrow> 's \<times> 'o CgroupError option" where
  "ensure_dir fs path s =
     (if cf_exists fs s path then (s, None)
      else apsnd (map_option (\<lambda>e. CreationFailed (''mkdir '' @ path @ '': '' @ e))) (cf_create_dir_all fs path s))"

definition write_control :: "'s CgroupFs \<Rightarrow> string \<Rightarrow> string \<Rightarrow> string \<Rightarrow> 's \<Rightarrow> 's \<times> 'o CgroupError option" where
  "write_control fs path file text s =
     apsnd (map_option (\<lambda>e. CreationFailed (''write '' @ path_join path file @ '': '' @ e))) (cf_write fs (path_join path file) text s)"

definition enable_controllers :: "'s CgroupFs \<Rightarrow> string \<Rightarrow> 's \<Rightarrow> 's \<times> 'o CgroupError option" where
  "enable_controllers fs path s =
     (let control_file = path_join path ''cgroup.subtree_control'' in
      if cf_exists fs s control_file then
        apsnd (map_option (\<lambda>e. CreationFailed (''enable controllers at '' @ control_file @ '': '' @ e)))
          (cf_write fs control_file ''+memory +cpu +io +pids'' s)
      else (s, None))"

definition make_slice :: "'s CgroupFs \<Rightarrow> string \<Rightarrow> string \<Rightarrow> 's \<Rightarrow> 's \<times> 'o CgroupError option" where
  "make_slice fs base sl s =
     and_then (ensure_dir fs (full_path base sl) s) (enable_controllers fs (full_path base sl))"

definition create_hierarchy :: "'s CgroupFs \<Rightarrow> 'o HpcSlices \<Rightarrow> string \<Rightarrow> 's \<Rightarrow> 's \<times> 'o CgroupError option" where
  "create_hierarchy fs hs base s =
     and_then (enable_controllers fs base s) (\<lambda>s1.
       and_then (each_ok (make_slice fs base) (hs_pact_slices hs) s1) (make_slice fs base (hs_workload_root hs)))"

definition limit :: "'s CgroupFs \<Rightarrow> string \<Rightarrow> string \<Rightarrow> string option \<Rightarrow> 's \<Rightarrow> 's \<times> 'o CgroupError option" where
  "limit fs full file v s = (case v of None \<Rightarrow> (s, None) | Some x \<Rightarrow> write_control fs full file x s)"

definition scope_path :: "string \<Rightarrow> string \<Rightarrow> string" where
  "scope_path parent name = parent @ ''/'' @ name @ ''.scope''"

text \<open>A slice that has another owner is refused; a slice without an owner is not.\<close>

definition slice_denied :: "'o HpcSlices \<Rightarrow> string \<Rightarrow> 'o option" where
  "slice_denied hs parent = (case hs_slice_owner hs parent of
     Some owner \<Rightarrow> if owner \<noteq> hs_pact hs then Some owner else None | None \<Rightarrow> None)"

definition create_scope ::
  "'s CgroupFs \<Rightarrow> 'o HpcSlices \<Rightarrow> string \<Rightarrow> string \<Rightarrow> string \<Rightarrow> CgroupLimits \<Rightarrow> 's \<Rightarrow> 's \<times> ('o CgroupError + string)" where
  "create_scope fs hs base parent name limits s = (case slice_denied hs parent of
     Some owner \<Rightarrow> (s, Inl (PermissionDenied parent owner))
   | None \<Rightarrow>
          (let full = full_path base (scope_path parent name) in
           case and_then (ensure_dir fs full s) (\<lambda>s1.
             and_then (limit fs full ''memory.max'' (map_option (show_nat \<circ> unat) (rl_memory_max limits)) s1) (\<lambda>s2.
               and_then (limit fs full ''cpu.weight'' (map_option (show_nat \<circ> unat) (rl_cpu_weight limits)) s2)
                 (limit fs full ''io.max'' (map_option (\<lambda>n. ''default rbps='' @ show_nat n) (rl_io_max limits))))) of
             (s', Some e) \<Rightarrow> (s', Inl e)
           | (s', None) \<Rightarrow> (s', Inr (scope_path parent name))))"

definition kill_processes_fallback :: "'s CgroupFs \<Rightarrow> string \<Rightarrow> 's \<Rightarrow> 's \<times> 'o CgroupError option" where
  "kill_processes_fallback fs path s = (case cf_read fs s (path_join path ''cgroup.procs'') of
     Inl e \<Rightarrow> (s, Some (CgIo e))
   | Inr content \<Rightarrow> (fold (cf_kill fs) (List.map_filter (\<lambda>l. parse_signed 32 (trim l)) (lines content)) s, None))"

definition destroy_scope :: "'s CgroupFs \<Rightarrow> string \<Rightarrow> string \<Rightarrow> 's \<Rightarrow> 's \<times> 'o CgroupError option" where
  "destroy_scope fs base handle s =
     (let full = full_path base handle; kill_file = path_join full ''cgroup.kill'' in
      if \<not> cf_exists fs s full then (s, None)
      else and_then
        (if cf_exists fs s kill_file then
           (case cf_write fs kill_file ''1'' s of
              (s1, None) \<Rightarrow> (s1, None) | (s1, Some _) \<Rightarrow> kill_processes_fallback fs full s1)
         else kill_processes_fallback fs full s)
        (\<lambda>s2. apsnd (map_option (\<lambda>e. KillFailed handle (''rmdir failed after kill: '' @ e))) (cf_remove_dir fs full s2)))"

definition read_control :: "'s CgroupFs \<Rightarrow> string \<Rightarrow> string \<Rightarrow> 's \<Rightarrow> string option" where
  "read_control fs path file s = (case cf_read fs s (path_join path file) of Inl _ \<Rightarrow> None | Inr x \<Rightarrow> Some x)"

text \<open>The widths of the numbers are those of hpc-node: the parser is an argument.\<close>

definition read_metrics ::
  "'s CgroupFs \<Rightarrow> (string \<Rightarrow> nat option) \<Rightarrow> string \<Rightarrow> string \<Rightarrow> 's \<Rightarrow> 'o CgroupError + CgroupMetrics" where
  "read_metrics fs parse base path s =
     (let full = full_path base path in
      if \<not> cf_exists fs s full then Inl (CgNotFound path)
      else Inr \<lparr>
        cm_memory_current = (case Option.bind (read_control fs full ''memory.current'' s) (\<lambda>x. parse (trim x)) of
            Some n \<Rightarrow> n | None \<Rightarrow> 0),
        cm_memory_max = Option.bind (read_control fs full ''memory.max'' s)
          (\<lambda>x. if trim x = ''max'' then None else parse (trim x)),
        cm_cpu_usage_usec = (case Option.bind (Option.bind (read_control fs full ''cpu.stat'' s)
              (\<lambda>x. find (\<lambda>l. prefix ''usage_usec'' l) (lines x)))
            (\<lambda>l. case split_whitespace l of _ # v # _ \<Rightarrow> parse v | _ \<Rightarrow> None) of Some n \<Rightarrow> n | None \<Rightarrow> 0),
        cm_nr_processes = (case read_control fs full ''cgroup.procs'' s of None \<Rightarrow> 0
          | Some x \<Rightarrow> (let n = length (filter (\<lambda>l. l \<noteq> []) (lines x)) in if n < 2 ^ 32 then of_nat n else - 1))\<rparr>)"

definition is_scope_empty :: "'s CgroupFs \<Rightarrow> string \<Rightarrow> string \<Rightarrow> 's \<Rightarrow> bool" where
  "is_scope_empty fs base handle s =
     (let full = full_path base handle in
      if \<not> cf_exists fs s full then True
      else trim (case read_control fs full ''cgroup.procs'' s of Some x \<Rightarrow> x | None \<Rightarrow> []) = [])"

definition protect_from_oom :: "'s CgroupFs \<Rightarrow> 's \<Rightarrow> 's \<times> string option" where
  "protect_from_oom fs = cf_write fs ''/proc/self/oom_score_adj'' ''-1000''"

subsection \<open>Network interfaces\<close>

record InterfaceConfig =
  ic_name :: string
  ic_address :: "string option"
  ic_gateway :: "string option"
  ic_mtu :: "u32 option"

record InterfaceState =
  is_name :: string
  is_up :: bool
  is_address :: "string option"
  is_mtu :: "u32 option"

text \<open>Running \<open>ip\<close>: the error of the call, or the result of the command with its two outputs.\<close>

type_synonym 's ip_runner = "string list \<Rightarrow> 's \<Rightarrow> 's \<times> (string + bool \<times> string \<times> string)"

definition ip_cmd :: "'s ip_runner \<Rightarrow> string list \<Rightarrow> 's \<Rightarrow> 's \<times> (string + string)" where
  "ip_cmd ip args s = (case ip args s of
     (s', Inl e) \<Rightarrow> (s', Inl e)
   | (s', Inr (success, stdout, stderr)) \<Rightarrow>
       (s', if success then Inr (from_utf8_lossy stdout)
            else Inl (''ip '' @ join_with '' '' args @ '' failed: '' @ trim (from_utf8_lossy stderr))))"

text \<open>The texts of errors are only logged.\<close>

definition ip_ok :: "'s ip_runner \<Rightarrow> string list \<Rightarrow> 's \<Rightarrow> 's \<times> bool" where
  "ip_ok ip args s = (case ip_cmd ip args s of (s', r) \<Rightarrow> (s', \<not> isl r))"

definition link_up :: "'s ip_runner \<Rightarrow> string \<Rightarrow> 's \<Rightarrow> 's \<times> bool" where
  "link_up ip name = ip_ok ip [''link'', ''set'', name, ''up'']"

definition set_mtu :: "'s ip_runner \<Rightarrow> string \<Rightarrow> u32 \<Rightarrow> 's \<Rightarrow> 's \<times> bool" where
  "set_mtu ip name mtu = ip_ok ip [''link'', ''set'', name, ''mtu'', show_nat (unat mtu)]"

definition add_address :: "'s ip_runner \<Rightarrow> string \<Rightarrow> string \<Rightarrow> 's \<Rightarrow> 's \<times> bool" where
  "add_address ip name address s =
     (let s1 = fst (ip_ok ip [''addr'', ''flush'', ''dev'', name] s) in ip_ok ip [''addr'', ''add'', address, ''dev'', name] s1)"

definition add_default_route :: "'s ip_runner \<Rightarrow> string \<Rightarrow> 's \<Rightarrow> 's \<times> bool" where
  "add_default_route ip gateway = ip_ok ip [''route'', ''replace'', ''default'', ''via'', gateway]"

definition when_some :: "'a option \<Rightarrow> ('a \<Rightarrow> 's \<Rightarrow> 's \<times> bool) \<Rightarrow> 's \<Rightarrow> 's \<times> bool" where
  "when_some x f s = (case x of None \<Rightarrow> (s, True) | Some a \<Rightarrow> f a s)"

definition configure_one :: "'s ip_runner \<Rightarrow> InterfaceConfig \<Rightarrow> 's \<Rightarrow> 's \<times> InterfaceState" where
  "configure_one ip c s = (case when_some (ic_mtu c) (set_mtu ip (ic_name c)) s of
     (s1, False) \<Rightarrow> (s1, \<lparr>is_name = ic_name c, is_up = False, is_address = None, is_mtu = None\<rparr>)
   | (s1, True) \<Rightarrow> (case when_some (ic_address c) (add_address ip (ic_name c)) s1 of
       (s2, False) \<Rightarrow> (s2, \<lparr>is_name = ic_name c, is_up = False, is_address = None, is_mtu = ic_mtu c\<rparr>)
     | (s2, True) \<Rightarrow> (case link_up ip (ic_name c) s2 of
         (s3, up) \<Rightarrow>
           (if up then fst (when_some (ic_gateway c) (add_default_route ip) s3) else s3,
            \<lparr>is_name = ic_name c, is_up = up, is_address = ic_address c, is_mtu = ic_mtu c\<rparr>))))"

fun configure :: "'s ip_runner \<Rightarrow> InterfaceConfig list \<Rightarrow> 's \<Rightarrow> 's \<times> InterfaceState list" where
  "configure ip [] s = (s, [])"
| "configure ip (c # cs) s = (case configure_one ip c s of
     (s1, st) \<Rightarrow> (case configure ip cs s1 of (s2, sts) \<Rightarrow> (s2, st # sts)))"

subsection \<open>Init\<close>

record PseudoMount =
  pm_source :: string
  pm_target :: string
  pm_fstype :: string
  pm_data :: string

definition pseudo :: "string \<Rightarrow> string \<Rightarrow> string \<Rightarrow> string \<Rightarrow> PseudoMount" where
  "pseudo src target fstype data = \<lparr>pm_source = src, pm_target = target, pm_fstype = fstype, pm_data = data\<rparr>"

text \<open>All mounts are made with the flag \<open>MS_NOSUID\<close>.\<close>

definition PSEUDO_MOUNTS :: "PseudoMount list" where
  "PSEUDO_MOUNTS = [
     pseudo ''proc'' ''/proc'' ''proc'' [],
     pseudo ''sysfs'' ''/sys'' ''sysfs'' [],
     pseudo ''devtmpfs'' ''/dev'' ''devtmpfs'' ''mode=0755'',
     pseudo ''devpts'' ''/dev/pts'' ''devpts'' ''mode=0620,gid=5'',
     pseudo ''tmpfs'' ''/dev/shm'' ''tmpfs'' ''mode=1777'',
     pseudo ''tmpfs'' ''/run'' ''tmpfs'' ''mode=0755'',
     pseudo ''tmpfs'' ''/tmp'' ''tmpfs'' ''mode=1777'']"

record 's InitOs =
  io_exists :: "'s \<Rightarrow> string \<Rightarrow> bool"
  io_create_dir_all :: "string \<Rightarrow> 's \<Rightarrow> 's \<times> string option"
  io_mount :: "PseudoMount \<Rightarrow> 's \<Rightarrow> 's \<times> string option"
  io_proc_mounts :: "'s \<Rightarrow> string option"

definition is_mountpoint :: "'s InitOs \<Rightarrow> 's \<Rightarrow> string \<Rightarrow> bool" where
  "is_mountpoint os s target =
     (if target = ''/proc'' then io_exists os s ''/proc/self''
      else case io_proc_mounts os s of
        Some mounts \<Rightarrow> list_ex (\<lambda>line. case split_whitespace line of _ # t # _ \<Rightarrow> t = target | _ \<Rightarrow> False) (lines mounts)
      | None \<Rightarrow> False)"

definition mount_one :: "'s InitOs \<Rightarrow> PseudoMount \<Rightarrow> 's \<Rightarrow> 's \<times> string option" where
  "mount_one os pm s =
     and_then (if io_exists os s (pm_target pm) then (s, None)
               else apsnd (map_option (\<lambda>e. ''failed to create mount target '' @ pm_target pm @ '': '' @ e))
                 (io_create_dir_all os (pm_target pm) s))
       (\<lambda>s1. if is_mountpoint os s1 (pm_target pm) then (s1, None)
         else apsnd (map_option (\<lambda>e. ''failed to mount '' @ pm_fstype pm @ '' on '' @ pm_target pm @ '': '' @ e))
           (io_mount os pm s1))"

definition mount_pseudofs :: "'s InitOs \<Rightarrow> 's \<Rightarrow> 's \<times> string option" where
  "mount_pseudofs os = each_ok (mount_one os) PSEUDO_MOUNTS"

text \<open>
  One round of the reaper: children are collected until one is still alive, there is none left or
  the call fails; the answers of \<open>waitpid\<close> are a list.
\<close>

datatype wait_answer = WStillAlive | WReaped int | WNoChild | WError

fun reap :: "wait_answer list \<Rightarrow> int list" where
  "reap (WReaped pid # ws) = pid # reap ws"
| "reap _ = []"

subsection \<open>Watchdog\<close>

record WatchdogHandle =
  wd_timeout_secs :: u32

text \<open>
  What opening the device answers: that it does not exist, an error of opening it (with whether the
  device was busy), an error of reading its timeout, or the timeout, a signed number.
\<close>

datatype watchdog_device = WdMissing | WdOpenFailed bool string | WdIoctlFailed string | WdTimeout u32

definition watchdog_open :: "watchdog_device \<Rightarrow> string + WatchdogHandle option" where
  "watchdog_open dev = (case dev of
     WdMissing \<Rightarrow> Inr None
   | WdOpenFailed busy e \<Rightarrow> Inl (if busy
       then ''watchdog device busy '' @ em_dash @ '' another process holds /dev/watchdog''
       else ''failed to open /dev/watchdog: '' @ e)
   | WdIoctlFailed e \<Rightarrow> Inl (''WDIOC_GETTIMEOUT ioctl failed: '' @ e)
   | WdTimeout t \<Rightarrow> Inr (Some \<lparr>wd_timeout_secs = (if sint t < 1 then 1 else t)\<rparr>))"

definition boot_petter_seconds :: "WatchdogHandle \<Rightarrow> u32" where
  "boot_petter_seconds h = max (wd_timeout_secs h div 2) 1"

subsection \<open>The watchdog is fed once per round\<close>

fun slept_ms :: "sup_effect list \<Rightarrow> nat" where
  "slept_ms [] = 0"
| "slept_ms (EffSleepSeconds n # es) = 1000 * n + slept_ms es"
| "slept_ms (EffSleepMillis n # es) = n + slept_ms es"
| "slept_ms (_ # es) = slept_ms es"

definition restart_delay :: "ServiceDecl list \<Rightarrow> string \<times> int option \<Rightarrow> nat" where
  "restart_delay decls c = (case find_decl decls (fst c) of
     Some d \<Rightarrow> if should_restart (sd_restart d) (snd c) then unat (sd_restart_delay_seconds d) else 0
   | None \<Rightarrow> 0)"

lemma slept_append [simp]: "slept_ms (xs @ ys) = slept_ms xs + slept_ms ys"
  by (induction xs rule: slept_ms.induct) simp_all

lemma do_restart_awake: "slept_ms (fst (snd (do_restart env d sv))) = 0 \<and> EffPet \<notin> set (fst (snd (do_restart env d sv)))"
  by (auto simp: do_restart_def Let_def scope_effect_def split: option.splits sum.splits if_splits)

lemma handle_crash_slept:
  "slept_ms (snd (handle_crash env node d code sv)) =
     (if should_restart (sd_restart d) code then 1000 * unat (sd_restart_delay_seconds d) else 0) \<and>
   EffPet \<notin> set (snd (handle_crash env node d code sv))"
  using do_restart_awake [of env d sv]
  by (auto simp: handle_crash_def Let_def delay_effect_def word_less_nat_alt split: prod.splits)

lemma handle_crashes_slept:
  "slept_ms (snd (handle_crashes env node decls cs sv)) = 1000 * sum_list (map (restart_delay decls) cs) \<and>
   EffPet \<notin> set (snd (handle_crashes env node decls cs sv))"
proof (induction cs arbitrary: sv)
  case (Cons c cs)
  obtain name code where c: "c = (name, code)"
    by fastforce
  show ?case
  proof (cases "find_decl decls name")
    case (Some d)
    obtain sv1 es where h: "handle_crash env node d code sv = (sv1, es)"
      by fastforce
    obtain sv2 es' where r: "handle_crashes env node decls cs sv1 = (sv2, es')"
      by fastforce
    show ?thesis
      using Cons.IH [of sv1] handle_crash_slept [of env node d code sv] by (auto simp: c Some h r restart_delay_def)
  qed (use Cons.IH in \<open>simp add: c restart_delay_def\<close>)
qed simp

lemma tick_shape:
  assumes "detect_crashed_services env sv = (sv1, crashed)"
  shows "snd (supervision_tick env node w active sv) = (if w then [EffPet] else []) @
    snd (handle_crashes env node (pv_service_decls sv) crashed sv1) @
    [EffSleepMillis (unat (if active then sc_active_interval_ms (pv_supervision_config sv)
       else sc_idle_interval_ms (pv_supervision_config sv)))]"
proof -
  have "pv_service_decls sv1 = pv_service_decls sv"
    using assms by (auto simp: detect_crashed_services_def)
  then show ?thesis
    by (simp add: supervision_tick_def Let_def assms split: prod.split)
qed

text \<open>
  A round of the supervision loop feeds the watchdog once, at its start, and then sleeps for the
  interval of the loop and for the restart delay of every crashed service it restarts. This
  is the time between two feedings: it is bounded by the intervals only in rounds without
  restarts.
\<close>

theorem watchdog_gap_exact:
  "(\<exists>es. snd (supervision_tick env node True active sv) = EffPet # es \<and> EffPet \<notin> set es) \<and>
   slept_ms (snd (supervision_tick env node True active sv)) =
     unat (if active then sc_active_interval_ms (pv_supervision_config sv) else sc_idle_interval_ms (pv_supervision_config sv)) +
     1000 * sum_list (map (restart_delay (pv_service_decls sv)) (snd (detect_crashed_services env sv)))"
proof -
  obtain sv1 crashed where d: "detect_crashed_services env sv = (sv1, crashed)"
    by fastforce
  show ?thesis
    using handle_crashes_slept [of env node "pv_service_decls sv" crashed sv1] unfolding tick_shape [OF d] by (simp add: d)
qed

text \<open>
  With the default intervals and no crash the watchdog is fed in half its timeout when that is
  four seconds or more. While the agent boots it is fed in half the timeout, unless
  that is one second.
\<close>

lemma watchdog_fed_without_crashes:
  assumes "pv_supervision_config sv = default_supervision_config" "snd (detect_crashed_services env sv) = []"
    and "4 \<le> unat (wd_timeout_secs h)"
  shows "2 * slept_ms (snd (supervision_tick env node True active sv)) \<le> 1000 * unat (wd_timeout_secs h)"
proof -
  obtain sv1 where d: "detect_crashed_services env sv = (sv1, [])"
    using assms(2) by (metis prod.collapse)
  show ?thesis
    using assms(1,3) unfolding tick_shape [OF d] by (simp add: default_supervision_config_def)
qed

lemma boot_petter_in_time: "2 \<le> unat (wd_timeout_secs h) \<Longrightarrow> 2 * unat (boot_petter_seconds h) \<le> unat (wd_timeout_secs h)"
  by (auto simp: boot_petter_seconds_def max_def word_le_nat_alt unat_div)

lemma boot_petter_late: "boot_petter_seconds \<lparr>wd_timeout_secs = 1\<rparr> = 1"
  by (simp add: boot_petter_seconds_def)

text \<open>A service with a restart delay as long as the timeout has the node rebooted when it crashes.\<close>

lemma restart_starves_watchdog:
  assumes "(name, code) \<in> set (snd (detect_crashed_services env sv))" "find_decl (pv_service_decls sv) name = Some d"
    and "should_restart (sd_restart d) code" "unat (wd_timeout_secs h) \<le> unat (sd_restart_delay_seconds d)"
  shows "1000 * unat (wd_timeout_secs h) \<le> slept_ms (snd (supervision_tick env node True active sv))"
proof -
  obtain sv1 crashed where d: "detect_crashed_services env sv = (sv1, crashed)"
    by fastforce
  have "restart_delay (pv_service_decls sv) (name, code) \<le> sum_list (map (restart_delay (pv_service_decls sv)) crashed)"
    using assms(1) d by (intro member_le_sum_list) auto
  then have "unat (sd_restart_delay_seconds d) \<le> sum_list (map (restart_delay (pv_service_decls sv)) crashed)"
    using assms(2,3) by (simp add: restart_delay_def)
  with assms(4) show ?thesis
    using handle_crashes_slept [of env node "pv_service_decls sv" crashed sv1] unfolding tick_shape [OF d] by simp
qed

subsection \<open>Mounts of the init process\<close>

text \<open>
  What is relied on: the kernel shows a process directory exactly when \<open>/proc\<close> is mounted, lists the
  mounted targets in \<open>/proc/mounts\<close> then, and a mount succeeds as a whole or changes nothing;
  \<open>history\<close> is the list of the targets mounted so far.
\<close>

definition second_field :: "string \<Rightarrow> string option" where
  "second_field line = (case split_whitespace line of _ # t # _ \<Rightarrow> Some t | _ \<Rightarrow> None)"

definition kernel_ok :: "'s InitOs \<Rightarrow> ('s \<Rightarrow> string list) \<Rightarrow> bool" where
  "kernel_ok os history \<longleftrightarrow>
     (\<forall>s. io_exists os s ''/proc/self'' \<longleftrightarrow> ''/proc'' \<in> set (history s)) \<and>
     (\<forall>s. ''/proc'' \<in> set (history s) \<longrightarrow> (\<exists>tab. io_proc_mounts os s = Some tab \<and>
        (\<forall>t. (\<exists>line \<in> set (lines tab). second_field line = Some t) \<longleftrightarrow> t \<in> set (history s)))) \<and>
     (\<forall>p s. history (fst (io_create_dir_all os p s)) = history s) \<and>
     (\<forall>pm s. history (fst (io_mount os pm s)) =
        (if snd (io_mount os pm s) = None then history s @ [pm_target pm] else history s))"

lemma is_mountpoint_iff:
  assumes "kernel_ok os history" "t = ''/proc'' \<or> ''/proc'' \<in> set (history s)"
  shows "is_mountpoint os s t \<longleftrightarrow> t \<in> set (history s)"
proof (cases "t = ''/proc''")
  case True
  with assms(1) show ?thesis
    by (simp add: is_mountpoint_def kernel_ok_def)
next
  case False
  with assms(2) have "''/proc'' \<in> set (history s)"
    by simp
  moreover have "\<forall>s. ''/proc'' \<in> set (history s) \<longrightarrow> (\<exists>tab. io_proc_mounts os s = Some tab \<and>
      (\<forall>t. (\<exists>line \<in> set (lines tab). second_field line = Some t) \<longleftrightarrow> t \<in> set (history s)))"
    using assms(1) unfolding kernel_ok_def by (elim conjE)
  ultimately obtain tab where tab: "io_proc_mounts os s = Some tab"
      "\<forall>t. (\<exists>line \<in> set (lines tab). second_field line = Some t) \<longleftrightarrow> t \<in> set (history s)"
    by (elim allE [of _ s] impE exE conjE)
  have "(case split_whitespace line of _ # u # _ \<Rightarrow> u = t | _ \<Rightarrow> False) \<longleftrightarrow> second_field line = Some t" for line
    by (simp add: second_field_def split: list.split)
  with tab False show ?thesis
    by (simp add: is_mountpoint_def list_ex_iff)
qed

lemma mount_one_history:
  assumes ok: "kernel_ok os history" and proc: "pm_target pm = ''/proc'' \<or> ''/proc'' \<in> set (history s)"
    and run: "mount_one os pm s = (s', r)"
  shows "history s' = (if r = None \<and> pm_target pm \<notin> set (history s) then history s @ [pm_target pm] else history s)"
proof -
  obtain s1 r1 where dir: "io_create_dir_all os (pm_target pm) s = (s1, r1)"
    by fastforce
  then have same: "history s1 = history s"
    using ok unfolding kernel_ok_def by (metis fst_conv)
  have mount: "history s'' = (if q = None \<and> pm_target pm \<notin> set (history x) then history x @ [pm_target pm] else history x)"
    if hx: "history x = history s"
      and m: "(if is_mountpoint os x (pm_target pm) then (x, None)
           else apsnd (map_option (\<lambda>e. ''failed to mount '' @ pm_fstype pm @ '' on '' @ pm_target pm @ '': '' @ e))
             (io_mount os pm x)) = (s'', q)" for x s'' q
  proof -
    obtain y z where y: "io_mount os pm x = (y, z)"
      by fastforce
    then have "history y = (if z = None then history x @ [pm_target pm] else history x)"
      using ok unfolding kernel_ok_def by (metis fst_conv snd_conv)
    moreover have "is_mountpoint os x (pm_target pm) \<longleftrightarrow> pm_target pm \<in> set (history x)"
      using is_mountpoint_iff [OF ok] proc hx by simp
    ultimately show ?thesis
      using m y by (auto split: if_splits)
  qed
  show ?thesis
  proof (cases "io_exists os s (pm_target pm)")
    case True
    with run mount [of s s' r] show ?thesis
      by (simp add: mount_one_def and_then_def)
  next
    case False
    with run dir mount [of s1 s' r] same show ?thesis
      by (cases r1) (auto simp: mount_one_def and_then_def)
  qed
qed

lemma each_mount_history:
  assumes ok: "kernel_ok os history"
  shows "''/proc'' \<in> set (history s) \<Longrightarrow> distinct (map pm_target pms) \<Longrightarrow> each_ok (mount_one os) pms s = (s', r) \<Longrightarrow>
    \<exists>k. history s' = history s @ take k (filter (\<lambda>t. t \<notin> set (history s)) (map pm_target pms)) \<and>
      (r = None \<longrightarrow> length pms \<le> k)"
proof (induction pms arbitrary: s)
  case (Cons pm pms)
  obtain s1 r1 where one: "mount_one os pm s = (s1, r1)"
    by fastforce
  have h: "history s1 = (if r1 = None \<and> pm_target pm \<notin> set (history s) then history s @ [pm_target pm] else history s)"
    using mount_one_history [OF ok _ one] Cons.prems(1) by blast
  show ?case
  proof (cases r1)
    case None
    have "''/proc'' \<in> set (history s1)" "distinct (map pm_target pms)" "each_ok (mount_one os) pms s1 = (s', r)"
      using Cons.prems one None h by (auto simp: and_then_def)
    from Cons.IH [OF this] obtain k where
      k: "history s' = history s1 @ take k (filter (\<lambda>t. t \<notin> set (history s1)) (map pm_target pms))" "r = None \<longrightarrow> length pms \<le> k"
      by blast
    have fresh: "filter (\<lambda>t. t \<notin> set (history s1)) (map pm_target pms) = filter (\<lambda>t. t \<notin> set (history s)) (map pm_target pms)"
      using h Cons.prems(2) by (auto intro!: filter_cong)
    show ?thesis
    proof (cases "pm_target pm \<in> set (history s)")
      case True
      have "take (Suc k) xs = take k xs" if "r = None" "length xs \<le> length pms" for xs :: "string list"
        using k(2) that by simp
      with k fresh h True None show ?thesis
        by (intro exI [of _ "if r = None then Suc k else k"]) auto
    next
      case False
      with k fresh h None show ?thesis
        by (intro exI [of _ "Suc k"]) auto
    qed
  next
    case (Some e)
    with Cons.prems(3) one h show ?thesis
      by (intro exI [of _ 0]) (auto simp: and_then_def)
  qed
qed auto

lemma pseudo_targets:
  "map pm_target PSEUDO_MOUNTS = [''/proc'', ''/sys'', ''/dev'', ''/dev/pts'', ''/dev/shm'', ''/run'', ''/tmp'']"
  by (simp add: PSEUDO_MOUNTS_def pseudo_def)

text \<open>
  Whatever was mounted before and whichever call fails, the init process mounts the missing
  file systems of its list in order, none of them twice, and stops at the first
  failure; it reports success only when all of them are mounted.
\<close>

theorem pseudofs_mounted_once:
  assumes "kernel_ok os history" and "mount_pseudofs os s = (s', r)"
  shows "\<exists>k. history s' = history s @ take k (filter (\<lambda>t. t \<notin> set (history s)) (map pm_target PSEUDO_MOUNTS)) \<and>
    (r = None \<longrightarrow> set (map pm_target PSEUDO_MOUNTS) \<subseteq> set (history s'))"
proof -
  obtain pm pms where list: "PSEUDO_MOUNTS = pm # pms" "pm_target pm = ''/proc''"
    by (simp add: PSEUDO_MOUNTS_def pseudo_def)
  have dist: "distinct (map pm_target (pm # pms))"
    using pseudo_targets by (simp add: list(1))
  obtain s1 r1 where one: "mount_one os pm s = (s1, r1)"
    by fastforce
  have h: "history s1 = (if r1 = None \<and> pm_target pm \<notin> set (history s) then history s @ [pm_target pm] else history s)"
    using mount_one_history [OF assms(1) _ one] list(2) by blast
  show ?thesis
  proof (cases r1)
    case None
    have "''/proc'' \<in> set (history s1)"
      using h None list(2) by auto
    moreover have "each_ok (mount_one os) pms s1 = (s', r)"
      using assms(2) one None unfolding mount_pseudofs_def list(1) by (simp add: and_then_def)
    ultimately have run: "''/proc'' \<in> set (history s1)" "each_ok (mount_one os) pms s1 = (s', r)"
      by blast+
    from each_mount_history [OF assms(1) run(1) _ run(2)] dist obtain k where
      k: "history s' = history s1 @ take k (filter (\<lambda>t. t \<notin> set (history s1)) (map pm_target pms))" "r = None \<longrightarrow> length pms \<le> k"
      by auto
    have fresh: "filter (\<lambda>t. t \<notin> set (history s1)) (map pm_target pms) = filter (\<lambda>t. t \<notin> set (history s)) (map pm_target pms)"
      using h dist by (auto intro!: filter_cong)
    have "set (map pm_target (pm # pms)) \<subseteq> set (history s')" if "r = None"
    proof -
      have "take k (filter (\<lambda>t. t \<notin> set (history s1)) (map pm_target pms)) = filter (\<lambda>t. t \<notin> set (history s1)) (map pm_target pms)"
        using k(2) that by (intro take_all order.trans [OF length_filter_le]) simp
      with k(1) h None show ?thesis
        by (auto split: if_splits)
    qed
    moreover have "\<exists>k. history s' = history s @ take k (filter (\<lambda>t. t \<notin> set (history s)) (map pm_target (pm # pms)))"
      using k(1) h None fresh by (intro exI [of _ "if pm_target pm \<in> set (history s) then k else Suc k"]) auto
    ultimately show ?thesis
      unfolding list(1) by blast
  next
    case (Some e)
    then have "s' = s1" "r \<noteq> None"
      using assms(2) one unfolding mount_pseudofs_def list(1) by (auto simp: and_then_def)
    with Some h show ?thesis
      by (intro exI [of _ 0]) auto
  qed
qed

text \<open>A kernel that mounts the file systems in their order only; its state is their number.\<close>

definition sample_history :: "nat \<Rightarrow> string list" where
  "sample_history n = take n (map pm_target PSEUDO_MOUNTS)"

definition sample_kernel :: "nat InitOs" where
  "sample_kernel = \<lparr>io_exists = (\<lambda>n p. p = ''/proc/self'' \<and> 0 < n), io_create_dir_all = (\<lambda>p n. (n, None)),
     io_mount = (\<lambda>pm n. if n < 7 \<and> pm_target pm = map pm_target PSEUDO_MOUNTS ! n then (Suc n, None) else (n, Some ''error'')),
     io_proc_mounts = (\<lambda>n. Some (concat (map (\<lambda>t. ''none '' @ t @ [newline]) (sample_history n))))\<rparr>"

lemma lines_append_newline: "newline \<notin> set l \<Longrightarrow> lines (l @ newline # s) = strip_cr l # lines s"
  by (cases "split_on newline s") (simp_all add: lines_def split_on_append_sep)

lemma sample_kernel_ok: "kernel_ok sample_kernel sample_history"
proof -
  have len: "length (map pm_target PSEUDO_MOUNTS) = 7"
    by (simp add: PSEUDO_MOUNTS_def)
  have "list_all (\<lambda>t. newline \<notin> set (''none '' @ t) \<and> second_field (strip_cr (''none '' @ t)) = Some t) (map pm_target PSEUDO_MOUNTS)"
    by code_simp
  then have target: "newline \<notin> set (''none '' @ t) \<and> second_field (strip_cr (''none '' @ t)) = Some t"
      if "t \<in> set (map pm_target PSEUDO_MOUNTS)" for t
    using that unfolding list_all_iff by (rule bspec)
  have "set ts \<subseteq> set (map pm_target PSEUDO_MOUNTS) \<Longrightarrow>
      map second_field (lines (concat (map (\<lambda>t. ''none '' @ t @ [newline]) ts))) = map Some ts" for ts
  proof (induction ts)
    case (Cons t ts)
    then have "lines ((''none '' @ t) @ newline # concat (map (\<lambda>t. ''none '' @ t @ [newline]) ts)) =
        strip_cr (''none '' @ t) # lines (concat (map (\<lambda>t. ''none '' @ t @ [newline]) ts))"
      using target [of t] by (intro lines_append_newline) auto
    with Cons target [of t] show ?case
      by auto
  qed (simp add: lines_def)
  from this [OF set_take_subset] have table:
    "map second_field (lines (concat (map (\<lambda>t. ''none '' @ t @ [newline]) (sample_history n)))) = map Some (sample_history n)" for n
    by (simp add: sample_history_def)
  have proc: "''/proc'' \<in> set (sample_history n) \<longleftrightarrow> 0 < n" for n
    unfolding sample_history_def pseudo_targets by (cases n) auto
  have step: "sample_history (Suc n) = sample_history n @ [map pm_target PSEUDO_MOUNTS ! n]" if "n < 7" for n
    unfolding sample_history_def using that len by (intro take_Suc_conv_app_nth) simp
  have "(\<exists>line \<in> set ls. second_field line = Some t) \<longleftrightarrow> Some t \<in> set (map second_field ls)" for ls t
    by force
  from this [of "lines (concat (map (\<lambda>t. ''none '' @ t @ [newline]) (sample_history n)))" for n, unfolded table]
  have listed: "(\<exists>line \<in> set (lines (concat (map (\<lambda>t. ''none '' @ t @ [newline]) (sample_history n)))). second_field line = Some t) \<longleftrightarrow>
      t \<in> set (sample_history n)" for n t
    by auto
  show ?thesis
    unfolding kernel_ok_def
  proof (intro conjI allI impI)
    fix n
    show "\<exists>tab. io_proc_mounts sample_kernel n = Some tab \<and>
        (\<forall>t. (\<exists>line \<in> set (lines tab). second_field line = Some t) \<longleftrightarrow> t \<in> set (sample_history n))"
      using listed [of n] by (simp add: sample_kernel_def)
  qed (simp_all add: sample_kernel_def proc step)
qed

theorem pseudofs_mounted_once_witness:
  "\<exists>s'. mount_pseudofs sample_kernel 1 = (s', None) \<and> ''/tmp'' \<in> set (sample_history s')"
proof -
  have mp: "is_mountpoint sample_kernel (Suc n) t \<longleftrightarrow> t \<in> set (sample_history (Suc n))" for n t
    using is_mountpoint_iff [OF sample_kernel_ok, of t "Suc n"] by (simp add: sample_history_def pseudo_targets)
  have old: "mount_one sample_kernel pm (Suc n) = (Suc n, None)" if "pm_target pm \<in> set (sample_history (Suc n))" for pm n
    using that mp [of n "pm_target pm"] by (simp add: mount_one_def and_then_def) (simp add: sample_kernel_def)
  have new: "mount_one sample_kernel pm (Suc n) = (Suc (Suc n), None)"
    if "pm_target pm \<notin> set (sample_history (Suc n))" "Suc n < 7" "pm_target pm = map pm_target PSEUDO_MOUNTS ! Suc n" for pm n
    using that mp [of n "pm_target pm"] by (simp add: mount_one_def and_then_def) (simp add: sample_kernel_def)
  have run: "mount_pseudofs sample_kernel (Suc 0) = (7, None)"
    unfolding mount_pseudofs_def
    by (simp add: PSEUDO_MOUNTS_def pseudo_def and_then_def old new sample_history_def)
  from pseudofs_mounted_once [OF sample_kernel_ok run] run show ?thesis
    by (auto simp: pseudo_targets)
qed

subsection \<open>Interfaces and scopes\<close>

text \<open>
  When a command of \<open>ip\<close> succeeds or fails whatever was run before it, the report of every
  interface is exact: it is up if and only if the commands for its MTU, its address and the link
  have succeeded. A default route that could not be set is not reported.
\<close>

definition answers :: "'s ip_runner \<Rightarrow> (string list \<Rightarrow> bool) \<Rightarrow> bool" where
  "answers ip ok \<longleftrightarrow> (\<forall>args s. ok args \<longleftrightarrow> (\<exists>stdout stderr. snd (ip args s) = Inr (True, stdout, stderr)))"

definition comes_up :: "(string list \<Rightarrow> bool) \<Rightarrow> InterfaceConfig \<Rightarrow> bool" where
  "comes_up ok c \<longleftrightarrow>
     (\<forall>mtu. ic_mtu c = Some mtu \<longrightarrow> ok [''link'', ''set'', ic_name c, ''mtu'', show_nat (unat mtu)]) \<and>
     (\<forall>a. ic_address c = Some a \<longrightarrow> ok [''addr'', ''add'', a, ''dev'', ic_name c]) \<and>
     ok [''link'', ''set'', ic_name c, ''up'']"

lemma ip_ok_answer:
  assumes "answers ip ok"
  shows "snd (ip_ok ip args s) = ok args"
proof -
  obtain s' r where r: "ip args s = (s', r)"
    by fastforce
  have "ok args \<longleftrightarrow> (\<exists>stdout stderr. r = Inr (True, stdout, stderr))"
    using assms r unfolding answers_def by (metis snd_conv)
  then show ?thesis
    by (cases r) (auto simp: ip_ok_def ip_cmd_def r split: prod.split)
qed

lemma configure_one_report:
  assumes "answers ip ok"
  shows "is_name (snd (configure_one ip c s)) = ic_name c \<and> is_up (snd (configure_one ip c s)) = comes_up ok c"
proof -
  note ans = ip_ok_answer [OF assms]
  obtain s1 b1 where 1: "when_some (ic_mtu c) (set_mtu ip (ic_name c)) s = (s1, b1)"
    by fastforce
  obtain s2 b2 where 2: "when_some (ic_address c) (add_address ip (ic_name c)) s1 = (s2, b2)"
    by fastforce
  obtain s3 b3 where 3: "link_up ip (ic_name c) s2 = (s3, b3)"
    by fastforce
  have b1: "b1 \<longleftrightarrow> (\<forall>mtu. ic_mtu c = Some mtu \<longrightarrow> ok [''link'', ''set'', ic_name c, ''mtu'', show_nat (unat mtu)])"
    using 1 ans by (cases "ic_mtu c") (auto simp: when_some_def set_mtu_def dest!: arg_cong [of _ _ snd])
  have b2: "b2 \<longleftrightarrow> (\<forall>a. ic_address c = Some a \<longrightarrow> ok [''addr'', ''add'', a, ''dev'', ic_name c])"
    using 2 ans by (cases "ic_address c") (auto simp: when_some_def add_address_def Let_def dest!: arg_cong [of _ _ snd])
  have b3: "b3 \<longleftrightarrow> ok [''link'', ''set'', ic_name c, ''up'']"
    using 3 ans by (auto simp: link_up_def dest!: arg_cong [of _ _ snd])
  have "is_name (snd (configure_one ip c s)) = ic_name c \<and> is_up (snd (configure_one ip c s)) = (b1 \<and> b2 \<and> b3)"
    unfolding configure_one_def 1 by (cases b1; cases b2) (simp_all add: 2 3)
  then show ?thesis
    unfolding b1 b2 b3 comes_up_def .
qed

lemma configure_reports:
  assumes "answers ip ok"
  shows "map (\<lambda>st. (is_name st, is_up st)) (snd (configure ip cs s)) = map (\<lambda>c. (ic_name c, comes_up ok c)) cs"
proof (induction cs arbitrary: s)
  case (Cons c cs)
  obtain s1 st where one: "configure_one ip c s = (s1, st)"
    by fastforce
  then show ?case
    using configure_one_report [OF assms, of c s] Cons.IH [of s1] by (auto split: prod.split)
qed simp

text \<open>Nothing is done in a slice that has another owner.\<close>

lemma create_scope_confined:
  assumes "create_scope fs hs base parent name limits s = (s', r)" "s' \<noteq> s \<or> (\<exists>h. r = Inr h)"
  shows "hs_slice_owner hs parent \<in> {None, Some (hs_pact hs)}"
  using assms by (auto simp: create_scope_def slice_denied_def split: option.splits if_splits)

text \<open>
  A scope whose limits cannot be written is left behind: the directory has been made, the call
  fails and the caller has no handle to destroy it.
\<close>

lemma failed_limit_leaks_scope:
  assumes "slice_denied hs parent = None" "\<not> cf_exists fs s full" "cf_create_dir_all fs full s = (s1, None)"
    and "rl_memory_max limits = Some mem" "cf_write fs (path_join full ''memory.max'') (show_nat (unat mem)) s1 = (s1, Some e)"
    and "full = full_path base (scope_path parent name)"
  shows "fst (create_scope fs hs base parent name limits s) = s1 \<and> isl (snd (create_scope fs hs base parent name limits s))"
  using assms by (simp add: create_scope_def Let_def and_then_def ensure_dir_def limit_def write_control_def)

text \<open>Destroying a scope that does not exist, or is destroyed already, succeeds and changes nothing.\<close>

lemma destroy_scope_gone: "\<not> cf_exists fs s (full_path base h) \<Longrightarrow> destroy_scope fs base h s = (s, None)"
  by (simp add: destroy_scope_def Let_def)

lemma and_then_None: "and_then r f = (s', None) \<Longrightarrow> \<exists>s2. f s2 = (s', None)"
  by (auto simp: and_then_def split: prod.splits option.splits)

lemma destroy_scope_removes:
  assumes "\<And>p s s'. cf_remove_dir fs p s = (s', None) \<Longrightarrow> \<not> cf_exists fs s' p"
    and "destroy_scope fs base h s = (s', None :: 'o CgroupError option)"
  shows "\<not> cf_exists fs s' (full_path base h) \<and> is_scope_empty fs base h s' \<and> destroy_scope fs base h s' = (s', None)"
proof -
  have "\<not> cf_exists fs s' (full_path base h)"
  proof (cases "cf_exists fs s (full_path base h)")
    case True
    with assms(2) obtain s2 where "apsnd (map_option (\<lambda>e. KillFailed h (''rmdir failed after kill: '' @ e)))
        (cf_remove_dir fs (full_path base h) s2) = (s', None :: 'o CgroupError option)"
      unfolding destroy_scope_def Let_def by (auto dest!: and_then_None)
    then have "cf_remove_dir fs (full_path base h) s2 = (s', None)"
      by (cases "cf_remove_dir fs (full_path base h) s2") simp
    then show ?thesis
      by (rule assms(1))
  qed (use assms(2) in \<open>auto simp: destroy_scope_def Let_def\<close>)
  then show ?thesis
    by (simp add: is_scope_empty_def Let_def destroy_scope_gone)
qed

end
