(* ===== verification/Spec2Isabelle.thy ===== *)
theory Spec2Isabelle
  imports Journal_Properties Policy_Service Config_Service Enrollment_Service Heartbeat
    Boot_Service Conflict Emergency Shell_Server Agent_Boot Rate_Limiter Node_Identity Handoff
    Capability Cli_Main Mcp_Server Uid_Map Node_System
begin

text \<open>
  \<^bold>\<open>A verification library for pact.\<close>

  pact configures and operates the nodes of a cluster. A journal keeps an append-only log of
  configuration entries, the policies and overlays of the vClusters (groups of nodes), the
  enrollment of the nodes, pending approvals and an audit log; it is replicated with Raft, and
  every change is a command applied by one deterministic state machine. gRPC services read that
  state and write commands to it. An agent on each node fetches its configuration at boot and
  applies it, follows later changes, supervises services, measures drift, opens a commit window
  for changes made by hand, runs commands and shells for authenticated users, pauses keys that
  are in conflict with the journal, and knows an emergency mode.

  \<^bold>\<open>Parts and theories.\<close>

  \<^item> \<open>Pact_Prelude\<close>: machine integers, time, string functions of the Rust library, the containers
    \<open>HashMap\<close> and \<open>BTreeMap\<close>, the locale \<open>kv_store\<close> with its interpretations for both, and the
    locale \<open>state_machine\<close> (a step function, an invariant it keeps, and what follows for runs).
    \<open>Rust_Strings\<close>: characters of UTF-8 text, trimming, splitting and lines. \<open>Rust_Numbers\<close>:
    parsing and printing of integers. \<open>F64\<close>: the arithmetic of \<open>f64\<close> as exact rationals rounded to
    53 significant bits, ties to even, and its conversions to integers.
  \<^item> \<open>Pact_Types\<close>: the domain types of \<open>crates/pact-common/src/types.rs\<close>.
  \<^item> \<open>Journal_State\<close>: \<open>JournalState\<close> and one definition per command of \<open>apply\<close> in
    \<open>crates/pact-journal/src/raft/state.rs\<close>, composed by \<open>apply_command\<close>. \<open>Journal_Invariants\<close>:
    runs of commands and the invariants of the log, the enrollments, the assignments, the
    overlays and the approvals. \<open>Journal_Queries\<close>: conflict detection and homogeneity.
    \<open>Journal_Properties\<close>: the log is contiguous, append-only and its parent relation well
    founded (C1 to C3); replicas agree up to last-seen times (C4); rejected commands change
    nothing (C5); hardware is unique, revocation lasts, assignments agree (C6 to C8); approvals
    need two persons and are final (C9, C10).
  \<^item> \<open>Rbac\<close>: \<open>RbacEngine::evaluate\<close> of \<open>crates/pact-policy/src/rbac/mod.rs\<close>, equal to a
    declarative role model, with the two-person rule for regulated roles alone (C14).
  \<^item> \<open>Approval_Store\<close>: the contract of anything that grants approvals, as a locale; interpreted by
    the policy engine and by the journal's RPC. \<open>Policy_Engine\<close>: \<open>DefaultPolicyEngine\<close> of
    \<open>crates/pact-policy/src/rules\<close>, with the approval workflow
    (\<open>engine_two_person_workflow\<close>).
  \<^item> \<open>Grpc_Types\<close>: the messages of \<open>proto/pact\<close>. \<open>Raft_Client\<close>: what the services rely on when
    they write through Raft, as the locale \<open>raft_client\<close>; interpreted by a write applied among the
    commands of other clients and by a write that fails.
  \<^item> \<open>Policy_Service\<close>, \<open>Config_Service\<close>, \<open>Enrollment_Service\<close>, \<open>Boot_Service\<close>, \<open>Heartbeat\<close>,
    \<open>Rate_Limiter\<close>: the services, the monitor and the token buckets of \<open>crates/pact-journal/src\<close>,
    one definition per RPC handler. Decisions are the RBAC decisions (\<open>svc_evaluate_sound\<close>) and are
    granted once (C21); what wire conversion loses is known exactly (C23); appends are exact
    (\<open>svc_append_entry_stores\<close>); the limiter admits at most its rate (C25); certificates follow
    accepted activations (C26); callers are confined to their role (C28, \<open>listing_confined\<close>); a tick
    expires exactly what is due (\<open>heartbeat_tick_exact\<close>); subscriptions are ordered
    (\<open>subscription_ordered\<close>). \<open>Journal_Auth\<close>: the interceptor before the services. \<open>Iam\<close>: the token
    validator of \<open>crates/pact-policy/src/iam\<close>, which agrees with the agent's but for the claim
    \<open>groups\<close> (C29).
  \<^item> \<open>Conflict\<close>, \<open>Emergency\<close>, \<open>Commit_Window\<close>, \<open>Drift\<close>: the managers of \<open>crates/pact-agent/src\<close>. Keys
    are paused exactly while in conflict and the journal wins after the grace period
    (\<open>conflict_pausing_exact\<close>, \<open>conflict_grace_exact\<close>); an emergency is held until ended
    (\<open>emergency_held_until_ended\<close>); more drift never lengthens the commit window (C13).
  \<^item> \<open>Whitelist\<close>, \<open>Shell_Auth\<close>, \<open>Exec_Command\<close>, \<open>Sessions\<close>, \<open>Shell_Server\<close>, \<open>Diag\<close>, \<open>Shell_Service\<close>:
    the directory \<open>shell\<close> of the agent. Command output is capped and timed out (C15); argument
    validation is characterised (\<open>validate_args_exact\<close>); tokens are accepted only after verification (C39); the exec
    pipeline runs exactly what all checks permit, and what it logs is known exactly (C40); a
    state-changing command opens a window (\<open>exec_opens_window\<close>); diagnostic queries and shell
    sessions are confined (\<open>diag_confined\<close>, C38).
  \<^item> \<open>Supervisor\<close>, \<open>Systemd\<close>: the two service managers of \<open>supervisor\<close>. Services are started in
    order up to the first that fails and stopped in reverse order (C12), and a tick of the supervision loop restarts exactly the crashed
    services that ask for it (C19).
  \<^item> \<open>Subscription\<close>: the client of the journal's update stream. \<open>Agent_Boot\<close>: boot sequence,
    application of deltas and the rollback timer. No entry is lost over
    dropped connections but one that a later entry overtakes (C11, from the locale \<open>update_feed\<close>,
    whose laws the journal's handler satisfies); reconnection is bounded (C17); the mounts of a
    delta are made as declared, but always writable (C16); expired windows are rolled back in
    time (C27); and a call for the boot configuration that the interceptor lets through receives
    what the journal holds (C32, across both processes); the calls of the agent as written carry
    no token and are refused (C31).
  \<^item> \<open>Node_Identity\<close>: enrollment, renewal of certificates and the client connections of the agent,
    against the handlers of \<open>Enrollment_Service\<close>. An enrolled agent holds the identity the journal
    activated, and the journal the serial number of its certificate if the write of it is
    accepted (C20); its certificate is never renewed (C36).
  \<^item> \<open>Handoff\<close>: the directory \<open>handoff\<close>; reference counts of mounts implement the number of holders
    (C24). \<open>Capability\<close>: the directory \<open>capability\<close>, the parsers of system files and the report they
    make up; reports are well formed (C33) and processor lists are read as they were printed
    (\<open>cpulist_roundtrip\<close>). \<open>Rust_Parse\<close>: UTF-8, replacement in strings and parsing of numbers these use.
  \<^item> \<open>Cli_Client\<close>, \<open>Cli_Journal\<close>, \<open>Cli_Node\<close>, \<open>Cli_Agent\<close>, \<open>Cli_Delegate\<close>, \<open>Cli_Lattice\<close>, \<open>Cli_Main\<close>:
    the command line tool, \<open>crates/pact-cli\<close>, its commands as functions of the calls they make,
    connected to the handlers of the journal and the agent. Applying a specification stores it
    (\<open>cli_apply_stores\<close>); a remote command is printed exactly when the agent ran it
    (\<open>remote_exec_exact\<close>); delegated commands and
    backups are audited (C30, \<open>backup_audited\<close>); an import accounts for every node
    (\<open>import_accounts_for_all\<close>); the ways the tool can end (C22); a requester can approve its own
    request (C34); the verdict on the health of the system (\<open>health_verdict_exact\<close>).
  \<^item> \<open>Mcp_Tools\<close>, \<open>Mcp_Server\<close>: the server for AI agents, \<open>crates/pact-mcp\<close>: messages, the definitions
    of the tools, their handlers and the loop over the input. What the server writes to the journal is
    confined, but includes ends of emergencies (C18), handles exactly the tools it lists (\<open>tools_listed_are_handled\<close>), and
    panics on one kind of request only (\<open>handler_panics\<close>).
  \<^item> \<open>Uid_Map\<close>: the table of POSIX users (\<open>UidMap\<close> in \<open>crates/pact-common/src/types.rs\<close>), the files the
    agent writes it to and the module \<open>crates/pact-nss\<close> that reads them. Identifiers are unique
    (C37), and readers see one table or the other (C35).
  \<^item> \<open>Node_System\<close>: the agent's work on the operating system: control groups (\<open>isolation\<close>), interfaces
    (\<open>network\<close>), mounts and watchdog (\<open>boot/init.rs\<close>, \<open>boot/watchdog.rs\<close>). Missing file systems are
    mounted once and in order (\<open>pseudofs_mounted_once\<close>); the time between two feedings of the
    watchdog is known exactly (\<open>watchdog_gap_exact\<close>); reports on interfaces are exact
    (\<open>configure_reports\<close>).

  \<^bold>\<open>Correspondence.\<close> A struct is a record whose fields carry a short prefix, an enum a datatype
  with the source's constructors; a method that changes its receiver returns the new one; a
  \<open>Result\<close> is a sum with the error on the left, and a panic is the value \<open>None\<close>. A handler is the
  whole method, with its guards in the order of the source. The clock, fresh identifiers and the
  iteration order of hash maps are explicit: the first two are arguments, the last is the order
  of the association list. Effects outside the process (signals, files, commands run, messages
  sent) are recorded as lists. Handlers that write several commands take one write function per
  command, so that commands of other clients may be applied between them. Log output is left
  out; a sequence number is a 64 bit word, and the properties of the log bound the length of runs
  by \<open>2 ^ 64\<close>, below which it does not wrap. All definitions are total. Loops that run for ever
  (the subscription, the supervision loop, the rollback timer) are functions of the finite list
  of events they have seen, or one tick; no fuel is used.

  \<^bold>\<open>Parameters.\<close> Code outside the repository appears as arguments: the Raft library (the locale
  above), time parsing and formatting of chrono, JSON, zstd and the overlay digest, the
  verification of signatures by jsonwebtoken, the HTTP fetch of keys, OPA, certificate signing,
  regular expressions, the terminal, key generation and TLS connections, the client library of the
  lattice scheduler, the node management and inventory services, the parsing of command line
  arguments and TOML, and the operating system (processes, files, tools, systemd).

  \<^bold>\<open>Not modelled.\<close> The observers of the kernel's event sources, the providers of workload identities
  and the buffer of audit events, of which the agent uses none but the providers, at boot, and only to log
  the outcome; federation of policies, of which the repository has only a stand-in; the console and
  the host name set by the init process; start-up and wiring of the processes; the certificate authority,
  which is calls of a cryptographic library; reading of configuration files; and the test crates.
  Lower-casing is that of ASCII letters (\<open>hw_canonical_key\<close>), and the claims of a token are the
  fields of a JSON object (\<open>Iam\<close>).

  \<^bold>\<open>What the development shows to be wrong or unexpected.\<close> A revoked node can return through a
  deactivation (\<open>revoked_node_can_return\<close>); a subscription from the start of an empty log
  misses the first entry (\<open>subscription_drops_first_entry\<close>); an update that cannot be decoded is
  lost (\<open>undecodable_update_lost\<close>); a boot stream cut short is accepted
  (\<open>truncated_stream_accepted\<close>); asking for the status of a crashed service prevents its restart
  (\<open>status_hides_crash\<close>); a new blacklist forgets the drift seen so far
  (\<open>blacklist_update_resets_drift\<close>); a process that leaves its output open holds up the exec call
  beyond its time limit (\<open>exec_open_stream_hangs\<close>); extending a window and reading a memory limit
  wrap (\<open>extend_wraps\<close>, \<open>parse_memory_wraps\<close>); a renewal that fails half way is refused for ever
  (\<open>renewal_desync\<close>); a revoked node can renew its certificate (\<open>revoked_node_renews\<close>); a late
  release after a forced unmount panics (\<open>stale_release_panics\<close>); the reports of an agent show no
  hardware but its GPUs (\<open>boot_report_blank\<close>); \<open>pact shell\<close> always panics (C22); the author of a
  request approves it with \<open>pact approve\<close> (C34); a reboot is carried out when its audit entry is
  refused (\<open>unaudited_reboot\<close>); an import counts known nodes as failures (\<open>import_misreports\<close>);
  the node named in a call of \<open>pact_exec\<close> is ignored (\<open>exec_node_ignored\<close>), as is the scope of
  \<open>pact_commit\<close> (\<open>commit_scope_ignored\<close>); users of a departed organisation stay in their groups
  (\<open>gc_keeps_group_members\<close>) and identifiers wrap (\<open>wrapped_uid_is_root\<close>); the NSS module never reads
  its files again (\<open>nss_never_reloads\<close>); a restart delay can starve the watchdog
  (\<open>restart_starves_watchdog\<close>); an update overtaken by a later one is not sent
  (\<open>overtaken_not_sent\<close>); ops roles escape the two-person rule (C14); a mount declared read-only is
  made writable (C16); an AI agent can end an emergency (C18); a certificate whose record fails is
  handed out all the same (\<open>failed_record_keeps_placeholder\<close>); a token whose groups are a string is
  good for the agent and not for the journal (\<open>string_groups_disagree\<close>); the shell of an idle session
  survives its end (C38); commands that time out are not logged (C40).
\<close>

end
